(* ===== verification/Prelude.thy ===== *)
theory Prelude imports Main "HOL-Library.Char_ord" "HOL-Library.List_Lexorder" begin

text \<open>
  What every component shares: the outcome of a Python call (a value or the exception it
  raises), the operations of a database table kept as the list of its rows in insertion
  order (select, update-where with its row count, insert under a unique constraint), and
  the named collections the component proofs use.  Instants and durations are integers in
  microseconds, the resolution of Python's datetime and timedelta, so that subtraction and
  comparison of aware datetimes are exact; calendar dates are proleptic day numbers.
\<close>

named_theorems row_simps \<open>selection, update and insertion of table rows\<close>
named_theorems res_elims \<open>inversion of operations that may raise\<close>

section \<open>Outcomes\<close>

datatype py_error =
    ValueError string
  | PermissionError string
  | ValidationError string
  | IntegrityError string
  | KeyError string
  | ZeroDivisionError
  | AssertionError
  | TimeoutError
  | OtherException string

text \<open>\<open>type(exc).__name__\<close>\<close>

fun error_name :: "py_error \<Rightarrow> string" where
  "error_name (ValueError _) = ''ValueError''"
| "error_name (PermissionError _) = ''PermissionError''"
| "error_name (ValidationError _) = ''ValidationError''"
| "error_name (IntegrityError _) = ''IntegrityError''"
| "error_name (KeyError _) = ''KeyError''"
| "error_name ZeroDivisionError = ''ZeroDivisionError''"
| "error_name AssertionError = ''AssertionError''"
| "error_name TimeoutError = ''TimeoutError''"
| "error_name (OtherException n) = n"

type_synonym 'a res = "py_error + 'a"

type_synonym timestamp = int
type_synonym timedelta = int
type_synonym date = int
type_synonym uuid = nat

definition hours :: "int \<Rightarrow> timedelta" where
  "hours n = n * 3600 * 1000000"

definition minutes :: "int \<Rightarrow> timedelta" where
  "minutes n = n * 60 * 1000000"

definition days :: "int \<Rightarrow> timedelta" where
  "days n = n * 24 * 3600 * 1000000"

text \<open>\<open>guard b e\<close> is the statement \<open>if b: raise e\<close>.\<close>

definition guard :: "bool \<Rightarrow> py_error \<Rightarrow> unit res" where
  "guard b e = (if b then Inl e else Inr ())"

definition bindr :: "'a res \<Rightarrow> ('a \<Rightarrow> 'b res) \<Rightarrow> 'b res" where
  "bindr r k = (case r of Inl e \<Rightarrow> Inl e | Inr x \<Rightarrow> k x)"

lemma bindr_simps [simp]:
  "bindr (Inl e) k = Inl e"
  "bindr (Inr x) k = k x"
  by (simp_all add: bindr_def)

lemma bindr_Inr_iff: "bindr r k = Inr y \<longleftrightarrow> (\<exists>x. r = Inr x \<and> k x = Inr y)"
  by (cases r) auto

lemma bindr_Inl_iff:
  "bindr r k = Inl e \<longleftrightarrow> r = Inl e \<or> (\<exists>x. r = Inr x \<and> k x = Inl e)"
  by (cases r) auto

lemma bindr_assoc: "bindr (bindr r f) g = bindr r (\<lambda>x. bindr (f x) g)"
  by (cases r) auto

lemma guard_simps [simp]:
  "guard b e = Inr u \<longleftrightarrow> \<not> b"
  "guard b e = Inl e' \<longleftrightarrow> b \<and> e' = e"
  "guard False e = Inr ()"
  "guard True e = Inl e"
  by (auto simp: guard_def)

lemma bindr_guard: "bindr (guard b e) k = (if b then Inl e else k ())"
  by (simp add: guard_def)

lemma res_not_Inl_iff: "(\<forall>e. r \<noteq> Inl e) \<longleftrightarrow> (\<exists>x. r = Inr x)"
  by (cases r) auto

section \<open>Running a step over a list, stopping at the first exception\<close>

fun foldr_res :: "('s \<Rightarrow> 'a \<Rightarrow> 's res) \<Rightarrow> 's \<Rightarrow> 'a list \<Rightarrow> 's res" where
  "foldr_res f s [] = Inr s"
| "foldr_res f s (x # xs) = bindr (f s x) (\<lambda>s'. foldr_res f s' xs)"

lemma foldr_res_invariant:
  assumes "\<And>s x s'. P s \<Longrightarrow> x \<in> set xs \<Longrightarrow> f s x = Inr s' \<Longrightarrow> P s'"
    and "P s" and "foldr_res f s xs = Inr t"
  shows "P t"
  using assms
proof (induction xs arbitrary: s)
  case Nil
  then show ?case by simp
next
  case (Cons x xs)
  from Cons.prems(3) obtain s' where s': "f s x = Inr s'" "foldr_res f s' xs = Inr t"
    by (auto simp: bindr_Inr_iff)
  from Cons.prems(1,2) s'(1) have "P s'" by auto
  then show ?case
    using Cons.IH [of s'] Cons.prems(1) s'(2) by (meson list.set_intros(2))
qed

fun map_res :: "('a \<Rightarrow> 'b res) \<Rightarrow> 'a list \<Rightarrow> 'b list res" where
  "map_res f [] = Inr []"
| "map_res f (x # xs) = bindr (f x) (\<lambda>y. bindr (map_res f xs) (\<lambda>ys. Inr (y # ys)))"

lemma map_res_Inr_iff:
  "map_res f xs = Inr ys \<longleftrightarrow> list_all2 (\<lambda>x y. f x = Inr y) xs ys"
proof (induction xs arbitrary: ys)
  case Nil
  then show ?case by auto
next
  case (Cons x xs)
  show ?case by (cases ys) (auto simp: bindr_Inr_iff Cons.IH)
qed

lemma map_res_in:
  assumes "map_res f xs = Inr ys" and "x \<in> set xs"
  shows "\<exists>y \<in> set ys. f x = Inr y"
  using assms by (auto simp: map_res_Inr_iff in_set_conv_nth list_all2_conv_all_nth)

section \<open>Tables\<close>

text \<open>\<open>select_one\<close> is a scalar select, \<open>update_where\<close> an UPDATE with its WHERE clause.\<close>

definition select_one :: "('r \<Rightarrow> bool) \<Rightarrow> 'r list \<Rightarrow> 'r option" where
  "select_one p rows = List.find p rows"

definition update_where :: "('r \<Rightarrow> bool) \<Rightarrow> ('r \<Rightarrow> 'r) \<Rightarrow> 'r list \<Rightarrow> 'r list" where
  "update_where p f rows = map (\<lambda>r. if p r then f r else r) rows"

definition rowcount :: "('r \<Rightarrow> bool) \<Rightarrow> 'r list \<Rightarrow> nat" where
  "rowcount p rows = length (filter p rows)"

text \<open>
  \<open>insert_row name key r rows\<close> adds a row to a table whose unique constraint \<open>name\<close> ranges
  over the columns \<open>key\<close>; the database refuses a second row with the same columns.
\<close>

definition insert_row :: "string \<Rightarrow> ('r \<Rightarrow> 'k) \<Rightarrow> 'r \<Rightarrow> 'r list \<Rightarrow> 'r list res" where
  "insert_row name key r rows =
     (if list_ex (\<lambda>r'. key r' = key r) rows then Inl (IntegrityError name)
      else Inr (rows @ [r]))"

lemma select_one_SomeD [dest]:
  assumes "select_one p rows = Some r"
  shows "r \<in> set rows" and "p r"
  using assms by (auto simp: select_one_def find_Some_iff)

lemma select_one_None_iff [simp]:
  "select_one p rows = None \<longleftrightarrow> (\<forall>r \<in> set rows. \<not> p r)"
  by (auto simp: select_one_def find_None_iff)

lemma select_one_Nil [simp]: "select_one p [] = None"
  by (simp add: select_one_def)

lemma select_one_Cons [row_simps]:
  "select_one p (r # rows) = (if p r then Some r else select_one p rows)"
  by (simp add: select_one_def)

lemma select_one_append [row_simps]:
  "select_one p (xs @ ys) =
     (case select_one p xs of None \<Rightarrow> select_one p ys | Some r \<Rightarrow> Some r)"
  by (induction xs) (auto simp: select_one_def)

lemma select_one_snoc:
  "\<not> p r \<Longrightarrow> select_one p (rows @ [r]) = select_one p rows"
  "p r \<Longrightarrow> \<forall>x \<in> set rows. \<not> p x \<Longrightarrow> select_one p (rows @ [r]) = Some r"
  by (induction rows) (auto simp: select_one_def)

lemma select_one_snoc_neqD: "select_one p (rows @ [r]) \<noteq> select_one p rows \<Longrightarrow> p r"
  using select_one_snoc(1) by metis

lemma select_one_unique:
  assumes "distinct (map key rows)" and "r \<in> set rows" and "p r"
    and "\<And>r'. r' \<in> set rows \<Longrightarrow> p r' \<Longrightarrow> key r' = key r"
  shows "select_one p rows = Some r"
proof -
  from assms(2,3) have "select_one p rows \<noteq> None" by auto
  then obtain r' where r': "select_one p rows = Some r'" by (cases "select_one p rows") auto
  then have "r' \<in> set rows" and "p r'" by auto
  with assms have "key r' = key r" by blast
  with assms(1,2) \<open>r' \<in> set rows\<close> have "r' = r" by (auto simp: distinct_map inj_on_def)
  with r' show ?thesis by simp
qed

lemma update_where_simps [simp]:
  "update_where p f [] = []"
  "update_where p f (r # rows) = (if p r then f r else r) # update_where p f rows"
  "update_where p f (xs @ ys) = update_where p f xs @ update_where p f ys"
  "length (update_where p f rows) = length rows"
  by (simp_all add: update_where_def)

lemma set_update_where [row_simps]:
  "set (update_where p f rows) = (\<lambda>r. if p r then f r else r) ` set rows"
  by (simp add: update_where_def)

lemma map_update_where [row_simps]:
  assumes "\<And>r. p r \<Longrightarrow> key (f r) = key r"
  shows "map key (update_where p f rows) = map key rows"
  using assms by (simp add: update_where_def)

lemma rowcount_simps [simp]:
  "rowcount p [] = 0"
  "rowcount p (r # rows) = (if p r then 1 else 0) + rowcount p rows"
  by (simp_all add: rowcount_def)

lemma rowcount_key:
  assumes "distinct (map key rows)" and "r \<in> set rows" and "p r"
    and "\<forall>r' \<in> set rows. p r' \<longrightarrow> key r' = key r"
  shows "rowcount p rows = 1"
proof -
  from assms(1) have d: "distinct rows" and inj: "inj_on key (set rows)"
    by (simp_all add: distinct_map)
  have "set (filter p rows) = {r}"
    using assms(2-4) inj_onD [OF inj] by auto
  with d show ?thesis
    using distinct_card [of "filter p rows"] by (simp add: rowcount_def)
qed

lemma insert_row_Inr_iff [row_simps]:
  "insert_row name key r rows = Inr rows' \<longleftrightarrow>
     key r \<notin> key ` set rows \<and> rows' = rows @ [r]"
  by (auto simp: insert_row_def list_ex_iff intro: rev_image_eqI)

lemma insert_row_Inl_iff [row_simps]:
  "insert_row name key r rows = Inl e \<longleftrightarrow>
     key r \<in> key ` set rows \<and> e = IntegrityError name"
  by (auto simp: insert_row_def list_ex_iff intro: rev_image_eqI)

lemma distinct_key_snoc [row_simps]:
  "distinct (map key (rows @ [r])) \<longleftrightarrow> distinct (map key rows) \<and> key r \<notin> key ` set rows"
  by auto

section \<open>Sorted sets of strings\<close>

text \<open>\<open>sorted(set(xs))\<close> of Python.\<close>

definition sorted_set :: "string list \<Rightarrow> string list" where
  "sorted_set xs = sort (remdups xs)"

lemma sorted_set_props [simp]:
  "set (sorted_set xs) = set xs"
  "sorted (sorted_set xs)"
  "distinct (sorted_set xs)"
  by (simp_all add: sorted_set_def)

lemma sorted_set_Nil [simp]: "sorted_set xs = [] \<longleftrightarrow> xs = []"
  by (metis set_empty sorted_set_props(1))

lemma sorted_set_cong: "set xs = set ys \<Longrightarrow> sorted_set xs = sorted_set ys"
  by (rule sorted_distinct_set_unique) simp_all

end
