(* ===== verification/PyFloat.thy ===== *)
theory PyFloat imports Prelude Complex_Main "HOL-Library.Log_Nat" begin

text \<open>
  Python floats.  A float is the rational number it denotes; \<open>fl\<close> is the rounding of
  IEEE 754 binary64 (round to nearest, ties to even, with gradual underflow), and every
  arithmetic operation of the source that is on floats is the exact operation followed by
  \<open>fl\<close>.  Decimal literals and the numbers of the YAML files are \<open>fl\<close> of the decimal.
  Overflow to infinity, infinities, NaN and the sign of zero are not modelled: the values
  of the scoring code are products, quotients and sums of hours, counts and weights.
\<close>

type_synonym pyfloat = rat

definition ilog2 :: "rat \<Rightarrow> int" where
  "ilog2 x = (case quotient_of x of (p, q) \<Rightarrow>
     let k = bitlen p - bitlen q in if 2 powi k \<le> x then k else k - 1)"

definition round_half_even :: "rat \<Rightarrow> int" where
  "round_half_even x = (let f = \<lfloor>x\<rfloor>; d = x - of_int f in
     if d < 1/2 then f else if d > 1/2 then f + 1 else if even f then f else f + 1)"

definition fl_exp :: "rat \<Rightarrow> int" where
  "fl_exp x = max (ilog2 \<bar>x\<bar>) (-1022) - 52"

definition fl :: "rat \<Rightarrow> pyfloat" where
  "fl x = (if x = 0 then 0
     else of_int (round_half_even (x / 2 powi fl_exp x)) * 2 powi fl_exp x)"

definition is_float :: "rat \<Rightarrow> bool" where
  "is_float x \<longleftrightarrow> fl x = x"

definition fadd :: "pyfloat \<Rightarrow> pyfloat \<Rightarrow> pyfloat" where "fadd x y = fl (x + y)"
definition fsub :: "pyfloat \<Rightarrow> pyfloat \<Rightarrow> pyfloat" where "fsub x y = fl (x - y)"
definition fmul :: "pyfloat \<Rightarrow> pyfloat \<Rightarrow> pyfloat" where "fmul x y = fl (x * y)"

definition fdiv :: "pyfloat \<Rightarrow> pyfloat \<Rightarrow> pyfloat res" where
  "fdiv x y = (if y = 0 then Inl ZeroDivisionError else Inr (fl (x / y)))"

text \<open>
  The builtin \<open>sum\<close> of Python 3.12 on floats: Neumaier's compensated summation, started
  from the first element.
\<close>

fun neumaier :: "pyfloat \<Rightarrow> pyfloat \<Rightarrow> pyfloat list \<Rightarrow> pyfloat" where
  "neumaier s c [] = (if c \<noteq> 0 then fadd s c else s)"
| "neumaier s c (x # xs) =
     (let t = fadd s x;
          d = (if \<bar>s\<bar> \<ge> \<bar>x\<bar> then fadd (fsub s t) x else fadd (fsub x t) s)
      in neumaier t (fadd c d) xs)"

fun py_sum :: "pyfloat list \<Rightarrow> pyfloat" where
  "py_sum [] = 0"
| "py_sum (x # xs) = neumaier x 0 xs"

text \<open>\<open>round(x, n)\<close>: the decimal of \<open>n\<close> places nearest the exact value, read back.\<close>

definition fround :: "pyfloat \<Rightarrow> nat \<Rightarrow> pyfloat" where
  "fround x n = fl (of_int (round_half_even (x * 10 ^ n)) / 10 ^ n)"

section \<open>Binary logarithm\<close>

lemma powi2_pos [simp]: "(0::rat) < 2 powi k"
  by simp

lemma powi2_mono: "i \<le> j \<Longrightarrow> (2::rat) powi i \<le> 2 powi j"
  by (rule power_int_increasing) auto

lemma powi2_strict_mono: "i < j \<Longrightarrow> (2::rat) powi i < 2 powi j"
  by (rule power_int_strict_increasing) auto

lemma powi2_Suc: "(2::rat) powi (k + 1) = 2 * 2 powi k"
  by (simp add: power_int_add)

lemma ilog2_bounds:
  assumes "0 < x"
  shows "2 powi ilog2 x \<le> x" and "x < 2 powi (ilog2 x + 1)"
proof -
  obtain p q where pq: "quotient_of x = (p, q)" by (cases "quotient_of x")
  then have x: "x = of_int p / of_int q" by (rule quotient_of_div)
  from pq have q: "0 < q" by (rule quotient_of_denom_pos)
  with x assms have p: "0 < p" by (simp add: zero_less_divide_iff)
  have bp: "1 \<le> bitlen p" and bq: "1 \<le> bitlen q"
    using p q by (auto simp: bitlen_alt_def)
  have pow: "(2::rat) ^ nat (n - 1) = 2 powi (n - 1)" "(2::rat) ^ nat n = 2 powi n"
    if "1 \<le> n" for n using that by (auto simp: power_int_def)
  have cast: "2 ^ m \<le> n \<Longrightarrow> (2::rat) ^ m \<le> of_int n" "n < 2 ^ m \<Longrightarrow> of_int n < (2::rat) ^ m"
    for n :: int and m
    by (metis of_int_le_iff of_int_power of_int_numeral)
      (metis of_int_less_iff of_int_power of_int_numeral)
  have P: "(2::rat) powi (bitlen p - 1) \<le> of_int p" "of_int p < (2::rat) powi bitlen p"
    using bitlen_bounds [OF p] bp cast by (auto simp flip: pow)
  have Q: "(2::rat) powi (bitlen q - 1) \<le> of_int q" "of_int q < (2::rat) powi bitlen q"
    using bitlen_bounds [OF q] bq cast by (auto simp flip: pow)
  define k where "k = bitlen p - bitlen q"
  have "x < 2 powi bitlen p / 2 powi (bitlen q - 1)"
    unfolding x using P(2) Q(1) q p by (intro frac_less) auto
  also have "\<dots> = 2 powi (k + 1)"
    by (simp add: k_def algebra_simps flip: power_int_diff)
  finally have up: "x < 2 powi (k + 1)" .
  have "2 powi (bitlen p - 1) / 2 powi bitlen q \<le> x"
    unfolding x using P(1) Q(2) q p by (intro frac_le) auto
  moreover have "(2::rat) powi (bitlen p - 1) / 2 powi bitlen q = 2 powi (k - 1)"
    by (simp add: k_def algebra_simps flip: power_int_diff)
  ultimately have lo: "2 powi (k - 1) \<le> x" by simp
  have eq: "ilog2 x = (if 2 powi k \<le> x then k else k - 1)"
    by (simp add: ilog2_def pq k_def)
  show "2 powi ilog2 x \<le> x" using lo by (simp add: eq)
  show "x < 2 powi (ilog2 x + 1)" using up by (auto simp: eq)
qed

lemma ilog2_unique:
  assumes "2 powi k \<le> x" and "x < 2 powi (k + 1)"
  shows "ilog2 x = k"
proof -
  have x: "0 < x" using assms(1) powi2_pos less_le_trans by blast
  note b = ilog2_bounds [OF x]
  show ?thesis
  proof (rule ccontr)
    assume "ilog2 x \<noteq> k"
    then consider "ilog2 x + 1 \<le> k" | "k + 1 \<le> ilog2 x" by linarith
    then show False
    proof cases
      case 1
      then show False using powi2_mono [OF 1] b(2) assms(1) by linarith
    next
      case 2
      then show False using powi2_mono [OF 2] b(1) assms(2) by linarith
    qed
  qed
qed

lemma ilog2_mono:
  assumes "0 < x" and "x \<le> y"
  shows "ilog2 x \<le> ilog2 y"
proof (rule ccontr)
  assume "\<not> ilog2 x \<le> ilog2 y"
  then have "ilog2 y + 1 \<le> ilog2 x" by simp
  from powi2_mono [OF this] ilog2_bounds [of x] ilog2_bounds [of y] assms
  show False by linarith
qed

section \<open>Rounding to an integer\<close>

lemma round_half_even_of_int [simp]: "round_half_even (of_int n) = n"
  by (simp add: round_half_even_def)

lemma round_half_even_numeral [simp]:
  "round_half_even (numeral n) = numeral n"
  "round_half_even 0 = 0"
  "round_half_even 1 = 1"
  by (simp_all add: round_half_even_def)

lemma round_half_even_cases:
  "of_int (round_half_even x) \<le> x + 1/2 \<and> x - 1/2 \<le> of_int (round_half_even x)"
  unfolding round_half_even_def Let_def
  by (auto split: if_splits simp: floor_correct) linarith+

lemma round_half_even_mono:
  assumes "x \<le> y"
  shows "round_half_even x \<le> round_half_even y"
proof -
  from assms have f: "\<lfloor>x\<rfloor> \<le> \<lfloor>y\<rfloor>" by (rule floor_mono)
  have rng: "\<lfloor>z\<rfloor> \<le> round_half_even z \<and> round_half_even z \<le> \<lfloor>z\<rfloor> + 1" for z
    by (auto simp: round_half_even_def Let_def)
  show ?thesis
  proof (cases "\<lfloor>x\<rfloor> = \<lfloor>y\<rfloor>")
    case True
    with assms show ?thesis by (auto simp: round_half_even_def Let_def)
  next
    case False
    with f have "\<lfloor>x\<rfloor> + 1 \<le> \<lfloor>y\<rfloor>" by simp
    with rng [of x] rng [of y] show ?thesis by linarith
  qed
qed

lemma round_half_even_minus: "round_half_even (- x) = - round_half_even x"
proof (cases "x = of_int \<lfloor>x\<rfloor>")
  case True
  then obtain n where "x = of_int n" by blast
  then show ?thesis
    using round_half_even_of_int [of "- n"] by simp
next
  case False
  then have c: "\<lfloor>- x\<rfloor> = - \<lfloor>x\<rfloor> - 1"
    by (smt (verit) ceiling_altdef floor_minus)
  show ?thesis
    unfolding round_half_even_def Let_def c
    by (auto simp: field_simps)
qed

lemma round_half_even_nonneg: "0 \<le> x \<Longrightarrow> 0 \<le> round_half_even x"
  using round_half_even_mono [of 0 x] by simp

section \<open>Rounding to a float\<close>

lemma fl_zero [simp]: "fl 0 = 0"
  by (simp add: fl_def)

lemma fl_exp_minus [simp]: "fl_exp (- x) = fl_exp x"
  by (simp add: fl_exp_def)

lemma fl_minus: "fl (- x) = - fl x"
  by (simp add: fl_def round_half_even_minus)

lemma fl_grid_le:
  assumes "x \<noteq> 0" and "of_int m * 2 powi fl_exp x \<le> x"
  shows "of_int m * 2 powi fl_exp x \<le> fl x"
proof -
  from assms(2) have "of_int m \<le> x / 2 powi fl_exp x" by (simp add: pos_le_divide_eq)
  then have "m \<le> round_half_even (x / 2 powi fl_exp x)"
    using round_half_even_mono [of "of_int m"] by simp
  with assms(1) show ?thesis by (simp add: fl_def)
qed

lemma fl_grid_ge:
  assumes "x \<noteq> 0" and "x \<le> of_int m * 2 powi fl_exp x"
  shows "fl x \<le> of_int m * 2 powi fl_exp x"
  using fl_grid_le [of "- x" "- m"] assms by (simp add: fl_minus)

lemma fl_exp_upper: "0 < x \<Longrightarrow> x < 2 powi (fl_exp x + 53)"
  using ilog2_bounds(2) [of x] powi2_mono [of "ilog2 x + 1" "fl_exp x + 53"]
  by (simp add: fl_exp_def)

lemma fl_mono_pos:
  assumes "0 < x" and "x \<le> y"
  shows "fl x \<le> fl y"
proof (cases "fl_exp x = fl_exp y")
  case True
  have "x / 2 powi fl_exp y \<le> y / 2 powi fl_exp y"
    using assms by (simp add: divide_right_mono)
  with True assms show ?thesis
    by (auto simp: fl_def intro!: mult_right_mono round_half_even_mono)
next
  case False
  have le: "ilog2 x \<le> ilog2 y" using assms by (intro ilog2_mono) auto
  with False assms have lt: "fl_exp x < fl_exp y" and ey: "fl_exp y = ilog2 y - 52"
    by (auto simp: fl_exp_def)
  have "fl x \<le> of_int (2 ^ 53) * 2 powi fl_exp x"
  proof (rule fl_grid_ge)
    have "of_int (2 ^ 53) * 2 powi fl_exp x = (2::rat) powi (fl_exp x + 53)"
      by (simp add: power_int_add)
    then show "x \<le> of_int (2 ^ 53) * 2 powi fl_exp x"
      using fl_exp_upper [OF assms(1)] by simp
  qed (use assms in auto)
  also have "\<dots> = 2 powi (fl_exp x + 53)" by (simp add: power_int_add)
  also have "\<dots> \<le> 2 powi (fl_exp y + 52)" using lt by (intro powi2_mono) simp
  also have "\<dots> = of_int (2 ^ 52) * 2 powi fl_exp y" by (simp add: power_int_add)
  also have "\<dots> \<le> fl y"
  proof (rule fl_grid_le)
    have "of_int (2 ^ 52) * 2 powi fl_exp y = (2::rat) powi ilog2 y"
      unfolding ey by (simp add: power_int_diff)
    then show "of_int (2 ^ 52) * 2 powi fl_exp y \<le> y"
      using ilog2_bounds(1) [of y] assms by simp
  qed (use assms in auto)
  finally show ?thesis .
qed

lemma fl_nonneg: "0 \<le> x \<Longrightarrow> 0 \<le> fl x"
  by (auto simp: fl_def intro!: mult_nonneg_nonneg round_half_even_nonneg)

lemma fl_nonpos: "x \<le> 0 \<Longrightarrow> fl x \<le> 0"
  using fl_nonneg [of "- x"] by (simp add: fl_minus)

lemma fl_mono:
  assumes "x \<le> y"
  shows "fl x \<le> fl y"
proof -
  consider "0 < x" | "x \<le> 0" "0 \<le> y" | "y < 0" using assms by linarith
  then show ?thesis
  proof cases
    case 1
    then show ?thesis using assms by (rule fl_mono_pos)
  next
    case 2
    then show ?thesis using fl_nonneg fl_nonpos order_trans by blast
  next
    case 3
    then show ?thesis using fl_mono_pos [of "- y" "- x"] assms by (simp add: fl_minus)
  qed
qed

lemma is_float_dyadic:
  assumes "\<bar>m\<bar> < 2 ^ 53" and "-1074 \<le> k"
  shows "is_float (of_int m * 2 powi k)"
proof (cases "m = 0")
  case True
  then show ?thesis by (simp add: is_float_def)
next
  case False
  define x where "x = of_int m * (2::rat) powi k"
  have x: "x \<noteq> 0" using False by (simp add: x_def)
  have "\<bar>x\<bar> < of_int (2 ^ 53) * 2 powi k"
  proof -
    have "\<bar>rat_of_int m\<bar> < of_int (2 ^ 53)"
      using assms(1) by (metis of_int_abs of_int_less_iff)
    then show ?thesis by (simp add: x_def abs_mult)
  qed
  also have "\<dots> = 2 powi (k + 53)" by (simp add: power_int_add)
  finally have up: "\<bar>x\<bar> < 2 powi (k + 53)" .
  have "ilog2 \<bar>x\<bar> \<le> k + 52"
  proof (rule ccontr)
    assume "\<not> ilog2 \<bar>x\<bar> \<le> k + 52"
    then have "k + 53 \<le> ilog2 \<bar>x\<bar>" by simp
    from powi2_mono [OF this] ilog2_bounds(1) [of "\<bar>x\<bar>"] up x show False by simp
  qed
  with assms(2) have e: "fl_exp x \<le> k" by (simp add: fl_exp_def)
  have "x / 2 powi fl_exp x = of_int (m * 2 ^ nat (k - fl_exp x))"
    using e by (simp add: x_def field_simps flip: power_int_add power_int_of_nat)
  then have "round_half_even (x / 2 powi fl_exp x) = m * 2 ^ nat (k - fl_exp x)"
    by (metis round_half_even_of_int)
  moreover have "of_int (m * 2 ^ nat (k - fl_exp x)) * 2 powi fl_exp x = x"
    using e by (simp add: x_def field_simps flip: power_int_add power_int_of_nat)
  ultimately show ?thesis using x by (simp add: is_float_def fl_def x_def)
qed

lemma is_float_int: "\<bar>m\<bar> < 2 ^ 53 \<Longrightarrow> is_float (of_int m)"
  using is_float_dyadic [of m 0] by simp

lemma is_float_fl [simp]: "is_float (fl x)"
proof (cases "x = 0")
  case True
  then show ?thesis by (simp add: is_float_def)
next
  case False
  define r where "r = round_half_even (x / 2 powi fl_exp x)"
  have flx: "fl x = of_int r * 2 powi fl_exp x" using False by (simp add: fl_def r_def)
  have up: "\<bar>x\<bar> \<le> of_int (2 ^ 53) * 2 powi fl_exp x"
  proof -
    have "\<bar>x\<bar> < 2 powi (fl_exp \<bar>x\<bar> + 53)" using fl_exp_upper [of "\<bar>x\<bar>"] False by simp
    also have "fl_exp \<bar>x\<bar> = fl_exp x" by (simp add: fl_exp_def)
    finally show ?thesis by (simp add: power_int_add)
  qed
  have "fl x \<le> of_int (2 ^ 53) * 2 powi fl_exp x"
    by (rule fl_grid_ge) (use up False in auto)
  moreover have "of_int (- (2 ^ 53)) * 2 powi fl_exp x \<le> fl x"
    by (rule fl_grid_le) (use up False in auto)
  ultimately have "rat_of_int r \<le> of_int (2 ^ 53)" "of_int (- (2 ^ 53)) \<le> rat_of_int r"
    unfolding flx using mult_right_le_imp_le [OF _ powi2_pos] by blast+
  then have r: "r \<le> 2 ^ 53" "- (2 ^ 53) \<le> r" unfolding of_int_le_iff by blast+
  have e: "-1074 \<le> fl_exp x" by (simp add: fl_exp_def)
  consider "\<bar>r\<bar> < 2 ^ 53" | "r = 2 ^ 53" | "r = - (2 ^ 53)" using r by linarith
  then show ?thesis
  proof cases
    case 1
    then show ?thesis using is_float_dyadic [OF _ e] by (simp add: flx)
  next
    case 2
    then have "fl x = of_int 1 * 2 powi (fl_exp x + 53)" by (simp add: flx power_int_add)
    then show ?thesis using is_float_dyadic [of 1 "fl_exp x + 53"] e by simp
  next
    case 3
    then have "fl x = of_int (- 1) * 2 powi (fl_exp x + 53)" by (simp add: flx power_int_add)
    then show ?thesis using is_float_dyadic [of "- 1" "fl_exp x + 53"] e by simp
  qed
qed

lemma fl_idem [simp]: "fl (fl x) = fl x"
  using is_float_fl [of x] by (simp add: is_float_def)

lemma fl_numeral:
  "(numeral n :: int) < 2 ^ 53 \<Longrightarrow> fl (numeral n) = numeral n"
  "fl 1 = 1"
  using is_float_int [of "numeral n"] is_float_int [of 1] by (auto simp: is_float_def)

lemma fl_le_float: "is_float y \<Longrightarrow> x \<le> y \<Longrightarrow> fl x \<le> y"
  using fl_mono [of x y] by (simp add: is_float_def)

lemma fl_ge_float: "is_float y \<Longrightarrow> y \<le> x \<Longrightarrow> y \<le> fl x"
  using fl_mono [of y x] by (simp add: is_float_def)

lemma is_float_0_1 [simp]: "is_float 0" "is_float 1"
  by (simp_all add: is_float_def fl_numeral)

lemma fl_unit_interval: "0 \<le> x \<Longrightarrow> x \<le> 1 \<Longrightarrow> 0 \<le> fl x \<and> fl x \<le> 1"
  by (simp add: fl_nonneg fl_le_float)

section \<open>Code equations on integers\<close>

definition rhe_div :: "int \<Rightarrow> int \<Rightarrow> int" where
  "rhe_div p q = (let d = p div q; r = p mod q in
     if 2 * r < q then d else if 2 * r > q then d + 1 else if even d then d else d + 1)"

lemma round_half_even_frac:
  assumes "0 < q"
  shows "round_half_even (of_int p / of_int q) = rhe_div p q"
proof -
  have fl: "\<lfloor>rat_of_int p / of_int q\<rfloor> = p div q" by (rule floor_divide_of_int_eq)
  have "rat_of_int p = of_int q * of_int (p div q) + of_int (p mod q)"
    by (metis mult_div_mod_eq of_int_add of_int_mult)
  then have "rat_of_int p / of_int q = of_int (p div q) + of_int (p mod q) / of_int q"
    using assms by (simp add: field_simps)
  then have r: "rat_of_int p / of_int q - of_int (p div q) = of_int (p mod q) / of_int q"
    by simp
  have "(of_int (p mod q) / rat_of_int q < 1/2) = (rat_of_int (2 * (p mod q)) < of_int q)"
    "(of_int (p mod q) / rat_of_int q > 1/2) = (rat_of_int (2 * (p mod q)) > of_int q)"
    using assms by (auto simp: field_simps)
  then have lt: "(of_int (p mod q) / rat_of_int q < 1/2) = (2 * (p mod q) < q)"
    "(of_int (p mod q) / rat_of_int q > 1/2) = (2 * (p mod q) > q)"
    by (simp_all only: of_int_less_iff)
  show ?thesis unfolding round_half_even_def Let_def fl r rhe_div_def lt ..
qed

lemma powi2_int:
  "0 \<le> k \<Longrightarrow> (2::rat) powi k = of_int (push_bit (nat k) 1)"
  "k < 0 \<Longrightarrow> (2::rat) powi k = 1 / of_int (push_bit (nat (- k)) 1)"
  by (auto simp: power_int_def push_bit_eq_mult power_divide)

lemma ilog2_code [code]:
  "ilog2 x = (case quotient_of x of (p, q) \<Rightarrow>
     let k = bitlen p - bitlen q in
     if (if 0 \<le> k then push_bit (nat k) q \<le> p else q \<le> push_bit (nat (- k)) p)
     then k else k - 1)"
proof -
  obtain p q where pq: "quotient_of x = (p, q)" by (cases "quotient_of x")
  then have x: "x = of_int p / of_int q" and q: "0 < q"
    by (auto intro: quotient_of_div quotient_of_denom_pos)
  have "(2 powi k \<le> x) = (if 0 \<le> k then push_bit (nat k) q \<le> p else q \<le> push_bit (nat (- k)) p)" for k
  proof (cases "0 \<le> k")
    case True
    have "(2 powi k \<le> x) = (rat_of_int (push_bit (nat k) q) \<le> of_int p)"
      using q True by (simp add: x powi2_int pos_le_divide_eq push_bit_eq_mult mult.commute)
    with True show ?thesis by (simp only: of_int_le_iff if_True)
  next
    case False
    have "(2 powi k \<le> x) = (rat_of_int q \<le> of_int (push_bit (nat (- k)) p))"
      using q False by (simp add: x powi2_int field_simps push_bit_eq_mult)
    with False show ?thesis by (simp only: of_int_le_iff if_False)
  qed
  then show ?thesis by (simp add: ilog2_def pq)
qed

lemma fl_code [code]:
  "fl x = (case quotient_of x of (p, q) \<Rightarrow>
     if p = 0 then 0
     else let e = fl_exp x in
       if 0 \<le> e then of_int (push_bit (nat e) (rhe_div p (push_bit (nat e) q)))
       else of_int (rhe_div (push_bit (nat (- e)) p) q) / of_int (push_bit (nat (- e)) 1))"
proof -
  obtain p q where pq: "quotient_of x = (p, q)" by (cases "quotient_of x")
  then have x: "x = of_int p / of_int q" and q: "0 < q"
    by (auto intro: quotient_of_div quotient_of_denom_pos)
  show ?thesis
  proof (cases "p = 0")
    case True
    with x have "x = 0" by simp
    with True pq show ?thesis by simp
  next
    case False
    with x q have nz: "x \<noteq> 0" by simp
    show ?thesis
    proof (cases "0 \<le> fl_exp x")
      case True
      have "x / 2 powi fl_exp x = of_int p / of_int (push_bit (nat (fl_exp x)) q)"
        using True by (simp add: x powi2_int push_bit_eq_mult)
      moreover have "0 < push_bit (nat (fl_exp x)) q" using q by (simp add: push_bit_eq_mult)
      ultimately have "round_half_even (x / 2 powi fl_exp x) = rhe_div p (push_bit (nat (fl_exp x)) q)"
        by (simp only: round_half_even_frac)
      then show ?thesis using True False nz pq
        by (simp add: fl_def powi2_int push_bit_eq_mult Let_def)
    next
      case e: False
      have "x / 2 powi fl_exp x = of_int (push_bit (nat (- fl_exp x)) p) / of_int q"
        using e by (simp add: x powi2_int push_bit_eq_mult)
      with q have "round_half_even (x / 2 powi fl_exp x) = rhe_div (push_bit (nat (- fl_exp x)) p) q"
        by (simp only: round_half_even_frac)
      then show ?thesis using e False nz pq
        by (simp add: fl_def powi2_int push_bit_eq_mult Let_def)
    qed
  qed
qed

lemma round_half_even_code [code]:
  "round_half_even x = (case quotient_of x of (p, q) \<Rightarrow> rhe_div p q)"
proof -
  obtain p q where pq: "quotient_of x = (p, q)" by (cases "quotient_of x")
  then have "x = of_int p / of_int q" and "0 < q"
    by (auto intro: quotient_of_div quotient_of_denom_pos)
  with pq show ?thesis by (simp add: round_half_even_frac)
qed

end
