(* ===== verification/RiskModels.thy ===== *)
theory RiskModels imports PyFloat begin

text \<open>
  domain/workforce_risk/models.py and scoring/config.py: the enums, the validated inputs of
  the three score families, factor contributions and risk results, and the versioned
  scoring configuration.  A Pydantic model is a record; the constraints of its fields are
  the checks of its constructor (or a validity predicate where only valid instances reach
  the code).  A Python dict whose iteration order matters is an association list.
\<close>

section \<open>Enums\<close>

datatype environment = Dev | Prod | Test

datatype risk_level = RiskLow | RiskMedium | RiskHigh | RiskCritical

datatype confidence = ConfHigh | ConfMedium | ConfLow | InsufficientData

datatype direction = IncreasesRisk | InverseRisk | Protective

fun environment_value :: "environment \<Rightarrow> string" where
  "environment_value Dev = ''dev''"
| "environment_value Prod = ''prod''"
| "environment_value Test = ''test''"

fun risk_level_value :: "risk_level \<Rightarrow> string" where
  "risk_level_value RiskLow = ''low''"
| "risk_level_value RiskMedium = ''medium''"
| "risk_level_value RiskHigh = ''high''"
| "risk_level_value RiskCritical = ''critical''"

fun confidence_value :: "confidence \<Rightarrow> string" where
  "confidence_value ConfHigh = ''high''"
| "confidence_value ConfMedium = ''medium''"
| "confidence_value ConfLow = ''low''"
| "confidence_value InsufficientData = ''insufficient-data''"

lemma environment_value_inj [simp]: "environment_value a = environment_value b \<longleftrightarrow> a = b"
  by (cases a; cases b) simp_all

section \<open>Score inputs\<close>

type_synonym references = "(string \<times> string list) list"

definition dict_get :: "('k \<times> 'v) list \<Rightarrow> 'k \<Rightarrow> 'v \<Rightarrow> 'v" where
  "dict_get d k v = (case map_of d k of None \<Rightarrow> v | Some x \<Rightarrow> x)"

record overload_input =
  oi_employee_id :: string
  oi_environment :: environment
  oi_remaining_estimated_hours :: "pyfloat option"
  oi_available_capacity_hours :: "pyfloat option"
  oi_overdue_tasks :: "int option"
  oi_blocked_or_blocking_tasks :: "int option"
  oi_urgent_high_priority_tasks :: "int option"
  oi_due_soon_tasks :: "int option"
  oi_active_tasks :: "int option"
  oi_concurrent_projects :: "int option"
  oi_stale_tasks :: "int option"
  oi_evidence_timestamp :: timestamp
  oi_evidence_references :: references

definition opt_all :: "('a \<Rightarrow> bool) \<Rightarrow> 'a option \<Rightarrow> bool" where
  "opt_all p x = (case x of None \<Rightarrow> True | Some y \<Rightarrow> p y)"

lemma opt_all_simps [simp]: "opt_all p None" "opt_all p (Some x) = p x"
  by (simp_all add: opt_all_def)

definition valid_overload_input :: "overload_input \<Rightarrow> bool" where
  "valid_overload_input i \<longleftrightarrow>
     opt_all (\<lambda>h. is_float h \<and> 0 \<le> h) (oi_remaining_estimated_hours i) \<and>
     opt_all (\<lambda>h. is_float h \<and> 0 < h) (oi_available_capacity_hours i) \<and>
     (\<forall>n \<in> {oi_overdue_tasks i, oi_blocked_or_blocking_tasks i, oi_urgent_high_priority_tasks i,
        oi_due_soon_tasks i, oi_active_tasks i, oi_concurrent_projects i, oi_stale_tasks i}.
        opt_all (\<lambda>k. 0 \<le> k) n)"

record task_fit_input =
  tf_task_id :: string
  tf_environment :: environment
  tf_required_skill_gap :: "pyfloat option"
  tf_difficulty_seniority_mismatch :: "pyfloat option"
  tf_deadline_pressure :: "pyfloat option"
  tf_dependency_impact :: "pyfloat option"
  tf_task_criticality :: "pyfloat option"
  tf_similar_task_evidence :: "pyfloat option"
  tf_mentoring_review_support :: "pyfloat option"
  tf_evidence_timestamp :: timestamp
  tf_evidence_references :: references

record project_delivery_input =
  pd_project_id :: string
  pd_environment :: environment
  pd_schedule_gap :: "pyfloat option"
  pd_remaining_capacity_pressure :: "pyfloat option"
  pd_blocked_overdue_work :: "pyfloat option"
  pd_workload_concentration :: "pyfloat option"
  pd_unplanned_work :: "pyfloat option"
  pd_critical_weak_fit :: "pyfloat option"
  pd_evidence_timestamp :: timestamp
  pd_evidence_references :: references

definition unit_float :: "pyfloat \<Rightarrow> bool" where
  "unit_float x \<longleftrightarrow> is_float x \<and> 0 \<le> x \<and> x \<le> 1"

definition valid_task_fit_input :: "task_fit_input \<Rightarrow> bool" where
  "valid_task_fit_input i \<longleftrightarrow>
     (\<forall>x \<in> {tf_required_skill_gap i, tf_difficulty_seniority_mismatch i, tf_deadline_pressure i,
        tf_dependency_impact i, tf_task_criticality i, tf_similar_task_evidence i,
        tf_mentoring_review_support i}. opt_all unit_float x)"

definition valid_project_delivery_input :: "project_delivery_input \<Rightarrow> bool" where
  "valid_project_delivery_input i \<longleftrightarrow>
     (\<forall>x \<in> {pd_schedule_gap i, pd_remaining_capacity_pressure i, pd_blocked_overdue_work i,
        pd_workload_concentration i, pd_unplanned_work i, pd_critical_weak_fit i}.
        opt_all unit_float x)"

section \<open>Contributions and results\<close>

record factor_contribution =
  fc_name :: string
  fc_raw_value :: pyfloat
  fc_normalized_value :: pyfloat
  fc_weight :: pyfloat
  fc_direction :: direction
  fc_contribution_points :: pyfloat
  fc_evidence_references :: "string list"

definition make_factor ::
  "string \<Rightarrow> pyfloat \<Rightarrow> pyfloat \<Rightarrow> pyfloat \<Rightarrow> direction \<Rightarrow> pyfloat \<Rightarrow> string list
     \<Rightarrow> factor_contribution res" where
  "make_factor name raw normalized weight dir points refs =
     (if 0 \<le> normalized \<and> normalized \<le> 1 \<and> 0 \<le> weight \<and> weight \<le> 1
      then Inr \<lparr>fc_name = name, fc_raw_value = raw, fc_normalized_value = normalized,
                fc_weight = weight, fc_direction = dir, fc_contribution_points = points,
                fc_evidence_references = refs\<rparr>
      else Inl (ValidationError ''FactorContribution''))"

record risk_result =
  rr_subject_id :: string
  rr_environment :: environment
  rr_score :: "int option"
  rr_level :: "risk_level option"
  rr_confidence :: confidence
  rr_scored_at :: timestamp
  rr_evidence_timestamp :: timestamp
  rr_scoring_model_version :: string
  rr_factors :: "factor_contribution list"
  rr_thresholds :: "(string \<times> int) list"
  rr_evidence_references :: "string list"
  rr_missing_evidence :: "string list"
  rr_excluded_evidence :: "string list"

definition make_risk_result :: "risk_result \<Rightarrow> risk_result res" where
  "make_risk_result r =
     (if opt_all (\<lambda>s. 0 \<le> s \<and> s \<le> 100) (rr_score r) then Inr r
      else Inl (ValidationError ''RiskResult''))"

section \<open>Scoring configuration\<close>

record factor_config =
  cf_weight :: pyfloat
  cf_direction :: direction
  cf_normalization_cap :: pyfloat

definition valid_factor_config :: "factor_config \<Rightarrow> bool" where
  "valid_factor_config f \<longleftrightarrow> is_float (cf_weight f) \<and> 0 < cf_weight f \<and> cf_weight f \<le> 1 \<and>
     is_float (cf_normalization_cap f) \<and> 0 < cf_normalization_cap f"

record family_config =
  fam_version :: string
  fam_max_evidence_age_hours :: pyfloat
  fam_factors :: "(string \<times> factor_config) list"

definition weights_sum_to_one :: "family_config \<Rightarrow> bool" where
  "weights_sum_to_one c \<longleftrightarrow>
     \<bar>fsub (py_sum (map (cf_weight \<circ> snd) (fam_factors c))) 1\<bar> \<le> fl (1 / 1000000000)"

definition validate_overload_weights :: "family_config \<Rightarrow> family_config res" where
  "validate_overload_weights c =
     (if weights_sum_to_one c then Inr c
      else Inl (ValueError ''employee-overload weights must sum to 1.0''))"

definition validate_family_weights :: "family_config \<Rightarrow> family_config res" where
  "validate_family_weights c =
     (if weights_sum_to_one c then Inr c
      else Inl (ValueError ''score-family weights must sum to 1.0''))"

definition valid_family_config :: "family_config \<Rightarrow> bool" where
  "valid_family_config c \<longleftrightarrow> 0 < fam_max_evidence_age_hours c \<and>
     distinct (map fst (fam_factors c)) \<and> list_all (valid_factor_config \<circ> snd) (fam_factors c) \<and>
     weights_sum_to_one c"

record scoring_config =
  sc_employee_overload :: family_config
  sc_task_fit :: family_config
  sc_project_delivery :: family_config
  sc_thresholds :: "(string \<times> int) list"

definition valid_scoring_config :: "scoring_config \<Rightarrow> bool" where
  "valid_scoring_config c \<longleftrightarrow> valid_family_config (sc_employee_overload c) \<and>
     valid_family_config (sc_task_fit c) \<and> valid_family_config (sc_project_delivery c)"

text \<open>The shipped configuration, config/scoring.\<close>

definition yaml_factor :: "string \<Rightarrow> int \<Rightarrow> direction \<Rightarrow> int \<Rightarrow> string \<times> factor_config" where
  "yaml_factor name percent dir cap =
     (name, \<lparr>cf_weight = fl (of_int percent / 100), cf_direction = dir,
             cf_normalization_cap = fl (of_int cap)\<rparr>)"

definition shipped_config :: scoring_config where
  "shipped_config = \<lparr>
     sc_employee_overload = \<lparr>fam_version = ''employee-overload-v1'',
       fam_max_evidence_age_hours = 24,
       fam_factors =
        [yaml_factor ''utilization'' 30 IncreasesRisk 2,
         yaml_factor ''overdue_work'' 15 IncreasesRisk 4,
         yaml_factor ''blocked_work'' 15 IncreasesRisk 3,
         yaml_factor ''priority_load'' 10 IncreasesRisk 4,
         yaml_factor ''due_soon_load'' 10 IncreasesRisk 4,
         yaml_factor ''active_task_count'' 10 IncreasesRisk 10,
         yaml_factor ''concurrent_projects'' 5 IncreasesRisk 4,
         yaml_factor ''stale_work'' 5 IncreasesRisk 3]\<rparr>,
     sc_task_fit = \<lparr>fam_version = ''task-fit-v1'', fam_max_evidence_age_hours = 24,
       fam_factors =
        [yaml_factor ''required_skill_gap'' 30 IncreasesRisk 1,
         yaml_factor ''difficulty_seniority_mismatch'' 20 IncreasesRisk 1,
         yaml_factor ''deadline_pressure'' 15 IncreasesRisk 1,
         yaml_factor ''dependency_impact'' 10 IncreasesRisk 1,
         yaml_factor ''task_criticality'' 10 IncreasesRisk 1,
         yaml_factor ''similar_task_evidence'' 10 InverseRisk 1,
         yaml_factor ''mentoring_review_support'' 5 Protective 1]\<rparr>,
     sc_project_delivery = \<lparr>fam_version = ''project-delivery-v1'',
       fam_max_evidence_age_hours = 24,
       fam_factors =
        [yaml_factor ''schedule_gap'' 25 IncreasesRisk 1,
         yaml_factor ''remaining_capacity_pressure'' 20 IncreasesRisk 1,
         yaml_factor ''blocked_overdue_work'' 20 IncreasesRisk 1,
         yaml_factor ''workload_concentration'' 15 IncreasesRisk 1,
         yaml_factor ''unplanned_work'' 10 IncreasesRisk 1,
         yaml_factor ''critical_weak_fit'' 10 IncreasesRisk 1]\<rparr>,
     sc_thresholds = [(''low_max'', 29), (''medium_max'', 54), (''high_max'', 74)]\<rparr>"

end
