(* ===== verification/Scoring.thy ===== *)
theory Scoring imports RiskModels begin

text \<open>
  domain/workforce_risk/scoring: normalisation, confidence by evidence coverage, the
  employee-overload score and the normalised family score used for task fit and project
  delivery.  The factor loop is \<open>foldr_res\<close> of one step over the configured factors with
  the state (factors, missing, coverage) of the source.
\<close>

section \<open>common.py and confidence.py\<close>

definition clamp :: "pyfloat \<Rightarrow> pyfloat \<Rightarrow> pyfloat \<Rightarrow> pyfloat" where
  "clamp value minimum maximum = max minimum (min value maximum)"

definition normalize_capped :: "pyfloat \<Rightarrow> pyfloat \<Rightarrow> pyfloat res" where
  "normalize_capped value cap =
     (if cap \<le> 0 then Inl (ValueError ''normalization cap must be positive'')
      else bindr (fdiv value cap) (\<lambda>q. Inr (clamp q 0 1)))"

definition confidence_for_coverage :: "pyfloat \<Rightarrow> confidence" where
  "confidence_for_coverage coverage =
     (if coverage \<ge> fl (9/10) then ConfHigh
      else if coverage \<ge> fl (3/4) then ConfMedium
      else if coverage \<ge> fl (6/10) then ConfLow
      else InsufficientData)"

definition risk_level_for_score :: "int \<Rightarrow> risk_level res" where
  "risk_level_for_score score =
     (if \<not> (0 \<le> score \<and> score \<le> 100)
      then Inl (ValueError ''risk score must be between 0 and 100'')
      else if score \<le> 29 then Inr RiskLow
      else if score \<le> 54 then Inr RiskMedium
      else if score \<le> 74 then Inr RiskHigh
      else Inr RiskCritical)"

definition total_seconds :: "timedelta \<Rightarrow> pyfloat" where
  "total_seconds d = fl (of_int d / 1000000)"

definition age_hours :: "timestamp \<Rightarrow> timestamp \<Rightarrow> pyfloat" where
  "age_hours scored_at evidence_at = fl (total_seconds (scored_at - evidence_at) / 3600)"

type_synonym family_scan = "factor_contribution list \<times> string list \<times> pyfloat"

definition factor_references :: "factor_contribution list \<Rightarrow> string list" where
  "factor_references factors = sorted_set (concat (map fc_evidence_references factors))"

section \<open>overload.py\<close>

definition FACTOR_INPUTS :: "(string \<times> string) list" where
  "FACTOR_INPUTS =
    [(''overdue_work'', ''overdue_tasks''),
     (''blocked_work'', ''blocked_or_blocking_tasks''),
     (''priority_load'', ''urgent_high_priority_tasks''),
     (''due_soon_load'', ''due_soon_tasks''),
     (''active_task_count'', ''active_tasks''),
     (''concurrent_projects'', ''concurrent_projects''),
     (''stale_work'', ''stale_tasks'')]"

definition overload_counts :: "overload_input \<Rightarrow> (string \<times> int option) list" where
  "overload_counts i =
    [(''overdue_tasks'', oi_overdue_tasks i),
     (''blocked_or_blocking_tasks'', oi_blocked_or_blocking_tasks i),
     (''urgent_high_priority_tasks'', oi_urgent_high_priority_tasks i),
     (''due_soon_tasks'', oi_due_soon_tasks i),
     (''active_tasks'', oi_active_tasks i),
     (''concurrent_projects'', oi_concurrent_projects i),
     (''stale_tasks'', oi_stale_tasks i)]"

definition overload_confidence :: "pyfloat \<Rightarrow> confidence" where
  "overload_confidence coverage =
     (if coverage \<ge> fl (9/10) then ConfHigh
      else if coverage \<ge> fl (3/4) then ConfMedium
      else if coverage \<ge> fl (6/10) then ConfLow
      else InsufficientData)"

definition overload_insufficient ::
  "overload_input \<Rightarrow> scoring_config \<Rightarrow> timestamp \<Rightarrow> string list \<Rightarrow> string list \<Rightarrow> risk_result res"
where
  "overload_insufficient i config scored_at missing excluded =
     make_risk_result \<lparr>rr_subject_id = oi_employee_id i, rr_environment = oi_environment i,
       rr_score = None, rr_level = None, rr_confidence = InsufficientData,
       rr_scored_at = scored_at, rr_evidence_timestamp = oi_evidence_timestamp i,
       rr_scoring_model_version = fam_version (sc_employee_overload config),
       rr_factors = [], rr_thresholds = sc_thresholds config, rr_evidence_references = [],
       rr_missing_evidence = missing, rr_excluded_evidence = excluded\<rparr>"

text \<open>The dict \<open>raw_values\<close>, with \<open>float(raw_value)\<close> applied to the counts.\<close>

definition overload_raw_value :: "overload_input \<Rightarrow> pyfloat \<Rightarrow> string \<Rightarrow> pyfloat option" where
  "overload_raw_value i utilization name =
     (if name = ''utilization'' then Some utilization
      else case map_of FACTOR_INPUTS name of None \<Rightarrow> None
        | Some attribute \<Rightarrow>
            (case map_of (overload_counts i) attribute of
               Some (Some n) \<Rightarrow> Some (fl (of_int n)) | _ \<Rightarrow> None))"

definition overload_step ::
  "overload_input \<Rightarrow> pyfloat \<Rightarrow> family_scan \<Rightarrow> string \<times> factor_config \<Rightarrow> family_scan res" where
  "overload_step i utilization st entry =
    (case (st, entry) of ((factors, missing, coverage), (name, settings)) \<Rightarrow>
      (let references = dict_get (oi_evidence_references i) name [] in
       case overload_raw_value i utilization name of
         None \<Rightarrow> Inr (factors, missing @ [dict_get FACTOR_INPUTS name name], coverage)
       | Some raw \<Rightarrow>
          (if references = []
           then Inr (factors, missing @ [dict_get FACTOR_INPUTS name name], coverage)
           else bindr (normalize_capped raw (cf_normalization_cap settings)) (\<lambda>normalized.
                bindr (make_factor name raw normalized (cf_weight settings)
                   (cf_direction settings)
                   (fmul (fmul normalized (cf_weight settings)) 100) references) (\<lambda>factor.
                Inr (factors @ [factor], missing, fadd coverage (cf_weight settings)))))))"

definition missing_mandatory :: "overload_input \<Rightarrow> string list" where
  "missing_mandatory i =
     (if oi_remaining_estimated_hours i = None then [''remaining_estimated_hours''] else []) @
     (if oi_available_capacity_hours i = None then [''available_capacity_hours''] else [])"

definition score_employee_overload ::
  "overload_input \<Rightarrow> scoring_config \<Rightarrow> timestamp \<Rightarrow> risk_result res" where
  "score_employee_overload i config scored_at =
    (if missing_mandatory i \<noteq> []
     then overload_insufficient i config scored_at (missing_mandatory i) []
     else if age_hours scored_at (oi_evidence_timestamp i)
             > fam_max_evidence_age_hours (sc_employee_overload config)
     then overload_insufficient i config scored_at [] [''stale_evidence'']
     else case (oi_remaining_estimated_hours i, oi_available_capacity_hours i) of
       (Some remaining, Some capacity) \<Rightarrow>
         bindr (fdiv remaining capacity) (\<lambda>utilization.
         bindr (foldr_res (overload_step i utilization) ([], [], 0)
                  (fam_factors (sc_employee_overload config))) (\<lambda>(factors, missing, coverage).
           if overload_confidence coverage = InsufficientData
           then overload_insufficient i config scored_at missing []
           else let raw_score = py_sum (map fc_contribution_points factors);
                    score = round_half_even (clamp raw_score 0 100) in
             bindr (risk_level_for_score score) (\<lambda>level.
             make_risk_result \<lparr>rr_subject_id = oi_employee_id i,
               rr_environment = oi_environment i, rr_score = Some score,
               rr_level = Some level, rr_confidence = overload_confidence coverage,
               rr_scored_at = scored_at, rr_evidence_timestamp = oi_evidence_timestamp i,
               rr_scoring_model_version = fam_version (sc_employee_overload config),
               rr_factors = factors, rr_thresholds = sc_thresholds config,
               rr_evidence_references = factor_references factors,
               rr_missing_evidence = missing, rr_excluded_evidence = []\<rparr>)))
     | _ \<Rightarrow> Inl AssertionError)"

section \<open>family.py\<close>

definition family_insufficient ::
  "string \<Rightarrow> environment \<Rightarrow> timestamp \<Rightarrow> timestamp \<Rightarrow> family_config \<Rightarrow> (string \<times> int) list
     \<Rightarrow> string list \<Rightarrow> string list \<Rightarrow> risk_result res" where
  "family_insufficient subject_id env evidence_timestamp scored_at config thresholds missing excluded =
     make_risk_result \<lparr>rr_subject_id = subject_id, rr_environment = env,
       rr_score = None, rr_level = None, rr_confidence = InsufficientData,
       rr_scored_at = scored_at, rr_evidence_timestamp = evidence_timestamp,
       rr_scoring_model_version = fam_version config, rr_factors = [],
       rr_thresholds = thresholds, rr_evidence_references = [],
       rr_missing_evidence = missing, rr_excluded_evidence = excluded\<rparr>"

definition risk_direction_value :: "direction \<Rightarrow> pyfloat \<Rightarrow> pyfloat" where
  "risk_direction_value dir value =
     (if dir = InverseRisk \<or> dir = Protective then fsub 1 value else value)"

definition family_step ::
  "(string \<times> pyfloat option) list \<Rightarrow> references \<Rightarrow> family_scan \<Rightarrow> string \<times> factor_config
     \<Rightarrow> family_scan res" where
  "family_step values refs st entry =
    (case (st, entry) of ((factors, missing, coverage), (name, settings)) \<Rightarrow>
      (let references = dict_get refs name [] in
       case dict_get values name None of
         None \<Rightarrow> Inr (factors, missing @ [name], coverage)
       | Some value \<Rightarrow>
          (if references = [] then Inr (factors, missing @ [name], coverage)
           else let risk_value = risk_direction_value (cf_direction settings) value in
             bindr (make_factor name value risk_value (cf_weight settings)
                (cf_direction settings)
                (fmul (fmul risk_value (cf_weight settings)) 100) references) (\<lambda>factor.
             Inr (factors @ [factor], missing, fadd coverage (cf_weight settings))))))"

definition score_normalized_family ::
  "string \<Rightarrow> environment \<Rightarrow> (string \<times> pyfloat option) list \<Rightarrow> references \<Rightarrow> timestamp
     \<Rightarrow> timestamp \<Rightarrow> family_config \<Rightarrow> (string \<times> int) list \<Rightarrow> risk_result res" where
  "score_normalized_family subject_id env values refs evidence_timestamp scored_at config thresholds =
    (if age_hours scored_at evidence_timestamp > fam_max_evidence_age_hours config
     then family_insufficient subject_id env evidence_timestamp scored_at config thresholds
            [] [''stale_evidence'']
     else bindr (foldr_res (family_step values refs) ([], [], 0) (fam_factors config))
       (\<lambda>(factors, missing, coverage).
          if confidence_for_coverage coverage = InsufficientData
          then family_insufficient subject_id env evidence_timestamp scored_at config thresholds
                 missing []
          else let score = round_half_even
                     (clamp (py_sum (map fc_contribution_points factors)) 0 100) in
            bindr (risk_level_for_score score) (\<lambda>level.
            make_risk_result \<lparr>rr_subject_id = subject_id, rr_environment = env,
              rr_score = Some score, rr_level = Some level,
              rr_confidence = confidence_for_coverage coverage,
              rr_scored_at = scored_at, rr_evidence_timestamp = evidence_timestamp,
              rr_scoring_model_version = fam_version config, rr_factors = factors,
              rr_thresholds = thresholds,
              rr_evidence_references = factor_references factors,
              rr_missing_evidence = missing, rr_excluded_evidence = []\<rparr>)))"

section \<open>task\_fit.py and project\_delivery.py\<close>

text \<open>\<open>getattr\<close> on the score attributes; any other configured name has no such attribute.\<close>

definition task_fit_attributes :: "task_fit_input \<Rightarrow> (string \<times> pyfloat option) list" where
  "task_fit_attributes i =
    [(''required_skill_gap'', tf_required_skill_gap i),
     (''difficulty_seniority_mismatch'', tf_difficulty_seniority_mismatch i),
     (''deadline_pressure'', tf_deadline_pressure i),
     (''dependency_impact'', tf_dependency_impact i),
     (''task_criticality'', tf_task_criticality i),
     (''similar_task_evidence'', tf_similar_task_evidence i),
     (''mentoring_review_support'', tf_mentoring_review_support i)]"

definition project_delivery_attributes ::
  "project_delivery_input \<Rightarrow> (string \<times> pyfloat option) list" where
  "project_delivery_attributes i =
    [(''schedule_gap'', pd_schedule_gap i),
     (''remaining_capacity_pressure'', pd_remaining_capacity_pressure i),
     (''blocked_overdue_work'', pd_blocked_overdue_work i),
     (''workload_concentration'', pd_workload_concentration i),
     (''unplanned_work'', pd_unplanned_work i),
     (''critical_weak_fit'', pd_critical_weak_fit i)]"

definition getattrs ::
  "(string \<times> pyfloat option) list \<Rightarrow> string list \<Rightarrow> (string \<times> pyfloat option) list res" where
  "getattrs attributes names =
     map_res (\<lambda>name. case map_of attributes name of
         None \<Rightarrow> Inl (OtherException ''AttributeError'')
       | Some v \<Rightarrow> Inr (name, v)) names"

definition score_task_fit ::
  "task_fit_input \<Rightarrow> scoring_config \<Rightarrow> timestamp \<Rightarrow> risk_result res" where
  "score_task_fit i config scored_at =
     bindr (getattrs (task_fit_attributes i) (map fst (fam_factors (sc_task_fit config))))
       (\<lambda>values. score_normalized_family (tf_task_id i) (tf_environment i) values
          (tf_evidence_references i) (tf_evidence_timestamp i) scored_at
          (sc_task_fit config) (sc_thresholds config))"

definition score_project_delivery ::
  "project_delivery_input \<Rightarrow> scoring_config \<Rightarrow> timestamp \<Rightarrow> risk_result res" where
  "score_project_delivery i config scored_at =
     bindr (getattrs (project_delivery_attributes i)
              (map fst (fam_factors (sc_project_delivery config))))
       (\<lambda>values. score_normalized_family (pd_project_id i) (pd_environment i) values
          (pd_evidence_references i) (pd_evidence_timestamp i) scored_at
          (sc_project_delivery config) (sc_thresholds config))"

section \<open>Building blocks\<close>

lemma clamp_bounds: "lo \<le> hi \<Longrightarrow> lo \<le> clamp v lo hi \<and> clamp v lo hi \<le> hi"
  by (simp add: clamp_def)

lemma normalize_capped_total:
  assumes "0 < cap"
  shows "\<exists>q. normalize_capped v cap = Inr q \<and> 0 \<le> q \<and> q \<le> 1"
  using assms by (simp add: normalize_capped_def fdiv_def clamp_bounds)

lemma normalize_capped_mono:
  assumes "normalize_capped v cap = Inr q" and "normalize_capped v' cap = Inr q'" and "v \<le> v'"
  shows "q \<le> q'"
proof -
  from assms(1,2) have cap: "0 < cap"
    and q: "q = clamp (fl (v / cap)) 0 1" "q' = clamp (fl (v' / cap)) 0 1"
    by (auto simp: normalize_capped_def fdiv_def split: if_splits)
  from cap assms(3) have "fl (v / cap) \<le> fl (v' / cap)"
    by (intro fl_mono divide_right_mono) auto
  then show ?thesis unfolding q clamp_def by (intro max.mono min.mono) auto
qed

lemma overload_confidence_eq: "overload_confidence = confidence_for_coverage"
  by (rule ext) (simp add: overload_confidence_def confidence_for_coverage_def)

lemma confidence_insufficient_iff:
  "confidence_for_coverage c = InsufficientData \<longleftrightarrow> c < fl (6/10)"
proof -
  have "fl (6/10) \<le> fl (3/4)" "fl (3/4) \<le> fl (9/10)" by (intro fl_mono, simp)+
  then show ?thesis by (auto simp: confidence_for_coverage_def)
qed

lemma risk_level_total:
  assumes "0 \<le> s" and "s \<le> 100"
  shows "\<exists>l. risk_level_for_score s = Inr l"
  using assms by (auto simp: risk_level_for_score_def)

lemma rounded_score_bounds:
  "0 \<le> round_half_even (clamp v 0 100)" "round_half_even (clamp v 0 100) \<le> 100"
  using round_half_even_mono [of 0 "clamp v 0 100"] round_half_even_mono [of "clamp v 0 100" 100]
    clamp_bounds [of 0 100 v] by simp_all

lemma make_factor_Inr_iff [res_elims]:
  "make_factor name raw n w d p refs = Inr f \<longleftrightarrow> 0 \<le> n \<and> n \<le> 1 \<and> 0 \<le> w \<and> w \<le> 1 \<and>
     f = \<lparr>fc_name = name, fc_raw_value = raw, fc_normalized_value = n, fc_weight = w,
          fc_direction = d, fc_contribution_points = p, fc_evidence_references = refs\<rparr>"
  by (auto simp: make_factor_def)

lemma unit_risk_direction:
  assumes "unit_float v"
  shows "0 \<le> risk_direction_value d v" and "risk_direction_value d v \<le> 1"
  using assms fl_unit_interval [of "1 - v"]
  by (auto simp: risk_direction_value_def unit_float_def fsub_def)

section \<open>The factor loop\<close>

text \<open>A step that either records a missing factor or appends a contribution.\<close>

lemma collect_loop:
  assumes "\<And>x fs m c. x \<in> set xs \<Longrightarrow> step (fs, m, c) x =
     (if cov x then Inr (fs @ [mk x], m, fadd c (w x)) else Inr (fs, m @ [mn x], c))"
  shows "foldr_res step (fs, m, c) xs =
     Inr (fs @ map mk (filter cov xs), m @ map mn (filter (Not \<circ> cov) xs),
          foldl fadd c (map w (filter cov xs)))"
  using assms
proof (induction xs arbitrary: fs m c)
  case Nil
  then show ?case by simp
next
  case (Cons x xs)
  from Cons.prems have "step (fs, m, c) x =
     (if cov x then Inr (fs @ [mk x], m, fadd c (w x)) else Inr (fs, m @ [mn x], c))"
    by simp
  with Cons.IH Cons.prems show ?case by simp
qed

definition weight_of :: "string \<times> factor_config \<Rightarrow> pyfloat" where
  "weight_of entry = cf_weight (snd entry)"

definition coverage_of :: "(string \<times> factor_config) list \<Rightarrow> pyfloat" where
  "coverage_of entries = foldl fadd 0 (map weight_of entries)"

definition family_covered ::
  "(string \<times> pyfloat option) list \<Rightarrow> references \<Rightarrow> string \<times> factor_config \<Rightarrow> bool" where
  "family_covered values refs entry \<longleftrightarrow>
     dict_get values (fst entry) None \<noteq> None \<and> dict_get refs (fst entry) [] \<noteq> []"

definition family_factor ::
  "(string \<times> pyfloat option) list \<Rightarrow> references \<Rightarrow> string \<times> factor_config \<Rightarrow> factor_contribution"
where
  "family_factor values refs entry =
     (let name = fst entry; cfg = snd entry; value = the (dict_get values name None);
          rv = risk_direction_value (cf_direction cfg) value
      in \<lparr>fc_name = name, fc_raw_value = value, fc_normalized_value = rv,
          fc_weight = cf_weight cfg, fc_direction = cf_direction cfg,
          fc_contribution_points = fmul (fmul rv (cf_weight cfg)) 100,
          fc_evidence_references = dict_get refs name []\<rparr>)"

lemma family_loop:
  assumes "list_all (valid_factor_config \<circ> snd) xs"
    and "\<forall>name. opt_all unit_float (dict_get values name None)"
  shows "foldr_res (family_step values refs) ([], [], 0) xs =
     Inr (map (family_factor values refs) (filter (family_covered values refs) xs),
          map fst (filter (Not \<circ> family_covered values refs) xs),
          coverage_of (filter (family_covered values refs) xs))"
proof -
  have "family_step values refs (fs, m, c) x =
     (if family_covered values refs x
      then Inr (fs @ [family_factor values refs x], m, fadd c (weight_of x))
      else Inr (fs, m @ [fst x], c))" if "x \<in> set xs" for x fs m c
  proof (cases x)
    case (Pair name cfg)
    with assms(1) that have cfg: "0 \<le> cf_weight cfg" "cf_weight cfg \<le> 1"
      by (auto simp: list_all_iff valid_factor_config_def)
    show ?thesis
    proof (cases "dict_get values name None")
      case None
      then show ?thesis by (simp add: Pair family_step_def family_covered_def)
    next
      case (Some v)
      from assms(2) have "opt_all unit_float (dict_get values name None)" by blast
      with Some have "unit_float v" by simp
      from Some cfg unit_risk_direction [OF this, of "cf_direction cfg"] show ?thesis
        by (simp add: Pair family_step_def family_covered_def family_factor_def weight_of_def
            make_factor_def Let_def)
    qed
  qed
  from collect_loop [of xs "family_step values refs", OF this, of "[]" "[]" 0]
  show ?thesis by (simp add: coverage_of_def comp_def)
qed

definition overload_covered ::
  "overload_input \<Rightarrow> pyfloat \<Rightarrow> string \<times> factor_config \<Rightarrow> bool" where
  "overload_covered i u entry \<longleftrightarrow> overload_raw_value i u (fst entry) \<noteq> None \<and>
     dict_get (oi_evidence_references i) (fst entry) [] \<noteq> []"

definition overload_factor ::
  "overload_input \<Rightarrow> pyfloat \<Rightarrow> string \<times> factor_config \<Rightarrow> factor_contribution" where
  "overload_factor i u entry =
     (let name = fst entry; cfg = snd entry; raw = the (overload_raw_value i u name);
          n = clamp (fl (raw / cf_normalization_cap cfg)) 0 1
      in \<lparr>fc_name = name, fc_raw_value = raw, fc_normalized_value = n,
          fc_weight = cf_weight cfg, fc_direction = cf_direction cfg,
          fc_contribution_points = fmul (fmul n (cf_weight cfg)) 100,
          fc_evidence_references = dict_get (oi_evidence_references i) name []\<rparr>)"

lemma overload_loop:
  assumes "list_all (valid_factor_config \<circ> snd) xs"
  shows "foldr_res (overload_step i u) ([], [], 0) xs =
     Inr (map (overload_factor i u) (filter (overload_covered i u) xs),
          map (\<lambda>e. dict_get FACTOR_INPUTS (fst e) (fst e)) (filter (Not \<circ> overload_covered i u) xs),
          coverage_of (filter (overload_covered i u) xs))"
proof -
  have "overload_step i u (fs, m, c) x =
     (if overload_covered i u x
      then Inr (fs @ [overload_factor i u x], m, fadd c (weight_of x))
      else Inr (fs, m @ [dict_get FACTOR_INPUTS (fst x) (fst x)], c))" if "x \<in> set xs" for x fs m c
  proof (cases x)
    case (Pair name cfg)
    with assms(1) that have cfg: "0 \<le> cf_weight cfg" "cf_weight cfg \<le> 1"
      "0 < cf_normalization_cap cfg"
      by (auto simp: list_all_iff valid_factor_config_def)
    then show ?thesis
      using clamp_bounds [of 0 1 "fl (the (overload_raw_value i u name) / cf_normalization_cap cfg)"]
      by (cases "overload_raw_value i u name")
        (auto simp: Pair overload_step_def overload_covered_def overload_factor_def weight_of_def
          make_factor_def normalize_capped_def fdiv_def Let_def)
  qed
  from collect_loop [of xs "overload_step i u", OF this, of "[]" "[]" 0]
  show ?thesis by (simp add: coverage_of_def)
qed

section \<open>Results are well formed\<close>

definition result_wf :: "risk_result \<Rightarrow> bool" where
  "result_wf r \<longleftrightarrow>
    (case rr_score r of
       None \<Rightarrow> rr_level r = None \<and> rr_confidence r = InsufficientData \<and>
         rr_factors r = [] \<and> rr_evidence_references r = []
     | Some s \<Rightarrow> 0 \<le> s \<and> s \<le> 100 \<and> rr_confidence r \<noteq> InsufficientData \<and>
         (\<exists>l. rr_level r = Some l \<and> risk_level_for_score s = Inr l) \<and>
         rr_evidence_references r = factor_references (rr_factors r) \<and>
         (\<forall>f \<in> set (rr_factors r). fc_evidence_references f \<noteq> [] \<and>
            0 \<le> fc_normalized_value f \<and> fc_normalized_value f \<le> 1))"

lemmas insufficient_defs =
  overload_insufficient_def family_insufficient_def make_risk_result_def

definition is_stale :: "timestamp \<Rightarrow> timestamp \<Rightarrow> family_config \<Rightarrow> bool" where
  "is_stale scored_at evidence_at cfg \<longleftrightarrow> age_hours scored_at evidence_at > fam_max_evidence_age_hours cfg"

lemma factor_refs_ok:
  "f \<in> set (map (family_factor values refs) (filter (family_covered values refs) xs)) \<Longrightarrow>
     fc_evidence_references f \<noteq> []"
  "f \<in> set (map (overload_factor i u) (filter (overload_covered i u) xs)) \<Longrightarrow>
     fc_evidence_references f \<noteq> [] \<and> 0 \<le> fc_normalized_value f \<and> fc_normalized_value f \<le> 1"
  by (auto simp: family_factor_def family_covered_def overload_factor_def overload_covered_def
      Let_def clamp_bounds)

lemma family_factor_bounds:
  assumes "\<forall>name. opt_all unit_float (dict_get values name None)"
    and "f \<in> set (map (family_factor values refs) (filter (family_covered values refs) xs))"
  shows "0 \<le> fc_normalized_value f \<and> fc_normalized_value f \<le> 1"
proof -
  from assms(2) obtain e where e: "f = family_factor values refs e" "family_covered values refs e"
    by auto
  then obtain v where v: "dict_get values (fst e) None = Some v"
    by (auto simp: family_covered_def)
  have "opt_all unit_float (dict_get values (fst e) None)" using assms(1) by blast
  with v have "unit_float v" by simp
  with e v show ?thesis by (simp add: family_factor_def Let_def unit_risk_direction)
qed

text \<open>
  The family score is total and well formed.  For every validated input and
  configuration \<open>score_normalized_family\<close> returns a result, whatever evidence is missing;
  the result has a score exactly when the evidence is fresh and its coverage reaches the
  lowest confidence band, the score is within 0..100 with the level of its threshold band,
  and the factors are exactly the configured ones with a value and a reference, in
  configuration order, the others being listed as missing.
\<close>

theorem family_score_total:
  assumes cfg: "valid_family_config config"
    and vals: "\<forall>name. opt_all unit_float (dict_get values name None)"
  shows "\<exists>r. score_normalized_family sid env values refs ev now config th = Inr r \<and> result_wf r \<and>
     (rr_score r = None \<longleftrightarrow> is_stale now ev config \<or>
        coverage_of (filter (family_covered values refs) (fam_factors config)) < fl (6/10)) \<and>
     (rr_score r \<noteq> None \<longrightarrow> map fc_name (rr_factors r) =
        map fst (filter (family_covered values refs) (fam_factors config))) \<and>
     (\<not> is_stale now ev config \<longrightarrow> rr_missing_evidence r =
        map fst (filter (Not \<circ> family_covered values refs) (fam_factors config)))"
proof -
  let ?cov = "family_covered values refs" and ?xs = "fam_factors config"
  let ?fs = "map (family_factor values refs) (filter ?cov ?xs)"
  from cfg have "list_all (valid_factor_config \<circ> snd) ?xs" by (simp add: valid_family_config_def)
  note loop = family_loop [OF this vals, of refs]
  have names: "map fc_name ?fs = map fst (filter ?cov ?xs)"
    by (simp add: family_factor_def Let_def)
  have refs: "\<forall>f \<in> set ?fs. fc_evidence_references f \<noteq> [] \<and>
      0 \<le> fc_normalized_value f \<and> fc_normalized_value f \<le> 1"
    using factor_refs_ok(1) family_factor_bounds [OF vals] by blast
  let ?s = "round_half_even (clamp (py_sum (map fc_contribution_points ?fs)) 0 100)"
  obtain l where l: "risk_level_for_score ?s = Inr l"
    using risk_level_total rounded_score_bounds by blast
  consider "is_stale now ev config"
    | "\<not> is_stale now ev config" "coverage_of (filter ?cov ?xs) < fl (6/10)"
    | "\<not> is_stale now ev config" "\<not> coverage_of (filter ?cov ?xs) < fl (6/10)" by blast
  then show ?thesis
  proof cases
    case 1
    then show ?thesis
      by (simp add: score_normalized_family_def is_stale_def insufficient_defs result_wf_def)
  next
    case 2
    then show ?thesis
      by (simp add: score_normalized_family_def is_stale_def loop confidence_insufficient_iff
          insufficient_defs result_wf_def)
  next
    case 3
    then show ?thesis using names refs l
      by (simp add: score_normalized_family_def is_stale_def loop confidence_insufficient_iff
          make_risk_result_def rounded_score_bounds result_wf_def Let_def del: map_map)
  qed
qed


text \<open>
  Direction of a factor: more of an increasing factor never lowers its normalised risk
  and contribution, more of an inverse or protective factor never raises them.
\<close>

theorem contribution_direction:
  assumes "0 \<le> w" and "v \<le> v'"
  shows "(d = IncreasesRisk \<longrightarrow>
            fmul (fmul (risk_direction_value d v) w) 100
              \<le> fmul (fmul (risk_direction_value d v') w) 100) \<and>
     (d \<noteq> IncreasesRisk \<longrightarrow>
            fmul (fmul (risk_direction_value d v') w) 100
              \<le> fmul (fmul (risk_direction_value d v) w) 100)"
proof -
  have mono: "fmul (fmul a w) 100 \<le> fmul (fmul b w) 100" if "a \<le> b" for a b
    using that assms(1) unfolding fmul_def by (intro fl_mono mult_right_mono) auto
  have "fsub 1 v' \<le> fsub 1 v" using assms(2) unfolding fsub_def by (intro fl_mono) simp
  with assms(2) mono show ?thesis
    by (cases d) (simp_all add: risk_direction_value_def)
qed

section \<open>The shipped configuration\<close>

lemma shipped_weights_valid:
  "weights_sum_to_one (sc_employee_overload shipped_config)"
  "weights_sum_to_one (sc_task_fit shipped_config)"
  "weights_sum_to_one (sc_project_delivery shipped_config)"
  by code_simp+

lemma fl_percent_valid:
  assumes "0 < p" and "p \<le> 100"
  shows "0 < fl (of_int p / 100)" and "fl (of_int p / 100) \<le> 1"
proof -
  have "is_float (of_int 1 * 2 powi (- 7))" by (rule is_float_dyadic) auto
  then have f: "is_float (2 powi (- 7))" by simp
  have "2 powi (- 7) = (1/128 :: rat)" by (simp add: power_int_def power_divide)
  with assms(1) have "2 powi (- 7) \<le> rat_of_int p / 100"
    using of_int_le_iff [of 1 p, where 'a = rat] by (simp add: pos_le_divide_eq)
  with f have "2 powi (- 7) \<le> fl (of_int p / 100)" by (rule fl_ge_float)
  then show "0 < fl (of_int p / 100)" using powi2_pos [of "- 7"] by linarith
  show "fl (of_int p / 100) \<le> 1"
    using assms(2) of_int_le_iff [of p 100, where 'a = rat] by (intro fl_le_float) auto
qed

lemma yaml_factor_valid:
  assumes "0 < p" "p \<le> 100" "0 < c"
  shows "valid_factor_config (snd (yaml_factor name p d c))"
  using assms fl_percent_valid [of p] fl_ge_float [of 1 "of_int c"]
    of_int_le_iff [of 1 c, where 'a = rat]
  by (simp add: yaml_factor_def valid_factor_config_def)

lemma yaml_factor_name [simp]: "fst (yaml_factor name p d c) = name"
  by (simp add: yaml_factor_def)

lemma shipped_factors_valid:
  "list_all (valid_factor_config \<circ> snd) (fam_factors (sc_employee_overload shipped_config))"
  "list_all (valid_factor_config \<circ> snd) (fam_factors (sc_task_fit shipped_config))"
  "list_all (valid_factor_config \<circ> snd) (fam_factors (sc_project_delivery shipped_config))"
  "distinct (map fst (fam_factors (sc_employee_overload shipped_config)))"
  "distinct (map fst (fam_factors (sc_task_fit shipped_config)))"
  "distinct (map fst (fam_factors (sc_project_delivery shipped_config)))"
  "0 < fam_max_evidence_age_hours (sc_employee_overload shipped_config)"
  "0 < fam_max_evidence_age_hours (sc_task_fit shipped_config)"
  "0 < fam_max_evidence_age_hours (sc_project_delivery shipped_config)"
  by (simp_all add: shipped_config_def yaml_factor_valid)

lemma shipped_families_valid:
  "valid_family_config (sc_employee_overload shipped_config)"
  "valid_family_config (sc_task_fit shipped_config)"
  "valid_family_config (sc_project_delivery shipped_config)"
  using shipped_factors_valid shipped_weights_valid by (simp_all add: valid_family_config_def)

text \<open>
  The shipped scoring configuration is accepted: in binary64 with compensated
  summation the weights of each family are within 1e-9 of 1.0, all factors are valid, and
  the weight validators of the loader return each family unchanged.
\<close>

theorem shipped_config_valid:
  "valid_scoring_config shipped_config \<and>
   validate_overload_weights (sc_employee_overload shipped_config)
     = Inr (sc_employee_overload shipped_config) \<and>
   validate_family_weights (sc_task_fit shipped_config) = Inr (sc_task_fit shipped_config) \<and>
   validate_family_weights (sc_project_delivery shipped_config)
     = Inr (sc_project_delivery shipped_config)"
  using shipped_families_valid shipped_weights_valid
  by (simp add: valid_scoring_config_def validate_overload_weights_def validate_family_weights_def)

section \<open>Witnesses\<close>

definition sample_overload :: overload_input where
  "sample_overload = \<lparr>oi_employee_id = ''e-1'', oi_environment = Prod,
     oi_remaining_estimated_hours = Some 60, oi_available_capacity_hours = Some 40,
     oi_overdue_tasks = Some 2, oi_blocked_or_blocking_tasks = Some 1,
     oi_urgent_high_priority_tasks = Some 3, oi_due_soon_tasks = Some 2,
     oi_active_tasks = Some 6, oi_concurrent_projects = None, oi_stale_tasks = None,
     oi_evidence_timestamp = 0,
     oi_evidence_references =
       map (\<lambda>n. (n, [''ref''])) [''utilization'', ''overdue_work'', ''blocked_work'',
         ''priority_load'', ''due_soon_load'', ''active_task_count'']\<rparr>"

lemma sample_overload_valid: "valid_overload_input sample_overload"
  using is_float_int [of 60] is_float_int [of 40]
  by (simp add: sample_overload_def valid_overload_input_def)

theorem family_score_total_witness:
  "\<exists>r. score_normalized_family ''t-1'' Prod [(''required_skill_gap'', Some 1)]
        [(''required_skill_gap'', [''ref''])] 0 0 (sc_task_fit shipped_config) [] = Inr r \<and> result_wf r"
proof -
  have "unit_float 1" using is_float_int [of 1] by (simp add: unit_float_def)
  then have "\<forall>name. opt_all unit_float (dict_get [(''required_skill_gap'', Some 1)] name None)"
    by (simp add: dict_get_def)
  from family_score_total [OF shipped_families_valid(2) this] show ?thesis by blast
qed


theorem contribution_direction_witness:
  "fmul (fmul (risk_direction_value Protective 1) (fl (5/100))) 100
     \<le> fmul (fmul (risk_direction_value Protective (1/2)) (fl (5/100))) 100"
  using contribution_direction [of "fl (5/100)" "1/2" 1 Protective] by (simp add: fl_nonneg)

text \<open>
  Evidence for the first six factors of the shipped overload family has weights adding
  up to exactly 0.90, the bound of the high confidence band, but the binary64 accumulation
  of the loop gives a coverage below \<open>0.9\<close>: the score is returned with medium confidence.
\<close>

theorem ninety_percent_coverage_is_medium:
  "sum_list (map (\<lambda>p. rat_of_int p / 100) [30, 15, 15, 10, 10, 10]) = 9/10 \<and>
   map weight_of (take 6 (fam_factors (sc_employee_overload shipped_config)))
     = map (\<lambda>p. fl (rat_of_int p / 100)) [30, 15, 15, 10, 10, 10] \<and>
   map fst (filter (overload_covered sample_overload (3/2))
      (fam_factors (sc_employee_overload shipped_config)))
     = map fst (take 6 (fam_factors (sc_employee_overload shipped_config))) \<and>
   coverage_of (take 6 (fam_factors (sc_employee_overload shipped_config))) < fl (9/10) \<and>
   (\<exists>r. score_employee_overload sample_overload shipped_config 0 = Inr r \<and>
        rr_confidence r = ConfMedium)"
proof (intro conjI)
  show "sum_list (map (\<lambda>p. rat_of_int p / 100) [30, 15, 15, 10, 10, 10]) = 9/10" by simp
  show "map weight_of (take 6 (fam_factors (sc_employee_overload shipped_config)))
     = map (\<lambda>p. fl (rat_of_int p / 100)) [30, 15, 15, 10, 10, 10]"
    by (simp add: shipped_config_def yaml_factor_def weight_of_def)
  show "map fst (filter (overload_covered sample_overload (3/2))
      (fam_factors (sc_employee_overload shipped_config)))
     = map fst (take 6 (fam_factors (sc_employee_overload shipped_config)))"
    by code_simp
  show "coverage_of (take 6 (fam_factors (sc_employee_overload shipped_config))) < fl (9/10)"
    by code_simp
  have "case score_employee_overload sample_overload shipped_config 0 of
      Inl _ \<Rightarrow> False | Inr r \<Rightarrow> rr_confidence r = ConfMedium"
    by code_simp
  then show "\<exists>r. score_employee_overload sample_overload shipped_config 0 = Inr r \<and>
        rr_confidence r = ConfMedium"
    by (auto split: sum.splits)
qed

end
