(* ===== verification/PyJson.thy ===== *)
theory PyJson imports PyFloat "HOL-Library.Product_Lexorder" begin

text \<open>
  json.dumps(..., sort_keys=True, separators=(",", ":")), the canonical text every
  fingerprint and every audit hash of the code is taken of.  \<open>dumps\<close> sorts the keys of
  every object (\<open>canon\<close>) and prints the result (\<open>render\<close>).  The text of a float is the
  argument \<open>fr\<close>, with what is documented of repr on floats stated as \<open>float_repr_ok\<close>.
  The lemmas show that the printed text determines the canonical value, so that two
  materials with the same text are equal up to the order of keys.
\<close>

section \<open>Values and printing\<close>

datatype json = JNull | JBool bool | JInt int | JFloat pyfloat | JStr string
  | JList "json list" | JObj "(string \<times> json) list"

fun nat_digits :: "nat \<Rightarrow> string" where
  "nat_digits n = (if n < 10 then [char_of (48 + n)]
     else nat_digits (n div 10) @ [char_of (48 + n mod 10)])"

declare nat_digits.simps [simp del]

definition int_repr :: "int \<Rightarrow> string" where
  "int_repr n = (if n < 0 then CHR ''-'' # nat_digits (nat (- n)) else nat_digits (nat n))"

definition hex_digit :: "int \<Rightarrow> char" where
  "hex_digit n = ''0123456789abcdef'' ! nat n"

definition short_escapes :: "(char \<times> char) list" where
  "short_escapes = [(CHR 0x22, CHR 0x22), (CHR 0x5C, CHR 0x5C), (CHR 0x0A, CHR ''n''),
     (CHR 0x0D, CHR ''r''), (CHR 0x09, CHR ''t''), (CHR 0x0C, CHR ''f''), (CHR 0x08, CHR ''b'')]"

definition escape_char :: "char \<Rightarrow> string" where
  "escape_char c = (case map_of short_escapes c of
       Some d \<Rightarrow> [CHR 0x5C, d]
     | None \<Rightarrow> (if 32 \<le> (of_char c :: int) \<and> (of_char c :: int) \<le> 126 then [c]
                else [CHR 0x5C, CHR ''u'', CHR ''0'', CHR ''0'',
                      hex_digit (of_char c div 16), hex_digit (of_char c mod 16)]))"

definition quote :: "string \<Rightarrow> string" where
  "quote s = CHR 0x22 # concat (map escape_char s) @ [CHR 0x22]"

fun commas :: "string list \<Rightarrow> string" where
  "commas [] = []"
| "commas [x] = x"
| "commas (x # y # ys) = x @ CHR '','' # commas (y # ys)"

fun render :: "(pyfloat \<Rightarrow> string) \<Rightarrow> json \<Rightarrow> string" where
  "render fr JNull = ''null''"
| "render fr (JBool b) = (if b then ''true'' else ''false'')"
| "render fr (JInt n) = int_repr n"
| "render fr (JFloat x) = fr x"
| "render fr (JStr s) = quote s"
| "render fr (JList xs) = CHR ''['' # commas (map (render fr) xs) @ '']''"
| "render fr (JObj kvs) =
     CHR ''{'' # commas (map (\<lambda>(k, v). quote k @ CHR '':'' # render fr v) kvs) @ ''}''"

fun canon :: "json \<Rightarrow> json" where
  "canon (JList xs) = JList (map canon xs)"
| "canon (JObj kvs) = JObj (sort_key fst (map (\<lambda>(k, v). (k, canon v)) kvs))"
| "canon j = j"

definition dumps :: "(pyfloat \<Rightarrow> string) \<Rightarrow> json \<Rightarrow> string" where
  "dumps fr j = render fr (canon j)"

definition number_chars :: string where
  "number_chars = ''0123456789.e+-''"

definition float_repr_ok :: "(pyfloat \<Rightarrow> string) \<Rightarrow> bool" where
  "float_repr_ok fr \<longleftrightarrow> inj fr \<and>
     (\<forall>x. set (fr x) \<subseteq> set number_chars \<and> (CHR ''.'' \<in> set (fr x) \<or> CHR ''e'' \<in> set (fr x)))"

section \<open>Numbers\<close>

lemma nat_digits_chars: "set (nat_digits n) \<subseteq> set ''0123456789'' \<and> nat_digits n \<noteq> []"
proof (induction n rule: nat_digits.induct)
  case (1 n)
  have d: "char_of (48 + k) \<in> set ''0123456789''" if "k < 10" for k :: nat
  proof -
    have "list_all (\<lambda>k. char_of (48 + k :: nat) \<in> set ''0123456789'') [0..<10]" by code_simp
    then have "\<forall>k \<in> {0..<10}. char_of (48 + k :: nat) \<in> set ''0123456789''"
      by (simp only: list_all_iff set_upt)
    moreover have "k \<in> {0..<10}" using that by simp
    ultimately show ?thesis by (rule bspec)
  qed
  show ?case
    using 1 d [of n] d [of "n mod 10"] by (subst (1 2) nat_digits.simps) auto
qed

definition digits_value :: "string \<Rightarrow> nat" where
  "digits_value s = foldl (\<lambda>a c. a * 10 + (of_char c - 48)) 0 s"

lemma digits_value_nat_digits: "digits_value (nat_digits n) = n"
proof (induction n rule: nat_digits.induct)
  case (1 n)
  have "of_char (char_of (48 + k) :: char) - (48 :: nat) = k" if "k < 10" for k
    using that by simp
  with 1 show ?case
    by (subst nat_digits.simps) (auto simp: digits_value_def)
qed

lemma nat_digits_inj: "nat_digits m = nat_digits n \<Longrightarrow> m = n"
  by (metis digits_value_nat_digits)

lemma int_repr_inj: "int_repr m = int_repr n \<Longrightarrow> m = n"
proof -
  assume eq: "int_repr m = int_repr n"
  have nd: "nat_digits k \<noteq> CHR ''-'' # s" for k s
    using nat_digits_chars [of k] by (cases "nat_digits k") auto
  consider "m < 0" "n < 0" | "m < 0" "0 \<le> n" | "0 \<le> m" "n < 0" | "0 \<le> m" "0 \<le> n"
    by linarith
  then show "m = n"
  proof cases
    case 1
    with eq have "nat (- m) = nat (- n)" by (auto simp: int_repr_def intro: nat_digits_inj)
    with 1 show ?thesis by simp
  next
    case 2
    with eq have "nat_digits (nat n) = CHR ''-'' # nat_digits (nat (- m))" by (simp add: int_repr_def)
    with nd show ?thesis by blast
  next
    case 3
    with eq have "nat_digits (nat m) = CHR ''-'' # nat_digits (nat (- n))" by (simp add: int_repr_def)
    with nd show ?thesis by blast
  next
    case 4
    with eq have "nat m = nat n" by (auto simp: int_repr_def intro: nat_digits_inj)
    with 4 show ?thesis by simp
  qed
qed

lemma nat_digits_number:
  "set (nat_digits n) \<subseteq> set number_chars" "nat_digits n \<noteq> []"
  "CHR ''.'' \<notin> set (nat_digits n)" "CHR ''e'' \<notin> set (nat_digits n)"
proof -
  note d = nat_digits_chars [of n]
  show "nat_digits n \<noteq> []" using d by blast
  have "set ''0123456789'' \<subseteq> set number_chars" by (simp add: number_chars_def)
  with d show "set (nat_digits n) \<subseteq> set number_chars" by blast
  have "CHR ''.'' \<notin> set ''0123456789''" by simp
  with d show "CHR ''.'' \<notin> set (nat_digits n)" by blast
  have "CHR ''e'' \<notin> set ''0123456789''" by simp
  with d show "CHR ''e'' \<notin> set (nat_digits n)" by blast
qed

lemma int_repr_chars:
  "set (int_repr n) \<subseteq> set number_chars" "int_repr n \<noteq> []"
  "CHR ''.'' \<notin> set (int_repr n)" "CHR ''e'' \<notin> set (int_repr n)"
proof -
  have "CHR ''-'' \<in> set number_chars" by (simp add: number_chars_def)
  then show "set (int_repr n) \<subseteq> set number_chars" "int_repr n \<noteq> []"
    "CHR ''.'' \<notin> set (int_repr n)" "CHR ''e'' \<notin> set (int_repr n)"
    using nat_digits_number by (simp_all add: int_repr_def)
qed

section \<open>Strings\<close>

definition hex_value :: "char \<Rightarrow> int" where
  "hex_value d = int (length (takeWhile (\<lambda>c. c \<noteq> d) ''0123456789abcdef''))"

lemma hex_value_digit:
  assumes "0 \<le> k" and "k < 16"
  shows "hex_value (hex_digit k) = k"
proof -
  have "\<forall>k \<in> set [0, 1, 2, 3, 4, 5, 6, 7, 8, 9, 10, 11, 12, 13, 14, 15]. hex_value (hex_digit k) = k"
    by code_simp
  moreover from assms have "k \<in> set [0, 1, 2, 3, 4, 5, 6, 7, 8, 9, 10, 11, 12, 13, 14, 15]"
    by (simp; presburger)
  ultimately show ?thesis by (rule bspec)
qed

definition unescape :: "string \<Rightarrow> char" where
  "unescape s = (if hd s \<noteq> CHR 0x5C then hd s
     else if s ! 1 \<noteq> CHR ''u'' then the (map_of (map (\<lambda>(a, b). (b, a)) short_escapes) (s ! 1))
     else char_of (16 * hex_value (s ! 4) + hex_value (s ! 5)))"

definition escape_len :: "string \<Rightarrow> nat" where
  "escape_len s = (if hd s \<noteq> CHR 0x5C then 1 else if s ! 1 \<noteq> CHR ''u'' then 2 else 6)"

lemma escape_char_all:
  "escape_char c \<noteq> [] \<and> hd (escape_char c) \<noteq> CHR 0x22 \<and>
   length (escape_char c) = escape_len (escape_char c) \<and> unescape (escape_char c) = c"
proof (cases "map_of short_escapes c")
  case (Some d)
  then have "(c, d) \<in> set short_escapes" by (rule map_of_SomeD)
  with Some show ?thesis
    by (auto simp: escape_char_def escape_len_def unescape_def short_escapes_def)
next
  case None
  then have c: "c \<noteq> CHR 0x22" "c \<noteq> CHR 0x5C" by (auto simp: short_escapes_def)
  show ?thesis
  proof (cases "32 \<le> (of_char c :: int) \<and> (of_char c :: int) \<le> 126")
    case True
    with None c show ?thesis by (simp add: escape_char_def escape_len_def unescape_def)
  next
    case False
    let ?n = "of_char c :: int"
    have n: "0 \<le> ?n" "?n < 256"
      using pos_mod_bound [of 256 ?n] pos_mod_sign [of 256 ?n] by simp_all
    then have "hex_value (hex_digit (?n div 16)) = ?n div 16"
      "hex_value (hex_digit (?n mod 16)) = ?n mod 16"
      by (auto intro!: hex_value_digit)
    then have "char_of (16 * hex_value (hex_digit (?n div 16)) + hex_value (hex_digit (?n mod 16))) = c"
      by simp
    with None False c show ?thesis
      by (simp add: escape_char_def escape_len_def unescape_def eval_nat_numeral)
  qed
qed

lemma escape_char_props:
  "escape_char c \<noteq> []" "hd (escape_char c) \<noteq> CHR 0x22"
  "length (escape_char c) = escape_len (escape_char c)" "unescape (escape_char c) = c"
  using escape_char_all by blast+

lemma escape_char_prefix:
  assumes "escape_char c @ u = escape_char d @ v"
  shows "c = d \<and> u = v"
proof -
  have one: "escape_len (escape_char c @ u) = length (escape_char c)" for c u
    using escape_char_props(1,3) [of c]
    by (auto simp: escape_len_def nth_append split: if_splits)
  have "length (escape_char c) = length (escape_char d)"
    using one [of c u] one [of d v] assms by simp
  with assms have "escape_char c = escape_char d" "u = v" by simp_all
  then show ?thesis using escape_char_props(4) by metis
qed

lemma quote_prefix:
  assumes "quote s @ u = quote t @ v"
  shows "s = t \<and> u = v"
proof -
  have nq: "CHR 0x22 # w \<noteq> escape_char c @ w'" for c w w'
    using escape_char_props(1,2) [of c] by (cases "escape_char c") auto
  have "concat (map escape_char s) @ CHR 0x22 # u = concat (map escape_char t) @ CHR 0x22 # v
     \<Longrightarrow> s = t \<and> u = v"
  proof (induction s arbitrary: t)
    case Nil
    then show ?case
      using nq by (cases t) auto
  next
    case (Cons c s)
    show ?case
    proof (cases t)
      case Nil
      with Cons.prems show ?thesis
        using nq by (auto dest: sym)
    next
      case (Cons d t')
      with Cons.prems escape_char_prefix [of c _ d] have "c = d"
        and "concat (map escape_char s) @ CHR 0x22 # u = concat (map escape_char t') @ CHR 0x22 # v"
        by auto
      with Cons.IH [of t'] Cons show ?thesis by simp
    qed
  qed
  with assms show ?thesis by (simp add: quote_def)
qed

section \<open>The printed text determines the value\<close>

definition at_delimiter :: "string \<Rightarrow> bool" where
  "at_delimiter s \<longleftrightarrow> s = [] \<or> hd s \<in> set '',]}''"

lemma at_delimiter_Cons [simp]: "c \<in> set '',]}'' \<Longrightarrow> at_delimiter (c # s)"
  by (simp add: at_delimiter_def)

fun comma_tail :: "string list \<Rightarrow> string" where
  "comma_tail [] = []"
| "comma_tail (x # xs) = CHR '','' # x @ comma_tail xs"

lemma commas_Cons: "commas (x # xs) = x @ comma_tail xs"
  by (induction xs arbitrary: x) auto

lemma at_delimiter_tail [simp]: "c \<in> set '']}'' \<Longrightarrow> at_delimiter (comma_tail xs @ c # s)"
  by (cases xs) auto

definition prefix_code :: "('a \<Rightarrow> string) \<Rightarrow> 'a \<Rightarrow> bool" where
  "prefix_code f x \<longleftrightarrow> (\<forall>y s t. at_delimiter s \<longrightarrow> at_delimiter t \<longrightarrow> f x @ s = f y @ t \<longrightarrow> x = y \<and> s = t)"

lemma prefix_codeD:
  assumes "prefix_code f x" and "f x @ s = f y @ t" and "at_delimiter s" and "at_delimiter t"
  shows "x = y" and "s = t"
  using assms unfolding prefix_code_def by blast+

lemma comma_tail_prefix:
  assumes "\<forall>x \<in> set xs. prefix_code f x" and c: "c \<in> set '']}''"
    and "comma_tail (map f xs) @ c # s = comma_tail (map f ys) @ c # t"
  shows "xs = ys \<and> s = t"
  using assms(1,3)
proof (induction xs arbitrary: ys)
  case Nil
  with c show ?case by (cases ys) auto
next
  case (Cons x xs)
  show ?case
  proof (cases ys)
    case Nil
    with Cons.prems(2) c show ?thesis by auto
  next
    case (Cons y ys')
    from Cons.prems(2) have "f x @ (comma_tail (map f xs) @ c # s) = f y @ (comma_tail (map f ys') @ c # t)"
      by (simp add: Cons)
    from prefix_codeD [where f = f and x = x and y = y, OF _ this] Cons.prems(1) c
    have "x = y" "comma_tail (map f xs) @ c # s = comma_tail (map f ys') @ c # t" by simp_all
    with Cons.IH [of ys'] Cons.prems(1) Cons show ?thesis by simp
  qed
qed

lemma commas_prefix:
  assumes x: "\<forall>x \<in> set xs. prefix_code f x" and c: "c \<in> set '']}''"
    and ne: "\<And>y. f y \<noteq> [] \<and> hd (f y) \<noteq> c"
    and eq: "commas (map f xs) @ c # s = commas (map f ys) @ c # t"
  shows "xs = ys \<and> s = t"
proof -
  have clash: "c # u \<noteq> f y @ v" for y u v using ne [of y] by (cases "f y") auto
  show ?thesis
  proof (cases "xs = [] \<or> ys = []")
    case True
    with eq clash clash [symmetric] show ?thesis
      by (cases xs; cases ys) (auto simp: commas_Cons)
  next
    case False
    then obtain a as b bs where ab: "xs = a # as" "ys = b # bs" by (cases xs; cases ys) auto
    with eq have "f a @ (comma_tail (map f as) @ c # s) = f b @ (comma_tail (map f bs) @ c # t)"
      by (simp add: commas_Cons)
    from prefix_codeD [where f = f and x = a and y = b, OF _ this] x c ab
    have "a = b" "comma_tail (map f as) @ c # s = comma_tail (map f bs) @ c # t" by simp_all
    with comma_tail_prefix [of as f c s bs t] x c ab show ?thesis by simp
  qed
qed

lemma number_token:
  assumes "set x \<subseteq> set number_chars" "set y \<subseteq> set number_chars"
    and "at_delimiter s" "at_delimiter t" and "x @ s = y @ t"
  shows "x = y \<and> s = t"
proof -
  have tok: "takeWhile (\<lambda>c. c \<in> set number_chars) (z @ u) = z"
    if "set z \<subseteq> set number_chars" "at_delimiter u" for z u
    using that by (cases u) (auto simp: at_delimiter_def number_chars_def takeWhile_eq_all_conv
        takeWhile_append2 subset_iff)
  have "x = y" using tok [OF assms(1,3)] tok [OF assms(2,4)] assms(5) by simp
  with assms(5) show ?thesis by simp
qed

definition entry_text :: "(pyfloat \<Rightarrow> string) \<Rightarrow> string \<times> json \<Rightarrow> string" where
  "entry_text fr = (\<lambda>(k, v). quote k @ CHR '':'' # render fr v)"

lemma render_JObj: "render fr (JObj kvs) = CHR ''{'' # commas (map (entry_text fr) kvs) @ ''}''"
  by (simp add: entry_text_def)

lemma number_hd:
  assumes "float_repr_ok fr"
  shows "int_repr n = c # u \<Longrightarrow> c \<in> set number_chars" "fr x = c # u \<Longrightarrow> c \<in> set number_chars"
    "fr x \<noteq> []" "set (fr x) \<subseteq> set number_chars" "int_repr n \<noteq> fr x" "inj fr"
proof -
  from assms have f: "set (fr x) \<subseteq> set number_chars" "CHR ''.'' \<in> set (fr x) \<or> CHR ''e'' \<in> set (fr x)"
    by (auto simp: float_repr_ok_def)
  then show "fr x = c # u \<Longrightarrow> c \<in> set number_chars" "fr x \<noteq> []" "set (fr x) \<subseteq> set number_chars"
    "int_repr n \<noteq> fr x"
    using int_repr_chars [of n] by auto
  show "int_repr n = c # u \<Longrightarrow> c \<in> set number_chars" using int_repr_chars [of n] by auto
  show "inj fr" using assms by (simp add: float_repr_ok_def)
qed

lemma render_hd:
  assumes "float_repr_ok fr"
  shows "render fr a \<noteq> [] \<and> hd (render fr a) \<noteq> CHR '']'' \<and> hd (render fr a) \<noteq> CHR ''}''"
proof (cases a)
  case (JInt n)
  then show ?thesis using int_repr_chars [of n] by (cases "int_repr n") (auto simp: number_chars_def)
next
  case (JFloat x)
  then show ?thesis using number_hd(3,4) [OF assms, of x] by (cases "fr x") (auto simp: number_chars_def)
qed (auto simp: quote_def)

definition first_kind :: "json \<Rightarrow> nat" where
  "first_kind a = (case a of JNull \<Rightarrow> 0 | JBool True \<Rightarrow> 1 | JBool False \<Rightarrow> 2 | JInt _ \<Rightarrow> 3
     | JFloat _ \<Rightarrow> 3 | JStr _ \<Rightarrow> 4 | JList _ \<Rightarrow> 5 | JObj _ \<Rightarrow> 6)"

definition char_kind :: "char \<Rightarrow> nat" where
  "char_kind c = (if c = CHR ''n'' then 0 else if c = CHR ''t'' then 1 else if c = CHR ''f'' then 2
     else if c = CHR 0x22 then 4 else if c = CHR ''['' then 5 else if c = CHR ''{'' then 6 else 3)"

lemma char_kind_render:
  assumes "float_repr_ok fr"
  shows "char_kind (hd (render fr a @ s)) = first_kind a"
proof -
  have num: "char_kind c = 3" if "c \<in> set number_chars" for c
    using that by (auto simp: number_chars_def char_kind_def)
  show ?thesis
  proof (cases a)
    case (JInt n)
    then show ?thesis using int_repr_chars [of n] num
      by (cases "int_repr n") (auto simp: first_kind_def)
  next
    case (JFloat x)
    then show ?thesis using number_hd(3,4) [OF assms, of x] num
      by (cases "fr x") (auto simp: first_kind_def)
  qed (auto simp: quote_def first_kind_def char_kind_def)
qed

lemma render_prefix_code:
  assumes ok: "float_repr_ok fr"
  shows "prefix_code (render fr) a"
proof (induction a)
  case JNull
  show ?case unfolding prefix_code_def
  proof (intro allI impI)
    fix y s t assume eq: "render fr JNull @ s = render fr y @ t"
    then have "first_kind y = 0" using char_kind_render [OF ok] by (metis first_kind_def json.case(1))
    with eq show "JNull = y \<and> s = t" by (cases y) (auto simp: first_kind_def split: bool.splits)
  qed
next
  case (JBool b)
  show ?case unfolding prefix_code_def
  proof (intro allI impI)
    fix y s t assume eq: "render fr (JBool b) @ s = render fr y @ t"
    then have "first_kind y = first_kind (JBool b)" using char_kind_render [OF ok] by metis
    with eq show "JBool b = y \<and> s = t"
      by (cases y) (auto simp: first_kind_def split: bool.splits if_splits)
  qed
next
  case (JInt n)
  show ?case unfolding prefix_code_def
  proof (intro allI impI)
    fix y s t assume d: "at_delimiter s" "at_delimiter t" and eq: "render fr (JInt n) @ s = render fr y @ t"
    then have "first_kind y = first_kind (JInt n)" using char_kind_render [OF ok] by metis
    then consider m where "y = JInt m" | x where "y = JFloat x"
      by (cases y) (auto simp: first_kind_def split: bool.splits)
    then show "JInt n = y \<and> s = t"
    proof cases
      case 1
      with number_token [OF int_repr_chars(1) int_repr_chars(1) d] eq show ?thesis
        by (auto dest: int_repr_inj)
    next
      case 2
      with number_token [OF int_repr_chars(1) number_hd(4) [OF ok] d] eq number_hd(5) [OF ok]
      show ?thesis by auto
    qed
  qed
next
  case (JFloat x)
  show ?case unfolding prefix_code_def
  proof (intro allI impI)
    fix y s t assume d: "at_delimiter s" "at_delimiter t" and eq: "render fr (JFloat x) @ s = render fr y @ t"
    then have "first_kind y = first_kind (JFloat x)" using char_kind_render [OF ok] by metis
    then consider m where "y = JInt m" | z where "y = JFloat z"
      by (cases y) (auto simp: first_kind_def split: bool.splits)
    then show "JFloat x = y \<and> s = t"
    proof cases
      case 1
      with number_token [OF number_hd(4) [OF ok] int_repr_chars(1) d] eq number_hd(5) [OF ok]
      show ?thesis by (metis render.simps(3,4))
    next
      case 2
      with number_token [OF number_hd(4) [OF ok] number_hd(4) [OF ok] d, of x z] eq
      have "fr x = fr z" "s = t" by simp_all
      with 2 injD [OF number_hd(6) [OF ok]] show ?thesis by blast
    qed
  qed
next
  case (JStr k)
  show ?case unfolding prefix_code_def
  proof (intro allI impI)
    fix y s t assume eq: "render fr (JStr k) @ s = render fr y @ t"
    then have "first_kind y = first_kind (JStr k)" using char_kind_render [OF ok] by metis
    then obtain k' where "y = JStr k'" by (cases y) (auto simp: first_kind_def split: bool.splits)
    with eq show "JStr k = y \<and> s = t" by (auto dest: quote_prefix)
  qed
next
  case (JList xs)
  show ?case unfolding prefix_code_def
  proof (intro allI impI)
    fix y s t assume eq: "render fr (JList xs) @ s = render fr y @ t"
    then have "first_kind y = first_kind (JList xs)" using char_kind_render [OF ok] by metis
    then obtain ys where y: "y = JList ys" by (cases y) (auto simp: first_kind_def split: bool.splits)
    have "xs = ys \<and> s = t"
      by (rule commas_prefix [where f = "render fr" and c = "CHR '']''"])
        (use JList render_hd [OF ok] eq y in auto)
    with y show "JList xs = y \<and> s = t" by simp
  qed
next
  case (JObj kvs)
  have entry: "\<forall>e \<in> set kvs. prefix_code (entry_text fr) e"
  proof
    fix e assume e: "e \<in> set kvs"
    obtain k v where kv: "e = (k, v)" by (cases e)
    with e JObj have "prefix_code (render fr) v" by auto
    then show "prefix_code (entry_text fr) e"
      unfolding prefix_code_def kv by (auto simp: entry_text_def dest!: quote_prefix)
  qed
  show ?case unfolding prefix_code_def
  proof (intro allI impI)
    fix y s t assume eq: "render fr (JObj kvs) @ s = render fr y @ t"
    then have "first_kind y = first_kind (JObj kvs)" using char_kind_render [OF ok] by metis
    then obtain ls where y: "y = JObj ls" by (cases y) (auto simp: first_kind_def split: bool.splits)
    have "kvs = ls \<and> s = t"
      by (rule commas_prefix [where f = "entry_text fr" and c = "CHR ''}''"])
        (use entry eq y in \<open>auto simp: render_JObj entry_text_def quote_def simp del: render.simps(7)\<close>)
    with y show "JObj kvs = y \<and> s = t" by simp
  qed
qed

lemma render_inj:
  assumes "float_repr_ok fr" and "render fr a = render fr b"
  shows "a = b"
  using render_prefix_code [OF assms(1), of a] assms(2)
  by (auto simp: prefix_code_def at_delimiter_def)

lemma dumps_inj:
  assumes "float_repr_ok fr"
  shows "dumps fr a = dumps fr b \<longleftrightarrow> canon a = canon b"
  using render_inj [OF assms] by (auto simp: dumps_def)

section \<open>A representation of floats\<close>

text \<open>An injective numeral text, to instantiate the parameter in witnesses.\<close>

definition frac_repr :: "pyfloat \<Rightarrow> string" where
  "frac_repr x = (case quotient_of x of (p, q) \<Rightarrow> int_repr p @ CHR ''e'' # int_repr q)"

lemma frac_repr_ok: "float_repr_ok frac_repr"
proof -
  have "x = y" if "frac_repr x = frac_repr y" for x y
  proof -
    obtain p q p' q' where q: "quotient_of x = (p, q)" "quotient_of y = (p', q')"
      by (cases "quotient_of x", cases "quotient_of y") auto
    with that have "int_repr p @ CHR ''e'' # int_repr q = int_repr p' @ CHR ''e'' # int_repr q'"
      by (simp add: frac_repr_def)
    then have "int_repr p = int_repr p'" "int_repr q = int_repr q'"
      by (simp_all add: append_Cons_eq_iff int_repr_chars(4))
    then have "p = p'" "q = q'" by (auto dest: int_repr_inj)
    with q show ?thesis by (metis quotient_of_inject)
  qed
  then have "inj frac_repr" by (rule injI)
  moreover have "set (frac_repr x) \<subseteq> set number_chars \<and> CHR ''e'' \<in> set (frac_repr x)" for x
  proof -
    have "CHR ''e'' \<in> set number_chars" by (simp add: number_chars_def)
    then show ?thesis using int_repr_chars(1) by (cases "quotient_of x") (simp add: frac_repr_def)
  qed
  ultimately show ?thesis by (simp add: float_repr_ok_def)
qed

section \<open>json.dumps with its default separators\<close>

fun spaced :: "string list \<Rightarrow> string" where
  "spaced [] = []"
| "spaced [x] = x"
| "spaced (x # y # ys) = x @ '', '' @ spaced (y # ys)"

fun render_spaced :: "(pyfloat \<Rightarrow> string) \<Rightarrow> json \<Rightarrow> string" where
  "render_spaced fr (JList xs) = CHR ''['' # spaced (map (render_spaced fr) xs) @ '']''"
| "render_spaced fr (JObj kvs) =
     CHR ''{'' # spaced (map (\<lambda>(k, v). quote k @ '': '' @ render_spaced fr v) kvs) @ ''}''"
| "render_spaced fr j = render fr j"

end
