(* ===== verification/Runtime.thy ===== *)
theory Runtime imports PyJson RiskModels "HOL-Library.Multiset" begin

text \<open>
  What the components take from Python's runtime: the SHA-256 digest and the texts of
  floats, datetimes, dates and UUIDs are the fields of a record \<open>runtime\<close>, with the documented
  facts about the texts (distinct values have distinct texts) in \<open>runtime_ok\<close>.  Nothing is
  assumed of the digest: a statement about equal digests has an explicit collision as its
  other case.  The section on strings has the ASCII part of casefold, lower and strip, and
  the character classes of the validation patterns; texts of the model are ASCII.
\<close>

record runtime =
  rt_sha256 :: "string \<Rightarrow> string"
  rt_float :: "pyfloat \<Rightarrow> string"
  rt_datetime :: "timestamp \<Rightarrow> string"
  rt_isoformat :: "timestamp \<Rightarrow> string"
  rt_date :: "date \<Rightarrow> string"
  rt_uuid :: "uuid \<Rightarrow> string"
  rt_parse_uuid :: "string \<Rightarrow> uuid option"

definition runtime_ok :: "runtime \<Rightarrow> bool" where
  "runtime_ok rt \<longleftrightarrow> float_repr_ok (rt_float rt) \<and> inj (rt_datetime rt) \<and>
     inj (rt_isoformat rt) \<and> inj (rt_date rt) \<and>
     (\<forall>u. rt_parse_uuid rt (rt_uuid rt u) = Some u \<and> CHR '':'' \<notin> set (rt_uuid rt u))"

text \<open>\<open>uuid.UUID(text)\<close>\<close>

definition parse_uuid :: "runtime \<Rightarrow> string \<Rightarrow> uuid res" where
  "parse_uuid rt s = (case rt_parse_uuid rt s of
     None \<Rightarrow> Inl (ValueError ''badly formed hexadecimal UUID string'') | Some u \<Rightarrow> Inr u)"

lemma parse_uuid_text [simp]: "runtime_ok rt \<Longrightarrow> parse_uuid rt (rt_uuid rt u) = Inr u"
  by (simp add: parse_uuid_def runtime_ok_def)

lemma uuid_text_inj: "runtime_ok rt \<Longrightarrow> rt_uuid rt u = rt_uuid rt v \<longleftrightarrow> u = v"
  by (metis option.inject runtime_ok_def)

definition sample_runtime :: runtime where
  "sample_runtime = \<lparr>rt_sha256 = (\<lambda>s. s), rt_float = frac_repr, rt_datetime = int_repr,
     rt_isoformat = int_repr, rt_date = int_repr, rt_uuid = nat_digits,
     rt_parse_uuid = (\<lambda>s. Some (digits_value s))\<rparr>"

lemma sample_runtime_ok: "runtime_ok sample_runtime"
proof -
  have "CHR '':'' \<notin> set (nat_digits u)" for u
  proof -
    have "CHR '':'' \<notin> set ''0123456789''" by simp
    then show ?thesis using nat_digits_chars [of u] by blast
  qed
  then show ?thesis
    by (auto simp: runtime_ok_def sample_runtime_def frac_repr_ok digits_value_nat_digits
        intro: injI int_repr_inj)
qed

text \<open>\<open>sha256(json.dumps(material, sort_keys=True, ...)).hexdigest()\<close>\<close>

definition digest :: "runtime \<Rightarrow> json \<Rightarrow> string" where
  "digest rt j = rt_sha256 rt (dumps (rt_float rt) j)"

definition collision :: "runtime \<Rightarrow> json \<Rightarrow> json \<Rightarrow> bool" where
  "collision rt a b \<longleftrightarrow> dumps (rt_float rt) a \<noteq> dumps (rt_float rt) b \<and> digest rt a = digest rt b"

lemma digest_eq_iff:
  assumes "runtime_ok rt"
  shows "digest rt a = digest rt b \<longleftrightarrow> canon a = canon b \<or> collision rt a b"
  using dumps_inj [of "rt_float rt" a b] assms
  by (auto simp: digest_def collision_def runtime_ok_def)

definition digest_spaced :: "runtime \<Rightarrow> json \<Rightarrow> string" where
  "digest_spaced rt j = rt_sha256 rt (render_spaced (rt_float rt) (canon j))"

section \<open>Equality of canonical objects\<close>

definition json_opt :: "('a \<Rightarrow> json) \<Rightarrow> 'a option \<Rightarrow> json" where
  "json_opt f x = (case x of None \<Rightarrow> JNull | Some y \<Rightarrow> f y)"

definition json_strings :: "string list \<Rightarrow> json" where
  "json_strings xs = JList (map JStr xs)"

lemma canon_json_opt [simp]: "canon (json_opt f x) = json_opt (canon \<circ> f) x"
  by (cases x) (simp_all add: json_opt_def)

lemma canon_comp_atoms [simp]:
  "canon \<circ> JStr = JStr" "canon \<circ> JInt = JInt" "canon \<circ> JFloat = JFloat" "canon \<circ> JBool = JBool"
  "canon \<circ> (JStr \<circ> f) = JStr \<circ> f"
  by auto

lemma canon_json_strings [simp]: "canon (json_strings xs) = json_strings xs"
  by (simp add: json_strings_def comp_def)

lemma json_strings_eq [simp]: "json_strings xs = json_strings ys \<longleftrightarrow> xs = ys"
  by (simp add: json_strings_def inj_map_eq_map inj_def)

lemma json_opt_eq:
  assumes "\<And>a b. f a = f b \<longleftrightarrow> a = b" and "\<And>a. f a \<noteq> JNull"
  shows "json_opt f x = json_opt f y \<longleftrightarrow> x = y"
  using assms by (cases x; cases y) (auto simp: json_opt_def, metis)

lemma canon_object_entries:
  "set (sort_key fst (map (\<lambda>(k, v). (k, canon v)) kvs)) = (\<lambda>(k, v). (k, canon v)) ` set kvs"
  by simp

lemma canon_object_eq:
  assumes "canon (JObj kvs) = canon (JObj ls)" and "map fst kvs = map fst ls"
    and "distinct (map fst kvs)"
  shows "map (canon \<circ> snd) kvs = map (canon \<circ> snd) ls"
proof -
  let ?c = "\<lambda>(k, v). (k, canon v)"
  have sets: "set (map ?c kvs) = set (map ?c ls)"
  proof -
    from assms(1) have "sort_key fst (map ?c kvs) = sort_key fst (map ?c ls)" by simp
    then have "set (sort_key fst (map ?c kvs)) = set (sort_key fst (map ?c ls))" by (rule arg_cong)
    then show ?thesis by simp
  qed
  have len: "length kvs = length ls" using assms(2) by (metis length_map)
  show ?thesis
  proof (rule nth_equalityI)
    show "length (map (canon \<circ> snd) kvs) = length (map (canon \<circ> snd) ls)" using len by simp
    fix i assume i: "i < length (map (canon \<circ> snd) kvs)"
    then have "?c (kvs ! i) \<in> set (map ?c ls)" using sets by (metis length_map nth_map nth_mem)
    then obtain j where j: "j < length ls" "?c (ls ! j) = ?c (kvs ! i)"
      by (auto simp: in_set_conv_nth)
    then have "fst (ls ! j) = fst (kvs ! i)" by (auto simp: case_prod_beta)
    then have "map fst kvs ! j = map fst kvs ! i" using i j len assms(2) by (metis length_map nth_map)
    then have "j = i" using assms(3) i j len by (metis length_map nth_eq_iff_index_eq)
    with i j len show "map (canon \<circ> snd) kvs ! i = map (canon \<circ> snd) ls ! i"
      by (auto simp: case_prod_beta)
  qed
qed

lemma canon_object_cong:
  assumes "map fst kvs = map fst ls" and "map (canon \<circ> snd) kvs = map (canon \<circ> snd) ls"
  shows "canon (JObj kvs) = canon (JObj ls)"
proof -
  have z: "map (\<lambda>(k, v). (k, canon v)) es = zip (map fst es) (map (canon \<circ> snd) es)" for es
    by (induction es) auto
  have "map (\<lambda>(k, v). (k, canon v)) kvs = map (\<lambda>(k, v). (k, canon v)) ls"
    using assms by (simp only: z)
  then show ?thesis by (simp only: canon.simps)
qed

lemma canon_object_iff:
  assumes "map fst kvs = map fst ls" and "distinct (map fst kvs)"
  shows "canon (JObj kvs) = canon (JObj ls) \<longleftrightarrow> map (canon \<circ> snd) kvs = map (canon \<circ> snd) ls"
  using canon_object_eq [OF _ assms] canon_object_cong [OF assms(1)] by blast

lemma canon_object_update:
  assumes "canon v = canon v'"
  shows "canon (JObj (xs @ (k, v) # ys)) = canon (JObj (xs @ (k, v') # ys))"
  using assms by (intro canon_object_cong) simp_all

lemma sort_key_map: "sort_key g (map f xs) = map f (sort_key (g \<circ> f) xs)"
proof -
  have "insort_key g (f x) (map f ys) = map f (insort_key (g \<circ> f) x ys)" for x ys
    by (induction ys) auto
  then show ?thesis by (induction xs) simp_all
qed

lemma canon_sorted_object:
  assumes "sorted (map fst kvs)" and "\<And>v. v \<in> set (map snd kvs) \<Longrightarrow> canon v = v"
  shows "canon (JObj kvs) = JObj kvs"
proof -
  have "map (\<lambda>(k, v). (k, canon v)) kvs = kvs"
    using assms(2) by (induction kvs) auto
  with assms(1) show ?thesis by (simp add: sort_key_id_if_sorted)
qed

section \<open>Strings\<close>

definition ascii_lower :: "char \<Rightarrow> char" where
  "ascii_lower c = (if CHR ''A'' \<le> c \<and> c \<le> CHR ''Z'' then char_of (of_char c + 32 :: int) else c)"

definition casefold :: "string \<Rightarrow> string" where
  "casefold s = map ascii_lower s"

definition is_space :: "char \<Rightarrow> bool" where
  "is_space c \<longleftrightarrow> c \<in> {CHR '' '', CHR 0x09, CHR 0x0A, CHR 0x0B, CHR 0x0C, CHR 0x0D,
     CHR 0x1C, CHR 0x1D, CHR 0x1E, CHR 0x1F}"

definition strip :: "string \<Rightarrow> string" where
  "strip s = rev (dropWhile is_space (rev (dropWhile is_space s)))"

definition is_upper :: "char \<Rightarrow> bool" where
  "is_upper c \<longleftrightarrow> CHR ''A'' \<le> c \<and> c \<le> CHR ''Z''"

definition is_lower :: "char \<Rightarrow> bool" where
  "is_lower c \<longleftrightarrow> CHR ''a'' \<le> c \<and> c \<le> CHR ''z''"

definition is_digit :: "char \<Rightarrow> bool" where
  "is_digit c \<longleftrightarrow> CHR ''0'' \<le> c \<and> c \<le> CHR ''9''"

text \<open>\<open>^[A-Z][A-Z0-9_-]{lo,hi}$\<close> and \<open>^[A-Z][A-Z0-9]{lo,hi}$\<close>\<close>

definition matches_key :: "(char \<Rightarrow> bool) \<Rightarrow> nat \<Rightarrow> nat \<Rightarrow> string \<Rightarrow> bool" where
  "matches_key cls lo hi s \<longleftrightarrow> s \<noteq> [] \<and> is_upper (hd s) \<and> list_all cls (tl s) \<and>
     lo \<le> length (tl s) \<and> length (tl s) \<le> hi"

definition key_char :: "char \<Rightarrow> bool" where
  "key_char c \<longleftrightarrow> is_upper c \<or> is_digit c"

definition id_char :: "char \<Rightarrow> bool" where
  "id_char c \<longleftrightarrow> key_char c \<or> c = CHR ''_'' \<or> c = CHR ''-''"

definition length_between :: "nat \<Rightarrow> nat \<Rightarrow> string \<Rightarrow> bool" where
  "length_between lo hi s \<longleftrightarrow> lo \<le> length s \<and> length s \<le> hi"

text \<open>Python's \<open>phrase in text\<close>\<close>

fun occurs_in :: "string \<Rightarrow> string \<Rightarrow> bool" where
  "occurs_in p [] = (p = [])"
| "occurs_in p (x # xs) = (take (length p) (x # xs) = p \<or> occurs_in p xs)"

definition starts_with :: "string \<Rightarrow> string \<Rightarrow> bool" where
  "starts_with prefix s \<longleftrightarrow> take (length prefix) s = prefix"

text \<open>\<open>str.split()\<close> without an argument, and \<open>" ".join\<close>\<close>

fun split_words :: "string \<Rightarrow> string \<Rightarrow> string list" where
  "split_words word [] = (if word = [] then [] else [rev word])"
| "split_words word (x # xs) =
    (if is_space x then (if word = [] then split_words [] xs else rev word # split_words [] xs)
     else split_words (x # word) xs)"

fun join_words :: "string list \<Rightarrow> string" where
  "join_words [] = []"
| "join_words [w] = w"
| "join_words (w # v # ws) = w @ CHR '' '' # join_words (v # ws)"

text \<open>
  \<open>int(text)\<close>: blanks around, a sign, and digits with single underscores between them; a text of more
  than 4300 digits raises ValueError too.
\<close>

fun digits_of :: "bool \<Rightarrow> int \<Rightarrow> string \<Rightarrow> int option" where
  "digits_of after_digit n [] = (if after_digit then Some n else None)"
| "digits_of after_digit n (c # cs) =
    (if is_digit c then digits_of True (n * 10 + (of_char c - 48)) cs
     else if c = CHR ''_'' \<and> after_digit \<and> cs \<noteq> [] then digits_of False n cs else None)"

definition int_of_text :: "string \<Rightarrow> int option" where
  "int_of_text text = (if length (filter is_digit text) > 4300 then None else case strip text of
     [] \<Rightarrow> None
   | c # cs \<Rightarrow> (if c = CHR ''-'' then map_option uminus (digits_of False 0 cs)
       else if c = CHR ''+'' then digits_of False 0 cs else digits_of False 0 (c # cs)))"

section \<open>Reading JSON values\<close>

fun text_of :: "json \<Rightarrow> string option" where
  "text_of (JStr s) = Some s"
| "text_of _ = None"

fun texts_of :: "json list \<Rightarrow> string list option" where
  "texts_of [] = Some []"
| "texts_of (JStr s # xs) = map_option (\<lambda>ys. s # ys) (texts_of xs)"
| "texts_of (_ # xs) = None"

fun environment_of :: "string \<Rightarrow> environment option" where
  "environment_of s = (if s = ''dev'' then Some Dev else if s = ''prod'' then Some Prod
     else if s = ''test'' then Some Test else None)"

section \<open>Errors of the operating system\<close>

text \<open>\<open>except (TimeoutError, OSError)\<close>: the built-in subclasses of OSError.\<close>

definition os_errors :: "string set" where
  "os_errors = {''OSError'', ''ConnectionError'', ''ConnectionResetError'', ''ConnectionRefusedError'',
     ''ConnectionAbortedError'', ''BrokenPipeError'', ''BlockingIOError'', ''ChildProcessError'', ''FileExistsError'',
     ''FileNotFoundError'', ''InterruptedError'', ''IsADirectoryError'', ''NotADirectoryError'', ''ProcessLookupError''}"

fun transient :: "py_error \<Rightarrow> bool" where
  "transient TimeoutError = True"
| "transient (PermissionError _) = True"
| "transient (OtherException n) = (n \<in> os_errors)"
| "transient _ = False"

end
