(* ===== verification/Evidence.thy ===== *)
theory Evidence imports Runtime begin

text \<open>
  domain/workforce_risk/evidence: the material of an evidence fingerprint, the fingerprint,
  the list of material changes between two evidence states and the freshness rule.  The
  fingerprint is shown to decide material equality (up to a collision of the digest), to be
  exactly what \<open>material_changes\<close> compares, and to ignore everything else.
\<close>

section \<open>fingerprint.py\<close>

record evidence_input =
  ev_schema_version :: string
  ev_environment :: environment
  ev_subject_id :: string
  ev_task_state :: string
  ev_current_assignee :: "string option"
  ev_employee_workloads :: "(string \<times> pyfloat) list"
  ev_due_date :: "date option"
  ev_dependencies :: "string list"
  ev_scoring_versions :: "string list"
  ev_evidence_timestamp :: timestamp
  ev_irrelevant_metadata :: "(string \<times> json) list"

definition MATERIAL_FIELDS :: "string list" where
  "MATERIAL_FIELDS = [''schema_version'', ''subject_id'', ''task_state'', ''current_assignee'',
     ''employee_workloads'', ''due_date'', ''dependencies'', ''scoring_versions'']"

definition valid_evidence_input :: "evidence_input \<Rightarrow> bool" where
  "valid_evidence_input e \<longleftrightarrow> ev_schema_version e = ''1.0'' \<and>
     length_between 1 128 (ev_subject_id e) \<and> length_between 1 64 (ev_task_state e) \<and>
     opt_all (length_between 0 256) (ev_current_assignee e) \<and>
     distinct (map fst (ev_employee_workloads e))"

text \<open>The dict in the order of the model's fields, \<open>environment\<close> added last.\<close>

definition canonical_material :: "runtime \<Rightarrow> evidence_input \<Rightarrow> (string \<times> json) list" where
  "canonical_material rt e =
    [(''schema_version'', JStr (ev_schema_version e)),
     (''subject_id'', JStr (ev_subject_id e)),
     (''task_state'', JStr (ev_task_state e)),
     (''current_assignee'', json_opt JStr (ev_current_assignee e)),
     (''employee_workloads'',
        JObj (map (\<lambda>(k, h). (k, JFloat h)) (sort_key fst (ev_employee_workloads e)))),
     (''due_date'', json_opt (JStr \<circ> rt_date rt) (ev_due_date e)),
     (''dependencies'', json_strings (sort (ev_dependencies e))),
     (''scoring_versions'', json_strings (sort (ev_scoring_versions e))),
     (''environment'', JStr (environment_value (ev_environment e)))]"

definition fingerprint :: "runtime \<Rightarrow> evidence_input \<Rightarrow> string" where
  "fingerprint rt e = digest rt (JObj (canonical_material rt e))"

definition material_changes ::
  "runtime \<Rightarrow> evidence_input \<Rightarrow> evidence_input \<Rightarrow> string list res" where
  "material_changes rt previous current =
    (if ev_environment previous \<noteq> ev_environment current
     then Inl (ValueError ''evidence environment mismatch'')
     else let before = canonical_material rt previous;
              after = canonical_material rt current
          in Inr (map fst (filter (\<lambda>(name, v). map_of after name \<noteq> Some v) before)))"

section \<open>freshness.py\<close>

definition evidence_is_stale :: "timestamp \<Rightarrow> timestamp \<Rightarrow> timedelta \<Rightarrow> bool res" where
  "evidence_is_stale evidence_timestamp checked_at max_age =
    (if max_age \<le> 0 then Inl (ValueError ''maximum evidence age must be positive'')
     else if checked_at < evidence_timestamp
     then Inl (ValueError ''evidence timestamp cannot be in the future'')
     else Inr (checked_at - evidence_timestamp > max_age))"

section \<open>Equality of materials\<close>

text \<open>Two evidence states have the same material: what a reader of the fields would say.\<close>

definition same_material :: "evidence_input \<Rightarrow> evidence_input \<Rightarrow> bool" where
  "same_material a b \<longleftrightarrow> ev_schema_version a = ev_schema_version b \<and>
     ev_environment a = ev_environment b \<and> ev_subject_id a = ev_subject_id b \<and>
     ev_task_state a = ev_task_state b \<and> ev_current_assignee a = ev_current_assignee b \<and>
     map_of (ev_employee_workloads a) = map_of (ev_employee_workloads b) \<and>
     ev_due_date a = ev_due_date b \<and> mset (ev_dependencies a) = mset (ev_dependencies b) \<and>
     mset (ev_scoring_versions a) = mset (ev_scoring_versions b)"

lemma sort_eq_iff: "sort xs = sort ys \<longleftrightarrow> mset xs = mset (ys :: 'a :: linorder list)"
  by (metis mset_sort properties_for_sort sorted_sort)

lemma sorted_dict_eq:
  assumes "distinct (map fst xs)" and "distinct (map fst ys)"
  shows "sort_key fst xs = sort_key fst ys \<longleftrightarrow> map_of xs = map_of (ys :: ('a :: linorder \<times> 'b) list)"
proof
  assume "sort_key fst xs = sort_key fst ys"
  then have "set (sort_key fst xs) = set (sort_key fst ys)" by (rule arg_cong)
  with assms show "map_of xs = map_of ys" by (simp add: map_of_inject_set)
next
  assume "map_of xs = map_of ys"
  with assms have "set xs = set ys" by (simp add: map_of_inject_set)
  with assms have "mset xs = mset ys" by (simp add: distinct_map set_eq_iff_mset_eq_distinct)
  then show "sort_key fst xs = sort_key fst ys"
    using assms by (intro sort_key_inj_key_eq) (simp_all add: distinct_map)
qed

lemma material_keys [simp]:
  "map fst (canonical_material rt a) =
     [''schema_version'', ''subject_id'', ''task_state'', ''current_assignee'',
      ''employee_workloads'', ''due_date'', ''dependencies'', ''scoring_versions'', ''environment'']"
  by (simp add: canonical_material_def)

lemma material_values_canonical: "map (canon \<circ> snd) (canonical_material rt a) = map snd (canonical_material rt a)"
proof -
  have "canon (JObj (map (\<lambda>(k, h). (k, JFloat h)) (sort_key fst ws)))
      = JObj (map (\<lambda>(k, h). (k, JFloat h)) (sort_key fst ws))" for ws :: "(string \<times> pyfloat) list"
  proof (rule canon_sorted_object)
    have "fst \<circ> (\<lambda>(k, h). (k, JFloat h)) = (fst :: string \<times> pyfloat \<Rightarrow> string)" by auto
    then show "sorted (map fst (map (\<lambda>(k, h). (k, JFloat h)) (sort_key fst ws)))" by simp
  qed auto
  then show ?thesis by (simp add: canonical_material_def comp_def)
qed

lemma material_pairs: "xs = ys \<longleftrightarrow> map fst xs = map fst ys \<and> map snd xs = map snd ys"
  by (metis zip_map_fst_snd)

lemma canon_material_iff:
  "canon (JObj (canonical_material rt a)) = canon (JObj (canonical_material rt b)) \<longleftrightarrow>
     canonical_material rt a = canonical_material rt b"
  by (subst canon_object_iff) (simp_all add: material_values_canonical material_pairs [of "canonical_material rt a"])

lemma float_entries_eq:
  "map (\<lambda>(k, h). (k, JFloat h)) xs = map (\<lambda>(k, h). (k, JFloat h)) ys \<longleftrightarrow> xs = ys"
  by (rule inj_map_eq_map) (auto simp: inj_def)

lemma material_eq_iff:
  assumes "runtime_ok rt" and "valid_evidence_input a" and "valid_evidence_input b"
  shows "canonical_material rt a = canonical_material rt b \<longleftrightarrow> same_material a b"
proof -
  have d: "json_opt (JStr \<circ> rt_date rt) x = json_opt (JStr \<circ> rt_date rt) y \<longleftrightarrow> x = y" for x y
    using assms(1) by (intro json_opt_eq) (auto simp: runtime_ok_def dest: injD)
  have s: "json_opt JStr x = json_opt JStr y \<longleftrightarrow> x = y" for x y
    by (intro json_opt_eq) auto
  have w: "sort_key fst (ev_employee_workloads a) = sort_key fst (ev_employee_workloads b) \<longleftrightarrow>
      map_of (ev_employee_workloads a) = map_of (ev_employee_workloads b)"
    using assms by (intro sorted_dict_eq) (simp_all add: valid_evidence_input_def)
  show ?thesis
    by (simp add: canonical_material_def same_material_def d s w float_entries_eq sort_eq_iff
        del: sort_key_simps) blast
qed

text \<open>
  The evidence fingerprint decides material equality: two validated evidence states have
  the same fingerprint exactly when every material field agrees (workloads as a dict,
  dependencies and scoring versions up to order), or the digest has an explicit collision.
  The evidence timestamp and the irrelevant metadata never change it.
\<close>

theorem fingerprint_decides_material:
  assumes "runtime_ok rt" and "valid_evidence_input a" and "valid_evidence_input b"
  shows "fingerprint rt a = fingerprint rt b \<longleftrightarrow> same_material a b \<or>
     collision rt (JObj (canonical_material rt a)) (JObj (canonical_material rt b))"
  by (simp only: fingerprint_def digest_eq_iff [OF assms(1)] canon_material_iff material_eq_iff [OF assms])

lemma dict_changes_empty:
  assumes "map fst xs = map fst ys" and "distinct (map fst xs)"
  shows "filter (\<lambda>(k, v). map_of ys k \<noteq> Some v) xs = [] \<longleftrightarrow> xs = ys"
proof -
  have "filter (\<lambda>(k, v). map_of ys k \<noteq> Some v) xs = [] \<longleftrightarrow> (\<forall>(k, v) \<in> set xs. map_of ys k = Some v)"
    by (auto simp: filter_empty_conv)
  also have "\<dots> \<longleftrightarrow> set xs \<subseteq> set ys" using assms by (auto simp: map_of_eq_Some_iff)
  also have "\<dots> \<longleftrightarrow> xs = ys"
  proof
    assume sub: "set xs \<subseteq> set ys"
    show "xs = ys"
    proof (rule nth_equalityI)
      show len: "length xs = length ys" using assms(1) by (metis length_map)
      fix i assume i: "i < length xs"
      with sub obtain j where j: "j < length ys" "ys ! j = xs ! i" by (metis in_set_conv_nth nth_mem subsetD)
      then have "map fst ys ! j = map fst ys ! i" using i len assms(1) by (metis nth_map)
      then have "j = i" using i j len assms by (metis length_map nth_eq_iff_index_eq)
      with j show "xs ! i = ys ! i" by simp
    qed
  qed simp
  finally show ?thesis .
qed

text \<open>
  \<open>material_changes\<close> agrees with the fingerprint: within one environment it returns, it
  lists only material fields, and the list is empty exactly when the materials are the
  same; across environments it raises.
\<close>

theorem material_changes_spec:
  assumes "runtime_ok rt" and "valid_evidence_input a" and "valid_evidence_input b"
  shows "(ev_environment a \<noteq> ev_environment b \<longrightarrow>
            material_changes rt a b = Inl (ValueError ''evidence environment mismatch'')) \<and>
     (ev_environment a = ev_environment b \<longrightarrow> (\<exists>cs. material_changes rt a b = Inr cs \<and>
        set cs \<subseteq> set MATERIAL_FIELDS \<and> (cs = [] \<longleftrightarrow> same_material a b)))"
proof (cases "ev_environment a = ev_environment b")
  case True
  let ?fs = "filter (\<lambda>(k, v). map_of (canonical_material rt b) k \<noteq> Some v) (canonical_material rt a)"
  have "?fs = [] \<longleftrightarrow> same_material a b"
    using material_eq_iff [OF assms] by (subst dict_changes_empty) simp_all
  moreover have "set (map fst ?fs) \<subseteq> set MATERIAL_FIELDS"
  proof
    fix k assume "k \<in> set (map fst ?fs)"
    then obtain v where v: "(k, v) \<in> set (canonical_material rt a)"
      and ne: "map_of (canonical_material rt b) k \<noteq> Some v" by auto
    from v have "map_of (canonical_material rt a) k = Some v" by (intro map_of_is_SomeI) simp_all
    with ne True have "k \<noteq> ''environment''" by (auto simp: canonical_material_def)
    moreover from v have "k \<in> set (map fst (canonical_material rt a))"
      by (metis fst_conv image_eqI list.set_map)
    ultimately show "k \<in> set MATERIAL_FIELDS" by (simp add: MATERIAL_FIELDS_def)
  qed
  ultimately show ?thesis using True by (simp add: material_changes_def Let_def)
qed (simp add: material_changes_def)

text \<open>
  Evidence goes stale monotonically: when a check accepts the parameters, a later check
  of the same evidence under the same or a shorter maximum age accepts them and is stale
  whenever the first was.
\<close>

theorem staleness_monotone:
  assumes "evidence_is_stale ts t m = Inr b" and "t \<le> t'" and "m' \<le> m" and "0 < m'"
  shows "\<exists>b'. evidence_is_stale ts t' m' = Inr b' \<and> (b \<longrightarrow> b')"
  using assms by (auto simp: evidence_is_stale_def split: if_splits)

section \<open>Witnesses\<close>

definition sample_evidence :: evidence_input where
  "sample_evidence = \<lparr>ev_schema_version = ''1.0'', ev_environment = Dev, ev_subject_id = ''TM-1'',
     ev_task_state = ''open'', ev_current_assignee = Some ''E1'',
     ev_employee_workloads = [(''E2'', 1), (''E1'', 2)], ev_due_date = None,
     ev_dependencies = [''b'', ''a''], ev_scoring_versions = [''v1''],
     ev_evidence_timestamp = 0, ev_irrelevant_metadata = []\<rparr>"

lemma sample_evidence_valid:
  "valid_evidence_input sample_evidence"
  "valid_evidence_input (sample_evidence\<lparr>ev_dependencies := [''a'', ''b''], ev_evidence_timestamp := 9\<rparr>)"
  "valid_evidence_input (sample_evidence\<lparr>ev_task_state := ''done''\<rparr>)"
  by (simp_all add: valid_evidence_input_def sample_evidence_def length_between_def)

theorem fingerprint_decides_material_witness:
  "fingerprint sample_runtime sample_evidence = fingerprint sample_runtime
     (sample_evidence\<lparr>ev_dependencies := [''a'', ''b''], ev_evidence_timestamp := 9\<rparr>)"
  using fingerprint_decides_material [OF sample_runtime_ok sample_evidence_valid(1,2)]
  by (simp add: same_material_def sample_evidence_def add_mset_commute)

theorem material_changes_spec_witness:
  "\<exists>cs. material_changes sample_runtime sample_evidence (sample_evidence\<lparr>ev_task_state := ''done''\<rparr>)
     = Inr cs \<and> cs \<noteq> []"
  using material_changes_spec [OF sample_runtime_ok sample_evidence_valid(1,3)]
  by (auto simp: same_material_def sample_evidence_def)

theorem staleness_monotone_witness:
  "\<exists>b. evidence_is_stale 0 (hours 9) (hours 5) = Inr b \<and> b"
  using staleness_monotone [of 0 "hours 7" "hours 6" True "hours 9" "hours 5"]
  by (auto simp: evidence_is_stale_def hours_def)

end
