(* ===== verification/Profiles.thy ===== *)
theory Profiles imports Runtime begin

text \<open>
  domain/workforce_risk/profiles.py: workforce profiles with documented skills, project
  allocations and capacity overrides, the checks of their constructors, the effective
  capacity at an instant and the checks on a set of profiles.
\<close>

section \<open>Models\<close>

datatype seniority = Junior | Mid | Senior | Lead

datatype skill_proficiency = Aware | Beginner | Intermediate | Advanced | Expert

fun proficiency_value :: "skill_proficiency \<Rightarrow> int" where
  "proficiency_value Aware = 1"
| "proficiency_value Beginner = 2"
| "proficiency_value Intermediate = 3"
| "proficiency_value Advanced = 4"
| "proficiency_value Expert = 5"

fun seniority_value :: "seniority \<Rightarrow> string" where
  "seniority_value Junior = ''junior''"
| "seniority_value Mid = ''mid''"
| "seniority_value Senior = ''senior''"
| "seniority_value Lead = ''lead''"

record documented_skill =
  sk_name :: string
  sk_proficiency :: skill_proficiency

record project_allocation =
  pa_project_key :: string
  pa_fraction :: pyfloat

record capacity_override =
  co_starts_at :: timestamp
  co_ends_at :: timestamp
  co_capacity_hours :: pyfloat
  co_reason :: string

record workforce_profile =
  wp_employee_id :: string
  wp_environment :: environment
  wp_role :: string
  wp_seniority :: seniority
  wp_documented_skills :: "documented_skill list"
  wp_weekly_capacity_hours :: pyfloat
  wp_project_allocations :: "project_allocation list"
  wp_mentoring_available :: bool
  wp_capacity_overrides :: "capacity_override list"
  wp_jira_account_id :: "string option"
  wp_version :: int

section \<open>Constructors\<close>

definition make_skill :: "documented_skill \<Rightarrow> documented_skill res" where
  "make_skill s = (if length_between 1 128 (sk_name s) then Inr s
     else Inl (ValidationError ''DocumentedSkill''))"

definition make_allocation :: "project_allocation \<Rightarrow> project_allocation res" where
  "make_allocation a =
     (if matches_key id_char 1 63 (pa_project_key a) \<and> 0 < pa_fraction a \<and> pa_fraction a \<le> 1
      then Inr a else Inl (ValidationError ''ProjectAllocation''))"

definition validate_window :: "capacity_override \<Rightarrow> capacity_override res" where
  "validate_window o' =
     (if co_ends_at o' \<le> co_starts_at o'
      then Inl (ValueError ''capacity override must end after it starts'') else Inr o')"

definition make_override :: "capacity_override \<Rightarrow> capacity_override res" where
  "make_override o' =
     (if 0 \<le> co_capacity_hours o' \<and> co_capacity_hours o' \<le> 168 \<and>
         length_between 1 256 (co_reason o')
      then validate_window o' else Inl (ValidationError ''CapacityOverride''))"

fun overlapping_neighbours :: "capacity_override list \<Rightarrow> bool" where
  "overlapping_neighbours (p # c # rest) \<longleftrightarrow>
     co_starts_at c < co_ends_at p \<or> overlapping_neighbours (c # rest)"
| "overlapping_neighbours _ \<longleftrightarrow> False"

definition validate_profile :: "workforce_profile \<Rightarrow> workforce_profile res" where
  "validate_profile p =
    (if \<not> distinct (map (casefold \<circ> sk_name) (wp_documented_skills p))
     then Inl (ValueError ''documented skills must be unique'')
     else if \<not> distinct (map pa_project_key (wp_project_allocations p))
     then Inl (ValueError ''project allocations must be unique'')
     else if py_sum (map pa_fraction (wp_project_allocations p)) > fadd 1 (fl (1 / 1000000000))
     then Inl (ValueError ''project allocations must not exceed 1.0'')
     else if overlapping_neighbours (sort_key co_starts_at (wp_capacity_overrides p))
     then Inl (ValueError ''capacity override windows must not overlap'')
     else Inr p)"

definition profile_fields_ok :: "workforce_profile \<Rightarrow> bool" where
  "profile_fields_ok p \<longleftrightarrow> matches_key id_char 2 63 (wp_employee_id p) \<and>
     length_between 1 128 (wp_role p) \<and>
     0 < wp_weekly_capacity_hours p \<and> wp_weekly_capacity_hours p \<le> 168 \<and>
     opt_all (length_between 1 256) (wp_jira_account_id p) \<and> 1 \<le> wp_version p"

definition make_profile :: "workforce_profile \<Rightarrow> workforce_profile res" where
  "make_profile p =
     bindr (map_res make_skill (wp_documented_skills p)) (\<lambda>_.
     bindr (map_res make_allocation (wp_project_allocations p)) (\<lambda>_.
     bindr (map_res make_override (wp_capacity_overrides p)) (\<lambda>_.
       if profile_fields_ok p then validate_profile p
       else Inl (ValidationError ''WorkforceProfile''))))"

section \<open>Operations\<close>

definition effective_capacity :: "workforce_profile \<Rightarrow> timestamp \<Rightarrow> pyfloat" where
  "effective_capacity p moment =
     (case List.find (\<lambda>o'. co_starts_at o' \<le> moment \<and> moment < co_ends_at o') (wp_capacity_overrides p) of
        Some o' \<Rightarrow> co_capacity_hours o'
      | None \<Rightarrow> wp_weekly_capacity_hours p)"

definition validate_profile_set ::
  "workforce_profile list \<Rightarrow> environment \<Rightarrow> string set \<Rightarrow> unit res" where
  "validate_profile_set profiles env mapping_ids =
    (let mapped = filter (\<lambda>p. wp_jira_account_id p \<noteq> None) profiles in
     if profiles = [] \<or> \<not> distinct (map wp_employee_id profiles)
     then Inl (ValueError ''profile employee IDs must be non-empty and unique'')
     else if list_ex (\<lambda>p. wp_environment p \<noteq> env) profiles
     then Inl (ValueError ''profile environment mismatch'')
     else if list_ex (\<lambda>p. wp_employee_id p \<notin> mapping_ids) mapped
     then Inl (ValueError ''Jira account mapping is not allowed for this employee'')
     else if \<not> distinct (map wp_jira_account_id mapped)
     then Inl (ValueError ''Jira account mappings must be unique'')
     else Inr ())"

section \<open>Capacity windows\<close>

definition active_at :: "timestamp \<Rightarrow> capacity_override \<Rightarrow> bool" where
  "active_at moment o' \<longleftrightarrow> co_starts_at o' \<le> moment \<and> moment < co_ends_at o'"

lemma make_override_Inr_iff [res_elims]:
  "make_override o' = Inr q \<longleftrightarrow> q = o' \<and> 0 \<le> co_capacity_hours o' \<and> co_capacity_hours o' \<le> 168 \<and>
     length_between 1 256 (co_reason o') \<and> co_starts_at o' < co_ends_at o'"
  by (auto simp: make_override_def validate_window_def)

lemma validate_profile_Inr_iff [res_elims]:
  "validate_profile p = Inr q \<longleftrightarrow> q = p \<and>
     distinct (map (casefold \<circ> sk_name) (wp_documented_skills p)) \<and>
     distinct (map pa_project_key (wp_project_allocations p)) \<and>
     py_sum (map pa_fraction (wp_project_allocations p)) \<le> fadd 1 (fl (1 / 1000000000)) \<and>
     \<not> overlapping_neighbours (sort_key co_starts_at (wp_capacity_overrides p))"
  by (auto simp: validate_profile_def)

lemma make_profile_valid:
  assumes "make_profile p = Inr q"
  shows "q = p" and "validate_profile p = Inr p" and "profile_fields_ok p"
    and "\<And>o'. o' \<in> set (wp_capacity_overrides p) \<Longrightarrow>
           0 \<le> co_capacity_hours o' \<and> co_capacity_hours o' \<le> 168 \<and> co_starts_at o' < co_ends_at o'"
proof -
  from assms obtain os where os: "map_res make_override (wp_capacity_overrides p) = Inr os"
    and v: "validate_profile p = Inr q" and f: "profile_fields_ok p"
    by (auto simp: make_profile_def bindr_Inr_iff split: if_splits)
  from v show "q = p" and "validate_profile p = Inr p" by (auto simp: validate_profile_Inr_iff)
  show "profile_fields_ok p" by (rule f)
  fix o' assume "o' \<in> set (wp_capacity_overrides p)"
  with os show "0 \<le> co_capacity_hours o' \<and> co_capacity_hours o' \<le> 168 \<and> co_starts_at o' < co_ends_at o'"
    by (auto simp: make_override_Inr_iff dest!: map_res_in)
qed

lemma windows_disjoint:
  assumes "\<not> overlapping_neighbours ws" and "\<forall>w \<in> set ws. co_starts_at w < co_ends_at w"
  shows "sorted_wrt (\<lambda>a b. co_ends_at a \<le> co_starts_at b) ws"
  using assms
proof (induction ws rule: overlapping_neighbours.induct)
  case (1 p c rest)
  then have "sorted_wrt (\<lambda>a b. co_ends_at a \<le> co_starts_at b) (c # rest)" by simp
  moreover from this 1(2,3) have "\<forall>w \<in> set (c # rest). co_ends_at p \<le> co_starts_at w" by force
  ultimately show ?case by simp
qed auto

lemma active_unique:
  assumes "sorted_wrt (\<lambda>a b. co_ends_at a \<le> co_starts_at b) ws"
    and "a \<in> set ws" "b \<in> set ws" "active_at moment a" "active_at moment b"
  shows "a = b"
proof -
  from assms obtain i j where ij: "i < length ws" "j < length ws" "ws ! i = a" "ws ! j = b"
    by (auto simp: in_set_conv_nth)
  have "\<not> i < j" "\<not> j < i"
    using assms ij sorted_wrt_nth_less [OF assms(1), of i j] sorted_wrt_nth_less [OF assms(1), of j i]
    by (auto simp: active_at_def)
  with ij show ?thesis by (metis linorder_neqE_nat)
qed

text \<open>
  The effective capacity of a constructed profile is determined: an instant lies in at
  most one override window, so the capacity is that of any override active then whatever the
  order of the overrides, the weekly capacity when none is, and always within 0..168.
\<close>

theorem effective_capacity_determined:
  assumes "make_profile p = Inr q"
  shows "(\<forall>o' \<in> set (wp_capacity_overrides q). active_at moment o' \<longrightarrow>
            effective_capacity q moment = co_capacity_hours o') \<and>
     ((\<forall>o' \<in> set (wp_capacity_overrides q). \<not> active_at moment o') \<longrightarrow>
            effective_capacity q moment = wp_weekly_capacity_hours q) \<and>
     0 \<le> effective_capacity q moment \<and> effective_capacity q moment \<le> 168"
proof -
  note v = make_profile_valid [OF assms]
  from v(2) have "\<not> overlapping_neighbours (sort_key co_starts_at (wp_capacity_overrides p))"
    by (simp add: validate_profile_Inr_iff)
  with v(4) have sw: "sorted_wrt (\<lambda>a b. co_ends_at a \<le> co_starts_at b)
      (sort_key co_starts_at (wp_capacity_overrides p))"
    by (intro windows_disjoint) auto
  have uniq: "a = b" if "a \<in> set (wp_capacity_overrides p)" "b \<in> set (wp_capacity_overrides p)"
    "active_at moment a" "active_at moment b" for a b
    using active_unique [OF sw] that by simp
  show ?thesis
  proof (cases "List.find (active_at moment) (wp_capacity_overrides p)")
    case None
    then have "effective_capacity p moment = wp_weekly_capacity_hours p"
      by (simp add: effective_capacity_def active_at_def [abs_def])
    moreover have "\<forall>o' \<in> set (wp_capacity_overrides p). \<not> active_at moment o'"
      using None by (auto simp: find_None_iff)
    ultimately show ?thesis using v(1,3) by (auto simp: profile_fields_ok_def)
  next
    case (Some w)
    then have w: "w \<in> set (wp_capacity_overrides p)" "active_at moment w"
      by (auto simp: find_Some_iff)
    have "effective_capacity p moment = co_capacity_hours w"
      using Some by (simp add: effective_capacity_def active_at_def [abs_def])
    with w v(1) v(4) [OF w(1)] uniq show ?thesis by fastforce
  qed
qed

definition accounts_injective :: "workforce_profile list \<Rightarrow> bool" where
  "accounts_injective ps \<longleftrightarrow> (\<forall>p \<in> set ps. \<forall>q \<in> set ps.
     wp_jira_account_id p \<noteq> None \<longrightarrow> wp_jira_account_id p = wp_jira_account_id q \<longrightarrow> p = q)"

text \<open>
  An accepted profile set maps Jira accounts to employees: ids are unique, every profile
  is of the environment, mapped employees are allowed, and two profiles with the same account
  are the same profile; conversely such a non-empty set is accepted.
\<close>

theorem profile_set_accepted:
  "validate_profile_set ps env ids = Inr () \<longleftrightarrow>
     ps \<noteq> [] \<and> distinct (map wp_employee_id ps) \<and> (\<forall>p \<in> set ps. wp_environment p = env) \<and>
     (\<forall>p \<in> set ps. wp_jira_account_id p \<noteq> None \<longrightarrow> wp_employee_id p \<in> ids) \<and>
     accounts_injective ps"
proof -
  let ?m = "filter (\<lambda>p. wp_jira_account_id p \<noteq> None) ps"
  have "distinct (map wp_jira_account_id ?m) \<longleftrightarrow>
      accounts_injective ps"
    if "distinct (map wp_employee_id ps)"
  proof -
    have "distinct ?m" using that by (auto simp: distinct_map)
    then have "distinct (map wp_jira_account_id ?m) \<longleftrightarrow> inj_on wp_jira_account_id (set ?m)"
      by (simp add: distinct_map)
    also have "\<dots> \<longleftrightarrow> accounts_injective ps"
      by (auto simp: inj_on_def accounts_injective_def)
    finally show ?thesis .
  qed
  then show ?thesis
    unfolding validate_profile_set_def Let_def list_ex_iff
    by (auto simp del: not_None_eq)
qed

section \<open>Witnesses\<close>

definition sample_profile :: "string \<Rightarrow> string option \<Rightarrow> workforce_profile" where
  "sample_profile eid account = \<lparr>wp_employee_id = eid, wp_environment = Dev, wp_role = ''engineer'',
     wp_seniority = Senior, wp_documented_skills = [\<lparr>sk_name = ''python'', sk_proficiency = Expert\<rparr>],
     wp_weekly_capacity_hours = 40, wp_project_allocations = [], wp_mentoring_available = True,
     wp_capacity_overrides =
       [\<lparr>co_starts_at = 20, co_ends_at = 30, co_capacity_hours = 10, co_reason = ''leave''\<rparr>,
        \<lparr>co_starts_at = 0, co_ends_at = 20, co_capacity_hours = 20, co_reason = ''part time''\<rparr>],
     wp_jira_account_id = account, wp_version = 1\<rparr>"

lemma sample_profile_ok: "make_profile (sample_profile ''EMP1'' None) = Inr (sample_profile ''EMP1'' None)"
proof -
  have "validate_profile (sample_profile ''EMP1'' None) = Inr (sample_profile ''EMP1'' None)"
    using fl_mono [of 0 "1 + fl (1 / 1000000000)"] fl_nonneg [of "1 / 1000000000"]
    by (simp add: validate_profile_def sample_profile_def fadd_def)
  then show ?thesis
    by (simp add: make_profile_def sample_profile_def make_skill_def make_override_def
        validate_window_def profile_fields_ok_def matches_key_def id_char_def key_char_def
        is_upper_def is_digit_def length_between_def)
qed

theorem effective_capacity_determined_witness:
  "effective_capacity (sample_profile ''EMP1'' None) 25 = 10"
  using effective_capacity_determined [OF sample_profile_ok, of 25]
  by (simp add: sample_profile_def active_at_def)

theorem profile_set_accepted_witness:
  "validate_profile_set [sample_profile ''EMP1'' (Some ''a''), sample_profile ''EMP2'' (Some ''b'')] Dev
     {''EMP1'', ''EMP2''} = Inr ()"
  by (subst profile_set_accepted) (simp add: sample_profile_def accounts_injective_def)

end
