(* ===== verification/Simulation.thy ===== *)
theory Simulation imports Profiles begin

text \<open>
  domain/workforce_risk/simulation: assessment of reassignment candidates, their ranking,
  and the deterministic what-if simulation with its fingerprint.
\<close>

section \<open>candidates.py\<close>

definition ACCEPTABLE_CONFIDENCE :: "confidence set" where
  "ACCEPTABLE_CONFIDENCE = {ConfMedium, ConfHigh}"

record candidate_evidence =
  ce_profile :: workforce_profile
  ce_has_jira_project_access :: bool
  ce_overload_risk :: risk_result
  ce_task_fit_risk :: risk_result
  ce_predicted_project_risk :: risk_result

record candidate_assessment =
  ca_employee_id :: string
  ca_eligible :: bool
  ca_reasons :: "string list"
  ca_ranking_score :: "pyfloat option"

definition candidate_risks :: "candidate_evidence \<Rightarrow> risk_result list" where
  "candidate_risks c = [ce_overload_risk c, ce_task_fit_risk c, ce_predicted_project_risk c]"

definition candidate_reasons :: "candidate_evidence \<Rightarrow> string list" where
  "candidate_reasons c =
    (if wp_jira_account_id (ce_profile c) = None \<or> \<not> ce_has_jira_project_access c
     then [''jira_access_unavailable''] else []) @
    (if list_ex (\<lambda>r. rr_confidence r \<notin> ACCEPTABLE_CONFIDENCE) (candidate_risks c)
     then [''confidence_below_minimum''] else []) @
    (if list_ex (\<lambda>r. rr_score r = None) (candidate_risks c)
     then [''incomplete_structured_evidence''] else []) @
    (case rr_score (ce_overload_risk c) of
       Some s \<Rightarrow> if s \<ge> 75 then [''candidate_overloaded''] else []
     | None \<Rightarrow> [])"

definition ranking_score :: "int \<Rightarrow> int \<Rightarrow> int \<Rightarrow> pyfloat" where
  "ranking_score task_fit overload project =
     fround (fadd (fadd (fmul (of_int task_fit) (fl (5/10))) (fmul (of_int overload) (fl (3/10))))
                  (fmul (of_int project) (fl (2/10)))) 2"

definition assess_candidate :: "candidate_evidence \<Rightarrow> candidate_assessment res" where
  "assess_candidate c =
    (if candidate_reasons c \<noteq> []
     then Inr \<lparr>ca_employee_id = wp_employee_id (ce_profile c), ca_eligible = False,
               ca_reasons = candidate_reasons c, ca_ranking_score = None\<rparr>
     else case (rr_score (ce_overload_risk c), rr_score (ce_task_fit_risk c),
                rr_score (ce_predicted_project_risk c)) of
       (Some overload, Some task_fit, Some project) \<Rightarrow>
          Inr \<lparr>ca_employee_id = wp_employee_id (ce_profile c), ca_eligible = True,
               ca_reasons = [], ca_ranking_score = Some (ranking_score task_fit overload project)\<rparr>
     | _ \<Rightarrow> Inl AssertionError)"

text \<open>The sort key; an absent ranking is \<open>float("inf")\<close>, above every number.\<close>

definition assessment_key :: "candidate_assessment \<Rightarrow> bool \<times> (bool \<times> pyfloat) \<times> string" where
  "assessment_key a = (\<not> ca_eligible a,
     (case ca_ranking_score a of Some r \<Rightarrow> (False, r) | None \<Rightarrow> (True, 0)), ca_employee_id a)"

definition select_candidates :: "candidate_evidence list \<Rightarrow> candidate_assessment list res" where
  "select_candidates candidates =
     bindr (map_res assess_candidate candidates) (\<lambda>assessments.
       Inr (sort_key assessment_key assessments))"

section \<open>service.py\<close>

record score_families =
  sf_employee_overload :: risk_result
  sf_task_fit :: risk_result
  sf_project_delivery :: risk_result

record reassignment_simulation =
  sim_task_id :: string
  sim_current_assignee_id :: string
  sim_proposed_assignee_id :: string
  sim_current :: score_families
  sim_proposed :: score_families
  sim_candidate_ids :: "string list"
  sim_evidence_fingerprint :: string

fun direction_value :: "direction \<Rightarrow> string" where
  "direction_value IncreasesRisk = ''increases_risk''"
| "direction_value InverseRisk = ''inverse_risk''"
| "direction_value Protective = ''protective''"

definition factor_json :: "factor_contribution \<Rightarrow> json" where
  "factor_json f = JObj
    [(''name'', JStr (fc_name f)), (''raw_value'', JFloat (fc_raw_value f)),
     (''normalized_value'', JFloat (fc_normalized_value f)), (''weight'', JFloat (fc_weight f)),
     (''direction'', JStr (direction_value (fc_direction f))),
     (''contribution_points'', JFloat (fc_contribution_points f)),
     (''evidence_references'', json_strings (fc_evidence_references f))]"

text \<open>\<open>model_dump(mode="json")\<close> of a risk result and of the three families.\<close>

definition risk_result_json :: "runtime \<Rightarrow> risk_result \<Rightarrow> json" where
  "risk_result_json rt r = JObj
    [(''subject_id'', JStr (rr_subject_id r)),
     (''environment'', JStr (environment_value (rr_environment r))),
     (''score'', json_opt JInt (rr_score r)),
     (''level'', json_opt (JStr \<circ> risk_level_value) (rr_level r)),
     (''confidence'', JStr (confidence_value (rr_confidence r))),
     (''scored_at'', JStr (rt_datetime rt (rr_scored_at r))),
     (''evidence_timestamp'', JStr (rt_datetime rt (rr_evidence_timestamp r))),
     (''scoring_model_version'', JStr (rr_scoring_model_version r)),
     (''factors'', JList (map factor_json (rr_factors r))),
     (''thresholds'', JObj (map (\<lambda>(k, v). (k, JInt v)) (rr_thresholds r))),
     (''evidence_references'', json_strings (rr_evidence_references r)),
     (''missing_evidence'', json_strings (rr_missing_evidence r)),
     (''excluded_evidence'', json_strings (rr_excluded_evidence r))]"

definition families_json :: "runtime \<Rightarrow> score_families \<Rightarrow> json" where
  "families_json rt f = JObj
    [(''employee_overload'', risk_result_json rt (sf_employee_overload f)),
     (''task_fit'', risk_result_json rt (sf_task_fit f)),
     (''project_delivery'', risk_result_json rt (sf_project_delivery f))]"

definition same_scoring_rules :: "reassignment_simulation \<Rightarrow> reassignment_simulation res" where
  "same_scoring_rules s =
    (let current = sim_current s; proposed = sim_proposed s;
         pairs = [(sf_employee_overload current, sf_employee_overload proposed),
                  (sf_task_fit current, sf_task_fit proposed),
                  (sf_project_delivery current, sf_project_delivery proposed)]
     in if list_ex (\<lambda>(a, b). rr_scoring_model_version a \<noteq> rr_scoring_model_version b) pairs
        then Inl (ValueError ''what-if states must use identical scoring versions'')
        else if sim_proposed_assignee_id s \<notin> set (sim_candidate_ids s)
        then Inl (ValueError ''proposed assignee is not a selected candidate'')
        else Inr s)"

definition simulation_material ::
  "runtime \<Rightarrow> string \<Rightarrow> string \<Rightarrow> string \<Rightarrow> string list \<Rightarrow> score_families \<Rightarrow> score_families \<Rightarrow> json"
where
  "simulation_material rt task_id current_id proposed_id eligible current proposed = JObj
    [(''task_id'', JStr task_id),
     (''current_assignee_id'', JStr current_id),
     (''proposed_assignee_id'', JStr proposed_id),
     (''candidate_ids'', json_strings eligible),
     (''current'', families_json rt current),
     (''proposed'', families_json rt proposed)]"

definition simulate_reassignment ::
  "runtime \<Rightarrow> string \<Rightarrow> string \<Rightarrow> candidate_evidence list \<Rightarrow> string \<Rightarrow> score_families
     \<Rightarrow> reassignment_simulation res" where
  "simulate_reassignment rt task_id current_id candidates selected_id current_scores =
    bindr (select_candidates candidates) (\<lambda>assessments.
      let eligible_ids = map ca_employee_id (filter ca_eligible assessments) in
      case List.find (\<lambda>c. wp_employee_id (ce_profile c) = selected_id) candidates of
        None \<Rightarrow> Inl (ValueError ''selected employee is not an eligible candidate'')
      | Some selected \<Rightarrow>
         (if selected_id \<notin> set eligible_ids
          then Inl (ValueError ''selected employee is not an eligible candidate'')
          else let proposed = \<lparr>sf_employee_overload = ce_overload_risk selected,
                     sf_task_fit = ce_task_fit_risk selected,
                     sf_project_delivery = ce_predicted_project_risk selected\<rparr>
            in same_scoring_rules \<lparr>sim_task_id = task_id, sim_current_assignee_id = current_id,
                 sim_proposed_assignee_id = selected_id, sim_current = current_scores,
                 sim_proposed = proposed, sim_candidate_ids = eligible_ids,
                 sim_evidence_fingerprint = digest rt (simulation_material rt task_id current_id
                    selected_id eligible_ids current_scores proposed)\<rparr>))"

section \<open>Assessment\<close>

definition candidate_ok :: "candidate_evidence \<Rightarrow> bool" where
  "candidate_ok c \<longleftrightarrow> wp_jira_account_id (ce_profile c) \<noteq> None \<and> ce_has_jira_project_access c \<and>
     (\<forall>r \<in> set (candidate_risks c). rr_confidence r \<in> ACCEPTABLE_CONFIDENCE \<and> rr_score r \<noteq> None) \<and>
     the (rr_score (ce_overload_risk c)) < 75"

lemma candidate_reasons_empty: "candidate_reasons c = [] \<longleftrightarrow> candidate_ok c"
  by (auto simp: candidate_reasons_def candidate_ok_def candidate_risks_def split: option.splits)

definition assessment_of :: "candidate_evidence \<Rightarrow> candidate_assessment" where
  "assessment_of c = \<lparr>ca_employee_id = wp_employee_id (ce_profile c), ca_eligible = candidate_ok c,
     ca_reasons = candidate_reasons c,
     ca_ranking_score = (if candidate_ok c then Some (ranking_score (the (rr_score (ce_task_fit_risk c)))
        (the (rr_score (ce_overload_risk c))) (the (rr_score (ce_predicted_project_risk c)))) else None)\<rparr>"

lemma assess_candidate_eq: "assess_candidate c = Inr (assessment_of c)"
  using candidate_reasons_empty [of c]
  by (auto simp: assess_candidate_def assessment_of_def candidate_ok_def candidate_risks_def
      split: option.splits)

lemma select_candidates_eq:
  "select_candidates cs = Inr (sort_key assessment_key (map assessment_of cs))"
proof -
  have "map_res assess_candidate cs = Inr (map assessment_of cs)"
    by (simp add: map_res_Inr_iff list_all2_map2 list_all2_same assess_candidate_eq)
  then show ?thesis by (simp add: select_candidates_def)
qed

section \<open>Properties of the selection\<close>

lemma key_le_eligible:
  assumes "assessment_key a \<le> assessment_key b" and "ca_eligible b"
    and "ca_ranking_score a = None \<longleftrightarrow> \<not> ca_eligible a" and "ca_ranking_score b \<noteq> None"
  shows "ca_eligible a \<and> the (ca_ranking_score a) \<le> the (ca_ranking_score b)"
  using assms by (auto simp: assessment_key_def less_eq_prod_def less_prod_def split: option.splits)

lemma assessment_of_simps [simp]:
  "ca_employee_id (assessment_of c) = wp_employee_id (ce_profile c)"
  "ca_eligible (assessment_of c) = candidate_ok c"
  "ca_ranking_score (assessment_of c) = None \<longleftrightarrow> \<not> candidate_ok c"
  "ca_reasons (assessment_of c) = [] \<longleftrightarrow> candidate_ok c"
  by (simp_all add: assessment_of_def candidate_reasons_empty)

lemma eligible_ids_set:
  "set (map ca_employee_id (filter ca_eligible (sort_key assessment_key (map assessment_of cs))))
     = (\<lambda>c. wp_employee_id (ce_profile c)) ` {c \<in> set cs. candidate_ok c}"
  by force

text \<open>
  Candidate selection never raises and ranks every candidate once: a candidate is
  eligible exactly when it has a Jira account and access, medium or high confidence and a
  score in all three families, and an overload score below 75, and has reasons otherwise;
  the eligible ones come first, by rising ranking score.
\<close>

theorem candidate_selection:
  "\<exists>as. select_candidates cs = Inr as \<and> length as = length cs \<and>
     (\<forall>a \<in> set as. (ca_reasons a = [] \<longleftrightarrow> ca_eligible a) \<and> (ca_ranking_score a \<noteq> None \<longleftrightarrow> ca_eligible a)) \<and>
     ca_employee_id ` {a \<in> set as. ca_eligible a}
       = (\<lambda>c. wp_employee_id (ce_profile c)) ` {c \<in> set cs. candidate_ok c} \<and>
     (\<forall>i j. i < j \<and> j < length as \<and> ca_eligible (as ! j) \<longrightarrow> ca_eligible (as ! i) \<and>
        the (ca_ranking_score (as ! i)) \<le> the (ca_ranking_score (as ! j)))"
proof (intro exI conjI)
  let ?as = "sort_key assessment_key (map assessment_of cs)"
  show "select_candidates cs = Inr ?as" by (rule select_candidates_eq)
  show "length ?as = length cs" by simp
  show facts: "\<forall>a \<in> set ?as. (ca_reasons a = [] \<longleftrightarrow> ca_eligible a) \<and>
      (ca_ranking_score a \<noteq> None \<longleftrightarrow> ca_eligible a)"
    by (auto simp del: not_None_eq)
  show "ca_employee_id ` {a \<in> set ?as. ca_eligible a}
       = (\<lambda>c. wp_employee_id (ce_profile c)) ` {c \<in> set cs. candidate_ok c}"
    using eligible_ids_set [of cs] by simp
  have "sorted (map assessment_key ?as)" by simp
  then have "assessment_key (?as ! i) \<le> assessment_key (?as ! j)" if "i < j" "j < length ?as" for i j
    using that sorted_nth_mono [of "map assessment_key ?as" i j] by simp
  moreover have "ca_ranking_score (?as ! i) = None \<longleftrightarrow> \<not> ca_eligible (?as ! i)" if "i < length ?as" for i
    using facts nth_mem [OF that] by blast
  ultimately show "\<forall>i j. i < j \<and> j < length ?as \<and> ca_eligible (?as ! j) \<longrightarrow> ca_eligible (?as ! i) \<and>
        the (ca_ranking_score (?as ! i)) \<le> the (ca_ranking_score (?as ! j))"
    by (intro allI impI key_le_eligible) (auto simp del: length_sort)
qed

definition candidate_id :: "candidate_evidence \<Rightarrow> string" where
  "candidate_id c = wp_employee_id (ce_profile c)"

lemma find_candidate:
  assumes "distinct (map candidate_id cs)" and "c \<in> set cs"
  shows "List.find (\<lambda>c'. wp_employee_id (ce_profile c') = candidate_id c) cs = Some c"
  using select_one_unique [OF assms, of "\<lambda>c'. candidate_id c' = candidate_id c"]
  by (simp add: select_one_def candidate_id_def)

lemma find_candidate_cong:
  assumes "distinct (map candidate_id cs)" and "distinct (map candidate_id cs')" and "set cs = set cs'"
  shows "List.find (\<lambda>c. wp_employee_id (ce_profile c) = sel) cs
       = List.find (\<lambda>c. wp_employee_id (ce_profile c) = sel) cs'"
proof (cases "\<exists>c \<in> set cs. candidate_id c = sel")
  case True
  then obtain c where "c \<in> set cs" "candidate_id c = sel" by blast
  with find_candidate [OF assms(1), of c] find_candidate [OF assms(2), of c] assms(3)
  show ?thesis by simp
next
  case False
  with assms(3) have "\<not> (\<exists>c. c \<in> set cs \<and> wp_employee_id (ce_profile c) = sel)"
    "\<not> (\<exists>c. c \<in> set cs' \<and> wp_employee_id (ce_profile c) = sel)"
    by (auto simp: candidate_id_def)
  then show ?thesis by (simp only: find_None_iff [symmetric])
qed

text \<open>
  C12: Selection and simulation do not depend on the order in which candidates are given: for
  candidates with distinct employee ids any permutation yields the same ranking, the same
  simulation and the same fingerprint.
\<close>

theorem simulation_order_independent:
  assumes "mset cs = mset cs'" and "distinct (map candidate_id cs)"
  shows "select_candidates cs = select_candidates cs' \<and>
     simulate_reassignment rt t cur cs sel scores = simulate_reassignment rt t cur cs' sel scores"
proof -
  have ids: "mset (map candidate_id cs) = mset (map candidate_id cs')" using assms(1) by simp
  then have d': "distinct (map candidate_id cs')" using assms(2) by (metis mset_eq_imp_distinct_iff)
  have inj: "inj_on assessment_key (set (map assessment_of cs))"
    using assms(2) by (auto simp: inj_on_def distinct_map candidate_id_def assessment_key_def)
  have "mset (map assessment_of cs) = mset (sort_key assessment_key (map assessment_of cs'))"
    using assms(1) by simp
  then have sel: "select_candidates cs = select_candidates cs'"
    unfolding select_candidates_eq using inj
    by (subst sort_key_inj_key_eq [where ys = "sort_key assessment_key (map assessment_of cs')"]) auto
  moreover have "set cs = set cs'" using assms(1) by (metis set_mset_mset)
  then have "List.find (\<lambda>c. wp_employee_id (ce_profile c) = sel) cs
      = List.find (\<lambda>c. wp_employee_id (ce_profile c) = sel) cs'"
    by (rule find_candidate_cong [OF assms(2) d'])
  ultimately show ?thesis by (simp add: simulate_reassignment_def)
qed

definition same_versions :: "score_families \<Rightarrow> candidate_evidence \<Rightarrow> bool" where
  "same_versions f c \<longleftrightarrow>
     rr_scoring_model_version (sf_employee_overload f) = rr_scoring_model_version (ce_overload_risk c) \<and>
     rr_scoring_model_version (sf_task_fit f) = rr_scoring_model_version (ce_task_fit_risk c) \<and>
     rr_scoring_model_version (sf_project_delivery f) = rr_scoring_model_version (ce_predicted_project_risk c)"

lemma eligible_id_iff:
  assumes "distinct (map candidate_id cs)" and "c \<in> set cs"
  shows "candidate_id c \<in> (\<lambda>c. wp_employee_id (ce_profile c)) ` {c \<in> set cs. candidate_ok c} \<longleftrightarrow> candidate_ok c"
  using assms by (auto simp: distinct_map inj_on_def candidate_id_def)

definition eligible_list :: "candidate_evidence list \<Rightarrow> string list" where
  "eligible_list cs =
     map ca_employee_id (filter ca_eligible (sort_key assessment_key (map assessment_of cs)))"

lemma eligible_list_set: "set (eligible_list cs) = candidate_id ` {c \<in> set cs. candidate_ok c}"
  unfolding eligible_list_def eligible_ids_set by (simp add: candidate_id_def [abs_def])

definition proposed_families :: "candidate_evidence \<Rightarrow> score_families" where
  "proposed_families c = \<lparr>sf_employee_overload = ce_overload_risk c, sf_task_fit = ce_task_fit_risk c,
     sf_project_delivery = ce_predicted_project_risk c\<rparr>"

definition simulation_for ::
  "runtime \<Rightarrow> string \<Rightarrow> string \<Rightarrow> candidate_evidence list \<Rightarrow> candidate_evidence \<Rightarrow> score_families
     \<Rightarrow> reassignment_simulation" where
  "simulation_for rt t cur cs c scores = \<lparr>sim_task_id = t, sim_current_assignee_id = cur,
     sim_proposed_assignee_id = candidate_id c, sim_current = scores,
     sim_proposed = proposed_families c, sim_candidate_ids = eligible_list cs,
     sim_evidence_fingerprint = digest rt (simulation_material rt t cur (candidate_id c)
       (eligible_list cs) scores (proposed_families c))\<rparr>"

lemma simulate_unfold:
  "simulate_reassignment rt t cur cs sel scores =
    (case List.find (\<lambda>c. wp_employee_id (ce_profile c) = sel) cs of
       None \<Rightarrow> Inl (ValueError ''selected employee is not an eligible candidate'')
     | Some c \<Rightarrow>
        (if sel \<notin> set (eligible_list cs)
         then Inl (ValueError ''selected employee is not an eligible candidate'')
         else same_scoring_rules \<lparr>sim_task_id = t, sim_current_assignee_id = cur,
           sim_proposed_assignee_id = sel, sim_current = scores,
           sim_proposed = proposed_families c, sim_candidate_ids = eligible_list cs,
           sim_evidence_fingerprint = digest rt (simulation_material rt t cur sel
             (eligible_list cs) scores (proposed_families c))\<rparr>))"
  unfolding simulate_reassignment_def select_candidates_eq bindr_simps Let_def eligible_list_def
    proposed_families_def ..

lemma same_scoring_rules_for:
  assumes "candidate_id c \<in> set (eligible_list cs)"
  shows "same_scoring_rules (simulation_for rt t cur cs c scores) =
     (if same_versions scores c then Inr (simulation_for rt t cur cs c scores)
      else Inl (ValueError ''what-if states must use identical scoring versions''))"
  using assms
  by (auto simp: same_scoring_rules_def simulation_for_def same_versions_def proposed_families_def Let_def)

lemma simulate_candidate:
  assumes "distinct (map candidate_id cs)" and "c \<in> set cs"
  shows "simulate_reassignment rt t cur cs (candidate_id c) scores =
     (if \<not> candidate_ok c then Inl (ValueError ''selected employee is not an eligible candidate'')
      else if same_versions scores c then Inr (simulation_for rt t cur cs c scores)
      else Inl (ValueError ''what-if states must use identical scoring versions''))"
proof -
  have "candidate_id c \<in> set (eligible_list cs) \<longleftrightarrow> candidate_ok c"
    using eligible_id_iff [OF assms] by (simp add: eligible_list_set candidate_id_def [abs_def])
  then show ?thesis
    using find_candidate [OF assms] same_scoring_rules_for [of c cs rt t cur scores]
    by (simp add: simulate_unfold simulation_for_def)
qed

lemma simulate_unknown:
  assumes "\<forall>c \<in> set cs. candidate_id c \<noteq> sel"
  shows "simulate_reassignment rt t cur cs sel scores
      = Inl (ValueError ''selected employee is not an eligible candidate'')"
proof -
  from assms have "List.find (\<lambda>c. wp_employee_id (ce_profile c) = sel) cs = None"
    by (simp add: find_None_iff candidate_id_def)
  then show ?thesis by (simp add: simulate_reassignment_def select_candidates_eq Let_def)
qed

text \<open>
  C7: A simulation exists exactly for an eligible candidate scored under the same model
  versions; it proposes that candidate, carries the candidate's three results and lists
  exactly the eligible ids.  An overloaded candidate, one without Jira access or without
  confident scores is never proposed.
\<close>

theorem simulation_only_eligible:
  assumes "distinct (map candidate_id cs)"
  shows "((\<exists>s. simulate_reassignment rt t cur cs sel scores = Inr s) \<longleftrightarrow>
       (\<exists>c \<in> set cs. candidate_id c = sel \<and> candidate_ok c \<and> same_versions scores c)) \<and>
     (\<forall>s. simulate_reassignment rt t cur cs sel scores = Inr s \<longrightarrow>
       sim_proposed_assignee_id s = sel \<and> sim_task_id s = t \<and>
       set (sim_candidate_ids s) = candidate_id ` {c \<in> set cs. candidate_ok c} \<and>
       (\<exists>c \<in> set cs. candidate_id c = sel \<and> candidate_ok c \<and> sim_proposed s = proposed_families c))"
proof (cases "\<exists>c \<in> set cs. candidate_id c = sel")
  case True
  then obtain c where c: "c \<in> set cs" "sel = candidate_id c" by blast
  have "\<forall>d \<in> set cs. candidate_id d = sel \<longrightarrow> d = c"
    using assms c by (auto simp: distinct_map inj_on_def)
  then show ?thesis
    unfolding c(2) simulate_candidate [OF assms c(1)] using c
    by (auto simp: simulation_for_def eligible_list_set)
next
  case False
  with simulate_unknown [of cs sel] show ?thesis by auto
qed

section \<open>The simulation fingerprint\<close>

definition same_result :: "risk_result \<Rightarrow> risk_result \<Rightarrow> bool" where
  "same_result a b \<longleftrightarrow> a\<lparr>rr_thresholds := []\<rparr> = b\<lparr>rr_thresholds := []\<rparr> \<and>
     sort_key fst (rr_thresholds a) = sort_key fst (rr_thresholds b)"

definition same_families :: "score_families \<Rightarrow> score_families \<Rightarrow> bool" where
  "same_families f g \<longleftrightarrow> same_result (sf_employee_overload f) (sf_employee_overload g) \<and>
     same_result (sf_task_fit f) (sf_task_fit g) \<and>
     same_result (sf_project_delivery f) (sf_project_delivery g)"

lemma value_texts_inj [simp]:
  "direction_value d = direction_value d' \<longleftrightarrow> d = d'"
  "risk_level_value l = risk_level_value l' \<longleftrightarrow> l = l'"
  "confidence_value c = confidence_value c' \<longleftrightarrow> c = c'"
     apply (cases d; cases d'; simp)
    apply (cases l; cases l'; simp)
  apply (cases c; cases c'; simp)
  done

lemma factor_json_canon: "canon (factor_json f) = canon (factor_json g) \<longleftrightarrow> f = g"
  unfolding factor_json_def by (subst canon_object_iff) (auto intro: factor_contribution.equality)

lemma factor_list_canon:
  "map (canon \<circ> factor_json) fs = map (canon \<circ> factor_json) gs \<longleftrightarrow> fs = gs"
  by (rule inj_map_eq_map) (simp add: inj_def factor_json_canon)

lemma canon_int_dict: "canon (JObj (map (\<lambda>(k, v). (k, JInt v)) xs)) = JObj (map (\<lambda>(k, v). (k, JInt v)) (sort_key fst xs))"
proof -
  have e: "fst \<circ> (\<lambda>(k, v). (k, JInt v)) = (fst :: string \<times> int \<Rightarrow> string)"
    "(\<lambda>(k, v). (k, canon v)) \<circ> (\<lambda>(k, v). (k, JInt v)) = (\<lambda>(k, v). (k, JInt v))" by auto
  show ?thesis by (simp only: canon.simps map_map e sort_key_map)
qed

lemma risk_result_canon:
  assumes "runtime_ok rt"
  shows "canon (risk_result_json rt a) = canon (risk_result_json rt b) \<longleftrightarrow> same_result a b"
proof -
  have l: "json_opt (JStr \<circ> risk_level_value) x = json_opt (JStr \<circ> risk_level_value) y \<longleftrightarrow> x = y" for x y
    by (rule json_opt_eq) auto
  have s: "json_opt JInt x = json_opt JInt y \<longleftrightarrow> x = y" for x y by (rule json_opt_eq) auto
  have t: "rt_datetime rt x = rt_datetime rt y \<longleftrightarrow> x = y" for x y
    using assms by (auto simp: runtime_ok_def dest: injD)
  have i: "map (\<lambda>(k, v). (k, JInt v)) xs = map (\<lambda>(k, v). (k, JInt v)) ys \<longleftrightarrow> xs = ys"
    for xs ys :: "(string \<times> int) list" by (rule inj_map_eq_map) (auto simp: inj_def)
  show ?thesis
    unfolding risk_result_json_def
    apply (subst canon_object_iff)
      apply simp
     apply simp
    apply (cases a; cases b)
    apply (simp add: same_result_def canon_int_dict l s t i factor_list_canon del: canon.simps(2))
    apply blast
    done
qed


lemma families_canon:
  assumes "runtime_ok rt"
  shows "canon (families_json rt f) = canon (families_json rt g) \<longleftrightarrow> same_families f g"
  unfolding families_json_def
  by (subst canon_object_iff) (simp_all add: same_families_def risk_result_canon [OF assms])

lemma simulation_material_canon:
  assumes "runtime_ok rt"
  shows "canon (simulation_material rt t cur prop ids f g) = canon (simulation_material rt t' cur' prop' ids' f' g')
     \<longleftrightarrow> t = t' \<and> cur = cur' \<and> prop = prop' \<and> ids = ids' \<and> same_families f f' \<and> same_families g g'"
  unfolding simulation_material_def
  by (subst canon_object_iff) (simp_all add: families_canon [OF assms])

definition material_of :: "runtime \<Rightarrow> reassignment_simulation \<Rightarrow> json" where
  "material_of rt s = simulation_material rt (sim_task_id s) (sim_current_assignee_id s)
     (sim_proposed_assignee_id s) (sim_candidate_ids s) (sim_current s) (sim_proposed s)"

text \<open>
  The fingerprint of a simulation commits to its content: two simulations with the same
  fingerprint agree on the task, both assignees, the eligible ids in rank order and all six
  risk results, unless the digest has an explicit collision.
\<close>

theorem simulation_fingerprint_commits:
  assumes "runtime_ok rt"
    and s: "simulate_reassignment rt t cur cs sel scores = Inr s"
    and s': "simulate_reassignment rt t' cur' cs' sel' scores' = Inr s'"
    and "sim_evidence_fingerprint s = sim_evidence_fingerprint s'"
  shows "(sim_task_id s = sim_task_id s' \<and> sim_current_assignee_id s = sim_current_assignee_id s' \<and>
      sim_proposed_assignee_id s = sim_proposed_assignee_id s' \<and>
      sim_candidate_ids s = sim_candidate_ids s' \<and>
      same_families (sim_current s) (sim_current s') \<and> same_families (sim_proposed s) (sim_proposed s')) \<or>
     collision rt (material_of rt s) (material_of rt s')"
proof -
  have fp: "sim_evidence_fingerprint x = digest rt (material_of rt x)"
    if "simulate_reassignment rt u c ds e f = Inr x" for u c ds e f x
    using that
    by (auto simp: simulate_unfold same_scoring_rules_def material_of_def Let_def
        split: option.splits if_splits)
  have "digest rt (material_of rt s) = digest rt (material_of rt s')"
    using assms(4) fp [OF s] fp [OF s'] by simp
  then show ?thesis
    unfolding digest_eq_iff [OF assms(1)] material_of_def simulation_material_canon [OF assms(1)] .
qed

section \<open>Witnesses\<close>

definition sample_result :: "string \<Rightarrow> int \<Rightarrow> risk_result" where
  "sample_result version s = \<lparr>rr_subject_id = ''s'', rr_environment = Dev, rr_score = Some s,
     rr_level = Some RiskLow, rr_confidence = ConfHigh, rr_scored_at = 0, rr_evidence_timestamp = 0,
     rr_scoring_model_version = version, rr_factors = [], rr_thresholds = [],
     rr_evidence_references = [], rr_missing_evidence = [], rr_excluded_evidence = []\<rparr>"

definition sample_candidate :: "string \<Rightarrow> candidate_evidence" where
  "sample_candidate eid = \<lparr>ce_profile = sample_profile eid (Some eid), ce_has_jira_project_access = True,
     ce_overload_risk = sample_result ''o'' 20, ce_task_fit_risk = sample_result ''t'' 10,
     ce_predicted_project_risk = sample_result ''p'' 5\<rparr>"

definition sample_families :: score_families where
  "sample_families = \<lparr>sf_employee_overload = sample_result ''o'' 80,
     sf_task_fit = sample_result ''t'' 50, sf_project_delivery = sample_result ''p'' 40\<rparr>"

lemma sample_candidate_facts [simp]:
  "candidate_id (sample_candidate e) = e" "candidate_ok (sample_candidate e)"
  "same_versions sample_families (sample_candidate e)"
  by (simp_all add: sample_candidate_def candidate_id_def sample_profile_def candidate_ok_def
      candidate_risks_def sample_result_def ACCEPTABLE_CONFIDENCE_def same_versions_def sample_families_def)

theorem candidate_selection_witness:
  "\<exists>as. select_candidates [sample_candidate ''E1'', (sample_candidate ''E2'')\<lparr>ce_has_jira_project_access := False\<rparr>] = Inr as \<and>
     length as = 2 \<and> ca_employee_id ` {a \<in> set as. ca_eligible a} = {''E1''} \<and> ca_eligible (as ! 0)"
proof -
  let ?bad = "(sample_candidate ''E2'')\<lparr>ce_has_jira_project_access := False\<rparr>"
  let ?cs = "[sample_candidate ''E1'', ?bad]"
  have bad: "\<not> candidate_ok ?bad" by (simp add: candidate_ok_def)
  from candidate_selection [of ?cs] obtain as where as: "select_candidates ?cs = Inr as" "length as = length ?cs"
    "ca_employee_id ` {a \<in> set as. ca_eligible a} = (\<lambda>c. wp_employee_id (ce_profile c)) ` {c \<in> set ?cs. candidate_ok c}"
    and order: "\<forall>i j. i < j \<and> j < length as \<and> ca_eligible (as ! j) \<longrightarrow> ca_eligible (as ! i) \<and>
        the (ca_ranking_score (as ! i)) \<le> the (ca_ranking_score (as ! j))"
    by (elim exE conjE)
  have "{c \<in> set ?cs. candidate_ok c} = {sample_candidate ''E1''}" using bad by auto
  with as(3) have ids: "ca_employee_id ` {a \<in> set as. ca_eligible a} = {''E1''}"
    using sample_candidate_facts(1) [of "''E1''"] by (simp add: candidate_id_def)
  then have "{a \<in> set as. ca_eligible a} \<noteq> {}" by (metis image_empty insert_not_empty)
  then obtain a where a: "a \<in> set as" "ca_eligible a" by blast
  from a(1) obtain j where j: "j < length as" "as ! j = a" unfolding in_set_conv_nth by blast
  have "ca_eligible (as ! 0)"
  proof (cases j)
    case 0
    with a j show ?thesis by simp
  next
    case (Suc k)
    with a j order show ?thesis by blast
  qed
  with as ids show ?thesis by (intro exI [of _ as]) simp
qed

theorem simulation_order_independent_witness:
  "simulate_reassignment sample_runtime ''t'' ''E0'' [sample_candidate ''E1'', sample_candidate ''E2''] ''E1'' sample_families
   = simulate_reassignment sample_runtime ''t'' ''E0'' [sample_candidate ''E2'', sample_candidate ''E1''] ''E1'' sample_families"
  using simulation_order_independent [of "[sample_candidate ''E1'', sample_candidate ''E2'']"
      "[sample_candidate ''E2'', sample_candidate ''E1'']"] by simp

theorem simulation_only_eligible_witness:
  "\<exists>s. simulate_reassignment sample_runtime ''t'' ''E0'' [sample_candidate ''E1'', sample_candidate ''E2'']
        ''E2'' sample_families = Inr s \<and> sim_proposed_assignee_id s = ''E2''"
  using simulation_only_eligible [of "[sample_candidate ''E1'', sample_candidate ''E2'']" sample_runtime
      "''t''" "''E0''" "''E2''" sample_families] by auto

lemma sample_simulation:
  "simulate_reassignment sample_runtime ''t'' ''E0'' [sample_candidate ''E1''] ''E1'' sample_families =
     Inr (simulation_for sample_runtime ''t'' ''E0'' [sample_candidate ''E1''] (sample_candidate ''E1'') sample_families)"
  using simulate_candidate [of "[sample_candidate ''E1'']" "sample_candidate ''E1''"] by simp

theorem simulation_fingerprint_commits_witness:
  "let s = simulation_for sample_runtime ''t'' ''E0'' [sample_candidate ''E1''] (sample_candidate ''E1'') sample_families
   in sim_task_id s = ''t'' \<and> (same_families (sim_proposed s) (sim_proposed s) \<or>
        collision sample_runtime (material_of sample_runtime s) (material_of sample_runtime s))"
  using simulation_fingerprint_commits [OF sample_runtime_ok sample_simulation sample_simulation refl]
  by (auto simp: Let_def simulation_for_def)

end
