(* ===== verification/ProposalState.thy ===== *)
theory ProposalState imports Runtime begin

text \<open>
  domain/workforce_risk/proposals/state.py: the state machine of a reassignment proposal.
\<close>

datatype proposal_state = Pending | Approved | Executing | ExecutedVerified | ExecutionFailed
  | Uncertain | Rejected | Expired | Stale

fun proposal_state_value :: "proposal_state \<Rightarrow> string" where
  "proposal_state_value Pending = ''pending''"
| "proposal_state_value Approved = ''approved''"
| "proposal_state_value Executing = ''executing''"
| "proposal_state_value ExecutedVerified = ''executed_verified''"
| "proposal_state_value ExecutionFailed = ''execution_failed''"
| "proposal_state_value Uncertain = ''uncertain''"
| "proposal_state_value Rejected = ''rejected''"
| "proposal_state_value Expired = ''expired''"
| "proposal_state_value Stale = ''stale''"

definition TERMINAL_STATES :: "proposal_state set" where
  "TERMINAL_STATES = {ExecutedVerified, ExecutionFailed, Rejected, Expired, Stale}"

definition ALLOWED_TRANSITIONS :: "(proposal_state \<times> proposal_state list) list" where
  "ALLOWED_TRANSITIONS =
    [(Pending, [Executing, Rejected, Expired, Stale]),
     (Executing, [ExecutedVerified, ExecutionFailed, Uncertain, Stale]),
     (Uncertain, [ExecutedVerified, ExecutionFailed])]"

definition validate_transition :: "proposal_state \<Rightarrow> proposal_state \<Rightarrow> unit res" where
  "validate_transition current target =
     (if target \<in> set (dict_get ALLOWED_TRANSITIONS current []) then Inr ()
      else Inl (ValueError (''illegal proposal transition: '' @ proposal_state_value current
             @ '' -> '' @ proposal_state_value target)))"

lemma validate_transition_Inr_iff [res_elims]:
  "validate_transition c t = Inr u \<longleftrightarrow>
     (c = Pending \<and> t \<in> {Executing, Rejected, Expired, Stale}) \<or>
     (c = Executing \<and> t \<in> {ExecutedVerified, ExecutionFailed, Uncertain, Stale}) \<or>
     (c = Uncertain \<and> t \<in> {ExecutedVerified, ExecutionFailed})"
  by (cases c; cases t) (simp_all add: validate_transition_def ALLOWED_TRANSITIONS_def dict_get_def)

inductive transitions :: "proposal_state \<Rightarrow> proposal_state \<Rightarrow> bool" where
  start: "transitions s s"
| step: "transitions s t \<Longrightarrow> validate_transition t u = Inr () \<Longrightarrow> transitions s u"

lemma transitions_from_terminal:
  assumes "transitions s t" and "s \<in> TERMINAL_STATES"
  shows "t = s"
  using assms
  by (induction rule: transitions.induct) (auto simp: validate_transition_Inr_iff TERMINAL_STATES_def)

text \<open>How far a state is from the end; every legal transition moves strictly on.\<close>

fun progress_rank :: "proposal_state \<Rightarrow> nat" where
  "progress_rank Pending = 0"
| "progress_rank Executing = 1"
| "progress_rank Uncertain = 2"
| "progress_rank _ = 3"

text \<open>
  The proposal lifecycle is acyclic and ends: every legal transition strictly advances,
  no transition leaves a terminal state, \<open>Approved\<close> is never reached, and a verified or failed
  execution is reachable only through \<open>Executing\<close>, the state approval leads to.
\<close>

theorem proposal_lifecycle:
  "(validate_transition s t = Inr () \<longrightarrow> progress_rank s < progress_rank t \<and> t \<noteq> Approved) \<and>
   (s \<in> TERMINAL_STATES \<longrightarrow> (\<exists>m. validate_transition s t = Inl (ValueError m))) \<and>
   (validate_transition s t = Inr () \<and> t \<in> {ExecutedVerified, ExecutionFailed, Uncertain} \<longrightarrow>
      s \<in> {Executing, Uncertain}) \<and>
   (transitions s u \<and> s \<in> TERMINAL_STATES \<longrightarrow> u = s)"
proof (intro conjI)
  show "validate_transition s t = Inr () \<longrightarrow> progress_rank s < progress_rank t \<and> t \<noteq> Approved"
    "validate_transition s t = Inr () \<and> t \<in> {ExecutedVerified, ExecutionFailed, Uncertain} \<longrightarrow>
      s \<in> {Executing, Uncertain}"
    by (auto simp: validate_transition_Inr_iff)
  show "s \<in> TERMINAL_STATES \<longrightarrow> (\<exists>m. validate_transition s t = Inl (ValueError m))"
    by (auto simp: validate_transition_def TERMINAL_STATES_def ALLOWED_TRANSITIONS_def dict_get_def)
  show "transitions s u \<and> s \<in> TERMINAL_STATES \<longrightarrow> u = s"
    using transitions_from_terminal by blast
qed

theorem proposal_lifecycle_witness:
  "progress_rank Pending < progress_rank Executing \<and> transitions Rejected Rejected"
  using proposal_lifecycle [of Pending Executing Rejected] transitions.start
  by (simp add: validate_transition_Inr_iff)

end
