(* ===== verification/Tables.thy ===== *)
theory Tables imports ProposalState begin

text \<open>
  persistence/models.py: one record per table, and the database as the record of all tables.
  A table is the list of its rows in insertion order; a primary key is a number drawn from
  the database's counter, which stands for uuid4 (only distinctness is used).  A JSON column
  holds a \<open>json\<close> value, a column with a CHECK constraint or a Literal type the datatype of
  its values.  Inserting checks the table's unique constraints.
\<close>

section \<open>Rows\<close>

record audit_event =
  ae_id :: uuid
  ae_environment :: environment
  ae_created_at :: timestamp
  ae_sequence_number :: int
  ae_previous_hash :: "string option"
  ae_event_hash :: string
  ae_action_type :: string
  ae_actor_type :: string
  ae_actor_id :: string
  ae_subject_ids :: "string list"
  ae_prior_state :: json
  ae_new_state :: json
  ae_correlation_id :: string
  ae_safe_metadata :: json

record outbox_event =
  ob_id :: uuid
  ob_environment :: environment
  ob_created_at :: timestamp
  ob_consumer_key :: string
  ob_event_type :: string
  ob_payload :: json
  ob_delivery_attempts :: int
  ob_published_at :: "timestamp option"
  ob_last_error :: "string option"

record proposal_row =
  pr_id :: uuid
  pr_environment :: environment
  pr_created_at :: timestamp
  pr_simulation_id :: string
  pr_project_key :: string
  pr_task_key :: string
  pr_expected_assignee :: string
  pr_proposed_assignee :: string
  pr_state :: proposal_state
  pr_idempotency_key :: string
  pr_evidence_fingerprint :: string
  pr_confidence :: confidence
  pr_scoring_versions :: "string list"
  pr_simulation_payload :: json
  pr_requested_by :: string
  pr_expires_at :: timestamp
  pr_version :: int

record simulation_row =
  sr_id :: uuid
  sr_environment :: environment
  sr_created_at :: timestamp
  sr_simulation_id :: string
  sr_project_key :: string
  sr_task_key :: string
  sr_current_assignee :: string
  sr_proposed_assignee :: string
  sr_candidate_ids :: "string list"
  sr_confidence :: confidence
  sr_evidence_fingerprint :: string
  sr_scoring_versions :: "string list"
  sr_safe_payload :: json

datatype decision = Approve | Reject

record decision_row =
  ad_id :: uuid
  ad_environment :: environment
  ad_created_at :: timestamp
  ad_proposal_id :: uuid
  ad_actor_id :: string
  ad_decision :: decision
  ad_correlation_id :: string
  ad_idempotency_key :: string

record execution_row =
  ex_id :: uuid
  ex_environment :: environment
  ex_created_at :: timestamp
  ex_proposal_id :: uuid
  ex_state :: proposal_state
  ex_external_correlation_id :: "string option"
  ex_result :: json
  ex_write_attempted :: bool
  ex_lease_owner :: "string option"
  ex_leased_at :: "timestamp option"

datatype alert_state = AlertNew | Acknowledged | Investigating | Resolved | Dismissed

record alert_row =
  al_id :: uuid
  al_environment :: environment
  al_created_at :: timestamp
  al_subject_id :: string
  al_risk_type :: string
  al_scoring_window :: string
  al_dedup_key :: string
  al_state :: alert_state
  al_severity :: risk_level
  al_evidence_fingerprint :: string
  al_last_notified_at :: "timestamp option"
  al_version :: int

record occurrence_row =
  ao_id :: uuid
  ao_environment :: environment
  ao_created_at :: timestamp
  ao_alert_id :: uuid
  ao_risk_result_id :: uuid
  ao_sequence_number :: int
  ao_severity :: risk_level
  ao_evidence_fingerprint :: string

datatype report_status = ReportPending | ReportStored | ReportFailed

record report_row =
  rm_id :: uuid
  rm_environment :: environment
  rm_created_at :: timestamp
  rm_report_type :: string
  rm_status :: report_status
  rm_object_key :: "string option"
  rm_object_version :: "string option"
  rm_checksum :: "string option"
  rm_idempotency_key :: string

datatype scan_state = Queued | Running | Completed | CompletedDegraded | Failed | SkippedDuplicate

record scan_row =
  sn_id :: uuid
  sn_environment :: environment
  sn_created_at :: timestamp
  sn_scope :: string
  sn_state :: scan_state
  sn_idempotency_key :: string
  sn_correlation_id :: string
  sn_started_at :: "timestamp option"
  sn_completed_at :: "timestamp option"
  sn_failure_reason :: "string option"

datatype delivery_state = DPending | Sending | Sent | Retrying | DFailed

record delivery_row =
  nd_id :: uuid
  nd_environment :: environment
  nd_created_at :: timestamp
  nd_consumer_key :: string
  nd_state :: delivery_state
  nd_attempts :: int
  nd_last_error :: "string option"

record profile_row =
  ep_id :: uuid
  ep_environment :: environment
  ep_created_at :: timestamp
  ep_employee_id :: string
  ep_role :: string
  ep_seniority :: string
  ep_weekly_capacity_hours :: pyfloat
  ep_mentoring_available :: bool
  ep_jira_account_id :: "string option"
  ep_version :: int

record skill_row =
  es_id :: uuid
  es_environment :: environment
  es_created_at :: timestamp
  es_profile_id :: uuid
  es_skill :: string
  es_proficiency :: int

record allocation_row =
  ca_row_id :: uuid
  ca_row_environment :: environment
  ca_row_created_at :: timestamp
  ca_row_profile_id :: uuid
  ca_row_project_key :: string
  ca_row_allocation_fraction :: pyfloat
  ca_row_effective_from :: timestamp
  ca_row_effective_until :: "timestamp option"

record override_row =
  cv_id :: uuid
  cv_environment :: environment
  cv_created_at :: timestamp
  cv_profile_id :: uuid
  cv_starts_at :: timestamp
  cv_ends_at :: timestamp
  cv_capacity_hours :: pyfloat
  cv_reason :: string

record scoring_version_row =
  sv_id :: uuid
  sv_environment :: environment
  sv_created_at :: timestamp
  sv_version :: string
  sv_configuration :: json
  sv_activated_at :: "timestamp option"
  sv_activated_by :: "string option"

record snapshot_row =
  sp_id :: uuid
  sp_environment :: environment
  sp_created_at :: timestamp
  sp_subject_type :: string
  sp_subject_id :: string
  sp_fingerprint :: string
  sp_evidence :: json
  sp_observed_at :: timestamp

record risk_result_row =
  rk_id :: uuid
  rk_environment :: environment
  rk_created_at :: timestamp
  rk_snapshot_id :: uuid
  rk_score_family :: string
  rk_score :: "int option"
  rk_level :: "risk_level option"
  rk_confidence :: confidence
  rk_scoring_version :: string
  rk_factors :: json
  rk_thresholds :: json
  rk_evidence_references :: "string list"
  rk_missing_evidence :: "string list"
  rk_excluded_evidence :: "string list"

record comment_row =
  cm_id :: uuid
  cm_environment :: environment
  cm_created_at :: timestamp
  cm_jira_comment_id :: string
  cm_jira_issue_key :: string
  cm_category :: string
  cm_author_reference :: "string option"
  cm_author_type :: string
  cm_attribution_status :: string
  cm_comment_created_at :: timestamp
  cm_updated_at :: timestamp
  cm_retrieved_at :: timestamp
  cm_freshness :: string
  cm_availability_status :: string
  cm_observation_fingerprint :: string
  cm_metadata_json :: json

record work_week_row =
  ww_id :: uuid
  ww_environment :: environment
  ww_created_at :: timestamp
  ww_project_key :: string
  ww_week_start :: date
  ww_week_end :: date

record progress_snapshot_row =
  ps_id :: uuid
  ps_environment :: environment
  ps_created_at :: timestamp
  ps_work_week_id :: uuid
  ps_project_key :: string
  ps_issue_key :: string
  ps_assignee_id :: "string option"
  ps_captured_at :: timestamp
  ps_jira_updated_at :: timestamp
  ps_status :: string
  ps_original_estimate_hours :: "pyfloat option"
  ps_remaining_estimate_hours :: "pyfloat option"
  ps_time_spent_hours :: "pyfloat option"
  ps_due_date :: "date option"
  ps_priority :: "string option"
  ps_blocked :: bool
  ps_blocker_issue_keys :: "string list"
  ps_source :: string
  ps_evidence_fingerprint :: string

record progress_event_row =
  pe_id :: uuid
  pe_environment :: environment
  pe_created_at :: timestamp
  pe_work_week_id :: uuid
  pe_project_key :: string
  pe_issue_key :: string
  pe_employee_id :: "string option"
  pe_event_type :: string
  pe_occurred_at :: timestamp
  pe_old_value :: json
  pe_new_value :: json
  pe_source :: string
  pe_event_fingerprint :: string

text \<open>
  The JSON column \<open>state\<close> of a task's current state holds the dump of the last observation and
  is only read back by validating it as an observation again; the row keeps the observation.
\<close>

record observation =
  tp_project_key :: string
  tp_issue_key :: string
  tp_assignee_id :: "string option"
  tp_captured_at :: timestamp
  tp_jira_updated_at :: timestamp
  tp_status :: string
  tp_original_estimate_hours :: "pyfloat option"
  tp_remaining_estimate_hours :: "pyfloat option"
  tp_time_spent_hours :: "pyfloat option"
  tp_due_date :: "date option"
  tp_priority :: "string option"
  tp_blocked :: bool
  tp_blocker_issue_keys :: "string list"

record task_state_row =
  tc_id :: uuid
  tc_environment :: environment
  tc_created_at :: timestamp
  tc_project_key :: string
  tc_issue_key :: string
  tc_work_week_id :: uuid
  tc_evidence_fingerprint :: string
  tc_last_observed_at :: timestamp
  tc_jira_updated_at :: timestamp
  tc_last_structured_progress_at :: "timestamp option"
  tc_state :: observation

section \<open>The database\<close>

record db =
  db_next :: uuid
  db_audit :: "audit_event list"
  db_outbox :: "outbox_event list"
  db_proposals :: "proposal_row list"
  db_simulations :: "simulation_row list"
  db_decisions :: "decision_row list"
  db_executions :: "execution_row list"
  db_alerts :: "alert_row list"
  db_occurrences :: "occurrence_row list"
  db_reports :: "report_row list"
  db_scans :: "scan_row list"
  db_deliveries :: "delivery_row list"
  db_profiles :: "profile_row list"
  db_skills :: "skill_row list"
  db_allocations :: "allocation_row list"
  db_overrides :: "override_row list"
  db_scoring_versions :: "scoring_version_row list"
  db_snapshots :: "snapshot_row list"
  db_risk_results :: "risk_result_row list"
  db_comments :: "comment_row list"
  db_work_weeks :: "work_week_row list"
  db_task_states :: "task_state_row list"
  db_progress_snapshots :: "progress_snapshot_row list"
  db_progress_events :: "progress_event_row list"

definition empty_db :: db where
  "empty_db = \<lparr>db_next = 0, db_audit = [], db_outbox = [], db_proposals = [], db_simulations = [],
     db_decisions = [], db_executions = [], db_alerts = [], db_occurrences = [], db_reports = [],
     db_scans = [], db_deliveries = [], db_profiles = [], db_skills = [], db_allocations = [],
     db_overrides = [], db_scoring_versions = [], db_snapshots = [], db_risk_results = [],
     db_comments = [], db_work_weeks = [], db_task_states = [], db_progress_snapshots = [],
     db_progress_events = []\<rparr>"

text \<open>\<open>uuid.uuid4()\<close>\<close>

definition new_id :: "db \<Rightarrow> uuid \<times> db" where
  "new_id d = (db_next d, d\<lparr>db_next := Suc (db_next d)\<rparr>)"

text \<open>A transaction returns its result and the new database, or raises and is rolled back.\<close>

type_synonym 'a tx = "('a \<times> db) res"

definition insert_row2 ::
  "string \<Rightarrow> ('r \<Rightarrow> 'k) \<Rightarrow> string \<Rightarrow> ('r \<Rightarrow> 'j) \<Rightarrow> 'r \<Rightarrow> 'r list \<Rightarrow> 'r list res" where
  "insert_row2 n1 key1 n2 key2 r rows =
     bindr (insert_row n1 key1 r rows) (\<lambda>_. insert_row n2 key2 r rows)"

lemma insert_row2_Inr_iff [row_simps]:
  "insert_row2 n1 key1 n2 key2 r rows = Inr rows' \<longleftrightarrow>
     key1 r \<notin> key1 ` set rows \<and> key2 r \<notin> key2 ` set rows \<and> rows' = rows @ [r]"
  by (auto simp: insert_row2_def bindr_Inr_iff insert_row_Inr_iff)

end
