(* ===== verification/AuditLog.thy ===== *)
theory AuditLog imports Tables begin

text \<open>
  The tamper-evident audit log: \<open>AuditRepository\<close> of persistence/repositories.py (append and
  verify\_chain) and the dictionary form of domain/workforce_risk/audit.  Every append
  extends a verified chain, and the head hash of a verified chain commits to all of it.
\<close>

section \<open>AuditRepository\<close>

definition event_payload :: "audit_event \<Rightarrow> json" where
  "event_payload e = JObj
    [(''sequence'', JInt (ae_sequence_number e)),
     (''previous_hash'', json_opt JStr (ae_previous_hash e)),
     (''action_type'', JStr (ae_action_type e)),
     (''actor_type'', JStr (ae_actor_type e)),
     (''actor_id'', JStr (ae_actor_id e)),
     (''subject_ids'', json_strings (ae_subject_ids e)),
     (''correlation_id'', JStr (ae_correlation_id e)),
     (''prior_state'', ae_prior_state e),
     (''new_state'', ae_new_state e),
     (''safe_metadata'', ae_safe_metadata e)]"

text \<open>The arguments of \<open>append\<close> that become columns; None is stored as JSON null.\<close>

record audit_args =
  aa_action_type :: string
  aa_actor_type :: string
  aa_actor_id :: string
  aa_subject_ids :: "string list"
  aa_correlation_id :: string
  aa_prior_state :: json
  aa_new_state :: json
  aa_safe_metadata :: json

definition env_events :: "environment \<Rightarrow> db \<Rightarrow> audit_event list" where
  "env_events env d = sort_key ae_sequence_number (filter (\<lambda>e. ae_environment e = env) (db_audit d))"

definition latest_event :: "environment \<Rightarrow> db \<Rightarrow> audit_event option" where
  "latest_event env d = (case rev (env_events env d) of [] \<Rightarrow> None | e # _ \<Rightarrow> Some e)"

definition next_event ::
  "runtime \<Rightarrow> timestamp \<Rightarrow> environment \<Rightarrow> audit_args \<Rightarrow> db \<Rightarrow> audit_event" where
  "next_event rt now env a d =
    (let latest = latest_event env d;
         e = \<lparr>ae_id = db_next d, ae_environment = env, ae_created_at = now,
              ae_sequence_number = (case latest of None \<Rightarrow> 1 | Some l \<Rightarrow> ae_sequence_number l + 1),
              ae_previous_hash = map_option ae_event_hash latest, ae_event_hash = [],
              ae_action_type = aa_action_type a, ae_actor_type = aa_actor_type a,
              ae_actor_id = aa_actor_id a, ae_subject_ids = aa_subject_ids a,
              ae_prior_state = aa_prior_state a, ae_new_state = aa_new_state a,
              ae_correlation_id = aa_correlation_id a, ae_safe_metadata = aa_safe_metadata a\<rparr>
     in e\<lparr>ae_event_hash := digest rt (event_payload e)\<rparr>)"

definition audit_append ::
  "runtime \<Rightarrow> timestamp \<Rightarrow> environment \<Rightarrow> audit_args \<Rightarrow> db \<Rightarrow> audit_event tx" where
  "audit_append rt now env a d =
    (let e = next_event rt now env a d in
     bindr (insert_row2 ''uq_audit_env_sequence'' (\<lambda>e. (ae_environment e, ae_sequence_number e))
              ''uq_audit_env_hash'' (\<lambda>e. (ae_environment e, ae_event_hash e)) e (db_audit d))
       (\<lambda>rows. Inr (e, d\<lparr>db_audit := rows, db_next := Suc (db_next d)\<rparr>)))"

fun verify_events :: "runtime \<Rightarrow> int \<Rightarrow> string option \<Rightarrow> audit_event list \<Rightarrow> bool" where
  "verify_events rt expected previous [] \<longleftrightarrow> True"
| "verify_events rt expected previous (e # es) \<longleftrightarrow>
     ae_sequence_number e = expected \<and> ae_previous_hash e = previous \<and>
     digest rt (event_payload e) = ae_event_hash e \<and>
     verify_events rt (expected + 1) (Some (ae_event_hash e)) es"

definition verify_chain :: "runtime \<Rightarrow> environment \<Rightarrow> db \<Rightarrow> bool" where
  "verify_chain rt env d \<longleftrightarrow> verify_events rt 1 None (env_events env d)"

section \<open>domain/workforce\_risk/audit/chain.py\<close>

definition event_hash :: "runtime \<Rightarrow> (string \<times> json) list \<Rightarrow> string" where
  "event_hash rt payload = digest rt (JObj payload)"

text \<open>\<open>value != n\<close> for an int \<open>n\<close>: Python compares numbers by value, \<open>True == 1\<close>.\<close>

fun equals_int :: "json \<Rightarrow> int \<Rightarrow> bool" where
  "equals_int (JInt m) n \<longleftrightarrow> m = n"
| "equals_int (JBool b) n \<longleftrightarrow> n = (if b then 1 else 0)"
| "equals_int (JFloat x) n \<longleftrightarrow> x = of_int n"
| "equals_int _ _ \<longleftrightarrow> False"

fun verify_dicts :: "runtime \<Rightarrow> int \<Rightarrow> string option \<Rightarrow> (string \<times> json) list list \<Rightarrow> bool" where
  "verify_dicts rt expected previous [] \<longleftrightarrow> True"
| "verify_dicts rt expected previous (e # es) \<longleftrightarrow>
     equals_int (dict_get e ''sequence_number'' JNull) expected \<and>
     dict_get e ''previous_hash'' JNull = json_opt JStr previous \<and>
     (let supplied = dict_get e ''event_hash'' JNull;
          computed = event_hash rt (filter (\<lambda>(k, v). k \<noteq> ''event_hash'') e)
      in supplied = JStr computed \<and> verify_dicts rt (expected + 1) (Some computed) es)"

definition verify_hash_chain :: "runtime \<Rightarrow> (string \<times> json) list list \<Rightarrow> bool" where
  "verify_hash_chain rt events = verify_dicts rt 1 None events"

section \<open>Hash chains\<close>

text \<open>
  What the two verifiers share.  An event has a position test, a test of its link to the
  previous hash, its own hash and a payload that fixes position and link; \<open>ok\<close> checks a list
  of events from a position and a previous hash on.
\<close>

locale hash_chain =
  fixes rt :: runtime
    and wf :: "'e \<Rightarrow> bool"
    and at_position :: "'e \<Rightarrow> int \<Rightarrow> bool"
    and linked :: "'e \<Rightarrow> string option \<Rightarrow> bool"
    and own_hash :: "'e \<Rightarrow> string"
    and payload :: "'e \<Rightarrow> json"
    and ok :: "int \<Rightarrow> string option \<Rightarrow> 'e list \<Rightarrow> bool"
  assumes ok_Nil: "ok n p []"
    and ok_Cons: "ok n p (e # es) \<longleftrightarrow> at_position e n \<and> linked e p \<and>
       own_hash e = digest rt (payload e) \<and> ok (n + 1) (Some (own_hash e)) es"
    and same_position: "wf e \<Longrightarrow> wf f \<Longrightarrow> canon (payload e) = canon (payload f) \<Longrightarrow>
       at_position e n \<Longrightarrow> at_position f m \<Longrightarrow> n = m"
    and same_link: "wf e \<Longrightarrow> wf f \<Longrightarrow> canon (payload e) = canon (payload f) \<Longrightarrow>
       linked e p \<Longrightarrow> linked f q \<Longrightarrow> p = q"
begin

definition tip :: "string option \<Rightarrow> 'e list \<Rightarrow> string option" where
  "tip p es = (if es = [] then p else Some (own_hash (last es)))"

lemma ok_snoc:
  "ok n p (es @ [e]) \<longleftrightarrow> ok n p es \<and> at_position e (n + int (length es)) \<and>
     linked e (tip p es) \<and> own_hash e = digest rt (payload e)"
  by (induction es arbitrary: n p) (simp_all add: ok_Cons ok_Nil tip_def add.assoc)

lemma commits:
  assumes "runtime_ok rt" and "ok 1 None es" and "ok 1 None fs"
    and "\<forall>x \<in> set es. wf x" and "\<forall>x \<in> set fs. wf x" and "tip None es = tip None fs"
  shows "map (canon \<circ> payload) es = map (canon \<circ> payload) fs \<or>
     (\<exists>e \<in> set es. \<exists>f \<in> set fs. collision rt (payload e) (payload f))"
  using assms(2-6)
proof (induction es arbitrary: fs rule: rev_induct)
  case Nil
  then show ?case by (cases fs rule: rev_cases) (auto simp: tip_def)
next
  case (snoc e es)
  then obtain f gs where fs: "fs = gs @ [f]" by (cases fs rule: rev_cases) (auto simp: tip_def)
  have e: "ok 1 None es" "linked e (tip None es)" "own_hash e = digest rt (payload e)"
    using snoc.prems(1) unfolding ok_snoc by blast+
  have f: "ok 1 None gs" "linked f (tip None gs)" "own_hash f = digest rt (payload f)"
    using snoc.prems(2) unfolding fs ok_snoc by blast+
  have wf: "wf e" "wf f" "\<forall>x \<in> set es. wf x" "\<forall>x \<in> set gs. wf x" using snoc.prems(3,4) fs by auto
  have "digest rt (payload e) = digest rt (payload f)"
    using snoc.prems(5) e(3) f(3) by (simp add: tip_def fs)
  then consider "canon (payload e) = canon (payload f)" | "collision rt (payload e) (payload f)"
    using digest_eq_iff [OF assms(1)] by blast
  then show ?case
  proof cases
    case 1
    have "tip None es = tip None gs" using same_link [OF wf(1,2) 1 e(2) f(2)] .
    from snoc.IH [OF e(1) f(1) wf(3,4) this] 1 fs show ?thesis by auto
  next
    case 2
    with fs show ?thesis by auto
  qed
qed

lemma commits_length:
  assumes "map (canon \<circ> payload) es = map (canon \<circ> payload) fs" shows "length es = length fs"
  using assms by (metis length_map)

end

section \<open>The database log is a hash chain\<close>

lemma canon_payload_fields:
  "canon (event_payload e) = canon (event_payload f) \<longleftrightarrow>
     ae_sequence_number e = ae_sequence_number f \<and> ae_previous_hash e = ae_previous_hash f \<and>
     ae_action_type e = ae_action_type f \<and> ae_actor_type e = ae_actor_type f \<and>
     ae_actor_id e = ae_actor_id f \<and> ae_subject_ids e = ae_subject_ids f \<and>
     ae_correlation_id e = ae_correlation_id f \<and>
     canon (ae_prior_state e) = canon (ae_prior_state f) \<and>
     canon (ae_new_state e) = canon (ae_new_state f) \<and>
     canon (ae_safe_metadata e) = canon (ae_safe_metadata f)"
proof -
  have o: "json_opt JStr x = json_opt JStr y \<longleftrightarrow> x = y" for x y by (rule json_opt_eq) auto
  show ?thesis
    unfolding event_payload_def by (subst canon_object_iff) (simp_all add: o)
qed

interpretation log_chain: hash_chain rt "\<lambda>_. True" "\<lambda>e n. ae_sequence_number e = n"
  "\<lambda>e p. ae_previous_hash e = p" ae_event_hash event_payload "verify_events rt" for rt
  by unfold_locales (auto simp: canon_payload_fields)

section \<open>So are the dictionaries of the domain\<close>

definition dict_material :: "(string \<times> json) list \<Rightarrow> json" where
  "dict_material e = JObj (filter (\<lambda>(k, v). k \<noteq> ''event_hash'') e)"

definition dict_position :: "runtime \<Rightarrow> (string \<times> json) list \<Rightarrow> int \<Rightarrow> bool" where
  "dict_position rt e n \<longleftrightarrow> equals_int (dict_get e ''sequence_number'' JNull) n \<and>
     dict_get e ''event_hash'' JNull = JStr (digest rt (dict_material e))"

definition dict_linked :: "(string \<times> json) list \<Rightarrow> string option \<Rightarrow> bool" where
  "dict_linked e p \<longleftrightarrow> dict_get e ''previous_hash'' JNull = json_opt JStr p"

lemma canon_map_of:
  assumes "canon (JObj xs) = canon (JObj ys)" and "distinct (map fst xs)" and "distinct (map fst ys)"
  shows "map_option canon (map_of xs k) = map_option canon (map_of ys k)"
proof -
  let ?c = "\<lambda>(k, v). (k, canon v)"
  have m: "map_of (map ?c zs) k = map_option canon (map_of zs k)" for zs :: "(string \<times> json) list"
    by (induction zs) auto
  have "fst \<circ> ?c = (fst :: string \<times> json \<Rightarrow> string)" by auto
  then have d: "distinct (map fst (map ?c xs))" "distinct (map fst (map ?c ys))" using assms by simp_all
  from assms(1) have "sort_key fst (map ?c xs) = sort_key fst (map ?c ys)" by simp
  then have "set (sort_key fst (map ?c xs)) = set (sort_key fst (map ?c ys))" by (rule arg_cong)
  then have "map_of (map ?c xs) = map_of (map ?c ys)" using d by (simp only: set_sort map_of_inject_set)
  then show ?thesis by (metis m)
qed

lemma dict_get_material:
  assumes "canon (dict_material e) = canon (dict_material f)" and "distinct (map fst e)" "distinct (map fst f)"
    and "k \<noteq> ''event_hash''"
  shows "canon (dict_get e k JNull) = canon (dict_get f k JNull)"
proof -
  have d: "distinct (map fst (filter (\<lambda>(k, v). k \<noteq> ''event_hash'') e))"
    "distinct (map fst (filter (\<lambda>(k, v). k \<noteq> ''event_hash'') f))"
    using assms(2,3) by (simp_all add: distinct_map_filter)
  have m: "map_of (filter (\<lambda>(k, v). k \<noteq> ''event_hash'') zs) k = map_of zs k" for zs :: "(string \<times> json) list"
    using assms(4) by (induction zs) auto
  have "map_option canon (map_of e k) = map_option canon (map_of f k)"
    using canon_map_of [OF assms(1) [unfolded dict_material_def] d, of k] by (simp add: m)
  then show ?thesis by (auto simp: dict_get_def split: option.splits)
qed

lemma equals_int_canon: "equals_int (canon j) n = equals_int j n"
  by (cases j) simp_all

lemma equals_int_unique: "equals_int j n \<Longrightarrow> equals_int j m \<Longrightarrow> n = m"
  by (cases j) (auto split: if_splits)

lemma canon_eq_string: "canon j = json_opt JStr p \<longleftrightarrow> j = json_opt JStr p"
  by (cases j; cases p) (auto simp: json_opt_def)

interpretation dict_chain: hash_chain rt "\<lambda>e. distinct (map fst e)" "dict_position rt" dict_linked
  "\<lambda>e. digest rt (dict_material e)" dict_material "verify_dicts rt" for rt
proof unfold_locales
  fix e f :: "(string \<times> json) list" and n m :: int and p q
  assume d: "distinct (map fst e)" "distinct (map fst f)" "canon (dict_material e) = canon (dict_material f)"
  show "dict_position rt e n \<Longrightarrow> dict_position rt f m \<Longrightarrow> n = m"
    using dict_get_material [OF d(3,1,2), of "''sequence_number''"]
    by (auto simp: dict_position_def) (metis equals_int_canon equals_int_unique)
  show "dict_linked e p \<Longrightarrow> dict_linked f q \<Longrightarrow> p = q"
    using dict_get_material [OF d(3,1,2), of "''previous_hash''"]
    by (auto simp: dict_linked_def json_opt_def split: option.splits)
qed (auto simp: dict_position_def dict_linked_def event_hash_def dict_material_def Let_def)

section \<open>Appending\<close>

lemma latest_event_tip: "map_option ae_event_hash (latest_event env d) = log_chain.tip None (env_events env d)"
  by (cases "env_events env d" rule: rev_cases) (simp_all add: latest_event_def log_chain.tip_def)

lemma verify_events_sequence:
  "verify_events rt n p es \<Longrightarrow> map ae_sequence_number es = map (\<lambda>i. n + int i) [0..<length es]"
proof (induction es rule: rev_induct)
  case (snoc e es)
  then show ?case by (simp add: log_chain.ok_snoc)
qed simp

lemma verify_latest:
  assumes "verify_chain rt env d"
  shows "(case latest_event env d of None \<Rightarrow> 1 | Some l \<Rightarrow> ae_sequence_number l + 1)
     = 1 + int (length (env_events env d))"
proof (cases "env_events env d" rule: rev_cases)
  case Nil
  then show ?thesis by (simp add: latest_event_def)
next
  case (snoc es e)
  with assms have "ae_sequence_number e = 1 + int (length es)"
    by (simp add: verify_chain_def log_chain.ok_snoc)
  with snoc show ?thesis by (simp add: latest_event_def)
qed

lemma next_event_hash [simp]:
  "ae_event_hash (next_event rt now env a d) = digest rt (event_payload (next_event rt now env a d))"
  "ae_environment (next_event rt now env a d) = env"
  by (simp_all add: next_event_def Let_def event_payload_def)

lemma next_event_position:
  assumes "verify_chain rt env d"
  shows "ae_sequence_number (next_event rt now env a d) = 1 + int (length (env_events env d))"
    "ae_previous_hash (next_event rt now env a d) = log_chain.tip None (env_events env d)"
  using verify_latest [OF assms] latest_event_tip [of env d]
  by (simp_all add: next_event_def Let_def)

lemma sort_key_snoc_greatest:
  assumes "\<forall>x \<in> set xs. f x < f y"
  shows "sort_key f (xs @ [y]) = sort_key f xs @ [y]"
proof (rule properties_for_sort_key)
  show "mset (sort_key f xs @ [y]) = mset (xs @ [y])" by simp
  show "sorted (map f (sort_key f xs @ [y]))"
    using assms by (auto simp: sorted_append intro: less_imp_le)
  fix k
  have "(\<lambda>x. f k = f x) = (\<lambda>x. f x = f k)" by auto
  then show "filter (\<lambda>x. f k = f x) (sort_key f xs @ [y]) = filter (\<lambda>x. f k = f x) (xs @ [y])"
    by (simp add: sort_key_stable)
qed


lemma env_events_in: "e \<in> set (env_events env d) \<longleftrightarrow> e \<in> set (db_audit d) \<and> ae_environment e = env"
  by (auto simp: env_events_def)

lemma verify_sequence_bound:
  assumes "verify_chain rt env d" and "e \<in> set (env_events env d)"
  shows "ae_sequence_number e \<le> int (length (env_events env d))"
proof -
  have "ae_sequence_number e \<in> set (map ae_sequence_number (env_events env d))" using assms(2) by simp
  also have "map ae_sequence_number (env_events env d) = map (\<lambda>i. 1 + int i) [0..<length (env_events env d)]"
    using assms(1) by (intro verify_events_sequence) (simp add: verify_chain_def)
  finally show ?thesis by auto
qed

lemma env_events_snoc:
  assumes "verify_chain rt env d" and "e = next_event rt now env a d" and "db_audit d' = db_audit d @ [e]"
  shows "env_events env' d' = env_events env' d @ (if env' = env then [e] else [])"
proof (cases "env' = env")
  case True
  have "\<forall>x \<in> set (filter (\<lambda>e. ae_environment e = env) (db_audit d)). ae_sequence_number x < ae_sequence_number e"
    using verify_sequence_bound [OF assms(1)] next_event_position(1) [OF assms(1), of now a]
    by (force simp: assms(2) env_events_in)
  then show ?thesis using True assms(2,3) by (simp add: env_events_def sort_key_snoc_greatest)
qed (simp add: env_events_def assms)

lemma audit_append_Inr:
  assumes "audit_append rt now env a d = Inr (e, d')"
  shows "e = next_event rt now env a d" and "d' = d\<lparr>db_audit := db_audit d @ [e], db_next := Suc (db_next d)\<rparr>"
  using assms by (auto simp: audit_append_def Let_def bindr_Inr_iff insert_row2_Inr_iff)

definition log_ok :: "runtime \<Rightarrow> db \<Rightarrow> bool" where
  "log_ok rt d \<longleftrightarrow> (\<forall>env. verify_chain rt env d)"

lemma verify_chain_cong: "db_audit d' = db_audit d \<Longrightarrow> verify_chain rt env d' = verify_chain rt env d"
  by (simp add: verify_chain_def env_events_def)

lemma log_ok_cong: "db_audit d' = db_audit d \<Longrightarrow> log_ok rt d' = log_ok rt d"
  using verify_chain_cong [of d' d] by (simp add: log_ok_def)

lemma log_ok_append:
  assumes "log_ok rt d" and "audit_append rt now env a d = Inr (e, d')"
  shows "log_ok rt d'"
proof -
  note e = audit_append_Inr [OF assms(2)]
  have "verify_chain rt env' d'" for env'
  proof -
    have v: "verify_chain rt env d" "verify_chain rt env' d" using assms(1) by (simp_all add: log_ok_def)
    have ev: "env_events env' d' = env_events env' d @ (if env' = env then [e] else [])"
      by (rule env_events_snoc [OF v(1) e(1)]) (simp add: e(2))
    show ?thesis
    proof (cases "env' = env")
      case True
      with ev v next_event_position [OF v(1), of now a] e(1) show ?thesis
        by (simp add: verify_chain_def log_chain.ok_snoc)
    next
      case False
      with ev v show ?thesis by (simp add: verify_chain_def)
    qed
  qed
  then show ?thesis by (simp add: log_ok_def)
qed

lemma log_step:
  assumes "audit_append rt now env a d1 = Inr (e, d2)" and "db_audit d1 = db_audit d" and "log_ok rt d"
  shows "log_ok rt d2"
  using log_ok_append [OF _ assms(1)] log_ok_cong [OF assms(2)] assms(3) by blast

lemma audit_append_refused:
  assumes "runtime_ok rt" and "log_ok rt d" and "audit_append rt now env a d = Inl err"
  shows "err = IntegrityError ''uq_audit_env_hash''"
    and "\<exists>f \<in> set (env_events env d). collision rt (event_payload f) (event_payload (next_event rt now env a d))"
proof -
  let ?e = "next_event rt now env a d"
  have v: "verify_chain rt env d" using assms(2) by (simp add: log_ok_def)
  have fresh: "(ae_environment ?e, ae_sequence_number ?e) \<notin> (\<lambda>e. (ae_environment e, ae_sequence_number e)) ` set (db_audit d)"
    using verify_sequence_bound [OF v] next_event_position(1) [OF v, of now a]
    by (force simp: env_events_in)
  with assms(3) obtain f where f: "f \<in> set (db_audit d)" "ae_environment f = env" "ae_event_hash f = ae_event_hash ?e"
    and err: "err = IntegrityError ''uq_audit_env_hash''"
    by (auto simp: audit_append_def Let_def insert_row2_def bindr_Inl_iff insert_row_Inl_iff insert_row_Inr_iff)
  from err show "err = IntegrityError ''uq_audit_env_hash''" .
  from f have fin: "f \<in> set (env_events env d)" by (simp add: env_events_in)
  have "\<And>es n p. verify_events rt n p es \<Longrightarrow> f \<in> set es \<Longrightarrow> digest rt (event_payload f) = ae_event_hash f"
    subgoal for es n p by (induction es arbitrary: n p) auto
    done
  with fin v have "digest rt (event_payload f) = digest rt (event_payload ?e)"
    using f(3) by (simp add: verify_chain_def)
  moreover have "canon (event_payload f) \<noteq> canon (event_payload ?e)"
    using fresh f(1,2) by (force simp: canon_payload_fields)
  ultimately have "collision rt (event_payload f) (event_payload ?e)"
    using digest_eq_iff [OF assms(1)] by blast
  with fin show "\<exists>f \<in> set (env_events env d). collision rt (event_payload f) (event_payload ?e)" by blast
qed

text \<open>
  Appending to the audit log keeps every environment's chain verified and adds exactly one
  event at the end of its environment's chain; the append can only be refused by the unique
  constraint on the hash, and then the digest has an explicit collision.
\<close>

theorem audit_append_extends_chain:
  assumes "runtime_ok rt" and "log_ok rt d"
  shows "case audit_append rt now env a d of
      Inr (e, d') \<Rightarrow> log_ok rt d' \<and> env_events env d' = env_events env d @ [e] \<and>
        (\<forall>env'. env' \<noteq> env \<longrightarrow> env_events env' d' = env_events env' d) \<and>
        ae_sequence_number e = int (length (env_events env d')) \<and> ae_action_type e = aa_action_type a
    | Inl err \<Rightarrow> err = IntegrityError ''uq_audit_env_hash'' \<and>
        (\<exists>f \<in> set (env_events env d). collision rt (event_payload f) (event_payload (next_event rt now env a d)))"
proof (cases "audit_append rt now env a d")
  case (Inr p)
  obtain e d' where p: "p = (e, d')" by (cases p)
  have v: "verify_chain rt env d" using assms(2) by (simp add: log_ok_def)
  note e = audit_append_Inr [OF Inr [unfolded p]]
  have "env_events env' d' = env_events env' d @ (if env' = env then [e] else [])" for env'
    by (rule env_events_snoc [OF v e(1)]) (simp add: e(2))
  moreover have "log_ok rt d'" using log_ok_append [OF assms(2) Inr [unfolded p]] .
  moreover have "ae_action_type e = aa_action_type a" by (simp add: e(1) next_event_def Let_def)
  ultimately show ?thesis using Inr p next_event_position(1) [OF v, of now a] e(1) by simp
next
  case (Inl err)
  with audit_append_refused [OF assms Inl] show ?thesis by simp
qed

definition same_content :: "audit_event \<Rightarrow> audit_event \<Rightarrow> bool" where
  "same_content e f \<longleftrightarrow> canon (event_payload e) = canon (event_payload f)"

text \<open>
  C9: The head of a verified chain commits to the whole log: if the chains of two database
  states verify and end in the same hash, the logs have the same length and every pair of
  events has the same sequence, action, actor, subjects, states and metadata, unless the
  digest has an explicit collision.
\<close>

theorem audit_head_commits:
  assumes "runtime_ok rt" and "verify_chain rt env d" and "verify_chain rt env' d'"
    and "map_option ae_event_hash (latest_event env d) = map_option ae_event_hash (latest_event env' d')"
  shows "list_all2 same_content (env_events env d) (env_events env' d') \<or>
     (\<exists>e \<in> set (env_events env d). \<exists>f \<in> set (env_events env' d').
        collision rt (event_payload e) (event_payload f))"
proof -
  have "map (canon \<circ> event_payload) (env_events env d) = map (canon \<circ> event_payload) (env_events env' d') \<or>
     (\<exists>e \<in> set (env_events env d). \<exists>f \<in> set (env_events env' d').
        collision rt (event_payload e) (event_payload f))"
    using assms by (intro log_chain.commits) (simp_all add: verify_chain_def latest_event_tip)
  then show ?thesis
    by (auto simp: list_all2_conv_all_nth same_content_def list_eq_iff_nth_eq)
qed

text \<open>
  The dictionary verifier of the domain rejects any rewritten history: two lists of event
  dictionaries that both verify and end with the same hash agree on every event's material,
  unless the digest has an explicit collision.
\<close>

theorem dict_chain_commits:
  assumes "runtime_ok rt" and "verify_hash_chain rt (es @ [e])" and "verify_hash_chain rt (fs @ [f])"
    and "\<forall>x \<in> set (es @ [e]) \<union> set (fs @ [f]). distinct (map fst x)"
    and "dict_get e ''event_hash'' JNull = dict_get f ''event_hash'' JNull"
  shows "map (canon \<circ> dict_material) (es @ [e]) = map (canon \<circ> dict_material) (fs @ [f]) \<or>
     (\<exists>x \<in> set (es @ [e]). \<exists>y \<in> set (fs @ [f]). collision rt (dict_material x) (dict_material y))"
proof (rule dict_chain.commits [OF assms(1)])
  show "verify_dicts rt 1 None (es @ [e])" "verify_dicts rt 1 None (fs @ [f])"
    using assms by (simp_all add: verify_hash_chain_def)
  then have "dict_position rt e (1 + int (length es))" "dict_position rt f (1 + int (length fs))"
    unfolding dict_chain.ok_snoc by blast+
  with assms(5) show "dict_chain.tip rt None (es @ [e]) = dict_chain.tip rt None (fs @ [f])"
    by (simp add: dict_chain.tip_def dict_position_def)
qed (use assms(4) in auto)

section \<open>Witnesses\<close>

definition sample_audit :: audit_args where
  "sample_audit = \<lparr>aa_action_type = ''proposal.created'', aa_actor_type = ''manager'',
     aa_actor_id = ''m'', aa_subject_ids = [''p''], aa_correlation_id = ''c'',
     aa_prior_state = JNull, aa_new_state = JNull, aa_safe_metadata = JObj []\<rparr>"

lemma empty_log_ok: "log_ok rt empty_db"
  by (simp add: log_ok_def verify_chain_def env_events_def empty_db_def)

text \<open>The sample runtime's digest is the identity, which has no collision.\<close>

lemma sample_append_total:
  assumes "log_ok sample_runtime d"
  shows "\<exists>e d'. audit_append sample_runtime now env a d = Inr (e, d')"
proof (cases "audit_append sample_runtime now env a d")
  case (Inl err)
  from audit_append_refused(2) [OF sample_runtime_ok assms Inl] show ?thesis
    by (auto simp: collision_def digest_def sample_runtime_def)
qed auto

definition sample_logged :: db where
  "sample_logged = empty_db\<lparr>db_audit := [next_event sample_runtime 5 Dev sample_audit empty_db], db_next := 1\<rparr>"

lemma sample_logged_append:
  "audit_append sample_runtime 5 Dev sample_audit empty_db =
     Inr (next_event sample_runtime 5 Dev sample_audit empty_db, sample_logged)"
  by (simp add: audit_append_def insert_row2_def insert_row_def sample_logged_def empty_db_def Let_def)

theorem audit_append_extends_chain_witness:
  "log_ok sample_runtime sample_logged"
  using audit_append_extends_chain [OF sample_runtime_ok empty_log_ok, where now = 5 and env = Dev and a = sample_audit]
  by (simp add: sample_logged_append)

theorem audit_head_commits_witness:
  "list_all2 same_content (env_events Dev sample_logged) (env_events Dev sample_logged) \<or>
   (\<exists>e \<in> set (env_events Dev sample_logged). collision sample_runtime (event_payload e) (event_payload e))"
proof -
  have "verify_chain sample_runtime Dev sample_logged"
    using log_ok_append [OF empty_log_ok sample_logged_append] by (simp add: log_ok_def)
  from audit_head_commits [OF sample_runtime_ok this this refl] show ?thesis
    by (auto simp: sample_logged_def env_events_def empty_db_def)
qed

definition sample_dict :: "(string \<times> json) list" where
  "sample_dict = [(''sequence_number'', JInt 1), (''previous_hash'', JNull),
     (''event_hash'', JStr (digest sample_runtime (JObj [(''sequence_number'', JInt 1), (''previous_hash'', JNull)])))]"

theorem dict_chain_commits_witness:
  "canon (dict_material sample_dict) = canon (dict_material (rev sample_dict)) \<or>
   collision sample_runtime (dict_material sample_dict) (dict_material (rev sample_dict))"
proof -
  have h: "digest sample_runtime (JObj [(''previous_hash'', JNull), (''sequence_number'', JInt 1)])
      = digest sample_runtime (JObj [(''sequence_number'', JInt 1), (''previous_hash'', JNull)])"
    by (simp add: digest_def dumps_def)
  have "verify_hash_chain sample_runtime ([] @ [sample_dict])" "verify_hash_chain sample_runtime ([] @ [rev sample_dict])"
    using h by (simp_all add: verify_hash_chain_def sample_dict_def dict_get_def event_hash_def json_opt_def Let_def)
  from dict_chain_commits [OF sample_runtime_ok this] show ?thesis
    by (simp add: sample_dict_def dict_get_def)
qed

end
