(* ===== verification/Outbox.thy ===== *)
theory Outbox imports AuditLog begin

text \<open>
  Idempotent stores: the repositories that look a row up by a key and insert it only when it
  is absent share the locale \<open>idempotent_store\<close>.  Its first provider here is the
  transactional outbox of persistence/outbox\_repository.py.
\<close>

section \<open>The interface\<close>

locale idempotent_store =
  fixes lookup :: "'k \<Rightarrow> 's \<Rightarrow> 'r option"
    and put :: "'k \<Rightarrow> 'a \<Rightarrow> 's \<Rightarrow> ('r \<times> 's) res"
  assumes put_existing: "lookup k s = Some r \<Longrightarrow> put k a s = Inr (r, s)"
    and put_new: "lookup k s = None \<Longrightarrow> \<exists>r s'. put k a s = Inr (r, s') \<and> lookup k s' = Some r"
    and put_frame: "put k a s = Inr (r, s') \<Longrightarrow> k' \<noteq> k \<Longrightarrow> lookup k' s' = lookup k' s"
begin

lemma put_total: "\<exists>r s'. put k a s = Inr (r, s') \<and> lookup k s' = Some r"
proof (cases "lookup k s")
  case None
  then show ?thesis using put_new by blast
next
  case (Some r)
  then show ?thesis using put_existing by blast
qed

lemma put_lookup: "put k a s = Inr (r, s') \<Longrightarrow> lookup k s' = Some r"
  using put_total [of k a s] by auto

lemma put_again: "put k a s = Inr (r, s') \<Longrightarrow> put k b s' = Inr (r, s')"
  using put_lookup put_existing by blast

lemma lookup_stable:
  assumes "lookup k s = Some r" and "put k' a s = Inr (r', s')"
  shows "lookup k s' = Some r"
  using assms put_frame [OF assms(2), of k] put_existing [of k s r a] by (cases "k' = k") auto

fun puts :: "('k \<times> 'a) list \<Rightarrow> 's \<Rightarrow> 's res" where
  "puts [] s = Inr s"
| "puts ((k, a) # xs) s = bindr (put k a s) (\<lambda>(r, s'). puts xs s')"

lemma puts_total: "\<exists>s'. puts xs s = Inr s'"
proof (induction xs arbitrary: s)
  case (Cons x xs)
  obtain k a where x: "x = (k, a)" by (cases x)
  obtain r t where "put k a s = Inr (r, t)" using put_total by blast
  with Cons x show ?case by simp
qed simp

lemma puts_stable:
  assumes "lookup k s = Some r" and "puts xs s = Inr s'"
  shows "lookup k s' = Some r"
  using assms
proof (induction xs arbitrary: s)
  case (Cons x xs)
  obtain k' a where x: "x = (k', a)" by (cases x)
  obtain r' t where t: "put k' a s = Inr (r', t)" using put_total by blast
  with Cons.prems x have "puts xs t = Inr s'" by simp
  with Cons.IH lookup_stable [OF Cons.prems(1) t] show ?case by blast
qed simp

text \<open>Repeating a put after any number of other puts returns the first row and changes nothing.\<close>

lemma put_after_puts:
  assumes "put k a s = Inr (r, s1)" and "puts xs s1 = Inr s2"
  shows "put k b s2 = Inr (r, s2)"
  using puts_stable [OF put_lookup [OF assms(1)] assms(2)] put_existing by blast

end

text \<open>
  The stores of this library: a row is found by its unique key among the rows of a table, and
  a put appends the row made for the key when there is none.
\<close>

lemma keyed_store:
  assumes lookup: "\<And>k s. lookup k s = select_one (\<lambda>r. key r = k) (rows s)"
    and old: "\<And>k a s r. lookup k s = Some r \<Longrightarrow> put k a s = Inr (r, s)"
    and new: "\<And>k a s. lookup k s = None \<Longrightarrow> \<exists>r s'. put k a s = Inr (r, s') \<and> rows s' = rows s @ [r] \<and> key r = k"
  shows "idempotent_store lookup put"
proof
  show "put k a s = Inr (r, s)" if "lookup k s = Some r" for k a s r using that by (rule old)
  show "\<exists>r s'. put k a s = Inr (r, s') \<and> lookup k s' = Some r" if none: "lookup k s = None" for k a s
  proof -
    from new [OF none] obtain r s' where "put k a s = Inr (r, s')" "rows s' = rows s @ [r]" "key r = k" by blast
    with none show ?thesis by (simp add: lookup select_one_snoc(2))
  qed
  show "lookup k' s' = lookup k' s" if "put k a s = Inr (r, s')" "k' \<noteq> k" for k a s r s' k'
  proof (cases "lookup k s")
    case None
    from new [OF this, of a] that have "rows s' = rows s @ [r]" "key r = k" by auto
    with that(2) show ?thesis by (simp add: lookup select_one_snoc(1))
  qed (use that old in simp)
qed

section \<open>OutboxRepository\<close>

definition find_event :: "environment \<times> string \<Rightarrow> db \<Rightarrow> outbox_event option" where
  "find_event k d = select_one (\<lambda>e. (ob_environment e, ob_consumer_key e) = k) (db_outbox d)"

definition outbox_append ::
  "environment \<Rightarrow> string \<Rightarrow> string \<Rightarrow> json \<Rightarrow> timestamp \<Rightarrow> db \<Rightarrow> outbox_event tx" where
  "outbox_append env consumer_key event_type payload created_at d =
    (case find_event (env, consumer_key) d of
       Some existing \<Rightarrow> Inr (existing, d)
     | None \<Rightarrow>
        (let (eid, d1) = new_id d;
             event = \<lparr>ob_id = eid, ob_environment = env, ob_created_at = created_at,
               ob_consumer_key = consumer_key, ob_event_type = event_type, ob_payload = payload,
               ob_delivery_attempts = 0, ob_published_at = None, ob_last_error = None\<rparr>
         in bindr (insert_row ''uq_outbox_events_consumer_key''
                     (\<lambda>e. (ob_environment e, ob_consumer_key e)) event (db_outbox d1))
              (\<lambda>rows. Inr (event, d1\<lparr>db_outbox := rows\<rparr>))))"

definition record_attempt :: "uuid \<Rightarrow> string option \<Rightarrow> db \<Rightarrow> db" where
  "record_attempt event_id err d = d\<lparr>db_outbox := update_where (\<lambda>e. ob_id e = event_id)
     (\<lambda>e. e\<lparr>ob_delivery_attempts := ob_delivery_attempts e + 1,
            ob_last_error := map_option (take 500) err\<rparr>) (db_outbox d)\<rparr>"

definition mark_published :: "uuid \<Rightarrow> timestamp \<Rightarrow> db \<Rightarrow> db" where
  "mark_published event_id published_at d = d\<lparr>db_outbox := update_where (\<lambda>e. ob_id e = event_id)
     (\<lambda>e. e\<lparr>ob_published_at := Some published_at, ob_last_error := None\<rparr>) (db_outbox d)\<rparr>"

lemma outbox_append_cases:
  "outbox_append env k t p now d =
    (case find_event (env, k) d of Some e \<Rightarrow> Inr (e, d)
     | None \<Rightarrow>
        (let e = \<lparr>ob_id = db_next d, ob_environment = env, ob_created_at = now, ob_consumer_key = k,
               ob_event_type = t, ob_payload = p, ob_delivery_attempts = 0, ob_published_at = None,
               ob_last_error = None\<rparr>
         in Inr (e, d\<lparr>db_next := Suc (db_next d), db_outbox := db_outbox d @ [e]\<rparr>)))"
  by (auto simp: outbox_append_def find_event_def new_id_def insert_row_def list_ex_iff Let_def
      split: option.splits)

interpretation outbox: idempotent_store find_event
  "\<lambda>(env, k) (t, p, now). outbox_append env k t p now"
  by (rule keyed_store [OF find_event_def]) (auto simp: outbox_append_cases Let_def split: prod.splits)

lemma outbox_append_new:
  assumes "find_event (env, k) d = None"
  shows "\<exists>e d'. outbox_append env k t p now d = Inr (e, d') \<and> find_event (env, k) d' = Some e \<and>
    d' = d\<lparr>db_next := Suc (db_next d), db_outbox := db_outbox d @ [e]\<rparr>"
  using assms outbox.put_new [OF assms, of "(t, p, now)"] by (auto simp: outbox_append_cases Let_def)

lemma outbox_append_frame:
  assumes "outbox_append env k t p now d = Inr (e, d')"
  shows "\<exists>rows n. d' = d\<lparr>db_next := n, db_outbox := rows\<rparr> \<and> db_next d \<le> n"
proof (cases "find_event (env, k) d")
  case None
  then have "d' = d\<lparr>db_next := Suc (db_next d), db_outbox := db_outbox d @ [e]\<rparr>"
    using assms by (auto simp: outbox_append_cases Let_def)
  then show ?thesis by (intro exI [of _ "db_outbox d @ [e]"] exI [of _ "Suc (db_next d)"]) simp
next
  case (Some x)
  then have "d' = d" using assms by (simp add: outbox_append_cases)
  then show ?thesis by (intro exI [of _ "db_outbox d"] exI [of _ "db_next d"]) simp
qed

lemma outbox_append_total: "\<exists>e d'. outbox_append env k t p now d = Inr (e, d')"
  by (auto simp: outbox_append_cases Let_def split: option.splits)

end
