(* ===== verification/Proposals.thy ===== *)
theory Proposals imports Outbox begin

text \<open>
  domain/workforce\_risk/proposals/models.py, persistence/simulation\_repository.py and
  persistence/proposal\_repository.py: stored simulations, creation of a proposal from one,
  and the decision on it with its optimistic version check, decision row and audit event.
\<close>

section \<open>models.py\<close>

record stored_simulation =
  ss_simulation_id :: string
  ss_environment :: environment
  ss_project_key :: string
  ss_task_id :: string
  ss_current_assignee_id :: string
  ss_proposed_assignee_id :: string
  ss_candidate_ids :: "string list"
  ss_confidence :: confidence
  ss_evidence_fingerprint :: string
  ss_scoring_model_versions :: "string list"
  ss_simulated_at :: timestamp
  ss_safe_payload :: json

definition validate_candidate :: "stored_simulation \<Rightarrow> stored_simulation res" where
  "validate_candidate s =
    (if ss_current_assignee_id s = ss_proposed_assignee_id s
     then Inl (ValueError ''proposal must change the assignee'')
     else if ss_proposed_assignee_id s \<notin> set (ss_candidate_ids s)
     then Inl (ValueError ''proposed assignee is not in deterministic candidates'')
     else if ss_confidence s \<notin> {ConfMedium, ConfHigh}
     then Inl (ValueError ''proposal confidence is below minimum'')
     else Inr s)"

definition make_stored_simulation :: "stored_simulation \<Rightarrow> stored_simulation res" where
  "make_stored_simulation s =
    (if matches_key key_char 1 19 (ss_project_key s) \<and> length (ss_evidence_fingerprint s) = 64
     then validate_candidate s else Inl (ValidationError ''StoredSimulation''))"

record proposal_create_command =
  pc_simulation :: stored_simulation
  pc_idempotency_key :: string
  pc_expires_at :: timestamp
  pc_requested_at :: timestamp

definition make_create_command ::
  "stored_simulation \<Rightarrow> string \<Rightarrow> timestamp \<Rightarrow> timestamp \<Rightarrow> proposal_create_command res" where
  "make_create_command s key expires_at requested_at =
    (if \<not> length_between 8 128 key then Inl (ValidationError ''ProposalCreateCommand'')
     else if expires_at \<le> requested_at
     then Inl (ValueError ''proposal expiry must be in the future'')
     else Inr \<lparr>pc_simulation = s, pc_idempotency_key = key, pc_expires_at = expires_at,
               pc_requested_at = requested_at\<rparr>)"

record proposal_decision_command =
  dc_proposal_id :: string
  dc_expected_version :: int
  dc_decision :: decision
  dc_idempotency_key :: string
  dc_current_evidence_fingerprint :: string
  dc_decided_at :: timestamp

datatype actor_role = Manager | Administrator

fun actor_role_value :: "actor_role \<Rightarrow> string" where
  "actor_role_value Manager = ''manager''"
| "actor_role_value Administrator = ''administrator''"

record proposal_actor =
  act_actor_id :: string
  act_role :: actor_role
  act_environment :: environment
  act_project_scopes :: "string list"
  act_correlation_id :: string

definition is_expired :: "timestamp \<Rightarrow> timestamp \<Rightarrow> bool" where
  "is_expired expires_at now \<longleftrightarrow> expires_at \<le> now"

section \<open>SimulationRepository\<close>

definition find_simulation :: "environment \<Rightarrow> string \<Rightarrow> db \<Rightarrow> simulation_row option" where
  "find_simulation env sid d =
     select_one (\<lambda>r. sr_environment r = env \<and> sr_simulation_id r = sid) (db_simulations d)"

definition simulation_view :: "simulation_row \<Rightarrow> stored_simulation" where
  "simulation_view r = \<lparr>ss_simulation_id = sr_simulation_id r, ss_environment = sr_environment r,
     ss_project_key = sr_project_key r, ss_task_id = sr_task_key r,
     ss_current_assignee_id = sr_current_assignee r,
     ss_proposed_assignee_id = sr_proposed_assignee r, ss_candidate_ids = sr_candidate_ids r,
     ss_confidence = sr_confidence r, ss_evidence_fingerprint = sr_evidence_fingerprint r,
     ss_scoring_model_versions = sr_scoring_versions r, ss_simulated_at = sr_created_at r,
     ss_safe_payload = sr_safe_payload r\<rparr>"

definition simulation_get :: "environment \<Rightarrow> string \<Rightarrow> db \<Rightarrow> stored_simulation option res" where
  "simulation_get env sid d =
    (case find_simulation env sid d of None \<Rightarrow> Inr None
     | Some r \<Rightarrow> bindr (make_stored_simulation (simulation_view r)) (\<lambda>s. Inr (Some s)))"

definition simulation_persist :: "stored_simulation \<Rightarrow> db \<Rightarrow> stored_simulation tx" where
  "simulation_persist s d =
    bindr (simulation_get (ss_environment s) (ss_simulation_id s) d) (\<lambda>existing.
      case existing of
        Some x \<Rightarrow>
          (if x \<noteq> s then Inl (ValueError ''simulation ID already has different immutable data'')
           else Inr (x, d))
      | None \<Rightarrow>
         (let (rid, d1) = new_id d;
              r = \<lparr>sr_id = rid, sr_environment = ss_environment s, sr_created_at = ss_simulated_at s,
                sr_simulation_id = ss_simulation_id s, sr_project_key = ss_project_key s,
                sr_task_key = ss_task_id s, sr_current_assignee = ss_current_assignee_id s,
                sr_proposed_assignee = ss_proposed_assignee_id s,
                sr_candidate_ids = ss_candidate_ids s, sr_confidence = ss_confidence s,
                sr_evidence_fingerprint = ss_evidence_fingerprint s,
                sr_scoring_versions = ss_scoring_model_versions s, sr_safe_payload = ss_safe_payload s\<rparr>
          in bindr (insert_row ''uq_simulation_env_id'' (\<lambda>r. (sr_environment r, sr_simulation_id r))
                      r (db_simulations d1))
               (\<lambda>rows. Inr (s, d1\<lparr>db_simulations := rows\<rparr>))))"

section \<open>ProposalRepository\<close>

record stored_proposal =
  sv_proposal_id :: string
  sv_state :: proposal_state
  sv_pversion :: int
  sv_task_id :: string
  sv_current_assignee_id :: string
  sv_proposed_assignee_id :: string
  sv_evidence_fingerprint :: string
  sv_expires_at :: timestamp
  sv_project_key :: string
  sv_confidence :: confidence
  sv_scoring_versions :: "string list"
  sv_simulation_payload :: json

definition proposal_view :: "runtime \<Rightarrow> proposal_row \<Rightarrow> stored_proposal" where
  "proposal_view rt r = \<lparr>sv_proposal_id = rt_uuid rt (pr_id r), sv_state = pr_state r,
     sv_pversion = pr_version r, sv_task_id = pr_task_key r,
     sv_current_assignee_id = pr_expected_assignee r,
     sv_proposed_assignee_id = pr_proposed_assignee r,
     sv_evidence_fingerprint = pr_evidence_fingerprint r, sv_expires_at = pr_expires_at r,
     sv_project_key = pr_project_key r, sv_confidence = pr_confidence r,
     sv_scoring_versions = pr_scoring_versions r,
     sv_simulation_payload = pr_simulation_payload r\<rparr>"

definition find_proposal :: "uuid \<Rightarrow> db \<Rightarrow> proposal_row option" where
  "find_proposal pid d = select_one (\<lambda>r. pr_id r = pid) (db_proposals d)"

definition find_env_proposal :: "environment \<Rightarrow> uuid \<Rightarrow> db \<Rightarrow> proposal_row option" where
  "find_env_proposal env pid d =
     select_one (\<lambda>r. pr_id r = pid \<and> pr_environment r = env) (db_proposals d)"

definition get_authorized ::
  "runtime \<Rightarrow> string \<Rightarrow> proposal_actor \<Rightarrow> db \<Rightarrow> stored_proposal option res" where
  "get_authorized rt proposal_id actor d =
    bindr (parse_uuid rt proposal_id) (\<lambda>pid.
      case find_env_proposal (act_environment actor) pid d of
        None \<Rightarrow> Inr None
      | Some r \<Rightarrow> (if pr_project_key r \<notin> set (act_project_scopes actor) then Inr None
                   else Inr (Some (proposal_view rt r))))"

definition find_by_key :: "environment \<Rightarrow> string \<Rightarrow> db \<Rightarrow> proposal_row option" where
  "find_by_key env key d =
     select_one (\<lambda>r. pr_environment r = env \<and> pr_idempotency_key r = key) (db_proposals d)"

definition state_version_json :: "proposal_state \<Rightarrow> int \<Rightarrow> json" where
  "state_version_json s v = JObj [(''state'', JStr (proposal_state_value s)), (''version'', JInt v)]"

definition new_proposal :: "uuid \<Rightarrow> proposal_create_command \<Rightarrow> proposal_actor \<Rightarrow> proposal_row" where
  "new_proposal rid command actor =
    (let s = pc_simulation command in
     \<lparr>pr_id = rid, pr_environment = act_environment actor,
      pr_created_at = pc_requested_at command, pr_simulation_id = ss_simulation_id s,
      pr_project_key = ss_project_key s, pr_task_key = ss_task_id s,
      pr_expected_assignee = ss_current_assignee_id s,
      pr_proposed_assignee = ss_proposed_assignee_id s, pr_state = Pending,
      pr_idempotency_key = pc_idempotency_key command,
      pr_evidence_fingerprint = ss_evidence_fingerprint s,
      pr_confidence = ss_confidence s, pr_scoring_versions = ss_scoring_model_versions s,
      pr_simulation_payload = ss_safe_payload s, pr_requested_by = act_actor_id actor,
      pr_expires_at = pc_expires_at command, pr_version = 1\<rparr>)"

definition creation_audit ::
  "runtime \<Rightarrow> proposal_actor \<Rightarrow> stored_simulation \<Rightarrow> uuid \<Rightarrow> audit_args" where
  "creation_audit rt actor s rid =
     \<lparr>aa_action_type = ''proposal.created'', aa_actor_type = actor_role_value (act_role actor),
      aa_actor_id = act_actor_id actor, aa_subject_ids = [rt_uuid rt rid, ss_task_id s],
      aa_correlation_id = act_correlation_id actor, aa_prior_state = JNull,
      aa_new_state = state_version_json Pending 1,
      aa_safe_metadata = JObj [(''simulation_id'', JStr (ss_simulation_id s)),
        (''scoring_versions'', json_strings (ss_scoring_model_versions s))]\<rparr>"

definition proposal_create ::
  "runtime \<Rightarrow> timestamp \<Rightarrow> proposal_create_command \<Rightarrow> proposal_actor \<Rightarrow> db \<Rightarrow> stored_proposal tx" where
  "proposal_create rt now command actor d =
    (if act_environment actor \<noteq> ss_environment (pc_simulation command)
     then Inl (PermissionError ''proposal environment mismatch'')
     else if ss_project_key (pc_simulation command) \<notin> set (act_project_scopes actor)
     then Inl (PermissionError ''proposal project scope mismatch'')
     else case find_by_key (act_environment actor) (pc_idempotency_key command) d of
       Some existing \<Rightarrow> Inr (proposal_view rt existing, d)
     | None \<Rightarrow>
        (let (rid, d1) = new_id d; r = new_proposal rid command actor in
         bindr (insert_row ''uq_reassignment_proposals_environment_idempotency''
                  (\<lambda>r. (pr_environment r, pr_idempotency_key r)) r (db_proposals d1)) (\<lambda>rows.
         bindr (audit_append rt now (act_environment actor)
                  (creation_audit rt actor (pc_simulation command) rid)
                  (d1\<lparr>db_proposals := rows\<rparr>)) (\<lambda>(_, d2).
         Inr (proposal_view rt r, d2)))))"

definition create_from_stored_simulation ::
  "runtime \<Rightarrow> timestamp \<Rightarrow> string \<Rightarrow> string \<Rightarrow> timestamp \<Rightarrow> timestamp \<Rightarrow> proposal_actor \<Rightarrow> db
     \<Rightarrow> stored_proposal tx" where
  "create_from_stored_simulation rt now simulation_id key expires_at requested_at actor d =
    bindr (simulation_get (act_environment actor) simulation_id d) (\<lambda>simulation.
      case simulation of
        None \<Rightarrow> Inl (ValueError ''stored simulation not found'')
      | Some s \<Rightarrow> bindr (make_create_command s key expires_at requested_at) (\<lambda>command.
          proposal_create rt now command actor d))"

definition decision_target :: "proposal_row \<Rightarrow> proposal_decision_command \<Rightarrow> proposal_state" where
  "decision_target r command =
    (if is_expired (pr_expires_at r) (dc_decided_at command) then Expired
     else if pr_evidence_fingerprint r \<noteq> dc_current_evidence_fingerprint command then Stale
     else if dc_decision command = Reject then Rejected
     else Executing)"

definition find_decision :: "environment \<Rightarrow> string \<Rightarrow> db \<Rightarrow> decision_row option" where
  "find_decision env key d =
     select_one (\<lambda>r. ad_environment r = env \<and> ad_idempotency_key r = key) (db_decisions d)"

text \<open>
  The parameter \<open>sync\<close> is the behaviour of SQLAlchemy's session after a bulk UPDATE: whether
  the row object already loaded is refreshed with the new values (the default of SQLAlchemy 2
  for an update it can evaluate) or keeps the values it was loaded with.  The assignments to
  the object after the UPDATE are flushed at commit.
\<close>

definition decision_audit ::
  "runtime \<Rightarrow> proposal_actor \<Rightarrow> proposal_row \<Rightarrow> proposal_state \<Rightarrow> int \<Rightarrow> audit_args" where
  "decision_audit rt actor r target version =
     \<lparr>aa_action_type = ''proposal.'' @ proposal_state_value target,
      aa_actor_type = actor_role_value (act_role actor), aa_actor_id = act_actor_id actor,
      aa_subject_ids = [rt_uuid rt (pr_id r), pr_task_key r],
      aa_correlation_id = act_correlation_id actor,
      aa_prior_state = state_version_json (pr_state r) version,
      aa_new_state = state_version_json target (version + 1), aa_safe_metadata = JObj []\<rparr>"

definition cas_matches :: "uuid \<Rightarrow> int \<Rightarrow> proposal_row \<Rightarrow> bool" where
  "cas_matches pid version x \<longleftrightarrow> pr_id x = pid \<and> pr_version x = version \<and> pr_state x = Pending"

definition set_state :: "proposal_state \<Rightarrow> int \<Rightarrow> proposal_row \<Rightarrow> proposal_row" where
  "set_state target version x = x\<lparr>pr_state := target, pr_version := version\<rparr>"

definition apply_decision ::
  "runtime \<Rightarrow> bool \<Rightarrow> timestamp \<Rightarrow> proposal_decision_command \<Rightarrow> proposal_actor \<Rightarrow> proposal_row
     \<Rightarrow> proposal_state \<Rightarrow> db \<Rightarrow> stored_proposal tx" where
  "apply_decision rt sync now command actor r target d =
    (let env = act_environment actor;
         d1 = d\<lparr>db_proposals := update_where (cas_matches (pr_id r) (dc_expected_version command))
                  (\<lambda>x. set_state target (pr_version x + 1) x) (db_proposals d)\<rparr>;
         loaded_version = (if sync then pr_version r + 1 else pr_version r);
         (did, d2) = new_id d1 in
     bindr (insert_row ''uq_decision_env_idempotency''
         (\<lambda>x. (ad_environment x, ad_idempotency_key x))
         \<lparr>ad_id = did, ad_environment = env, ad_created_at = dc_decided_at command,
          ad_proposal_id = pr_id r, ad_actor_id = act_actor_id actor,
          ad_decision = dc_decision command, ad_correlation_id = act_correlation_id actor,
          ad_idempotency_key = dc_idempotency_key command\<rparr> (db_decisions d2)) (\<lambda>decisions.
     bindr (audit_append rt now env (decision_audit rt actor r target loaded_version)
         (d2\<lparr>db_decisions := decisions\<rparr>)) (\<lambda>(_, d3).
     Inr (proposal_view rt (set_state target (loaded_version + 1) r),
          d3\<lparr>db_proposals := update_where (\<lambda>x. pr_id x = pr_id r)
                (set_state target (loaded_version + 1)) (db_proposals d3)\<rparr>))))"

definition decide ::
  "runtime \<Rightarrow> bool \<Rightarrow> timestamp \<Rightarrow> proposal_decision_command \<Rightarrow> proposal_actor \<Rightarrow> db \<Rightarrow> stored_proposal tx"
where
  "decide rt sync now command actor d =
    (case find_decision (act_environment actor) (dc_idempotency_key command) d of
       Some duplicate \<Rightarrow>
         (case find_proposal (ad_proposal_id duplicate) d of
            None \<Rightarrow> Inl AssertionError
          | Some r \<Rightarrow> Inr (proposal_view rt r, d))
     | None \<Rightarrow>
        bindr (parse_uuid rt (dc_proposal_id command)) (\<lambda>pid.
        case find_env_proposal (act_environment actor) pid d of
          None \<Rightarrow> Inl (PermissionError ''proposal not found in authorized scope'')
        | Some r \<Rightarrow>
          (if pr_project_key r \<notin> set (act_project_scopes actor)
           then Inl (PermissionError ''proposal not found in authorized scope'')
           else if pr_version r \<noteq> dc_expected_version command
           then Inl (ValueError ''proposal version conflict'')
           else if pr_state r \<noteq> Pending
           then Inl (ValueError ''proposal is not pending'')
           else bindr (validate_transition (pr_state r) (decision_target r command)) (\<lambda>_.
             if rowcount (cas_matches (pr_id r) (dc_expected_version command)) (db_proposals d) \<noteq> 1
             then Inl (ValueError ''proposal concurrent transition conflict'')
             else apply_decision rt sync now command actor r (decision_target r command) d))))"

section \<open>Well-formed proposal tables\<close>

definition proposals_ok :: "db \<Rightarrow> bool" where
  "proposals_ok d \<longleftrightarrow> distinct (map pr_id (db_proposals d)) \<and>
     (\<forall>r \<in> set (db_proposals d). pr_id r < db_next d)"

lemma proposals_ok_frame:
  assumes "proposals_ok d" and "map pr_id (db_proposals d') = map pr_id (db_proposals d)"
    and "db_next d \<le> db_next d'"
  shows "proposals_ok d'"
proof -
  have "set (map pr_id (db_proposals d')) = set (map pr_id (db_proposals d))" using assms(2) by simp
  then have "pr_id ` set (db_proposals d') = pr_id ` set (db_proposals d)" by simp
  moreover have "\<forall>i \<in> pr_id ` set (db_proposals d). i < db_next d'"
    using assms(1,3) by (auto simp: proposals_ok_def)
  ultimately have "\<forall>i \<in> pr_id ` set (db_proposals d'). i < db_next d'" by simp
  then show ?thesis using assms(1,2) by (auto simp: proposals_ok_def)
qed

lemma find_proposal_unique:
  assumes "proposals_ok d" and "r \<in> set (db_proposals d)"
  shows "find_proposal (pr_id r) d = Some r"
  using assms unfolding find_proposal_def proposals_ok_def
  by (intro select_one_unique [where key = pr_id]) auto

lemma find_proposal_iff:
  assumes "proposals_ok d"
  shows "find_proposal pid d = Some r \<longleftrightarrow> r \<in> set (db_proposals d) \<and> pr_id r = pid"
proof
  assume "find_proposal pid d = Some r"
  then show "r \<in> set (db_proposals d) \<and> pr_id r = pid"
    unfolding find_proposal_def by (auto dest: select_one_SomeD)
next
  assume "r \<in> set (db_proposals d) \<and> pr_id r = pid"
  then show "find_proposal pid d = Some r" using find_proposal_unique [OF assms] by blast
qed

lemma find_env_proposal_iff:
  assumes "proposals_ok d"
  shows "find_env_proposal env pid d = Some r \<longleftrightarrow>
     r \<in> set (db_proposals d) \<and> pr_id r = pid \<and> pr_environment r = env"
proof
  assume "r \<in> set (db_proposals d) \<and> pr_id r = pid \<and> pr_environment r = env"
  then show "find_env_proposal env pid d = Some r"
    using assms unfolding find_env_proposal_def proposals_ok_def
    by (intro select_one_unique [where key = pr_id]) auto
next
  assume "find_env_proposal env pid d = Some r"
  then show "r \<in> set (db_proposals d) \<and> pr_id r = pid \<and> pr_environment r = env"
    unfolding find_env_proposal_def by (auto dest: select_one_SomeD)
qed

lemma cas_rowcount:
  assumes "proposals_ok d" and "r \<in> set (db_proposals d)" and "pr_state r = Pending"
  shows "rowcount (cas_matches (pr_id r) (pr_version r)) (db_proposals d) = 1"
  using assms unfolding proposals_ok_def
  by (intro rowcount_key [where key = pr_id and r = r]) (auto simp: cas_matches_def)

lemma decision_target_legal:
  "validate_transition Pending (decision_target r command) = Inr ()"
  by (simp add: decision_target_def validate_transition_Inr_iff)

lemma cas_then_set:
  assumes "distinct (map pr_id rows)"
  shows "update_where (\<lambda>x. pr_id x = pid) (set_state t v) (update_where (cas_matches pid w) (\<lambda>x. set_state t (pr_version x + 1) x) rows)
     = update_where (\<lambda>x. pr_id x = pid) (set_state t v) rows"
  by (simp add: update_where_def cas_matches_def set_state_def)

section \<open>The effect of a decision\<close>

definition pending_in_scope ::
  "proposal_decision_command \<Rightarrow> proposal_actor \<Rightarrow> proposal_row \<Rightarrow> bool" where
  "pending_in_scope command actor r \<longleftrightarrow> pr_environment r = act_environment actor \<and>
     pr_project_key r \<in> set (act_project_scopes actor) \<and>
     pr_version r = dc_expected_version command \<and> pr_state r = Pending"

definition stored_version :: "bool \<Rightarrow> proposal_row \<Rightarrow> int" where
  "stored_version sync r = (if sync then pr_version r + 2 else pr_version r + 1)"

lemma apply_decision_Inr:
  assumes "proposals_ok d" and "apply_decision rt sync now command actor r target d = Inr (v, d')"
  shows "\<exists>a row. d' = d\<lparr>db_next := Suc (Suc (db_next d)), db_audit := db_audit d @ [a],
       db_decisions := db_decisions d @ [row],
       db_proposals := update_where (\<lambda>x. pr_id x = pr_id r) (set_state target (stored_version sync r)) (db_proposals d)\<rparr> \<and>
     v = proposal_view rt (set_state target (stored_version sync r) r) \<and>
     ad_environment row = act_environment actor \<and> ad_idempotency_key row = dc_idempotency_key command \<and>
     ad_proposal_id row = pr_id r \<and> ad_decision row = dc_decision command \<and>
     ae_environment a = act_environment actor \<and> (log_ok rt d \<longrightarrow> log_ok rt d') \<and>
     ae_prior_state a = state_version_json (pr_state r) (stored_version sync r - 1)"
proof -
  let ?row = "\<lparr>ad_id = db_next d, ad_environment = act_environment actor, ad_created_at = dc_decided_at command,
          ad_proposal_id = pr_id r, ad_actor_id = act_actor_id actor,
          ad_decision = dc_decision command, ad_correlation_id = act_correlation_id actor,
          ad_idempotency_key = dc_idempotency_key command\<rparr>"
  let ?v = "if sync then pr_version r + 1 else pr_version r"
  let ?d1 = "d\<lparr>db_proposals := update_where (cas_matches (pr_id r) (dc_expected_version command))
                  (\<lambda>x. set_state target (pr_version x + 1) x) (db_proposals d), db_next := Suc (db_next d),
               db_decisions := db_decisions d @ [?row]\<rparr>"
  from assms(2) obtain a d3 where a: "audit_append rt now (act_environment actor)
       (decision_audit rt actor r target ?v) ?d1 = Inr (a, d3)"
    and v: "v = proposal_view rt (set_state target (?v + 1) r)"
    and d': "d' = d3\<lparr>db_proposals := update_where (\<lambda>x. pr_id x = pr_id r) (set_state target (?v + 1)) (db_proposals d3)\<rparr>"
    by (auto simp: apply_decision_def Let_def new_id_def bindr_Inr_iff insert_row_Inr_iff)
  note e = audit_append_Inr [OF a]
  have s: "?v + 1 = stored_version sync r" by (simp add: stored_version_def)
  have prior: "ae_prior_state a = state_version_json (pr_state r) (stored_version sync r - 1)" "ae_environment a = act_environment actor"
    by (simp_all add: e(1) next_event_def decision_audit_def stored_version_def Let_def add.commute)
  have "d' = d\<lparr>db_next := Suc (Suc (db_next d)), db_audit := db_audit d @ [a],
       db_decisions := db_decisions d @ [?row],
       db_proposals := update_where (\<lambda>x. pr_id x = pr_id r) (set_state target (stored_version sync r)) (db_proposals d)\<rparr>"
    using assms(1) by (simp add: d' e(2) cas_then_set proposals_ok_def s)
  moreover have "log_ok rt d \<longrightarrow> log_ok rt d'"
    using log_step [OF a, of d] log_ok_cong [of d' d3] d' by simp
  ultimately show ?thesis using v s prior by (intro exI [of _ a] exI [of _ ?row]) simp
qed

lemma decide_cases:
  assumes "runtime_ok rt" and "proposals_ok d" and "decide rt sync now command actor d = Inr (v, d')"
  obtains (duplicate) row r where "find_decision (act_environment actor) (dc_idempotency_key command) d = Some row"
      "find_proposal (ad_proposal_id row) d = Some r" "v = proposal_view rt r" "d' = d"
  | (decided) r where "find_decision (act_environment actor) (dc_idempotency_key command) d = None"
      "r \<in> set (db_proposals d)" "parse_uuid rt (dc_proposal_id command) = Inr (pr_id r)"
      "pending_in_scope command actor r"
      "apply_decision rt sync now command actor r (decision_target r command) d = Inr (v, d')"
proof (cases "find_decision (act_environment actor) (dc_idempotency_key command) d")
  case None
  with assms(3) obtain pid where pid: "parse_uuid rt (dc_proposal_id command) = Inr pid"
    by (auto simp: decide_def bindr_Inr_iff)
  with None assms(3) obtain r where r: "find_env_proposal (act_environment actor) pid d = Some r"
    by (auto simp: decide_def split: option.splits)
  then have "r \<in> set (db_proposals d)" "pr_id r = pid" "pr_environment r = act_environment actor"
    by (simp_all add: find_env_proposal_iff [OF assms(2)])
  with None assms(3) pid r show ?thesis
    by (intro decided) (auto simp: decide_def pending_in_scope_def bindr_Inr_iff split: if_splits)
next
  case (Some row)
  with assms(3) obtain r where "find_proposal (ad_proposal_id row) d = Some r"
    "v = proposal_view rt r" "d' = d"
    by (auto simp: decide_def split: option.splits)
  with Some show ?thesis by (rule duplicate)
qed

section \<open>Properties of decisions\<close>

lemma find_proposal_update:
  assumes "proposals_ok d" and "r \<in> set (db_proposals d)"
    and "db_proposals d' = update_where (\<lambda>x. pr_id x = pr_id r) f (db_proposals d)"
    and "\<And>x. pr_id (f x) = pr_id x"
  shows "find_proposal (pr_id r) d' = Some (f r)" "q \<noteq> pr_id r \<Longrightarrow> find_proposal q d' = find_proposal q d"
proof -
  have aux: "List.find (\<lambda>x. pr_id x = pid) (update_where (\<lambda>x. pr_id x = i) f rows) =
      map_option (\<lambda>x. if pr_id x = i then f x else x) (List.find (\<lambda>x. pr_id x = pid) rows)" for pid i rows
    by (induction rows) (auto simp: assms(4))
  have "find_proposal (pr_id r) d = Some r" using find_proposal_unique [OF assms(1,2)] .
  then show "find_proposal (pr_id r) d' = Some (f r)"
    by (simp add: find_proposal_def select_one_def assms(3) aux)
  assume q: "q \<noteq> pr_id r"
  show "find_proposal q d' = find_proposal q d"
  proof (cases "List.find (\<lambda>x. pr_id x = q) (db_proposals d)")
    case (Some x)
    then have "pr_id x = q" by (auto simp: find_Some_iff)
    with Some q show ?thesis by (simp add: find_proposal_def select_one_def assms(3) aux)
  qed (simp add: find_proposal_def select_one_def assms(3) aux)
qed

lemma find_decision_snoc:
  assumes "find_decision env key d = None" and "db_decisions d' = db_decisions d @ [row]"
    and "ad_environment row = env" and "ad_idempotency_key row = key"
  shows "find_decision env key d' = Some row"
  using assms unfolding find_decision_def by (simp add: select_one_snoc)

lemma apply_decision_Inl:
  assumes "runtime_ok rt" and "log_ok rt d" and "find_decision (act_environment actor) (dc_idempotency_key command) d = None"
    and "apply_decision rt sync now command actor r target d = Inl e"
  shows "e = IntegrityError ''uq_audit_env_hash''"
proof -
  have "(act_environment actor, dc_idempotency_key command)
      \<notin> (\<lambda>x. (ad_environment x, ad_idempotency_key x)) ` set (db_decisions d)"
    using assms(3) by (auto simp: find_decision_def)
  with assms(4) obtain a d1 where a: "audit_append rt now (act_environment actor) a d1 = Inl e"
    and d1: "db_audit d1 = db_audit d"
    by (auto simp: apply_decision_def Let_def new_id_def bindr_Inl_iff insert_row_Inr_iff insert_row_Inl_iff)
  have "log_ok rt d1" using log_ok_cong [OF d1] assms(2) by blast
  from audit_append_refused(1) [OF assms(1) this a] show ?thesis .
qed


text \<open>
  C6: The approval gate: a decision brings a proposal into \<open>Executing\<close> only when it is an
  approval by an actor of the proposal's environment with its project in scope, taken before
  the expiry and with the evidence fingerprint the proposal was created with.
\<close>

theorem approval_gate:
  assumes "runtime_ok rt" and "proposals_ok d" and "decide rt sync now command actor d = Inr (v, d')"
    and "find_proposal pid d' = Some r'" and "pr_state r' = Executing"
    and "find_proposal pid d = Some r" and "pr_state r \<noteq> Executing"
  shows "dc_decision command = Approve \<and> dc_decided_at command < pr_expires_at r \<and>
     dc_current_evidence_fingerprint command = pr_evidence_fingerprint r \<and>
     pr_environment r = act_environment actor \<and> pr_project_key r \<in> set (act_project_scopes actor) \<and>
     pr_state r = Pending \<and> pr_version r = dc_expected_version command"
  using assms(1-3)
proof (cases rule: decide_cases)
  case (duplicate row q)
  with assms(4-7) show ?thesis by simp
next
  case (decided q)
  from apply_decision_Inr [OF assms(2) decided(5)] obtain a row where
    d': "db_proposals d' = update_where (\<lambda>x. pr_id x = pr_id q)
           (set_state (decision_target q command) (stored_version sync q)) (db_proposals d)" by auto
  note fp = find_proposal_update [OF assms(2) decided(2) d']
  have "pid = pr_id q" using fp(2) [of pid] assms(4-7) by (auto simp: set_state_def)
  with assms(6) find_proposal_unique [OF assms(2) decided(2)] have "r = q" by simp
  moreover have "decision_target q command = Executing"
    using fp(1) assms(4,5) \<open>pid = pr_id q\<close> by (auto simp: set_state_def)
  ultimately show ?thesis using decided(4)
    by (cases "dc_decision command")
      (auto simp: decision_target_def is_expired_def pending_in_scope_def split: if_splits)
qed

lemma decide_retry_run:
  assumes "runtime_ok rt" and "proposals_ok d" and "decide rt sync now command actor d = Inr (v, d')"
  shows "decide rt sync now' command actor d' = Inr (v, d')"
  using assms
proof (cases rule: decide_cases)
  case (duplicate row r)
  then show ?thesis by (simp add: decide_def)
next
  case (decided r)
  from apply_decision_Inr [OF assms(2) decided(5)] obtain a row where
    d': "db_proposals d' = update_where (\<lambda>x. pr_id x = pr_id r)
             (set_state (decision_target r command) (stored_version sync r)) (db_proposals d)"
        "db_decisions d' = db_decisions d @ [row]"
      and v: "v = proposal_view rt (set_state (decision_target r command) (stored_version sync r) r)"
      and row: "ad_environment row = act_environment actor" "ad_idempotency_key row = dc_idempotency_key command"
        "ad_proposal_id row = pr_id r"
    by auto
  have "find_proposal (pr_id r) d' = Some (set_state (decision_target r command) (stored_version sync r) r)"
    using find_proposal_update(1) [OF assms(2) decided(2) d'(1)] by (simp add: set_state_def)
  with find_decision_snoc [OF decided(1) d'(2) row(1,2)] row(3) v show ?thesis
    by (simp add: decide_def)
qed

text \<open>
  Deciding is idempotent under its key: after a decision has succeeded, repeating the same
  command at any later time returns the same view and leaves the database as it is.
\<close>

theorem decide_retry:
  assumes "runtime_ok rt" and "proposals_ok d" and "decide rt sync now command actor d = Inr (v, d')"
  shows "decide rt sync now' command actor d' = Inr (v, d')"
  using assms by (rule decide_retry_run)

text \<open>
  A key that has decided something answers for it whoever asks: a command under a used
  idempotency key returns the view of the proposal that key decided, whatever proposal,
  version and decision the command names and even to an actor with no project in scope.
\<close>

theorem decide_duplicate_unscoped:
  assumes "runtime_ok rt" and "proposals_ok d" and "decide rt sync now command actor d = Inr (v, d')"
    and "act_environment outsider = act_environment actor" and "act_project_scopes outsider = []"
    and "dc_idempotency_key other = dc_idempotency_key command"
  shows "decide rt sync now' other outsider d' = Inr (v, d') \<and>
     (\<forall>pid. get_authorized rt (rt_uuid rt pid) outsider d' = Inr None)"
proof -
  have "decide rt sync now' command actor d' = decide rt sync now' other outsider d'" if
    "find_decision (act_environment actor) (dc_idempotency_key command) d' \<noteq> None"
    using that assms(4,6) by (auto simp: decide_def split: option.splits)
  moreover have "find_decision (act_environment actor) (dc_idempotency_key command) d' \<noteq> None"
    using assms(1-3)
  proof (cases rule: decide_cases)
    case (decided r)
    from apply_decision_Inr [OF assms(2) decided(5)] obtain row where
      row: "db_decisions d' = db_decisions d @ [row]" "ad_environment row = act_environment actor"
        "ad_idempotency_key row = dc_idempotency_key command" by auto
    from find_decision_snoc [OF decided(1) row] show ?thesis by simp
  qed simp
  moreover have "decide rt sync now' command actor d' = Inr (v, d')"
    using decide_retry_run [OF assms(1-3)] .
  ultimately show ?thesis
    using assms(1,5) by (auto simp: get_authorized_def split: option.splits)
qed

text \<open>
  With the default session synchronisation, the decision raises the stored version by two
  and its audit event states a prior version the proposal never had before the decision; with
  no synchronisation both are as the code says.
\<close>

theorem decide_version_step:
  assumes "runtime_ok rt" and "proposals_ok d" and "r \<in> set (db_proposals d)"
    and "apply_decision rt sync now command actor r target d = Inr (v, d')"
  shows "\<exists>a r'. db_audit d' = db_audit d @ [a] \<and> find_proposal (pr_id r) d' = Some r' \<and>
     pr_version r' = pr_version r + (if sync then 2 else 1) \<and>
     ae_prior_state a = state_version_json (pr_state r) (pr_version r + (if sync then 1 else 0)) \<and>
     sv_pversion v = pr_version r'"
proof -
  from apply_decision_Inr [OF assms(2,4)] obtain a where
    d': "db_proposals d' = update_where (\<lambda>x. pr_id x = pr_id r) (set_state target (stored_version sync r)) (db_proposals d)"
      "db_audit d' = db_audit d @ [a]"
    and v: "v = proposal_view rt (set_state target (stored_version sync r) r)"
    and a: "ae_prior_state a = state_version_json (pr_state r) (stored_version sync r - 1)" by auto
  have "find_proposal (pr_id r) d' = Some (set_state target (stored_version sync r) r)"
    using find_proposal_update(1) [OF assms(2,3) d'(1)] by (simp add: set_state_def)
  with d' v a show ?thesis
    by (intro exI [of _ a] exI [of _ "set_state target (stored_version sync r) r"])
      (simp add: set_state_def stored_version_def proposal_view_def add.commute)
qed

section \<open>Properties of creation\<close>

definition matches_simulation :: "stored_simulation \<Rightarrow> proposal_row \<Rightarrow> bool" where
  "matches_simulation s r \<longleftrightarrow> pr_environment r = ss_environment s \<and>
     pr_simulation_id r = ss_simulation_id s \<and> pr_project_key r = ss_project_key s \<and>
     pr_task_key r = ss_task_id s \<and> pr_expected_assignee r = ss_current_assignee_id s \<and>
     pr_proposed_assignee r = ss_proposed_assignee_id s \<and>
     pr_evidence_fingerprint r = ss_evidence_fingerprint s \<and> pr_confidence r = ss_confidence s"

definition simulation_ok :: "stored_simulation \<Rightarrow> bool" where
  "simulation_ok s \<longleftrightarrow> ss_current_assignee_id s \<noteq> ss_proposed_assignee_id s \<and>
     ss_proposed_assignee_id s \<in> set (ss_candidate_ids s) \<and> ss_confidence s \<in> {ConfMedium, ConfHigh}"

lemma make_stored_simulation_Inr: "make_stored_simulation s = Inr t \<Longrightarrow> t = s \<and> simulation_ok s"
  by (auto simp: make_stored_simulation_def validate_candidate_def simulation_ok_def split: if_splits)

lemma simulation_get_Inr:
  assumes "simulation_get env sid d = Inr (Some s)"
  shows "simulation_ok s" "ss_environment s = env" "ss_simulation_id s = sid"
    "\<exists>row \<in> set (db_simulations d). s = simulation_view row"
proof -
  from assms obtain row where row: "find_simulation env sid d = Some row"
    and s: "make_stored_simulation (simulation_view row) = Inr s"
    by (auto simp: simulation_get_def bindr_Inr_iff split: option.splits)
  then have "s = simulation_view row" "simulation_ok s" using make_stored_simulation_Inr by auto
  moreover have "row \<in> set (db_simulations d)" "sr_environment row = env" "sr_simulation_id row = sid"
    using row by (auto simp: find_simulation_def)
  ultimately show "simulation_ok s" "ss_environment s = env" "ss_simulation_id s = sid"
    "\<exists>row \<in> set (db_simulations d). s = simulation_view row"
    by (auto simp: simulation_view_def)
qed

lemma proposal_create_new:
  assumes "proposal_create rt now command actor d = Inr (v, d')"
    and "find_by_key (act_environment actor) (pc_idempotency_key command) d = None"
  shows "\<exists>r a. d' = d\<lparr>db_next := Suc (Suc (db_next d)), db_proposals := db_proposals d @ [r],
       db_audit := db_audit d @ [a]\<rparr> \<and> v = proposal_view rt r \<and> pr_id r = db_next d \<and>
     matches_simulation (pc_simulation command) r \<and> pr_state r = Pending \<and> pr_version r = 1 \<and>
     pr_idempotency_key r = pc_idempotency_key command \<and> pr_environment r = act_environment actor \<and>
     pr_expires_at r = pc_expires_at command \<and> ae_environment a = act_environment actor \<and>
     (log_ok rt d \<longrightarrow> log_ok rt d')"
proof -
  let ?r = "new_proposal (db_next d) command actor"
  from assms obtain a e where a: "audit_append rt now (act_environment actor) a
        (d\<lparr>db_next := Suc (db_next d), db_proposals := db_proposals d @ [?r]\<rparr>) = Inr (e, d')"
    and v: "v = proposal_view rt ?r" "act_environment actor = ss_environment (pc_simulation command)"
    by (auto simp: proposal_create_def Let_def new_id_def bindr_Inr_iff insert_row_Inr_iff split: if_splits)
  note e = audit_append_Inr [OF a]
  show ?thesis using v e log_step [OF a, of d]
    by (intro exI [of _ ?r] exI [of _ e])
      (simp add: next_event_def Let_def new_proposal_def matches_simulation_def)
qed

lemma proposal_create_existing:
  assumes "find_by_key (act_environment actor) (pc_idempotency_key command) d = Some r"
    and "proposal_create rt now command actor d = Inr (v, d')"
  shows "v = proposal_view rt r \<and> d' = d"
  using assms by (auto simp: proposal_create_def Let_def split: if_splits)

text \<open>
  Creating a proposal from a stored simulation.  It needs the simulation stored in the
  actor's environment, its project in the actor's scope and an expiry in the future; a new
  proposal is pending with version 1, changes the assignee to a deterministic candidate with
  medium or high confidence, and expires after it was requested; repeating the request
  returns the same view and leaves the database as it is.
\<close>

theorem creation_from_stored_simulation:
  assumes "create_from_stored_simulation rt now sid key expires requested actor d = Inr (v, d')"
  shows "\<exists>s. simulation_get (act_environment actor) sid d = Inr (Some s) \<and> simulation_ok s \<and>
       ss_project_key s \<in> set (act_project_scopes actor) \<and> requested < expires \<and>
       (find_by_key (act_environment actor) key d = None \<longrightarrow>
          (\<exists>r. set (db_proposals d') = insert r (set (db_proposals d)) \<and> v = proposal_view rt r \<and>
            pr_state r = Pending \<and> pr_version r = 1 \<and> matches_simulation s r \<and> pr_expires_at r = expires)) \<and>
       create_from_stored_simulation rt now' sid key expires requested actor d' = Inr (v, d')"
proof -
  from assms obtain s c where s: "simulation_get (act_environment actor) sid d = Inr (Some s)"
    and c: "make_create_command s key expires requested = Inr c"
    and run: "proposal_create rt now c actor d = Inr (v, d')"
    by (auto simp: create_from_stored_simulation_def bindr_Inr_iff split: option.splits)
  from c have cf: "pc_simulation c = s" "pc_idempotency_key c = key" "pc_expires_at c = expires" "requested < expires"
    by (auto simp: make_create_command_def split: if_splits)
  from run cf have guards: "act_environment actor = ss_environment s" "ss_project_key s \<in> set (act_project_scopes actor)"
    by (auto simp: proposal_create_def Let_def split: if_splits)
  show ?thesis
  proof (cases "find_by_key (act_environment actor) key d")
    case None
    from proposal_create_new [OF run] None cf obtain r a where
      r: "d' = d\<lparr>db_next := Suc (Suc (db_next d)), db_proposals := db_proposals d @ [r], db_audit := db_audit d @ [a]\<rparr>"
        "v = proposal_view rt r" "matches_simulation s r" "pr_state r = Pending" "pr_version r = 1"
        "pr_idempotency_key r = key" "pr_environment r = act_environment actor" "pr_expires_at r = expires"
      by auto
    have found: "find_by_key (act_environment actor) key d' = Some r"
      using None r unfolding find_by_key_def by (simp add: select_one_snoc)
    have "simulation_get (act_environment actor) sid d' = Inr (Some s)"
      using s r(1) by (simp add: simulation_get_def find_simulation_def)
    then have "create_from_stored_simulation rt now' sid key expires requested actor d' = Inr (v, d')"
      using c guards found cf r(2) by (simp add: create_from_stored_simulation_def proposal_create_def Let_def)
    moreover have "set (db_proposals d') = insert r (set (db_proposals d))" using r(1) by simp
    ultimately show ?thesis using s guards(2) cf(4) r simulation_get_Inr(1) [OF s] by blast
  next
    case (Some r)
    with proposal_create_existing [of actor c d r] run cf have "v = proposal_view rt r" "d' = d" by auto
    then show ?thesis using assms s guards cf Some simulation_get_Inr(1) [OF s] c
      by (auto simp: create_from_stored_simulation_def proposal_create_def Let_def)
  qed
qed

section \<open>Witnesses\<close>

definition sample_simulation_row :: simulation_row where
  "sample_simulation_row = \<lparr>sr_id = 1, sr_environment = Dev, sr_created_at = 0, sr_simulation_id = ''sim-1'',
     sr_project_key = ''WRD'', sr_task_key = ''WRD-1'', sr_current_assignee = ''old'', sr_proposed_assignee = ''new'',
     sr_candidate_ids = [''new''], sr_confidence = ConfHigh, sr_evidence_fingerprint = replicate 64 CHR ''a'',
     sr_scoring_versions = [''v1''], sr_safe_payload = JObj []\<rparr>"

definition sample_proposal :: proposal_row where
  "sample_proposal = \<lparr>pr_id = 0, pr_environment = Dev, pr_created_at = 0, pr_simulation_id = ''sim-1'',
     pr_project_key = ''WRD'', pr_task_key = ''WRD-1'', pr_expected_assignee = ''old'', pr_proposed_assignee = ''new'',
     pr_state = Pending, pr_idempotency_key = ''create-1'', pr_evidence_fingerprint = replicate 64 CHR ''a'',
     pr_confidence = ConfHigh, pr_scoring_versions = [''v1''], pr_simulation_payload = JObj [],
     pr_requested_by = ''m'', pr_expires_at = 100, pr_version = 1\<rparr>"

definition sample_pdb :: db where
  "sample_pdb = empty_db\<lparr>db_next := 2, db_proposals := [sample_proposal], db_simulations := [sample_simulation_row]\<rparr>"

definition sample_actor :: "string list \<Rightarrow> proposal_actor" where
  "sample_actor scopes = \<lparr>act_actor_id = ''m'', act_role = Manager, act_environment = Dev,
     act_project_scopes = scopes, act_correlation_id = ''c''\<rparr>"

definition sample_approval :: proposal_decision_command where
  "sample_approval = \<lparr>dc_proposal_id = rt_uuid sample_runtime 0, dc_expected_version = 1, dc_decision = Approve,
     dc_idempotency_key = ''approve-1'', dc_current_evidence_fingerprint = replicate 64 CHR ''a'', dc_decided_at = 50\<rparr>"

lemma sample_pdb_ok: "proposals_ok sample_pdb" "log_ok sample_runtime sample_pdb"
  "sample_proposal \<in> set (db_proposals sample_pdb)"
  by (simp_all add: proposals_ok_def sample_pdb_def sample_proposal_def log_ok_def verify_chain_def
      env_events_def empty_db_def)

lemma sample_decide:
  "\<exists>d'. apply_decision sample_runtime True 60 sample_approval (sample_actor [''WRD'']) sample_proposal Executing sample_pdb
       = Inr (proposal_view sample_runtime (set_state Executing 3 sample_proposal), d') \<and>
     decide sample_runtime True 60 sample_approval (sample_actor [''WRD'']) sample_pdb
       = Inr (proposal_view sample_runtime (set_state Executing 3 sample_proposal), d') \<and>
     find_proposal 0 d' = Some (set_state Executing 3 sample_proposal)"
proof -
  let ?a = "sample_actor [''WRD'']"
  have run: "\<exists>d'. apply_decision sample_runtime True 60 sample_approval ?a sample_proposal Executing sample_pdb
      = Inr (proposal_view sample_runtime (set_state Executing 3 sample_proposal), d')"
    by (simp add: apply_decision_def Let_def new_id_def insert_row_def insert_row2_def audit_append_def
        sample_pdb_def empty_db_def sample_proposal_def)
  then obtain d' where d': "apply_decision sample_runtime True 60 sample_approval ?a sample_proposal Executing sample_pdb
      = Inr (proposal_view sample_runtime (set_state Executing 3 sample_proposal), d')" by blast
  have "find_decision Dev ''approve-1'' sample_pdb = None"
    by (simp add: find_decision_def sample_pdb_def empty_db_def)
  moreover have "find_env_proposal Dev 0 sample_pdb = Some sample_proposal"
    using sample_pdb_ok by (subst find_env_proposal_iff) (simp_all add: sample_proposal_def)
  moreover have "rowcount (cas_matches 0 1) (db_proposals sample_pdb) = 1"
    using cas_rowcount [OF sample_pdb_ok(1,3)] by (simp add: sample_proposal_def)
  moreover have "parse_uuid sample_runtime (rt_uuid sample_runtime 0) = Inr 0"
    using sample_runtime_ok by simp
  ultimately have "decide sample_runtime True 60 sample_approval ?a sample_pdb
      = apply_decision sample_runtime True 60 sample_approval ?a sample_proposal Executing sample_pdb"
    by (simp add: decide_def sample_actor_def sample_approval_def sample_proposal_def decision_target_def
        is_expired_def validate_transition_Inr_iff [of Pending Executing "()"]
        validate_transition_def ALLOWED_TRANSITIONS_def dict_get_def)
  moreover from apply_decision_Inr [OF sample_pdb_ok(1) d'] obtain a row where
    "db_proposals d' = update_where (\<lambda>x. pr_id x = pr_id sample_proposal) (set_state Executing (stored_version True sample_proposal)) (db_proposals sample_pdb)"
    by auto
  from find_proposal_update(1) [OF sample_pdb_ok(1,3) this]
  have "find_proposal 0 d' = Some (set_state Executing 3 sample_proposal)"
    by (simp add: set_state_def stored_version_def sample_proposal_def)
  ultimately show ?thesis using d' by auto
qed


theorem approval_gate_witness: "dc_decision sample_approval = Approve \<and> dc_decided_at sample_approval < pr_expires_at sample_proposal"
proof -
  obtain d' where d: "decide sample_runtime True 60 sample_approval (sample_actor [''WRD'']) sample_pdb
       = Inr (proposal_view sample_runtime (set_state Executing 3 sample_proposal), d')"
     "find_proposal 0 d' = Some (set_state Executing 3 sample_proposal)" using sample_decide by auto
  have "find_proposal 0 sample_pdb = Some sample_proposal"
    using find_proposal_unique [OF sample_pdb_ok(1,3)] by (simp add: sample_proposal_def)
  from approval_gate [OF sample_runtime_ok sample_pdb_ok(1) d _ this]
  show ?thesis by (simp add: set_state_def sample_proposal_def)
qed

theorem decide_retry_witness:
  "\<exists>d'. decide sample_runtime True 70 sample_approval (sample_actor [''WRD'']) d'
     = Inr (proposal_view sample_runtime (set_state Executing 3 sample_proposal), d')"
  using sample_decide decide_retry [OF sample_runtime_ok sample_pdb_ok(1)] by blast

theorem decide_duplicate_unscoped_witness:
  "\<exists>d'. decide sample_runtime True 70 sample_approval (sample_actor []) d'
       = Inr (proposal_view sample_runtime (set_state Executing 3 sample_proposal), d') \<and>
     get_authorized sample_runtime (rt_uuid sample_runtime 0) (sample_actor []) d' = Inr None"
proof -
  obtain d' where d: "decide sample_runtime True 60 sample_approval (sample_actor [''WRD'']) sample_pdb
       = Inr (proposal_view sample_runtime (set_state Executing 3 sample_proposal), d')" using sample_decide by auto
  from decide_duplicate_unscoped [OF sample_runtime_ok sample_pdb_ok(1) d, of "sample_actor []" sample_approval 70]
  show ?thesis by (auto simp: sample_actor_def)
qed

theorem decide_version_step_witness:
  "\<exists>d' r'. find_proposal 0 d' = Some r' \<and> pr_version r' = 3"
proof -
  obtain d' where d: "apply_decision sample_runtime True 60 sample_approval (sample_actor [''WRD'']) sample_proposal Executing sample_pdb
       = Inr (proposal_view sample_runtime (set_state Executing 3 sample_proposal), d')" using sample_decide by auto
  from decide_version_step [OF sample_runtime_ok sample_pdb_ok(1,3) d] show ?thesis
    by (auto simp: sample_proposal_def)
qed

lemma sample_create:
  "\<exists>v d'. create_from_stored_simulation sample_runtime 5 ''sim-1'' ''create-2'' 100 5 (sample_actor [''WRD'']) sample_pdb = Inr (v, d')"
proof -
  have "simulation_get Dev ''sim-1'' sample_pdb = Inr (Some (simulation_view sample_simulation_row))"
    by (simp add: simulation_get_def find_simulation_def sample_pdb_def sample_simulation_row_def select_one_def
        simulation_view_def make_stored_simulation_def validate_candidate_def matches_key_def key_char_def is_upper_def)
  then show ?thesis
    by (simp add: create_from_stored_simulation_def sample_actor_def make_create_command_def length_between_def
        proposal_create_def find_by_key_def sample_pdb_def sample_proposal_def select_one_def empty_db_def Let_def new_id_def
        insert_row_def insert_row2_def audit_append_def new_proposal_def simulation_view_def sample_simulation_row_def)
qed

theorem creation_from_stored_simulation_witness:
  "\<exists>v d'. create_from_stored_simulation sample_runtime 9 ''sim-1'' ''create-2'' 100 5 (sample_actor [''WRD'']) d' = Inr (v, d')"
  using sample_create creation_from_stored_simulation by blast

end
