(* ===== verification/JiraMutation.thy ===== *)
theory JiraMutation imports Proposals begin

text \<open>
  jira\_mcp\_client/mutation.py: the single-attempt assignee mutation with its precondition
  read and its verification read.  The transport to the Jira MCP server is an argument: a
  function from a tool call and the state of the outside world to the response, or the
  exception, and the new world.
\<close>

section \<open>Transport and responses\<close>

record tool_call =
  tc_name :: string
  tc_arguments :: json
  tc_correlation :: string

type_synonym response = "(string \<times> json) list"
type_synonym 'w transport = "tool_call \<Rightarrow> 'w \<Rightarrow> response res \<times> 'w"

fun object_of :: "json \<Rightarrow> (string \<times> json) list option" where
  "object_of (JObj kvs) = Some kvs"
| "object_of _ = None"

definition get_in :: "json \<Rightarrow> string \<Rightarrow> json" where
  "get_in j key = (case object_of j of None \<Rightarrow> JNull | Some kvs \<Rightarrow> dict_get kvs key JNull)"

definition assignee_from_response :: "response \<Rightarrow> string option" where
  "assignee_from_response response =
    (let data = dict_get response ''data'' (JObj response);
         data = (if object_of data \<noteq> None \<and> object_of (get_in data ''data'') \<noteq> None
                 then get_in data ''data'' else data);
         value = get_in (get_in (get_in data ''fields'') ''assignee'') ''accountId''
     in case value of JStr v \<Rightarrow> (if v = [] then None else Some v) | _ \<Rightarrow> None)"

section \<open>JiraAssigneeMutationClient\<close>

datatype mutation_outcome = MExecutedVerified | MExecutionFailed | MUncertain | MStale

record reassignment_mutation =
  mu_environment :: environment
  mu_project_key :: string
  mu_issue_key :: string
  mu_expected_assignee_id :: string
  mu_proposed_assignee_id :: string
  mu_proposal_id :: string
  mu_idempotency_key :: string
  mu_correlation_id :: string

record mutation_receipt =
  re_outcome :: mutation_outcome
  re_observed_assignee_id :: "string option"
  re_edit_attempted :: bool
  re_safe_error_code :: "string option"

definition receipt :: "mutation_outcome \<Rightarrow> string option \<Rightarrow> bool \<Rightarrow> string option \<Rightarrow> mutation_receipt" where
  "receipt outcome observed attempted code = \<lparr>re_outcome = outcome, re_observed_assignee_id = observed,
     re_edit_attempted = attempted, re_safe_error_code = code\<rparr>"

record mutation_client =
  mc_environment :: environment
  mc_allowed_projects :: "string set"

definition read_call :: "string \<Rightarrow> string \<Rightarrow> tool_call" where
  "read_call issue_key correlation_id = \<lparr>tc_name = ''getJiraIssue'',
     tc_arguments = JObj [(''issueIdOrKey'', JStr issue_key), (''fields'', json_strings [''assignee''])],
     tc_correlation = correlation_id\<rparr>"

definition edit_call :: "reassignment_mutation \<Rightarrow> tool_call" where
  "edit_call command = \<lparr>tc_name = ''editJiraIssue'',
     tc_arguments = JObj [(''issueIdOrKey'', JStr (mu_issue_key command)),
       (''fields'', JObj [(''assignee'', JObj [(''accountId'', JStr (mu_proposed_assignee_id command))])])],
     tc_correlation = mu_correlation_id command\<rparr>"

definition read_assignee ::
  "'w transport \<Rightarrow> string \<Rightarrow> string \<Rightarrow> 'w \<Rightarrow> string option res \<times> 'w" where
  "read_assignee call issue_key correlation_id w =
    (case call (read_call issue_key correlation_id) w of
       (Inl e, w') \<Rightarrow> (Inl e, w')
     | (Inr response, w') \<Rightarrow> (Inr (assignee_from_response response), w'))"

text \<open>\<open>issue\_key.partition("-")\<close>\<close>

definition issue_project :: "string \<Rightarrow> string" where
  "issue_project key = takeWhile (\<lambda>c. c \<noteq> CHR ''-'') key"

definition mutation_allowed :: "mutation_client \<Rightarrow> reassignment_mutation \<Rightarrow> bool" where
  "mutation_allowed client command \<longleftrightarrow> \<not> (mc_environment client \<noteq> Dev \<or>
     mu_environment command \<noteq> mc_environment client \<or> CHR ''-'' \<notin> set (mu_issue_key command) \<or>
     mu_project_key command \<noteq> issue_project (mu_issue_key command) \<or>
     mu_project_key command \<notin> mc_allowed_projects client)"

definition verify_write ::
  "'w transport \<Rightarrow> reassignment_mutation \<Rightarrow> 'w \<Rightarrow> mutation_receipt \<times> 'w" where
  "verify_write call command w =
    (case read_assignee call (mu_issue_key command) (mu_correlation_id command) w of
       (Inl _, w') \<Rightarrow> (receipt MUncertain None True (Some ''jira_verification_read_failed''), w')
     | (Inr observed, w') \<Rightarrow>
        (if observed = Some (mu_proposed_assignee_id command)
         then (receipt MExecutedVerified observed True None, w')
         else (receipt MUncertain observed True (Some ''jira_verification_mismatch''), w')))"

definition mutation_execute ::
  "mutation_client \<Rightarrow> 'w transport \<Rightarrow> reassignment_mutation \<Rightarrow> 'w \<Rightarrow> mutation_receipt res \<times> 'w" where
  "mutation_execute client call command w =
    (if \<not> mutation_allowed client command
     then (Inl (PermissionError ''Jira mutation is disabled for this environment or project''), w)
     else case read_assignee call (mu_issue_key command) (mu_correlation_id command) w of
       (Inl _, w1) \<Rightarrow>
         (Inr (receipt MExecutionFailed None False (Some ''jira_precondition_read_failed'')), w1)
     | (Inr current, w1) \<Rightarrow>
        (if current \<noteq> Some (mu_expected_assignee_id command)
         then (Inr (receipt MStale current False None), w1)
         else case call (edit_call command) w1 of
           (Inl _, w2) \<Rightarrow>
             (Inr (receipt MUncertain None True (Some ''jira_write_outcome_unknown'')), w2)
         | (Inr edit_response, w2) \<Rightarrow>
            (if dict_get edit_response ''status'' JNull = JStr ''error''
             then (Inr (receipt MExecutionFailed None True (Some ''jira_write_rejected'')), w2)
             else let (r, w3) = verify_write call command w2 in (Inr r, w3))))"

section \<open>Calls of one execution\<close>

text \<open>A transport that also records the calls with their responses.\<close>

definition traced :: "'w transport \<Rightarrow> ('w \<times> (tool_call \<times> response res) list) transport" where
  "traced call c = (\<lambda>(w, trace). let (r, w') = call c w in (r, (w', trace @ [(c, r)])))"

definition edits :: "(tool_call \<times> response res) list \<Rightarrow> tool_call list" where
  "edits trace = filter (\<lambda>c. tc_name c = ''editJiraIssue'') (map fst trace)"

lemma mutation_run:
  assumes "mutation_execute client (traced call) command (w, []) = (result, (w', trace))"
  shows "(\<not> mutation_allowed client command \<longrightarrow> trace = [] \<and> (\<exists>m. result = Inl (PermissionError m))) \<and>
     (mutation_allowed client command \<longrightarrow> (\<exists>r. result = Inr r \<and>
        edits trace = (if re_edit_attempted r then [edit_call command] else []) \<and>
        (re_edit_attempted r \<longrightarrow> (\<exists>resp rest.
           trace = (read_call (mu_issue_key command) (mu_correlation_id command), Inr resp) # rest \<and>
           assignee_from_response resp = Some (mu_expected_assignee_id command))) \<and>
        (re_outcome r = MExecutedVerified \<longrightarrow> re_edit_attempted r \<and> (\<exists>resp. snd (last trace) = Inr resp \<and>
           assignee_from_response resp = Some (mu_proposed_assignee_id command))) \<and>
        (re_outcome r = MExecutionFailed \<longrightarrow> \<not> re_edit_attempted r \<or>
           (\<exists>resp. last trace = (edit_call command, Inr resp) \<and> dict_get resp ''status'' JNull = JStr ''error'')) \<and>
        (re_outcome r = MStale \<longrightarrow> \<not> re_edit_attempted r) \<and>
        (re_outcome r = MUncertain \<longrightarrow> re_edit_attempted r \<and> re_safe_error_code r \<noteq> None)))"
proof (cases "mutation_allowed client command")
  case False
  with assms show ?thesis by (auto simp: mutation_execute_def)
next
  case True
  obtain r1 w1 where c1: "call (read_call (mu_issue_key command) (mu_correlation_id command)) w = (r1, w1)"
    by fastforce
  obtain r2 w2 where c2: "call (edit_call command) w1 = (r2, w2)" by fastforce
  obtain r3 w3 where c3: "call (read_call (mu_issue_key command) (mu_correlation_id command)) w2 = (r3, w3)"
    by fastforce
  have names: "tc_name (edit_call command) = ''editJiraIssue''"
    "tc_name (read_call (mu_issue_key command) (mu_correlation_id command)) = ''getJiraIssue''"
    by (simp_all add: edit_call_def read_call_def)
  let ?read = "read_call (mu_issue_key command) (mu_correlation_id command)"
  note run = assms [unfolded mutation_execute_def read_assignee_def verify_write_def traced_def Let_def, simplified]
  note report = edits_def receipt_def names True
  show ?thesis
  proof (cases r1)
    case (Inl e)
    with run True c1 have "result = Inr (receipt MExecutionFailed None False (Some ''jira_precondition_read_failed''))"
      "trace = [(?read, r1)]" by simp_all
    with Inl show ?thesis by (simp add: report)
  next
    case r1: (Inr resp1)
    show ?thesis
    proof (cases "assignee_from_response resp1 = Some (mu_expected_assignee_id command)")
      case False
      with run True c1 r1 have "result = Inr (receipt MStale (assignee_from_response resp1) False None)"
        "trace = [(?read, r1)]" by simp_all
      with r1 show ?thesis by (simp add: report)
    next
      case a1: True
      show ?thesis
      proof (cases r2)
        case (Inl e)
        with run True c1 r1 a1 c2 have "result = Inr (receipt MUncertain None True (Some ''jira_write_outcome_unknown''))"
          "trace = [(?read, r1), (edit_call command, r2)]" by simp_all
        with r1 a1 Inl show ?thesis by (simp add: report)
      next
        case r2: (Inr resp2)
        show ?thesis
        proof (cases "dict_get resp2 ''status'' JNull = JStr ''error''")
          case e2: True
          with run True c1 r1 a1 c2 r2 have "result = Inr (receipt MExecutionFailed None True (Some ''jira_write_rejected''))"
            "trace = [(?read, r1), (edit_call command, r2)]" by simp_all
          with r1 a1 r2 e2 show ?thesis by (simp add: report)
        next
          case e2: False
          show ?thesis
          proof (cases r3)
            case (Inl e)
            with run True c1 r1 a1 c2 r2 e2 c3
            have "result = Inr (receipt MUncertain None True (Some ''jira_verification_read_failed''))"
              "trace = [(?read, r1), (edit_call command, r2), (?read, r3)]" by simp_all
            with r1 a1 r2 Inl show ?thesis by (simp add: report)
          next
            case r3: (Inr resp3)
            from run True c1 r1 a1 c2 r2 e2 c3 r3
            have "result = Inr (if assignee_from_response resp3 = Some (mu_proposed_assignee_id command)
                then receipt MExecutedVerified (assignee_from_response resp3) True None
                else receipt MUncertain (assignee_from_response resp3) True (Some ''jira_verification_mismatch''))"
              "trace = [(?read, r1), (edit_call command, r2), (?read, r3)]" by (simp_all split: if_splits)
            with r1 a1 r2 r3 show ?thesis by (simp add: report)
          qed
        qed
      qed
    qed
  qed
qed

text \<open>
  C8: A reassignment is attempted at most once and reported as what was observed.  Against any
  transport: nothing is called unless the client runs in dev for an allowed project of the
  issue key; the only edit issued is the command's, at most once, and only right after a read
  that showed the expected assignee; the receipt says whether it was issued; a verified
  outcome means the last response shows the proposed assignee, a failed one that no edit was
  issued or Jira refused it, a stale one that no edit was issued.
\<close>

theorem mutation_single_attempt:
  assumes "mutation_execute client (traced call) command (w, []) = (result, (w', trace))"
  shows "(\<not> mutation_allowed client command \<longrightarrow> trace = [] \<and> (\<exists>m. result = Inl (PermissionError m))) \<and>
     (mutation_allowed client command \<longrightarrow> (\<exists>r. result = Inr r \<and>
        edits trace = (if re_edit_attempted r then [edit_call command] else []) \<and>
        (re_edit_attempted r \<longrightarrow> (\<exists>resp rest.
           trace = (read_call (mu_issue_key command) (mu_correlation_id command), Inr resp) # rest \<and>
           assignee_from_response resp = Some (mu_expected_assignee_id command))) \<and>
        (re_outcome r = MExecutedVerified \<longrightarrow> re_edit_attempted r \<and> (\<exists>resp. snd (last trace) = Inr resp \<and>
           assignee_from_response resp = Some (mu_proposed_assignee_id command))) \<and>
        (re_outcome r = MExecutionFailed \<longrightarrow> \<not> re_edit_attempted r \<or>
           (\<exists>resp. last trace = (edit_call command, Inr resp) \<and> dict_get resp ''status'' JNull = JStr ''error'')) \<and>
        (re_outcome r = MStale \<longrightarrow> \<not> re_edit_attempted r) \<and>
        (re_outcome r = MUncertain \<longrightarrow> re_edit_attempted r \<and> re_safe_error_code r \<noteq> None)))"
  using mutation_run [OF assms] .

text \<open>An execution in a world whose single issue holds its assignee and accepts edits.\<close>

definition sample_issue :: "string \<Rightarrow> response" where
  "sample_issue who = [(''fields'', JObj [(''assignee'', JObj [(''accountId'', JStr who)])])]"

definition sample_call :: "string transport" where
  "sample_call c who = (if tc_name c = ''editJiraIssue'' then (Inr [], ''new'') else (Inr (sample_issue who), who))"

definition sample_client :: mutation_client where
  "sample_client = \<lparr>mc_environment = Dev, mc_allowed_projects = {''WRD''}\<rparr>"

definition sample_command :: reassignment_mutation where
  "sample_command = \<lparr>mu_environment = Dev, mu_project_key = ''WRD'', mu_issue_key = ''WRD-1'',
     mu_expected_assignee_id = ''old'', mu_proposed_assignee_id = ''new'', mu_proposal_id = ''p'',
     mu_idempotency_key = ''k'', mu_correlation_id = ''c''\<rparr>"

lemma sample_execution:
  "\<exists>w' trace. mutation_execute sample_client (traced sample_call) sample_command (''old'', []) =
     (Inr (receipt MExecutedVerified (Some ''new'') True None), (w', trace))"
  by (simp add: mutation_execute_def mutation_allowed_def sample_client_def sample_command_def issue_project_def
      read_assignee_def verify_write_def traced_def sample_call_def sample_issue_def read_call_def edit_call_def
      assignee_from_response_def dict_get_def get_in_def Let_def)

theorem mutation_single_attempt_witness:
  "\<exists>w' trace. mutation_execute sample_client (traced sample_call) sample_command (''old'', []) =
       (Inr (receipt MExecutedVerified (Some ''new'') True None), (w', trace)) \<and>
     edits trace = [edit_call sample_command]"
proof -
  obtain w' trace where run: "mutation_execute sample_client (traced sample_call) sample_command (''old'', []) =
     (Inr (receipt MExecutedVerified (Some ''new'') True None), (w', trace))" using sample_execution by blast
  have "mutation_allowed sample_client sample_command"
    by (simp add: mutation_allowed_def sample_client_def sample_command_def issue_project_def)
  with mutation_single_attempt [OF run] have "edits trace = [edit_call sample_command]"
    by (simp add: receipt_def)
  with run show ?thesis by blast
qed

lemma mutation_edits_le_one:
  assumes "mutation_execute client (traced call) command (w, []) = (result, (w', trace))"
  shows "length (edits trace) \<le> 1"
proof (cases "mutation_allowed client command")
  case True
  have le: "edits trace = (if b then [edit_call command] else []) \<Longrightarrow> length (edits trace) \<le> 1" for b by simp
  from mutation_run [OF assms, THEN conjunct2, THEN mp, OF True] show ?thesis
    by (elim exE conjE) (erule le)
next
  case False
  with mutation_run [OF assms, THEN conjunct1] have "trace = []" by simp
  then show ?thesis by (simp add: edits_def)
qed

end
