(* ===== verification/Execution.thy ===== *)
theory Execution imports JiraMutation begin

text \<open>
  persistence/execution\_repository.py, domain/workforce\_risk/proposals/execution.py and
  reconciliation.py: the durable record of an execution, the service that runs it around the
  Jira mutation in three short transactions, and the reconciliation of executions whose
  outcome is unknown.
\<close>

section \<open>Claims and results\<close>

record execution_claim =
  cl_execution_id :: string
  cl_proposal_id :: string
  cl_environment :: environment
  cl_project_key :: string
  cl_issue_key :: string
  cl_expected_assignee_id :: string
  cl_proposed_assignee_id :: string
  cl_idempotency_key :: string
  cl_correlation_id :: string

record execution_result =
  er_execution_id :: string
  er_proposal_id :: string
  er_state :: proposal_state
  er_correlation_id :: string
  er_observed_assignee_id :: "string option"
  er_safe_error_code :: "string option"

datatype prepared = Claim execution_claim | Done execution_result

record reconciliation_claim =
  rc_execution_id :: string
  rc_proposal_id :: string
  rc_issue_key :: string
  rc_expected_assignee_id :: string
  rc_proposed_assignee_id :: string
  rc_correlation_id :: string
  rc_write_attempted :: bool

record reconciliation_result =
  rr_execution_id :: string
  rr_state :: proposal_state
  rr_observed_assignee_id :: "string option"
  rr_safe_error_code :: "string option"

section \<open>DatabaseExecutionStore\<close>

definition or_unknown :: "string option \<Rightarrow> string" where
  "or_unknown c = (case c of None \<Rightarrow> ''unknown'' | Some s \<Rightarrow> if s = [] then ''unknown'' else s)"

definition string_in :: "json \<Rightarrow> string \<Rightarrow> string option" where
  "string_in j key = (case get_in j key of JStr s \<Rightarrow> Some s | _ \<Rightarrow> None)"

definition stored_result :: "runtime \<Rightarrow> execution_row \<Rightarrow> execution_result" where
  "stored_result rt e = \<lparr>er_execution_id = rt_uuid rt (ex_id e), er_proposal_id = rt_uuid rt (ex_proposal_id e),
     er_state = ex_state e, er_correlation_id = or_unknown (ex_external_correlation_id e),
     er_observed_assignee_id = string_in (ex_result e) ''observed_assignee_id'',
     er_safe_error_code = string_in (ex_result e) ''safe_error_code''\<rparr>"

definition find_execution_of :: "environment \<Rightarrow> uuid \<Rightarrow> db \<Rightarrow> execution_row option" where
  "find_execution_of env pid d =
     select_one (\<lambda>e. ex_environment e = env \<and> ex_proposal_id e = pid) (db_executions d)"

definition find_execution :: "environment \<Rightarrow> uuid \<Rightarrow> db \<Rightarrow> execution_row option" where
  "find_execution env eid d =
     select_one (\<lambda>e. ex_id e = eid \<and> ex_environment e = env) (db_executions d)"

definition state_json :: "proposal_state \<Rightarrow> json" where
  "state_json s = JObj [(''state'', JStr (proposal_state_value s))]"

definition new_execution :: "uuid \<Rightarrow> environment \<Rightarrow> timestamp \<Rightarrow> uuid \<Rightarrow> string \<Rightarrow> execution_row" where
  "new_execution eid env now pid correlation_id = \<lparr>ex_id = eid, ex_environment = env, ex_created_at = now,
     ex_proposal_id = pid, ex_state = Executing, ex_external_correlation_id = Some correlation_id,
     ex_result = JObj [(''write_attempted'', JBool False)], ex_write_attempted = False,
     ex_lease_owner = None, ex_leased_at = None\<rparr>"

definition service_audit ::
  "string \<Rightarrow> string \<Rightarrow> string list \<Rightarrow> string \<Rightarrow> json \<Rightarrow> json \<Rightarrow> json \<Rightarrow> audit_args" where
  "service_audit action actor subjects correlation_id prior new metadata =
     \<lparr>aa_action_type = action, aa_actor_type = ''service'', aa_actor_id = actor, aa_subject_ids = subjects,
      aa_correlation_id = correlation_id, aa_prior_state = prior, aa_new_state = new,
      aa_safe_metadata = metadata\<rparr>"

definition prepare ::
  "runtime \<Rightarrow> environment \<Rightarrow> timestamp \<Rightarrow> string \<Rightarrow> string \<Rightarrow> db \<Rightarrow> prepared tx" where
  "prepare rt env now proposal_id correlation_id d =
    bindr (parse_uuid rt proposal_id) (\<lambda>pid.
      case find_execution_of env pid d of
        Some existing \<Rightarrow> Inr (Done (stored_result rt existing), d)
      | None \<Rightarrow>
         (case find_env_proposal env pid d of
            None \<Rightarrow> Inl (ValueError ''proposal not found'')
          | Some p \<Rightarrow>
             (if pr_state p \<noteq> Executing then Inl (ValueError ''proposal is not executing'')
              else let (eid, d1) = new_id d; e = new_execution eid env now (pr_id p) correlation_id in
                bindr (insert_row ''uq_execution_env_proposal'' (\<lambda>e. (ex_environment e, ex_proposal_id e))
                         e (db_executions d1)) (\<lambda>rows.
                bindr (audit_append rt now env
                    (service_audit ''proposal.execution_started'' ''workforce-risk-mcp''
                       [proposal_id, pr_task_key p] correlation_id JNull (state_json Executing) (JObj []))
                    (d1\<lparr>db_executions := rows\<rparr>)) (\<lambda>(_, d2).
                Inr (Claim \<lparr>cl_execution_id = rt_uuid rt eid, cl_proposal_id = proposal_id,
                   cl_environment = env, cl_project_key = pr_project_key p, cl_issue_key = pr_task_key p,
                   cl_expected_assignee_id = pr_expected_assignee p,
                   cl_proposed_assignee_id = pr_proposed_assignee p,
                   cl_idempotency_key = ''execute-'' @ proposal_id,
                   cl_correlation_id = correlation_id\<rparr>, d2))))))"

definition mark_write_attempted :: "runtime \<Rightarrow> environment \<Rightarrow> execution_claim \<Rightarrow> db \<Rightarrow> unit tx" where
  "mark_write_attempted rt env claim d =
    bindr (parse_uuid rt (cl_execution_id claim)) (\<lambda>eid.
      case find_execution env eid d of
        None \<Rightarrow> Inl (ValueError ''execution is not active'')
      | Some e \<Rightarrow>
         (if ex_state e \<noteq> Executing then Inl (ValueError ''execution is not active'')
          else Inr ((), d\<lparr>db_executions := update_where (\<lambda>x. ex_id x = eid)
                 (\<lambda>x. x\<lparr>ex_write_attempted := True, ex_result := JObj [(''write_attempted'', JBool True)]\<rparr>)
                 (db_executions d)\<rparr>)))"

definition outcome_json :: "string option \<Rightarrow> string option \<Rightarrow> bool \<Rightarrow> json" where
  "outcome_json observed code attempted = JObj [(''observed_assignee_id'', json_opt JStr observed),
     (''safe_error_code'', json_opt JStr code), (''write_attempted'', JBool attempted)]"

definition uncertain_event ::
  "environment \<Rightarrow> timestamp \<Rightarrow> string \<Rightarrow> string \<Rightarrow> string \<Rightarrow> string \<Rightarrow> db \<Rightarrow> outbox_event tx" where
  "uncertain_event env now execution_id proposal_id issue_key correlation_id =
     outbox_append env (''uncertain-execution:'' @ execution_id) ''manager.uncertain_reassignment''
       (JObj [(''proposal_id'', JStr proposal_id), (''issue_key'', JStr issue_key),
              (''correlation_id'', JStr correlation_id)]) now"

text \<open>The end of \<open>finalize\<close> and \<open>resolve\<close>: both rows, the audit event and the outbox event.\<close>

definition settle ::
  "runtime \<Rightarrow> environment \<Rightarrow> timestamp \<Rightarrow> uuid \<Rightarrow> uuid \<Rightarrow> proposal_state
     \<Rightarrow> (execution_row \<Rightarrow> execution_row) \<Rightarrow> audit_args \<Rightarrow> (db \<Rightarrow> outbox_event tx) \<Rightarrow> db \<Rightarrow> unit tx" where
  "settle rt env now eid pid state f audit notify d =
    bindr (audit_append rt now env audit
        (d\<lparr>db_executions := update_where (\<lambda>x. ex_id x = eid) f (db_executions d),
           db_proposals := update_where (\<lambda>x. pr_id x = pid)
             (\<lambda>x. set_state state (pr_version x + 1) x) (db_proposals d)\<rparr>)) (\<lambda>(_, d1).
    if state = Uncertain then bindr (notify d1) (\<lambda>(_, d2). Inr ((), d2)) else Inr ((), d1))"

definition settle_execution ::
  "runtime \<Rightarrow> environment \<Rightarrow> timestamp \<Rightarrow> execution_claim \<Rightarrow> execution_result \<Rightarrow> execution_row \<Rightarrow> uuid \<Rightarrow> db
     \<Rightarrow> unit tx" where
  "settle_execution rt env now claim result e pid d =
    (let safe_result = outcome_json (er_observed_assignee_id result)
           (er_safe_error_code result) (ex_write_attempted e) in
     settle rt env now (ex_id e) pid (er_state result)
       (\<lambda>x. x\<lparr>ex_state := er_state result, ex_result := safe_result\<rparr>)
       (service_audit (''proposal.'' @ proposal_state_value (er_state result)) ''workforce-risk-mcp''
          [cl_proposal_id claim, cl_issue_key claim] (cl_correlation_id claim)
          (state_json Executing) (state_json (er_state result)) safe_result)
       (uncertain_event env now (cl_execution_id claim) (cl_proposal_id claim)
          (cl_issue_key claim) (cl_correlation_id claim)) d)"

definition finalize ::
  "runtime \<Rightarrow> environment \<Rightarrow> timestamp \<Rightarrow> execution_claim \<Rightarrow> execution_result \<Rightarrow> db \<Rightarrow> execution_result tx" where
  "finalize rt env now claim result d =
    bindr (parse_uuid rt (cl_execution_id claim)) (\<lambda>eid.
    bindr (parse_uuid rt (cl_proposal_id claim)) (\<lambda>pid.
      case (find_execution env eid d, find_proposal pid d) of
        (Some e, Some p) \<Rightarrow>
          (if ex_state e \<noteq> Executing then Inr (stored_result rt e, d)
           else bindr (validate_transition (pr_state p) (er_state result)) (\<lambda>_.
                bindr (settle_execution rt env now claim result e pid d) (\<lambda>(_, d').
                Inr (result, d'))))
      | _ \<Rightarrow> Inl (ValueError ''execution state not found'')))"

section \<open>ReassignmentExecutionService\<close>

fun outcome_state :: "mutation_outcome \<Rightarrow> proposal_state" where
  "outcome_state MExecutedVerified = ExecutedVerified"
| "outcome_state MExecutionFailed = ExecutionFailed"
| "outcome_state MUncertain = Uncertain"
| "outcome_state MStale = Stale"

definition command_of :: "execution_claim \<Rightarrow> reassignment_mutation" where
  "command_of c = \<lparr>mu_environment = cl_environment c, mu_project_key = cl_project_key c,
     mu_issue_key = cl_issue_key c, mu_expected_assignee_id = cl_expected_assignee_id c,
     mu_proposed_assignee_id = cl_proposed_assignee_id c, mu_proposal_id = cl_proposal_id c,
     mu_idempotency_key = cl_idempotency_key c, mu_correlation_id = cl_correlation_id c\<rparr>"

definition result_of :: "execution_claim \<Rightarrow> mutation_receipt \<Rightarrow> execution_result" where
  "result_of c r = \<lparr>er_execution_id = cl_execution_id c, er_proposal_id = cl_proposal_id c,
     er_state = outcome_state (re_outcome r), er_correlation_id = cl_correlation_id c,
     er_observed_assignee_id = re_observed_assignee_id r, er_safe_error_code = re_safe_error_code r\<rparr>"

text \<open>
  The three transactions commit one by one: an exception after one of them leaves its
  database.  Times are those of the successive clock readings.
\<close>

definition execute_service ::
  "runtime \<Rightarrow> environment \<Rightarrow> (nat \<Rightarrow> timestamp) \<Rightarrow> mutation_client \<Rightarrow> 'w transport \<Rightarrow> string \<Rightarrow> string
     \<Rightarrow> db \<Rightarrow> 'w \<Rightarrow> execution_result res \<times> db \<times> 'w" where
  "execute_service rt env clock client call proposal_id correlation_id d w =
    (case prepare rt env (clock 0) proposal_id correlation_id d of
       Inl e \<Rightarrow> (Inl e, d, w)
     | Inr (Done result, d1) \<Rightarrow> (Inr result, d1, w)
     | Inr (Claim claim, d1) \<Rightarrow>
        (case mark_write_attempted rt env claim d1 of
           Inl e \<Rightarrow> (Inl e, d1, w)
         | Inr (_, d2) \<Rightarrow>
            (case mutation_execute client call (command_of claim) w of
               (Inl e, w') \<Rightarrow> (Inl e, d2, w')
             | (Inr r, w') \<Rightarrow>
                (case finalize rt env (clock 1) claim (result_of claim r) d2 of
                   Inl e \<Rightarrow> (Inl e, d2, w')
                 | Inr (result, d3) \<Rightarrow> (Inr result, d3, w')))))"

section \<open>DatabaseReconciliationStore\<close>

definition claim_for :: "runtime \<Rightarrow> execution_row \<Rightarrow> proposal_row \<Rightarrow> reconciliation_claim" where
  "claim_for rt e p = \<lparr>rc_execution_id = rt_uuid rt (ex_id e), rc_proposal_id = rt_uuid rt (pr_id p),
     rc_issue_key = pr_task_key p, rc_expected_assignee_id = pr_expected_assignee p,
     rc_proposed_assignee_id = pr_proposed_assignee p,
     rc_correlation_id = or_unknown (ex_external_correlation_id e),
     rc_write_attempted = ex_write_attempted e\<rparr>"

text \<open>The join of executions with their proposals.\<close>

definition joined :: "db \<Rightarrow> (execution_row \<times> proposal_row) list" where
  "joined d = concat (map (\<lambda>e. map (Pair e) (filter (\<lambda>p. pr_id p = ex_proposal_id e) (db_proposals d)))
     (db_executions d))"

definition lease_rows :: "string \<Rightarrow> timestamp \<Rightarrow> uuid set \<Rightarrow> execution_row list \<Rightarrow> execution_row list" where
  "lease_rows worker now ids = update_where (\<lambda>e. ex_id e \<in> ids)
     (\<lambda>e. e\<lparr>ex_lease_owner := Some worker, ex_leased_at := Some now\<rparr>)"

definition lease_abandoned ::
  "runtime \<Rightarrow> environment \<Rightarrow> timedelta \<Rightarrow> timedelta \<Rightarrow> timestamp \<Rightarrow> string \<Rightarrow> nat \<Rightarrow> db
     \<Rightarrow> reconciliation_claim list \<times> db" where
  "lease_abandoned rt env abandoned_after lease_duration now worker limit d =
    (let cutoff = now - abandoned_after; lease_expiry = now - lease_duration;
         rows = take limit (sort_key (\<lambda>(e, p). ex_created_at e) (filter (\<lambda>(e, p).
            ex_environment e = env \<and> (ex_state e = Executing \<or> ex_state e = Uncertain) \<and>
            ex_created_at e \<le> cutoff \<and>
            (case ex_leased_at e of None \<Rightarrow> True | Some t \<Rightarrow> t < lease_expiry)) (joined d)))
     in (map (\<lambda>(e, p). claim_for rt e p) rows,
         d\<lparr>db_executions := lease_rows worker now (set (map (\<lambda>(e, p). ex_id e) rows)) (db_executions d)\<rparr>))"

definition lease_proposal ::
  "runtime \<Rightarrow> environment \<Rightarrow> timestamp \<Rightarrow> string \<Rightarrow> string \<Rightarrow> db \<Rightarrow> reconciliation_claim option tx" where
  "lease_proposal rt env now proposal_id worker d =
    bindr (parse_uuid rt proposal_id) (\<lambda>pid.
      case filter (\<lambda>(e, p). ex_environment e = env \<and> ex_proposal_id e = pid \<and> ex_state e = Uncertain)
             (joined d) of
        [] \<Rightarrow> Inr (None, d)
      | [(e, p)] \<Rightarrow> Inr (Some (claim_for rt e p),
            d\<lparr>db_executions := lease_rows worker now {ex_id e} (db_executions d)\<rparr>)
      | _ \<Rightarrow> Inl (OtherException ''MultipleResultsFound''))"

definition settle_reconciled ::
  "runtime \<Rightarrow> environment \<Rightarrow> timestamp \<Rightarrow> reconciliation_claim \<Rightarrow> proposal_state \<Rightarrow> json \<Rightarrow> execution_row
     \<Rightarrow> uuid \<Rightarrow> db \<Rightarrow> unit tx" where
  "settle_reconciled rt env now claim state evidence e pid d =
     settle rt env now (ex_id e) pid state
       (\<lambda>x. x\<lparr>ex_state := state, ex_result := evidence, ex_lease_owner := None, ex_leased_at := None\<rparr>)
       (service_audit (''proposal.reconciled_'' @ proposal_state_value state) ''reconciliation-worker''
          [rc_proposal_id claim, rc_issue_key claim] (rc_correlation_id claim)
          (state_json (ex_state e)) (state_json state) evidence)
       (uncertain_event env now (rc_execution_id claim) (rc_proposal_id claim)
          (rc_issue_key claim) (rc_correlation_id claim)) d"

definition resolve ::
  "runtime \<Rightarrow> environment \<Rightarrow> timestamp \<Rightarrow> reconciliation_claim \<Rightarrow> proposal_state \<Rightarrow> json \<Rightarrow> db \<Rightarrow> unit tx" where
  "resolve rt env now claim state evidence d =
    bindr (parse_uuid rt (rc_execution_id claim)) (\<lambda>eid.
    bindr (parse_uuid rt (rc_proposal_id claim)) (\<lambda>pid.
      case (find_execution env eid d, find_proposal pid d) of
        (Some e, Some p) \<Rightarrow>
          (if ex_state e = state then Inr ((), d)
           else if ex_state e \<notin> {Executing, Uncertain} then Inr ((), d)
           else bindr (validate_transition (pr_state p) state) (\<lambda>_.
                settle_reconciled rt env now claim state evidence e pid d))
      | _ \<Rightarrow> Inl (ValueError ''reconciliation state not found'')))"

section \<open>ReconciliationService\<close>

definition reconcile_verdict ::
  "reconciliation_claim \<Rightarrow> string option res \<Rightarrow> proposal_state \<times> string option \<times> string option" where
  "reconcile_verdict claim reading =
    (let observed = (case reading of Inl _ \<Rightarrow> None | Inr a \<Rightarrow> a);
         error_code = (case reading of Inl _ \<Rightarrow> Some ''jira_reconciliation_read_failed'' | Inr _ \<Rightarrow> None) in
     if observed = Some (rc_proposed_assignee_id claim) then (ExecutedVerified, observed, error_code)
     else if observed = Some (rc_expected_assignee_id claim) \<and> \<not> rc_write_attempted claim
     then (ExecutionFailed, observed, error_code)
     else (Uncertain, observed,
           case error_code of None \<Rightarrow> Some ''jira_reconciliation_ambiguous'' | Some c \<Rightarrow> Some c))"

definition reconcile ::
  "runtime \<Rightarrow> environment \<Rightarrow> timestamp \<Rightarrow> 'w transport \<Rightarrow> reconciliation_claim \<Rightarrow> db \<Rightarrow> 'w
     \<Rightarrow> reconciliation_result res \<times> db \<times> 'w" where
  "reconcile rt env now call claim d w =
    (let (reading, w') = read_assignee call (rc_issue_key claim) (rc_correlation_id claim) w;
         (state, observed, code) = reconcile_verdict claim reading in
     case resolve rt env now claim state (outcome_json observed code (rc_write_attempted claim)) d of
       Inl e \<Rightarrow> (Inl e, d, w')
     | Inr (_, d') \<Rightarrow> (Inr \<lparr>rr_execution_id = rc_execution_id claim, rr_state = state,
         rr_observed_assignee_id = observed, rr_safe_error_code = code\<rparr>, d', w'))"

fun reconcile_all ::
  "runtime \<Rightarrow> environment \<Rightarrow> timestamp \<Rightarrow> 'w transport \<Rightarrow> reconciliation_claim list \<Rightarrow> db \<Rightarrow> 'w
     \<Rightarrow> reconciliation_result list res \<times> db \<times> 'w" where
  "reconcile_all rt env now call [] d w = (Inr [], d, w)"
| "reconcile_all rt env now call (c # cs) d w =
    (case reconcile rt env now call c d w of
       (Inl e, d', w') \<Rightarrow> (Inl e, d', w')
     | (Inr r, d', w') \<Rightarrow>
        (case reconcile_all rt env now call cs d' w' of
           (Inl e, d2, w2) \<Rightarrow> (Inl e, d2, w2)
         | (Inr rs, d2, w2) \<Rightarrow> (Inr (r # rs), d2, w2)))"

definition run_once ::
  "runtime \<Rightarrow> environment \<Rightarrow> timedelta \<Rightarrow> timedelta \<Rightarrow> timestamp \<Rightarrow> 'w transport \<Rightarrow> string \<Rightarrow> nat \<Rightarrow> db \<Rightarrow> 'w
     \<Rightarrow> reconciliation_result list res \<times> db \<times> 'w" where
  "run_once rt env abandoned_after lease_duration now call worker limit d w =
    (let (claims, d1) = lease_abandoned rt env abandoned_after lease_duration now worker limit d
     in reconcile_all rt env now call claims d1 w)"

definition run_proposal ::
  "runtime \<Rightarrow> environment \<Rightarrow> timestamp \<Rightarrow> 'w transport \<Rightarrow> string \<Rightarrow> string \<Rightarrow> db \<Rightarrow> 'w
     \<Rightarrow> reconciliation_result option res \<times> db \<times> 'w" where
  "run_proposal rt env now call proposal_id worker d w =
    (case lease_proposal rt env now proposal_id worker d of
       Inl e \<Rightarrow> (Inl e, d, w)
     | Inr (None, d1) \<Rightarrow> (Inr None, d1, w)
     | Inr (Some claim, d1) \<Rightarrow>
        (case reconcile rt env now call claim d1 w of
           (Inl e, d2, w') \<Rightarrow> (Inl e, d2, w') | (Inr r, d2, w') \<Rightarrow> (Inr (Some r), d2, w')))"

end
