(* ===== verification/SystemSteps.thy ===== *)
theory SystemSteps imports Execution begin

text \<open>
  The reassignment system as a whole: proposals are created and decided, workers prepare,
  mark, mutate and finalize, reconcilers lease and resolve, in any interleaving, with any
  step omitted (a crash leaves a claim where it is) and Jira changing at any time.  Then the
  effect of each operation on the rows, which the safety proofs use instead of its code.
\<close>

section \<open>The system\<close>

record 'w system =
  sy_db :: db
  sy_world :: 'w
  sy_ready :: "execution_claim list"
  sy_marked :: "execution_claim list"
  sy_done :: "(execution_claim \<times> mutation_receipt) list"
  sy_leased :: "reconciliation_claim list"
  sy_edited :: "uuid list"

definition claim_pid :: "runtime \<Rightarrow> execution_claim \<Rightarrow> uuid" where
  "claim_pid rt c = the (rt_parse_uuid rt (cl_proposal_id c))"

inductive system_step :: "runtime \<Rightarrow> mutation_client \<Rightarrow> 'w transport \<Rightarrow> 'w system \<Rightarrow> 'w system \<Rightarrow> bool"
  for rt client call where
  created: "create_from_stored_simulation rt now sid key expires requested actor (sy_db s) = Inr (v, d') \<Longrightarrow>
     system_step rt client call s (s\<lparr>sy_db := d'\<rparr>)"
| decided: "decide rt sync now command actor (sy_db s) = Inr (v, d') \<Longrightarrow>
     system_step rt client call s (s\<lparr>sy_db := d'\<rparr>)"
| prepared: "prepare rt env now pid corr (sy_db s) = Inr (Claim c, d') \<Longrightarrow>
     system_step rt client call s (s\<lparr>sy_db := d', sy_ready := c # sy_ready s\<rparr>)"
| marked: "c \<in> set (sy_ready s) \<Longrightarrow> mark_write_attempted rt (cl_environment c) c (sy_db s) = Inr (u, d') \<Longrightarrow>
     system_step rt client call s
       (s\<lparr>sy_db := d', sy_ready := remove1 c (sy_ready s), sy_marked := c # sy_marked s\<rparr>)"
| mutated: "c \<in> set (sy_marked s) \<Longrightarrow>
     mutation_execute client (traced call) (command_of c) (sy_world s, []) = (Inr r, (w', trace)) \<Longrightarrow>
     system_step rt client call s
       (s\<lparr>sy_world := w', sy_marked := remove1 c (sy_marked s), sy_done := (c, r) # sy_done s,
          sy_edited := replicate (length (edits trace)) (claim_pid rt c) @ sy_edited s\<rparr>)"
| mutation_raised: "c \<in> set (sy_marked s) \<Longrightarrow>
     mutation_execute client (traced call) (command_of c) (sy_world s, []) = (Inl e, (w', trace)) \<Longrightarrow>
     system_step rt client call s
       (s\<lparr>sy_world := w', sy_marked := remove1 c (sy_marked s),
          sy_edited := replicate (length (edits trace)) (claim_pid rt c) @ sy_edited s\<rparr>)"
| finalized: "(c, r) \<in> set (sy_done s) \<Longrightarrow>
     finalize rt (cl_environment c) now c (result_of c r) (sy_db s) = Inr (res, d') \<Longrightarrow>
     system_step rt client call s (s\<lparr>sy_db := d', sy_done := remove1 (c, r) (sy_done s)\<rparr>)"
| leased: "lease_abandoned rt env abandoned_after lease_duration now worker limit (sy_db s) = (cs, d') \<Longrightarrow>
     system_step rt client call s (s\<lparr>sy_db := d', sy_leased := cs @ sy_leased s\<rparr>)"
| leased_one: "lease_proposal rt env now pid worker (sy_db s) = Inr (Some rc, d') \<Longrightarrow>
     system_step rt client call s (s\<lparr>sy_db := d', sy_leased := rc # sy_leased s\<rparr>)"
| resolved: "rc \<in> set (sy_leased s) \<Longrightarrow> reconcile_verdict rc reading = (state, observed, code) \<Longrightarrow>
     resolve rt env now rc state (outcome_json observed code (rc_write_attempted rc)) (sy_db s) = Inr (u, d') \<Longrightarrow>
     system_step rt client call s (s\<lparr>sy_db := d'\<rparr>)"
| world_changed: "system_step rt client call s (s\<lparr>sy_world := w'\<rparr>)"

definition approved :: "db \<Rightarrow> uuid \<Rightarrow> bool" where
  "approved d pid \<longleftrightarrow> (\<exists>r \<in> set (db_decisions d). ad_proposal_id r = pid \<and> ad_decision r = Approve)"

text \<open>
  The system starts on any database with well-formed proposals, of which those in execution
  are approved, with no execution yet and with verified audit chains, for instance an empty one.
\<close>

inductive system_reachable :: "runtime \<Rightarrow> mutation_client \<Rightarrow> 'w transport \<Rightarrow> 'w system \<Rightarrow> bool"
  for rt client call where
  initial: "proposals_ok d \<Longrightarrow> \<forall>p \<in> set (db_proposals d). pr_state p = Executing \<longrightarrow> approved d (pr_id p) \<Longrightarrow>
     db_executions d = [] \<Longrightarrow> log_ok rt d \<Longrightarrow>
     system_reachable rt client call \<lparr>sy_db = d, sy_world = w, sy_ready = [], sy_marked = [],
       sy_done = [], sy_leased = [], sy_edited = []\<rparr>"
| step: "system_reachable rt client call s \<Longrightarrow> system_step rt client call s t \<Longrightarrow>
     system_reachable rt client call t"

section \<open>The database part of the invariant\<close>

definition execution_ok :: "db \<Rightarrow> execution_row \<Rightarrow> bool" where
  "execution_ok d e \<longleftrightarrow> ex_id e < db_next d \<and> approved d (ex_proposal_id e) \<and>
     ex_state e \<in> {Executing, ExecutedVerified, ExecutionFailed, Uncertain, Stale} \<and>
     (\<exists>p \<in> set (db_proposals d). pr_id p = ex_proposal_id e \<and> pr_environment p = ex_environment e \<and>
        pr_state p = ex_state e)"

definition executions_ok :: "db \<Rightarrow> bool" where
  "executions_ok d \<longleftrightarrow> proposals_ok d \<and> distinct (map ex_id (db_executions d)) \<and>
     distinct (map ex_proposal_id (db_executions d)) \<and>
     (\<forall>e \<in> set (db_executions d). execution_ok d e) \<and>
     (\<forall>p \<in> set (db_proposals d). pr_state p = Executing \<longrightarrow> approved d (pr_id p))"

lemma proposal_of_id:
  assumes "proposals_ok d" and "p \<in> set (db_proposals d)" and "q \<in> set (db_proposals d)" and "pr_id p = pr_id q"
  shows "p = q"
  using assms by (auto simp: proposals_ok_def distinct_map inj_on_def)

lemma execution_of_id:
  assumes "executions_ok d" and "e \<in> set (db_executions d)" and "f \<in> set (db_executions d)"
  shows "ex_id e = ex_id f \<Longrightarrow> e = f" "ex_proposal_id e = ex_proposal_id f \<Longrightarrow> e = f"
  using assms by (auto simp: executions_ok_def distinct_map inj_on_def)

lemma find_execution_SomeD:
  "find_execution env eid d = Some e \<Longrightarrow> e \<in> set (db_executions d) \<and> ex_id e = eid \<and> ex_environment e = env"
  unfolding find_execution_def by (auto dest: select_one_SomeD)

lemma find_proposal_SomeD: "find_proposal pid d = Some p \<Longrightarrow> p \<in> set (db_proposals d) \<and> pr_id p = pid"
  unfolding find_proposal_def by (auto dest: select_one_SomeD)

section \<open>What each operation does\<close>

lemma parse_uuid_Inr: "parse_uuid rt s = Inr u \<longleftrightarrow> rt_parse_uuid rt s = Some u"
  by (auto simp: parse_uuid_def split: option.splits)

lemma prepare_Claim:
  assumes "executions_ok d" and "prepare rt env now pid corr d = Inr (Claim c, d')"
  shows "\<exists>p a. p \<in> set (db_proposals d) \<and> rt_parse_uuid rt pid = Some (pr_id p) \<and>
     pr_environment p = env \<and> pr_state p = Executing \<and>
     (\<forall>e \<in> set (db_executions d). ex_proposal_id e \<noteq> pr_id p) \<and>
     d' = d\<lparr>db_next := Suc (Suc (db_next d)), db_audit := db_audit d @ [a],
       db_executions := db_executions d @ [new_execution (db_next d) env now (pr_id p) corr]\<rparr> \<and>
     (log_ok rt d \<longrightarrow> log_ok rt d') \<and>
     cl_execution_id c = rt_uuid rt (db_next d) \<and> cl_proposal_id c = pid \<and> cl_environment c = env"
proof -
  from assms(2) obtain i where i: "parse_uuid rt pid = Inr i"
    by (auto simp: prepare_def bindr_Inr_iff)
  with assms(2) have none: "find_execution_of env i d = None"
    by (auto simp: prepare_def split: option.splits)
  with assms(2) i obtain p where p: "find_env_proposal env i d = Some p" "pr_state p = Executing"
    by (auto simp: prepare_def split: option.splits if_splits)
  have pok: "proposals_ok d" using assms(1) by (simp add: executions_ok_def)
  from p have p': "p \<in> set (db_proposals d)" "pr_id p = i" "pr_environment p = env"
    by (simp_all add: find_env_proposal_iff [OF pok])
  let ?e = "new_execution (db_next d) env now (pr_id p) corr"
  from assms(2) i none p obtain a args where
    a: "audit_append rt now env args (d\<lparr>db_next := Suc (db_next d), db_executions := db_executions d @ [?e]\<rparr>) = Inr (a, d')"
    and c: "cl_execution_id c = rt_uuid rt (db_next d)" "cl_proposal_id c = pid" "cl_environment c = env"
    by (auto simp: prepare_def new_id_def Let_def bindr_Inr_iff insert_row_Inr_iff)
  have fresh: "\<forall>e \<in> set (db_executions d). ex_proposal_id e \<noteq> pr_id p"
  proof
    fix e assume e: "e \<in> set (db_executions d)"
    from assms(1) e obtain q where q: "q \<in> set (db_proposals d)" "pr_id q = ex_proposal_id e" "pr_environment q = ex_environment e"
      by (auto simp: executions_ok_def execution_ok_def)
    show "ex_proposal_id e \<noteq> pr_id p"
    proof
      assume eq: "ex_proposal_id e = pr_id p"
      with q proposal_of_id [OF pok q(1) p'(1)] have "q = p" by simp
      with q p' eq have "ex_environment e = env" "ex_proposal_id e = i" by simp_all
      with none e show False by (auto simp: find_execution_of_def)
    qed
  qed
  show ?thesis using p' p(2) i c fresh audit_append_Inr [OF a] log_step [OF a, of d]
    by (intro exI [of _ p] exI [of _ a]) (simp add: parse_uuid_Inr)
qed

lemma mark_Inr:
  assumes "mark_write_attempted rt env c d = Inr (u, d')"
  shows "\<exists>e. e \<in> set (db_executions d) \<and> rt_parse_uuid rt (cl_execution_id c) = Some (ex_id e) \<and>
     ex_state e = Executing \<and>
     d' = d\<lparr>db_executions := update_where (\<lambda>x. ex_id x = ex_id e)
        (\<lambda>x. x\<lparr>ex_write_attempted := True, ex_result := JObj [(''write_attempted'', JBool True)]\<rparr>) (db_executions d)\<rparr>"
  using assms
  by (auto simp: mark_write_attempted_def bindr_Inr_iff parse_uuid_Inr dest!: find_execution_SomeD
      split: option.splits if_splits)

text \<open>The common effect of \<open>finalize\<close> and \<open>resolve\<close> on executions and proposals.\<close>

definition settles :: "runtime \<Rightarrow> uuid \<Rightarrow> uuid \<Rightarrow> proposal_state \<Rightarrow> db \<Rightarrow> db \<Rightarrow> bool" where
  "settles rt eid pid state d d' \<longleftrightarrow> (\<exists>f n lg ob.
     d' = d\<lparr>db_next := n, db_audit := lg, db_outbox := ob,
        db_executions := update_where (\<lambda>x. ex_id x = eid) f (db_executions d),
        db_proposals := update_where (\<lambda>x. pr_id x = pid) (\<lambda>x. set_state state (pr_version x + 1) x) (db_proposals d)\<rparr> \<and>
     db_next d \<le> n \<and> (log_ok rt d \<longrightarrow> log_ok rt d') \<and>
     (\<forall>x. ex_id (f x) = ex_id x \<and> ex_proposal_id (f x) = ex_proposal_id x \<and>
        ex_environment (f x) = ex_environment x \<and> ex_write_attempted (f x) = ex_write_attempted x \<and>
        ex_state (f x) = state))"

lemma settle_settles:
  assumes "settle rt env now eid pid state f args (uncertain_event env' now' k1 k2 k3 k4) d = Inr (u, d')"
    and "\<forall>x. ex_id (f x) = ex_id x \<and> ex_proposal_id (f x) = ex_proposal_id x \<and>
        ex_environment (f x) = ex_environment x \<and> ex_write_attempted (f x) = ex_write_attempted x \<and>
        ex_state (f x) = state"
  shows "settles rt eid pid state d d'"
proof -
  let ?d0 = "d\<lparr>db_executions := update_where (\<lambda>x. ex_id x = eid) f (db_executions d),
           db_proposals := update_where (\<lambda>x. pr_id x = pid) (\<lambda>x. set_state state (pr_version x + 1) x) (db_proposals d)\<rparr>"
  from assms(1) obtain a d1 where a: "audit_append rt now env args ?d0 = Inr (a, d1)"
    and d1: "(state = Uncertain \<and> (\<exists>o'. uncertain_event env' now' k1 k2 k3 k4 d1 = Inr (o', d'))) \<or> d' = d1"
    by (auto simp: settle_def bindr_Inr_iff split: if_splits)
  note e = audit_append_Inr [OF a]
  have "\<exists>ob n. d' = d1\<lparr>db_next := n, db_outbox := ob\<rparr> \<and> db_next d1 \<le> n"
    using d1
  proof
    assume "state = Uncertain \<and> (\<exists>o'. uncertain_event env' now' k1 k2 k3 k4 d1 = Inr (o', d'))"
    then show ?thesis unfolding uncertain_event_def using outbox_append_frame by blast
  next
    assume "d' = d1"
    then show ?thesis by (intro exI [of _ "db_outbox d1"] exI [of _ "db_next d1"]) simp
  qed
  then obtain ob n where d': "d' = d1\<lparr>db_next := n, db_outbox := ob\<rparr>" "db_next d1 \<le> n" by blast
  have "log_ok rt d \<longrightarrow> log_ok rt d'"
    using log_step [OF a, of d] log_ok_cong [of d' d1] d'(1) by simp
  with d' e(2) assms(2) show ?thesis unfolding settles_def
    by (intro exI [of _ f] exI [of _ n] exI [of _ "db_audit d'"] exI [of _ ob]) simp
qed

lemma settle_execution_settles:
  "settle_execution rt env now c result e pid d = Inr (u, d') \<Longrightarrow> settles rt (ex_id e) pid (er_state result) d d'"
  unfolding settle_execution_def Let_def by (erule settle_settles) simp

lemma settle_reconciled_settles:
  "settle_reconciled rt env now c state evidence e pid d = Inr (u, d') \<Longrightarrow> settles rt (ex_id e) pid state d d'"
  unfolding settle_reconciled_def by (erule settle_settles) simp

definition claim_targets :: "runtime \<Rightarrow> string \<Rightarrow> string \<Rightarrow> db \<Rightarrow> execution_row \<Rightarrow> proposal_row \<Rightarrow> bool" where
  "claim_targets rt xid pid d e p \<longleftrightarrow> e \<in> set (db_executions d) \<and> p \<in> set (db_proposals d) \<and>
     rt_parse_uuid rt xid = Some (ex_id e) \<and> rt_parse_uuid rt pid = Some (pr_id p)"

lemma finalize_Inr:
  assumes "finalize rt env now c result d = Inr (res, d')"
  shows "\<exists>e p. claim_targets rt (cl_execution_id c) (cl_proposal_id c) d e p \<and>
     ((ex_state e \<noteq> Executing \<and> d' = d \<and> res = stored_result rt e) \<or>
      (ex_state e = Executing \<and> validate_transition (pr_state p) (er_state result) = Inr () \<and> res = result \<and>
       settles rt (ex_id e) (pr_id p) (er_state result) d d'))"
proof -
  from assms obtain eid pid where ids: "parse_uuid rt (cl_execution_id c) = Inr eid" "parse_uuid rt (cl_proposal_id c) = Inr pid"
    by (auto simp: finalize_def bindr_Inr_iff)
  with assms obtain e p where f: "find_execution env eid d = Some e" "find_proposal pid d = Some p"
    by (auto simp: finalize_def split: option.splits)
  note fe = find_execution_SomeD [OF f(1)] and fp = find_proposal_SomeD [OF f(2)]
  have t: "claim_targets rt (cl_execution_id c) (cl_proposal_id c) d e p"
    using fe fp ids by (simp add: claim_targets_def parse_uuid_Inr)
  have run: "finalize rt env now c result d = (if ex_state e \<noteq> Executing then Inr (stored_result rt e, d)
           else bindr (validate_transition (pr_state p) (er_state result)) (\<lambda>_.
                bindr (settle_execution rt env now c result e pid d) (\<lambda>(_, d'). Inr (result, d'))))"
    using ids f by (simp add: finalize_def)
  show ?thesis
  proof (cases "ex_state e = Executing")
    case True
    with run assms have "bindr (validate_transition (pr_state p) (er_state result)) (\<lambda>_.
                bindr (settle_execution rt env now c result e pid d) (\<lambda>(_, d'). Inr (result, d'))) = Inr (res, d')"
      by simp
    then obtain u y where v: "validate_transition (pr_state p) (er_state result) = Inr u"
      and y: "settle_execution rt env now c result e pid d = Inr y" "(case y of (_, d') \<Rightarrow> Inr (result, d')) = (Inr (res, d') :: execution_result tx)"
      unfolding bindr_Inr_iff by (elim exE conjE) (rule that)
    obtain y1 y2 where "y = (y1, y2)" by (cases y)
    with y have "res = result" "settle_execution rt env now c result e pid d = Inr (y1, d')" by simp_all
    moreover from this(2) have "settles rt (ex_id e) (pr_id p) (er_state result) d d'"
      using settle_execution_settles fp by blast
    ultimately show ?thesis using t True v
      by (intro exI [of _ e] exI [of _ p] conjI disjI2) simp_all
  next
    case False
    with run assms t show ?thesis by auto
  qed
qed

lemma resolve_Inr:
  assumes "resolve rt env now c state evidence d = Inr (u, d')"
  shows "\<exists>e p. claim_targets rt (rc_execution_id c) (rc_proposal_id c) d e p \<and>
     (d' = d \<or> (ex_state e \<in> {Executing, Uncertain} \<and> validate_transition (pr_state p) state = Inr () \<and>
       settles rt (ex_id e) (pr_id p) state d d'))"
proof -
  from assms obtain eid pid where ids: "parse_uuid rt (rc_execution_id c) = Inr eid" "parse_uuid rt (rc_proposal_id c) = Inr pid"
    by (auto simp: resolve_def bindr_Inr_iff)
  with assms obtain e p where f: "find_execution env eid d = Some e" "find_proposal pid d = Some p"
    by (auto simp: resolve_def split: option.splits)
  note fe = find_execution_SomeD [OF f(1)] and fp = find_proposal_SomeD [OF f(2)]
  have t: "claim_targets rt (rc_execution_id c) (rc_proposal_id c) d e p"
    using fe fp ids by (simp add: claim_targets_def parse_uuid_Inr)
  have run: "resolve rt env now c state evidence d = (if ex_state e = state then Inr ((), d)
           else if ex_state e \<notin> {Executing, Uncertain} then Inr ((), d)
           else bindr (validate_transition (pr_state p) state) (\<lambda>_.
                settle_reconciled rt env now c state evidence e pid d))"
    using ids f by (simp add: resolve_def)
  show ?thesis
  proof (cases "ex_state e \<noteq> state \<and> ex_state e \<in> {Executing, Uncertain}")
    case True
    then have "\<not> ex_state e = state" "\<not> ex_state e \<notin> {Executing, Uncertain}" by auto
    with run have "resolve rt env now c state evidence d = bindr (validate_transition (pr_state p) state) (\<lambda>_.
                settle_reconciled rt env now c state evidence e pid d)"
      by (simp only: if_False)
    with assms have "bindr (validate_transition (pr_state p) state) (\<lambda>_.
                settle_reconciled rt env now c state evidence e pid d) = Inr (u, d')" by (simp only:)
    then obtain x where v: "validate_transition (pr_state p) state = Inr x"
      "settle_reconciled rt env now c state evidence e pid d = Inr (u, d')"
      unfolding bindr_Inr_iff by (elim exE conjE) (rule that)
    from settle_reconciled_settles [OF v(2)] have "settles rt (ex_id e) (pr_id p) state d d'"
      using fp by simp
    with t True v(1) show ?thesis
      by (intro exI [of _ e] exI [of _ p] conjI disjI2) simp_all
  next
    case False
    then have "ex_state e = state \<or> ex_state e \<notin> {Executing, Uncertain}" by blast
    then have "resolve rt env now c state evidence d = Inr ((), d)"
      unfolding run by (elim disjE) (simp_all only: if_True if_False if_cancel not_False_eq_True refl)
    with assms have "d' = d" by simp
    with t show ?thesis by blast
  qed
qed

end
