(* ===== verification/Safety.thy ===== *)
theory Safety imports SystemSteps begin

text \<open>
  Safety of the reassignment system: the invariant of its database (\<open>executions_ok\<close>) and of the
  claims in flight (\<open>claims_ok\<close>) holds in every reachable state, so that a proposal is edited at
  most once and only when approved, and an execution always has the state of its proposal.
\<close>

section \<open>The operations keep the database part\<close>

lemma executions_ok_frame:
  assumes "executions_ok d" and "db_executions d' = db_executions d" and "db_proposals d' = db_proposals d"
    and "set (db_decisions d) \<subseteq> set (db_decisions d')" and "db_next d \<le> db_next d'"
  shows "executions_ok d'"
proof -
  have ap: "approved d i \<Longrightarrow> approved d' i" for i using assms(4) unfolding approved_def by blast
  have "proposals_ok d'" using proposals_ok_frame [of d d'] assms by (simp add: executions_ok_def)
  moreover have "execution_ok d' e" if "execution_ok d e" for e
    using that ap assms(3,5) unfolding execution_ok_def by auto
  ultimately show ?thesis using assms(1-3) ap unfolding executions_ok_def by auto
qed

lemma settles_ok:
  assumes "executions_ok d" and "settles rt (ex_id e) (pr_id p) state d d'"
    and "e \<in> set (db_executions d)" and "p \<in> set (db_proposals d)" and "ex_proposal_id e = pr_id p"
    and "state \<in> {ExecutedVerified, ExecutionFailed, Uncertain, Stale}"
  shows "executions_ok d'"
proof -
  from assms(2) obtain f n lg ob where d': "d' = d\<lparr>db_next := n, db_audit := lg, db_outbox := ob,
        db_executions := update_where (\<lambda>x. ex_id x = ex_id e) f (db_executions d),
        db_proposals := update_where (\<lambda>x. pr_id x = pr_id p) (\<lambda>x. set_state state (pr_version x + 1) x) (db_proposals d)\<rparr>"
    and n: "db_next d \<le> n"
    and f: "\<forall>x. ex_id (f x) = ex_id x \<and> ex_proposal_id (f x) = ex_proposal_id x \<and>
        ex_environment (f x) = ex_environment x \<and> ex_write_attempted (f x) = ex_write_attempted x \<and> ex_state (f x) = state"
    unfolding settles_def by blast
  have ids: "map pr_id (db_proposals d') = map pr_id (db_proposals d)"
    by (simp add: d' map_update_where set_state_def)
  have eids: "map ex_id (db_executions d') = map ex_id (db_executions d)"
    "map ex_proposal_id (db_executions d') = map ex_proposal_id (db_executions d)"
    using f by (simp_all add: d' map_update_where)
  have pok: "proposals_ok d'"
    using proposals_ok_frame [OF _ ids] assms(1) n by (simp add: executions_ok_def d')
  have ap: "approved d' i = approved d i" for i by (simp add: approved_def d')
  have props: "set (db_proposals d') = (\<lambda>x. if pr_id x = pr_id p then set_state state (pr_version x + 1) x else x) ` set (db_proposals d)"
    by (simp add: d' set_update_where)
  have execs: "set (db_executions d') = (\<lambda>x. if ex_id x = ex_id e then f x else x) ` set (db_executions d)"
    by (simp add: d' set_update_where)
  have ok: "execution_ok d' x'" if "x' \<in> set (db_executions d')" for x'
  proof -
    from that obtain x where x: "x \<in> set (db_executions d)" "x' = (if ex_id x = ex_id e then f x else x)"
      by (auto simp: execs)
    from assms(1) x(1) obtain q where q: "q \<in> set (db_proposals d)" "pr_id q = ex_proposal_id x"
        "pr_environment q = ex_environment x" "pr_state q = ex_state x"
      and xo: "execution_ok d x"
      by (auto simp: executions_ok_def execution_ok_def)
    show ?thesis
    proof (cases "x = e")
      case True
      with q assms(5) have "pr_id q = pr_id p" by simp
      then have "set_state state (pr_version q + 1) q \<in> set (db_proposals d')" using q(1) by (auto simp: props)
      with q x True f xo n assms(6) ap show ?thesis
        by (auto simp: execution_ok_def set_state_def d' intro!: bexI [of _ "set_state state (pr_version q + 1) q"])
    next
      case False
      with x assms(1,3) have ne: "ex_id x \<noteq> ex_id e" "ex_proposal_id x \<noteq> pr_id p"
        using execution_of_id [OF assms(1) x(1) assms(3)] assms(5) by auto
      with q have "q \<in> set (db_proposals d')" by (auto simp: props intro!: image_eqI [of _ _ q])
      with ne x q xo n ap show ?thesis by (auto simp: execution_ok_def d')
    qed
  qed
  have "approved d' (pr_id q')" if "q' \<in> set (db_proposals d')" "pr_state q' = Executing" for q'
  proof -
    from that obtain q where q: "q \<in> set (db_proposals d)" "q' = (if pr_id q = pr_id p then set_state state (pr_version q + 1) q else q)"
      by (auto simp: props)
    with that(2) assms(6) have "pr_id q \<noteq> pr_id p" by (auto simp: set_state_def split: if_splits)
    with q that(2) assms(1) ap show ?thesis by (auto simp: executions_ok_def)
  qed
  with ok pok eids assms(1) show ?thesis by (simp add: executions_ok_def)
qed

lemma create_Inr:
  assumes "create_from_stored_simulation rt now sid key expires requested actor d = Inr (v, d')"
  shows "d' = d \<or> (log_ok rt d \<longrightarrow> log_ok rt d') \<and> (\<exists>r a. d' = d\<lparr>db_next := Suc (Suc (db_next d)),
     db_proposals := db_proposals d @ [r], db_audit := db_audit d @ [a]\<rparr> \<and> pr_id r = db_next d \<and> pr_state r = Pending)"
proof -
  from assms obtain c where run: "proposal_create rt now c actor d = Inr (v, d')"
    by (auto simp: create_from_stored_simulation_def bindr_Inr_iff split: option.splits)
  show ?thesis
  proof (cases "find_by_key (act_environment actor) (pc_idempotency_key c) d")
    case None
    from proposal_create_new [OF run None] show ?thesis by blast
  next
    case (Some r)
    from proposal_create_existing [OF Some run] show ?thesis by simp
  qed
qed

lemma create_ok:
  assumes "executions_ok d" and "pr_id r = db_next d" and "pr_state r = Pending"
    and "d' = d\<lparr>db_next := Suc (Suc (db_next d)), db_proposals := db_proposals d @ [r], db_audit := lg\<rparr>"
  shows "executions_ok d'"
proof -
  have pok: "proposals_ok d" using assms(1) by (simp add: executions_ok_def)
  have "proposals_ok d'" using pok assms(2) by (auto simp: proposals_ok_def assms(4) intro: less_SucI)
  moreover have "execution_ok d' e" if "execution_ok d e" for e
    using that by (auto simp: execution_ok_def assms(4) approved_def intro: less_SucI)
  ultimately show ?thesis using assms(1,3) by (auto simp: executions_ok_def assms(4) approved_def)
qed

lemma decide_ok:
  assumes "runtime_ok rt" and "executions_ok d" and "decide rt sync now command actor d = Inr (v, d')"
  shows "executions_ok d'" "log_ok rt d \<longrightarrow> log_ok rt d'"
    "db_executions d' = db_executions d" "db_next d \<le> db_next d'"
proof -
  have pok: "proposals_ok d" using assms(2) by (simp add: executions_ok_def)
  from assms(1) pok assms(3)
  have "executions_ok d' \<and> (log_ok rt d \<longrightarrow> log_ok rt d') \<and> db_executions d' = db_executions d \<and> db_next d \<le> db_next d'"
  proof (cases rule: decide_cases)
    case (duplicate row r)
    then show "executions_ok d' \<and> (log_ok rt d \<longrightarrow> log_ok rt d') \<and> db_executions d' = db_executions d \<and> db_next d \<le> db_next d'"
      using assms(2) by simp
  next
    case (decided r)
    let ?t = "decision_target r command" and ?v = "stored_version sync r"
    from apply_decision_Inr [OF pok decided(5)] obtain a row where
      d': "d' = d\<lparr>db_next := Suc (Suc (db_next d)), db_audit := db_audit d @ [a],
       db_decisions := db_decisions d @ [row],
       db_proposals := update_where (\<lambda>x. pr_id x = pr_id r) (set_state ?t ?v) (db_proposals d)\<rparr>"
      and row: "ad_proposal_id row = pr_id r" "ad_decision row = dc_decision command"
      and log: "log_ok rt d \<longrightarrow> log_ok rt d'" by blast
    have pending: "pr_state r = Pending" using decided(4) by (simp add: pending_in_scope_def)
    have ids: "map pr_id (db_proposals d') = map pr_id (db_proposals d)"
      by (simp add: d' map_update_where set_state_def)
    have pok': "proposals_ok d'" using proposals_ok_frame [OF pok ids] by (simp add: d')
    have props: "set (db_proposals d') = (\<lambda>x. if pr_id x = pr_id r then set_state ?t ?v x else x) ` set (db_proposals d)"
      by (simp add: d' set_update_where)
    have ap: "approved d i \<Longrightarrow> approved d' i" for i by (auto simp: approved_def d')
    have ex: "execution_ok d' e" if e: "e \<in> set (db_executions d)" for e
    proof -
      from assms(2) e obtain p where p: "p \<in> set (db_proposals d)" "pr_id p = ex_proposal_id e"
          "pr_environment p = ex_environment e" "pr_state p = ex_state e" and eo: "execution_ok d e"
        by (auto simp: executions_ok_def execution_ok_def)
      have "pr_id p \<noteq> pr_id r"
      proof
        assume "pr_id p = pr_id r"
        with proposal_of_id [OF pok p(1) decided(2)] have "p = r" .
        with pending p(4) eo show False by (simp add: execution_ok_def)
      qed
      then have "p \<in> set (db_proposals d')" using p(1) by (auto simp: props intro!: image_eqI [of _ _ p])
      with p eo ap show ?thesis by (auto simp: execution_ok_def d' intro: less_SucI)
    qed
    have "approved d' (pr_id q)" if q: "q \<in> set (db_proposals d')" "pr_state q = Executing" for q
    proof -
      from q(1) obtain p where p: "p \<in> set (db_proposals d)" "q = (if pr_id p = pr_id r then set_state ?t ?v p else p)"
        by (auto simp: props)
      show ?thesis
      proof (cases "pr_id p = pr_id r")
        case True
        with p q have "?t = Executing" by (simp add: set_state_def)
        then have "dc_decision command = Approve"
          by (cases "dc_decision command") (auto simp: decision_target_def split: if_splits)
        with row have "approved d' (pr_id r)" by (auto simp: approved_def d')
        with p True show ?thesis by (simp add: set_state_def)
      next
        case False
        with p q assms(2) ap show ?thesis by (auto simp: executions_ok_def)
      qed
    qed
    with pok' ex assms(2) log
    show "executions_ok d' \<and> (log_ok rt d \<longrightarrow> log_ok rt d') \<and> db_executions d' = db_executions d \<and> db_next d \<le> db_next d'"
      by (auto simp: executions_ok_def d')
  qed
  then show "executions_ok d'" "log_ok rt d \<longrightarrow> log_ok rt d'" "db_executions d' = db_executions d" "db_next d \<le> db_next d'"
    by simp_all
qed

lemma prepare_ok:
  assumes "executions_ok d" and "p \<in> set (db_proposals d)" and "pr_state p = Executing" and "pr_environment p = env"
    and "\<forall>e \<in> set (db_executions d). ex_proposal_id e \<noteq> pr_id p"
    and "d' = d\<lparr>db_next := Suc (Suc (db_next d)), db_audit := lg,
       db_executions := db_executions d @ [new_execution (db_next d) env now (pr_id p) corr]\<rparr>"
  shows "executions_ok d'"
proof -
  have ap: "approved d' = approved d" by (rule ext) (simp add: approved_def assms(6))
  have eo: "execution_ok d' e" if "execution_ok d e" for e
    using that ap by (auto simp: execution_ok_def assms(6) intro: less_SucI)
  have "approved d (pr_id p)" using assms(1-3) by (simp add: executions_ok_def)
  then have "execution_ok d' (new_execution (db_next d) env now (pr_id p) corr)"
    using assms(2-4) ap by (auto simp: execution_ok_def new_execution_def assms(6))
  moreover have "proposals_ok d'" using assms(1) by (auto simp: executions_ok_def proposals_ok_def assms(6) intro: less_SucI)
  moreover have "distinct (map ex_id (db_executions d'))" "distinct (map ex_proposal_id (db_executions d'))"
    using assms(1,5) by (auto simp: executions_ok_def execution_ok_def assms(6) new_execution_def)
  ultimately show ?thesis using assms(1) eo ap by (auto simp: executions_ok_def assms(6))
qed

text \<open>Changing columns of executions that the invariant does not mention.\<close>

definition touches :: "db \<Rightarrow> db \<Rightarrow> bool" where
  "touches d d' \<longleftrightarrow> (\<exists>P f. d' = d\<lparr>db_executions := update_where P f (db_executions d)\<rparr> \<and>
     (\<forall>x. ex_id (f x) = ex_id x \<and> ex_proposal_id (f x) = ex_proposal_id x \<and>
        ex_environment (f x) = ex_environment x \<and> ex_state (f x) = ex_state x \<and>
        (ex_write_attempted x \<longrightarrow> ex_write_attempted (f x))))"

lemma touches_ok:
  assumes "executions_ok d" and "touches d d'"
  shows "executions_ok d'"
proof -
  from assms(2) obtain P f where d': "d' = d\<lparr>db_executions := update_where P f (db_executions d)\<rparr>"
    and f: "\<forall>x. ex_id (f x) = ex_id x \<and> ex_proposal_id (f x) = ex_proposal_id x \<and>
        ex_environment (f x) = ex_environment x \<and> ex_state (f x) = ex_state x \<and>
        (ex_write_attempted x \<longrightarrow> ex_write_attempted (f x))"
    unfolding touches_def by blast
  have "execution_ok d' (f x)" "execution_ok d' x" if "execution_ok d x" for x
    using that f by (simp_all add: execution_ok_def d' approved_def)
  then show ?thesis using assms(1) f
    by (auto simp: executions_ok_def d' proposals_ok_def approved_def map_update_where set_update_where)
qed

lemma touchesI:
  assumes "d' = d\<lparr>db_executions := update_where P f (db_executions d)\<rparr>"
    and "\<And>x. ex_id (f x) = ex_id x \<and> ex_proposal_id (f x) = ex_proposal_id x \<and>
        ex_environment (f x) = ex_environment x \<and> ex_state (f x) = ex_state x \<and>
        (ex_write_attempted x \<longrightarrow> ex_write_attempted (f x))"
  shows "touches d d'"
  using assms unfolding touches_def by blast

lemma mark_touches:
  assumes "mark_write_attempted rt env c d = Inr (u, d')"
  shows "touches d d'"
  using mark_Inr [OF assms] by (elim exE conjE) (rule touchesI, assumption, simp)

lemma lease_rows_touches: "touches d (d\<lparr>db_executions := lease_rows worker now ids (db_executions d)\<rparr>)"
  unfolding lease_rows_def by (rule touchesI [OF refl]) simp

section \<open>Claims in flight\<close>

text \<open>
  \<open>runs d w env i pid\<close>: an execution of the database has this environment, id and proposal, and
  if \<open>w\<close>, its write attempt is recorded.  No operation takes it away.
\<close>

definition runs :: "db \<Rightarrow> bool \<Rightarrow> environment \<Rightarrow> uuid \<Rightarrow> uuid \<Rightarrow> bool" where
  "runs d w env i pid \<longleftrightarrow> (\<exists>e \<in> set (db_executions d). ex_environment e = env \<and> ex_id e = i \<and>
     ex_proposal_id e = pid \<and> (w \<longrightarrow> ex_write_attempted e))"

definition keeps :: "db \<Rightarrow> db \<Rightarrow> bool" where
  "keeps d d' \<longleftrightarrow> (\<forall>w env i pid. runs d w env i pid \<longrightarrow> runs d' w env i pid)"

lemma keeps_refl [simp]: "keeps d d"
  by (simp add: keeps_def)

lemma keeps_update:
  assumes "db_executions d' = update_where P f (db_executions d)"
    and "\<And>x. ex_id (f x) = ex_id x \<and> ex_proposal_id (f x) = ex_proposal_id x \<and>
        ex_environment (f x) = ex_environment x \<and> (ex_write_attempted x \<longrightarrow> ex_write_attempted (f x))"
  shows "keeps d d'"
  unfolding keeps_def runs_def
proof (intro allI impI)
  fix w env i pid
  assume "\<exists>e \<in> set (db_executions d). ex_environment e = env \<and> ex_id e = i \<and>
     ex_proposal_id e = pid \<and> (w \<longrightarrow> ex_write_attempted e)"
  then obtain e where e: "e \<in> set (db_executions d)" "ex_environment e = env" "ex_id e = i"
    "ex_proposal_id e = pid" "w \<longrightarrow> ex_write_attempted e" by blast
  let ?e = "if P e then f e else e"
  have "?e \<in> set (db_executions d')" using e(1) by (simp add: assms(1) set_update_where)
  moreover have "ex_environment ?e = env \<and> ex_id ?e = i \<and> ex_proposal_id ?e = pid \<and> (w \<longrightarrow> ex_write_attempted ?e)"
    using e assms(2) by simp
  ultimately show "\<exists>e \<in> set (db_executions d'). ex_environment e = env \<and> ex_id e = i \<and>
     ex_proposal_id e = pid \<and> (w \<longrightarrow> ex_write_attempted e)" by blast
qed

lemma settles_keeps:
  assumes "settles rt eid pid state d d'"
  shows "keeps d d'"
  using assms unfolding settles_def by (elim exE conjE) (rule keeps_update, simp, simp)

lemma touches_keeps: "touches d d' \<Longrightarrow> keeps d d'"
  unfolding touches_def by (elim exE conjE) (rule keeps_update, simp, simp)

lemma extends_keeps: "set (db_executions d) \<subseteq> set (db_executions d') \<Longrightarrow> keeps d d'"
  unfolding keeps_def runs_def by blast

definition claim_ok :: "runtime \<Rightarrow> db \<Rightarrow> bool \<Rightarrow> execution_claim \<Rightarrow> bool" where
  "claim_ok rt d w c \<longleftrightarrow> (\<exists>i pid. cl_execution_id c = rt_uuid rt i \<and>
     rt_parse_uuid rt (cl_proposal_id c) = Some pid \<and> runs d w (cl_environment c) i pid)"

definition lease_ok :: "runtime \<Rightarrow> db \<Rightarrow> reconciliation_claim \<Rightarrow> bool" where
  "lease_ok rt d c \<longleftrightarrow> (\<exists>i pid env. rc_execution_id c = rt_uuid rt i \<and> rc_proposal_id c = rt_uuid rt pid \<and>
     runs d (rc_write_attempted c) env i pid)"

definition claims_ok :: "runtime \<Rightarrow> 'w system \<Rightarrow> bool" where
  "claims_ok rt s \<longleftrightarrow>
     (\<forall>c \<in> set (sy_ready s). claim_ok rt (sy_db s) False c) \<and>
     (\<forall>c \<in> set (sy_marked s). claim_ok rt (sy_db s) True c) \<and>
     (\<forall>(c, r) \<in> set (sy_done s). claim_ok rt (sy_db s) True c) \<and>
     (\<forall>c \<in> set (sy_leased s). lease_ok rt (sy_db s) c) \<and>
     distinct (map (claim_pid rt) (sy_ready s @ sy_marked s) @ sy_edited s) \<and>
     (\<forall>pid \<in> set (sy_edited s). \<exists>env i. runs (sy_db s) True env i pid)"

definition system_ok :: "runtime \<Rightarrow> 'w system \<Rightarrow> bool" where
  "system_ok rt s \<longleftrightarrow> executions_ok (sy_db s) \<and> log_ok rt (sy_db s) \<and> claims_ok rt s"

lemma claim_ok_keeps: "keeps d d' \<Longrightarrow> claim_ok rt d w c \<Longrightarrow> claim_ok rt d' w c"
  unfolding claim_ok_def keeps_def by blast

lemma lease_ok_keeps: "keeps d d' \<Longrightarrow> lease_ok rt d c \<Longrightarrow> lease_ok rt d' c"
  unfolding lease_ok_def keeps_def by blast

lemma claims_ok_keeps:
  assumes "claims_ok rt s" and "keeps (sy_db s) d'"
  shows "claims_ok rt (s\<lparr>sy_db := d'\<rparr>)"
proof -
  note k = claim_ok_keeps [OF assms(2)] lease_ok_keeps [OF assms(2)]
  have edited: "\<exists>env i. runs d' True env i pid" if "\<exists>env i. runs (sy_db s) True env i pid" for pid
    using that assms(2) unfolding keeps_def by blast
  have fin: "case p of (c, r) \<Rightarrow> claim_ok rt d' True c" if "case p of (c, r) \<Rightarrow> claim_ok rt (sy_db s) True c" for p
    using that k(1) by (cases p) simp
  from assms(1) show ?thesis unfolding claims_ok_def
    by (elim conjE, intro conjI) (simp_all add: k edited fin)
qed

lemma claim_pid_runs: "claim_ok rt d w c \<Longrightarrow> \<exists>i env. runs d w env i (claim_pid rt c)"
  unfolding claim_ok_def claim_pid_def by (metis option.sel)

lemma runs_weaken: "runs d w env i pid \<Longrightarrow> runs d False env i pid"
  unfolding runs_def by blast

lemma pids_run:
  assumes "claims_ok rt s" and "pid \<in> set (map (claim_pid rt) (sy_ready s @ sy_marked s) @ sy_edited s)"
  shows "\<exists>i env. runs (sy_db s) False env i pid"
proof -
  from assms(2) consider c where "c \<in> set (sy_ready s @ sy_marked s)" "pid = claim_pid rt c" | "pid \<in> set (sy_edited s)"
    by auto
  then show ?thesis
  proof cases
    case 1
    then obtain w where "claim_ok rt (sy_db s) w c" using assms(1) by (auto simp: claims_ok_def)
    from claim_pid_runs [OF this] 1(2) runs_weaken show ?thesis by blast
  next
    case 2
    with assms(1) runs_weaken show ?thesis unfolding claims_ok_def by blast
  qed
qed

lemma distinct_move:
  "x \<in> set xs \<Longrightarrow> distinct (map f (xs @ ys) @ zs) \<Longrightarrow> distinct (map f (remove1 x xs @ x # ys) @ zs)"
proof -
  assume x: "x \<in> set xs" and d: "distinct (map f (xs @ ys) @ zs)"
  from split_list_first [OF x] obtain as bs where "xs = as @ x # bs" "x \<notin> set as" by blast
  with d show ?thesis by (auto simp: remove1_append)
qed

lemma distinct_take:
  assumes "x \<in> set ys" and "distinct (map f (xs @ ys) @ zs)" and "n \<le> 1"
  shows "distinct (map f (xs @ remove1 x ys) @ replicate n (f x) @ zs)"
proof -
  from split_list_first [OF assms(1)] obtain as bs where "ys = as @ x # bs" "x \<notin> set as" by blast
  moreover from assms(3) have "n = 0 \<or> n = 1" by auto
  ultimately show ?thesis using assms(2) by (elim disjE) (auto simp: remove1_append image_iff)
qed

section \<open>Every step keeps the invariant\<close>

lemma system_ok_db:
  assumes "system_ok rt s" and "executions_ok d'" and "log_ok rt d'" and "keeps (sy_db s) d'"
  shows "system_ok rt (s\<lparr>sy_db := d'\<rparr>)"
  using assms claims_ok_keeps [of rt s d'] by (simp add: system_ok_def)

lemma create_step:
  assumes "system_ok rt s"
    and "create_from_stored_simulation rt now sid key expires requested actor (sy_db s) = Inr (v, d')"
  shows "system_ok rt (s\<lparr>sy_db := d'\<rparr>)"
  using create_Inr [OF assms(2)]
proof (elim disjE conjE exE)
  assume "d' = sy_db s"
  with assms(1) show ?thesis by simp
next
  fix r a
  assume log: "log_ok rt (sy_db s) \<longrightarrow> log_ok rt d'" and r: "pr_id r = db_next (sy_db s)" "pr_state r = Pending"
    and d': "d' = (sy_db s)\<lparr>db_next := Suc (Suc (db_next (sy_db s))), db_proposals := db_proposals (sy_db s) @ [r],
      db_audit := db_audit (sy_db s) @ [a]\<rparr>"
  have "executions_ok d'" using create_ok [OF _ r d'] assms(1) by (simp add: system_ok_def)
  moreover have "keeps (sy_db s) d'" by (rule extends_keeps) (simp add: d')
  ultimately show ?thesis using assms(1) log by (intro system_ok_db) (simp_all add: system_ok_def)
qed

lemma decide_step:
  assumes "runtime_ok rt" and "system_ok rt s" and "decide rt sync now command actor (sy_db s) = Inr (v, d')"
  shows "system_ok rt (s\<lparr>sy_db := d'\<rparr>)"
proof -
  have "executions_ok (sy_db s)" "log_ok rt (sy_db s)" using assms(2) by (simp_all add: system_ok_def)
  note d = decide_ok [OF assms(1) this(1) assms(3)] this(2)
  have "keeps (sy_db s) d'" by (rule extends_keeps) (simp add: d(3))
  with d assms(2) show ?thesis by (intro system_ok_db) simp_all
qed

lemma prepare_step:
  assumes "runtime_ok rt" and ok: "system_ok rt s" and "prepare rt env now pid corr (sy_db s) = Inr (Claim c, d')"
  shows "system_ok rt (s\<lparr>sy_db := d', sy_ready := c # sy_ready s\<rparr>)"
proof -
  let ?d = "sy_db s"
  have eok: "executions_ok ?d" and log: "log_ok rt ?d" and cok: "claims_ok rt s"
    using ok by (simp_all add: system_ok_def)
  from prepare_Claim [OF eok assms(3)] obtain p a where p: "p \<in> set (db_proposals ?d)" "rt_parse_uuid rt pid = Some (pr_id p)"
     "pr_environment p = env" "pr_state p = Executing" and fresh: "\<forall>e \<in> set (db_executions ?d). ex_proposal_id e \<noteq> pr_id p"
    and d': "d' = ?d\<lparr>db_next := Suc (Suc (db_next ?d)), db_audit := db_audit ?d @ [a],
       db_executions := db_executions ?d @ [new_execution (db_next ?d) env now (pr_id p) corr]\<rparr>"
    and log': "log_ok rt ?d \<longrightarrow> log_ok rt d'"
    and c: "cl_execution_id c = rt_uuid rt (db_next ?d)" "cl_proposal_id c = pid" "cl_environment c = env"
    by (elim exE conjE) (rule that)
  have eok': "executions_ok d'" using prepare_ok [OF eok p(1,4,3) fresh d'] .
  have keep: "keeps ?d d'" by (rule extends_keeps) (auto simp: d')
  have "runs d' False env (db_next ?d) (pr_id p)" by (simp add: runs_def d' new_execution_def)
  then have new: "claim_ok rt d' False c" unfolding claim_ok_def using c p(2) by blast
  have "pr_id p \<notin> set (map (claim_pid rt) (sy_ready s @ sy_marked s) @ sy_edited s)"
    using pids_run [OF cok] fresh unfolding runs_def by blast
  moreover have "claim_pid rt c = pr_id p" using c p by (simp add: claim_pid_def)
  ultimately have "claims_ok rt (s\<lparr>sy_db := d', sy_ready := c # sy_ready s\<rparr>)"
    using claims_ok_keeps [OF cok keep] new by (simp add: claims_ok_def)
  with eok' log' log show ?thesis by (simp add: system_ok_def)
qed

lemma mark_step:
  assumes "runtime_ok rt" and ok: "system_ok rt s" and c: "c \<in> set (sy_ready s)"
    and run: "mark_write_attempted rt (cl_environment c) c (sy_db s) = Inr (u, d')"
  shows "system_ok rt (s\<lparr>sy_db := d', sy_ready := remove1 c (sy_ready s), sy_marked := c # sy_marked s\<rparr>)"
proof -
  let ?d = "sy_db s"
  have eok: "executions_ok ?d" and log: "log_ok rt ?d" and cok: "claims_ok rt s"
    using ok by (simp_all add: system_ok_def)
  note t = mark_touches [OF run]
  have eok': "executions_ok d'" using touches_ok [OF eok t] .
  have keep: "keeps ?d d'" using touches_keeps [OF t] .
  from mark_Inr [OF run] obtain e where e: "e \<in> set (db_executions ?d)" "rt_parse_uuid rt (cl_execution_id c) = Some (ex_id e)"
    and d': "d' = ?d\<lparr>db_executions := update_where (\<lambda>x. ex_id x = ex_id e)
        (\<lambda>x. x\<lparr>ex_write_attempted := True, ex_result := JObj [(''write_attempted'', JBool True)]\<rparr>) (db_executions ?d)\<rparr>"
    by (elim exE conjE) (rule that)
  have "log_ok rt d'" using log log_ok_cong [of d' ?d] by (simp add: d')
  moreover have "claim_ok rt d' True c"
  proof -
    from cok c have "claim_ok rt ?d False c" by (simp add: claims_ok_def)
    then obtain i pid x where i: "cl_execution_id c = rt_uuid rt i" "rt_parse_uuid rt (cl_proposal_id c) = Some pid"
      and x: "x \<in> set (db_executions ?d)" "ex_environment x = cl_environment c" "ex_id x = i" "ex_proposal_id x = pid"
      unfolding claim_ok_def runs_def by blast
    from i e(2) assms(1) have "ex_id e = i" by (simp add: runtime_ok_def)
    with x have "x\<lparr>ex_write_attempted := True, ex_result := JObj [(''write_attempted'', JBool True)]\<rparr> \<in> set (db_executions d')"
      by (auto simp: d' set_update_where)
    then have "runs d' True (cl_environment c) i pid" unfolding runs_def
      by (rule bexI [rotated]) (simp add: x)
    with i show ?thesis unfolding claim_ok_def by blast
  qed
  moreover have "distinct (map (claim_pid rt) (remove1 c (sy_ready s) @ c # sy_marked s) @ sy_edited s)"
    using cok distinct_move [OF c] unfolding claims_ok_def by blast
  moreover note claims_ok_keeps [OF cok keep]
  ultimately show ?thesis using eok' set_remove1_subset [of c "sy_ready s"]
    by (auto simp: system_ok_def claims_ok_def)
qed

lemma mutate_step:
  assumes ok: "system_ok rt s" and c: "c \<in> set (sy_marked s)"
    and run: "mutation_execute client (traced call) (command_of c) (sy_world s, []) = (result, (w', trace))"
    and don: "dn = sy_done s \<or> (\<exists>r. dn = (c, r) # sy_done s)"
  shows "system_ok rt (s\<lparr>sy_world := w', sy_marked := remove1 c (sy_marked s), sy_done := dn,
          sy_edited := replicate (length (edits trace)) (claim_pid rt c) @ sy_edited s\<rparr>)"
proof -
  from ok have cok: "claims_ok rt s" by (simp add: system_ok_def)
  with c have cl: "claim_ok rt (sy_db s) True c" by (simp add: claims_ok_def)
  have dist: "distinct (map (claim_pid rt) (sy_ready s @ remove1 c (sy_marked s)) @
      replicate (length (edits trace)) (claim_pid rt c) @ sy_edited s)"
    using cok distinct_take [OF c] mutation_edits_le_one [OF run] unfolding claims_ok_def by blast
  have edited: "\<exists>env i. runs (sy_db s) True env i (claim_pid rt c)"
    using claim_pid_runs [OF cl] by blast
  have "\<forall>(c, r) \<in> set dn. claim_ok rt (sy_db s) True c"
    using don cok cl by (auto simp: claims_ok_def)
  with cok dist edited set_remove1_subset [of c "sy_marked s"]
  have "claims_ok rt (s\<lparr>sy_world := w', sy_marked := remove1 c (sy_marked s), sy_done := dn,
          sy_edited := replicate (length (edits trace)) (claim_pid rt c) @ sy_edited s\<rparr>)"
    unfolding claims_ok_def by (auto simp: in_set_replicate)
  with ok show ?thesis by (simp add: system_ok_def)
qed

lemma settled_step:
  assumes ok: "system_ok rt s" and "settles rt (ex_id e) (pr_id p) state (sy_db s) d'"
    and "e \<in> set (db_executions (sy_db s))" and "p \<in> set (db_proposals (sy_db s))"
    and "ex_proposal_id e = pr_id p" and "state \<in> {ExecutedVerified, ExecutionFailed, Uncertain, Stale}"
  shows "system_ok rt (s\<lparr>sy_db := d'\<rparr>)"
proof -
  have "executions_ok d'" using settles_ok [OF _ assms(2-6)] ok by (simp add: system_ok_def)
  moreover have "log_ok rt d'" using ok assms(2) unfolding system_ok_def settles_def by blast
  ultimately show ?thesis using ok settles_keeps [OF assms(2)] by (intro system_ok_db)
qed

text \<open>The rows a claim names are those of one execution.\<close>

lemma claim_targets_same:
  assumes "runtime_ok rt" and "executions_ok d" and "runs d w env i pid"
    and "claim_targets rt xid pidt d e p" and "xid = rt_uuid rt i" and "rt_parse_uuid rt pidt = Some pid"
  shows "ex_id e = i \<and> ex_proposal_id e = pr_id p \<and> ex_environment e = env \<and> (w \<longrightarrow> ex_write_attempted e)"
proof -
  from assms(3) obtain x where x: "x \<in> set (db_executions d)" "ex_environment x = env" "ex_id x = i"
    "ex_proposal_id x = pid" "w \<longrightarrow> ex_write_attempted x" unfolding runs_def by blast
  from assms(1,4-6) have e: "e \<in> set (db_executions d)" "ex_id e = i" "pr_id p = pid"
    by (auto simp: claim_targets_def runtime_ok_def)
  with execution_of_id(1) [OF assms(2) x(1) e(1)] x(3) have "x = e" by simp
  with x e show ?thesis by simp
qed

lemma finalize_step:
  assumes rt: "runtime_ok rt" and ok: "system_ok rt s" and c: "(c, r) \<in> set (sy_done s)"
    and run: "finalize rt (cl_environment c) now c (result_of c r) (sy_db s) = Inr (res, d')"
  shows "system_ok rt (s\<lparr>sy_db := d', sy_done := remove1 (c, r) (sy_done s)\<rparr>)"
proof -
  from ok have eok: "executions_ok (sy_db s)" and cok: "claims_ok rt s" by (simp_all add: system_ok_def)
  from c cok have "claim_ok rt (sy_db s) True c" unfolding claims_ok_def by blast
  then obtain i pid where i: "cl_execution_id c = rt_uuid rt i" "rt_parse_uuid rt (cl_proposal_id c) = Some pid"
    "runs (sy_db s) True (cl_environment c) i pid" unfolding claim_ok_def by blast
  from finalize_Inr [OF run] obtain e p where t: "claim_targets rt (cl_execution_id c) (cl_proposal_id c) (sy_db s) e p"
    and d: "d' = sy_db s \<or> settles rt (ex_id e) (pr_id p) (er_state (result_of c r)) (sy_db s) d'"
    by blast
  from claim_targets_same [OF rt eok i(3) t i(1,2)] have same: "ex_proposal_id e = pr_id p" by blast
  have state: "er_state (result_of c r) \<in> {ExecutedVerified, ExecutionFailed, Uncertain, Stale}"
    by (cases "re_outcome r") (simp_all add: result_of_def)
  have "system_ok rt (s\<lparr>sy_db := d'\<rparr>)"
    using d
  proof
    assume "settles rt (ex_id e) (pr_id p) (er_state (result_of c r)) (sy_db s) d'"
    with settled_step [OF ok this] t same state show ?thesis by (simp add: claim_targets_def)
  qed (use ok in simp)
  then show ?thesis using set_remove1_subset [of "(c, r)" "sy_done s"]
    by (auto simp: system_ok_def claims_ok_def)
qed

lemma lease_step:
  assumes ok: "system_ok rt s" and "d' = (sy_db s)\<lparr>db_executions := lease_rows worker now ids (db_executions (sy_db s))\<rparr>"
    and "\<forall>c \<in> set cs. \<exists>e p. (e, p) \<in> set (joined (sy_db s)) \<and> c = claim_for rt e p"
  shows "system_ok rt (s\<lparr>sy_db := d', sy_leased := cs @ sy_leased s\<rparr>)"
proof -
  have t: "touches (sy_db s) d'" using lease_rows_touches assms(2) by simp
  note keep = touches_keeps [OF t]
  have "lease_ok rt (sy_db s) c" if "c \<in> set cs" for c
  proof -
    from that assms(3) obtain e p where e: "e \<in> set (db_executions (sy_db s))" "pr_id p = ex_proposal_id e"
      "c = claim_for rt e p" unfolding joined_def by auto
    then have r: "runs (sy_db s) (ex_write_attempted e) (ex_environment e) (ex_id e) (pr_id p)"
      unfolding runs_def by (intro bexI [of _ e]) simp_all
    have "rc_execution_id c = rt_uuid rt (ex_id e)" "rc_proposal_id c = rt_uuid rt (pr_id p)"
      "rc_write_attempted c = ex_write_attempted e"
      by (simp_all add: e(3) claim_for_def)
    with r show ?thesis unfolding lease_ok_def by (intro exI conjI) simp_all
  qed
  then have cs: "\<forall>c \<in> set cs. lease_ok rt d' c" using lease_ok_keeps [OF keep] by blast
  have "executions_ok d'" "log_ok rt d'"
    using touches_ok [OF _ t] log_ok_cong [of d' "sy_db s"] ok by (simp_all add: system_ok_def assms(2))
  then have "system_ok rt (s\<lparr>sy_db := d'\<rparr>)" using ok keep by (intro system_ok_db)
  with cs show ?thesis unfolding system_ok_def claims_ok_def by (simp add: ball_Un)
qed

lemma lease_abandoned_run:
  assumes "lease_abandoned rt env abandoned_after lease_duration now worker limit d = (cs, d')"
  shows "\<exists>ids. d' = d\<lparr>db_executions := lease_rows worker now ids (db_executions d)\<rparr>"
    and "\<forall>c \<in> set cs. \<exists>e p. (e, p) \<in> set (joined d) \<and> c = claim_for rt e p"
proof -
  define rows where "rows = take limit (sort_key (\<lambda>(e, p). ex_created_at e) (filter (\<lambda>(e, p).
            ex_environment e = env \<and> (ex_state e = Executing \<or> ex_state e = Uncertain) \<and>
            ex_created_at e \<le> now - abandoned_after \<and>
            (case ex_leased_at e of None \<Rightarrow> True | Some t \<Rightarrow> t < now - lease_duration)) (joined d)))"
  have sub: "set rows \<subseteq> set (joined d)" unfolding rows_def by (auto dest: in_set_takeD)
  have run: "cs = map (\<lambda>(e, p). claim_for rt e p) rows"
    "d' = d\<lparr>db_executions := lease_rows worker now (set (map (\<lambda>(e, p). ex_id e) rows)) (db_executions d)\<rparr>"
    using assms unfolding lease_abandoned_def Let_def rows_def by simp_all
  from run(2) show "\<exists>ids. d' = d\<lparr>db_executions := lease_rows worker now ids (db_executions d)\<rparr>" by (rule exI)
  show "\<forall>c \<in> set cs. \<exists>e p. (e, p) \<in> set (joined d) \<and> c = claim_for rt e p"
    using sub unfolding run(1) by auto
qed

lemma lease_proposal_run:
  assumes "lease_proposal rt env now pid worker d = Inr (Some c, d')"
  shows "\<exists>ids. d' = d\<lparr>db_executions := lease_rows worker now ids (db_executions d)\<rparr>"
    and "\<exists>e p. (e, p) \<in> set (joined d) \<and> c = claim_for rt e p"
proof -
  from assms obtain i where run: "(case filter (\<lambda>(e, p). ex_environment e = env \<and> ex_proposal_id e = i \<and> ex_state e = Uncertain)
             (joined d) of [] \<Rightarrow> Inr (None, d)
      | [(e, p)] \<Rightarrow> Inr (Some (claim_for rt e p), d\<lparr>db_executions := lease_rows worker now {ex_id e} (db_executions d)\<rparr>)
      | _ \<Rightarrow> Inl (OtherException ''MultipleResultsFound'')) = (Inr (Some c, d') :: reconciliation_claim option tx)"
    unfolding lease_proposal_def bindr_Inr_iff by blast
  obtain xs where xs: "filter (\<lambda>(e, p). ex_environment e = env \<and> ex_proposal_id e = i \<and> ex_state e = Uncertain) (joined d) = xs"
    by blast
  have "\<exists>e p. xs = [(e, p)] \<and> c = claim_for rt e p \<and> d' = d\<lparr>db_executions := lease_rows worker now {ex_id e} (db_executions d)\<rparr>"
  proof (cases xs)
    case Nil
    with run xs show ?thesis by simp
  next
    case (Cons y ys)
    with run xs show ?thesis by (cases y; cases ys) simp_all
  qed
  with xs obtain e p where f: "filter (\<lambda>(e, p). ex_environment e = env \<and> ex_proposal_id e = i \<and> ex_state e = Uncertain)
             (joined d) = [(e, p)]"
    and c: "c = claim_for rt e p" "d' = d\<lparr>db_executions := lease_rows worker now {ex_id e} (db_executions d)\<rparr>"
    by blast
  then show "\<exists>ids. d' = d\<lparr>db_executions := lease_rows worker now ids (db_executions d)\<rparr>" by blast
  have "(e, p) \<in> set (filter (\<lambda>(e, p). ex_environment e = env \<and> ex_proposal_id e = i \<and> ex_state e = Uncertain) (joined d))"
    unfolding f by simp
  then have "(e, p) \<in> set (joined d)" by simp
  with c show "\<exists>e p. (e, p) \<in> set (joined d) \<and> c = claim_for rt e p" by blast
qed

lemma resolve_step:
  assumes rt: "runtime_ok rt" and ok: "system_ok rt s" and c: "rc \<in> set (sy_leased s)"
    and v: "reconcile_verdict rc reading = (state, observed, code)"
    and run: "resolve rt env now rc state evidence (sy_db s) = Inr (u, d')"
  shows "system_ok rt (s\<lparr>sy_db := d'\<rparr>)"
proof -
  from ok have eok: "executions_ok (sy_db s)" and cok: "claims_ok rt s" by (simp_all add: system_ok_def)
  from c cok have "lease_ok rt (sy_db s) rc" unfolding claims_ok_def by blast
  then obtain i pid env' where i: "rc_execution_id rc = rt_uuid rt i" "rc_proposal_id rc = rt_uuid rt pid"
    "runs (sy_db s) (rc_write_attempted rc) env' i pid" unfolding lease_ok_def by blast
  from resolve_Inr [OF run] obtain e p where t: "claim_targets rt (rc_execution_id rc) (rc_proposal_id rc) (sy_db s) e p"
    and d: "d' = sy_db s \<or> settles rt (ex_id e) (pr_id p) state (sy_db s) d'"
    by blast
  have "rt_parse_uuid rt (rc_proposal_id rc) = Some pid" using i(2) rt by (simp add: runtime_ok_def)
  from claim_targets_same [OF rt eok i(3) t i(1) this] have same: "ex_proposal_id e = pr_id p" by blast
  have state: "state \<in> {ExecutedVerified, ExecutionFailed, Uncertain, Stale}"
    using v by (auto simp: reconcile_verdict_def Let_def split: if_splits)
  show ?thesis
    using d
  proof
    assume "settles rt (ex_id e) (pr_id p) state (sy_db s) d'"
    with settled_step [OF ok this] t same state show ?thesis by (simp add: claim_targets_def)
  qed (use ok in simp)
qed

lemma system_step_ok:
  assumes "system_step rt client call s t" and "runtime_ok rt" and "system_ok rt s"
  shows "system_ok rt t"
  using assms
proof (cases rule: system_step.cases)
  case created
  then show ?thesis using create_step assms by blast
next
  case decided
  then show ?thesis using decide_step assms by blast
next
  case prepared
  then show ?thesis using prepare_step assms by blast
next
  case marked
  then show ?thesis using mark_step assms by blast
next
  case (mutated c r w' trace)
  then show ?thesis using mutate_step [OF assms(3)] by auto
next
  case (mutation_raised c e w' trace)
  have "system_ok rt (s\<lparr>sy_world := w', sy_marked := remove1 c (sy_marked s), sy_done := sy_done s,
          sy_edited := replicate (length (edits trace)) (claim_pid rt c) @ sy_edited s\<rparr>)"
    using mutate_step [OF assms(3)] mutation_raised by blast
  then show ?thesis using mutation_raised by simp
next
  case finalized
  then show ?thesis using finalize_step assms by blast
next
  case leased
  then show ?thesis using lease_step [OF assms(3)] lease_abandoned_run by metis
next
  case (leased_one env now pid worker rc d')
  from lease_proposal_run [OF leased_one(2)] lease_step [OF assms(3), of d' worker now _ "[rc]"]
  show ?thesis using leased_one(1) by auto
next
  case resolved
  then show ?thesis using resolve_step assms by blast
next
  case world_changed
  then show ?thesis using assms(3) by (simp add: system_ok_def claims_ok_def)
qed

lemma reachable_ok:
  assumes "system_reachable rt client call s" and "runtime_ok rt"
  shows "system_ok rt s"
  using assms(1)
proof (induction rule: system_reachable.induct)
  case (initial d w)
  then show ?case by (simp add: system_ok_def claims_ok_def executions_ok_def proposals_ok_def)
next
  case (step s t)
  then show ?case using system_step_ok assms(2) by blast
qed

section \<open>Settling always succeeds\<close>

lemma find_execution_run:
  assumes "executions_ok d" and "runs d w env i pid"
  shows "\<exists>e. find_execution env i d = Some e \<and> e \<in> set (db_executions d) \<and> ex_id e = i \<and> ex_proposal_id e = pid \<and>
    (w \<longrightarrow> ex_write_attempted e)"
proof -
  from assms(2) obtain e where e: "e \<in> set (db_executions d)" "ex_environment e = env" "ex_id e = i"
    "ex_proposal_id e = pid" "w \<longrightarrow> ex_write_attempted e" unfolding runs_def by blast
  have "find_execution env i d = Some e" unfolding find_execution_def
    using assms(1) e by (intro select_one_unique [where key = ex_id]) (auto simp: executions_ok_def)
  with e show ?thesis by blast
qed

lemma find_run_proposal:
  assumes "executions_ok d" and "e \<in> set (db_executions d)"
  shows "\<exists>p. find_proposal (ex_proposal_id e) d = Some p \<and> p \<in> set (db_proposals d) \<and>
    pr_id p = ex_proposal_id e \<and> pr_state p = ex_state e"
proof -
  from assms obtain p where p: "p \<in> set (db_proposals d)" "pr_id p = ex_proposal_id e" "pr_state p = ex_state e"
    by (auto simp: executions_ok_def execution_ok_def)
  have "find_proposal (ex_proposal_id e) d = Some p" unfolding find_proposal_def
    using assms(1) p by (intro select_one_unique [where key = pr_id]) (auto simp: executions_ok_def proposals_ok_def)
  with p show ?thesis by blast
qed

lemma settle_total:
  assumes "runtime_ok rt" and "log_ok rt d" and "\<And>d. \<exists>o' d'. notify d = Inr (o', d')"
  shows "(\<exists>d'. settle rt env now eid pid state f audit notify d = Inr ((), d')) \<or>
    settle rt env now eid pid state f audit notify d = Inl (IntegrityError ''uq_audit_env_hash'')"
proof -
  let ?d = "d\<lparr>db_executions := update_where (\<lambda>x. ex_id x = eid) f (db_executions d),
           db_proposals := update_where (\<lambda>x. pr_id x = pid) (\<lambda>x. set_state state (pr_version x + 1) x) (db_proposals d)\<rparr>"
  have log: "log_ok rt ?d" using log_ok_cong [of ?d d] assms(2) by simp
  show ?thesis
  proof (cases "audit_append rt now env audit ?d")
    case (Inl err)
    with audit_append_refused(1) [OF assms(1) log Inl] show ?thesis by (simp add: settle_def)
  next
    case (Inr x)
    obtain a d1 where "x = (a, d1)" by (cases x)
    moreover obtain o' d2 where "notify d1 = Inr (o', d2)" using assms(3) by blast
    ultimately show ?thesis using Inr by (simp add: settle_def)
  qed
qed

lemma settle_execution_total:
  assumes "runtime_ok rt" and "log_ok rt d"
  shows "(\<exists>d'. settle_execution rt env now c result e pid d = Inr ((), d')) \<or>
    settle_execution rt env now c result e pid d = Inl (IntegrityError ''uq_audit_env_hash'')"
  unfolding settle_execution_def Let_def
  by (rule settle_total [OF assms]) (simp add: uncertain_event_def outbox_append_total)

lemma settle_reconciled_total:
  assumes "runtime_ok rt" and "log_ok rt d"
  shows "(\<exists>d'. settle_reconciled rt env now c state evidence e pid d = Inr ((), d')) \<or>
    settle_reconciled rt env now c state evidence e pid d = Inl (IntegrityError ''uq_audit_env_hash'')"
  unfolding settle_reconciled_def
  by (rule settle_total [OF assms]) (simp add: uncertain_event_def outbox_append_total)

lemma settled_execution:
  assumes "executions_ok d" and "settles rt (ex_id e) pid state d d'" and "e \<in> set (db_executions d)"
  shows "\<exists>e' \<in> set (db_executions d'). ex_id e' = ex_id e \<and> ex_state e' = state \<and>
     ex_write_attempted e' = ex_write_attempted e"
proof -
  from assms(2) obtain f n lg ob where d': "d' = d\<lparr>db_next := n, db_audit := lg, db_outbox := ob,
        db_executions := update_where (\<lambda>x. ex_id x = ex_id e) f (db_executions d),
        db_proposals := update_where (\<lambda>x. pr_id x = pid) (\<lambda>x. set_state state (pr_version x + 1) x) (db_proposals d)\<rparr>"
    and f: "\<forall>x. ex_id (f x) = ex_id x \<and> ex_proposal_id (f x) = ex_proposal_id x \<and>
        ex_environment (f x) = ex_environment x \<and> ex_write_attempted (f x) = ex_write_attempted x \<and> ex_state (f x) = state"
    unfolding settles_def by blast
  have "f e \<in> set (db_executions d')" using assms(3) by (auto simp: d' set_update_where)
  with f show ?thesis by blast
qed

lemma finalize_total:
  assumes rt: "runtime_ok rt" and ok: "executions_ok d" "log_ok rt d" and c: "claim_ok rt d True c"
  shows "finalize rt (cl_environment c) now c (result_of c r) d = Inl (IntegrityError ''uq_audit_env_hash'') \<or>
    (\<exists>res d' e. finalize rt (cl_environment c) now c (result_of c r) d = Inr (res, d') \<and>
       e \<in> set (db_executions d') \<and> cl_execution_id c = rt_uuid rt (ex_id e) \<and> ex_state e \<noteq> Executing \<and>
       er_state res = ex_state e)"
proof -
  from c obtain i pid where i: "cl_execution_id c = rt_uuid rt i" "rt_parse_uuid rt (cl_proposal_id c) = Some pid"
    "runs d True (cl_environment c) i pid" unfolding claim_ok_def by blast
  from find_execution_run [OF ok(1) i(3)] obtain e where e: "find_execution (cl_environment c) i d = Some e"
    "e \<in> set (db_executions d)" "ex_id e = i" "ex_proposal_id e = pid" by blast
  from find_run_proposal [OF ok(1) e(2)] e(4) obtain p where p: "find_proposal pid d = Some p" "pr_state p = ex_state e"
    by blast
  have run: "finalize rt (cl_environment c) now c (result_of c r) d =
      (if ex_state e \<noteq> Executing then Inr (stored_result rt e, d)
       else bindr (validate_transition (pr_state p) (er_state (result_of c r))) (\<lambda>_.
            bindr (settle_execution rt (cl_environment c) now c (result_of c r) e pid d) (\<lambda>(_, d').
            Inr (result_of c r, d'))))"
    using i(1,2) e(1) p(1) rt by (simp add: finalize_def parse_uuid_def runtime_ok_def)
  show ?thesis
  proof (cases "ex_state e = Executing")
    case True
    have v: "validate_transition (pr_state p) (er_state (result_of c r)) = Inr ()"
      using True p(2) by (cases "re_outcome r") (simp_all add: result_of_def validate_transition_Inr_iff)
    have out: "er_state (result_of c r) \<noteq> Executing" by (cases "re_outcome r") (simp_all add: result_of_def)
    from settle_execution_total [OF rt ok(2)] show ?thesis
    proof
      assume "\<exists>d'. settle_execution rt (cl_environment c) now c (result_of c r) e pid d = Inr ((), d')"
      then obtain d' where d': "settle_execution rt (cl_environment c) now c (result_of c r) e pid d = Inr ((), d')" by blast
      from settled_execution [OF ok(1) settle_execution_settles [OF d'] e(2)] obtain e' where
        "e' \<in> set (db_executions d')" "ex_id e' = i" "ex_state e' = er_state (result_of c r)" using e(3) by blast
      with run v d' True out i(1) show ?thesis by (intro disjI2 exI [of _ "result_of c r"] exI [of _ d'] exI [of _ e']) simp
    next
      assume "settle_execution rt (cl_environment c) now c (result_of c r) e pid d = Inl (IntegrityError ''uq_audit_env_hash'')"
      with run v True show ?thesis by simp
    qed
  next
    case False
    with run e i(1) show ?thesis by (intro disjI2 exI [of _ "stored_result rt e"] exI [of _ d] exI [of _ e]) (simp add: stored_result_def)
  qed
qed

lemma verdict_sound:
  assumes "reconcile_verdict rc reading = (state, observed, code)"
  shows "state \<in> {ExecutedVerified, ExecutionFailed, Uncertain} \<and>
    (state = ExecutedVerified \<longrightarrow> reading = Inr (Some (rc_proposed_assignee_id rc))) \<and>
    (state = ExecutionFailed \<longrightarrow> reading = Inr (Some (rc_expected_assignee_id rc)) \<and> \<not> rc_write_attempted rc)"
  using assms by (cases reading) (auto simp: reconcile_verdict_def Let_def split: if_splits)

lemma resolve_total:
  assumes rt: "runtime_ok rt" and ok: "executions_ok d" "log_ok rt d" and c: "lease_ok rt d rc"
    and v: "reconcile_verdict rc reading = (state, observed, code)"
  shows "\<exists>e \<in> set (db_executions d). rc_execution_id rc = rt_uuid rt (ex_id e) \<and>
    (case resolve rt (ex_environment e) now rc state evidence d of
       Inl err \<Rightarrow> err = IntegrityError ''uq_audit_env_hash''
     | Inr (_, d') \<Rightarrow> \<exists>e' \<in> set (db_executions d'). ex_id e' = ex_id e \<and>
         ex_state e' = (if ex_state e \<in> {Executing, Uncertain} then state else ex_state e))"
proof -
  from c obtain i pid env where i: "rc_execution_id rc = rt_uuid rt i" "rc_proposal_id rc = rt_uuid rt pid"
    "runs d (rc_write_attempted rc) env i pid" unfolding lease_ok_def by blast
  from find_execution_run [OF ok(1) i(3)] obtain e where e: "find_execution env i d = Some e"
    "e \<in> set (db_executions d)" "ex_id e = i" "ex_proposal_id e = pid" by blast
  from find_run_proposal [OF ok(1) e(2)] e(4) obtain p where p: "find_proposal pid d = Some p" "pr_state p = ex_state e"
    by blast
  have env: "ex_environment e = env" using find_execution_SomeD [OF e(1)] by blast
  have run: "resolve rt (ex_environment e) now rc state evidence d = (if ex_state e = state then Inr ((), d)
           else if ex_state e \<notin> {Executing, Uncertain} then Inr ((), d)
           else bindr (validate_transition (pr_state p) state) (\<lambda>_.
                settle_reconciled rt (ex_environment e) now rc state evidence e pid d))"
    using i(1,2) e(1) p(1) rt env by (simp add: resolve_def parse_uuid_def runtime_ok_def)
  show ?thesis
  proof (cases "ex_state e \<in> {Executing, Uncertain} \<and> ex_state e \<noteq> state")
    case True
    then have "validate_transition (pr_state p) state = Inr ()"
      using verdict_sound [OF v] p(2) by (auto simp: validate_transition_Inr_iff)
    then have run': "resolve rt (ex_environment e) now rc state evidence d =
        settle_reconciled rt (ex_environment e) now rc state evidence e pid d"
      unfolding run using True by (auto simp del: insert_iff)
    from settle_reconciled_total [OF rt ok(2)] show ?thesis
    proof
      assume "\<exists>d'. settle_reconciled rt (ex_environment e) now rc state evidence e pid d = Inr ((), d')"
      then obtain d' where d': "settle_reconciled rt (ex_environment e) now rc state evidence e pid d = Inr ((), d')" by blast
      from settled_execution [OF ok(1) settle_reconciled_settles [OF d'] e(2)] obtain e' where
        "e' \<in> set (db_executions d')" "ex_id e' = ex_id e" "ex_state e' = state" by blast
      with run' d' True i(1) e(2,3) show ?thesis by (intro bexI [of _ e]) auto
    next
      assume "settle_reconciled rt (ex_environment e) now rc state evidence e pid d = Inl (IntegrityError ''uq_audit_env_hash'')"
      with run' i(1) e(2,3) show ?thesis by (intro bexI [of _ e]) simp_all
    qed
  next
    case False
    then have "ex_state e = state \<or> ex_state e \<notin> {Executing, Uncertain}" by blast
    then have "resolve rt (ex_environment e) now rc state evidence d = Inr ((), d)"
      unfolding run by (elim disjE) (simp_all only: if_True if_False if_cancel not_False_eq_True refl)
    with False i(1) e(2,3) show ?thesis by (intro bexI [of _ e]) auto
  qed
qed

section \<open>Properties\<close>

text \<open>
  C1: At most one edit call is ever made for a proposal, and only for an approved one with its
  write attempt on record.  In every state reachable from a database without executions, by
  any interleaving of creations, decisions, executions, crashes and reconciliations and
  whatever Jira does, no proposal occurs twice among the edit calls made.
\<close>

theorem edited_once_when_approved:
  assumes "runtime_ok rt" and "system_reachable rt client call s"
  shows "distinct (sy_edited s) \<and> (\<forall>pid \<in> set (sy_edited s). approved (sy_db s) pid \<and>
     (\<exists>e \<in> set (db_executions (sy_db s)). ex_proposal_id e = pid \<and> ex_write_attempted e))"
proof -
  from reachable_ok [OF assms(2,1)] have eok: "executions_ok (sy_db s)" and cok: "claims_ok rt s"
    by (simp_all add: system_ok_def)
  from cok have d: "distinct (sy_edited s)" by (simp add: claims_ok_def)
  have "approved (sy_db s) pid \<and> (\<exists>e \<in> set (db_executions (sy_db s)). ex_proposal_id e = pid \<and> ex_write_attempted e)"
    if "pid \<in> set (sy_edited s)" for pid
  proof -
    from that cok obtain env i where "runs (sy_db s) True env i pid" unfolding claims_ok_def by blast
    then obtain e where e: "e \<in> set (db_executions (sy_db s))" "ex_proposal_id e = pid" "ex_write_attempted e"
      unfolding runs_def by blast
    with eok show ?thesis by (auto simp: executions_ok_def execution_ok_def)
  qed
  with d show ?thesis by blast
qed

text \<open>
  C2: Executions and proposals agree.  In every reachable state each execution belongs to an
  approved proposal of its environment and has that proposal's state, no two executions share
  a proposal, and the audit chain of every environment verifies.
\<close>

theorem execution_follows_proposal:
  assumes "runtime_ok rt" and "system_reachable rt client call s"
  shows "(\<forall>e \<in> set (db_executions (sy_db s)). approved (sy_db s) (ex_proposal_id e) \<and>
      (\<exists>p \<in> set (db_proposals (sy_db s)). pr_id p = ex_proposal_id e \<and> pr_environment p = ex_environment e \<and>
         pr_state p = ex_state e)) \<and>
    distinct (map ex_proposal_id (db_executions (sy_db s))) \<and> (\<forall>env. verify_chain rt env (sy_db s))"
  using reachable_ok [OF assms(2,1)]
  by (simp add: system_ok_def executions_ok_def execution_ok_def log_ok_def)

text \<open>
  C3: Finalizing is total.  In every reachable state, finalizing a mutation that has returned a
  receipt succeeds, leaves the execution out of \<open>Executing\<close> and returns its state; the only
  failure is a collision of audit hashes, and never an illegal transition or a missing row.
\<close>

theorem finalize_always_settles:
  assumes "runtime_ok rt" and "system_reachable rt client call s" and "(c, r) \<in> set (sy_done s)"
  shows "finalize rt (cl_environment c) now c (result_of c r) (sy_db s) = Inl (IntegrityError ''uq_audit_env_hash'') \<or>
    (\<exists>res d' e. finalize rt (cl_environment c) now c (result_of c r) (sy_db s) = Inr (res, d') \<and>
       e \<in> set (db_executions d') \<and> cl_execution_id c = rt_uuid rt (ex_id e) \<and> ex_state e \<noteq> Executing \<and>
       er_state res = ex_state e)"
proof -
  from reachable_ok [OF assms(2,1)] have ok: "executions_ok (sy_db s)" "log_ok rt (sy_db s)" "claims_ok rt s"
    by (simp_all add: system_ok_def)
  have "claim_ok rt (sy_db s) True c" using ok(3) assms(3) unfolding claims_ok_def by blast
  from finalize_total [OF assms(1) ok(1,2) this] show ?thesis .
qed

text \<open>
  C4: Reconciliation is total and its verdict sound.  For a leased execution, whatever the read
  of Jira returns or raises, resolving succeeds or meets a collision of audit hashes; an execution
  whose outcome was open gets the verdict's state and a settled one keeps its own.  The
  verdict is verified only for a read of the proposed assignee, and failed only for a read
  of the expected one when the lease saw no write attempt.
\<close>

theorem reconciliation_settles:
  assumes "runtime_ok rt" and "system_reachable rt client call s" and "rc \<in> set (sy_leased s)"
    and "reconcile_verdict rc reading = (state, observed, code)"
  shows "(\<exists>e \<in> set (db_executions (sy_db s)). rc_execution_id rc = rt_uuid rt (ex_id e) \<and>
    (case resolve rt (ex_environment e) now rc state evidence (sy_db s) of
       Inl err \<Rightarrow> err = IntegrityError ''uq_audit_env_hash''
     | Inr (_, d') \<Rightarrow> \<exists>e' \<in> set (db_executions d'). ex_id e' = ex_id e \<and>
         ex_state e' = (if ex_state e \<in> {Executing, Uncertain} then state else ex_state e))) \<and>
    (state = ExecutedVerified \<longrightarrow> reading = Inr (Some (rc_proposed_assignee_id rc))) \<and>
    (state = ExecutionFailed \<longrightarrow> reading = Inr (Some (rc_expected_assignee_id rc)) \<and> \<not> rc_write_attempted rc)"
proof -
  from reachable_ok [OF assms(2,1)] have ok: "executions_ok (sy_db s)" "log_ok rt (sy_db s)" "claims_ok rt s"
    by (simp_all add: system_ok_def)
  have "lease_ok rt (sy_db s) rc" using ok(3) assms(3) unfolding claims_ok_def by blast
  from resolve_total [OF assms(1) ok(1,2) this assms(4)] verdict_sound [OF assms(4)] show ?thesis by blast
qed

section \<open>A concrete run\<close>

text \<open>
  One approved proposal is prepared, leased by a reconciler, marked and edited; the reconciler
  then resolves with what it had read before the edit.
\<close>

definition run_proposal_row :: proposal_row where
  "run_proposal_row = sample_proposal\<lparr>pr_state := Executing\<rparr>"

definition run_db :: db where
  "run_db = empty_db\<lparr>db_next := 2, db_proposals := [run_proposal_row],
     db_decisions := [\<lparr>ad_id = 1, ad_environment = Dev, ad_created_at = 0, ad_proposal_id = 0, ad_actor_id = ''m'',
       ad_decision = Approve, ad_correlation_id = ''c'', ad_idempotency_key = ''approve-1''\<rparr>]\<rparr>"

definition run_claim :: execution_claim where
  "run_claim = \<lparr>cl_execution_id = rt_uuid sample_runtime 2, cl_proposal_id = rt_uuid sample_runtime 0,
     cl_environment = Dev, cl_project_key = ''WRD'', cl_issue_key = ''WRD-1'', cl_expected_assignee_id = ''old'',
     cl_proposed_assignee_id = ''new'', cl_idempotency_key = ''execute-'' @ rt_uuid sample_runtime 0,
     cl_correlation_id = ''c''\<rparr>"

definition run_lease :: reconciliation_claim where
  "run_lease = \<lparr>rc_execution_id = rt_uuid sample_runtime 2, rc_proposal_id = rt_uuid sample_runtime 0,
     rc_issue_key = ''WRD-1'', rc_expected_assignee_id = ''old'', rc_proposed_assignee_id = ''new'',
     rc_correlation_id = ''c'', rc_write_attempted = False\<rparr>"

definition run_start :: "string system" where
  "run_start = \<lparr>sy_db = run_db, sy_world = ''old'', sy_ready = [], sy_marked = [],
       sy_done = [], sy_leased = [], sy_edited = []\<rparr>"

abbreviation run_reachable :: "string system \<Rightarrow> bool" where
  "run_reachable \<equiv> system_reachable sample_runtime sample_client sample_call"

lemma run_start_reachable: "run_reachable run_start"
  unfolding run_start_def
  by (rule system_reachable.initial) (simp_all add: run_db_def proposals_ok_def run_proposal_row_def sample_proposal_def
      approved_def log_ok_def verify_chain_def env_events_def empty_db_def)

lemma parse_sample [simp]: "rt_parse_uuid sample_runtime (rt_uuid sample_runtime i) = Some i"
  using sample_runtime_ok by (simp add: runtime_ok_def)

lemma run_prepare:
  "\<exists>a. prepare sample_runtime Dev 0 (rt_uuid sample_runtime 0) ''c'' run_db = Inr (Claim run_claim,
     run_db\<lparr>db_next := 4, db_audit := [a], db_executions := [new_execution 2 Dev 0 0 ''c'']\<rparr>)"
  by (simp add: prepare_def parse_uuid_def find_execution_of_def find_env_proposal_def run_db_def run_proposal_row_def
      sample_proposal_def empty_db_def select_one_def new_id_def Let_def insert_row_def insert_row2_def audit_append_def
      run_claim_def new_execution_def)

definition run_execution :: execution_row where
  "run_execution = (new_execution 2 Dev 0 0 ''c'')\<lparr>ex_lease_owner := Some ''w'', ex_leased_at := Some 1\<rparr>"

definition run_marked :: execution_row where
  "run_marked = run_execution\<lparr>ex_write_attempted := True, ex_result := JObj [(''write_attempted'', JBool True)]\<rparr>"

lemma run_edited:
  "\<exists>s. run_reachable s \<and> sy_leased s = [run_lease] \<and> sy_edited s = [0] \<and> sy_world s = ''new'' \<and>
     sy_done s = [(run_claim, receipt MExecutedVerified (Some ''new'') True None)] \<and>
     db_executions (sy_db s) = [run_marked] \<and> db_proposals (sy_db s) = [run_proposal_row]"
proof -
  let ?step = "system_step sample_runtime sample_client sample_call"
  let ?receipt = "receipt MExecutedVerified (Some ''new'') True None"
  note reach = system_reachable.step [where rt = sample_runtime and client = sample_client and call = sample_call]
  obtain a where p: "prepare sample_runtime Dev 0 (rt_uuid sample_runtime 0) ''c'' run_db = Inr (Claim run_claim,
     run_db\<lparr>db_next := 4, db_audit := [a], db_executions := [new_execution 2 Dev 0 0 ''c'']\<rparr>)"
    using run_prepare by (elim exE)
  define d1 where "d1 = run_db\<lparr>db_next := 4, db_audit := [a], db_executions := [new_execution 2 Dev 0 0 ''c'']\<rparr>"
  define s1 where "s1 = run_start\<lparr>sy_db := d1, sy_ready := run_claim # sy_ready run_start\<rparr>"
  have p': "prepare sample_runtime Dev 0 (rt_uuid sample_runtime 0) ''c'' (sy_db run_start) = Inr (Claim run_claim, d1)"
    unfolding d1_def using p by (simp add: run_start_def)
  have r1: "run_reachable s1"
    unfolding s1_def by (rule reach [OF run_start_reachable system_step.prepared [OF p']])
  define d2 where "d2 = d1\<lparr>db_executions := [run_execution]\<rparr>"
  define s2 where "s2 = s1\<lparr>sy_db := d2, sy_leased := [run_lease] @ sy_leased s1\<rparr>"
  have l: "lease_abandoned sample_runtime Dev 0 0 1 ''w'' 10 (sy_db s1) = ([run_lease], d2)"
    by (simp add: lease_abandoned_def Let_def joined_def s1_def d2_def d1_def run_db_def run_proposal_row_def sample_proposal_def
        new_execution_def claim_for_def run_lease_def or_unknown_def lease_rows_def run_execution_def)
  have r2: "run_reachable s2"
    unfolding s2_def by (rule reach [OF r1 system_step.leased [OF l]])
  define d3 where "d3 = d1\<lparr>db_executions := [run_marked]\<rparr>"
  define s3 where "s3 = s2\<lparr>sy_db := d3, sy_ready := remove1 run_claim (sy_ready s2), sy_marked := run_claim # sy_marked s2\<rparr>"
  have m: "mark_write_attempted sample_runtime (cl_environment run_claim) run_claim (sy_db s2) = Inr ((), d3)"
    by (simp add: mark_write_attempted_def parse_uuid_def run_claim_def find_execution_def s2_def d2_def d3_def select_one_def
        run_execution_def new_execution_def run_marked_def)
  have c2: "run_claim \<in> set (sy_ready s2)" by (simp add: s2_def s1_def)
  have r3: "run_reachable s3"
    unfolding s3_def by (rule reach [OF r2 system_step.marked [OF c2 m]])
  have cmd: "command_of run_claim = sample_command\<lparr>mu_proposal_id := rt_uuid sample_runtime 0,
      mu_idempotency_key := ''execute-'' @ rt_uuid sample_runtime 0\<rparr>"
    by (simp add: command_of_def run_claim_def sample_command_def)
  have world: "sy_world s3 = ''old''" by (simp add: s3_def s2_def s1_def run_start_def)
  have "\<exists>trace. mutation_execute sample_client (traced sample_call) (command_of run_claim) (sy_world s3, []) =
     (Inr ?receipt, (''new'', trace)) \<and> length (edits trace) = 1"
    by (simp add: world mutation_execute_def mutation_allowed_def sample_client_def sample_command_def issue_project_def cmd
      read_assignee_def verify_write_def traced_def sample_call_def sample_issue_def read_call_def edit_call_def
      assignee_from_response_def dict_get_def get_in_def Let_def edits_def)
  then obtain trace where x: "mutation_execute sample_client (traced sample_call) (command_of run_claim) (sy_world s3, []) =
     (Inr ?receipt, (''new'', trace))" and e: "length (edits trace) = 1" by (elim exE conjE)
  define s4 where "s4 = s3\<lparr>sy_world := ''new'', sy_marked := remove1 run_claim (sy_marked s3),
     sy_done := (run_claim, ?receipt) # sy_done s3,
     sy_edited := replicate (length (edits trace)) (claim_pid sample_runtime run_claim) @ sy_edited s3\<rparr>"
  have c3: "run_claim \<in> set (sy_marked s3)" by (simp add: s3_def)
  have r4: "run_reachable s4"
    unfolding s4_def by (rule reach [OF r3 system_step.mutated [OF c3 x]])
  have "claim_pid sample_runtime run_claim = 0" by (simp add: claim_pid_def run_claim_def)
  then have "sy_leased s4 = [run_lease]" "sy_edited s4 = [0]" "sy_world s4 = ''new''"
    "sy_done s4 = [(run_claim, ?receipt)]" "sy_db s4 = d3"
    by (simp_all add: s4_def s3_def s2_def s1_def run_start_def e)
  moreover have "db_executions d3 = [run_marked]" "db_proposals d3 = [run_proposal_row]"
    by (simp_all add: d3_def d1_def run_db_def)
  ultimately show ?thesis using r4 by (intro exI [of _ s4] conjI) simp_all
qed

lemma settle_sample:
  assumes "log_ok sample_runtime d" and "state \<noteq> Uncertain"
  shows "\<exists>d'. settle sample_runtime env now eid pid state f audit notify d = Inr ((), d')"
proof -
  let ?d = "d\<lparr>db_executions := update_where (\<lambda>x. ex_id x = eid) f (db_executions d),
           db_proposals := update_where (\<lambda>x. pr_id x = pid) (\<lambda>x. set_state state (pr_version x + 1) x) (db_proposals d)\<rparr>"
  have "log_ok sample_runtime ?d" using log_ok_cong [of ?d d] assms(1) by simp
  from sample_append_total [OF this] obtain a d1 where "audit_append sample_runtime now env audit ?d = Inr (a, d1)" by blast
  with assms(2) show ?thesis by (simp add: settle_def)
qed

text \<open>
  C13: A reconciler can declare failed an execution that has edited the issue.  The lease carries
  the write flag as it was when the lease was taken and resolving does not look at the row's
  flag again: with an execution slow enough to be leased before it marks its attempt, a
  reachable state has the proposal's execution failed although its edit was made and the
  issue has the proposed assignee.
\<close>

theorem failed_though_edited:
  "\<exists>s e. system_reachable sample_runtime sample_client sample_call s \<and> e \<in> set (db_executions (sy_db s)) \<and>
     ex_state e = ExecutionFailed \<and> ex_write_attempted e \<and> ex_proposal_id e \<in> set (sy_edited s) \<and>
     sy_world s = pr_proposed_assignee run_proposal_row"
proof -
  obtain s where s: "run_reachable s" "sy_leased s = [run_lease]" "sy_edited s = [0]" "sy_world s = ''new''"
     "db_executions (sy_db s) = [run_marked]" "db_proposals (sy_db s) = [run_proposal_row]"
    using run_edited by (elim exE conjE)
  from reachable_ok [OF s(1) sample_runtime_ok] have ok: "executions_ok (sy_db s)" "log_ok sample_runtime (sy_db s)"
    by (simp_all add: system_ok_def)
  have v: "reconcile_verdict run_lease (Inr (Some ''old'')) = (ExecutionFailed, Some ''old'', None)"
    by (simp add: reconcile_verdict_def run_lease_def)
  have marked: "ex_id run_marked = 2" "ex_environment run_marked = Dev" "ex_state run_marked = Executing"
    "ex_proposal_id run_marked = 0" "ex_write_attempted run_marked"
    by (simp_all add: run_marked_def run_execution_def new_execution_def)
  have row: "pr_id run_proposal_row = 0" "pr_state run_proposal_row = Executing"
    by (simp_all add: run_proposal_row_def sample_proposal_def)
  let ?evidence = "outcome_json (Some ''old'') None (rc_write_attempted run_lease)"
  obtain d' where d': "settle_reconciled sample_runtime Dev 2 run_lease ExecutionFailed ?evidence run_marked 0 (sy_db s) = Inr ((), d')"
    using settle_sample [OF ok(2), of ExecutionFailed] unfolding settle_reconciled_def by (metis proposal_state.distinct)
  have "resolve sample_runtime Dev 2 run_lease ExecutionFailed ?evidence (sy_db s) = Inr ((), d')"
    using d' by (simp add: resolve_def run_lease_def parse_uuid_def find_execution_def find_proposal_def s(5,6) select_one_def
        marked row validate_transition_def ALLOWED_TRANSITIONS_def dict_get_def)
  then have r: "run_reachable (s\<lparr>sy_db := d'\<rparr>)"
    using system_reachable.step [OF s(1) system_step.resolved [OF _ v]] s(2) by simp
  from settled_execution [OF ok(1) settle_reconciled_settles [OF d']] s(5) obtain e' where
    e': "e' \<in> set (db_executions d')" "ex_id e' = ex_id run_marked" "ex_state e' = ExecutionFailed" "ex_write_attempted e'"
    using marked(5) by auto
  have "runs (sy_db s) False Dev 2 0" using marked by (simp add: runs_def s(5))
  with settles_keeps [OF settle_reconciled_settles [OF d']] have "runs d' False Dev 2 0" by (simp add: keeps_def)
  moreover have "executions_ok d'" using reachable_ok [OF r sample_runtime_ok] by (simp add: system_ok_def)
  ultimately have "ex_proposal_id e' = 0"
    using execution_of_id(1) [of d' e'] e' marked(1) unfolding runs_def by metis
  with r e' s(3,4) show ?thesis
    by (intro exI [of _ "s\<lparr>sy_db := d'\<rparr>"] exI [of _ e']) (simp add: run_proposal_row_def sample_proposal_def)
qed

theorem edited_once_when_approved_witness:
  "\<exists>s. sy_edited s = [0] \<and> approved (sy_db s) 0 \<and> system_reachable sample_runtime sample_client sample_call s"
proof -
  obtain s where s: "run_reachable s" "sy_edited s = [0]" using run_edited by (elim exE conjE)
  from edited_once_when_approved [OF sample_runtime_ok s(1)] s show ?thesis by (intro exI [of _ s]) simp
qed

theorem execution_follows_proposal_witness:
  "\<exists>s. db_executions (sy_db s) = [run_marked] \<and> verify_chain sample_runtime Dev (sy_db s) \<and>
     system_reachable sample_runtime sample_client sample_call s"
proof -
  obtain s where s: "run_reachable s" "db_executions (sy_db s) = [run_marked]" using run_edited by (elim exE conjE)
  from execution_follows_proposal [OF sample_runtime_ok s(1)] s show ?thesis by (intro exI [of _ s]) simp
qed

theorem finalize_always_settles_witness:
  "\<exists>s. system_reachable sample_runtime sample_client sample_call s \<and>
    (finalize sample_runtime Dev 3 run_claim (result_of run_claim (receipt MExecutedVerified (Some ''new'') True None)) (sy_db s)
       = Inl (IntegrityError ''uq_audit_env_hash'') \<or>
     (\<exists>res d'. finalize sample_runtime Dev 3 run_claim (result_of run_claim (receipt MExecutedVerified (Some ''new'') True None)) (sy_db s)
       = Inr (res, d') \<and> er_state res \<noteq> Executing))"
proof -
  obtain s where s: "run_reachable s" "sy_done s = [(run_claim, receipt MExecutedVerified (Some ''new'') True None)]"
    using run_edited by (elim exE conjE)
  have env: "cl_environment run_claim = Dev" by (simp add: run_claim_def)
  have "(run_claim, receipt MExecutedVerified (Some ''new'') True None) \<in> set (sy_done s)" by (simp add: s(2))
  from finalize_always_settles [OF sample_runtime_ok s(1) this, of 3, unfolded env]
  show ?thesis
  proof (elim disjE exE conjE)
    fix res d' e
    assume "finalize sample_runtime Dev 3 run_claim (result_of run_claim (receipt MExecutedVerified (Some ''new'') True None)) (sy_db s)
       = Inr (res, d')" "ex_state e \<noteq> Executing" "er_state res = ex_state e"
    with s(1) show ?thesis by (intro exI [of _ s] conjI disjI2 exI [of _ res] exI [of _ d']) simp_all
  next
    assume "finalize sample_runtime Dev 3 run_claim (result_of run_claim (receipt MExecutedVerified (Some ''new'') True None)) (sy_db s)
       = Inl (IntegrityError ''uq_audit_env_hash'')"
    with s(1) show ?thesis by (intro exI [of _ s] conjI disjI1)
  qed
qed

theorem reconciliation_settles_witness:
  "\<exists>s. system_reachable sample_runtime sample_client sample_call s \<and> sy_leased s = [run_lease] \<and>
     (\<exists>e \<in> set (db_executions (sy_db s)). rc_execution_id run_lease = rt_uuid sample_runtime (ex_id e))"
proof -
  obtain s where s: "run_reachable s" "sy_leased s = [run_lease]" using run_edited by (elim exE conjE)
  have v: "reconcile_verdict run_lease (Inr (Some ''old'')) = (ExecutionFailed, Some ''old'', None)"
    by (simp add: reconcile_verdict_def run_lease_def)
  have "run_lease \<in> set (sy_leased s)" by (simp add: s(2))
  from reconciliation_settles [OF sample_runtime_ok s(1) this v, of 0 JNull, THEN conjunct1]
  obtain e where "e \<in> set (db_executions (sy_db s))" "rc_execution_id run_lease = rt_uuid sample_runtime (ex_id e)"
    by (elim bexE conjE) (rule that)
  with s show ?thesis by (intro exI [of _ s] conjI bexI [of _ e])
qed

end
