(* ===== verification/Alerts.thy ===== *)
theory Alerts imports Outbox begin

text \<open>
  domain/workforce\_risk/alerts/rules.py and state.py, persistence/alert\_repository.py: routing of
  risk levels, deduplication of alerts with one occurrence per change of evidence, the
  cooldown of notifications, and the versioned alert workflow.
\<close>

section \<open>Rules\<close>

record alert_routing =
  create_inbox_alert :: bool
  send_email :: bool
  prominent :: bool

definition route_risk :: "risk_level option \<Rightarrow> alert_routing" where
  "route_risk level =
    (if level = Some RiskCritical then \<lparr>create_inbox_alert = True, send_email = True, prominent = True\<rparr>
     else if level = Some RiskHigh then \<lparr>create_inbox_alert = True, send_email = True, prominent = False\<rparr>
     else if level = Some RiskMedium then \<lparr>create_inbox_alert = True, send_email = False, prominent = False\<rparr>
     else \<lparr>create_inbox_alert = False, send_email = False, prominent = False\<rparr>)"

definition dedup_material :: "string \<Rightarrow> string \<Rightarrow> string \<Rightarrow> string" where
  "dedup_material subject risk_type window = subject @ '':'' @ risk_type @ '':'' @ window"

definition alert_dedup_key :: "runtime \<Rightarrow> string \<Rightarrow> string \<Rightarrow> string \<Rightarrow> string" where
  "alert_dedup_key rt subject risk_type window = rt_sha256 rt (dedup_material subject risk_type window)"

fun level_rank :: "risk_level \<Rightarrow> int" where
  "level_rank RiskLow = 1"
| "level_rank RiskMedium = 2"
| "level_rank RiskHigh = 3"
| "level_rank RiskCritical = 4"

definition should_notify ::
  "risk_level option \<Rightarrow> risk_level \<Rightarrow> timestamp option \<Rightarrow> timestamp \<Rightarrow> timedelta \<Rightarrow> bool \<Rightarrow> bool" where
  "should_notify previous current last_notified now cooldown important =
    (if \<not> send_email (route_risk (Some current)) then False
     else if (case previous of None \<Rightarrow> True | Some p \<Rightarrow> level_rank current > level_rank p) then True
     else if important then True
     else (case last_notified of None \<Rightarrow> True | Some t \<Rightarrow> now - t \<ge> cooldown))"

fun alert_state_value :: "alert_state \<Rightarrow> string" where
  "alert_state_value AlertNew = ''new''"
| "alert_state_value Acknowledged = ''acknowledged''"
| "alert_state_value Investigating = ''investigating''"
| "alert_state_value Resolved = ''resolved''"
| "alert_state_value Dismissed = ''dismissed''"

fun alert_targets :: "alert_state \<Rightarrow> alert_state set" where
  "alert_targets AlertNew = {Acknowledged, Investigating, Resolved, Dismissed}"
| "alert_targets Acknowledged = {Investigating, Resolved, Dismissed}"
| "alert_targets Investigating = {Resolved, Dismissed}"
| "alert_targets Resolved = {AlertNew}"
| "alert_targets Dismissed = {AlertNew}"

definition validate_alert_transition :: "alert_state \<Rightarrow> alert_state \<Rightarrow> string option \<Rightarrow> unit res" where
  "validate_alert_transition current target reason =
    (if target \<notin> alert_targets current
     then Inl (ValueError (''illegal alert transition: '' @ alert_state_value current @ '' -> '' @ alert_state_value target))
     else if target = Dismissed \<and> (case reason of None \<Rightarrow> True | Some r \<Rightarrow> r = [])
     then Inl (ValueError ''dismissal requires a reason'')
     else Inr ())"

section \<open>AlertRepository\<close>

record alert_result =
  ar_alert_id :: uuid
  ar_occurrence_created :: bool
  ar_notification_created :: bool
  ar_version :: int

definition resolve_active_risk :: "environment \<Rightarrow> string \<Rightarrow> string \<Rightarrow> db \<Rightarrow> int \<times> db" where
  "resolve_active_risk env subject risk_type d =
    (let active = (\<lambda>a. al_environment a = env \<and> al_subject_id a = subject \<and> al_risk_type a = risk_type \<and>
            al_state a \<in> {AlertNew, Acknowledged, Investigating})
     in (int (rowcount active (db_alerts d)),
         d\<lparr>db_alerts := update_where active (\<lambda>a. a\<lparr>al_state := Resolved, al_version := al_version a + 1\<rparr>) (db_alerts d)\<rparr>))"

definition find_alert :: "environment \<Rightarrow> string \<Rightarrow> db \<Rightarrow> alert_row option" where
  "find_alert env dedup d = select_one (\<lambda>a. al_environment a = env \<and> al_dedup_key a = dedup) (db_alerts d)"

definition occurrences_of :: "db \<Rightarrow> uuid \<Rightarrow> occurrence_row list" where
  "occurrences_of d aid = filter (\<lambda>x. ao_alert_id x = aid) (db_occurrences d)"

definition alert_key :: "runtime \<Rightarrow> uuid \<Rightarrow> int \<Rightarrow> string" where
  "alert_key rt aid version = ''alert:'' @ rt_uuid rt aid @ '':v'' @ int_repr version"

text \<open>The part of \<open>record\_risk\<close> after the alert row has been inserted or changed.\<close>

definition record_occurrence ::
  "runtime \<Rightarrow> risk_level option \<Rightarrow> alert_row \<Rightarrow> uuid \<Rightarrow> string \<Rightarrow> timestamp \<Rightarrow> timedelta \<Rightarrow> bool \<Rightarrow> db
     \<Rightarrow> alert_result option tx" where
  "record_occurrence rt previous a risk_result_id correlation_id now cooldown important d =
    (let (oid, d1) = new_id d;
         occurrence = \<lparr>ao_id = oid, ao_environment = al_environment a, ao_created_at = now, ao_alert_id = al_id a,
           ao_risk_result_id = risk_result_id,
           ao_sequence_number = int (length (occurrences_of d (al_id a))) + 1,
           ao_severity = al_severity a, ao_evidence_fingerprint = al_evidence_fingerprint a\<rparr>;
         d2 = d1\<lparr>db_occurrences := db_occurrences d1 @ [occurrence]\<rparr>
     in bindr (guard (risk_result_id \<notin> rk_id ` set (db_risk_results d)) (IntegrityError ''alert_occurrences_risk_result_id_fkey'')) (\<lambda>_.
        if should_notify previous (al_severity a) (al_last_notified_at a) now cooldown important
        then bindr (outbox_append (al_environment a) (alert_key rt (al_id a) (al_version a))
               ''risk_alert.notification_requested''
               (JObj [(''alert_id'', JStr (rt_uuid rt (al_id a))), (''severity'', JStr (risk_level_value (al_severity a))),
                      (''correlation_id'', JStr correlation_id)]) now d2) (\<lambda>(_, d3).
             Inr (Some \<lparr>ar_alert_id = al_id a, ar_occurrence_created = True, ar_notification_created = True,
                        ar_version = al_version a\<rparr>,
                  d3\<lparr>db_alerts := update_where (\<lambda>x. al_id x = al_id a) (\<lambda>x. x\<lparr>al_last_notified_at := Some now\<rparr>) (db_alerts d3)\<rparr>))
        else Inr (Some \<lparr>ar_alert_id = al_id a, ar_occurrence_created = True, ar_notification_created = False,
                        ar_version = al_version a\<rparr>, d2)))"

definition new_alert ::
  "uuid \<Rightarrow> environment \<Rightarrow> string \<Rightarrow> string \<Rightarrow> string \<Rightarrow> string \<Rightarrow> risk_level \<Rightarrow> string \<Rightarrow> timestamp \<Rightarrow> alert_row" where
  "new_alert aid env subject risk_type window dedup level evidence now = \<lparr>al_id = aid, al_environment = env,
     al_created_at = now, al_subject_id = subject, al_risk_type = risk_type, al_scoring_window = window,
     al_dedup_key = dedup, al_state = AlertNew, al_severity = level, al_evidence_fingerprint = evidence,
     al_last_notified_at = None, al_version = 1\<rparr>"

definition changed_alert :: "risk_level \<Rightarrow> string \<Rightarrow> alert_row \<Rightarrow> alert_row" where
  "changed_alert level evidence a =
     a\<lparr>al_state := (if al_state a \<in> {Resolved, Dismissed} then AlertNew else al_state a),
       al_severity := level, al_evidence_fingerprint := evidence, al_version := al_version a + 1\<rparr>"

definition record_risk ::
  "runtime \<Rightarrow> environment \<Rightarrow> string \<Rightarrow> string \<Rightarrow> string \<Rightarrow> uuid \<Rightarrow> risk_level \<Rightarrow> string \<Rightarrow> string \<Rightarrow> timestamp
     \<Rightarrow> timedelta \<Rightarrow> bool \<Rightarrow> db \<Rightarrow> alert_result option tx" where
  "record_risk rt env subject risk_type window risk_result_id level evidence correlation_id now cooldown important d =
    (if \<not> create_inbox_alert (route_risk (Some level)) then Inr (None, d)
     else let dedup = alert_dedup_key rt subject risk_type window in
       (case find_alert env dedup d of
          None \<Rightarrow>
            (let (aid, d1) = new_id d; a = new_alert aid env subject risk_type window dedup level evidence now in
             bindr (insert_row ''uq_alerts_env_dedup'' (\<lambda>a. (al_environment a, al_dedup_key a)) a (db_alerts d1)) (\<lambda>rows.
             record_occurrence rt None a risk_result_id correlation_id now cooldown important (d1\<lparr>db_alerts := rows\<rparr>)))
        | Some a \<Rightarrow>
            (if al_evidence_fingerprint a = evidence \<and> al_severity a = level
             then Inr (Some \<lparr>ar_alert_id = al_id a, ar_occurrence_created = False, ar_notification_created = False,
                             ar_version = al_version a\<rparr>, d)
             else let a' = changed_alert level evidence a in
               record_occurrence rt (Some (al_severity a)) a' risk_result_id correlation_id now cooldown important
                 (d\<lparr>db_alerts := update_where (\<lambda>x. al_id x = al_id a) (\<lambda>_. a') (db_alerts d)\<rparr>))))"

definition alert_state_json :: "alert_state \<Rightarrow> int \<Rightarrow> json" where
  "alert_state_json s version = JObj [(''state'', JStr (alert_state_value s)), (''version'', JInt version)]"

definition alert_transition ::
  "runtime \<Rightarrow> timestamp \<Rightarrow> uuid \<Rightarrow> int \<Rightarrow> alert_state \<Rightarrow> string \<Rightarrow> string \<Rightarrow> string option \<Rightarrow> db \<Rightarrow> bool tx" where
  "alert_transition rt now alert_id expected_version target actor_id correlation_id reason d =
    (case select_one (\<lambda>a. al_id a = alert_id) (db_alerts d) of
       None \<Rightarrow> Inr (False, d)
     | Some alert \<Rightarrow>
        (if al_version alert \<noteq> expected_version then Inr (False, d)
         else bindr (validate_alert_transition (al_state alert) target reason) (\<lambda>_.
           let matches = (\<lambda>a. al_id a = alert_id \<and> al_version a = expected_version) in
           if rowcount matches (db_alerts d) \<noteq> 1 then Inr (False, d)
           else bindr (audit_append rt now (al_environment alert)
                  \<lparr>aa_action_type = ''alert.'' @ alert_state_value target, aa_actor_type = ''manager'',
                   aa_actor_id = actor_id, aa_subject_ids = [rt_uuid rt alert_id, al_subject_id alert],
                   aa_correlation_id = correlation_id,
                   aa_prior_state = alert_state_json (al_state alert) expected_version,
                   aa_new_state = alert_state_json target (expected_version + 1),
                   aa_safe_metadata = JObj [(''dismissal_reason'', json_opt JStr reason)]\<rparr>
                  (d\<lparr>db_alerts := update_where matches (\<lambda>a. a\<lparr>al_state := target, al_version := al_version a + 1\<rparr>) (db_alerts d)\<rparr>))
                (\<lambda>(_, d'). Inr (True, d')))))"

section \<open>The invariant\<close>

text \<open>
  An alert has occurrences numbered 1, 2, ... in order, the last of which is its present
  severity and evidence; a notification key is that of a version the alert has had.
\<close>

definition alert_ok :: "db \<Rightarrow> alert_row \<Rightarrow> bool" where
  "alert_ok d a \<longleftrightarrow> al_id a < db_next d \<and>
     (let xs = occurrences_of d (al_id a) in xs \<noteq> [] \<and>
        map ao_sequence_number xs = map int [1..<Suc (length xs)] \<and>
        ao_severity (last xs) = al_severity a \<and> ao_evidence_fingerprint (last xs) = al_evidence_fingerprint a)"

definition alert_keys_ok :: "runtime \<Rightarrow> db \<Rightarrow> bool" where
  "alert_keys_ok rt d \<longleftrightarrow> (\<forall>e \<in> set (db_outbox d). \<forall>i v. ob_consumer_key e = alert_key rt i v \<longrightarrow>
     (\<exists>a \<in> set (db_alerts d). al_id a = i \<and> v \<le> al_version a))"

definition alerts_ok :: "runtime \<Rightarrow> db \<Rightarrow> bool" where
  "alerts_ok rt d \<longleftrightarrow> distinct (map al_id (db_alerts d)) \<and>
     distinct (map (\<lambda>a. (al_environment a, al_dedup_key a)) (db_alerts d)) \<and>
     (\<forall>a \<in> set (db_alerts d). alert_ok d a) \<and>
     (\<forall>x \<in> set (db_occurrences d). ao_alert_id x < db_next d) \<and> alert_keys_ok rt d"

lemma alert_key_inj:
  assumes "runtime_ok rt" and "alert_key rt i v = alert_key rt j w"
  shows "i = j \<and> v = w"
proof -
  have colon: "CHR '':'' \<notin> set (rt_uuid rt k)" for k using assms(1) by (simp add: runtime_ok_def)
  let ?P = "\<lambda>c. c \<noteq> CHR '':''"
  have all: "x \<in> set (rt_uuid rt k) \<Longrightarrow> ?P x" for x k using colon [of k] by blast
  have split: "takeWhile ?P (rt_uuid rt k @ '':v'' @ s) = rt_uuid rt k"
    "dropWhile ?P (rt_uuid rt k @ '':v'' @ s) = '':v'' @ s" for k s
    using takeWhile_append2 [of "rt_uuid rt k" ?P "'':v'' @ s", OF all]
      dropWhile_append2 [of "rt_uuid rt k" ?P "'':v'' @ s", OF all] by simp_all
  from assms(2) have eq: "rt_uuid rt i @ '':v'' @ int_repr v = rt_uuid rt j @ '':v'' @ int_repr w"
    by (simp add: alert_key_def)
  from arg_cong [OF eq, of "takeWhile (\<lambda>c. c \<noteq> CHR '':'')"] have "rt_uuid rt i = rt_uuid rt j"
    by (simp only: split)
  moreover from arg_cong [OF eq, of "dropWhile (\<lambda>c. c \<noteq> CHR '':'')"] have "'':v'' @ int_repr v = '':v'' @ int_repr w"
    by (simp only: split)
  ultimately show ?thesis using uuid_text_inj [OF assms(1)] int_repr_inj by simp
qed

lemma alert_of_id:
  assumes "alerts_ok rt d" and "a \<in> set (db_alerts d)" and "b \<in> set (db_alerts d)" and "al_id a = al_id b"
  shows "a = b"
  using assms by (auto simp: alerts_ok_def distinct_map inj_on_def)

lemma alert_key_row:
  assumes "alerts_ok rt d" and "e \<in> set (db_outbox d)" and "ob_consumer_key e = alert_key rt i v"
  obtains a where "a \<in> set (db_alerts d)" "al_id a = i" "v \<le> al_version a"
  using assms unfolding alerts_ok_def alert_keys_ok_def by blast

lemma find_alert_iff:
  assumes "alerts_ok rt d"
  shows "find_alert env k d = Some a \<longleftrightarrow> a \<in> set (db_alerts d) \<and> al_environment a = env \<and> al_dedup_key a = k"
proof
  assume "find_alert env k d = Some a"
  then show "a \<in> set (db_alerts d) \<and> al_environment a = env \<and> al_dedup_key a = k"
    unfolding find_alert_def by (auto dest: select_one_SomeD)
next
  assume a: "a \<in> set (db_alerts d) \<and> al_environment a = env \<and> al_dedup_key a = k"
  show "find_alert env k d = Some a" unfolding find_alert_def
    using assms a by (intro select_one_unique [where key = "\<lambda>a. (al_environment a, al_dedup_key a)"])
      (auto simp: alerts_ok_def)
qed

section \<open>Recording a risk\<close>

text \<open>What holds of the row \<open>a\<close> between its change and the insertion of its occurrence.\<close>

definition pending_occurrence :: "runtime \<Rightarrow> db \<Rightarrow> alert_row \<Rightarrow> bool" where
  "pending_occurrence rt d a \<longleftrightarrow> a \<in> set (db_alerts d) \<and> distinct (map al_id (db_alerts d)) \<and>
     distinct (map (\<lambda>a. (al_environment a, al_dedup_key a)) (db_alerts d)) \<and>
     (\<forall>b \<in> set (db_alerts d). al_id b < db_next d) \<and>
     (\<forall>b \<in> set (db_alerts d). al_id b \<noteq> al_id a \<longrightarrow> alert_ok d b) \<and>
     map ao_sequence_number (occurrences_of d (al_id a)) = map int [1..<Suc (length (occurrences_of d (al_id a)))] \<and>
     (\<forall>x \<in> set (db_occurrences d). ao_alert_id x < db_next d) \<and> alert_keys_ok rt d \<and>
     (\<forall>e \<in> set (db_outbox d). ob_consumer_key e \<noteq> alert_key rt (al_id a) (al_version a))"

definition alert_after :: "bool \<Rightarrow> timestamp \<Rightarrow> alert_row \<Rightarrow> alert_row" where
  "alert_after notify now a = (if notify then a\<lparr>al_last_notified_at := Some now\<rparr> else a)"

lemma alert_after_simps [simp]:
  "al_id (alert_after n t a) = al_id a" "al_version (alert_after n t a) = al_version a"
  "al_severity (alert_after n t a) = al_severity a" "al_environment (alert_after n t a) = al_environment a"
  "al_evidence_fingerprint (alert_after n t a) = al_evidence_fingerprint a"
  "al_dedup_key (alert_after n t a) = al_dedup_key a" "alert_after False t a = a"
  by (simp_all add: alert_after_def)

lemma record_occurrence_run:
  assumes "pending_occurrence rt d a" and "rid \<in> rk_id ` set (db_risk_results d)"
    and n: "n = should_notify previous (al_severity a) (al_last_notified_at a) now cooldown important"
  shows "\<exists>d' x es k. record_occurrence rt previous a rid corr now cooldown important d =
      Inr (Some \<lparr>ar_alert_id = al_id a, ar_occurrence_created = True, ar_notification_created = n,
                 ar_version = al_version a\<rparr>, d') \<and>
     d' = d\<lparr>db_next := k, db_occurrences := db_occurrences d @ [x], db_outbox := db_outbox d @ es,
        db_alerts := update_where (\<lambda>b. al_id b = al_id a) (alert_after n now) (db_alerts d)\<rparr> \<and> db_next d \<le> k \<and>
     ao_alert_id x = al_id a \<and> ao_sequence_number x = int (length (occurrences_of d (al_id a))) + 1 \<and>
     ao_severity x = al_severity a \<and> ao_evidence_fingerprint x = al_evidence_fingerprint a \<and>
     length es = (if n then 1 else 0) \<and> (\<forall>e \<in> set es. ob_environment e = al_environment a \<and>
        ob_consumer_key e = alert_key rt (al_id a) (al_version a))"
proof -
  let ?x = "\<lparr>ao_id = db_next d, ao_environment = al_environment a, ao_created_at = now, ao_alert_id = al_id a,
           ao_risk_result_id = rid, ao_sequence_number = int (length (occurrences_of d (al_id a))) + 1,
           ao_severity = al_severity a, ao_evidence_fingerprint = al_evidence_fingerprint a\<rparr>"
  let ?d2 = "d\<lparr>db_next := Suc (db_next d), db_occurrences := db_occurrences d @ [?x]\<rparr>"
  show ?thesis
  proof (cases n)
    case False
    have idf: "update_where P (alert_after False now) rows = rows" for P rows
      by (auto simp: update_where_def intro!: map_idI)
    show ?thesis
      using False n assms(2) idf
      by (intro exI [of _ ?d2] exI [of _ ?x] exI [of _ "[]"] exI [of _ "Suc (db_next d)"])
        (simp add: record_occurrence_def new_id_def Let_def)
  next
    case True
    have "find_event (al_environment a, alert_key rt (al_id a) (al_version a)) ?d2 = None"
      using assms(1) by (auto simp: find_event_def pending_occurrence_def)
    from outbox_append_new [OF this] obtain e d3 where
      e: "outbox_append (al_environment a) (alert_key rt (al_id a) (al_version a)) ''risk_alert.notification_requested''
               (JObj [(''alert_id'', JStr (rt_uuid rt (al_id a))), (''severity'', JStr (risk_level_value (al_severity a))),
                      (''correlation_id'', JStr corr)]) now ?d2 = Inr (e, d3)"
      and f: "find_event (al_environment a, alert_key rt (al_id a) (al_version a)) d3 = Some e"
      and d3: "d3 = ?d2\<lparr>db_next := Suc (db_next ?d2), db_outbox := db_outbox ?d2 @ [e]\<rparr>" by blast
    from f have key: "ob_environment e = al_environment a \<and> ob_consumer_key e = alert_key rt (al_id a) (al_version a)"
      unfolding find_event_def by (auto dest: select_one_SomeD)
    have upd: "alert_after True now = (\<lambda>x. x\<lparr>al_last_notified_at := Some now\<rparr>)"
      by (rule ext) (simp add: alert_after_def)
    show ?thesis
      using True n assms(2) e key
      by (intro exI [of _ "d3\<lparr>db_alerts := update_where (\<lambda>b. al_id b = al_id a) (alert_after n now) (db_alerts d3)\<rparr>"]
          exI [of _ ?x] exI [of _ "[e]"] exI [of _ "Suc (Suc (db_next d))"])
        (simp add: record_occurrence_def new_id_def Let_def d3 upd)
  qed
qed

lemma alert_ok_frame:
  assumes "alert_ok d a" and "occurrences_of d' (al_id a) = occurrences_of d (al_id a)" and "db_next d \<le> db_next d'"
  shows "alert_ok d' a"
  using assms by (simp add: alert_ok_def)

lemma record_occurrence_ok:
  assumes rt: "runtime_ok rt" and p: "pending_occurrence rt d a"
    and d': "d' = d\<lparr>db_next := k, db_occurrences := db_occurrences d @ [x], db_outbox := db_outbox d @ es,
        db_alerts := update_where (\<lambda>b. al_id b = al_id a) (alert_after n now) (db_alerts d)\<rparr>"
    and k: "db_next d \<le> k" and x: "ao_alert_id x = al_id a" "ao_sequence_number x = int (length (occurrences_of d (al_id a))) + 1"
      "ao_severity x = al_severity a" "ao_evidence_fingerprint x = al_evidence_fingerprint a"
    and es: "\<forall>e \<in> set es. ob_environment e = al_environment a \<and> ob_consumer_key e = alert_key rt (al_id a) (al_version a)"
  shows "alerts_ok rt d'" "alert_after n now a \<in> set (db_alerts d')"
    "occurrences_of d' (al_id a) = occurrences_of d (al_id a) @ [x]"
proof -
  have alerts: "set (db_alerts d') = (\<lambda>b. if al_id b = al_id a then alert_after n now b else b) ` set (db_alerts d)"
    by (simp add: d' set_update_where)
  have a: "a \<in> set (db_alerts d)" using p by (simp add: pending_occurrence_def)
  then show a': "alert_after n now a \<in> set (db_alerts d')" unfolding alerts by (auto intro!: image_eqI [of _ _ a])
  show occ: "occurrences_of d' (al_id a) = occurrences_of d (al_id a) @ [x]"
    by (simp add: occurrences_of_def d' x)
  have other: "occurrences_of d' i = occurrences_of d i" if "i \<noteq> al_id a" for i
    using that by (simp add: occurrences_of_def d' x)
  have ids: "map al_id (db_alerts d') = map al_id (db_alerts d)"
    and keys: "map (\<lambda>a. (al_environment a, al_dedup_key a)) (db_alerts d') = map (\<lambda>a. (al_environment a, al_dedup_key a)) (db_alerts d)"
    by (simp_all add: d' map_update_where)
  have aid: "al_id a < db_next d" using p a by (simp add: pending_occurrence_def)
  have nx: "db_next d' = k" by (simp add: d')
  have ok: "alert_ok d' b'" if b': "b' \<in> set (db_alerts d')" for b'
  proof -
    from b' obtain b where b: "b \<in> set (db_alerts d)" "b' = (if al_id b = al_id a then alert_after n now b else b)"
      unfolding alerts by blast
    show ?thesis
    proof (cases "al_id b = al_id a")
      case True
      with p a b(1) have "b = a" by (auto simp: pending_occurrence_def distinct_map inj_on_def)
      then have ba: "b' = alert_after n now a" using b by simp
      have seq: "map ao_sequence_number (occurrences_of d (al_id a)) = map int [1..<Suc (length (occurrences_of d (al_id a)))]"
        using p by (simp add: pending_occurrence_def)
      show ?thesis unfolding ba alert_ok_def Let_def
        using aid k seq nx by (simp add: occ x)
    next
      case False
      with p b have "alert_ok d b" by (simp add: pending_occurrence_def)
      from alert_ok_frame [OF this other [OF False]] k False b show ?thesis by (simp add: d')
    qed
  qed
  have keysok: "alert_keys_ok rt d'" unfolding alert_keys_ok_def
  proof (intro ballI allI impI)
    fix e i v assume e: "e \<in> set (db_outbox d')" "ob_consumer_key e = alert_key rt i v"
    show "\<exists>b \<in> set (db_alerts d'). al_id b = i \<and> v \<le> al_version b"
    proof (cases "e \<in> set (db_outbox d)")
      case True
      with p e(2) obtain b where "b \<in> set (db_alerts d)" "al_id b = i" "v \<le> al_version b"
        unfolding pending_occurrence_def alert_keys_ok_def by blast
      then show ?thesis unfolding alerts
        by (intro bexI [of _ "if al_id b = al_id a then alert_after n now b else b"]) auto
    next
      case False
      with e(1) have "e \<in> set es" by (simp add: d')
      with es e(2) have "alert_key rt i v = alert_key rt (al_id a) (al_version a)" by simp
      from alert_key_inj [OF rt this] a' show ?thesis by (intro bexI [of _ "alert_after n now a"]) simp_all
    qed
  qed
  have occs: "\<forall>y \<in> set (db_occurrences d'). ao_alert_id y < db_next d'"
    using p aid k x unfolding pending_occurrence_def by (auto simp: d')
  show "alerts_ok rt d'" unfolding alerts_ok_def ids keys
    using p ok occs keysok by (simp add: pending_occurrence_def)
qed

lemma pending_new:
  assumes rt: "runtime_ok rt" and ok: "alerts_ok rt d" and none: "find_alert env dedup d = None"
    and a: "a = new_alert (db_next d) env subject rtype window dedup level evidence now"
  shows "pending_occurrence rt (d\<lparr>db_next := Suc (db_next d), db_alerts := db_alerts d @ [a]\<rparr>) a"
    and "insert_row ''uq_alerts_env_dedup'' (\<lambda>a. (al_environment a, al_dedup_key a)) a (db_alerts d) = Inr (db_alerts d @ [a])"
proof -
  have fields: "al_id a = db_next d" "al_environment a = env" "al_dedup_key a = dedup" "al_version a = 1"
    by (simp_all add: a new_alert_def)
  have unused: "(env, dedup) \<notin> (\<lambda>a. (al_environment a, al_dedup_key a)) ` set (db_alerts d)"
    using none by (auto simp: find_alert_def)
  then show "insert_row ''uq_alerts_env_dedup'' (\<lambda>a. (al_environment a, al_dedup_key a)) a (db_alerts d) = Inr (db_alerts d @ [a])"
    by (simp add: insert_row_Inr_iff fields)
  let ?d = "d\<lparr>db_next := Suc (db_next d), db_alerts := db_alerts d @ [a]\<rparr>"
  have lt: "\<forall>b \<in> set (db_alerts d). al_id b < db_next d" using ok by (simp add: alerts_ok_def alert_ok_def)
  have occ: "occurrences_of ?d i = occurrences_of d i" for i by (simp add: occurrences_of_def)
  have empty: "occurrences_of d (db_next d) = []"
    using ok by (auto simp: alerts_ok_def occurrences_of_def filter_empty_conv)
  have old: "alert_ok ?d b" if "b \<in> set (db_alerts d)" for b
  proof -
    from that ok have "alert_ok d b" by (simp add: alerts_ok_def)
    from alert_ok_frame [OF this occ] show ?thesis by simp
  qed
  have keys: "alert_keys_ok rt ?d" using ok unfolding alerts_ok_def alert_keys_ok_def by auto
  have fresh: "ob_consumer_key e \<noteq> alert_key rt (db_next d) v" if "e \<in> set (db_outbox d)" for e v
  proof
    assume "ob_consumer_key e = alert_key rt (db_next d) v"
    with that ok obtain b where "b \<in> set (db_alerts d)" "al_id b = db_next d"
      unfolding alerts_ok_def alert_keys_ok_def by blast
    with lt show False by auto
  qed
  have ids: "distinct (map al_id (db_alerts d @ [a]))" using ok lt by (auto simp: alerts_ok_def fields)
  have dk: "distinct (map (\<lambda>a. (al_environment a, al_dedup_key a)) (db_alerts d @ [a]))"
    using ok unused by (auto simp: alerts_ok_def fields)
  show "pending_occurrence rt ?d a" unfolding pending_occurrence_def
    using ids dk lt old keys fresh ok by (auto simp: fields occ empty alerts_ok_def intro: less_SucI)
qed

lemma pending_changed:
  assumes rt: "runtime_ok rt" and ok: "alerts_ok rt d" and a: "a \<in> set (db_alerts d)"
    and a': "a' = changed_alert level evidence a"
  shows "pending_occurrence rt (d\<lparr>db_alerts := update_where (\<lambda>x. al_id x = al_id a) (\<lambda>_. a') (db_alerts d)\<rparr>) a'"
proof -
  have fields: "al_id a' = al_id a" "al_environment a' = al_environment a" "al_dedup_key a' = al_dedup_key a"
    "al_version a' = al_version a + 1"
    by (simp_all add: a' changed_alert_def)
  let ?f = "\<lambda>x. if al_id x = al_id a then a' else x"
  let ?d = "d\<lparr>db_alerts := update_where (\<lambda>x. al_id x = al_id a) (\<lambda>_. a') (db_alerts d)\<rparr>"
  have alerts: "set (db_alerts ?d) = ?f ` set (db_alerts d)" by (simp add: set_update_where)
  have same: "al_id (?f b) = al_id b" "al_environment (?f b) = al_environment b" "al_dedup_key (?f b) = al_dedup_key b"
    if "b \<in> set (db_alerts d)" for b
    using alert_of_id [OF ok that a] by (auto simp: fields)
  have ids: "map al_id (db_alerts ?d) = map al_id (db_alerts d)"
    and dk: "map (\<lambda>a. (al_environment a, al_dedup_key a)) (db_alerts ?d) = map (\<lambda>a. (al_environment a, al_dedup_key a)) (db_alerts d)"
    using same by (simp_all add: update_where_def)
  have a'in: "a' \<in> set (db_alerts ?d)" unfolding alerts using a by force
  have occ: "occurrences_of ?d i = occurrences_of d i" for i by (simp add: occurrences_of_def)
  have old: "alert_ok ?d b" if "b \<in> set (db_alerts ?d)" "al_id b \<noteq> al_id a'" for b
  proof -
    from that have "b \<in> set (db_alerts d)" unfolding alerts by (auto simp: fields split: if_splits)
    with ok have "alert_ok d b" by (simp add: alerts_ok_def)
    from alert_ok_frame [OF this occ] show ?thesis by simp
  qed
  have "alert_ok d a" using ok a by (simp add: alerts_ok_def)
  then have seq: "map ao_sequence_number (occurrences_of ?d (al_id a')) = map int [1..<Suc (length (occurrences_of ?d (al_id a')))]"
    unfolding alert_ok_def Let_def occ fields by (elim conjE)
  have bound: "\<forall>b \<in> set (db_alerts d). al_id b < db_next d" using ok by (simp add: alerts_ok_def alert_ok_def)
  have lt: "\<forall>b \<in> set (db_alerts ?d). al_id b < db_next d"
  proof
    fix c assume "c \<in> set (db_alerts ?d)"
    then obtain b where b: "b \<in> set (db_alerts d)" "c = ?f b" unfolding alerts by blast
    from bound b(1) same(1) [OF b(1)] show "al_id c < db_next d" unfolding b(2) by (simp only:)
  qed
  have keys: "alert_keys_ok rt ?d" unfolding alert_keys_ok_def
  proof (intro ballI allI impI)
    fix e i v assume e: "e \<in> set (db_outbox ?d)" "ob_consumer_key e = alert_key rt i v"
    have "e \<in> set (db_outbox d)" using e(1) by simp
    from alert_key_row [OF ok this e(2)] obtain b where b: "b \<in> set (db_alerts d)" "al_id b = i" "v \<le> al_version b"
      by blast
    then have "?f b \<in> set (db_alerts ?d)" unfolding alerts by blast
    moreover have "v \<le> al_version (?f b)" using b alert_of_id [OF ok b(1) a] by (auto simp: fields)
    ultimately show "\<exists>b \<in> set (db_alerts ?d). al_id b = i \<and> v \<le> al_version b"
      using same(1) [OF b(1)] b(2) by blast
  qed
  have fresh: "ob_consumer_key e \<noteq> alert_key rt (al_id a') (al_version a')" if "e \<in> set (db_outbox ?d)" for e
  proof
    assume key: "ob_consumer_key e = alert_key rt (al_id a') (al_version a')"
    have "e \<in> set (db_outbox d)" using that by simp
    from alert_key_row [OF ok this key]
    obtain b where b: "b \<in> set (db_alerts d)" "al_id b = al_id a'" "al_version a' \<le> al_version b"
      by blast
    with alert_of_id [OF ok b(1) a] show False by (simp add: fields)
  qed
  show ?thesis unfolding pending_occurrence_def ids dk
    using a'in old seq lt keys fresh ok by (simp add: alerts_ok_def)
qed

definition recorded :: "risk_level \<Rightarrow> string \<Rightarrow> alert_row \<Rightarrow> bool" where
  "recorded level evidence a \<longleftrightarrow> al_evidence_fingerprint a = evidence \<and> al_severity a = level"

lemma record_occurrence_recorded:
  assumes rt: "runtime_ok rt" and p: "pending_occurrence rt d a" and rid: "rid \<in> rk_id ` set (db_risk_results d)"
    and d0: "occurrences_of d (al_id a) = xs" "length (db_outbox d) = m"
  shows "\<exists>r d'. record_occurrence rt previous a rid corr now cooldown important d = Inr (Some r, d') \<and> alerts_ok rt d' \<and>
     ar_alert_id r = al_id a \<and> ar_version r = al_version a \<and> ar_occurrence_created r \<and>
     ar_notification_created r = should_notify previous (al_severity a) (al_last_notified_at a) now cooldown important \<and>
     (\<exists>b. find_alert (al_environment a) (al_dedup_key a) d' = Some b \<and> al_id b = al_id a \<and> al_version b = al_version a \<and>
        recorded (al_severity a) (al_evidence_fingerprint a) b) \<and>
     length (occurrences_of d' (al_id a)) = length xs + 1 \<and>
     length (db_outbox d') = m + (if ar_notification_created r then 1 else 0)"
proof -
  define n where "n = should_notify previous (al_severity a) (al_last_notified_at a) now cooldown important"
  obtain d' x es k where
    run: "record_occurrence rt previous a rid corr now cooldown important d =
      Inr (Some \<lparr>ar_alert_id = al_id a, ar_occurrence_created = True, ar_notification_created = n,
        ar_version = al_version a\<rparr>, d')"
    and d': "d' = d\<lparr>db_next := k, db_occurrences := db_occurrences d @ [x], db_outbox := db_outbox d @ es,
        db_alerts := update_where (\<lambda>b. al_id b = al_id a) (alert_after n now) (db_alerts d)\<rparr>"
    and rest: "db_next d \<le> k" "ao_alert_id x = al_id a" "ao_sequence_number x = int (length (occurrences_of d (al_id a))) + 1"
      "ao_severity x = al_severity a" "ao_evidence_fingerprint x = al_evidence_fingerprint a"
      "length es = (if n then 1 else 0)"
      "\<forall>e \<in> set es. ob_environment e = al_environment a \<and> ob_consumer_key e = alert_key rt (al_id a) (al_version a)"
    using record_occurrence_run [OF p rid n_def] by blast
  note ok = record_occurrence_ok [OF rt p d' rest(1-5,7)]
  let ?b = "alert_after n now a"
  have "find_alert (al_environment a) (al_dedup_key a) d' = Some ?b"
    using ok(2) by (subst find_alert_iff [OF ok(1)]) simp
  moreover have "length (db_outbox d') = m + length es" using d0(2) by (simp add: d')
  ultimately show ?thesis unfolding n_def [symmetric] using run ok(1,3) rest(6) d0
    by (intro exI [of _ d'] exI [of _ "\<lparr>ar_alert_id = al_id a, ar_occurrence_created = True,
        ar_notification_created = n, ar_version = al_version a\<rparr>"] exI [of _ ?b] conjI) (simp_all add: recorded_def)
qed

section \<open>Properties\<close>

lemma route_create: "create_inbox_alert (route_risk (Some level)) \<longleftrightarrow> level \<noteq> RiskLow"
  by (cases level) (simp_all add: route_risk_def)

lemma record_risk_run:
  assumes rt: "runtime_ok rt" and ok: "alerts_ok rt d" and rid: "rid \<in> rk_id ` set (db_risk_results d)" and l: "level \<noteq> RiskLow"
    and dedup: "alert_dedup_key rt subject rtype window = dedup"
  shows "\<exists>r d' a. record_risk rt env subject rtype window rid level evidence corr now cooldown important d = Inr (Some r, d') \<and>
     alerts_ok rt d' \<and> find_alert env dedup d' = Some a \<and> recorded level evidence a \<and>
     ar_alert_id r = al_id a \<and> ar_version r = al_version a \<and>
     (ar_occurrence_created r \<longleftrightarrow> \<not> (\<exists>b. find_alert env dedup d = Some b \<and> recorded level evidence b)) \<and>
     (\<not> ar_occurrence_created r \<longrightarrow> d' = d) \<and>
     length (occurrences_of d' (al_id a)) = length (occurrences_of d (al_id a)) + (if ar_occurrence_created r then 1 else 0) \<and>
     length (db_outbox d') = length (db_outbox d) + (if ar_notification_created r then 1 else 0) \<and>
     (ar_notification_created r \<longleftrightarrow> ar_occurrence_created r \<and> (case find_alert env dedup d of
        None \<Rightarrow> should_notify None level None now cooldown important
      | Some b \<Rightarrow> should_notify (Some (al_severity b)) level (al_last_notified_at b) now cooldown important))"
proof (cases "find_alert env dedup d")
  case None
  define a where "a = new_alert (db_next d) env subject rtype window dedup level evidence now"
  note p = pending_new [OF rt ok None a_def]
  have fields: "al_id a = db_next d" "al_environment a = env" "al_dedup_key a = dedup" "al_version a = 1"
    "al_severity a = level" "al_evidence_fingerprint a = evidence" "al_last_notified_at a = None"
    by (simp_all add: a_def new_alert_def)
  let ?d = "d\<lparr>db_next := Suc (db_next d), db_alerts := db_alerts d @ [a]\<rparr>"
  have occ: "occurrences_of ?d (al_id a) = occurrences_of d (al_id a)" by (simp add: occurrences_of_def)
  have run: "record_risk rt env subject rtype window rid level evidence corr now cooldown important d =
      record_occurrence rt None a rid corr now cooldown important ?d"
    using None l p(2) by (simp add: record_risk_def route_create new_id_def Let_def dedup a_def)
  have rid': "rid \<in> rk_id ` set (db_risk_results ?d)" using rid by simp
  from record_occurrence_recorded [OF rt p(1) rid' occ refl, of None corr now cooldown important]
  obtain r d' b where "record_occurrence rt None a rid corr now cooldown important ?d = Inr (Some r, d')" "alerts_ok rt d'"
     "ar_alert_id r = al_id a" "ar_version r = al_version a" "ar_occurrence_created r"
     "ar_notification_created r = should_notify None (al_severity a) (al_last_notified_at a) now cooldown important"
     "find_alert (al_environment a) (al_dedup_key a) d' = Some b" "al_id b = al_id a" "al_version b = al_version a"
     "recorded (al_severity a) (al_evidence_fingerprint a) b"
     "length (occurrences_of d' (al_id a)) = length (occurrences_of d (al_id a)) + 1"
     "length (db_outbox d') = length (db_outbox d) + (if ar_notification_created r then 1 else 0)"
    by auto
  then show ?thesis unfolding run using None
    by (intro exI [of _ r] exI [of _ d'] exI [of _ b]) (simp add: fields)
next
  case (Some b)
  then have b: "b \<in> set (db_alerts d)" "al_environment b = env" "al_dedup_key b = dedup"
    by (simp_all add: find_alert_iff [OF ok])
  show ?thesis
  proof (cases "recorded level evidence b")
    case True
    then have "record_risk rt env subject rtype window rid level evidence corr now cooldown important d =
        Inr (Some \<lparr>ar_alert_id = al_id b, ar_occurrence_created = False, ar_notification_created = False,
                   ar_version = al_version b\<rparr>, d)"
      using Some l by (simp add: record_risk_def route_create recorded_def dedup)
    with True Some ok show ?thesis
      by (intro exI [of _ "\<lparr>ar_alert_id = al_id b, ar_occurrence_created = False, ar_notification_created = False,
                   ar_version = al_version b\<rparr>"] exI [of _ d] exI [of _ b]) simp
  next
    case False
    define a where "a = changed_alert level evidence b"
    note p = pending_changed [OF rt ok b(1) a_def]
    have fields: "al_id a = al_id b" "al_environment a = env" "al_dedup_key a = dedup"
      "al_severity a = level" "al_evidence_fingerprint a = evidence" "al_last_notified_at a = al_last_notified_at b"
      using b by (simp_all add: a_def changed_alert_def)
    let ?d = "d\<lparr>db_alerts := update_where (\<lambda>x. al_id x = al_id b) (\<lambda>_. a) (db_alerts d)\<rparr>"
    have occ: "occurrences_of ?d (al_id a) = occurrences_of d (al_id a)" by (simp add: occurrences_of_def)
    have run: "record_risk rt env subject rtype window rid level evidence corr now cooldown important d =
        record_occurrence rt (Some (al_severity b)) a rid corr now cooldown important ?d"
      using Some l False by (auto simp: record_risk_def route_create Let_def a_def recorded_def dedup)
    have rid': "rid \<in> rk_id ` set (db_risk_results ?d)" using rid by simp
    from record_occurrence_recorded [OF rt p rid' occ refl, of "Some (al_severity b)" corr now cooldown important]
    obtain r d' c where "record_occurrence rt (Some (al_severity b)) a rid corr now cooldown important ?d = Inr (Some r, d')"
       "alerts_ok rt d'" "ar_alert_id r = al_id a" "ar_version r = al_version a" "ar_occurrence_created r"
       "ar_notification_created r = should_notify (Some (al_severity b)) (al_severity a) (al_last_notified_at a) now cooldown important"
       "find_alert (al_environment a) (al_dedup_key a) d' = Some c" "al_id c = al_id a" "al_version c = al_version a"
       "recorded (al_severity a) (al_evidence_fingerprint a) c"
       "length (occurrences_of d' (al_id a)) = length (occurrences_of d (al_id a)) + 1"
       "length (db_outbox d') = length (db_outbox d) + (if ar_notification_created r then 1 else 0)"
      by auto
    then show ?thesis unfolding run using Some False
      by (intro exI [of _ r] exI [of _ d'] exI [of _ c]) (simp add: fields)
  qed
qed

text \<open>
  C14: Recording a risk never fails and keeps one alert per subject, risk type and window.  A low
  risk records nothing; otherwise the alert ends with the given level and evidence, exactly
  one occurrence is added unless the alert already had both (then nothing changes at all),
  and exactly one outbox event is added when the notification rules say so.
\<close>

theorem record_risk_effect:
  assumes "runtime_ok rt" and "alerts_ok rt d" and "rid \<in> rk_id ` set (db_risk_results d)"
    and "alert_dedup_key rt subject rtype window = dedup"
  shows "(level = RiskLow \<and> record_risk rt env subject rtype window rid level evidence corr now cooldown important d = Inr (None, d)) \<or>
    (\<exists>r d' a. record_risk rt env subject rtype window rid level evidence corr now cooldown important d = Inr (Some r, d') \<and>
     alerts_ok rt d' \<and> find_alert env dedup d' = Some a \<and> recorded level evidence a \<and>
     ar_alert_id r = al_id a \<and> ar_version r = al_version a \<and>
     (ar_occurrence_created r \<longleftrightarrow> \<not> (\<exists>b. find_alert env dedup d = Some b \<and> recorded level evidence b)) \<and>
     (\<not> ar_occurrence_created r \<longrightarrow> d' = d) \<and>
     length (occurrences_of d' (al_id a)) = length (occurrences_of d (al_id a)) + (if ar_occurrence_created r then 1 else 0) \<and>
     length (db_outbox d') = length (db_outbox d) + (if ar_notification_created r then 1 else 0) \<and>
     (ar_notification_created r \<longleftrightarrow> ar_occurrence_created r \<and> (case find_alert env dedup d of
        None \<Rightarrow> should_notify None level None now cooldown important
      | Some b \<Rightarrow> should_notify (Some (al_severity b)) level (al_last_notified_at b) now cooldown important)))"
proof (cases "level = RiskLow")
  case True
  then show ?thesis by (simp add: record_risk_def route_create)
next
  case False
  from record_risk_run [OF assms(1-3) False assms(4)] show ?thesis by (rule disjI2)
qed

text \<open>
  Recording the same risk again is idempotent: once a risk has been recorded, the same level
  and evidence for the same subject, type and window create neither an occurrence nor a
  notification and leave the database as it is, whatever the time and the result row.
\<close>

theorem record_risk_repeated:
  assumes "runtime_ok rt" and "alerts_ok rt d" and "rid \<in> rk_id ` set (db_risk_results d)"
    and run: "record_risk rt env subject rtype window rid level evidence corr now cooldown important d = Inr (Some r, d')"
  shows "record_risk rt env subject rtype window rid' level evidence corr' now' cooldown' important' d' =
    Inr (Some \<lparr>ar_alert_id = ar_alert_id r, ar_occurrence_created = False, ar_notification_created = False,
               ar_version = ar_version r\<rparr>, d')"
proof -
  from run have l: "level \<noteq> RiskLow" by (auto simp: record_risk_def route_create)
  from record_risk_run [OF assms(1-3) l refl, where env = env and subject = subject and rtype = rtype and window = window
      and evidence = evidence and corr = corr and now = now and cooldown = cooldown and important = important] run
  obtain a where "find_alert env (alert_dedup_key rt subject rtype window) d' = Some a" "recorded level evidence a"
    "ar_alert_id r = al_id a" "ar_version r = al_version a" by auto
  with l show ?thesis by (simp add: record_risk_def route_create recorded_def)
qed

definition legal_alert_step :: "alert_state \<Rightarrow> alert_state \<Rightarrow> string option \<Rightarrow> bool" where
  "legal_alert_step current target reason \<longleftrightarrow> target \<in> alert_targets current \<and>
     (target = Dismissed \<longrightarrow> reason \<noteq> None \<and> reason \<noteq> Some [])"

lemma validate_alert_Inr: "validate_alert_transition c t r = Inr u \<longleftrightarrow> legal_alert_step c t r"
  by (auto simp: validate_alert_transition_def legal_alert_step_def split: option.splits)

lemma validate_alert_Inl: "\<not> legal_alert_step c t r \<Longrightarrow> \<exists>m. validate_alert_transition c t r = Inl (ValueError m)"
  by (auto simp: validate_alert_transition_def legal_alert_step_def split: option.splits)

lemma alerts_ok_update:
  assumes ok: "alerts_ok rt d" and alerts: "db_alerts d' = update_where P f (db_alerts d)"
    and frame: "db_occurrences d' = db_occurrences d" "db_outbox d' = db_outbox d" "db_next d \<le> db_next d'"
    and f: "\<And>x. al_id (f x) = al_id x \<and> al_environment (f x) = al_environment x \<and> al_dedup_key (f x) = al_dedup_key x \<and>
      al_severity (f x) = al_severity x \<and> al_evidence_fingerprint (f x) = al_evidence_fingerprint x \<and> al_version x \<le> al_version (f x)"
  shows "alerts_ok rt d'"
proof -
  let ?g = "\<lambda>x. if P x then f x else x"
  have set: "set (db_alerts d') = ?g ` set (db_alerts d)" by (simp add: alerts set_update_where)
  have g: "al_id (?g x) = al_id x" "al_severity (?g x) = al_severity x" "al_evidence_fingerprint (?g x) = al_evidence_fingerprint x"
    "al_version x \<le> al_version (?g x)" for x using f [of x] by simp_all
  have occ: "occurrences_of d' i = occurrences_of d i" for i by (simp add: occurrences_of_def frame)
  have maps: "map al_id (db_alerts d') = map al_id (db_alerts d)"
    "map (\<lambda>a. (al_environment a, al_dedup_key a)) (db_alerts d') = map (\<lambda>a. (al_environment a, al_dedup_key a)) (db_alerts d)"
    unfolding alerts by (rule map_update_where, simp add: f)+
  have each: "alert_ok d' y" if y: "y \<in> set (db_alerts d')" for y
  proof -
    from y obtain x where x: "x \<in> set (db_alerts d)" "y = ?g x" unfolding set by blast
    with ok have "alert_ok d x" by (simp add: alerts_ok_def)
    then show ?thesis using frame(3) unfolding alert_ok_def x(2) g occ by simp
  qed
  have keys: "alert_keys_ok rt d'" unfolding alert_keys_ok_def
  proof (intro ballI allI impI)
    fix e i v assume e: "e \<in> set (db_outbox d')" "ob_consumer_key e = alert_key rt i v"
    have "e \<in> set (db_outbox d)" using e(1) by (simp add: frame)
    from alert_key_row [OF ok this e(2)] obtain b where b: "b \<in> set (db_alerts d)" "al_id b = i" "v \<le> al_version b" by blast
    have "?g b \<in> set (db_alerts d')" unfolding set using b(1) by blast
    moreover have "al_id (?g b) = i" using g(1) b(2) by simp
    moreover have "v \<le> al_version (?g b)" using g(4) [of b] b(3) by (rule order_trans [rotated])
    ultimately show "\<exists>a \<in> set (db_alerts d'). al_id a = i \<and> v \<le> al_version a" by blast
  qed
  have "\<forall>x \<in> set (db_occurrences d'). ao_alert_id x < db_next d'"
    using ok frame by (auto simp: alerts_ok_def)
  then show ?thesis using ok each keys unfolding alerts_ok_def maps by simp
qed

text \<open>
  The alert workflow is optimistic and total.  On an existing alert a wrong version changes
  nothing and returns false, an illegal step or a dismissal without a reason raises, and
  otherwise the alert takes the target state and the next version, the change is audited
  and no other alert changes; of two managers with the same version the second gets false.
\<close>

theorem alert_workflow:
  assumes "runtime_ok rt" and "alerts_ok rt d" and "log_ok rt d" and "a \<in> set (db_alerts d)"
  shows "(al_version a \<noteq> v \<longrightarrow> alert_transition rt now (al_id a) v target actor corr reason d = Inr (False, d)) \<and>
    (al_version a = v \<and> \<not> legal_alert_step (al_state a) target reason \<longrightarrow>
       (\<exists>m. alert_transition rt now (al_id a) v target actor corr reason d = Inl (ValueError m))) \<and>
    (al_version a = v \<and> legal_alert_step (al_state a) target reason \<longrightarrow>
       alert_transition rt now (al_id a) v target actor corr reason d = Inl (IntegrityError ''uq_audit_env_hash'') \<or>
       (\<exists>d'. alert_transition rt now (al_id a) v target actor corr reason d = Inr (True, d') \<and>
          alerts_ok rt d' \<and> log_ok rt d' \<and>
          db_alerts d' = update_where (\<lambda>b. al_id b = al_id a) (\<lambda>b. b\<lparr>al_state := target, al_version := v + 1\<rparr>) (db_alerts d) \<and>
          (\<forall>now' target' actor' corr' reason'.
             alert_transition rt now' (al_id a) v target' actor' corr' reason' d' = Inr (False, d'))))"
proof -
  have find: "select_one (\<lambda>b. al_id b = al_id a) rows = Some b"
    if "distinct (map al_id rows)" "b \<in> set rows" "al_id b = al_id a" for rows b
    using that by (intro select_one_unique [where key = al_id]) auto
  have ids: "distinct (map al_id (db_alerts d))" using assms(2) by (simp add: alerts_ok_def)
  note fa = find [OF ids assms(4) refl]
  let ?m = "\<lambda>b. al_id b = al_id a \<and> al_version b = v"
  let ?audit = "\<lparr>aa_action_type = ''alert.'' @ alert_state_value target, aa_actor_type = ''manager'',
      aa_actor_id = actor, aa_subject_ids = [rt_uuid rt (al_id a), al_subject_id a], aa_correlation_id = corr,
      aa_prior_state = alert_state_json (al_state a) v, aa_new_state = alert_state_json target (v + 1),
      aa_safe_metadata = JObj [(''dismissal_reason'', json_opt JStr reason)]\<rparr>"
  let ?d = "d\<lparr>db_alerts := update_where ?m (\<lambda>b. b\<lparr>al_state := target, al_version := al_version b + 1\<rparr>) (db_alerts d)\<rparr>"
  have stale: "alert_transition rt now (al_id a) v target actor corr reason d = Inr (False, d)" if "al_version a \<noteq> v"
    using that fa by (simp add: alert_transition_def)
  have illegal: "\<exists>m. alert_transition rt now (al_id a) v target actor corr reason d = Inl (ValueError m)"
    if "al_version a = v" "\<not> legal_alert_step (al_state a) target reason"
    using that(1) fa validate_alert_Inl [OF that(2)] by (auto simp: alert_transition_def)
  have legal: "alert_transition rt now (al_id a) v target actor corr reason d = Inl (IntegrityError ''uq_audit_env_hash'') \<or>
       (\<exists>d'. alert_transition rt now (al_id a) v target actor corr reason d = Inr (True, d') \<and>
          alerts_ok rt d' \<and> log_ok rt d' \<and>
          db_alerts d' = update_where (\<lambda>b. al_id b = al_id a) (\<lambda>b. b\<lparr>al_state := target, al_version := v + 1\<rparr>) (db_alerts d) \<and>
          (\<forall>now' target' actor' corr' reason'.
             alert_transition rt now' (al_id a) v target' actor' corr' reason' d' = Inr (False, d')))"
    if v: "al_version a = v" and l: "legal_alert_step (al_state a) target reason"
  proof -
    have "rowcount ?m (db_alerts d) = 1"
      using ids assms(4) v by (intro rowcount_key [where key = al_id and r = a]) auto
    moreover have "validate_alert_transition (al_state a) target reason = Inr ()" using l by (simp add: validate_alert_Inr)
    ultimately have run: "alert_transition rt now (al_id a) v target actor corr reason d =
        bindr (audit_append rt now (al_environment a) ?audit ?d) (\<lambda>(_, d'). Inr (True, d'))"
      using v fa by (simp add: alert_transition_def Let_def)
    have log: "log_ok rt ?d" using log_ok_cong [of ?d d] assms(3) by simp
    show ?thesis
    proof (cases "audit_append rt now (al_environment a) ?audit ?d")
      case (Inl err)
      with audit_append_refused(1) [OF assms(1) log Inl] show ?thesis unfolding run by simp
    next
      case (Inr x)
      obtain ev d' where x: "x = (ev, d')" by (cases x)
      note e = audit_append_Inr [OF Inr [unfolded x]]
      have rows: "db_alerts d' = update_where ?m (\<lambda>b. b\<lparr>al_state := target, al_version := al_version b + 1\<rparr>) (db_alerts d)"
        by (simp add: e(2))
      have rows': "update_where ?m (\<lambda>b. b\<lparr>al_state := target, al_version := al_version b + 1\<rparr>) (db_alerts d) =
          update_where (\<lambda>b. al_id b = al_id a) (\<lambda>b. b\<lparr>al_state := target, al_version := v + 1\<rparr>) (db_alerts d)"
        unfolding update_where_def using alert_of_id [OF assms(2) _ assms(4)] v by auto
      have ok': "alerts_ok rt d'"
        by (rule alerts_ok_update [OF assms(2) rows]) (simp_all add: e(2))
      have "a\<lparr>al_state := target, al_version := v + 1\<rparr> \<in> set (db_alerts d')"
        unfolding rows rows' using assms(4) by (auto simp: set_update_where)
      from find [OF _ this] ok' have "select_one (\<lambda>b. al_id b = al_id a) (db_alerts d') = Some (a\<lparr>al_state := target, al_version := v + 1\<rparr>)"
        by (simp add: alerts_ok_def)
      then have second: "alert_transition rt now' (al_id a) v target' actor' corr' reason' d' = Inr (False, d')"
        for now' target' actor' corr' reason' by (simp add: alert_transition_def)
      have "alert_transition rt now (al_id a) v target actor corr reason d = Inr (True, d')"
        unfolding run using Inr x by simp
      then show ?thesis using ok' log_ok_append [OF log Inr [unfolded x]] rows rows' second by auto
    qed
  qed
  from stale illegal legal show ?thesis by blast
qed

section \<open>Witnesses\<close>

definition sample_adb :: db where
  "sample_adb = empty_db\<lparr>db_next := 1, db_risk_results := [\<lparr>rk_id = 0, rk_environment = Dev, rk_created_at = 0,
     rk_snapshot_id = 0, rk_score_family = ''employee_overload'', rk_score = Some 80, rk_level = Some RiskCritical,
     rk_confidence = ConfHigh, rk_scoring_version = ''v1'', rk_factors = JList [], rk_thresholds = JObj [],
     rk_evidence_references = [''e''], rk_missing_evidence = [], rk_excluded_evidence = []\<rparr>]\<rparr>"

lemma sample_adb_ok: "alerts_ok sample_runtime sample_adb" "0 \<in> rk_id ` set (db_risk_results sample_adb)"
  by (simp_all add: sample_adb_def empty_db_def alerts_ok_def alert_keys_ok_def)

lemma sample_record:
  "\<exists>r d' a. record_risk sample_runtime Dev ''E1'' ''employee_overload'' ''w'' 0 RiskCritical ''f'' ''c'' 5 (hours 4) False sample_adb
     = Inr (Some r, d') \<and> alerts_ok sample_runtime d' \<and> a \<in> set (db_alerts d') \<and> al_state a = AlertNew \<and> log_ok sample_runtime d'"
  by (simp add: record_risk_def route_risk_def sample_adb_def empty_db_def find_alert_def new_id_def Let_def insert_row_def
      record_occurrence_def should_notify_def outbox_append_cases find_event_def new_alert_def occurrences_of_def
      alerts_ok_def alert_ok_def alert_keys_ok_def log_ok_def verify_chain_def env_events_def)
    (use alert_key_inj [OF sample_runtime_ok, of 1 1] in auto)

theorem record_risk_effect_witness:
  "\<exists>r d'. record_risk sample_runtime Dev ''E1'' ''employee_overload'' ''w'' 0 RiskCritical ''f'' ''c'' 5 (hours 4) False sample_adb
     = Inr (Some r, d') \<and> ar_notification_created r \<and> length (db_outbox d') = 1"
  using record_risk_effect [OF sample_runtime_ok sample_adb_ok refl, where level = RiskCritical and env = Dev
      and subject = "''E1''" and rtype = "''employee_overload''" and window = "''w''" and evidence = "''f''"
      and corr = "''c''" and now = 5 and cooldown = "hours 4" and important = False]
  by (auto simp: find_alert_def sample_adb_def empty_db_def should_notify_def route_risk_def)

theorem record_risk_repeated_witness:
  "\<exists>r d'. record_risk sample_runtime Dev ''E1'' ''employee_overload'' ''w'' 7 RiskCritical ''f'' ''c2'' 9 (hours 4) True d' = Inr (Some r, d')"
proof -
  obtain r d' where "record_risk sample_runtime Dev ''E1'' ''employee_overload'' ''w'' 0 RiskCritical ''f'' ''c'' 5 (hours 4) False sample_adb
     = Inr (Some r, d')" using sample_record by blast
  from record_risk_repeated [OF sample_runtime_ok sample_adb_ok this] show ?thesis by blast
qed

theorem alert_workflow_witness:
  "\<exists>d' a. a \<in> set (db_alerts d') \<and>
     (\<exists>m. alert_transition sample_runtime 6 (al_id a) (al_version a) Dismissed ''m'' ''c'' None d' = Inl (ValueError m))"
proof -
  obtain d' a where d: "alerts_ok sample_runtime d'" "a \<in> set (db_alerts d')" "al_state a = AlertNew" "log_ok sample_runtime d'"
    using sample_record by blast
  from alert_workflow [OF sample_runtime_ok d(1,4,2), of "al_version a" 6 Dismissed "''m''" "''c''" None] d(2)
  show ?thesis by (auto simp: legal_alert_step_def)
qed

end
