(* ===== verification/Scans.thy ===== *)
theory Scans imports Outbox begin

text \<open>
  domain/workforce\_risk/scans/service.py with persistence/scan\_repository.py, and
  persistence/report\_repository.py: scan runs and reports are created once per idempotency key, a
  scan run moves by compare-and-set transitions, and only the worker that wins the first
  one runs the pipeline.
\<close>

section \<open>Tickets and keys\<close>

fun scan_state_value :: "scan_state \<Rightarrow> string" where
  "scan_state_value Queued = ''queued''"
| "scan_state_value Running = ''running''"
| "scan_state_value Completed = ''completed''"
| "scan_state_value CompletedDegraded = ''completed_degraded''"
| "scan_state_value Failed = ''failed''"
| "scan_state_value SkippedDuplicate = ''skipped_duplicate''"

record scan_ticket =
  st_scan_run_id :: string
  st_state :: scan_state
  st_duplicate :: bool

record pipeline_result =
  pl_degraded :: bool
  pl_risk_result_ids :: "string list"
  pl_alert_ids :: "string list"
  pl_report_id :: "string option"

definition scan_window_key :: "runtime \<Rightarrow> environment \<Rightarrow> string \<Rightarrow> string \<Rightarrow> string" where
  "scan_window_key rt env scope window =
     rt_sha256 rt (environment_value env @ '':'' @ scope @ '':'' @ window)"

section \<open>DatabaseScanStore\<close>

definition find_scan :: "environment \<times> string \<Rightarrow> db \<Rightarrow> scan_row option" where
  "find_scan k d = select_one (\<lambda>s. (sn_environment s, sn_idempotency_key s) = k) (db_scans d)"

definition new_scan :: "uuid \<Rightarrow> environment \<Rightarrow> timestamp \<Rightarrow> string \<Rightarrow> string \<Rightarrow> string \<Rightarrow> scan_row" where
  "new_scan sid env now scope key corr = \<lparr>sn_id = sid, sn_environment = env, sn_created_at = now, sn_scope = scope,
     sn_state = Queued, sn_idempotency_key = key, sn_correlation_id = corr, sn_started_at = None,
     sn_completed_at = None, sn_failure_reason = None\<rparr>"

text \<open>The row \<open>enqueue\<close> finds or inserts.\<close>

definition scan_record ::
  "environment \<Rightarrow> string \<Rightarrow> string \<Rightarrow> string \<Rightarrow> timestamp \<Rightarrow> db \<Rightarrow> scan_row tx" where
  "scan_record env key scope corr now d =
    (case find_scan (env, key) d of
       Some existing \<Rightarrow> Inr (existing, d)
     | None \<Rightarrow>
        (let (sid, d1) = new_id d; r = new_scan sid env now scope key corr in
         bindr (insert_row ''uq_scan_runs_environment_idempotency'' (\<lambda>s. (sn_environment s, sn_idempotency_key s)) r (db_scans d1))
           (\<lambda>rows. Inr (r, d1\<lparr>db_scans := rows\<rparr>))))"

definition scan_enqueue ::
  "runtime \<Rightarrow> environment \<Rightarrow> string \<Rightarrow> string \<Rightarrow> string \<Rightarrow> timestamp \<Rightarrow> db \<Rightarrow> scan_ticket tx" where
  "scan_enqueue rt env scope key corr now d =
    bindr (scan_record env key scope corr now d) (\<lambda>(r, d').
      Inr (\<lparr>st_scan_run_id = rt_uuid rt (sn_id r), st_state = (if find_scan (env, key) d = None then Queued else sn_state r),
            st_duplicate = (find_scan (env, key) d \<noteq> None)\<rparr>, d'))"

definition transition_values :: "timestamp \<Rightarrow> scan_state \<Rightarrow> string option \<Rightarrow> scan_row \<Rightarrow> scan_row" where
  "transition_values now target reason r =
     r\<lparr>sn_state := target, sn_failure_reason := reason,
       sn_started_at := (if target = Running then Some now else sn_started_at r),
       sn_completed_at := (if target \<in> {Completed, CompletedDegraded, Failed, SkippedDuplicate} then Some now
                           else sn_completed_at r)\<rparr>"

definition scan_transition ::
  "runtime \<Rightarrow> timestamp \<Rightarrow> string \<Rightarrow> scan_state \<Rightarrow> scan_state \<Rightarrow> string option \<Rightarrow> db \<Rightarrow> bool tx" where
  "scan_transition rt now scan_run_id expected target reason d =
    bindr (parse_uuid rt scan_run_id) (\<lambda>sid.
      let matches = (\<lambda>s. sn_id s = sid \<and> sn_state s = expected) in
      Inr (rowcount matches (db_scans d) = 1,
           d\<lparr>db_scans := update_where matches (transition_values now target reason) (db_scans d)\<rparr>))"

definition scan_get :: "runtime \<Rightarrow> environment \<Rightarrow> string \<Rightarrow> db \<Rightarrow> scan_ticket option res" where
  "scan_get rt env scan_run_id d =
    bindr (parse_uuid rt scan_run_id) (\<lambda>sid.
      Inr (map_option (\<lambda>s. \<lparr>st_scan_run_id = rt_uuid rt (sn_id s), st_state = sn_state s, st_duplicate = False\<rparr>)
        (select_one (\<lambda>s. sn_id s = sid \<and> sn_environment s = env) (db_scans d))))"

section \<open>ScanService\<close>

definition scan_request ::
  "runtime \<Rightarrow> environment \<Rightarrow> string \<Rightarrow> string \<Rightarrow> string \<Rightarrow> timestamp \<Rightarrow> db \<Rightarrow> scan_ticket tx" where
  "scan_request rt env scope window corr now d =
     scan_enqueue rt env scope (scan_window_key rt env scope window) corr now d"

text \<open>
  The pipeline works on the database and the outside world; its transactions commit on their own,
  so that an exception leaves what it has done.  Every step of \<open>execute\<close> is a transaction.
\<close>

type_synonym 'w pipeline = "string \<Rightarrow> string \<Rightarrow> db \<times> 'w \<Rightarrow> pipeline_result res \<times> (db \<times> 'w)"

definition scan_execute ::
  "runtime \<Rightarrow> (nat \<Rightarrow> timestamp) \<Rightarrow> 'w pipeline \<Rightarrow> scan_ticket \<Rightarrow> string \<Rightarrow> string \<Rightarrow> db \<Rightarrow> 'w
     \<Rightarrow> scan_state res \<times> db \<times> 'w" where
  "scan_execute rt clock pipeline ticket scope corr d w =
    (if st_duplicate ticket then (Inr (st_state ticket), d, w)
     else case scan_transition rt (clock 0) (st_scan_run_id ticket) Queued Running None d of
       Inl e \<Rightarrow> (Inl e, d, w)
     | Inr (False, d1) \<Rightarrow> (Inr SkippedDuplicate, d1, w)
     | Inr (True, d1) \<Rightarrow>
        (case pipeline scope corr (d1, w) of
           (Inl exc, (d2, w')) \<Rightarrow>
             (case scan_transition rt (clock 1) (st_scan_run_id ticket) Running Failed (Some (error_name exc)) d2 of
                Inl e \<Rightarrow> (Inl e, d2, w')
              | Inr (_, d3) \<Rightarrow> (Inr Failed, d3, w'))
         | (Inr result, (d2, w')) \<Rightarrow>
             (let target = (if pl_degraded result then CompletedDegraded else Completed) in
              case scan_transition rt (clock 1) (st_scan_run_id ticket) Running target None d2 of
                Inl e \<Rightarrow> (Inl e, d2, w')
              | Inr (_, d3) \<Rightarrow> (Inr target, d3, w'))))"

definition scan_status :: "runtime \<Rightarrow> environment \<Rightarrow> string \<Rightarrow> db \<Rightarrow> scan_ticket option res" where
  "scan_status rt env scan_run_id d = scan_get rt env scan_run_id d"

section \<open>ReportRepository\<close>

definition find_report :: "environment \<times> string \<Rightarrow> db \<Rightarrow> report_row option" where
  "find_report k d = select_one (\<lambda>r. (rm_environment r, rm_idempotency_key r) = k) (db_reports d)"

definition create_pending :: "environment \<Rightarrow> string \<Rightarrow> string \<Rightarrow> timestamp \<Rightarrow> db \<Rightarrow> report_row tx" where
  "create_pending env key report_type created_at d =
    (case find_report (env, key) d of
       Some existing \<Rightarrow> Inr (existing, d)
     | None \<Rightarrow>
        (let (rid, d1) = new_id d;
             r = \<lparr>rm_id = rid, rm_environment = env, rm_created_at = created_at, rm_report_type = report_type,
                  rm_status = ReportPending, rm_object_key = None, rm_object_version = None, rm_checksum = None,
                  rm_idempotency_key = key\<rparr>
         in bindr (insert_row ''uq_reports_env_idempotency'' (\<lambda>r. (rm_environment r, rm_idempotency_key r)) r (db_reports d1))
              (\<lambda>rows. Inr (r, d1\<lparr>db_reports := rows\<rparr>))))"

definition mark_stored :: "uuid \<Rightarrow> string \<Rightarrow> string \<Rightarrow> string \<Rightarrow> db \<Rightarrow> db" where
  "mark_stored report_id object_key object_version checksum d = d\<lparr>db_reports := update_where (\<lambda>r. rm_id r = report_id)
     (\<lambda>r. r\<lparr>rm_status := ReportStored, rm_object_key := Some object_key, rm_object_version := Some object_version,
            rm_checksum := Some checksum\<rparr>) (db_reports d)\<rparr>"

definition mark_failed :: "uuid \<Rightarrow> db \<Rightarrow> db" where
  "mark_failed report_id d = d\<lparr>db_reports := update_where (\<lambda>r. rm_id r = report_id)
     (\<lambda>r. r\<lparr>rm_status := ReportFailed\<rparr>) (db_reports d)\<rparr>"

section \<open>Idempotent stores\<close>

lemma scan_record_cases:
  "scan_record env key scope corr now d =
    (case find_scan (env, key) d of Some r \<Rightarrow> Inr (r, d)
     | None \<Rightarrow> (let r = new_scan (db_next d) env now scope key corr in
         Inr (r, d\<lparr>db_next := Suc (db_next d), db_scans := db_scans d @ [r]\<rparr>)))"
  by (auto simp: scan_record_def find_scan_def new_id_def insert_row_def list_ex_iff Let_def new_scan_def
      split: option.splits)

interpretation scan_store: idempotent_store find_scan
  "\<lambda>(env, key) (scope, corr, now). scan_record env key scope corr now"
  by (rule keyed_store [OF find_scan_def]) (auto simp: scan_record_cases new_scan_def Let_def split: prod.splits)

lemma create_pending_cases:
  "create_pending env key t now d =
    (case find_report (env, key) d of Some r \<Rightarrow> Inr (r, d)
     | None \<Rightarrow> (let r = \<lparr>rm_id = db_next d, rm_environment = env, rm_created_at = now, rm_report_type = t,
                  rm_status = ReportPending, rm_object_key = None, rm_object_version = None, rm_checksum = None,
                  rm_idempotency_key = key\<rparr> in
         Inr (r, d\<lparr>db_next := Suc (db_next d), db_reports := db_reports d @ [r]\<rparr>)))"
  by (auto simp: create_pending_def find_report_def new_id_def insert_row_def list_ex_iff Let_def
      split: option.splits)

interpretation report_store: idempotent_store find_report
  "\<lambda>(env, key) (t, now). create_pending env key t now"
  by (rule keyed_store [OF find_report_def]) (auto simp: create_pending_cases Let_def split: prod.splits)

section \<open>Properties\<close>

lemma scan_transition_run:
  assumes "runtime_ok rt" and "distinct (map sn_id (db_scans d))" and "r \<in> set (db_scans d)"
  shows "scan_transition rt now (rt_uuid rt (sn_id r)) expected target reason d =
    Inr (sn_state r = expected,
      d\<lparr>db_scans := update_where (\<lambda>s. sn_id s = sn_id r \<and> sn_state s = expected) (transition_values now target reason) (db_scans d)\<rparr>)"
proof -
  let ?m = "\<lambda>s. sn_id s = sn_id r \<and> sn_state s = expected"
  have "rowcount ?m (db_scans d) = 1 \<longleftrightarrow> sn_state r = expected"
  proof
    assume "rowcount ?m (db_scans d) = 1"
    then have "filter ?m (db_scans d) \<noteq> []" unfolding rowcount_def by (metis list.size(3) zero_neq_one)
    then obtain s where "s \<in> set (db_scans d)" "?m s" by (auto simp: filter_empty_conv)
    with assms(2,3) show "sn_state r = expected" by (auto simp: distinct_map inj_on_def)
  next
    assume "sn_state r = expected"
    with assms(2,3) show "rowcount ?m (db_scans d) = 1"
      by (intro rowcount_key [where key = sn_id and r = r]) auto
  qed
  with assms(1) show ?thesis by (simp add: scan_transition_def Let_def)
qed

lemma scan_transition_id [simp]: "sn_id (transition_values now target reason s) = sn_id s"
  by (simp add: transition_values_def)

lemma scan_rows_after:
  assumes "distinct (map sn_id rows)" and "r \<in> set rows" and "sn_state r = expected"
  shows "distinct (map sn_id (update_where (\<lambda>s. sn_id s = sn_id r \<and> sn_state s = expected) (transition_values now target reason) rows))"
    and "transition_values now target reason r \<in>
      set (update_where (\<lambda>s. sn_id s = sn_id r \<and> sn_state s = expected) (transition_values now target reason) rows)"
proof -
  have "map sn_id (update_where (\<lambda>s. sn_id s = sn_id r \<and> sn_state s = expected) (transition_values now target reason) rows) = map sn_id rows"
    by (rule map_update_where) simp
  with assms(1) show "distinct (map sn_id (update_where (\<lambda>s. sn_id s = sn_id r \<and> sn_state s = expected) (transition_values now target reason) rows))"
    by simp
  show "transition_values now target reason r \<in>
      set (update_where (\<lambda>s. sn_id s = sn_id r \<and> sn_state s = expected) (transition_values now target reason) rows)"
    using assms(2,3) by (auto simp: set_update_where intro!: rev_image_eqI [of r])
qed

lemma scan_not_queued:
  assumes "runtime_ok rt" and "distinct (map sn_id (db_scans d))" and "r \<in> set (db_scans d)"
    and "\<not> st_duplicate t" and "st_scan_run_id t = rt_uuid rt (sn_id r)" and "sn_state r \<noteq> Queued"
  shows "scan_execute rt clock pipeline t scope corr d w = (Inr SkippedDuplicate, d, w)"
proof -
  have "update_where (\<lambda>s. sn_id s = sn_id r \<and> sn_state s = Queued) f (db_scans d) = db_scans d" for f
    unfolding update_where_def using assms(2,3,6)
    by (intro map_idI) (auto simp: distinct_map inj_on_def)
  then show ?thesis using assms(4,5,6) scan_transition_run [OF assms(1-3), of "clock 0" Queued Running None]
    by (simp add: scan_execute_def)
qed


text \<open>
  A scan window is requested once: after a request, and after any number of further enqueues
  by any environment, the same scope and window get a duplicate ticket of the same run and
  nothing is inserted.
\<close>

theorem scan_request_idempotent:
  assumes "scan_request rt env scope window corr now d = Inr (t, d1)" and "scan_store.puts xs d1 = Inr d2"
  shows "\<exists>t'. scan_request rt env scope window corr' now' d2 = Inr (t', d2) \<and> st_duplicate t' \<and>
     st_scan_run_id t' = st_scan_run_id t"
proof -
  let ?k = "(env, scan_window_key rt env scope window)"
  from assms(1) obtain r where put: "scan_record env (snd ?k) scope corr now d = Inr (r, d1)"
    and t: "st_scan_run_id t = rt_uuid rt (sn_id r)"
    by (auto simp: scan_request_def scan_enqueue_def bindr_Inr_iff)
  have again: "scan_record env (snd ?k) scope corr' now' d2 = Inr (r, d2)"
    using scan_store.put_after_puts [of ?k "(scope, corr, now)" d r d1 xs d2 "(scope, corr', now')"] put assms(2) by simp
  have "find_scan ?k d2 = Some r"
    using scan_store.put_lookup [of ?k "(scope, corr', now')" d2 r d2] again by simp
  with again t show ?thesis by (simp add: scan_request_def scan_enqueue_def)
qed

section \<open>Witnesses\<close>

definition sample_scan_db :: db where
  "sample_scan_db = empty_db\<lparr>db_next := 1, db_scans := [new_scan 0 Dev 0 ''all'' ''k'' ''c'']\<rparr>"

definition sample_pipeline :: "nat pipeline" where
  "sample_pipeline scope corr s = (Inr \<lparr>pl_degraded = False, pl_risk_result_ids = [], pl_alert_ids = [],
     pl_report_id = None\<rparr>, (fst s, Suc (snd s)))"


theorem scan_request_idempotent_witness:
  "\<exists>t' d2. scan_request sample_runtime Dev ''all'' ''w1'' ''c2'' 9 d2 = Inr (t', d2) \<and> st_duplicate t'"
proof -
  obtain t d1 where "scan_request sample_runtime Dev ''all'' ''w1'' ''c'' 5 empty_db = Inr (t, d1)"
    by (simp add: scan_request_def scan_enqueue_def scan_record_cases find_scan_def empty_db_def Let_def)
  moreover obtain d2 where "scan_store.puts [((Prod, ''k''), (''all'', ''c'', 6))] d1 = Inr d2"
    using scan_store.puts_total by blast
  ultimately show ?thesis using scan_request_idempotent by blast
qed

end
