(* ===== verification/Comments.thy ===== *)
theory Comments imports Outbox begin

text \<open>
  domain/workforce\_risk/comments and the comment evidence repository: classification of untrusted
  Jira comments into at most one configured category, and the append-only record of what was
  observed.  The text of a comment is an input of the classifier only.
\<close>

section \<open>Models\<close>

datatype comment_category =
    TemporaryUnavailabilityReport | ClarificationRequest | TechnicalHelpRequest | BlockerReport
  | ReviewWaitingReport | WorkloadConcern | DeadlineConcern | MissingAccessReport
  | TaskFrustrationReport | CollaborationConcern

fun category_value :: "comment_category \<Rightarrow> string" where
  "category_value TemporaryUnavailabilityReport = ''temporary_unavailability_report''"
| "category_value ClarificationRequest = ''clarification_request''"
| "category_value TechnicalHelpRequest = ''technical_help_request''"
| "category_value BlockerReport = ''blocker_report''"
| "category_value ReviewWaitingReport = ''review_waiting_report''"
| "category_value WorkloadConcern = ''workload_concern''"
| "category_value DeadlineConcern = ''deadline_concern''"
| "category_value MissingAccessReport = ''missing_access_report''"
| "category_value TaskFrustrationReport = ''task_frustration_report''"
| "category_value CollaborationConcern = ''collaboration_concern''"

datatype author_type = AEmployee | AManager | AReviewer | AAutomation | AUnmapped

fun author_type_value :: "author_type \<Rightarrow> string" where
  "author_type_value AEmployee = ''employee''"
| "author_type_value AManager = ''manager''"
| "author_type_value AReviewer = ''reviewer''"
| "author_type_value AAutomation = ''automation''"
| "author_type_value AUnmapped = ''unmapped''"

datatype attribution_status = Verified | Unverified

fun attribution_value :: "attribution_status \<Rightarrow> string" where
  "attribution_value Verified = ''verified''"
| "attribution_value Unverified = ''unverified''"

datatype availability_status = Available | Unavailable

fun availability_value :: "availability_status \<Rightarrow> string" where
  "availability_value Available = ''available''"
| "availability_value Unavailable = ''unavailable''"

datatype freshness_status = CurrentComment | StaleComment

fun freshness_value :: "freshness_status \<Rightarrow> string" where
  "freshness_value CurrentComment = ''current''"
| "freshness_value StaleComment = ''stale''"

record availability_window =
  aw_starts_at :: timestamp
  aw_ends_at :: timestamp

definition validate_order :: "availability_window \<Rightarrow> availability_window res" where
  "validate_order w = (if aw_ends_at w \<le> aw_starts_at w
     then Inl (ValidationError ''availability window must end after it starts'') else Inr w)"

record comment_observation =
  co_jira_comment_id :: string
  co_jira_issue_key :: string
  co_author_account_id :: "string option"
  co_body :: string
  co_created_at :: timestamp
  co_updated_at :: timestamp
  co_retrieved_at :: timestamp
  co_availability_window :: "availability_window option"

record comment_signal =
  cs_schema_version :: string
  cs_classifier_version :: string
  cs_category :: comment_category
  cs_jira_comment_id :: string
  cs_jira_issue_key :: string
  cs_author_reference :: string
  cs_author_type :: author_type
  cs_attribution_status :: attribution_status
  cs_created_at :: timestamp
  cs_updated_at :: timestamp
  cs_retrieved_at :: timestamp
  cs_freshness :: freshness_status
  cs_availability_status :: availability_status
  cs_availability_window :: "availability_window option"
  cs_extraction_confidence :: string
  cs_report_only :: bool
  cs_scoring_eligible :: bool
  cs_candidate_eligible :: bool
  cs_proposal_evidence_eligible :: bool
  cs_time_bounded_impact_allowed :: bool

record classification_result =
  cr_signal :: "comment_signal option"
  cr_author_type :: author_type
  cr_attribution_status :: attribution_status
  cr_reason :: string

section \<open>CommentClassifier\<close>

record pattern_configuration =
  pc_version :: string
  pc_categories :: "(comment_category \<times> string list) list"
  pc_disqualifiers :: "string list"

record comment_classifier =
  cc_patterns :: pattern_configuration
  cc_employees :: "(string \<times> string) list"
  cc_managers :: "string set"
  cc_reviewers :: "string set"
  cc_automation :: "string set"

definition comment_author :: "comment_classifier \<Rightarrow> string option \<Rightarrow> author_type \<times> string option" where
  "comment_author c account_id =
    (case account_id of
       None \<Rightarrow> (AUnmapped, None)
     | Some a \<Rightarrow>
        (if map_of (cc_employees c) a \<noteq> None then (AEmployee, map_of (cc_employees c) a)
         else if a \<in> cc_managers c then (AManager, Some a)
         else if a \<in> cc_reviewers c then (AReviewer, Some a)
         else if a \<in> cc_automation c then (AAutomation, Some a)
         else (AUnmapped, Some a)))"

definition normalize_body :: "string \<Rightarrow> string" where
  "normalize_body body = join_words (split_words [] (casefold body))"

definition matched_categories :: "pattern_configuration \<Rightarrow> string \<Rightarrow> comment_category list" where
  "matched_categories patterns normalized =
     map fst (filter (\<lambda>(category, phrases). list_ex (\<lambda>p. occurs_in (casefold p) normalized) phrases) (pc_categories patterns))"

definition no_signal :: "author_type \<Rightarrow> attribution_status \<Rightarrow> string \<Rightarrow> classification_result" where
  "no_signal author attribution reason = \<lparr>cr_signal = None, cr_author_type = author,
     cr_attribution_status = attribution, cr_reason = reason\<rparr>"

definition comment_signal_for ::
  "comment_classifier \<Rightarrow> comment_observation \<Rightarrow> comment_category \<Rightarrow> author_type \<Rightarrow> string \<Rightarrow> comment_signal" where
  "comment_signal_for c observation category author reference =
    (let window = (if category = TemporaryUnavailabilityReport then co_availability_window observation else None);
         freshness = (if co_retrieved_at observation - co_updated_at observation \<le> hours 24 then CurrentComment else StaleComment)
     in \<lparr>cs_schema_version = ''1.0'', cs_classifier_version = pc_version (cc_patterns c), cs_category = category,
         cs_jira_comment_id = co_jira_comment_id observation, cs_jira_issue_key = co_jira_issue_key observation,
         cs_author_reference = reference, cs_author_type = author, cs_attribution_status = Verified,
         cs_created_at = co_created_at observation, cs_updated_at = co_updated_at observation,
         cs_retrieved_at = co_retrieved_at observation, cs_freshness = freshness,
         cs_availability_status = Available, cs_availability_window = window, cs_extraction_confidence = ''high'',
         cs_report_only = True, cs_scoring_eligible = False, cs_candidate_eligible = False,
         cs_proposal_evidence_eligible = False, cs_time_bounded_impact_allowed = (window \<noteq> None)\<rparr>)"

definition classify :: "comment_classifier \<Rightarrow> comment_observation \<Rightarrow> classification_result" where
  "classify c observation =
    (case comment_author c (co_author_account_id observation) of
       (author, None) \<Rightarrow> no_signal AUnmapped Unverified ''author is missing or not mapped''
     | (author, Some reference) \<Rightarrow>
        (if author = AUnmapped then no_signal AUnmapped Unverified ''author is missing or not mapped''
         else let normalized = normalize_body (co_body observation) in
           if list_ex (\<lambda>term. occurs_in (casefold term) normalized) (pc_disqualifiers (cc_patterns c))
           then no_signal author Verified ''comment is ambiguous or contains untrusted instructions''
           else case matched_categories (cc_patterns c) normalized of
             [category] \<Rightarrow> \<lparr>cr_signal = Some (comment_signal_for c observation category author reference),
                 cr_author_type = author, cr_attribution_status = Verified,
                 cr_reason = ''one explicit configured category matched''\<rparr>
           | _ \<Rightarrow> no_signal author Verified ''no single explicit configured category''))"

section \<open>Lifecycle observations\<close>

record comment_lifecycle =
  cl2_schema_version :: string
  cl2_classifier_version :: string
  cl2_category :: comment_category
  cl2_jira_comment_id :: string
  cl2_jira_issue_key :: string
  cl2_author_reference :: string
  cl2_author_type :: author_type
  cl2_attribution_status :: attribution_status
  cl2_comment_created_at :: timestamp
  cl2_updated_at :: timestamp
  cl2_retrieved_at :: timestamp
  cl2_freshness :: freshness_status
  cl2_availability_status :: availability_status
  cl2_availability_window :: "availability_window option"
  cl2_report_only :: bool
  cl2_scoring_eligible :: bool
  cl2_candidate_eligible :: bool
  cl2_proposal_evidence_eligible :: bool

definition from_signal :: "comment_signal \<Rightarrow> comment_lifecycle" where
  "from_signal s = \<lparr>cl2_schema_version = cs_schema_version s, cl2_classifier_version = cs_classifier_version s,
     cl2_category = cs_category s, cl2_jira_comment_id = cs_jira_comment_id s, cl2_jira_issue_key = cs_jira_issue_key s,
     cl2_author_reference = cs_author_reference s, cl2_author_type = cs_author_type s,
     cl2_attribution_status = cs_attribution_status s, cl2_comment_created_at = cs_created_at s,
     cl2_updated_at = cs_updated_at s, cl2_retrieved_at = cs_retrieved_at s, cl2_freshness = cs_freshness s,
     cl2_availability_status = cs_availability_status s, cl2_availability_window = cs_availability_window s,
     cl2_report_only = True, cl2_scoring_eligible = False, cl2_candidate_eligible = False,
     cl2_proposal_evidence_eligible = False\<rparr>"

definition mark_unavailable :: "comment_lifecycle \<Rightarrow> timestamp \<Rightarrow> comment_lifecycle" where
  "mark_unavailable previous retrieved_at = previous\<lparr>cl2_retrieved_at := retrieved_at,
     cl2_freshness := StaleComment, cl2_availability_status := Unavailable\<rparr>"

definition window_json :: "runtime \<Rightarrow> availability_window \<Rightarrow> json" where
  "window_json rt w = JObj [(''starts_at'', JStr (rt_datetime rt (aw_starts_at w))),
     (''ends_at'', JStr (rt_datetime rt (aw_ends_at w)))]"

definition lifecycle_json :: "runtime \<Rightarrow> comment_lifecycle \<Rightarrow> json" where
  "lifecycle_json rt x = JObj [
     (''schema_version'', JStr (cl2_schema_version x)), (''classifier_version'', JStr (cl2_classifier_version x)),
     (''category'', JStr (category_value (cl2_category x))), (''jira_comment_id'', JStr (cl2_jira_comment_id x)),
     (''jira_issue_key'', JStr (cl2_jira_issue_key x)), (''author_reference'', JStr (cl2_author_reference x)),
     (''author_type'', JStr (author_type_value (cl2_author_type x))),
     (''attribution_status'', JStr (attribution_value (cl2_attribution_status x))),
     (''comment_created_at'', JStr (rt_datetime rt (cl2_comment_created_at x))),
     (''updated_at'', JStr (rt_datetime rt (cl2_updated_at x))),
     (''retrieved_at'', JStr (rt_datetime rt (cl2_retrieved_at x))),
     (''freshness'', JStr (freshness_value (cl2_freshness x))),
     (''availability_status'', JStr (availability_value (cl2_availability_status x))),
     (''availability_window'', json_opt (window_json rt) (cl2_availability_window x)),
     (''report_only'', JBool (cl2_report_only x)), (''scoring_eligible'', JBool (cl2_scoring_eligible x)),
     (''candidate_eligible'', JBool (cl2_candidate_eligible x)),
     (''proposal_evidence_eligible'', JBool (cl2_proposal_evidence_eligible x))]"

definition lifecycle_fingerprint :: "runtime \<Rightarrow> comment_lifecycle \<Rightarrow> string" where
  "lifecycle_fingerprint rt x = digest rt (lifecycle_json rt x)"

section \<open>CommentEvidenceRepository\<close>

definition find_comment :: "environment \<times> string \<times> string \<Rightarrow> db \<Rightarrow> comment_row option" where
  "find_comment k d = select_one (\<lambda>r. (cm_environment r, cm_jira_comment_id r, cm_observation_fingerprint r) = k) (db_comments d)"

definition comment_metadata :: "runtime \<Rightarrow> comment_lifecycle \<Rightarrow> json" where
  "comment_metadata rt x = JObj [(''schema_version'', JStr (cl2_schema_version x)),
     (''classifier_version'', JStr (cl2_classifier_version x)),
     (''availability_window'', json_opt (window_json rt) (cl2_availability_window x)),
     (''report_only'', JBool True), (''scoring_eligible'', JBool False), (''candidate_eligible'', JBool False),
     (''proposal_evidence_eligible'', JBool False)]"

definition new_comment ::
  "runtime \<Rightarrow> uuid \<Rightarrow> environment \<Rightarrow> timestamp \<Rightarrow> string \<Rightarrow> string \<Rightarrow> comment_lifecycle \<Rightarrow> comment_row" where
  "new_comment rt cid env now comment_id fp x = \<lparr>cm_id = cid, cm_environment = env, cm_created_at = now,
     cm_jira_comment_id = comment_id, cm_jira_issue_key = cl2_jira_issue_key x,
     cm_category = category_value (cl2_category x), cm_author_reference = Some (cl2_author_reference x),
     cm_author_type = author_type_value (cl2_author_type x),
     cm_attribution_status = attribution_value (cl2_attribution_status x),
     cm_comment_created_at = cl2_comment_created_at x, cm_updated_at = cl2_updated_at x,
     cm_retrieved_at = cl2_retrieved_at x, cm_freshness = freshness_value (cl2_freshness x),
     cm_availability_status = availability_value (cl2_availability_status x),
     cm_observation_fingerprint = fp, cm_metadata_json = comment_metadata rt x\<rparr>"

definition comment_record ::
  "runtime \<Rightarrow> environment \<Rightarrow> string \<Rightarrow> string \<Rightarrow> comment_lifecycle \<Rightarrow> timestamp \<Rightarrow> db \<Rightarrow> comment_row tx" where
  "comment_record rt env comment_id fp x now d =
    (case find_comment (env, comment_id, fp) d of
       Some existing \<Rightarrow> Inr (existing, d)
     | None \<Rightarrow>
        (let (cid, d1) = new_id d; r = new_comment rt cid env now comment_id fp x in
         bindr (insert_row ''uq_comment_evidence_observation''
             (\<lambda>r. (cm_environment r, cm_jira_comment_id r, cm_observation_fingerprint r)) r (db_comments d1))
           (\<lambda>rows. Inr (r, d1\<lparr>db_comments := rows\<rparr>))))"

definition comment_append ::
  "runtime \<Rightarrow> environment \<Rightarrow> comment_lifecycle \<Rightarrow> timestamp \<Rightarrow> db \<Rightarrow> uuid tx" where
  "comment_append rt env x now d =
    bindr (comment_record rt env (cl2_jira_comment_id x) (lifecycle_fingerprint rt x) x now d) (\<lambda>(r, d'). Inr (cm_id r, d'))"

lemma comment_record_cases:
  "comment_record rt env cid fp x now d =
    (case find_comment (env, cid, fp) d of Some r \<Rightarrow> Inr (r, d)
     | None \<Rightarrow> (let r = new_comment rt (db_next d) env now cid fp x in
         Inr (r, d\<lparr>db_next := Suc (db_next d), db_comments := db_comments d @ [r]\<rparr>)))"
  by (auto simp: comment_record_def find_comment_def new_id_def insert_row_def list_ex_iff Let_def new_comment_def
      split: option.splits)

interpretation comment_store: idempotent_store find_comment
  "\<lambda>(env, cid, fp) (x, now). comment_record rt env cid fp x now" for rt
  by (rule keyed_store [OF find_comment_def]) (auto simp: comment_record_cases new_comment_def Let_def split: prod.splits)

section \<open>Properties of the classifier\<close>

text \<open>
  A comment becomes a signal exactly when its author is mapped, no disqualifier occurs in
  its normalized text and exactly one configured category matches; the signal is of that
  category, attributed to the mapped author, report-only and never eligible for scoring, and
  only a reported absence carries a time window.
\<close>

theorem classify_signal:
  assumes "distinct (map fst (pc_categories (cc_patterns c)))"
  shows "cr_signal (classify c x) = Some s \<longleftrightarrow>
    (\<exists>author reference category. comment_author c (co_author_account_id x) = (author, Some reference) \<and> author \<noteq> AUnmapped \<and>
       (\<forall>t \<in> set (pc_disqualifiers (cc_patterns c)). \<not> occurs_in (casefold t) (normalize_body (co_body x))) \<and>
       {k. \<exists>phrases. (k, phrases) \<in> set (pc_categories (cc_patterns c)) \<and>
          (\<exists>p \<in> set phrases. occurs_in (casefold p) (normalize_body (co_body x)))} = {category} \<and>
       s = comment_signal_for c x category author reference \<and>
       cs_report_only s \<and> \<not> cs_scoring_eligible s \<and> \<not> cs_candidate_eligible s \<and> \<not> cs_proposal_evidence_eligible s \<and>
       (cs_availability_window s \<noteq> None \<longrightarrow> category = TemporaryUnavailabilityReport))"
proof -
  let ?n = "normalize_body (co_body x)"
  let ?ms = "matched_categories (cc_patterns c) ?n"
  let ?K = "{k. \<exists>phrases. (k, phrases) \<in> set (pc_categories (cc_patterns c)) \<and> (\<exists>p \<in> set phrases. occurs_in (casefold p) ?n)}"
  have K: "set ?ms = ?K" by (force simp: matched_categories_def list_ex_iff)
  have dist: "distinct ?ms" using assms unfolding matched_categories_def
    by (metis distinct_map_filter)
  have single: "?ms = [k] \<longleftrightarrow> ?K = {k}" for k
  proof
    assume "?K = {k}"
    then have "set ?ms = {k}" using K by simp
    with dist show "?ms = [k]" using distinct_card [OF dist] by (cases ?ms; cases "tl ?ms") auto
  qed (use K in force)
  have flags: "cs_report_only (comment_signal_for c x k a r) \<and> \<not> cs_scoring_eligible (comment_signal_for c x k a r) \<and>
     \<not> cs_candidate_eligible (comment_signal_for c x k a r) \<and> \<not> cs_proposal_evidence_eligible (comment_signal_for c x k a r) \<and>
     (cs_availability_window (comment_signal_for c x k a r) \<noteq> None \<longrightarrow> k = TemporaryUnavailabilityReport)" for k a r
    by (simp add: comment_signal_for_def Let_def)
  obtain author ref where ar: "comment_author c (co_author_account_id x) = (author, ref)" by (cases "comment_author c (co_author_account_id x)")
  show ?thesis
  proof (cases ref)
    case None
    then show ?thesis by (simp add: classify_def ar no_signal_def)
  next
    case (Some r)
    have mid: "cr_signal (case ms of [k] \<Rightarrow> \<lparr>cr_signal = Some (comment_signal_for c x k author r),
                 cr_author_type = author, cr_attribution_status = Verified,
                 cr_reason = ''one explicit configured category matched''\<rparr>
           | _ \<Rightarrow> no_signal author Verified ''no single explicit configured category'') = Some s \<longleftrightarrow>
       (\<exists>k. ms = [k] \<and> s = comment_signal_for c x k author r)" for ms
      by (cases ms; cases "tl ms") (auto simp: no_signal_def)
    have eq: "cr_signal (classify c x) = Some s \<longleftrightarrow> author \<noteq> AUnmapped \<and>
       (\<forall>t \<in> set (pc_disqualifiers (cc_patterns c)). \<not> occurs_in (casefold t) ?n) \<and>
       (\<exists>k. ?ms = [k] \<and> s = comment_signal_for c x k author r)"
      unfolding mid [symmetric] classify_def Let_def ar Some list_ex_iff by (simp add: no_signal_def)
    show ?thesis unfolding eq single ar Some
    proof
      assume "author \<noteq> AUnmapped \<and> (\<forall>t \<in> set (pc_disqualifiers (cc_patterns c)). \<not> occurs_in (casefold t) ?n) \<and>
        (\<exists>k. ?K = {k} \<and> s = comment_signal_for c x k author r)"
      then obtain k where k: "author \<noteq> AUnmapped" "\<forall>t \<in> set (pc_disqualifiers (cc_patterns c)). \<not> occurs_in (casefold t) ?n"
        "?K = {k}" "s = comment_signal_for c x k author r" by blast
      show "\<exists>a ref category. (author, Some r) = (a, Some ref) \<and> a \<noteq> AUnmapped \<and>
         (\<forall>t \<in> set (pc_disqualifiers (cc_patterns c)). \<not> occurs_in (casefold t) ?n) \<and> ?K = {category} \<and>
         s = comment_signal_for c x category a ref \<and>
         cs_report_only s \<and> \<not> cs_scoring_eligible s \<and> \<not> cs_candidate_eligible s \<and> \<not> cs_proposal_evidence_eligible s \<and>
         (cs_availability_window s \<noteq> None \<longrightarrow> category = TemporaryUnavailabilityReport)"
        using k flags [of k author r] by (intro exI [of _ author] exI [of _ r] exI [of _ k] conjI) simp_all
    qed (elim exE conjE, intro conjI exI, simp_all)
  qed
qed

text \<open>
  Nothing of a comment's text but its category reaches the signal: two comments that differ in
  their text only and are given the same category give the same signal.
\<close>

lemma classify_body_private:
  assumes "cr_signal (classify c x) = Some s" and "cr_signal (classify c (x\<lparr>co_body := body\<rparr>)) = Some t"
    and "cs_category s = cs_category t"
  shows "s = t"
proof -
  have sig: "\<exists>a r. comment_author c (co_author_account_id y) = (a, Some r) \<and> u = comment_signal_for c y (cs_category u) a r"
    if "cr_signal (classify c y) = Some u" for y u
  proof -
    have cat: "cs_category (comment_signal_for c y k a r) = k" for k a r by (simp add: comment_signal_for_def Let_def)
    show ?thesis using that cat by (auto simp: classify_def no_signal_def Let_def split: prod.splits option.splits if_splits list.splits)
  qed
  from sig [OF assms(1)] obtain a r where s: "comment_author c (co_author_account_id x) = (a, Some r)"
    "s = comment_signal_for c x (cs_category s) a r" by blast
  from sig [OF assms(2)] obtain b q where t: "comment_author c (co_author_account_id x) = (b, Some q)"
    "t = comment_signal_for c (x\<lparr>co_body := body\<rparr>) (cs_category t) b q" by auto
  have "comment_signal_for c (x\<lparr>co_body := body\<rparr>) k a' r' = comment_signal_for c x k a' r'" for k a' r'
    by (simp add: comment_signal_for_def)
  with s t assms(3) show ?thesis by simp
qed

section \<open>Properties of the record\<close>

lemma value_texts:
  "category_value a = category_value b \<longleftrightarrow> a = b" "author_type_value t = author_type_value u \<longleftrightarrow> t = u"
  "attribution_value p = attribution_value q \<longleftrightarrow> p = q" "availability_value v = availability_value w \<longleftrightarrow> v = w"
  "freshness_value f = freshness_value g \<longleftrightarrow> f = g"
proof -
  show "category_value a = category_value b \<longleftrightarrow> a = b" by (cases a; cases b) simp_all
  show "author_type_value t = author_type_value u \<longleftrightarrow> t = u" by (cases t; cases u) simp_all
  show "attribution_value p = attribution_value q \<longleftrightarrow> p = q" by (cases p; cases q) simp_all
  show "availability_value v = availability_value w \<longleftrightarrow> v = w" by (cases v; cases w) simp_all
  show "freshness_value f = freshness_value g \<longleftrightarrow> f = g" by (cases f; cases g) simp_all
qed

lemma window_json_canon:
  assumes "runtime_ok rt"
  shows "canon (window_json rt v) = canon (window_json rt w) \<longleftrightarrow> v = w"
proof -
  have "canon (window_json rt v) = canon (window_json rt w) \<longleftrightarrow>
      rt_datetime rt (aw_starts_at v) = rt_datetime rt (aw_starts_at w) \<and> rt_datetime rt (aw_ends_at v) = rt_datetime rt (aw_ends_at w)"
    unfolding window_json_def by (subst canon_object_iff) simp_all
  with assms show ?thesis by (auto simp: runtime_ok_def inj_eq)
qed

lemma lifecycle_json_canon:
  assumes "runtime_ok rt"
  shows "canon (lifecycle_json rt x) = canon (lifecycle_json rt y) \<longleftrightarrow> x = y"
proof
  assume eq: "canon (lifecycle_json rt x) = canon (lifecycle_json rt y)"
  have w: "json_opt (canon \<circ> window_json rt) a = json_opt (canon \<circ> window_json rt) b \<longleftrightarrow> a = b" for a b
    by (rule json_opt_eq, simp only: comp_def window_json_canon [OF assms], simp add: window_json_def)
  have d: "rt_datetime rt a = rt_datetime rt b \<longleftrightarrow> a = b" for a b using assms by (simp add: runtime_ok_def inj_eq)
  from eq show "x = y"
    unfolding lifecycle_json_def
    by (subst (asm) canon_object_iff) (simp_all add: value_texts w d)
qed simp

text \<open>
  The comment record is exact and append-only by content: appending an observation again, after
  any other appends, returns the same row and changes nothing, and an observation that
  differs in any field has another fingerprint, unless the digest has an explicit collision.
\<close>

theorem comment_append_exact:
  assumes "runtime_ok rt"
  shows "(comment_append rt env x now d = Inr (i, d1) \<and> comment_store.puts rt xs d1 = Inr d2 \<longrightarrow>
      comment_append rt env x now' d2 = Inr (i, d2)) \<and>
    (lifecycle_fingerprint rt x = lifecycle_fingerprint rt y \<longleftrightarrow>
      x = y \<or> collision rt (lifecycle_json rt x) (lifecycle_json rt y))"
proof (intro conjI impI)
  assume a: "comment_append rt env x now d = Inr (i, d1) \<and> comment_store.puts rt xs d1 = Inr d2"
  let ?k = "(env, cl2_jira_comment_id x, lifecycle_fingerprint rt x)"
  from a obtain r where r: "comment_record rt env (cl2_jira_comment_id x) (lifecycle_fingerprint rt x) x now d = Inr (r, d1)" "cm_id r = i"
    by (auto simp: comment_append_def bindr_Inr_iff)
  have "comment_record rt env (cl2_jira_comment_id x) (lifecycle_fingerprint rt x) x now' d2 = Inr (r, d2)"
    using comment_store.put_after_puts [of rt ?k "(x, now)" d r d1 xs d2 "(x, now')"] r a by simp
  with r show "comment_append rt env x now' d2 = Inr (i, d2)" by (simp add: comment_append_def)
next
  show "lifecycle_fingerprint rt x = lifecycle_fingerprint rt y \<longleftrightarrow>
      x = y \<or> collision rt (lifecycle_json rt x) (lifecycle_json rt y)"
    unfolding lifecycle_fingerprint_def digest_eq_iff [OF assms] lifecycle_json_canon [OF assms] ..
qed

section \<open>Witnesses\<close>

definition sample_classifier :: comment_classifier where
  "sample_classifier = \<lparr>cc_patterns = \<lparr>pc_version = ''1'', pc_categories = [(BlockerReport, [''blocked by'']),
       (DeadlineConcern, [''deadline''])], pc_disqualifiers = [''ignore'']\<rparr>,
     cc_employees = [(''acc'', ''E1'')], cc_managers = {}, cc_reviewers = {}, cc_automation = {}\<rparr>"

definition sample_comment :: comment_observation where
  "sample_comment = \<lparr>co_jira_comment_id = ''1'', co_jira_issue_key = ''WRD-1'', co_author_account_id = Some ''acc'',
     co_body = ''I am  Blocked by it'', co_created_at = 0, co_updated_at = 0, co_retrieved_at = 1, co_availability_window = None\<rparr>"

theorem classify_signal_witness:
  "\<exists>s. cr_signal (classify sample_classifier sample_comment) = Some s \<and> \<not> cs_scoring_eligible s"
proof -
  let ?s = "comment_signal_for sample_classifier sample_comment BlockerReport AEmployee ''E1''"
  have n: "normalize_body (co_body sample_comment) = ''i am blocked by it''"
    by code_simp
  have "cr_signal (classify sample_classifier sample_comment) = Some ?s"
    unfolding classify_def Let_def n
    by (simp add: comment_author_def sample_comment_def sample_classifier_def matched_categories_def casefold_def ascii_lower_def)
  moreover have "distinct (map fst (pc_categories (cc_patterns sample_classifier)))" by (simp add: sample_classifier_def)
  note classify_signal [OF this, of sample_comment ?s]
  ultimately show ?thesis by blast
qed

definition sample_lifecycle :: comment_lifecycle where
  "sample_lifecycle = from_signal (comment_signal_for sample_classifier sample_comment BlockerReport AEmployee ''emp-1'')"

theorem comment_append_exact_witness:
  "\<exists>i d1 d2. comment_append sample_runtime Dev sample_lifecycle 1 empty_db = Inr (i, d1) \<and>
     comment_append sample_runtime Dev (mark_unavailable sample_lifecycle 5) 6 d1 = Inr d2 \<and>
     comment_append sample_runtime Dev sample_lifecycle 9 (snd d2) = Inr (i, snd d2)"
proof -
  let ?y = "mark_unavailable sample_lifecycle 5"
  obtain i d1 where first: "comment_append sample_runtime Dev sample_lifecycle 1 empty_db = Inr (i, d1)"
    by (simp add: comment_append_def comment_record_cases find_comment_def empty_db_def Let_def)
  obtain r d2 where second: "comment_record sample_runtime Dev (cl2_jira_comment_id ?y) (lifecycle_fingerprint sample_runtime ?y) ?y 6 d1 = Inr (r, d2)"
    using comment_store.put_total [where k = "(Dev, cl2_jira_comment_id ?y, lifecycle_fingerprint sample_runtime ?y)"
      and a = "(?y, 6)" and s = d1 and rt = sample_runtime] by auto
  then have "comment_store.puts sample_runtime [((Dev, cl2_jira_comment_id ?y, lifecycle_fingerprint sample_runtime ?y), (?y, 6))] d1 = Inr d2"
    by simp
  with comment_append_exact [OF sample_runtime_ok] first
  have "comment_append sample_runtime Dev sample_lifecycle 9 d2 = Inr (i, d2)" by blast
  moreover have "comment_append sample_runtime Dev ?y 6 d1 = Inr (cm_id r, d2)" using second by (simp add: comment_append_def)
  ultimately show ?thesis using first by auto
qed

end
