(* ===== verification/Stores.thy ===== *)
theory Stores imports Outbox Evidence Simulation begin

text \<open>
  The repositories of persistence/repositories.py beside the audit log and the comments: employee
  profiles with their skills, allocations and overrides under optimistic versioning, the
  activation of scoring versions, and the immutable evidence snapshots with their results.
\<close>

section \<open>ProfileRepository\<close>

record stored_profile =
  sp2_id :: uuid
  sp2_environment :: environment
  sp2_employee_id :: string
  sp2_role :: string
  sp2_seniority :: string
  sp2_weekly_capacity_hours :: pyfloat
  sp2_mentoring_available :: bool
  sp2_jira_account_id :: "string option"
  sp2_version :: int
  sp2_skills :: "(string \<times> int) list"
  sp2_allocations :: "(string \<times> pyfloat) list"
  sp2_capacity_overrides :: "(timestamp \<times> timestamp \<times> pyfloat \<times> string) list"

text \<open>The keyword arguments of \<open>create\<close>.\<close>

record profile_args =
  pa_environment :: environment
  pa_employee_id :: string
  pa_role :: string
  pa_seniority :: string
  pa_weekly_capacity_hours :: pyfloat
  pa_mentoring_available :: bool
  pa_jira_account_id :: "string option"
  pa_skills :: "(string \<times> int) list"
  pa_allocations :: "(string \<times> pyfloat) list"
  pa_capacity_overrides :: "(timestamp \<times> timestamp \<times> pyfloat \<times> string) list"
  pa_actor_id :: string
  pa_correlation_id :: string
  pa_created_at :: timestamp

text \<open>Rows for a list of values, with successive identifiers.\<close>

definition number_rows :: "(uuid \<Rightarrow> 'x \<Rightarrow> 'r) \<Rightarrow> uuid \<Rightarrow> 'x list \<Rightarrow> 'r list" where
  "number_rows mk n xs = map2 mk [n..<n + length xs] xs"

definition new_profile :: "uuid \<Rightarrow> profile_args \<Rightarrow> profile_row" where
  "new_profile pid a = \<lparr>ep_id = pid, ep_environment = pa_environment a, ep_created_at = pa_created_at a,
     ep_employee_id = pa_employee_id a, ep_role = pa_role a, ep_seniority = pa_seniority a,
     ep_weekly_capacity_hours = pa_weekly_capacity_hours a, ep_mentoring_available = pa_mentoring_available a,
     ep_jira_account_id = pa_jira_account_id a, ep_version = 1\<rparr>"

definition new_skill :: "profile_args \<Rightarrow> uuid \<Rightarrow> uuid \<Rightarrow> string \<times> int \<Rightarrow> skill_row" where
  "new_skill a pid i x = \<lparr>es_id = i, es_environment = pa_environment a, es_created_at = pa_created_at a,
     es_profile_id = pid, es_skill = fst x, es_proficiency = snd x\<rparr>"

definition new_allocation :: "profile_args \<Rightarrow> uuid \<Rightarrow> uuid \<Rightarrow> string \<times> pyfloat \<Rightarrow> allocation_row" where
  "new_allocation a pid i x = \<lparr>ca_row_id = i, ca_row_environment = pa_environment a, ca_row_created_at = pa_created_at a,
     ca_row_profile_id = pid, ca_row_project_key = fst x, ca_row_allocation_fraction = snd x,
     ca_row_effective_from = pa_created_at a, ca_row_effective_until = None\<rparr>"

definition new_override :: "profile_args \<Rightarrow> uuid \<Rightarrow> uuid \<Rightarrow> timestamp \<times> timestamp \<times> pyfloat \<times> string \<Rightarrow> override_row" where
  "new_override a pid i x = (case x of (starts, ends, capacity, reason) \<Rightarrow>
     \<lparr>cv_id = i, cv_environment = pa_environment a, cv_created_at = pa_created_at a, cv_profile_id = pid,
      cv_starts_at = starts, cv_ends_at = ends, cv_capacity_hours = capacity, cv_reason = reason\<rparr>)"

definition profile_load :: "profile_row \<Rightarrow> db \<Rightarrow> stored_profile" where
  "profile_load p d = \<lparr>sp2_id = ep_id p, sp2_environment = ep_environment p, sp2_employee_id = ep_employee_id p,
     sp2_role = ep_role p, sp2_seniority = ep_seniority p, sp2_weekly_capacity_hours = ep_weekly_capacity_hours p,
     sp2_mentoring_available = ep_mentoring_available p, sp2_jira_account_id = ep_jira_account_id p,
     sp2_version = ep_version p,
     sp2_skills = map (\<lambda>r. (es_skill r, es_proficiency r))
       (sort_key es_skill (filter (\<lambda>r. es_profile_id r = ep_id p) (db_skills d))),
     sp2_allocations = map (\<lambda>r. (ca_row_project_key r, ca_row_allocation_fraction r))
       (sort_key ca_row_project_key (filter (\<lambda>r. ca_row_profile_id r = ep_id p) (db_allocations d))),
     sp2_capacity_overrides = map (\<lambda>r. (cv_starts_at r, cv_ends_at r, cv_capacity_hours r, cv_reason r))
       (sort_key cv_starts_at (filter (\<lambda>r. cv_profile_id r = ep_id p) (db_overrides d)))\<rparr>"

definition administrator_audit ::
  "string \<Rightarrow> string \<Rightarrow> string \<Rightarrow> string \<Rightarrow> json \<Rightarrow> json \<Rightarrow> audit_args" where
  "administrator_audit action actor_id employee_id correlation_id prior new =
     \<lparr>aa_action_type = action, aa_actor_type = ''administrator'', aa_actor_id = actor_id, aa_subject_ids = [employee_id],
      aa_correlation_id = correlation_id, aa_prior_state = prior, aa_new_state = new, aa_safe_metadata = JObj []\<rparr>"

definition profile_create :: "runtime \<Rightarrow> timestamp \<Rightarrow> profile_args \<Rightarrow> db \<Rightarrow> stored_profile tx" where
  "profile_create rt now a d =
    (let (pid, d1) = new_id d; p = new_profile pid a in
     bindr (insert_row ''uq_profiles_env_employee'' (\<lambda>p. (ep_environment p, ep_employee_id p)) p (db_profiles d1)) (\<lambda>rows.
     let n = db_next d1; m = n + length (pa_skills a); k = m + length (pa_allocations a);
         d2 = d1\<lparr>db_profiles := rows, db_next := k + length (pa_capacity_overrides a),
           db_skills := db_skills d1 @ number_rows (new_skill a pid) n (pa_skills a),
           db_allocations := db_allocations d1 @ number_rows (new_allocation a pid) m (pa_allocations a),
           db_overrides := db_overrides d1 @ number_rows (new_override a pid) k (pa_capacity_overrides a)\<rparr>
     in bindr (audit_append rt now (pa_environment a)
            (administrator_audit ''profile.created'' (pa_actor_id a) (pa_employee_id a) (pa_correlation_id a)
               JNull (JObj [(''version'', JInt 1)])) d2) (\<lambda>(_, d3).
        Inr (profile_load p d3, d3))))"

definition find_profile :: "environment \<Rightarrow> string \<Rightarrow> db \<Rightarrow> profile_row option" where
  "find_profile env employee_id d =
     select_one (\<lambda>p. ep_environment p = env \<and> ep_employee_id p = employee_id) (db_profiles d)"

definition profile_get :: "environment \<Rightarrow> string \<Rightarrow> db \<Rightarrow> stored_profile option" where
  "profile_get env employee_id d = map_option (\<lambda>p. profile_load p d) (find_profile env employee_id d)"

definition list_for_environment :: "environment \<Rightarrow> db \<Rightarrow> stored_profile list" where
  "list_for_environment env d = map (\<lambda>p. profile_load p d)
     (sort_key ep_employee_id (filter (\<lambda>p. ep_environment p = env) (db_profiles d)))"

definition update_capacity :: "uuid \<Rightarrow> int \<Rightarrow> pyfloat \<Rightarrow> db \<Rightarrow> bool \<times> db" where
  "update_capacity pid expected_version capacity d =
    (let matches = (\<lambda>p. ep_id p = pid \<and> ep_version p = expected_version) in
     (rowcount matches (db_profiles d) = 1,
      d\<lparr>db_profiles := update_where matches
          (\<lambda>p. p\<lparr>ep_weekly_capacity_hours := capacity, ep_version := ep_version p + 1\<rparr>) (db_profiles d)\<rparr>))"

definition update_capacity_audited ::
  "runtime \<Rightarrow> timestamp \<Rightarrow> environment \<Rightarrow> string \<Rightarrow> int \<Rightarrow> pyfloat \<Rightarrow> string \<Rightarrow> string \<Rightarrow> db
     \<Rightarrow> stored_profile option tx" where
  "update_capacity_audited rt now env employee_id expected_version capacity actor_id correlation_id d =
    (case find_profile env employee_id d of
       None \<Rightarrow> Inr (None, d)
     | Some p \<Rightarrow>
        (case update_capacity (ep_id p) expected_version capacity d of
           (False, d1) \<Rightarrow> Inr (None, d1)
         | (True, d1) \<Rightarrow>
            bindr (audit_append rt now env
                (administrator_audit ''profile.updated'' actor_id employee_id correlation_id
                   (JObj [(''version'', JInt expected_version), (''capacity'', JFloat (ep_weekly_capacity_hours p))])
                   (JObj [(''version'', JInt (expected_version + 1)), (''capacity'', JFloat capacity)])) d1) (\<lambda>(_, d2).
            Inr (map_option (\<lambda>q. profile_load q d2) (select_one (\<lambda>q. ep_id q = ep_id p) (db_profiles d2)), d2))))"

section \<open>ScoringVersionRepository\<close>

definition activate_version :: "uuid \<Rightarrow> string \<Rightarrow> timestamp \<Rightarrow> db \<Rightarrow> bool \<times> db" where
  "activate_version version_id actor_id now d =
    (let matches = (\<lambda>v. sv_id v = version_id \<and> sv_activated_at v = None) in
     (rowcount matches (db_scoring_versions d) = 1,
      d\<lparr>db_scoring_versions := update_where matches
          (\<lambda>v. v\<lparr>sv_activated_at := Some now, sv_activated_by := Some actor_id\<rparr>) (db_scoring_versions d)\<rparr>))"

section \<open>SnapshotRepository\<close>

record snapshot_result =
  sn2_score_family :: string
  sn2_result :: risk_result

record evidence_snapshot =
  vs_evidence :: evidence_input
  vs_risk_results :: "snapshot_result list"

definition new_risk_result :: "environment \<Rightarrow> timestamp \<Rightarrow> uuid \<Rightarrow> uuid \<Rightarrow> snapshot_result \<Rightarrow> risk_result_row" where
  "new_risk_result env now snapshot_id i x = (let r = sn2_result x in
     \<lparr>rk_id = i, rk_environment = env, rk_created_at = now, rk_snapshot_id = snapshot_id,
      rk_score_family = sn2_score_family x, rk_score = rr_score r, rk_level = rr_level r,
      rk_confidence = rr_confidence r, rk_scoring_version = rr_scoring_model_version r,
      rk_factors = JList (map factor_json (rr_factors r)),
      rk_thresholds = JObj (map (\<lambda>(k, v). (k, JInt v)) (rr_thresholds r)),
      rk_evidence_references = rr_evidence_references r, rk_missing_evidence = rr_missing_evidence r,
      rk_excluded_evidence = rr_excluded_evidence r\<rparr>)"

definition find_snapshot :: "environment \<times> string \<times> string \<times> string \<Rightarrow> db \<Rightarrow> snapshot_row option" where
  "find_snapshot k d = select_one (\<lambda>s. (sp_environment s, sp_subject_type s, sp_subject_id s, sp_fingerprint s) = k) (db_snapshots d)"

definition new_snapshot :: "runtime \<Rightarrow> uuid \<Rightarrow> timestamp \<Rightarrow> string \<Rightarrow> evidence_input \<Rightarrow> snapshot_row" where
  "new_snapshot rt i now subject_type e = \<lparr>sp_id = i, sp_environment = ev_environment e, sp_created_at = now,
     sp_subject_type = subject_type, sp_subject_id = ev_subject_id e, sp_fingerprint = fingerprint rt e,
     sp_evidence = JObj (canonical_material rt e @ [(''evidence_timestamp'', JStr (rt_isoformat rt (ev_evidence_timestamp e)))]),
     sp_observed_at = ev_evidence_timestamp e\<rparr>"

definition snapshot_persist ::
  "runtime \<Rightarrow> evidence_snapshot \<Rightarrow> string \<Rightarrow> environment option \<Rightarrow> timestamp \<Rightarrow> db \<Rightarrow> uuid tx" where
  "snapshot_persist rt snapshot subject_type service_environment now d =
    (let e = vs_evidence snapshot in
     if (case service_environment of None \<Rightarrow> False | Some env \<Rightarrow> ev_environment e \<noteq> env)
     then Inl (ValueError ''snapshot environment mismatch'')
     else case find_snapshot (ev_environment e, subject_type, ev_subject_id e, fingerprint rt e) d of
       Some existing \<Rightarrow> Inr (sp_id existing, d)
     | None \<Rightarrow>
        (let (sid, d1) = new_id d; s = new_snapshot rt sid now subject_type e in
         bindr (insert_row ''uq_evidence_snapshot_identity''
             (\<lambda>s. (sp_environment s, sp_subject_type s, sp_subject_id s, sp_fingerprint s)) s (db_snapshots d1)) (\<lambda>rows.
         let n = db_next d1 in
         Inr (sid, d1\<lparr>db_snapshots := rows, db_next := n + length (vs_risk_results snapshot),
            db_risk_results := db_risk_results d1 @ number_rows (new_risk_result (ev_environment e) now sid) n (vs_risk_results snapshot)\<rparr>))))"

section \<open>Properties of profiles\<close>

text \<open>A profile's identifier is in use by no other table before it is drawn.\<close>

definition profiles_ok :: "db \<Rightarrow> bool" where
  "profiles_ok d \<longleftrightarrow> distinct (map ep_id (db_profiles d)) \<and> (\<forall>p \<in> set (db_profiles d). ep_id p < db_next d) \<and>
     distinct (map (\<lambda>p. (ep_environment p, ep_employee_id p)) (db_profiles d)) \<and>
     (\<forall>r \<in> set (db_skills d). es_profile_id r < db_next d) \<and>
     (\<forall>r \<in> set (db_allocations d). ca_row_profile_id r < db_next d) \<and>
     (\<forall>r \<in> set (db_overrides d). cv_profile_id r < db_next d)"

lemma map_number_rows:
  assumes "\<And>i x. f (mk i x) = g x"
  shows "map f (number_rows mk n xs) = map g xs"
proof -
  have "map f (map2 mk is xs) = map g xs" if "length is = length xs" for "is"
    using that assms by (induction "is" xs rule: list_induct2) simp_all
  then show ?thesis by (simp add: number_rows_def)
qed

lemma set_number_rows: "r \<in> set (number_rows mk n xs) \<Longrightarrow> \<exists>i x. r = mk i x"
  by (auto simp: number_rows_def dest!: in_set_zipE split: prod.splits)

lemma filter_number_rows:
  assumes "\<And>i x. P (mk i x)"
  shows "filter P (number_rows mk n xs) = number_rows mk n xs"
proof (rule filter_True)
  show "\<forall>r \<in> set (number_rows mk n xs). P r" using assms set_number_rows [of _ mk n xs] by metis
qed

lemma map_sort_key:
  assumes "\<And>r. g r = h (f r)"
  shows "map f (sort_key g rs) = sort_key h (map f rs)"
proof -
  have "g = h \<circ> f" using assms by (simp add: fun_eq_iff)
  then show ?thesis by (simp only: sort_key_map)
qed

text \<open>What a freshly created profile reads as.\<close>

definition profile_of_args :: "uuid \<Rightarrow> profile_args \<Rightarrow> stored_profile" where
  "profile_of_args pid a = \<lparr>sp2_id = pid, sp2_environment = pa_environment a, sp2_employee_id = pa_employee_id a,
     sp2_role = pa_role a, sp2_seniority = pa_seniority a, sp2_weekly_capacity_hours = pa_weekly_capacity_hours a,
     sp2_mentoring_available = pa_mentoring_available a, sp2_jira_account_id = pa_jira_account_id a, sp2_version = 1,
     sp2_skills = sort_key fst (pa_skills a), sp2_allocations = sort_key fst (pa_allocations a),
     sp2_capacity_overrides = sort_key fst (pa_capacity_overrides a)\<rparr>"

lemma load_new_profile:
  assumes "profiles_ok d" and "pid = db_next d"
    and "db_skills d' = db_skills d @ number_rows (new_skill a pid) n (pa_skills a)"
    and "db_allocations d' = db_allocations d @ number_rows (new_allocation a pid) m (pa_allocations a)"
    and "db_overrides d' = db_overrides d @ number_rows (new_override a pid) k (pa_capacity_overrides a)"
  shows "profile_load (new_profile pid a) d' = profile_of_args pid a"
proof -
  have "filter (\<lambda>r. es_profile_id r = pid) (db_skills d) = []" "filter (\<lambda>r. ca_row_profile_id r = pid) (db_allocations d) = []"
    "filter (\<lambda>r. cv_profile_id r = pid) (db_overrides d) = []"
    using assms(1,2) by (auto simp: profiles_ok_def filter_empty_conv)
  then have rows: "filter (\<lambda>r. es_profile_id r = pid) (db_skills d') = number_rows (new_skill a pid) n (pa_skills a)"
    "filter (\<lambda>r. ca_row_profile_id r = pid) (db_allocations d') = number_rows (new_allocation a pid) m (pa_allocations a)"
    "filter (\<lambda>r. cv_profile_id r = pid) (db_overrides d') = number_rows (new_override a pid) k (pa_capacity_overrides a)"
    using assms(3-5) by (simp_all add: filter_number_rows new_skill_def new_allocation_def new_override_def split: prod.splits)
  have skills: "map (\<lambda>r. (es_skill r, es_proficiency r)) (sort_key es_skill (number_rows (new_skill a pid) n (pa_skills a))) = sort_key fst (pa_skills a)"
    by (subst map_sort_key [where h = fst]) (simp_all add: map_number_rows [where g = id] new_skill_def)
  have allocations: "map (\<lambda>r. (ca_row_project_key r, ca_row_allocation_fraction r))
      (sort_key ca_row_project_key (number_rows (new_allocation a pid) m (pa_allocations a))) = sort_key fst (pa_allocations a)"
    by (subst map_sort_key [where h = fst]) (simp_all add: map_number_rows [where g = id] new_allocation_def)
  have overrides: "map (\<lambda>r. (cv_starts_at r, cv_ends_at r, cv_capacity_hours r, cv_reason r))
      (sort_key cv_starts_at (number_rows (new_override a pid) k (pa_capacity_overrides a))) = sort_key fst (pa_capacity_overrides a)"
    by (subst map_sort_key [where h = fst]) (simp_all add: map_number_rows [where g = id] new_override_def split: prod.splits)
  show ?thesis unfolding profile_load_def profile_of_args_def
    by (simp add: new_profile_def rows skills allocations overrides)
qed

lemma profile_create_run:
  assumes "(pa_environment a, pa_employee_id a) \<notin> (\<lambda>p. (ep_environment p, ep_employee_id p)) ` set (db_profiles d)"
  shows "\<exists>d2. profile_create rt now a d = bindr (audit_append rt now (pa_environment a)
        (administrator_audit ''profile.created'' (pa_actor_id a) (pa_employee_id a) (pa_correlation_id a)
           JNull (JObj [(''version'', JInt 1)])) d2) (\<lambda>(_, d3). Inr (profile_load (new_profile (db_next d) a) d3, d3)) \<and>
     db_audit d2 = db_audit d \<and> db_profiles d2 = db_profiles d @ [new_profile (db_next d) a] \<and>
     (\<exists>n m k. db_skills d2 = db_skills d @ number_rows (new_skill a (db_next d)) n (pa_skills a) \<and>
        db_allocations d2 = db_allocations d @ number_rows (new_allocation a (db_next d)) m (pa_allocations a) \<and>
        db_overrides d2 = db_overrides d @ number_rows (new_override a (db_next d)) k (pa_capacity_overrides a))"
proof -
  have ins: "insert_row ''uq_profiles_env_employee'' (\<lambda>p. (ep_environment p, ep_employee_id p)) (new_profile (db_next d) a) (db_profiles d)
     = Inr (db_profiles d @ [new_profile (db_next d) a])"
    using assms by (simp add: insert_row_Inr_iff new_profile_def)
  let ?n = "Suc (db_next d)"
  let ?m = "?n + length (pa_skills a)"
  let ?k = "?m + length (pa_allocations a)"
  let ?d2 = "d\<lparr>db_next := ?n, db_profiles := db_profiles d @ [new_profile (db_next d) a], db_next := ?k + length (pa_capacity_overrides a),
     db_skills := db_skills d @ number_rows (new_skill a (db_next d)) ?n (pa_skills a),
     db_allocations := db_allocations d @ number_rows (new_allocation a (db_next d)) ?m (pa_allocations a),
     db_overrides := db_overrides d @ number_rows (new_override a (db_next d)) ?k (pa_capacity_overrides a)\<rparr>"
  have "profile_create rt now a d = bindr (audit_append rt now (pa_environment a)
        (administrator_audit ''profile.created'' (pa_actor_id a) (pa_employee_id a) (pa_correlation_id a)
           JNull (JObj [(''version'', JInt 1)])) ?d2) (\<lambda>(_, d3). Inr (profile_load (new_profile (db_next d) a) d3, d3))"
    unfolding profile_create_def new_id_def Let_def using ins by simp
  moreover have "\<exists>n m k. db_skills ?d2 = db_skills d @ number_rows (new_skill a (db_next d)) n (pa_skills a) \<and>
        db_allocations ?d2 = db_allocations d @ number_rows (new_allocation a (db_next d)) m (pa_allocations a) \<and>
        db_overrides ?d2 = db_overrides d @ number_rows (new_override a (db_next d)) k (pa_capacity_overrides a)"
    by (rule exI [of _ ?n], rule exI [of _ ?m], rule exI [of _ ?k]) simp
  ultimately show ?thesis by (intro exI [of _ ?d2] conjI) simp_all
qed

text \<open>
  A created profile reads back as it was given.  Creating a profile for an employee the
  environment does not have yet returns version 1 with the skills, allocations and overrides of
  the request in key order, a later read returns the same, and the only failure is a
  collision of audit hashes; for an employee it has, creation is refused.
\<close>

theorem profile_roundtrip:
  assumes "runtime_ok rt" and "log_ok rt d" and "profiles_ok d"
  shows "if find_profile (pa_environment a) (pa_employee_id a) d = None
    then profile_create rt now a d = Inl (IntegrityError ''uq_audit_env_hash'') \<or>
      (\<exists>d'. profile_create rt now a d = Inr (profile_of_args (db_next d) a, d') \<and> log_ok rt d' \<and>
         profile_get (pa_environment a) (pa_employee_id a) d' = Some (profile_of_args (db_next d) a))
    else profile_create rt now a d = Inl (IntegrityError ''uq_profiles_env_employee'')"
proof (cases "find_profile (pa_environment a) (pa_employee_id a) d = None")
  case True
  then have new: "(pa_environment a, pa_employee_id a) \<notin> (\<lambda>p. (ep_environment p, ep_employee_id p)) ` set (db_profiles d)"
    by (auto simp: find_profile_def)
  let ?p = "new_profile (db_next d) a"
  let ?audit = "administrator_audit ''profile.created'' (pa_actor_id a) (pa_employee_id a) (pa_correlation_id a)
           JNull (JObj [(''version'', JInt 1)])"
  from profile_create_run [OF new, of rt now] obtain d2 n m k where
    run: "profile_create rt now a d = bindr (audit_append rt now (pa_environment a) ?audit d2) (\<lambda>(_, d3). Inr (profile_load ?p d3, d3))"
    and d2: "db_audit d2 = db_audit d" "db_profiles d2 = db_profiles d @ [?p]"
      "db_skills d2 = db_skills d @ number_rows (new_skill a (db_next d)) n (pa_skills a)"
      "db_allocations d2 = db_allocations d @ number_rows (new_allocation a (db_next d)) m (pa_allocations a)"
      "db_overrides d2 = db_overrides d @ number_rows (new_override a (db_next d)) k (pa_capacity_overrides a)"
    by blast
  have log: "log_ok rt d2" using log_ok_cong [OF d2(1)] assms(2) by simp
  show ?thesis
  proof (cases "audit_append rt now (pa_environment a) ?audit d2")
    case (Inl err)
    with audit_append_refused(1) [OF assms(1) log Inl] True show ?thesis unfolding run by simp
  next
    case (Inr x)
    obtain ev d' where x: "x = (ev, d')" by (cases x)
    note e = audit_append_Inr(2) [OF Inr [unfolded x]]
    have load: "profile_load ?p d' = profile_of_args (db_next d) a"
      by (rule load_new_profile [OF assms(3) refl]) (simp_all add: e d2)
    have "find_profile (pa_environment a) (pa_employee_id a) d' = Some ?p"
      unfolding find_profile_def e using True d2(2)
      by (simp add: select_one_snoc(2) find_profile_def new_profile_def)
    with load have "profile_get (pa_environment a) (pa_employee_id a) d' = Some (profile_of_args (db_next d) a)"
      by (simp add: profile_get_def)
    with load True Inr x log_ok_append [OF log Inr [unfolded x]] show ?thesis unfolding run by simp
  qed
next
  case False
  then obtain p where p: "find_profile (pa_environment a) (pa_employee_id a) d = Some p" by auto
  have "(pa_environment a, pa_employee_id a) \<in> (\<lambda>p. (ep_environment p, ep_employee_id p)) ` set (db_profiles d)"
    using select_one_SomeD [OF p [unfolded find_profile_def]] by (auto intro!: rev_image_eqI)
  then have "insert_row ''uq_profiles_env_employee'' (\<lambda>p. (ep_environment p, ep_employee_id p)) (new_profile (db_next d) a) (db_profiles d)
     = Inl (IntegrityError ''uq_profiles_env_employee'')"
    by (simp add: insert_row_Inl_iff new_profile_def)
  with False show ?thesis by (simp add: profile_create_def new_id_def Let_def)
qed

lemma no_rows_matched:
  assumes "\<forall>r \<in> set rows. \<not> p r"
  shows "rowcount p rows = 0" and "update_where p f rows = rows"
  using assms by (induction rows) auto

lemma capacity_update_where:
  assumes "profiles_ok d" and "p \<in> set (db_profiles d)"
  shows "update_capacity (ep_id p) v c d = (if v = ep_version p
     then (True, d\<lparr>db_profiles := update_where (\<lambda>q. q = p) (\<lambda>q. q\<lparr>ep_weekly_capacity_hours := c, ep_version := ep_version q + 1\<rparr>) (db_profiles d)\<rparr>)
     else (False, d))"
proof -
  have only: "q = p" if "q \<in> set (db_profiles d)" "ep_id q = ep_id p" for q
    using assms that by (auto simp: profiles_ok_def distinct_map inj_on_def)
  let ?m = "\<lambda>q. ep_id q = ep_id p \<and> ep_version q = v"
  let ?f = "\<lambda>q. q\<lparr>ep_weekly_capacity_hours := c, ep_version := ep_version q + 1\<rparr>"
  show ?thesis
  proof (cases "v = ep_version p")
    case True
    have "rowcount ?m (db_profiles d) = 1"
      by (rule rowcount_key [where key = ep_id and r = p]) (use assms True in \<open>auto simp: profiles_ok_def\<close>)
    moreover have "update_where ?m ?f (db_profiles d) = update_where (\<lambda>q. q = p) ?f (db_profiles d)"
      using only True by (auto simp: update_where_def)
    ultimately show ?thesis using True by (simp add: update_capacity_def Let_def)
  next
    case False
    then have none: "\<forall>q \<in> set (db_profiles d). \<not> ?m q" using only by auto
    from no_rows_matched [OF none] False show ?thesis by (simp add: update_capacity_def Let_def)
  qed
qed

text \<open>After the update the same queries find the updated row.\<close>

lemma updated_profile_found:
  assumes "profiles_ok d" and "p \<in> set (db_profiles d)" and "ep_id p' = ep_id p"
    and "(ep_environment p', ep_employee_id p') = (ep_environment p, ep_employee_id p)"
    and "db_profiles d' = update_where (\<lambda>q. q = p) (\<lambda>q. p') (db_profiles d)"
  shows "select_one (\<lambda>q. ep_id q = ep_id p) (db_profiles d') = Some p'"
    and "find_profile (ep_environment p) (ep_employee_id p) d' = Some p'"
    and "map ep_id (db_profiles d') = map ep_id (db_profiles d)"
proof -
  show ids: "map ep_id (db_profiles d') = map ep_id (db_profiles d)"
    unfolding assms(5) using assms(3) by (simp add: update_where_def)
  have keys: "map (\<lambda>p. (ep_environment p, ep_employee_id p)) (db_profiles d') = map (\<lambda>p. (ep_environment p, ep_employee_id p)) (db_profiles d)"
    unfolding assms(5) using assms(4) by (simp add: update_where_def)
  have mem: "p' \<in> set (db_profiles d')" using assms(2,5) by (simp add: set_update_where rev_image_eqI)
  show "select_one (\<lambda>q. ep_id q = ep_id p) (db_profiles d') = Some p'"
    by (rule select_one_unique [where key = ep_id]) (use assms(1,3) ids mem in \<open>auto simp: profiles_ok_def\<close>)
  show "find_profile (ep_environment p) (ep_employee_id p) d' = Some p'"
    unfolding find_profile_def
    by (rule select_one_unique [where key = "\<lambda>p. (ep_environment p, ep_employee_id p)"])
      (use assms(1,4) keys mem in \<open>auto simp: profiles_ok_def\<close>)
qed

text \<open>
  A capacity update is optimistic and audited.  For an existing employee, with an
  expected version other than the stored one nothing changes and None is returned; with the stored
  version the profile gets the capacity and the next version, a read returns what the
  update returned, every other profile is as it was, and repeating the update with the
  now old version changes nothing.
\<close>

theorem profile_optimistic_update:
  assumes "runtime_ok rt" and "log_ok rt d" and "profiles_ok d" and "find_profile env emp d = Some p"
  shows "if v \<noteq> ep_version p then update_capacity_audited rt now env emp v c actor corr d = Inr (None, d)
    else update_capacity_audited rt now env emp v c actor corr d = Inl (IntegrityError ''uq_audit_env_hash'') \<or>
      (\<exists>q d'. update_capacity_audited rt now env emp v c actor corr d = Inr (Some q, d') \<and> log_ok rt d' \<and>
         q = (profile_load p d)\<lparr>sp2_weekly_capacity_hours := c, sp2_version := v + 1\<rparr> \<and>
         profile_get env emp d' = Some q \<and>
         filter (\<lambda>r. ep_id r \<noteq> ep_id p) (db_profiles d') = filter (\<lambda>r. ep_id r \<noteq> ep_id p) (db_profiles d) \<and>
         (\<forall>now2 c2 a2 k2. update_capacity_audited rt now2 env emp v c2 a2 k2 d' = Inr (None, d')))"
proof -
  from select_one_SomeD [OF assms(4) [unfolded find_profile_def]]
  have p: "p \<in> set (db_profiles d)" and [simp]: "ep_environment p = env" "ep_employee_id p = emp" by auto
  note upd = capacity_update_where [OF assms(3) p, of v c]
  show ?thesis
  proof (cases "v = ep_version p")
    case False
    with upd assms(4) show ?thesis by (simp add: update_capacity_audited_def)
  next
    case True
    let ?p = "p\<lparr>ep_weekly_capacity_hours := c, ep_version := v + 1\<rparr>"
    let ?audit = "administrator_audit ''profile.updated'' actor emp corr
                   (JObj [(''version'', JInt v), (''capacity'', JFloat (ep_weekly_capacity_hours p))])
                   (JObj [(''version'', JInt (v + 1)), (''capacity'', JFloat c)])"
    define d1 where "d1 = d\<lparr>db_profiles := update_where (\<lambda>q. q = p) (\<lambda>q. ?p) (db_profiles d)\<rparr>"
    have same: "update_where (\<lambda>q. q = p) (\<lambda>q. q\<lparr>ep_weekly_capacity_hours := c, ep_version := ep_version q + 1\<rparr>) (db_profiles d)
       = update_where (\<lambda>q. q = p) (\<lambda>q. ?p) (db_profiles d)" using True by (auto simp: update_where_def)
    have run: "update_capacity_audited rt now env emp v c actor corr d =
        bindr (audit_append rt now env ?audit d1) (\<lambda>(_, d2).
            Inr (map_option (\<lambda>q. profile_load q d2) (select_one (\<lambda>q. ep_id q = ep_id p) (db_profiles d2)), d2))"
      using upd True assms(4) same by (simp add: update_capacity_audited_def d1_def)
    have log: "log_ok rt d1" by (rule log_ok_cong [THEN iffD1, OF _ assms(2)]) (simp add: d1_def)
    show ?thesis
    proof (cases "audit_append rt now env ?audit d1")
      case (Inl err)
      with audit_append_refused(1) [OF assms(1) log Inl] True show ?thesis unfolding run by simp
    next
      case (Inr x)
      obtain ev d' where x: "x = (ev, d')" by (cases x)
      note e = audit_append_Inr(2) [OF Inr [unfolded x]]
      have rows: "db_profiles d' = update_where (\<lambda>q. q = p) (\<lambda>q. ?p) (db_profiles d)" by (simp add: e d1_def)
      note found = updated_profile_found [OF assms(3) p, where p' = ?p, OF _ _ rows, simplified]
      have load: "profile_load ?p d' = (profile_load p d)\<lparr>sp2_weekly_capacity_hours := c, sp2_version := v + 1\<rparr>"
        by (simp add: profile_load_def e d1_def)
      have keep: "filter (\<lambda>r. ep_id r \<noteq> ep_id p) (db_profiles d') = filter (\<lambda>r. ep_id r \<noteq> ep_id p) (db_profiles d)"
      proof -
        have "filter (\<lambda>r. ep_id r \<noteq> ep_id p) (update_where (\<lambda>q. q = p) (\<lambda>q. ?p) rs) = filter (\<lambda>r. ep_id r \<noteq> ep_id p) rs" for rs
          by (induction rs) auto
        then show ?thesis by (simp add: rows)
      qed
      have "update_capacity (ep_id p) v c2 d' = (False, d')" for c2
      proof -
        have none: "\<forall>q \<in> set (db_profiles d'). \<not> (ep_id q = ep_id p \<and> ep_version q = v)"
          using assms(3) p True by (auto simp: rows set_update_where profiles_ok_def distinct_map inj_on_def)
        from no_rows_matched [OF none] show ?thesis by (simp add: update_capacity_def Let_def)
      qed
      then have again: "update_capacity_audited rt now2 env emp v c2 a2 k2 d' = Inr (None, d')" for now2 c2 a2 k2
        using found(2) by (simp add: update_capacity_audited_def)
      have "update_capacity_audited rt now env emp v c actor corr d = Inr (Some (profile_load ?p d'), d')"
        using Inr x found(1) by (simp add: run)
      moreover have "profile_get env emp d' = Some (profile_load ?p d')" using found(2) by (simp add: profile_get_def)
      ultimately show ?thesis using True load keep again log_ok_append [OF log Inr [unfolded x]] by auto
    qed
  qed
qed

text \<open>A request for a profile with two skills out of order, and the environment it is created in.\<close>

definition sample_profile_args :: profile_args where
  "sample_profile_args = \<lparr>pa_environment = Dev, pa_employee_id = ''emp-1'', pa_role = ''backend'', pa_seniority = ''senior'',
     pa_weekly_capacity_hours = 40, pa_mentoring_available = True, pa_jira_account_id = None,
     pa_skills = [(''sql'', 3), (''python'', 5)], pa_allocations = [(''WRD'', 1)], pa_capacity_overrides = [],
     pa_actor_id = ''admin'', pa_correlation_id = ''c'', pa_created_at = 0\<rparr>"

definition sample_profile_db :: db where
  "sample_profile_db = empty_db\<lparr>db_next := 1, db_profiles := [new_profile 0 sample_profile_args]\<rparr>"

lemma sample_profile_db_ok: "log_ok sample_runtime sample_profile_db" "profiles_ok sample_profile_db"
  by (simp_all add: sample_profile_db_def log_ok_def verify_chain_def env_events_def empty_db_def profiles_ok_def new_profile_def)

lemma profile_roundtrip_witness:
  "profiles_ok empty_db \<and> find_profile Dev ''emp-1'' empty_db = None \<and>
   (profile_create sample_runtime 0 sample_profile_args empty_db = Inl (IntegrityError ''uq_audit_env_hash'') \<or>
     (\<exists>d'. profile_create sample_runtime 0 sample_profile_args empty_db = Inr (profile_of_args 0 sample_profile_args, d') \<and>
        log_ok sample_runtime d' \<and> profile_get Dev ''emp-1'' d' = Some (profile_of_args 0 sample_profile_args))) \<and>
   sp2_skills (profile_of_args 0 sample_profile_args) = [(''python'', 5), (''sql'', 3)]"
proof -
  have "profiles_ok empty_db" "find_profile Dev ''emp-1'' empty_db = None" "db_next empty_db = 0"
    by (simp_all add: profiles_ok_def find_profile_def empty_db_def)
  with profile_roundtrip [OF sample_runtime_ok empty_log_ok, of sample_profile_args 0]
  show ?thesis by (simp add: sample_profile_args_def profile_of_args_def)
qed

lemma profile_optimistic_update_witness:
  "update_capacity_audited sample_runtime 5 Dev ''emp-1'' 7 20 ''admin'' ''c'' sample_profile_db = Inr (None, sample_profile_db)"
proof -
  have "find_profile Dev ''emp-1'' sample_profile_db = Some (new_profile 0 sample_profile_args)"
    by (simp add: sample_profile_db_def find_profile_def row_simps new_profile_def sample_profile_args_def)
  from profile_optimistic_update [OF sample_runtime_ok sample_profile_db_ok this, of 7 5 20 "''admin''" "''c''"]
  show ?thesis by (simp add: new_profile_def)
qed

end
