(* ===== verification/Progress.thy ===== *)
theory Progress imports Outbox "HOL-Library.Sublist" begin

text \<open>
  persistence/progress\_repository.py: observations of Jira tasks, the progress events derived from
  two successive ones, and the recording of observations in work weeks with their snapshots,
  events and the current state per task.  A transaction that violates a unique constraint is
  rolled back; the model raises at the insertion, where the session raises at its next flush.
\<close>

section \<open>Observations\<close>

definition issue_key_ok :: "string \<Rightarrow> bool" where
  "issue_key_ok s \<longleftrightarrow> matches_key key_char 1 19 (takeWhile (\<lambda>c. c \<noteq> CHR ''-'') s) \<and>
     (case dropWhile (\<lambda>c. c \<noteq> CHR ''-'') s of
        _ # n # ns \<Rightarrow> is_digit n \<and> n \<noteq> CHR ''0'' \<and> list_all is_digit ns
      | _ \<Rightarrow> False)"

definition not_negative :: "pyfloat option \<Rightarrow> bool" where
  "not_negative x \<longleftrightarrow> (case x of None \<Rightarrow> True | Some y \<Rightarrow> 0 \<le> y)"

definition valid_observation :: "observation \<Rightarrow> bool" where
  "valid_observation x \<longleftrightarrow> matches_key key_char 1 19 (tp_project_key x) \<and> issue_key_ok (tp_issue_key x) \<and>
     length_between 1 128 (tp_status x) \<and> not_negative (tp_original_estimate_hours x) \<and>
     not_negative (tp_remaining_estimate_hours x) \<and> not_negative (tp_time_spent_hours x)"

definition make_observation :: "observation \<Rightarrow> observation res" where
  "make_observation x = (if valid_observation x then Inr x else Inl (ValidationError ''TaskProgressObservation''))"

definition date_json :: "runtime \<Rightarrow> date option \<Rightarrow> json" where
  "date_json rt = json_opt (\<lambda>t. JStr (rt_date rt t))"

definition canonical_state :: "runtime \<Rightarrow> observation \<Rightarrow> json" where
  "canonical_state rt x = JObj [
     (''project_key'', JStr (tp_project_key x)), (''issue_key'', JStr (tp_issue_key x)),
     (''assignee_id'', json_opt JStr (tp_assignee_id x)), (''status'', JStr (tp_status x)),
     (''original_estimate_hours'', json_opt JFloat (tp_original_estimate_hours x)),
     (''remaining_estimate_hours'', json_opt JFloat (tp_remaining_estimate_hours x)),
     (''time_spent_hours'', json_opt JFloat (tp_time_spent_hours x)),
     (''due_date'', date_json rt (tp_due_date x)), (''priority'', json_opt JStr (tp_priority x)),
     (''blocked'', JBool (tp_blocked x)),
     (''blocker_issue_keys'', json_strings (sorted_set (tp_blocker_issue_keys x)))]"

definition observation_fingerprint :: "runtime \<Rightarrow> observation \<Rightarrow> string" where
  "observation_fingerprint rt x = digest rt (canonical_state rt x)"

section \<open>Derived events\<close>

record derived_event =
  de_event_type :: string
  de_old_value :: json
  de_new_value :: json
  de_structured_progress :: bool

definition changed :: "string \<Rightarrow> ('v \<Rightarrow> json) \<Rightarrow> 'v \<Rightarrow> 'v \<Rightarrow> bool \<Rightarrow> derived_event list" where
  "changed event_type json_value old new progress = (if old \<noteq> new
     then [\<lparr>de_event_type = event_type, de_old_value = json_value old, de_new_value = json_value new,
            de_structured_progress = progress\<rparr>] else [])"

definition remaining_decreased :: "observation \<Rightarrow> observation \<Rightarrow> bool" where
  "remaining_decreased previous current \<longleftrightarrow>
     (case (tp_remaining_estimate_hours previous, tp_remaining_estimate_hours current) of
        (Some a, Some b) \<Rightarrow> b < a | _ \<Rightarrow> False)"

definition time_increased :: "observation \<Rightarrow> observation \<Rightarrow> bool" where
  "time_increased previous current \<longleftrightarrow>
     (case (tp_time_spent_hours previous, tp_time_spent_hours current) of
        (Some a, Some b) \<Rightarrow> b > a | (None, Some _) \<Rightarrow> True | _ \<Rightarrow> False)"

definition time_events :: "observation \<Rightarrow> observation \<Rightarrow> derived_event list" where
  "time_events previous current =
    (let increased = time_increased previous current in
     changed (if increased then ''work_logged'' else ''time_spent_corrected'') (json_opt JFloat)
       (tp_time_spent_hours previous) (tp_time_spent_hours current) increased)"

definition blocker_events :: "observation \<Rightarrow> observation \<Rightarrow> derived_event list" where
  "blocker_events previous current =
    (let ps = set (tp_blocker_issue_keys previous); cs = set (tp_blocker_issue_keys current);
         old = json_strings (sorted_set (tp_blocker_issue_keys previous));
         new = json_strings (sorted_set (tp_blocker_issue_keys current));
         event = (\<lambda>t. \<lparr>de_event_type = t, de_old_value = old, de_new_value = new, de_structured_progress = False\<rparr>)
     in (if \<not> tp_blocked previous \<and> tp_blocked current \<or> cs - ps \<noteq> {} then [event ''blocker_added''] else []) @
        (if tp_blocked previous \<and> \<not> tp_blocked current \<or> ps - cs \<noteq> {} then [event ''blocker_removed''] else []))"

definition finished_status :: "string \<Rightarrow> bool" where
  "finished_status s \<longleftrightarrow> casefold s \<in> {''done'', ''closed'', ''resolved''}"

definition completion_events :: "observation \<Rightarrow> observation \<Rightarrow> derived_event list" where
  "completion_events previous current =
    (if \<not> finished_status (tp_status previous) \<and> finished_status (tp_status current)
     then [\<lparr>de_event_type = ''task_completed'', de_old_value = JStr (tp_status previous),
            de_new_value = JStr (tp_status current), de_structured_progress = True\<rparr>] else [])"

definition derive_progress_events :: "runtime \<Rightarrow> observation \<Rightarrow> observation \<Rightarrow> derived_event list" where
  "derive_progress_events rt previous current =
     changed ''remaining_estimate_changed'' (json_opt JFloat)
       (tp_remaining_estimate_hours previous) (tp_remaining_estimate_hours current) (remaining_decreased previous current) @
     time_events previous current @
     changed ''status_changed'' JStr (tp_status previous) (tp_status current) True @
     changed ''original_estimate_changed'' (json_opt JFloat)
       (tp_original_estimate_hours previous) (tp_original_estimate_hours current) False @
     changed ''due_date_changed'' (date_json rt) (tp_due_date previous) (tp_due_date current) False @
     changed ''priority_changed'' (json_opt JStr) (tp_priority previous) (tp_priority current) False @
     changed ''assignee_changed'' (json_opt JStr) (tp_assignee_id previous) (tp_assignee_id current) False @
     blocker_events previous current @ completion_events previous current"

section \<open>Recording\<close>

text \<open>
  \<open>captured_at.astimezone(ZoneInfo(timezone_name)).date()\<close> is the argument \<open>local_date\<close>; dates
  are proleptic ordinals, for which \<open>date.weekday()\<close> is \<open>(toordinal() + 6) % 7\<close>.
\<close>

definition weekday :: "date \<Rightarrow> int" where
  "weekday t = (t + 6) mod 7"

definition week_start_of :: "date \<Rightarrow> date" where
  "week_start_of t = t - weekday t"

definition find_week :: "environment \<times> string \<times> date \<Rightarrow> db \<Rightarrow> work_week_row option" where
  "find_week k d = select_one (\<lambda>w. (ww_environment w, ww_project_key w, ww_week_start w) = k) (db_work_weeks d)"

definition new_week :: "uuid \<Rightarrow> environment \<times> string \<times> date \<Rightarrow> timestamp \<Rightarrow> work_week_row" where
  "new_week wid k captured_at = (case k of (env, project_key, week_start) \<Rightarrow>
     \<lparr>ww_id = wid, ww_environment = env, ww_created_at = captured_at, ww_project_key = project_key,
      ww_week_start = week_start, ww_week_end = week_start + 4\<rparr>)"

definition record_week :: "environment \<times> string \<times> date \<Rightarrow> timestamp \<Rightarrow> db \<Rightarrow> work_week_row tx" where
  "record_week k captured_at d =
    (case find_week k d of
       Some existing \<Rightarrow> Inr (existing, d)
     | None \<Rightarrow>
        (let (wid, d1) = new_id d; w = new_week wid k captured_at
         in bindr (insert_row ''uq_work_week_env_project_start''
                (\<lambda>w. (ww_environment w, ww_project_key w, ww_week_start w)) w (db_work_weeks d1)) (\<lambda>rows.
            Inr (w, d1\<lparr>db_work_weeks := rows\<rparr>))))"

definition work_week :: "(timestamp \<Rightarrow> date) \<Rightarrow> environment \<Rightarrow> string \<Rightarrow> timestamp \<Rightarrow> db \<Rightarrow> work_week_row tx" where
  "work_week local_date env project_key captured_at d =
     record_week (env, project_key, week_start_of (local_date captured_at)) captured_at d"

definition find_state :: "environment \<times> string \<times> string \<Rightarrow> db \<Rightarrow> task_state_row option" where
  "find_state k d = select_one (\<lambda>s. (tc_environment s, tc_project_key s, tc_issue_key s) = k) (db_task_states d)"

abbreviation snapshot_key :: "progress_snapshot_row \<Rightarrow> environment \<times> string \<times> string \<times> uuid \<times> string" where
  "snapshot_key s \<equiv> (ps_environment s, ps_project_key s, ps_issue_key s, ps_work_week_id s, ps_evidence_fingerprint s)"

definition new_progress_snapshot :: "runtime \<Rightarrow> uuid \<Rightarrow> environment \<Rightarrow> uuid \<Rightarrow> observation \<Rightarrow> progress_snapshot_row" where
  "new_progress_snapshot rt i env week_id x = \<lparr>ps_id = i, ps_environment = env, ps_created_at = tp_captured_at x,
     ps_work_week_id = week_id, ps_project_key = tp_project_key x, ps_issue_key = tp_issue_key x,
     ps_assignee_id = tp_assignee_id x, ps_captured_at = tp_captured_at x, ps_jira_updated_at = tp_jira_updated_at x,
     ps_status = tp_status x, ps_original_estimate_hours = tp_original_estimate_hours x,
     ps_remaining_estimate_hours = tp_remaining_estimate_hours x, ps_time_spent_hours = tp_time_spent_hours x,
     ps_due_date = tp_due_date x, ps_priority = tp_priority x, ps_blocked = tp_blocked x,
     ps_blocker_issue_keys = tp_blocker_issue_keys x, ps_source = ''jira'',
     ps_evidence_fingerprint = observation_fingerprint rt x\<rparr>"

definition add_snapshot :: "runtime \<Rightarrow> environment \<Rightarrow> uuid \<Rightarrow> observation \<Rightarrow> db \<Rightarrow> db res" where
  "add_snapshot rt env week_id x d =
    (let (i, d1) = new_id d in
     bindr (insert_row ''uq_task_snapshot_env_issue_week_fingerprint'' snapshot_key
         (new_progress_snapshot rt i env week_id x) (db_progress_snapshots d1)) (\<lambda>rows.
     Inr (d1\<lparr>db_progress_snapshots := rows\<rparr>)))"

definition updated_state :: "runtime \<Rightarrow> uuid \<Rightarrow> timestamp option \<Rightarrow> observation \<Rightarrow> task_state_row \<Rightarrow> task_state_row" where
  "updated_state rt week_id last_progress x s = s\<lparr>tc_work_week_id := week_id,
     tc_evidence_fingerprint := observation_fingerprint rt x, tc_last_observed_at := tp_captured_at x,
     tc_jira_updated_at := tp_jira_updated_at x, tc_last_structured_progress_at := last_progress, tc_state := x\<rparr>"

definition new_state :: "runtime \<Rightarrow> uuid \<Rightarrow> environment \<Rightarrow> uuid \<Rightarrow> timestamp option \<Rightarrow> observation \<Rightarrow> task_state_row" where
  "new_state rt i env week_id last_progress x = \<lparr>tc_id = i, tc_environment = env, tc_created_at = tp_captured_at x,
     tc_project_key = tp_project_key x, tc_issue_key = tp_issue_key x, tc_work_week_id = week_id,
     tc_evidence_fingerprint = observation_fingerprint rt x, tc_last_observed_at = tp_captured_at x,
     tc_jira_updated_at = tp_jira_updated_at x, tc_last_structured_progress_at = last_progress, tc_state = x\<rparr>"

definition put_state ::
  "runtime \<Rightarrow> environment \<Rightarrow> uuid \<Rightarrow> timestamp option \<Rightarrow> observation \<Rightarrow> task_state_row option \<Rightarrow> db \<Rightarrow> db res" where
  "put_state rt env week_id last_progress x current d =
    (case current of
       Some s \<Rightarrow> Inr (d\<lparr>db_task_states :=
           update_where (\<lambda>r. tc_id r = tc_id s) (updated_state rt week_id last_progress x) (db_task_states d)\<rparr>)
     | None \<Rightarrow>
        (let (i, d1) = new_id d in
         bindr (insert_row ''uq_task_current_env_project_issue'' (\<lambda>s. (tc_environment s, tc_project_key s, tc_issue_key s))
             (new_state rt i env week_id last_progress x) (db_task_states d1)) (\<lambda>rows.
         Inr (d1\<lparr>db_task_states := rows\<rparr>))))"

definition event_material :: "runtime \<Rightarrow> environment \<Rightarrow> observation \<Rightarrow> derived_event \<Rightarrow> json" where
  "event_material rt env x e = JObj [(''environment'', JStr (environment_value env)), (''issue_key'', JStr (tp_issue_key x)),
     (''event_type'', JStr (de_event_type e)), (''occurred_at'', JStr (rt_isoformat rt (tp_jira_updated_at x))),
     (''old'', de_old_value e), (''new'', de_new_value e)]"

definition new_progress_event ::
  "runtime \<Rightarrow> environment \<Rightarrow> uuid \<Rightarrow> observation \<Rightarrow> uuid \<Rightarrow> derived_event \<Rightarrow> progress_event_row" where
  "new_progress_event rt env week_id x i e = \<lparr>pe_id = i, pe_environment = env, pe_created_at = tp_captured_at x,
     pe_work_week_id = week_id, pe_project_key = tp_project_key x, pe_issue_key = tp_issue_key x,
     pe_employee_id = tp_assignee_id x, pe_event_type = de_event_type e, pe_occurred_at = tp_jira_updated_at x,
     pe_old_value = de_old_value e, pe_new_value = de_new_value e, pe_source = ''jira'',
     pe_event_fingerprint = digest_spaced rt (event_material rt env x e)\<rparr>"

definition add_event :: "runtime \<Rightarrow> environment \<Rightarrow> uuid \<Rightarrow> observation \<Rightarrow> db \<Rightarrow> derived_event \<Rightarrow> db res" where
  "add_event rt env week_id x d e =
    (let (i, d1) = new_id d in
     bindr (insert_row ''uq_task_progress_event_env_fingerprint'' (\<lambda>e. (pe_environment e, pe_event_fingerprint e))
         (new_progress_event rt env week_id x i e) (db_progress_events d1)) (\<lambda>rows.
     Inr (d1\<lparr>db_progress_events := rows\<rparr>)))"

definition last_progress_of :: "task_state_row option \<Rightarrow> derived_event list \<Rightarrow> observation \<Rightarrow> timestamp option" where
  "last_progress_of current events x =
    (if list_ex de_structured_progress events then Some (tp_jira_updated_at x)
     else case current of None \<Rightarrow> Some (tp_jira_updated_at x) | Some s \<Rightarrow> tc_last_structured_progress_at s)"

record progress_result =
  po_observed :: nat
  po_snapshots_created :: nat
  po_events_created :: nat

text \<open>The body of the loop of \<open>record_observations\<close>: counters and database.\<close>

definition record_observation ::
  "runtime \<Rightarrow> (timestamp \<Rightarrow> date) \<Rightarrow> environment \<Rightarrow> (nat \<times> nat) \<times> db \<Rightarrow> observation \<Rightarrow> ((nat \<times> nat) \<times> db) res" where
  "record_observation rt local_date env st x =
    (case st of ((snapshots, events), d) \<Rightarrow>
     bindr (work_week local_date env (tp_project_key x) (tp_captured_at x) d) (\<lambda>(week, d1).
     let current = find_state (env, tp_project_key x, tp_issue_key x) d1;
         fp = observation_fingerprint rt x;
         derived = (case current of None \<Rightarrow> [] | Some s \<Rightarrow> derive_progress_events rt (tc_state s) x);
         week_changed = (case current of None \<Rightarrow> False | Some s \<Rightarrow> tc_work_week_id s \<noteq> ww_id week);
         state_changed = (case current of None \<Rightarrow> True | Some s \<Rightarrow> tc_evidence_fingerprint s \<noteq> fp);
         store = state_changed \<or> week_changed
     in bindr (if store then add_snapshot rt env (ww_id week) x d1 else Inr d1) (\<lambda>d2.
        bindr (put_state rt env (ww_id week) (last_progress_of current derived x) x current d2) (\<lambda>d3.
        bindr (foldr_res (add_event rt env (ww_id week) x) d3 derived) (\<lambda>d4.
        Inr ((snapshots + (if store then 1 else 0), events + length derived), d4))))))"

definition record_observations ::
  "runtime \<Rightarrow> (timestamp \<Rightarrow> date) \<Rightarrow> environment \<Rightarrow> observation list \<Rightarrow> db \<Rightarrow> progress_result tx" where
  "record_observations rt local_date env xs d =
    bindr (foldr_res (record_observation rt local_date env) ((0, 0), d) xs) (\<lambda>((snapshots, events), d').
      Inr (\<lparr>po_observed = length xs, po_snapshots_created = snapshots, po_events_created = events\<rparr>, d'))"

section \<open>History\<close>

definition event_record :: "runtime \<Rightarrow> progress_event_row \<Rightarrow> json" where
  "event_record rt r = JObj [(''record_type'', JStr ''progress_event''), (''issue_key'', JStr (pe_issue_key r)),
     (''employee_reference'', json_opt JStr (pe_employee_id r)), (''event_type'', JStr (pe_event_type r)),
     (''occurred_at'', JStr (rt_isoformat rt (pe_occurred_at r))), (''old_value'', pe_old_value r),
     (''new_value'', pe_new_value r), (''source'', JStr (pe_source r))]"

definition snapshot_record :: "runtime \<Rightarrow> progress_snapshot_row \<Rightarrow> json" where
  "snapshot_record rt r = JObj [(''record_type'', JStr ''task_snapshot''), (''issue_key'', JStr (ps_issue_key r)),
     (''employee_reference'', json_opt JStr (ps_assignee_id r)),
     (''captured_at'', JStr (rt_isoformat rt (ps_captured_at r))),
     (''jira_updated_at'', JStr (rt_isoformat rt (ps_jira_updated_at r))), (''status'', JStr (ps_status r)),
     (''original_estimate_hours'', json_opt JFloat (ps_original_estimate_hours r)),
     (''remaining_estimate_hours'', json_opt JFloat (ps_remaining_estimate_hours r)),
     (''time_spent_hours'', json_opt JFloat (ps_time_spent_hours r)), (''due_date'', date_json rt (ps_due_date r)),
     (''priority'', json_opt JStr (ps_priority r)), (''blocked'', JBool (ps_blocked r)),
     (''blocker_issue_keys'', json_strings (ps_blocker_issue_keys r)), (''source'', JStr (ps_source r))]"

text \<open>Rows with the same instant keep their insertion order, which the query leaves open.\<close>

definition newest :: "('r \<Rightarrow> timestamp) \<Rightarrow> nat \<Rightarrow> 'r list \<Rightarrow> 'r list" where
  "newest time n rows = take n (sort_key (\<lambda>r. - time r) rows)"

definition load_history_records :: "runtime \<Rightarrow> environment \<Rightarrow> string \<Rightarrow> int \<Rightarrow> db \<Rightarrow> json list" where
  "load_history_records rt env project_key limit d =
    (let bounded = nat (max 1 (min limit 500));
         events = newest pe_occurred_at bounded
           (filter (\<lambda>r. pe_environment r = env \<and> pe_project_key r = project_key) (db_progress_events d));
         remaining = bounded - length events;
         snapshots = (if remaining > 0 then newest ps_captured_at remaining
           (filter (\<lambda>r. ps_environment r = env \<and> ps_project_key r = project_key) (db_progress_snapshots d)) else [])
     in map (event_record rt) events @ map (snapshot_record rt) snapshots)"

section \<open>Properties of derived events\<close>

text \<open>The fields of an observation that its canonical state shows.\<close>

definition same_content :: "observation \<Rightarrow> observation \<Rightarrow> bool" where
  "same_content x y \<longleftrightarrow> tp_project_key x = tp_project_key y \<and> tp_issue_key x = tp_issue_key y \<and>
     tp_assignee_id x = tp_assignee_id y \<and> tp_status x = tp_status y \<and>
     tp_original_estimate_hours x = tp_original_estimate_hours y \<and>
     tp_remaining_estimate_hours x = tp_remaining_estimate_hours y \<and>
     tp_time_spent_hours x = tp_time_spent_hours y \<and> tp_due_date x = tp_due_date y \<and>
     tp_priority x = tp_priority y \<and> tp_blocked x = tp_blocked y \<and>
     set (tp_blocker_issue_keys x) = set (tp_blocker_issue_keys y)"

lemma changed_Nil [simp]: "changed t enc old new p = [] \<longleftrightarrow> old = new"
  by (simp add: changed_def)

lemma time_events_Nil [simp]: "time_events x y = [] \<longleftrightarrow> tp_time_spent_hours x = tp_time_spent_hours y"
  by (simp add: time_events_def Let_def)

lemma blocker_events_Nil:
  "blocker_events x y = [] \<longleftrightarrow> tp_blocked x = tp_blocked y \<and> set (tp_blocker_issue_keys x) = set (tp_blocker_issue_keys y)"
  by (auto simp: blocker_events_def Let_def)

lemma derive_Nil_iff:
  assumes "tp_project_key x = tp_project_key y" and "tp_issue_key x = tp_issue_key y"
  shows "derive_progress_events rt x y = [] \<longleftrightarrow> same_content x y"
proof -
  have "completion_events x y = []" if "tp_status x = tp_status y" using that by (simp add: completion_events_def)
  then show ?thesis using assms by (auto simp: derive_progress_events_def same_content_def blocker_events_Nil)
qed

lemma sorted_set_eq_iff: "sorted_set xs = sorted_set ys \<longleftrightarrow> set xs = set ys"
  using sorted_set_cong [of xs ys] by (metis sorted_set_props(1))

lemma canonical_state_eq:
  assumes "runtime_ok rt"
  shows "canon (canonical_state rt x) = canon (canonical_state rt y) \<longleftrightarrow> same_content x y"
proof -
  have str: "json_opt JStr u = json_opt JStr v \<longleftrightarrow> u = v" for u v by (rule json_opt_eq) auto
  have num: "json_opt JFloat u = json_opt JFloat v \<longleftrightarrow> u = v" for u v by (rule json_opt_eq) auto
  have "inj (rt_date rt)" using assms by (simp add: runtime_ok_def)
  then have dat: "date_json rt u = date_json rt v \<longleftrightarrow> u = v" for u v
    unfolding date_json_def by (intro json_opt_eq) (auto simp: inj_eq)
  have cdat: "canon (date_json rt u) = date_json rt u" for u by (cases u) (simp_all add: date_json_def json_opt_def)
  have cstr: "canon (json_strings xs) = json_strings xs" for xs by (simp add: json_strings_def)
  show ?thesis unfolding canonical_state_def
    by (subst canon_object_iff) (auto simp: str num dat cdat cstr sorted_set_eq_iff same_content_def)
qed

lemma observation_fingerprint_eq:
  assumes "runtime_ok rt"
  shows "observation_fingerprint rt x = observation_fingerprint rt y \<longleftrightarrow>
     same_content x y \<or> collision rt (canonical_state rt x) (canonical_state rt y)"
  using digest_eq_iff [OF assms] canonical_state_eq [OF assms] by (simp add: observation_fingerprint_def)

lemma changed_types: "subseq (map de_event_type (changed t enc old new p)) [t]"
  by (simp add: changed_def)

lemma blocker_types: "subseq (map de_event_type (blocker_events x y)) [''blocker_added'', ''blocker_removed'']"
  by (simp add: blocker_events_def Let_def)

lemma completion_types: "subseq (map de_event_type (completion_events x y)) [''task_completed'']"
  by (simp add: completion_events_def)

lemma distinct_event_types: "distinct (map de_event_type (derive_progress_events rt x y))"
proof -
  let ?t = "if time_increased x y then ''work_logged'' else ''time_spent_corrected''"
  have "subseq (map de_event_type (derive_progress_events rt x y))
     ([''remaining_estimate_changed''] @ [?t] @ [''status_changed''] @ [''original_estimate_changed''] @
      [''due_date_changed''] @ [''priority_changed''] @ [''assignee_changed''] @
      [''blocker_added'', ''blocker_removed''] @ [''task_completed''])"
    unfolding derive_progress_events_def time_events_def Let_def map_append
    by (intro list_emb_append_mono changed_types blocker_types completion_types)
  then obtain n where n: "map de_event_type (derive_progress_events rt x y) =
     nths ([''remaining_estimate_changed''] @ [?t] @ [''status_changed''] @ [''original_estimate_changed''] @
      [''due_date_changed''] @ [''priority_changed''] @ [''assignee_changed''] @
      [''blocker_added'', ''blocker_removed''] @ [''task_completed'']) n"
    unfolding subseq_conv_nths by blast
  show ?thesis unfolding n by (rule distinct_nthsI) simp
qed

section \<open>Properties of the recording\<close>

lemma record_week_cases:
  "record_week k t d = (case find_week k d of Some w \<Rightarrow> Inr (w, d)
     | None \<Rightarrow> (let w = new_week (db_next d) k t in
         Inr (w, d\<lparr>db_next := Suc (db_next d), db_work_weeks := db_work_weeks d @ [w]\<rparr>)))"
  by (cases k) (auto simp: record_week_def find_week_def new_id_def insert_row_def list_ex_iff Let_def new_week_def
      split: option.splits)

interpretation week_store: idempotent_store find_week record_week
  by (rule keyed_store [OF find_week_def]) (auto simp: record_week_cases new_week_def Let_def split: prod.splits)

abbreviation state_key :: "task_state_row \<Rightarrow> environment \<times> string \<times> string" where
  "state_key s \<equiv> (tc_environment s, tc_project_key s, tc_issue_key s)"

text \<open>
  What holds between recordings: keys and identifiers are unique and drawn, and every current
  state has the fingerprint of its observation and a snapshot of it in its week.
\<close>

definition state_ok :: "runtime \<Rightarrow> progress_snapshot_row list \<Rightarrow> task_state_row \<Rightarrow> bool" where
  "state_ok rt snaps s \<longleftrightarrow> tp_project_key (tc_state s) = tc_project_key s \<and> tp_issue_key (tc_state s) = tc_issue_key s \<and>
     tc_evidence_fingerprint s = observation_fingerprint rt (tc_state s) \<and>
     (tc_environment s, tc_project_key s, tc_issue_key s, tc_work_week_id s, tc_evidence_fingerprint s) \<in> snapshot_key ` set snaps"

definition progress_ok :: "runtime \<Rightarrow> db \<Rightarrow> bool" where
  "progress_ok rt d \<longleftrightarrow> distinct (map tc_id (db_task_states d)) \<and> distinct (map state_key (db_task_states d)) \<and>
     (\<forall>s \<in> set (db_task_states d). tc_id s < db_next d \<and> state_ok rt (db_progress_snapshots d) s) \<and>
     distinct (map snapshot_key (db_progress_snapshots d)) \<and>
     (\<forall>p \<in> set (db_progress_snapshots d). ps_work_week_id p < db_next d) \<and>
     (\<forall>w \<in> set (db_work_weeks d). ww_id w < db_next d)"

lemma state_ok_mono: "state_ok rt snaps s \<Longrightarrow> set snaps \<subseteq> set snaps' \<Longrightarrow> state_ok rt snaps' s"
  by (auto simp: state_ok_def)

lemma find_state_SomeD:
  assumes "find_state k d = Some s"
  shows "s \<in> set (db_task_states d)" and "state_key s = k"
  using select_one_SomeD [OF assms [unfolded find_state_def]] by simp_all

lemma record_week_ok:
  assumes "progress_ok rt d" and "record_week k t d = Inr (w, d1)"
  shows "progress_ok rt d1" and "find_week k d1 = Some w" and "ww_id w < db_next d1"
    and "\<exists>n ws. d1 = d\<lparr>db_next := n, db_work_weeks := ws\<rparr> \<and> db_next d \<le> n"
    and "find_week k d = None \<Longrightarrow> ww_id w = db_next d"
proof -
  show w: "find_week k d1 = Some w" by (rule week_store.put_lookup [OF assms(2)])
  show "find_week k d = None \<Longrightarrow> ww_id w = db_next d"
    using assms(2) by (auto simp: record_week_cases Let_def new_week_def split: prod.splits)
  have "progress_ok rt d1 \<and> (\<exists>n ws. d1 = d\<lparr>db_next := n, db_work_weeks := ws\<rparr> \<and> db_next d \<le> n)"
  proof (cases "find_week k d")
    case None
    with assms(2) have d1: "d1 = d\<lparr>db_next := Suc (db_next d), db_work_weeks := db_work_weeks d @ [w]\<rparr>" "ww_id w = db_next d"
      by (auto simp: record_week_cases Let_def new_week_def split: prod.splits)
    have "progress_ok rt d1" using assms(1) d1(2) by (auto simp: progress_ok_def d1(1) less_Suc_eq)
    with d1(1) show ?thesis
      by (intro conjI exI [of _ "Suc (db_next d)"] exI [of _ "db_work_weeks d @ [w]"]) simp_all
  next
    case (Some v)
    with assms(2) have "d1 = d" by (simp add: record_week_cases)
    with assms(1) show ?thesis
      by (intro conjI exI [of _ "db_next d"] exI [of _ "db_work_weeks d"]) simp_all
  qed
  then show "progress_ok rt d1" "\<exists>n ws. d1 = d\<lparr>db_next := n, db_work_weeks := ws\<rparr> \<and> db_next d \<le> n" by auto
  then show "ww_id w < db_next d1" using w by (auto simp: progress_ok_def find_week_def)
qed

text \<open>The columns of the snapshot an observation gets in a week.\<close>

definition snapshot_key_of :: "runtime \<Rightarrow> environment \<Rightarrow> uuid \<Rightarrow> observation \<Rightarrow> environment \<times> string \<times> string \<times> uuid \<times> string" where
  "snapshot_key_of rt env week_id x = (env, tp_project_key x, tp_issue_key x, week_id, observation_fingerprint rt x)"

lemma add_snapshot_run:
  "add_snapshot rt env wid x d = (if snapshot_key_of rt env wid x \<in> snapshot_key ` set (db_progress_snapshots d)
     then Inl (IntegrityError ''uq_task_snapshot_env_issue_week_fingerprint'')
     else Inr (d\<lparr>db_next := Suc (db_next d),
        db_progress_snapshots := db_progress_snapshots d @ [new_progress_snapshot rt (db_next d) env wid x]\<rparr>))"
proof -
  have "snapshot_key (new_progress_snapshot rt i env wid x) = snapshot_key_of rt env wid x" for i
    by (simp add: new_progress_snapshot_def snapshot_key_of_def)
  then show ?thesis
    by (simp add: add_snapshot_def new_id_def Let_def insert_row_Inl_iff [THEN iffD2] insert_row_Inr_iff [THEN iffD2])
qed

lemma add_snapshot_ok:
  assumes "progress_ok rt d" and "wid < db_next d" and "add_snapshot rt env wid x d = Inr d'"
  shows "progress_ok rt d'" and "snapshot_key_of rt env wid x \<in> snapshot_key ` set (db_progress_snapshots d')"
proof -
  let ?p = "new_progress_snapshot rt (db_next d) env wid x"
  have key: "snapshot_key ?p = snapshot_key_of rt env wid x"
    by (simp add: new_progress_snapshot_def snapshot_key_of_def)
  from assms(3) have d': "d' = d\<lparr>db_next := Suc (db_next d), db_progress_snapshots := db_progress_snapshots d @ [?p]\<rparr>"
    and new: "snapshot_key ?p \<notin> snapshot_key ` set (db_progress_snapshots d)"
    unfolding add_snapshot_run key by (simp_all split: if_splits)
  show "snapshot_key_of rt env wid x \<in> snapshot_key ` set (db_progress_snapshots d')" using key by (simp add: d')
  have "ps_work_week_id ?p = wid" by (simp add: new_progress_snapshot_def)
  moreover have "state_ok rt (db_progress_snapshots d @ [?p]) s" if "s \<in> set (db_task_states d)" for s
    using that assms(1) state_ok_mono [of rt "db_progress_snapshots d" s "db_progress_snapshots d @ [?p]"]
    by (auto simp: progress_ok_def)
  moreover have "distinct (map snapshot_key (db_progress_snapshots d @ [?p]))"
    using assms(1) new by (subst distinct_key_snoc) (simp add: progress_ok_def)
  ultimately show "progress_ok rt d'" using assms(1,2) by (auto simp: progress_ok_def d' less_Suc_eq)
qed

text \<open>Replacing one row of the current states, found by its key.\<close>

lemma update_state_ok:
  assumes "progress_ok rt d" and "find_state k d = Some s" and "tc_id s' = tc_id s" and "state_key s' = k"
    and "state_ok rt (db_progress_snapshots d) s'"
    and d': "d' = d\<lparr>db_task_states := update_where (\<lambda>r. tc_id r = tc_id s) f (db_task_states d)\<rparr>" and "f s = s'"
  shows "progress_ok rt d'" and "find_state k d' = Some s'" and "k' \<noteq> k \<Longrightarrow> find_state k' d' = find_state k' d"
proof -
  note s = find_state_SomeD [OF assms(2)]
  have only: "r = s" if "r \<in> set (db_task_states d)" "tc_id r = tc_id s" for r
    using assms(1) s(1) that by (auto simp: progress_ok_def distinct_map inj_on_def)
  have rows: "db_task_states d' = map (\<lambda>r. if r = s then s' else r) (db_task_states d)"
    unfolding d' using only assms(7) by (auto simp: update_where_def)
  have ids: "map tc_id (db_task_states d') = map tc_id (db_task_states d)" unfolding rows using assms(3) by simp
  have "state_key s' = state_key s" using assms(4) s(2) by (rule trans [OF _ sym])
  then have keys: "map state_key (db_task_states d') = map state_key (db_task_states d)" unfolding rows by simp
  have mem: "s' \<in> set (db_task_states d')" unfolding rows using s(1) by (auto intro: rev_image_eqI)
  have dis: "distinct (map state_key (db_task_states d))" using assms(1) by (simp add: progress_ok_def)
  show "find_state k d' = Some s'"
    unfolding find_state_def
    by (rule select_one_unique [where key = state_key]) (use dis keys mem assms(4) in auto)
  show "find_state k' d' = find_state k' d" if "k' \<noteq> k"
  proof -
    have "select_one (\<lambda>r. state_key r = k') (map (\<lambda>r. if r = s then s' else r) rs) = select_one (\<lambda>r. state_key r = k') rs" for rs
      by (induction rs) (use that s(2) assms(4) in \<open>auto simp: row_simps\<close>)
    then show ?thesis by (simp only: find_state_def rows)
  qed
  have frame: "db_next d' = db_next d" "db_progress_snapshots d' = db_progress_snapshots d" by (simp_all add: d')
  have "tc_id r < db_next d' \<and> state_ok rt (db_progress_snapshots d') r" if "r \<in> set (db_task_states d')" for r
    using that assms(1,3,5) s(1) unfolding frame rows by (auto simp: progress_ok_def split: if_splits)
  then show "progress_ok rt d'" using assms(1) ids keys by (simp add: progress_ok_def d')
qed

lemma insert_state_ok:
  assumes "progress_ok rt d" and "find_state k d = None" and "tc_id s = db_next d" and "state_key s = k"
    and "state_ok rt (db_progress_snapshots d) s"
    and d': "d' = d\<lparr>db_next := Suc (db_next d), db_task_states := db_task_states d @ [s]\<rparr>"
  shows "progress_ok rt d'" and "find_state k d' = Some s" and "k' \<noteq> k \<Longrightarrow> find_state k' d' = find_state k' d"
proof -
  show "find_state k d' = Some s" using assms(2,4) by (simp add: find_state_def d' select_one_snoc(2))
  show "find_state k' d' = find_state k' d" if "k' \<noteq> k"
    using that assms(4) by (simp add: find_state_def d' select_one_snoc(1))
  have new: "state_key s \<notin> state_key ` set (db_task_states d)"
    using assms(2,4) by (auto simp: find_state_def)
  have "distinct (map state_key (db_task_states d @ [s]))"
    using assms(1) new by (subst distinct_key_snoc) (simp add: progress_ok_def)
  moreover have "distinct (map tc_id (db_task_states d @ [s]))"
    using assms(1,3) by (subst distinct_key_snoc) (auto simp: progress_ok_def)
  ultimately show "progress_ok rt d'" using assms(1,3,5) by (auto simp: progress_ok_def d' less_Suc_eq)
qed

lemma put_state_ok:
  assumes "progress_ok rt d" and k: "k = (env, tp_project_key x, tp_issue_key x)" and "find_state k d = current"
    and "snapshot_key_of rt env wid x \<in> snapshot_key ` set (db_progress_snapshots d)"
  shows "\<exists>d' s. put_state rt env wid lp x current d = Inr d' \<and> progress_ok rt d' \<and> find_state k d' = Some s \<and>
     tc_state s = x \<and> tc_work_week_id s = wid \<and> tc_last_structured_progress_at s = lp \<and>
     (\<forall>k'. k' \<noteq> k \<longrightarrow> find_state k' d' = find_state k' d) \<and>
     (\<exists>n ss. d' = d\<lparr>db_next := n, db_task_states := ss\<rparr>)"
proof (cases current)
  case None
  let ?s = "new_state rt (db_next d) env wid lp x"
  let ?d = "d\<lparr>db_next := Suc (db_next d), db_task_states := db_task_states d @ [?s]\<rparr>"
  have ok: "state_ok rt (db_progress_snapshots d) ?s"
    using assms(4) by (simp add: state_ok_def new_state_def snapshot_key_of_def)
  note ins = insert_state_ok [OF assms(1) assms(3) [unfolded None], where s = ?s, OF _ _ ok refl]
  have "state_key ?s \<notin> state_key ` set (db_task_states d)"
    using assms(3) None k by (auto simp: find_state_def new_state_def)
  then have run: "put_state rt env wid lp x current d = Inr ?d"
    by (simp add: put_state_def None new_id_def Let_def insert_row_Inr_iff [THEN iffD2])
  show ?thesis
    by (rule exI [of _ ?d], rule exI [of _ ?s], intro conjI run allI impI ins)
      (auto simp: new_state_def k)
next
  case (Some s)
  let ?f = "updated_state rt wid lp x"
  let ?d = "d\<lparr>db_task_states := update_where (\<lambda>r. tc_id r = tc_id s) ?f (db_task_states d)\<rparr>"
  note s = find_state_SomeD [OF assms(3) [unfolded Some]]
  have ok: "state_ok rt (db_progress_snapshots d) (?f s)"
    using assms(4) s(2) k by (simp add: state_ok_def updated_state_def snapshot_key_of_def)
  note upd = update_state_ok [OF assms(1) assms(3) [unfolded Some], where s' = "?f s" and f = ?f, OF _ _ ok refl refl]
  have run: "put_state rt env wid lp x current d = Inr ?d" by (simp add: put_state_def Some)
  have ex: "\<exists>n ss. ?d = d\<lparr>db_next := n, db_task_states := ss\<rparr>"
    by (rule exI [of _ "db_next d"]) auto
  show ?thesis
    by (rule exI [of _ ?d], rule exI [of _ "?f s"], intro conjI run allI impI upd ex)
      (use s(2) in \<open>auto simp: updated_state_def\<close>)
qed

abbreviation event_key :: "progress_event_row \<Rightarrow> environment \<times> string" where
  "event_key e \<equiv> (pe_environment e, pe_event_fingerprint e)"

lemma add_events_run:
  "(\<exists>n rows. foldr_res (add_event rt env wid x) d es = Inr (d\<lparr>db_next := n, db_progress_events := db_progress_events d @ rows\<rparr>) \<and>
      db_next d \<le> n \<and> list_all2 (\<lambda>r e. \<exists>i. r = new_progress_event rt env wid x i e) rows es) \<or>
   foldr_res (add_event rt env wid x) d es = Inl (IntegrityError ''uq_task_progress_event_env_fingerprint'')"
proof (induction es arbitrary: d)
  case Nil
  show ?case by (rule disjI1, rule exI [of _ "db_next d"], rule exI [of _ "[]"]) simp
next
  case (Cons e es)
  let ?r = "new_progress_event rt env wid x (db_next d) e"
  let ?d = "d\<lparr>db_next := Suc (db_next d), db_progress_events := db_progress_events d @ [?r]\<rparr>"
  have step: "add_event rt env wid x d e = (if event_key ?r \<in> event_key ` set (db_progress_events d)
     then Inl (IntegrityError ''uq_task_progress_event_env_fingerprint'') else Inr ?d)"
    by (simp add: add_event_def new_id_def Let_def insert_row_Inl_iff [THEN iffD2] insert_row_Inr_iff [THEN iffD2])
  from Cons.IH [of ?d] show ?case
  proof (elim disjE exE conjE)
    fix n rows
    assume "foldr_res (add_event rt env wid x) ?d es = Inr (?d\<lparr>db_next := n, db_progress_events := db_progress_events ?d @ rows\<rparr>)"
      and "db_next ?d \<le> n" and "list_all2 (\<lambda>r e. \<exists>i. r = new_progress_event rt env wid x i e) rows es"
    then show ?thesis
      by (cases "event_key ?r \<in> event_key ` set (db_progress_events d)")
        (simp add: step, rule disjI1, rule exI [of _ n], rule exI [of _ "?r # rows"], auto simp: step)
  qed (simp add: step)
qed

text \<open>Keys of an observation: its task, and the work week it is captured in.\<close>

definition task_key :: "environment \<Rightarrow> observation \<Rightarrow> environment \<times> string \<times> string" where
  "task_key env x = (env, tp_project_key x, tp_issue_key x)"

definition week_key :: "(timestamp \<Rightarrow> date) \<Rightarrow> environment \<Rightarrow> observation \<Rightarrow> environment \<times> string \<times> date" where
  "week_key ld env x = (env, tp_project_key x, week_start_of (ld (tp_captured_at x)))"

definition derived_from :: "runtime \<Rightarrow> task_state_row option \<Rightarrow> observation \<Rightarrow> derived_event list" where
  "derived_from rt current x = (case current of None \<Rightarrow> [] | Some s \<Rightarrow> derive_progress_events rt (tc_state s) x)"

definition needs_snapshot :: "runtime \<Rightarrow> task_state_row option \<Rightarrow> uuid \<Rightarrow> observation \<Rightarrow> bool" where
  "needs_snapshot rt current wid x = (case current of None \<Rightarrow> True
     | Some s \<Rightarrow> tc_evidence_fingerprint s \<noteq> observation_fingerprint rt x \<or> tc_work_week_id s \<noteq> wid)"

definition recorded_as :: "(timestamp \<Rightarrow> date) \<Rightarrow> environment \<Rightarrow> observation \<Rightarrow> timestamp option \<Rightarrow> db \<Rightarrow> bool" where
  "recorded_as ld env x lp d \<longleftrightarrow> (\<exists>s w. find_state (task_key env x) d = Some s \<and> tc_state s = x \<and>
     find_week (week_key ld env x) d = Some w \<and> tc_work_week_id s = ww_id w \<and> tc_last_structured_progress_at s = lp)"

lemma record_observation_unfold:
  assumes "record_week (week_key ld env x) (tp_captured_at x) d = Inr (w, d1)"
    and "find_state (task_key env x) d = current" and "db_task_states d1 = db_task_states d"
  shows "record_observation rt ld env ((a, b), d) x =
    bindr (if needs_snapshot rt current (ww_id w) x then add_snapshot rt env (ww_id w) x d1 else Inr d1) (\<lambda>d2.
    bindr (put_state rt env (ww_id w) (last_progress_of current (derived_from rt current x) x) x current d2) (\<lambda>d3.
    bindr (foldr_res (add_event rt env (ww_id w) x) d3 (derived_from rt current x)) (\<lambda>d4.
    Inr ((a + (if needs_snapshot rt current (ww_id w) x then 1 else 0), b + length (derived_from rt current x)), d4))))"
proof -
  have "find_state (env, tp_project_key x, tp_issue_key x) d1 = current"
    using assms(2,3) by (simp add: find_state_def task_key_def)
  moreover have "(case current of None \<Rightarrow> True | Some s \<Rightarrow> tc_evidence_fingerprint s \<noteq> observation_fingerprint rt x) \<or>
      (case current of None \<Rightarrow> False | Some s \<Rightarrow> tc_work_week_id s \<noteq> ww_id w) \<longleftrightarrow> needs_snapshot rt current (ww_id w) x"
    by (cases current) (simp_all add: needs_snapshot_def)
  ultimately show ?thesis
    using assms(1) by (simp add: record_observation_def work_week_def week_key_def Let_def derived_from_def)
qed

text \<open>The snapshot of an observation, when it needs one.\<close>

lemma snapshot_step:
  assumes ok: "progress_ok rt d" and week: "record_week (week_key ld env x) (tp_captured_at x) d = Inr (w, d1)"
    and current: "find_state (task_key env x) d = current"
    and False: "\<not> (needs_snapshot rt current (ww_id w) x \<and> snapshot_key_of rt env (ww_id w) x \<in> snapshot_key ` set (db_progress_snapshots d))"
  shows "\<exists>d2 ps. (if needs_snapshot rt current (ww_id w) x then add_snapshot rt env (ww_id w) x d1 else Inr d1) = Inr d2 \<and> progress_ok rt d2 \<and>
     snapshot_key_of rt env (ww_id w) x \<in> snapshot_key ` set (db_progress_snapshots d2) \<and> db_progress_snapshots d2 = db_progress_snapshots d @ ps \<and>
     length ps = (if needs_snapshot rt current (ww_id w) x then 1 else 0) \<and> db_task_states d2 = db_task_states d \<and>
     db_work_weeks d2 = db_work_weeks d1 \<and> db_progress_events d2 = db_progress_events d"
    (is "\<exists>d2 ps. (if ?store then _ else _) = _ \<and> _ \<and> ?key \<in> _ \<and> _")
proof -
  obtain n ws where d1: "d1 = d\<lparr>db_next := n, db_work_weeks := ws\<rparr>" using record_week_ok(4) [OF ok week] by blast
  note w = record_week_ok(1-3) [OF ok week]
  have frame: "db_task_states d1 = db_task_states d" "db_progress_snapshots d1 = db_progress_snapshots d"
    "db_progress_events d1 = db_progress_events d" by (simp_all add: d1)
  show ?thesis
proof (cases ?store)
    case s: True
    with False have new: "?key \<notin> snapshot_key ` set (db_progress_snapshots d1)" by (simp add: frame(2))
    let ?p = "new_progress_snapshot rt (db_next d1) env (ww_id w) x"
    let ?d2 = "d1\<lparr>db_next := Suc (db_next d1), db_progress_snapshots := db_progress_snapshots d1 @ [?p]\<rparr>"
    have add: "add_snapshot rt env (ww_id w) x d1 = Inr ?d2" using new by (simp add: add_snapshot_run)
    note add_snapshot_ok [OF w(1) w(3) add]
    then show ?thesis using s add frame by (intro exI [of _ ?d2] exI [of _ "[?p]"]) simp
  next
    case s: False
    then obtain st where st: "current = Some st" "tc_work_week_id st = ww_id w"
        "tc_evidence_fingerprint st = observation_fingerprint rt x"
      by (auto simp: needs_snapshot_def split: option.splits)
    note st' = find_state_SomeD [OF current [unfolded st(1)]]
    have "state_ok rt (db_progress_snapshots d) st" using ok st'(1) by (simp add: progress_ok_def)
    then have "?key \<in> snapshot_key ` set (db_progress_snapshots d)"
      using st st'(2) by (auto simp: state_ok_def snapshot_key_of_def task_key_def)
    with s w(1) frame show ?thesis by (intro exI [of _ d1] exI [of _ "[]"]) simp
  qed
qed

lemma record_observation_outcome:
  assumes ok: "progress_ok rt d" and week: "record_week (week_key ld env x) (tp_captured_at x) d = Inr (w, d1)"
    and current: "find_state (task_key env x) d = current"
  defines "store \<equiv> needs_snapshot rt current (ww_id w) x" and "es \<equiv> derived_from rt current x"
  shows "if store \<and> snapshot_key_of rt env (ww_id w) x \<in> snapshot_key ` set (db_progress_snapshots d)
    then record_observation rt ld env ((a, b), d) x = Inl (IntegrityError ''uq_task_snapshot_env_issue_week_fingerprint'')
    else es \<noteq> [] \<and> record_observation rt ld env ((a, b), d) x = Inl (IntegrityError ''uq_task_progress_event_env_fingerprint'') \<or>
      (\<exists>d' rows. record_observation rt ld env ((a, b), d) x = Inr ((a + (if store then 1 else 0), b + length es), d') \<and>
         progress_ok rt d' \<and> recorded_as ld env x (last_progress_of current es x) d' \<and>
         (\<forall>k. k \<noteq> task_key env x \<longrightarrow> find_state k d' = find_state k d) \<and>
         (\<forall>k v. find_week k d = Some v \<longrightarrow> find_week k d' = Some v) \<and>
         (\<exists>ps. db_progress_snapshots d' = db_progress_snapshots d @ ps \<and> length ps = (if store then 1 else 0)) \<and>
         snapshot_key_of rt env (ww_id w) x \<in> snapshot_key ` set (db_progress_snapshots d') \<and>
         db_progress_events d' = db_progress_events d @ rows \<and>
         list_all2 (\<lambda>r e. \<exists>i. r = new_progress_event rt env (ww_id w) x i e) rows es)"
proof -
  let ?key = "snapshot_key_of rt env (ww_id w) x"
  obtain n ws where d1: "d1 = d\<lparr>db_next := n, db_work_weeks := ws\<rparr>" using record_week_ok(4) [OF ok week] by blast
  note w = record_week_ok(1-3) [OF ok week]
  have cur: "find_state (task_key env x) d1 = current" using current by (simp add: find_state_def d1)
  note run = record_observation_unfold [OF week current, where rt = rt and a = a and b = b, folded store_def es_def]
  have frame: "db_task_states d1 = db_task_states d" "db_progress_snapshots d1 = db_progress_snapshots d"
    "db_progress_events d1 = db_progress_events d" by (simp_all add: d1)
  show ?thesis
  proof (cases "store \<and> ?key \<in> snapshot_key ` set (db_progress_snapshots d)")
    case True
    then show ?thesis by (simp add: run [OF frame(1)] add_snapshot_run frame(2))
  next
    case False
    from snapshot_step [OF ok week current False [unfolded store_def]]
    obtain d2 ps where d2: "(if store then add_snapshot rt env (ww_id w) x d1 else Inr d1) = Inr d2" "progress_ok rt d2"
      "?key \<in> snapshot_key ` set (db_progress_snapshots d2)" "db_progress_snapshots d2 = db_progress_snapshots d @ ps"
      "length ps = (if store then 1 else 0)" "db_task_states d2 = db_task_states d" "db_work_weeks d2 = db_work_weeks d1"
      "db_progress_events d2 = db_progress_events d" unfolding store_def by blast
    have cur2: "find_state (task_key env x) d2 = current" using current d2(6) by (simp add: find_state_def)
    from put_state_ok [OF d2(2) task_key_def cur2 d2(3)]
    obtain d3 s where d3: "put_state rt env (ww_id w) (last_progress_of current es x) x current d2 = Inr d3" "progress_ok rt d3"
      "find_state (task_key env x) d3 = Some s" "tc_state s = x" "tc_work_week_id s = ww_id w"
      "tc_last_structured_progress_at s = last_progress_of current es x"
      "\<forall>k'. k' \<noteq> task_key env x \<longrightarrow> find_state k' d3 = find_state k' d2" "\<exists>n ss. d3 = d2\<lparr>db_next := n, db_task_states := ss\<rparr>"
      by blast
    have frame3: "db_progress_snapshots d3 = db_progress_snapshots d2" "db_work_weeks d3 = db_work_weeks d2"
      "db_progress_events d3 = db_progress_events d2" using d3(8) by auto
    have run': "record_observation rt ld env ((a, b), d) x = bindr (foldr_res (add_event rt env (ww_id w) x) d3 es)
       (\<lambda>d4. Inr ((a + (if store then 1 else 0), b + length es), d4))"
      using d2(1) d3(1) by (simp add: run [OF frame(1)])
    from add_events_run [of rt env "ww_id w" x d3 es] show ?thesis
    proof (elim disjE exE conjE)
      fix n rows
      let ?d4 = "d3\<lparr>db_next := n, db_progress_events := db_progress_events d3 @ rows\<rparr>"
      assume ev: "foldr_res (add_event rt env (ww_id w) x) d3 es = Inr ?d4" "db_next d3 \<le> n"
        "list_all2 (\<lambda>r e. \<exists>i. r = new_progress_event rt env (ww_id w) x i e) rows es"
      have ok4: "progress_ok rt ?d4" using d3(2) ev(2) by (auto simp: progress_ok_def)
      have rec: "recorded_as ld env x (last_progress_of current es x) ?d4"
        unfolding recorded_as_def using d3(3-6) w(2) d2(7) frame3(2) by (simp add: find_state_def find_week_def)
      have others: "\<forall>k. k \<noteq> task_key env x \<longrightarrow> find_state k ?d4 = find_state k d"
        using d3(7) d2(6) by (simp add: find_state_def)
      have weeks: "\<forall>k v. find_week k d = Some v \<longrightarrow> find_week k ?d4 = Some v"
        using week_store.lookup_stable [OF _ week] d2(7) frame3(2) by (simp add: find_week_def)
      show ?thesis
        using False by (simp only: if_False, intro disjI2 exI [of _ ?d4] exI [of _ rows] conjI ok4 rec others weeks)
          (use run' ev d2 frame3 in auto)
    next
      assume "foldr_res (add_event rt env (ww_id w) x) d3 es = Inl (IntegrityError ''uq_task_progress_event_env_fingerprint'')"
      then show ?thesis using False run' by (cases es) auto
    qed
  qed
qed

lemma record_step:
  assumes "progress_ok rt d" and "record_observation rt ld env ((a, b), d) x = Inr ((a', b'), d')"
  shows "progress_ok rt d' \<and> (\<exists>lp. recorded_as ld env x lp d') \<and>
     (\<forall>k. k \<noteq> task_key env x \<longrightarrow> find_state k d' = find_state k d) \<and>
     (\<forall>k v. find_week k d = Some v \<longrightarrow> find_week k d' = Some v) \<and>
     (\<exists>ps. db_progress_snapshots d' = db_progress_snapshots d @ ps \<and> a' = a + length ps) \<and>
     (\<exists>es. db_progress_events d' = db_progress_events d @ es \<and> b' = b + length es) \<and>
     (\<exists>w. find_week (week_key ld env x) d' = Some w \<and>
        snapshot_key_of rt env (ww_id w) x \<in> snapshot_key ` set (db_progress_snapshots d'))"
proof -
  obtain w d1 where week: "record_week (week_key ld env x) (tp_captured_at x) d = Inr (w, d1)"
    using week_store.put_total by blast
  let ?es = "derived_from rt (find_state (task_key env x) d) x"
  let ?store = "needs_snapshot rt (find_state (task_key env x) d) (ww_id w) x"
  let ?lp = "last_progress_of (find_state (task_key env x) d) ?es x"
  from record_observation_outcome [OF assms(1) week refl, of a b] assms(2)
  obtain rows where r: "a' = a + (if ?store then 1 else 0)" "b' = b + length ?es" "progress_ok rt d'" "recorded_as ld env x ?lp d'"
    "\<forall>k. k \<noteq> task_key env x \<longrightarrow> find_state k d' = find_state k d"
    "\<forall>k v. find_week k d = Some v \<longrightarrow> find_week k d' = Some v"
    "\<exists>ps. db_progress_snapshots d' = db_progress_snapshots d @ ps \<and> length ps = (if ?store then 1 else 0)"
    "snapshot_key_of rt env (ww_id w) x \<in> snapshot_key ` set (db_progress_snapshots d')"
    "db_progress_events d' = db_progress_events d @ rows"
    "list_all2 (\<lambda>r e. \<exists>i. r = new_progress_event rt env (ww_id w) x i e) rows ?es"
    by (simp split: if_splits)
  obtain s w' where s: "find_state (task_key env x) d' = Some s" "tc_state s = x" "find_week (week_key ld env x) d' = Some w'"
    "tc_work_week_id s = ww_id w'" using r(4) by (auto simp: recorded_as_def)
  note s' = find_state_SomeD [OF s(1)]
  have "state_ok rt (db_progress_snapshots d') s" using r(3) s'(1) by (simp add: progress_ok_def)
  then have fp: "tc_evidence_fingerprint s = observation_fingerprint rt x"
    and snap: "(tc_environment s, tc_project_key s, tc_issue_key s, tc_work_week_id s, tc_evidence_fingerprint s)
      \<in> snapshot_key ` set (db_progress_snapshots d')" unfolding state_ok_def s(2) by blast+
  have snap: "snapshot_key_of rt env (ww_id w') x \<in> snapshot_key ` set (db_progress_snapshots d')"
    using snap s(4) s'(2) by (simp add: snapshot_key_of_def task_key_def fp)
  have "length rows = length ?es" using list_all2_lengthD [OF r(10)] .
  then show ?thesis using r(1-7,9) s(3) snap by auto
qed

lemma record_fold:
  assumes "progress_ok rt d" and "foldr_res (record_observation rt ld env) ((a, b), d) xs = Inr ((a', b'), d')"
  shows "progress_ok rt d' \<and> (\<forall>k. k \<notin> task_key env ` set xs \<longrightarrow> find_state k d' = find_state k d) \<and>
     (\<forall>k v. find_week k d = Some v \<longrightarrow> find_week k d' = Some v) \<and>
     (\<exists>ps. db_progress_snapshots d' = db_progress_snapshots d @ ps \<and> a' = a + length ps) \<and>
     (\<exists>es. db_progress_events d' = db_progress_events d @ es \<and> b' = b + length es)"
  using assms
proof (induction xs arbitrary: a b d)
  case (Cons x xs)
  from Cons.prems(2) obtain a1 b1 d1 where one: "record_observation rt ld env ((a, b), d) x = Inr ((a1, b1), d1)"
    and rest: "foldr_res (record_observation rt ld env) ((a1, b1), d1) xs = Inr ((a', b'), d')"
    by (auto simp: bindr_Inr_iff)
  from record_step [OF Cons.prems(1) one] have ok: "progress_ok rt d1" by blast
  from record_step [OF Cons.prems(1) one] Cons.IH [OF ok rest] show ?case by auto
qed simp

lemma foldr_res_append: "foldr_res f s (xs @ ys) = bindr (foldr_res f s xs) (\<lambda>t. foldr_res f t ys)"
  by (induction xs arbitrary: s) (simp_all add: bindr_assoc)

lemma record_observations_Inr:
  "record_observations rt ld env xs d = Inr (r, d') \<longleftrightarrow>
     (\<exists>a b. foldr_res (record_observation rt ld env) ((0, 0), d) xs = Inr ((a, b), d') \<and>
        r = \<lparr>po_observed = length xs, po_snapshots_created = a, po_events_created = b\<rparr>)"
  by (auto simp: record_observations_def bindr_Inr_iff)

lemma recording_current:
  assumes "progress_ok rt d" and "record_observations rt ld env xs d = Inr (r, d')"
    and "xs = ys @ x # zs" and "\<forall>z \<in> set zs. task_key env z \<noteq> task_key env x"
  shows "progress_ok rt d' \<and> po_observed r = length xs \<and> (\<exists>lp. recorded_as ld env x lp d') \<and>
    (\<exists>ps. db_progress_snapshots d' = db_progress_snapshots d @ ps \<and> po_snapshots_created r = length ps) \<and>
    (\<exists>es. db_progress_events d' = db_progress_events d @ es \<and> po_events_created r = length es)"
proof -
  from assms(2) obtain a b where fold: "foldr_res (record_observation rt ld env) ((0, 0), d) xs = Inr ((a, b), d')"
    and r: "r = \<lparr>po_observed = length xs, po_snapshots_created = a, po_events_created = b\<rparr>"
    by (auto simp: record_observations_Inr)
  from fold obtain a1 b1 d1 a2 b2 d2 where
    pre: "foldr_res (record_observation rt ld env) ((0, 0), d) ys = Inr ((a1, b1), d1)" and
    at: "record_observation rt ld env ((a1, b1), d1) x = Inr ((a2, b2), d2)" and
    post: "foldr_res (record_observation rt ld env) ((a2, b2), d2) zs = Inr ((a, b), d')"
    by (auto simp: assms(3) foldr_res_append bindr_Inr_iff)
  have ok1: "progress_ok rt d1" using record_fold [OF assms(1) pre] by blast
  from record_step [OF ok1 at] obtain lp where ok2: "progress_ok rt d2" and rec: "recorded_as ld env x lp d2" by blast
  have "task_key env x \<notin> task_key env ` set zs" using assms(4) by auto
  then have "find_state (task_key env x) d' = find_state (task_key env x) d2"
    and "\<forall>k v. find_week k d2 = Some v \<longrightarrow> find_week k d' = Some v"
    using record_fold [OF ok2 post] by blast+
  then have "recorded_as ld env x lp d'" using rec unfolding recorded_as_def by metis
  then show ?thesis using record_fold [OF assms(1) fold] r by auto
qed

text \<open>
  C16: A successful recording keeps the progress tables consistent and current: the invariant
  holds again, snapshots and events are only appended, as many as the result says, and for
  every observed task the current state is its last observation, in the work week it was
  captured in.
\<close>

theorem recording_is_current:
  assumes "progress_ok rt d" and "record_observations rt ld env xs d = Inr (r, d')"
    and "xs = ys @ x # zs" and "\<forall>z \<in> set zs. task_key env z \<noteq> task_key env x"
  shows "progress_ok rt d' \<and> po_observed r = length xs \<and> (\<exists>lp. recorded_as ld env x lp d') \<and>
    (\<exists>ps. db_progress_snapshots d' = db_progress_snapshots d @ ps \<and> po_snapshots_created r = length ps) \<and>
    (\<exists>es. db_progress_events d' = db_progress_events d @ es \<and> po_events_created r = length es)"
  by (rule recording_current [OF assms])

text \<open>
  Observing the same content again in the same week never fails and leaves no trace in the
  history: no snapshot and no event is added, and the time of the last structured progress
  stays as it was.
\<close>

theorem repeated_observation_quiet:
  assumes "runtime_ok rt" and "progress_ok rt d" and "recorded_as ld env x lp d"
    and "same_content x y" and "week_key ld env y = week_key ld env x"
  shows "\<exists>d'. record_observations rt ld env [y] d =
      Inr (\<lparr>po_observed = 1, po_snapshots_created = 0, po_events_created = 0\<rparr>, d') \<and>
    db_progress_snapshots d' = db_progress_snapshots d \<and> db_progress_events d' = db_progress_events d \<and>
    recorded_as ld env y lp d'"
proof -
  from assms(3) obtain s w where s: "find_state (task_key env x) d = Some s" "tc_state s = x"
    "find_week (week_key ld env x) d = Some w" "tc_work_week_id s = ww_id w" "tc_last_structured_progress_at s = lp"
    by (auto simp: recorded_as_def)
  have key: "task_key env y = task_key env x" using assms(4) by (simp add: task_key_def same_content_def)
  have week: "record_week (week_key ld env y) (tp_captured_at y) d = Inr (w, d)"
    using week_store.put_existing [OF s(3)] assms(5) by simp
  have "derived_from rt (Some s) y = []"
    using assms(4) s(2) by (simp add: derived_from_def derive_Nil_iff same_content_def)
  moreover have "tc_evidence_fingerprint s = observation_fingerprint rt y"
    using assms(2) find_state_SomeD(1) [OF s(1)] observation_fingerprint_eq [OF assms(1), of x y] assms(4) s(2)
    by (auto simp: progress_ok_def state_ok_def)
  then have "\<not> needs_snapshot rt (Some s) (ww_id w) y" using s(4) by (simp add: needs_snapshot_def)
  moreover note record_observation_outcome [OF assms(2) week, unfolded key, OF s(1), where a = 0 and b = 0]
  ultimately obtain d' where "record_observation rt ld env ((0, 0), d) y = Inr ((0, 0), d')"
    "recorded_as ld env y (last_progress_of (Some s) [] y) d'"
    "db_progress_snapshots d' = db_progress_snapshots d" "db_progress_events d' = db_progress_events d" by auto
  then show ?thesis using s(5) by (simp add: record_observations_def last_progress_of_def)
qed

text \<open>
  A task cannot return to an earlier state within a week.  When an observation was followed
  by one with another fingerprint, recording an observation of the first content again in the same
  week violates the unique constraint of the snapshots, and the whole recording is rolled back.
\<close>

theorem returning_state_refused:
  assumes "runtime_ok rt" and "progress_ok rt d" and "record_observations rt ld env [x, y] d = Inr (r, d1)"
    and "task_key env y = task_key env x" and "observation_fingerprint rt y \<noteq> observation_fingerprint rt x"
    and "same_content x z" and "week_key ld env y = week_key ld env x" and "week_key ld env z = week_key ld env x"
  shows "record_observations rt ld env [z] d1 = Inl (IntegrityError ''uq_task_snapshot_env_issue_week_fingerprint'')"
proof -
  from assms(3) obtain a b a' b' d0 where first: "record_observation rt ld env ((0, 0), d) x = Inr ((a, b), d0)"
    and second: "record_observation rt ld env ((a, b), d0) y = Inr ((a', b'), d1)"
    by (auto simp: record_observations_Inr bindr_Inr_iff)
  from record_step [OF assms(2) first] obtain w where ok0: "progress_ok rt d0"
    and w0: "find_week (week_key ld env x) d0 = Some w"
    and p: "snapshot_key_of rt env (ww_id w) x \<in> snapshot_key ` set (db_progress_snapshots d0)" by blast
  from record_step [OF ok0 second] w0 have ok1: "progress_ok rt d1"
    and w1: "find_week (week_key ld env x) d1 = Some w" by blast+
  from record_step [OF ok0 second] obtain s ps where s: "find_state (task_key env y) d1 = Some s" "tc_state s = y"
    and ps: "db_progress_snapshots d1 = db_progress_snapshots d0 @ ps" by (auto simp: recorded_as_def)
  have "observation_fingerprint rt z = observation_fingerprint rt x"
    using observation_fingerprint_eq [OF assms(1), of x z] assms(6) by simp
  with p ps assms(6) have stored: "snapshot_key_of rt env (ww_id w) z \<in> snapshot_key ` set (db_progress_snapshots d1)"
    by (auto simp: snapshot_key_of_def same_content_def)
  have "tc_evidence_fingerprint s = observation_fingerprint rt y"
    using ok1 find_state_SomeD(1) [OF s(1)] s(2) by (auto simp: progress_ok_def state_ok_def)
  then have "needs_snapshot rt (Some s) (ww_id w) z"
    using assms(5) \<open>observation_fingerprint rt z = _\<close> by (simp add: needs_snapshot_def)
  moreover have "record_week (week_key ld env z) (tp_captured_at z) d1 = Inr (w, d1)"
    using week_store.put_existing [OF w1] assms(8) by simp
  moreover have "find_state (task_key env z) d1 = Some s"
    using s(1) assms(4,6) by (simp add: task_key_def same_content_def)
  ultimately have "record_observation rt ld env ((0, 0), d1) z = Inl (IntegrityError ''uq_task_snapshot_env_issue_week_fingerprint'')"
    using record_observation_outcome [OF ok1, of ld env z w d1 "Some s" 0 0] stored by simp
  then show ?thesis by (simp add: record_observations_def)
qed

text \<open>
  The derived events are exactly the visible change of a task: two observations of a task
  give no event if and only if they have the same content, the fingerprints agree exactly then
  unless the digest has an explicit collision, no two derived events have the same type, and
  structured progress is reported exactly for a lower remaining estimate, more logged time or
  a new status.
\<close>

theorem events_reflect_change:
  assumes "runtime_ok rt" and "tp_project_key x = tp_project_key y" and "tp_issue_key x = tp_issue_key y"
  shows "(derive_progress_events rt x y = [] \<longleftrightarrow> same_content x y) \<and>
    (observation_fingerprint rt x = observation_fingerprint rt y \<longleftrightarrow>
       derive_progress_events rt x y = [] \<or> collision rt (canonical_state rt x) (canonical_state rt y)) \<and>
    distinct (map de_event_type (derive_progress_events rt x y)) \<and>
    (list_ex de_structured_progress (derive_progress_events rt x y) \<longleftrightarrow>
       remaining_decreased x y \<or> time_increased x y \<or> tp_status x \<noteq> tp_status y)"
proof (intro conjI)
  show n: "derive_progress_events rt x y = [] \<longleftrightarrow> same_content x y" by (rule derive_Nil_iff [OF assms(2,3)])
  show "observation_fingerprint rt x = observation_fingerprint rt y \<longleftrightarrow>
       derive_progress_events rt x y = [] \<or> collision rt (canonical_state rt x) (canonical_state rt y)"
    unfolding n by (rule observation_fingerprint_eq [OF assms(1)])
  show "distinct (map de_event_type (derive_progress_events rt x y))" by (rule distinct_event_types)
  have ch: "list_ex de_structured_progress (changed t enc old new p) \<longleftrightarrow> old \<noteq> new \<and> p" for t enc p and old new :: 'v
    by (simp add: changed_def)
  have rem: "remaining_decreased x y \<Longrightarrow> tp_remaining_estimate_hours x \<noteq> tp_remaining_estimate_hours y"
    by (auto simp: remaining_decreased_def split: option.splits)
  have tim: "time_increased x y \<Longrightarrow> tp_time_spent_hours x \<noteq> tp_time_spent_hours y"
    by (auto simp: time_increased_def split: option.splits)
  have blk: "\<not> list_ex de_structured_progress (blocker_events x y)" by (simp add: blocker_events_def Let_def)
  have com: "list_ex de_structured_progress (completion_events x y) \<Longrightarrow> tp_status x \<noteq> tp_status y"
    by (auto simp: completion_events_def split: if_splits)
  show "list_ex de_structured_progress (derive_progress_events rt x y) \<longleftrightarrow>
       remaining_decreased x y \<or> time_increased x y \<or> tp_status x \<noteq> tp_status y"
    unfolding derive_progress_events_def time_events_def Let_def list_ex_append
    using rem tim blk com by (auto simp: changed_def)
qed

section \<open>Witnesses\<close>

definition sample_observation :: "string \<Rightarrow> timestamp \<Rightarrow> observation" where
  "sample_observation status t = \<lparr>tp_project_key = ''WRD'', tp_issue_key = ''WRD-1'', tp_assignee_id = None,
     tp_captured_at = t, tp_jira_updated_at = t, tp_status = status, tp_original_estimate_hours = None,
     tp_remaining_estimate_hours = None, tp_time_spent_hours = None, tp_due_date = None, tp_priority = None,
     tp_blocked = False, tp_blocker_issue_keys = []\<rparr>"

lemma empty_progress_ok: "progress_ok rt empty_db"
  by (simp add: progress_ok_def empty_db_def)

lemma sample_recording:
  "\<not> isl (record_observations sample_runtime (\<lambda>t. 1) Dev [sample_observation ''A'' 1, sample_observation ''B'' 2] empty_db)"
  by code_simp

lemma sample_recorded:
  obtains r d' where "record_observations sample_runtime (\<lambda>t. 1) Dev [sample_observation ''A'' 1, sample_observation ''B'' 2] empty_db = Inr (r, d')"
    and "progress_ok sample_runtime d'" and "\<exists>lp. recorded_as (\<lambda>t. 1) Dev (sample_observation ''B'' 2) lp d'"
proof -
  obtain r d' where run: "record_observations sample_runtime (\<lambda>t. 1) Dev [sample_observation ''A'' 1, sample_observation ''B'' 2] empty_db = Inr (r, d')"
    using sample_recording by (cases "record_observations sample_runtime (\<lambda>t. 1) Dev [sample_observation ''A'' 1, sample_observation ''B'' 2] empty_db") auto
  then obtain a b a' b' d0 where first: "record_observation sample_runtime (\<lambda>t. 1) Dev ((0, 0), empty_db) (sample_observation ''A'' 1) = Inr ((a, b), d0)"
    and second: "record_observation sample_runtime (\<lambda>t. 1) Dev ((a, b), d0) (sample_observation ''B'' 2) = Inr ((a', b'), d')"
    by (auto simp: record_observations_Inr bindr_Inr_iff)
  have ok0: "progress_ok sample_runtime d0" using record_step [OF empty_progress_ok first] by blast
  show ?thesis using that run record_step [OF ok0 second] by blast
qed

lemma sample_fingerprints: "observation_fingerprint sample_runtime (sample_observation ''B'' 2) \<noteq> observation_fingerprint sample_runtime (sample_observation ''A'' 1)"
  by (simp add: observation_fingerprint_eq [OF sample_runtime_ok] same_content_def sample_observation_def)
    (simp add: collision_def digest_def sample_runtime_def)

theorem recording_is_current_witness:
  "\<exists>r d' lp. record_observations sample_runtime (\<lambda>t. 1) Dev [sample_observation ''A'' 1, sample_observation ''B'' 2] empty_db = Inr (r, d') \<and>
     recorded_as (\<lambda>t. 1) Dev (sample_observation ''B'' 2) lp d' \<and> po_events_created r = length (db_progress_events d')"
proof -
  obtain r d' where run: "record_observations sample_runtime (\<lambda>t. 1) Dev [sample_observation ''A'' 1, sample_observation ''B'' 2] empty_db = Inr (r, d')"
    by (rule sample_recorded)
  from recording_is_current [OF empty_progress_ok run, of "[sample_observation ''A'' 1]" "sample_observation ''B'' 2" "[]"] run
  show ?thesis by (auto simp: empty_db_def)
qed

theorem repeated_observation_quiet_witness:
  "\<exists>d d'. record_observations sample_runtime (\<lambda>t. 1) Dev [sample_observation ''B'' 3] d =
      Inr (\<lparr>po_observed = 1, po_snapshots_created = 0, po_events_created = 0\<rparr>, d')"
proof -
  obtain r d lp where "progress_ok sample_runtime d" "recorded_as (\<lambda>t. 1) Dev (sample_observation ''B'' 2) lp d"
    using sample_recorded by metis
  from repeated_observation_quiet [OF sample_runtime_ok this, of "sample_observation ''B'' 3"] show ?thesis
    by (auto simp: same_content_def sample_observation_def week_key_def)
qed

theorem returning_state_refused_witness:
  "\<exists>d. record_observations sample_runtime (\<lambda>t. 1) Dev [sample_observation ''A'' 3] d =
      Inl (IntegrityError ''uq_task_snapshot_env_issue_week_fingerprint'')"
proof -
  obtain r d' where run: "record_observations sample_runtime (\<lambda>t. 1) Dev [sample_observation ''A'' 1, sample_observation ''B'' 2] empty_db = Inr (r, d')"
    by (rule sample_recorded)
  from returning_state_refused [OF sample_runtime_ok empty_progress_ok run _ sample_fingerprints, of "sample_observation ''A'' 3"]
  show ?thesis by (auto simp: task_key_def same_content_def sample_observation_def week_key_def)
qed

theorem events_reflect_change_witness:
  "derive_progress_events sample_runtime (sample_observation ''A'' 1) (sample_observation ''B'' 2) \<noteq> [] \<and>
   list_ex de_structured_progress (derive_progress_events sample_runtime (sample_observation ''A'' 1) (sample_observation ''B'' 2))"
proof -
  have "tp_project_key (sample_observation ''A'' 1) = tp_project_key (sample_observation ''B'' 2)"
    "tp_issue_key (sample_observation ''A'' 1) = tp_issue_key (sample_observation ''B'' 2)"
    "\<not> same_content (sample_observation ''A'' 1) (sample_observation ''B'' 2)"
    "tp_status (sample_observation ''A'' 1) \<noteq> tp_status (sample_observation ''B'' 2)"
    by (simp_all add: sample_observation_def same_content_def)
  with events_reflect_change [OF sample_runtime_ok this(1,2)] show ?thesis by blast
qed

end
