(* ===== verification/Notifications.thy ===== *)
theory Notifications imports Outbox begin

text \<open>
  services/notification-worker: publishing outbox events to a queue with bounded retries
  (sqs.py, outbox.py), claiming and marking deliveries (delivery\_store.py) and the worker that
  sends one e-mail per queue message (worker.py, email.py).  The queue and the e-mail service are
  function arguments on a world of any type.
\<close>

section \<open>Queue publisher\<close>

text \<open>\<open>min(0.05 * 2**attempt, 0.2)\<close>\<close>

definition backoff :: "nat \<Rightarrow> pyfloat" where
  "backoff attempt = min (fl (fl 0.05 * 2 ^ attempt)) (fl 0.2)"

record sqs_message =
  sq_queue_url :: string
  sq_body :: string
  sq_environment :: string

text \<open>\<open>str(response[key])\<close>; the text \<open>str\<close> gives a value is an argument.\<close>

type_synonym response = "(string \<times> json) list"

definition response_field :: "(json \<Rightarrow> string) \<Rightarrow> string \<Rightarrow> response \<Rightarrow> string res" where
  "response_field str key response =
     (case map_of response key of Some j \<Rightarrow> Inr (str j) | None \<Rightarrow> Inl (KeyError key))"

record 'w queue =
  qu_send :: "sqs_message \<Rightarrow> 'w \<Rightarrow> response res \<times> 'w"
  qu_str :: "json \<Rightarrow> string"
  qu_sleep :: "pyfloat \<Rightarrow> 'w \<Rightarrow> 'w"

definition publish_body :: "runtime \<Rightarrow> string \<Rightarrow> environment \<Rightarrow> json \<Rightarrow> string" where
  "publish_body rt consumer_key env payload = dumps (rt_float rt)
     (JObj [(''consumer_key'', JStr consumer_key), (''environment'', JStr (environment_value env)), (''payload'', payload)])"

text \<open>The loop over the attempts: \<open>left\<close> attempts remain of \<open>max_attempts\<close>.\<close>

fun publish_loop :: "'w queue \<Rightarrow> sqs_message \<Rightarrow> nat \<Rightarrow> nat \<Rightarrow> 'w \<Rightarrow> string res \<times> 'w" where
  "publish_loop q m attempt 0 w = (Inl (OtherException ''RuntimeError''), w)"
| "publish_loop q m attempt (Suc left) w =
    (case qu_send q m w of
       (r, w') \<Rightarrow>
         (case bindr r (response_field (qu_str q) ''MessageId'') of
            Inr message_id \<Rightarrow> (Inr message_id, w')
          | Inl e \<Rightarrow> (if \<not> transient e then (Inl e, w')
                     else if left = 0 then (Inl e, w')
                     else publish_loop q m (Suc attempt) left (qu_sleep q (backoff attempt) w'))))"

definition publish ::
  "runtime \<Rightarrow> 'w queue \<Rightarrow> string \<Rightarrow> int \<Rightarrow> string \<Rightarrow> environment \<Rightarrow> json \<Rightarrow> 'w \<Rightarrow> string res \<times> 'w" where
  "publish rt q queue_url max_attempts consumer_key env payload w =
     publish_loop q \<lparr>sq_queue_url = queue_url, sq_body = publish_body rt consumer_key env payload,
       sq_environment = environment_value env\<rparr> 0 (nat (max 1 max_attempts)) w"

definition publish_event ::
  "runtime \<Rightarrow> 'w queue \<Rightarrow> string \<Rightarrow> int \<Rightarrow> (nat \<Rightarrow> timestamp) \<Rightarrow> outbox_event \<Rightarrow> db \<Rightarrow> 'w \<Rightarrow> string res \<times> db \<times> 'w" where
  "publish_event rt q queue_url max_attempts clock event d w =
    (case publish rt q queue_url max_attempts (ob_consumer_key event) (ob_environment event) (ob_payload event) w of
       (Inl e, w') \<Rightarrow> (Inl e, record_attempt (ob_id event) (Some (error_name e)) d, w')
     | (Inr message_id, w') \<Rightarrow>
         (Inr message_id, mark_published (ob_id event) (clock 0) (record_attempt (ob_id event) None d), w'))"

section \<open>Deliveries\<close>

definition find_delivery :: "environment \<times> string \<Rightarrow> db \<Rightarrow> delivery_row option" where
  "find_delivery k d = select_one (\<lambda>r. (nd_environment r, nd_consumer_key r) = k) (db_deliveries d)"

definition new_delivery :: "uuid \<Rightarrow> environment \<Rightarrow> timestamp \<Rightarrow> string \<Rightarrow> delivery_row" where
  "new_delivery i env now key = \<lparr>nd_id = i, nd_environment = env, nd_created_at = now, nd_consumer_key = key,
     nd_state = Sending, nd_attempts = 0, nd_last_error = None\<rparr>"

definition claim :: "string \<Rightarrow> environment \<Rightarrow> timestamp \<Rightarrow> db \<Rightarrow> bool tx" where
  "claim key env now d =
    (case find_delivery (env, key) d of
       Some existing \<Rightarrow> Inr (nd_state existing \<notin> {Sending, Sent, DFailed}, d)
     | None \<Rightarrow>
        (let (i, d1) = new_id d in
         bindr (insert_row ''uq_delivery_env_consumer'' (\<lambda>r. (nd_environment r, nd_consumer_key r))
             (new_delivery i env now key) (db_deliveries d1)) (\<lambda>rows.
         Inr (True, d1\<lparr>db_deliveries := rows\<rparr>))))"

definition marked :: "delivery_state \<Rightarrow> string option \<Rightarrow> delivery_row \<Rightarrow> delivery_row" where
  "marked state err r = r\<lparr>nd_state := state, nd_attempts := nd_attempts r + 1, nd_last_error := map_option (take 128) err\<rparr>"

definition mark :: "string \<Rightarrow> delivery_state \<Rightarrow> string option \<Rightarrow> db \<Rightarrow> db" where
  "mark key state err d = d\<lparr>db_deliveries := update_where (\<lambda>r. nd_consumer_key r = key) (marked state err) (db_deliveries d)\<rparr>"

section \<open>E-mail and worker\<close>

record email_message =
  em_recipient :: string
  em_subject :: string
  em_body :: string

text \<open>\<open>s.rstrip('/')\<close>\<close>

definition rstrip_slash :: "string \<Rightarrow> string" where
  "rstrip_slash s = rev (dropWhile (\<lambda>c. c = CHR ''/'') (rev s))"

definition for_alert :: "string \<Rightarrow> string \<Rightarrow> string \<Rightarrow> string \<Rightarrow> string \<Rightarrow> email_message" where
  "for_alert recipient severity alert_id application_url correlation_id =
     \<lparr>em_recipient = recipient, em_subject = ''Workforce delivery risk: '' @ severity,
      em_body = ''A '' @ severity @ '' work-delivery risk needs review.'' @ [CHR 0x0A] @ ''Open '' @
        rstrip_slash application_url @ ''/alerts/'' @ alert_id @ [CHR 0x0A] @ ''Support reference: '' @ correlation_id\<rparr>"

record queue_message =
  qm_message_id :: string
  qm_consumer_key :: string
  qm_environment :: environment
  qm_payload :: "(string \<times> json) list"

record 'w worker =
  wk_environment :: environment
  wk_manager_email :: string
  wk_application_url :: string
  wk_str :: "json \<Rightarrow> string"
  wk_send :: "email_message \<Rightarrow> 'w \<Rightarrow> response res \<times> 'w"

text \<open>\<open>str(payload.get(key, fallback))\<close>, where \<open>wk_str\<close> is Python's \<open>str\<close> of a payload value.\<close>

definition payload_text :: "'w worker \<Rightarrow> queue_message \<Rightarrow> string \<Rightarrow> string \<Rightarrow> string" where
  "payload_text k m key fallback = (case map_of (qm_payload m) key of None \<Rightarrow> fallback | Some j \<Rightarrow> wk_str k j)"

definition alert_email :: "'w worker \<Rightarrow> queue_message \<Rightarrow> email_message res" where
  "alert_email k m = (case map_of (qm_payload m) ''alert_id'' of
     None \<Rightarrow> Inl (KeyError ''alert_id'')
   | Some alert_id \<Rightarrow> Inr (for_alert (wk_manager_email k) (payload_text k m ''severity'' ''risk'') (wk_str k alert_id)
       (wk_application_url k) (payload_text k m ''correlation_id'' ''unavailable'')))"

definition attempt_email :: "'w worker \<Rightarrow> queue_message \<Rightarrow> 'w \<Rightarrow> string res \<times> 'w" where
  "attempt_email k m w = (case alert_email k m of
     Inl e \<Rightarrow> (Inl e, w)
   | Inr email \<Rightarrow> (case wk_send k email w of (r, w') \<Rightarrow> (bindr r (response_field (wk_str k) ''MessageId''), w')))"

definition handle :: "'w worker \<Rightarrow> queue_message \<Rightarrow> timestamp \<Rightarrow> db \<Rightarrow> 'w \<Rightarrow> bool res \<times> db \<times> 'w" where
  "handle k m now d w =
    (if qm_environment m \<noteq> wk_environment k then (Inl (ValueError ''notification environment mismatch''), d, w)
     else case claim (qm_consumer_key m) (qm_environment m) now d of
       Inl e \<Rightarrow> (Inl e, d, w)
     | Inr (False, d1) \<Rightarrow> (Inr True, d1, w)
     | Inr (True, d1) \<Rightarrow>
        (case attempt_email k m w of
           (Inl exc, w') \<Rightarrow> (Inr False, mark (qm_consumer_key m) Retrying (Some (error_name exc)) d1, w')
         | (Inr _, w') \<Rightarrow> (Inr True, mark (qm_consumer_key m) Sent None d1, w')))"

section \<open>Properties of the publisher\<close>

text \<open>The world before attempt \<open>k\<close> when all earlier ones failed, and the outcome of the attempt.\<close>

fun before_attempt :: "'w queue \<Rightarrow> sqs_message \<Rightarrow> nat \<Rightarrow> nat \<Rightarrow> 'w \<Rightarrow> 'w" where
  "before_attempt q m a 0 w = w"
| "before_attempt q m a (Suc k) w = before_attempt q m (Suc a) k (qu_sleep q (backoff a) (snd (qu_send q m w)))"

definition attempt_outcome :: "'w queue \<Rightarrow> sqs_message \<Rightarrow> 'w \<Rightarrow> string res" where
  "attempt_outcome q m w = bindr (fst (qu_send q m w)) (response_field (qu_str q) ''MessageId'')"

definition fails_transiently :: "string res \<Rightarrow> bool" where
  "fails_transiently r \<longleftrightarrow> (\<exists>e. r = Inl e \<and> transient e)"

lemma publish_loop_outcome:
  "0 < left \<Longrightarrow> \<exists>k<left. publish_loop q m a left w =
      (attempt_outcome q m (before_attempt q m a k w), snd (qu_send q m (before_attempt q m a k w))) \<and>
    (\<forall>j<k. fails_transiently (attempt_outcome q m (before_attempt q m a j w))) \<and>
    (Suc k < left \<longrightarrow> \<not> fails_transiently (attempt_outcome q m (before_attempt q m a k w)))"
proof (induction q m a left w rule: publish_loop.induct)
  case (2 q m a left w)
  obtain r w' where send: "qu_send q m w = (r, w')" by (cases "qu_send q m w")
  let ?o = "attempt_outcome q m w"
  show ?case
  proof (cases "fails_transiently ?o \<and> left \<noteq> 0")
    case True
    then obtain e where e: "bindr r (response_field (qu_str q) ''MessageId'') = Inl e" "transient e"
      by (auto simp: fails_transiently_def attempt_outcome_def send)
    let ?w = "qu_sleep q (backoff a) w'"
    from 2(1) [OF send [symmetric] e(1)] e(2) True obtain k where k: "k < left"
      "publish_loop q m (Suc a) left ?w = (attempt_outcome q m (before_attempt q m (Suc a) k ?w), snd (qu_send q m (before_attempt q m (Suc a) k ?w)))"
      "\<forall>j<k. fails_transiently (attempt_outcome q m (before_attempt q m (Suc a) j ?w))"
      "Suc k < left \<longrightarrow> \<not> fails_transiently (attempt_outcome q m (before_attempt q m (Suc a) k ?w))" by auto
    have "fails_transiently (attempt_outcome q m (before_attempt q m a j w))" if "j < Suc k" for j
      using that k(3) True by (cases j) (simp_all add: send)
    then show ?thesis using k(1,2,4) e True by (intro exI [of _ "Suc k"]) (simp add: send)
  next
    case False
    then have "publish_loop q m a (Suc left) w = (?o, w')"
      by (auto simp: send attempt_outcome_def fails_transiently_def split: sum.splits)
    then show ?thesis using False by (intro exI [of _ 0]) (auto simp: send)
  qed
qed simp

text \<open>
  Publishing sends at most \<open>max(1, max_attempts)\<close> messages and always ends: there is a number
  k of earlier attempts, all of which failed transiently, such that publish has the outcome and
  the effects of attempt k, and k is the last attempt allowed unless its outcome is a message
  identifier or an error that is not transient.
\<close>

theorem publish_bounded_retries:
  fixes q :: "'w queue"
  defines "m url key env payload rt \<equiv> \<lparr>sq_queue_url = url, sq_body = publish_body rt key env payload, sq_environment = environment_value env\<rparr>"
  shows "\<exists>k < nat (max 1 n). publish rt q url n key env payload w =
      (attempt_outcome q (m url key env payload rt) (before_attempt q (m url key env payload rt) 0 k w),
       snd (qu_send q (m url key env payload rt) (before_attempt q (m url key env payload rt) 0 k w))) \<and>
    (\<forall>j<k. fails_transiently (attempt_outcome q (m url key env payload rt) (before_attempt q (m url key env payload rt) 0 j w))) \<and>
    (fails_transiently (attempt_outcome q (m url key env payload rt) (before_attempt q (m url key env payload rt) 0 k w))
       \<longrightarrow> Suc k = nat (max 1 n))"
proof -
  let ?m = "m url key env payload rt"
  have "0 < nat (max 1 n)" by simp
  from publish_loop_outcome [OF this, of q ?m 0 w] obtain k where "k < nat (max 1 n)"
    "publish_loop q ?m 0 (nat (max 1 n)) w = (attempt_outcome q ?m (before_attempt q ?m 0 k w), snd (qu_send q ?m (before_attempt q ?m 0 k w)))"
    "\<forall>j<k. fails_transiently (attempt_outcome q ?m (before_attempt q ?m 0 j w))"
    "Suc k < nat (max 1 n) \<longrightarrow> \<not> fails_transiently (attempt_outcome q ?m (before_attempt q ?m 0 k w))" by blast
  moreover from this(1,4) have "fails_transiently (attempt_outcome q ?m (before_attempt q ?m 0 k w)) \<longrightarrow> Suc k = nat (max 1 n)"
    by linarith
  ultimately show ?thesis by (intro exI [of _ k]) (simp add: publish_def m_def)
qed

section \<open>Properties of the deliveries\<close>

lemma claim_cases:
  "claim key env now d = (case find_delivery (env, key) d of
     Some r \<Rightarrow> Inr (nd_state r \<notin> {Sending, Sent, DFailed}, d)
   | None \<Rightarrow> Inr (True, d\<lparr>db_next := Suc (db_next d), db_deliveries := db_deliveries d @ [new_delivery (db_next d) env now key]\<rparr>))"
  by (auto simp: claim_def find_delivery_def new_id_def insert_row_def list_ex_iff Let_def new_delivery_def split: option.splits)

lemma claim_total: "\<exists>b d'. claim key env now d = Inr (b, d')"
  by (auto simp: claim_cases split: option.splits)

lemma claim_new:
  assumes "find_delivery (env, key) d = None" and "claim key env now d = Inr (b, d')"
  shows "b" and "find_delivery (env, key) d' = Some (new_delivery (db_next d) env now key)"
  using assms by (auto simp: claim_cases find_delivery_def [of _ "_\<lparr>db_next := _, db_deliveries := _\<rparr>"] new_delivery_def
      intro!: select_one_snoc(2)) (auto simp: find_delivery_def)

lemma find_marked:
  "find_delivery (env, key) (mark key state err d) = map_option (marked state err) (find_delivery (env, key) d)"
proof -
  have "select_one (\<lambda>r. (nd_environment r, nd_consumer_key r) = (env, key)) (update_where (\<lambda>r. nd_consumer_key r = key) (marked state err) rows)
    = map_option (marked state err) (select_one (\<lambda>r. (nd_environment r, nd_consumer_key r) = (env, key)) rows)" for rows
    by (induction rows) (auto simp: row_simps marked_def)
  then show ?thesis by (simp add: find_delivery_def mark_def)
qed

text \<open>The queue redelivers a message: \<open>n\<close> handlings, one after the other.\<close>

fun handle_all :: "'w worker \<Rightarrow> queue_message \<Rightarrow> (nat \<Rightarrow> timestamp) \<Rightarrow> nat \<Rightarrow> db \<Rightarrow> 'w \<Rightarrow> bool res list \<times> db \<times> 'w" where
  "handle_all k m clock 0 d w = ([], d, w)"
| "handle_all k m clock (Suc n) d w =
    (case handle k m (clock n) d w of (r, d1, w1) \<Rightarrow>
     (case handle_all k m clock n d1 w1 of (rs, d2, w2) \<Rightarrow> (r # rs, d2, w2)))"

text \<open>The world after \<open>i\<close> attempts to send the e-mail, and whether the next one fails.\<close>

fun after_emails :: "'w worker \<Rightarrow> queue_message \<Rightarrow> nat \<Rightarrow> 'w \<Rightarrow> 'w" where
  "after_emails k m 0 w = w"
| "after_emails k m (Suc i) w = after_emails k m i (snd (attempt_email k m w))"

definition email_fails :: "'w worker \<Rightarrow> queue_message \<Rightarrow> 'w \<Rightarrow> bool" where
  "email_fails k m w \<longleftrightarrow> isl (fst (attempt_email k m w))"

definition delivery_open :: "queue_message \<Rightarrow> db \<Rightarrow> bool" where
  "delivery_open m d \<longleftrightarrow> (case find_delivery (qm_environment m, qm_consumer_key m) d of
     None \<Rightarrow> True | Some r \<Rightarrow> nd_state r \<in> {DPending, Retrying})"

definition delivery_sent :: "queue_message \<Rightarrow> db \<Rightarrow> bool" where
  "delivery_sent m d \<longleftrightarrow> (\<exists>r. find_delivery (qm_environment m, qm_consumer_key m) d = Some r \<and> nd_state r = Sent)"

lemma handle_closed:
  assumes "qm_environment m = wk_environment k" and "find_delivery (qm_environment m, qm_consumer_key m) d = Some r"
    and "nd_state r \<in> {Sending, Sent, DFailed}"
  shows "handle k m now d w = (Inr True, d, w)"
  using assms by (simp add: handle_def claim_cases)

lemma handle_open:
  assumes "qm_environment m = wk_environment k" and "delivery_open m d"
  shows "\<exists>d'. handle k m now d w = (Inr (\<not> email_fails k m w), d', snd (attempt_email k m w)) \<and>
     (if email_fails k m w then delivery_open m d' else delivery_sent m d')"
proof -
  let ?key = "(qm_environment m, qm_consumer_key m)"
  obtain d1 r where d1: "claim (qm_consumer_key m) (qm_environment m) now d = Inr (True, d1)" "find_delivery ?key d1 = Some r"
  proof (cases "find_delivery ?key d")
    case None
    obtain b d1 where c: "claim (qm_consumer_key m) (qm_environment m) now d = Inr (b, d1)" using claim_total by blast
    from claim_new [OF None c] c show ?thesis by (intro that) auto
  next
    case (Some r)
    with assms(2) show ?thesis by (intro that [of d r]) (auto simp: claim_cases delivery_open_def)
  qed
  have m: "find_delivery ?key (mark (qm_consumer_key m) s e d1) = Some (marked s e r)" for s e
    using d1(2) by (simp add: find_marked)
  obtain x w' where x: "attempt_email k m w = (x, w')" by (cases "attempt_email k m w")
  show ?thesis
    by (cases x) (use assms(1) d1(1) m in \<open>auto simp: handle_def x email_fails_def delivery_open_def delivery_sent_def marked_def\<close>)
qed

lemma handle_all_sent:
  assumes "qm_environment m = wk_environment k" and "delivery_sent m d"
  shows "handle_all k m clock n d w = (replicate n (Inr True), d, w)"
proof -
  from assms(2) obtain r where "find_delivery (qm_environment m, qm_consumer_key m) d = Some r" "nd_state r = Sent"
    by (auto simp: delivery_sent_def)
  with handle_closed [OF assms(1)] have "handle k m now d w = (Inr True, d, w)" for now w by simp
  then show ?thesis by (induction n arbitrary: w) simp_all
qed

lemma handle_all_open:
  assumes "qm_environment m = wk_environment k" and "delivery_open m d"
  shows "\<exists>j \<le> n. \<exists>d'. (\<forall>i<j. email_fails k m (after_emails k m i w)) \<and>
     (if j = n then handle_all k m clock n d w = (replicate n (Inr False), d', after_emails k m n w) \<and> delivery_open m d'
      else \<not> email_fails k m (after_emails k m j w) \<and> delivery_sent m d' \<and>
        handle_all k m clock n d w = (replicate j (Inr False) @ replicate (n - j) (Inr True), d', after_emails k m (Suc j) w))"
  using assms(2)
proof (induction n arbitrary: d w)
  case 0
  then show ?case by simp
next
  case (Suc n)
  obtain w1 where w1: "w1 = snd (attempt_email k m w)" by simp
  from handle_open [OF assms(1) Suc.prems, of "clock n" w] obtain d1 where
    one: "handle k m (clock n) d w = (Inr (\<not> email_fails k m w), d1, w1)"
    and d1: "if email_fails k m w then delivery_open m d1 else delivery_sent m d1" by (auto simp: w1)
  show ?case
  proof (cases "email_fails k m w")
    case False
    with d1 one handle_all_sent [OF assms(1)] show ?thesis by (intro exI [of _ 0]) (auto simp: w1)
  next
    case True
    with d1 have "delivery_open m d1" by simp
    from Suc.IH [OF this, of w1] obtain j d' where j: "j \<le> n" "\<forall>i<j. email_fails k m (after_emails k m i w1)"
      "if j = n then handle_all k m clock n d1 w1 = (replicate n (Inr False), d', after_emails k m n w1) \<and> delivery_open m d'
      else \<not> email_fails k m (after_emails k m j w1) \<and> delivery_sent m d' \<and>
        handle_all k m clock n d1 w1 = (replicate j (Inr False) @ replicate (n - j) (Inr True), d', after_emails k m (Suc j) w1)"
      by blast
    have "email_fails k m (after_emails k m i w)" if "i < Suc j" for i
      using that j(2) True by (cases i) (simp_all add: w1)
    with j one True show ?thesis
      by (intro exI [of _ "Suc j"]) (auto simp: w1 split: if_splits)
  qed
qed

text \<open>
  Redelivery stops at the first e-mail that goes out.  For a message whose delivery is new or
  open, n handlings try to send the e-mail until the first success and never after it: the
  failed ones ask for redelivery, the successful one and all later ones acknowledge, and the
  delivery ends as sent exactly when one attempt succeeded.
\<close>

theorem delivery_stops_at_first_success:
  assumes "qm_environment m = wk_environment k" and "delivery_open m d"
  shows "\<exists>j \<le> n. \<exists>d'. (\<forall>i<j. email_fails k m (after_emails k m i w)) \<and>
     (j < n \<longrightarrow> \<not> email_fails k m (after_emails k m j w)) \<and>
     handle_all k m clock n d w = (replicate j (Inr False) @ replicate (n - j) (Inr True), d',
        after_emails k m (if j < n then Suc j else n) w) \<and>
     (if j < n then delivery_sent m d' else delivery_open m d')"
  using handle_all_open [OF assms, of n w clock] by (auto split: if_splits)

text \<open>
  Claims are exclusive only while a delivery is new.  After the claim of a new delivery
  every other claim is refused, so a worker that stops before it marks the delivery loses the
  message for good: each redelivery is acknowledged without an e-mail.  A delivery that is
  being retried can be claimed by any number of workers at once.
\<close>

theorem claim_exclusiveness:
  assumes "qm_environment m = wk_environment k"
  shows "(find_delivery (qm_environment m, qm_consumer_key m) d = None \<longrightarrow>
      (\<exists>d1. claim (qm_consumer_key m) (qm_environment m) now d = Inr (True, d1) \<and>
         (\<forall>now2. claim (qm_consumer_key m) (qm_environment m) now2 d1 = Inr (False, d1)) \<and>
         (\<forall>clock n w. handle_all k m clock n d1 w = (replicate n (Inr True), d1, w)))) \<and>
    (find_delivery (qm_environment m, qm_consumer_key m) d = Some r \<and> nd_state r = Retrying \<longrightarrow>
      (\<forall>now2. claim (qm_consumer_key m) (qm_environment m) now2 d = Inr (True, d)))"
proof (intro conjI impI)
  assume none: "find_delivery (qm_environment m, qm_consumer_key m) d = None"
  obtain b d1 where c: "claim (qm_consumer_key m) (qm_environment m) now d = Inr (b, d1)" using claim_total by blast
  note n = claim_new [OF none c]
  have st: "nd_state (new_delivery (db_next d) (qm_environment m) now (qm_consumer_key m)) = Sending" by (simp add: new_delivery_def)
  have "handle k m now' d1 w = (Inr True, d1, w)" for now' w
    by (rule handle_closed [OF assms n(2)]) (simp add: st)
  then have "handle_all k m clock j d1 w = (replicate j (Inr True), d1, w)" for clock j w
    by (induction j arbitrary: w) simp_all
  moreover have "claim (qm_consumer_key m) (qm_environment m) now2 d1 = Inr (False, d1)" for now2
    using n(2) st by (simp add: claim_cases)
  ultimately show "\<exists>d1. claim (qm_consumer_key m) (qm_environment m) now d = Inr (True, d1) \<and>
         (\<forall>now2. claim (qm_consumer_key m) (qm_environment m) now2 d1 = Inr (False, d1)) \<and>
         (\<forall>clock n w. handle_all k m clock n d1 w = (replicate n (Inr True), d1, w))"
    using c n(1) by (intro exI [of _ d1]) simp
qed (auto simp: claim_cases)

section \<open>Witnesses\<close>

text \<open>An e-mail service that fails as often as the world says.\<close>

definition sample_worker :: "nat worker" where
  "sample_worker = \<lparr>wk_environment = Dev, wk_manager_email = ''m'', wk_application_url = ''u'', wk_str = (\<lambda>j. ''s''),
     wk_send = (\<lambda>email w. if w = 0 then (Inr [(''MessageId'', JStr ''1'')], 0) else (Inl TimeoutError, w - 1))\<rparr>"

definition sample_message :: queue_message where
  "sample_message = \<lparr>qm_message_id = ''1'', qm_consumer_key = ''alert:1:v1'', qm_environment = Dev,
     qm_payload = [(''alert_id'', JStr ''1'')]\<rparr>"

lemma delivery_stops_at_first_success_witness:
  "\<exists>j \<le> 3. \<exists>d'. handle_all sample_worker sample_message int 3 empty_db 1 =
     (replicate j (Inr False) @ replicate (3 - j) (Inr True), d', after_emails sample_worker sample_message (if j < 3 then Suc j else 3) 1)"
proof -
  have "qm_environment sample_message = wk_environment sample_worker" "delivery_open sample_message empty_db"
    by (simp_all add: sample_message_def sample_worker_def delivery_open_def find_delivery_def empty_db_def)
  from delivery_stops_at_first_success [OF this, of 3 1 int] show ?thesis by blast
qed

lemma claim_exclusiveness_witness:
  "\<exists>d1. claim ''alert:1:v1'' Dev 0 empty_db = Inr (True, d1) \<and> claim ''alert:1:v1'' Dev 1 d1 = Inr (False, d1) \<and>
     handle sample_worker sample_message 2 d1 0 = (Inr True, d1, 0)"
proof -
  have "qm_environment sample_message = wk_environment sample_worker"
    "find_delivery (qm_environment sample_message, qm_consumer_key sample_message) empty_db = None"
    by (simp_all add: sample_message_def sample_worker_def find_delivery_def empty_db_def)
  with claim_exclusiveness [OF this(1), of empty_db 0] obtain d1 where
    c: "claim (qm_consumer_key sample_message) (qm_environment sample_message) 0 empty_db = Inr (True, d1)"
      "\<forall>now2. claim (qm_consumer_key sample_message) (qm_environment sample_message) now2 d1 = Inr (False, d1)"
      "\<forall>clock n w. handle_all sample_worker sample_message clock n d1 w = (replicate n (Inr True), d1, w)" by blast
  from c(3) [rule_format, of "\<lambda>_. 2" 1 0] have "handle sample_worker sample_message 2 d1 0 = (Inr True, d1, 0)"
    by (cases "handle sample_worker sample_message 2 d1 0") simp
  with c(1,2) show ?thesis by (simp add: sample_message_def)
qed

lemma publish_bounded_retries_witness:
  "\<exists>k < 3. \<exists>r. publish sample_runtime \<lparr>qu_send = (\<lambda>m w. if w = 0 then (Inr [(''MessageId'', JStr ''1'')], 0) else (Inl TimeoutError, w - 1)),
     qu_str = (\<lambda>j. ''s''), qu_sleep = (\<lambda>s w. w)\<rparr> ''q'' 3 ''k'' Dev JNull (1::nat) = r \<and> (Suc k < 3 \<longrightarrow> \<not> fails_transiently (fst r))"
  using publish_bounded_retries [where n = 3 and rt = sample_runtime and url = "''q''" and key = "''k''" and env = Dev and payload = JNull
    and w = "1::nat" and q = "\<lparr>qu_send = (\<lambda>m w. if w = 0 then (Inr [(''MessageId'', JStr ''1'')], 0) else (Inl TimeoutError, w - 1)),
     qu_str = (\<lambda>j. ''s''), qu_sleep = (\<lambda>s w. w)\<rparr>"]
  by auto

end
