(* ===== verification/JiraRead.thy ===== *)
theory JiraRead imports JiraMutation begin

text \<open>
  The read side of the Jira integration: the MCP envelope and evidence models
  (contracts/jira.py), the normalisation of responses (jira\_mcp\_client/normalize.py) and the
  evidence client with its project scope, retries and circuit breaker (client.py).  What pydantic and
  the standard library make of a text or a JSON scalar are the fields of a record \<open>parsers\<close>.
\<close>

section \<open>Models\<close>

datatype parsed_float = Finite pyfloat | PositiveInfinity | NegativeInfinity | NotANumber

record parsers =
  jp_int :: "string \<Rightarrow> int option"
  jp_float :: "string \<Rightarrow> parsed_float option"
  jp_fromisoformat :: "string \<Rightarrow> timestamp option"
  jp_aware :: "json \<Rightarrow> timestamp option"
  jp_date :: "json \<Rightarrow> date option"
  jp_json_int :: "json \<Rightarrow> int option"
  jp_json_bool :: "json \<Rightarrow> bool option"

record envelope =
  ve_environment :: environment
  ve_correlation_id :: string
  ve_evidence_timestamp :: timestamp
  ve_success :: bool
  ve_data :: "(string \<times> json) list option"
  ve_error :: "string option"

record account_ref =
  ac_account_id :: string
  ac_display_name :: string
  ac_account_type :: "string option"
  ac_active :: "bool option"

record custom_field_value =
  cf_logical_name :: string
  cf_raw_field_id :: string
  cf_value :: json

record evidence_ref =
  er_issue_key :: string
  er_field_id :: string
  er_observed_at :: timestamp

record issue_link =
  il_relationship :: string
  il_issue_key :: string

record untrusted_text =
  ut_source_field :: string
  ut_text :: string

datatype workload_profile = Balanced | Stalled | HighLoad | CriticalLoad | Recovery

record issue_evidence =
  ie_environment :: environment
  ie_correlation_id :: string
  ie_evidence_timestamp :: timestamp
  ie_key :: string
  ie_summary :: string
  ie_status :: string
  ie_priority :: "string option"
  ie_assignee :: "account_ref option"
  ie_due_date :: "date option"
  ie_original_estimate_seconds :: "int option"
  ie_remaining_estimate_seconds :: "int option"
  ie_time_spent_seconds :: "int option"
  ie_workforce_employee_id :: "string option"
  ie_difficulty :: "int option"
  ie_required_skills :: "string list"
  ie_structured_evidence_complete :: "bool option"
  ie_workload_profile :: "workload_profile option"
  ie_activity_timestamp :: timestamp
  ie_links :: "issue_link list"
  ie_custom_fields :: "custom_field_value list"
  ie_evidence_references :: "evidence_ref list"
  ie_untrusted_text :: "untrusted_text list"

section \<open>Values of a response\<close>

type_synonym json_fields = "(string \<times> json) list"

definition fget :: "json_fields \<Rightarrow> string \<Rightarrow> json" where
  "fget fs key = dict_get fs key JNull"

definition nonempty_text :: "json \<Rightarrow> string option" where
  "nonempty_text j = (case text_of j of None \<Rightarrow> None | Some s \<Rightarrow> if s = [] then None else Some s)"

fun truthy :: "json \<Rightarrow> bool" where
  "truthy JNull = False"
| "truthy (JBool b) = b"
| "truthy (JInt n) = (n \<noteq> 0)"
| "truthy (JFloat x) = (x \<noteq> 0)"
| "truthy (JStr s) = (s \<noteq> [])"
| "truthy (JList xs) = (xs \<noteq> [])"
| "truthy (JObj kvs) = (kvs \<noteq> [])"

text \<open>\<open>JiraNormalizationError\<close> is a ValueError.\<close>

definition require :: "'a option \<Rightarrow> string \<Rightarrow> 'a res" where
  "require x msg = (case x of None \<Rightarrow> Inl (ValueError msg) | Some y \<Rightarrow> Inr y)"

definition as_object :: "json \<Rightarrow> string \<Rightarrow> json_fields res" where
  "as_object j label = require (object_of j) (label @ '' must be an object'')"

definition named :: "json \<Rightarrow> string \<Rightarrow> string res" where
  "named j label = bindr (as_object j label) (\<lambda>obj.
     require (nonempty_text (fget obj ''name'')) (label @ ''.name must be a non-empty string''))"

section \<open>The envelope\<close>

definition envelope_keys :: "string set" where
  "envelope_keys = {''schema_version'', ''environment'', ''correlation_id'', ''evidence_timestamp'', ''status'', ''data'', ''error''}"

text \<open>\<open>JiraMcpEnvelope.model_validate\<close>: the fields, then \<open>validate_payload\<close>.\<close>

definition validate_envelope :: "parsers \<Rightarrow> json_fields \<Rightarrow> envelope res" where
  "validate_envelope ps raw =
    (let fail = Inl (ValidationError ''JiraMcpEnvelope'') in
     if \<not> fst ` set raw \<subseteq> envelope_keys \<or> fget raw ''schema_version'' \<noteq> JStr ''1.0'' then fail
     else case (map_option environment_of (text_of (fget raw ''environment'')), nonempty_text (fget raw ''correlation_id''),
                jp_aware ps (fget raw ''evidence_timestamp'')) of
       (Some (Some env), Some correlation, Some time) \<Rightarrow>
         (if fget raw ''status'' \<notin> {JStr ''success'', JStr ''error''} then fail
          else if fget raw ''data'' \<noteq> JNull \<and> object_of (fget raw ''data'') = None then fail
          else if fget raw ''error'' \<noteq> JNull \<and> text_of (fget raw ''error'') = None then fail
          else let e = \<lparr>ve_environment = env, ve_correlation_id = correlation, ve_evidence_timestamp = time,
                 ve_success = (fget raw ''status'' = JStr ''success''), ve_data = object_of (fget raw ''data''),
                 ve_error = text_of (fget raw ''error'')\<rparr>
          in if ve_success e \<and> ve_data e = None then fail
             else if \<not> ve_success e \<and> ve_error e \<in> {None, Some []} then fail
             else Inr e)
     | _ \<Rightarrow> fail)"

definition check_envelope :: "envelope \<Rightarrow> environment \<Rightarrow> string \<Rightarrow> string \<Rightarrow> json_fields res" where
  "check_envelope e expected_environment expected_correlation_id fallback =
    (if ve_environment e \<noteq> expected_environment then Inl (ValueError ''MCP response environment mismatch'')
     else if ve_correlation_id e \<noteq> expected_correlation_id then Inl (ValueError ''MCP response correlation ID mismatch'')
     else if \<not> ve_success e then Inl (ValueError (case ve_error e of Some (c # cs) \<Rightarrow> c # cs | _ \<Rightarrow> fallback))
     else require (ve_data e) fallback)"

section \<open>Structured labels\<close>

definition label_values :: "string list \<Rightarrow> string \<Rightarrow> string list" where
  "label_values labels prefix = map (drop (length prefix)) (filter (starts_with prefix) labels)"

text \<open>\<open>prefix.rstrip(":").replace("-", " ")\<close>\<close>

definition label_name :: "string \<Rightarrow> string" where
  "label_name prefix = map (\<lambda>c. if c = CHR ''-'' then CHR '' '' else c) (rev (dropWhile (\<lambda>c. c = CHR '':'') (rev prefix)))"

definition single_label_value :: "string list \<Rightarrow> string \<Rightarrow> string option res" where
  "single_label_value labels prefix = (case label_values labels prefix of
     [] \<Rightarrow> Inr None
   | [v] \<Rightarrow> Inr (Some v)
   | _ \<Rightarrow> Inl (ValueError (''multiple '' @ label_name prefix @ '' labels'')))"

definition label_hours :: "parsers \<Rightarrow> string list \<Rightarrow> string \<Rightarrow> int option res" where
  "label_hours ps labels prefix = bindr (single_label_value labels prefix) (\<lambda>v. case v of
     None \<Rightarrow> Inr None
   | Some text \<Rightarrow> (case jp_float ps text of
       None \<Rightarrow> Inl (ValueError (prefix @ '' must contain hours''))
     | Some NotANumber \<Rightarrow> Inl (ValueError ''cannot convert float NaN to integer'')
     | Some PositiveInfinity \<Rightarrow> Inl (OtherException ''OverflowError'')
     | Some NegativeInfinity \<Rightarrow> Inl (ValueError (prefix @ '' cannot be negative''))
     | Some (Finite parsed) \<Rightarrow>
         (if parsed < 0 then Inl (ValueError (prefix @ '' cannot be negative''))
          else Inr (Some (round_half_even (fmul parsed 3600))))))"

record structured_labels =
  sl_employee_id :: "string option"
  sl_original_estimate_seconds :: "int option"
  sl_remaining_estimate_seconds :: "int option"
  sl_difficulty :: "int option"
  sl_skills :: "string list"
  sl_complete :: "bool option"
  sl_workload_profile :: "workload_profile option"

definition label_difficulty :: "parsers \<Rightarrow> string list \<Rightarrow> int option res" where
  "label_difficulty ps labels = bindr (single_label_value labels ''workforce-difficulty:'') (\<lambda>v. case v of
     None \<Rightarrow> Inr None
   | Some text \<Rightarrow> bindr (require (jp_int ps text) ''difficulty label must be an integer'') (\<lambda>difficulty.
       if difficulty < 1 \<or> 5 < difficulty then Inl (ValueError ''difficulty label must be between 1 and 5'')
       else Inr (Some difficulty)))"

definition profile_of_label :: "string \<Rightarrow> workload_profile option" where
  "profile_of_label s = map_of [(''balanced'', Balanced), (''stalled'', Stalled), (''high'', HighLoad),
     (''critical'', CriticalLoad), (''recovery'', Recovery)] s"

definition label_profile :: "string list \<Rightarrow> workload_profile option res" where
  "label_profile labels = bindr (single_label_value labels ''workforce-workload-profile:'') (\<lambda>v. case v of
     None \<Rightarrow> Inr None
   | Some text \<Rightarrow> bindr (require (profile_of_label text) ''workload profile label is not allowlisted'') (\<lambda>p. Inr (Some p)))"

definition labels_of :: "json_fields \<Rightarrow> string list res" where
  "labels_of fs = require (case dict_get fs ''labels'' (JList []) of JList xs \<Rightarrow> texts_of xs | _ \<Rightarrow> None)
     ''labels must be a list of strings''"

definition structured_labels_of :: "parsers \<Rightarrow> json_fields \<Rightarrow> structured_labels res" where
  "structured_labels_of ps fs =
     bindr (labels_of fs) (\<lambda>labels.
     bindr (single_label_value labels ''workforce-employee:'') (\<lambda>employee_id.
     bindr (guard (case employee_id of None \<Rightarrow> False | Some e \<Rightarrow> \<not> matches_key id_char 2 63 e)
        (ValueError ''workforce employee label is invalid'')) (\<lambda>_.
     bindr (label_difficulty ps labels) (\<lambda>difficulty.
     let complete = ''workforce-evidence:complete'' \<in> set labels;
         incomplete = ''workforce-evidence:incomplete'' \<in> set labels in
     bindr (guard (complete \<and> incomplete) (ValueError ''evidence completeness labels conflict'')) (\<lambda>_.
     bindr (label_profile labels) (\<lambda>profile.
     bindr (label_hours ps labels ''workforce-estimate-hours:'') (\<lambda>original.
     bindr (label_hours ps labels ''workforce-remaining-hours:'') (\<lambda>remaining.
     Inr \<lparr>sl_employee_id = employee_id, sl_original_estimate_seconds = original, sl_remaining_estimate_seconds = remaining,
          sl_difficulty = difficulty, sl_skills = sort (label_values labels ''workforce-skill:''),
          sl_complete = (if complete then Some True else if incomplete then Some False else None),
          sl_workload_profile = profile\<rparr>))))))))"

section \<open>Untrusted text and links\<close>

definition text_or_dump :: "runtime \<Rightarrow> json \<Rightarrow> string" where
  "text_or_dump rt j = (case text_of j of Some s \<Rightarrow> s | None \<Rightarrow> render_spaced (rt_float rt) j)"

definition comment_texts :: "runtime \<Rightarrow> json \<Rightarrow> untrusted_text list" where
  "comment_texts rt comment = (case object_of comment of
     None \<Rightarrow> []
   | Some c \<Rightarrow> (if fget c ''body'' = JNull then []
       else [\<lparr>ut_source_field = ''comment'', ut_text = text_or_dump rt (fget c ''body'')\<rparr>]))"

definition untrusted_of :: "runtime \<Rightarrow> json_fields \<Rightarrow> untrusted_text list" where
  "untrusted_of rt fs =
     (if fget fs ''description'' = JNull then []
      else [\<lparr>ut_source_field = ''description'', ut_text = text_or_dump rt (fget fs ''description'')\<rparr>]) @
     (case object_of (fget fs ''comment'') of
        None \<Rightarrow> []
      | Some page \<Rightarrow> (case dict_get page ''comments'' (JList []) of
          JList comments \<Rightarrow> concat (map (comment_texts rt) comments)
        | _ \<Rightarrow> []))"

definition issue_link_of :: "json \<Rightarrow> issue_link res" where
  "issue_link_of raw =
     bindr (as_object raw ''issue link'') (\<lambda>link.
     bindr (as_object (fget link ''type'') ''issue link type'') (\<lambda>link_type.
     let inward = ''inwardIssue'' \<in> fst ` set link in
     bindr (as_object (fget link (if inward then ''inwardIssue'' else ''outwardIssue'')) ''linked issue'') (\<lambda>target.
     case (text_of (fget link_type (if inward then ''inward'' else ''outward'')), text_of (fget target ''key'')) of
       (Some relationship, Some key) \<Rightarrow> Inr \<lparr>il_relationship = relationship, il_issue_key = key\<rparr>
     | _ \<Rightarrow> Inl (ValueError ''issue link requires relationship and key''))))"

definition links_of :: "json_fields \<Rightarrow> issue_link list res" where
  "links_of fs = (case dict_get fs ''issuelinks'' (JList []) of
     JList raw_links \<Rightarrow> map_res issue_link_of raw_links
   | _ \<Rightarrow> Inl (ValueError ''issuelinks must be a list''))"

section \<open>Normalisation of an issue\<close>

definition assignee_of :: "parsers \<Rightarrow> json_fields \<Rightarrow> account_ref option res" where
  "assignee_of ps fs =
    (if fget fs ''assignee'' = JNull then Inr None
     else bindr (as_object (fget fs ''assignee'') ''assignee'') (\<lambda>raw.
       let account_type = fget raw ''accountType''; active = fget raw ''active'' in
       require (case (nonempty_text (fget raw ''accountId''), nonempty_text (fget raw ''displayName'')) of
           (Some account_id, Some display_name) \<Rightarrow>
             (if account_type \<noteq> JNull \<and> text_of account_type = None \<or> active \<noteq> JNull \<and> jp_json_bool ps active = None then None
              else Some (Some \<lparr>ac_account_id = account_id, ac_display_name = display_name, ac_account_type = text_of account_type,
                ac_active = (if active = JNull then None else jp_json_bool ps active)\<rparr>))
         | _ \<Rightarrow> None) ''assignee has an invalid shape''))"

definition custom_value_of :: "json_fields \<Rightarrow> string \<times> string \<Rightarrow> custom_field_value res" where
  "custom_value_of fs x = (case x of (logical_name, raw_id) \<Rightarrow>
     bindr (if fget fs raw_id = JNull then Inr JNull
       else bindr (as_object (fget fs raw_id) raw_id) (\<lambda>raw.
         case map_of raw ''value'' of
           None \<Rightarrow> Inl (ValueError (raw_id @ '' has an unsupported shape''))
         | Some (JObj _) \<Rightarrow> Inl (ValueError (raw_id @ '' has an unsupported shape''))
         | Some (JList _) \<Rightarrow> Inl (ValueError (raw_id @ '' has an unsupported shape''))
         | Some v \<Rightarrow> Inr v)) (\<lambda>v.
     Inr \<lparr>cf_logical_name = logical_name, cf_raw_field_id = raw_id, cf_value = v\<rparr>))"

definition reference_fields :: "string list" where
  "reference_fields = [''summary'', ''status'', ''priority'', ''assignee'', ''duedate'', ''updated'', ''labels'']"

definition references_of :: "json_fields \<Rightarrow> (string \<times> string) list \<Rightarrow> string \<Rightarrow> timestamp \<Rightarrow> evidence_ref list" where
  "references_of fs custom_fields key observed_at =
     map (\<lambda>field_id. \<lparr>er_issue_key = key, er_field_id = field_id, er_observed_at = observed_at\<rparr>)
       (filter (\<lambda>field_id. fget fs field_id \<noteq> JNull) (reference_fields @ map snd custom_fields))"

text \<open>Optional values that pydantic validates at the end.\<close>

definition optional :: "(json \<Rightarrow> 'a option) \<Rightarrow> json \<Rightarrow> 'a option \<Rightarrow> 'a option res" where
  "optional parse j fallback = (if j = JNull then Inr fallback
     else case parse j of None \<Rightarrow> Inl (ValidationError ''JiraIssueEvidence'') | Some x \<Rightarrow> Inr (Some x))"

definition non_negative_int :: "parsers \<Rightarrow> json \<Rightarrow> int option" where
  "non_negative_int ps j = (case jp_json_int ps j of None \<Rightarrow> None | Some n \<Rightarrow> if n < 0 then None else Some n)"

text \<open>\<open>datetime.fromisoformat(updated.replace("Z", "+00:00"))\<close>\<close>

definition activity_of :: "parsers \<Rightarrow> string \<Rightarrow> timestamp res" where
  "activity_of ps updated = require (jp_fromisoformat ps (concat (map (\<lambda>c. if c = CHR ''Z'' then ''+00:00'' else [c]) updated)))
     ''Invalid isoformat string''"

definition required_texts :: "json_fields \<Rightarrow> json_fields \<Rightarrow> (string \<times> string \<times> string) res" where
  "required_texts issue fs =
     (case (nonempty_text (fget issue ''key''), nonempty_text (fget fs ''summary''), nonempty_text (fget fs ''updated'')) of
        (Some key, Some summary, Some updated) \<Rightarrow> Inr (key, summary, updated)
      | _ \<Rightarrow> Inl (ValueError ''issue key, summary, and updated are required''))"

definition normalize_data ::
  "runtime \<Rightarrow> parsers \<Rightarrow> (string \<times> string) list \<Rightarrow> envelope \<Rightarrow> json_fields \<Rightarrow> issue_evidence res" where
  "normalize_data rt ps custom_fields e issue =
     bindr (as_object (fget issue ''fields'') ''issue fields'') (\<lambda>fs.
     bindr (required_texts issue fs) (\<lambda>(key, summary, updated).
     bindr (assignee_of ps fs) (\<lambda>assignee.
     bindr (map_res (custom_value_of fs) custom_fields) (\<lambda>custom.
     bindr (structured_labels_of ps fs) (\<lambda>labels.
     bindr (named (fget fs ''status'') ''status'') (\<lambda>status.
     bindr (if truthy (fget fs ''priority'') then map_sum id Some (named (fget fs ''priority'') ''priority'') else Inr None) (\<lambda>priority.
     bindr (activity_of ps updated) (\<lambda>activity.
     bindr (links_of fs) (\<lambda>links.
     bindr (optional (jp_date ps) (fget fs ''duedate'') None) (\<lambda>due_date.
     bindr (optional (jp_json_int ps) (fget fs ''timeoriginalestimate'') (sl_original_estimate_seconds labels)) (\<lambda>original.
     bindr (optional (jp_json_int ps) (fget fs ''timeestimate'') (sl_remaining_estimate_seconds labels)) (\<lambda>remaining.
     bindr (optional (non_negative_int ps) (fget fs ''timespent'') None) (\<lambda>time_spent.
     Inr \<lparr>ie_environment = ve_environment e, ie_correlation_id = ve_correlation_id e,
       ie_evidence_timestamp = ve_evidence_timestamp e, ie_key = key, ie_summary = summary, ie_status = status,
       ie_priority = priority, ie_assignee = assignee, ie_due_date = due_date, ie_original_estimate_seconds = original,
       ie_remaining_estimate_seconds = remaining, ie_time_spent_seconds = time_spent,
       ie_workforce_employee_id = sl_employee_id labels, ie_difficulty = sl_difficulty labels,
       ie_required_skills = sl_skills labels, ie_structured_evidence_complete = sl_complete labels,
       ie_workload_profile = sl_workload_profile labels, ie_activity_timestamp = activity, ie_links = links,
       ie_custom_fields = custom, ie_evidence_references = references_of fs custom_fields key (ve_evidence_timestamp e),
       ie_untrusted_text = untrusted_of rt fs\<rparr>)))))))))))))"

definition normalize_issue ::
  "runtime \<Rightarrow> parsers \<Rightarrow> environment \<Rightarrow> string \<Rightarrow> (string \<times> string) list \<Rightarrow> json_fields \<Rightarrow> issue_evidence res" where
  "normalize_issue rt ps env correlation custom_fields raw =
     bindr (validate_envelope ps raw) (\<lambda>e.
     bindr (check_envelope e env correlation ''Jira MCP read failed'') (\<lambda>issue. normalize_data rt ps custom_fields e issue))"

section \<open>Normalisation of a search\<close>

text \<open>\<open>isinstance(total, int)\<close> holds of booleans too.\<close>

fun py_int_of :: "json \<Rightarrow> int option" where
  "py_int_of (JInt n) = Some n"
| "py_int_of (JBool b) = Some (if b then 1 else 0)"
| "py_int_of _ = None"

definition search_truncated :: "json_fields \<Rightarrow> nat \<Rightarrow> bool" where
  "search_truncated data n \<longleftrightarrow> truthy (fget data ''nextPageToken'') \<or> fget data ''isLast'' = JBool False \<or>
     (case py_int_of (fget data ''total'') of None \<Rightarrow> False | Some t \<Rightarrow> int n < t)"

definition issues_of :: "json_fields \<Rightarrow> json_fields list res" where
  "issues_of data = (case fget data ''issues'' of
     JList raw \<Rightarrow> (if list_all (\<lambda>j. object_of j \<noteq> None) raw then Inr (map (\<lambda>j. the (object_of j)) raw)
        else Inl (ValueError ''Jira search issues must be a list of objects''))
   | _ \<Rightarrow> Inl (ValueError ''Jira search issues must be a list of objects''))"

text \<open>
  Each issue is wrapped in the fields of the validated envelope and normalised like a single
  read; validating and checking that envelope again succeeds.
\<close>

definition normalize_issue_search ::
  "runtime \<Rightarrow> parsers \<Rightarrow> environment \<Rightarrow> string \<Rightarrow> (string \<times> string) list \<Rightarrow> json_fields \<Rightarrow> issue_evidence list res" where
  "normalize_issue_search rt ps env correlation custom_fields raw =
     bindr (validate_envelope ps raw) (\<lambda>e.
     bindr (check_envelope e env correlation ''Jira MCP search failed'') (\<lambda>data.
     bindr (issues_of data) (\<lambda>issues.
     bindr (guard (search_truncated data (length issues)) (ValueError ''Jira search result is truncated'')) (\<lambda>_.
     map_res (normalize_data rt ps custom_fields e) issues))))"

section \<open>JiraEvidenceClient\<close>

record evidence_client =
  jc_environment :: environment
  jc_allowed_projects :: "string set"
  jc_custom_fields :: "(string \<times> string) list"
  jc_max_attempts :: int
  jc_failure_threshold :: int
  jc_reset_seconds :: pyfloat
  jc_consecutive_failures :: int
  jc_opened_at :: "pyfloat option"

text \<open>
  The world a client lives in: the transport, under \<open>asyncio.wait\_for\<close>, whose result may be a
  TimeoutError, and \<open>time.monotonic\<close>.
\<close>

record 'w jira_world =
  jw_call :: "'w transport"
  jw_monotonic :: "'w \<Rightarrow> pyfloat"

definition circuit_check :: "pyfloat \<Rightarrow> evidence_client \<Rightarrow> evidence_client res" where
  "circuit_check now c = (case jc_opened_at c of
     None \<Rightarrow> Inr c
   | Some opened_at \<Rightarrow>
       (if fsub now opened_at < jc_reset_seconds c then Inl (OtherException ''JiraCircuitOpen'')
        else Inr (c\<lparr>jc_opened_at := None, jc_consecutive_failures := 0\<rparr>)))"

text \<open>The attempts: None when every one of them timed out.\<close>

fun read_attempts ::
  "'w transport \<Rightarrow> tool_call \<Rightarrow> (response \<Rightarrow> 'a res) \<Rightarrow> nat \<Rightarrow> 'w \<Rightarrow> 'a res option \<times> 'w" where
  "read_attempts call t parse 0 w = (None, w)"
| "read_attempts call t parse (Suc left) w =
    (case call t w of (r, w') \<Rightarrow>
       (if bindr r parse = Inl TimeoutError then read_attempts call t parse left w'
        else (Some (bindr r parse), w')))"

definition read_with_retries ::
  "'w jira_world \<Rightarrow> tool_call \<Rightarrow> (response \<Rightarrow> 'a res) \<Rightarrow> evidence_client \<Rightarrow> 'w \<Rightarrow> 'a res \<times> evidence_client \<times> 'w" where
  "read_with_retries j t parse c w =
    (case read_attempts (jw_call j) t parse (nat (jc_max_attempts c)) w of
       (Some (Inr evidence), w') \<Rightarrow> (Inr evidence, c\<lparr>jc_consecutive_failures := 0\<rparr>, w')
     | (Some (Inl e), w') \<Rightarrow> (Inl e, c, w')
     | (None, w') \<Rightarrow>
        (if jc_max_attempts c \<le> 0 then (Inl AssertionError, c, w')
         else let failures = jc_consecutive_failures c + 1;
                  c1 = c\<lparr>jc_consecutive_failures := failures\<rparr>
              in (Inl TimeoutError,
                  if jc_failure_threshold c \<le> failures then c1\<lparr>jc_opened_at := Some (jw_monotonic j w')\<rparr> else c1, w')))"

definition issue_fields :: "string list" where
  "issue_fields = [''summary'', ''status'', ''priority'', ''assignee'', ''duedate'', ''timeoriginalestimate'',
     ''timeestimate'', ''timespent'', ''updated'', ''labels'', ''issuelinks'']"

definition issue_call :: "evidence_client \<Rightarrow> string \<Rightarrow> string \<Rightarrow> tool_call" where
  "issue_call c issue_key correlation_id = \<lparr>tc_name = ''getJiraIssue'',
     tc_arguments = JObj [(''issueIdOrKey'', JStr issue_key),
       (''fields'', json_strings (issue_fields @ [''description'', ''comment''] @ map snd (jc_custom_fields c)))],
     tc_correlation = correlation_id\<rparr>"

definition get_issue ::
  "runtime \<Rightarrow> parsers \<Rightarrow> 'w jira_world \<Rightarrow> string \<Rightarrow> string \<Rightarrow> evidence_client \<Rightarrow> 'w
     \<Rightarrow> issue_evidence res \<times> evidence_client \<times> 'w" where
  "get_issue rt ps j issue_key correlation_id c w =
    (case circuit_check (jw_monotonic j w) c of
       Inl e \<Rightarrow> (Inl e, c, w)
     | Inr c1 \<Rightarrow>
        (let project_key = takeWhile (\<lambda>x. x \<noteq> CHR ''-'') issue_key in
         if CHR ''-'' \<notin> set issue_key \<or> project_key \<notin> jc_allowed_projects c1
         then (Inl (PermissionError (''Jira project is not allowed: '' @ project_key)), c1, w)
         else read_with_retries j (issue_call c1 issue_key correlation_id)
                (normalize_issue rt ps (jc_environment c1) correlation_id (jc_custom_fields c1)) c1 w))"

section \<open>The scope of a query\<close>

definition is_word :: "char \<Rightarrow> bool" where
  "is_word c \<longleftrightarrow> is_upper c \<or> is_lower c \<or> is_digit c \<or> c = CHR ''_''"

definition is_alnum :: "char \<Rightarrow> bool" where
  "is_alnum c \<longleftrightarrow> is_upper c \<or> is_lower c \<or> is_digit c"

text \<open>
  A match of \<open>project\s*=\s*"([A-Z][A-Z0-9]{1,19})"\<close>, ignoring case, at the start of a text: its
  group and what follows it.
\<close>

definition scope_at :: "string \<Rightarrow> (string \<times> string) option" where
  "scope_at s =
    (if casefold (take 7 s) \<noteq> ''project'' then None
     else case dropWhile is_space (drop 7 s) of
       [] \<Rightarrow> None
     | e # a \<Rightarrow> (if e \<noteq> CHR ''='' then None
         else case dropWhile is_space a of
           [] \<Rightarrow> None
         | q # b \<Rightarrow>
             (let key = takeWhile is_alnum b; rest = dropWhile is_alnum b in
              if q = CHR 0x22 \<and> length_between 2 20 key \<and> \<not> is_digit (hd key) \<and> rest \<noteq> [] \<and> hd rest = CHR 0x22
              then Some (key, tl rest) else None)))"

lemma scope_at_shorter:
  assumes "scope_at s = Some (k, rest)"
  shows "length rest < length s"
proof -
  from assms obtain e a q b where "dropWhile is_space (drop 7 s) = e # a" "dropWhile is_space a = q # b"
    and rest: "rest = tl (dropWhile is_alnum b)"
    by (auto simp: scope_at_def Let_def split: if_splits list.splits)
  then have "length (e # a) \<le> length s" "length (q # b) \<le> length a" "length rest \<le> length b"
    using length_dropWhile_le [of is_space "drop 7 s"] length_dropWhile_le [of is_space a] length_dropWhile_le [of is_alnum b]
    by simp_all
  then show ?thesis by simp
qed

text \<open>\<open>re.findall\<close>; the first argument says whether the character before is a word character.\<close>

function project_scopes :: "bool \<Rightarrow> string \<Rightarrow> string list" where
  "project_scopes after_word [] = []"
| "project_scopes after_word (c # cs) =
    (case (if after_word then None else scope_at (c # cs)) of
       Some (key, rest) \<Rightarrow> key # project_scopes False rest
     | None \<Rightarrow> project_scopes (is_word c) cs)"
  by pat_completeness auto
termination
  by (relation "measure (\<lambda>(_, s). length s)") (auto dest: scope_at_shorter split: if_splits)

text \<open>\<open>re.search(r"\bOR\b", ...)\<close>\<close>

fun mentions_or :: "bool \<Rightarrow> string \<Rightarrow> bool" where
  "mentions_or after_word [] = False"
| "mentions_or after_word (c # cs) =
    (\<not> after_word \<and> casefold (take 2 (c # cs)) = ''or'' \<and> (drop 2 (c # cs) = [] \<or> \<not> is_word (hd (drop 2 (c # cs))))
     \<or> mentions_or (is_word c) cs)"

definition query_bound_to :: "string \<Rightarrow> string \<Rightarrow> bool" where
  "query_bound_to project_key jql \<longleftrightarrow> project_scopes False jql = [project_key] \<and> \<not> mentions_or False jql"

definition search_call :: "evidence_client \<Rightarrow> string \<Rightarrow> string \<Rightarrow> tool_call" where
  "search_call c jql correlation_id = \<lparr>tc_name = ''searchJiraIssuesUsingJql'',
     tc_arguments = JObj [(''jql'', JStr jql), (''fields'', json_strings (issue_fields @ map snd (jc_custom_fields c))),
       (''maxResults'', JInt 100)],
     tc_correlation = correlation_id\<rparr>"

definition search_issues ::
  "runtime \<Rightarrow> parsers \<Rightarrow> 'w jira_world \<Rightarrow> string \<Rightarrow> string \<Rightarrow> string \<Rightarrow> evidence_client \<Rightarrow> 'w
     \<Rightarrow> issue_evidence list res \<times> evidence_client \<times> 'w" where
  "search_issues rt ps j jql project_key correlation_id c w =
    (if project_key \<notin> jc_allowed_projects c
     then (Inl (PermissionError (''Jira project is not allowed: '' @ project_key)), c, w)
     else if \<not> query_bound_to project_key jql
     then (Inl (PermissionError ''JQL is not bound to the authorized project''), c, w)
     else if length jql > 1000 then (Inl (ValueError ''JQL exceeds size limit''), c, w)
     else case circuit_check (jw_monotonic j w) c of
       Inl e \<Rightarrow> (Inl e, c, w)
     | Inr c1 \<Rightarrow> read_with_retries j (search_call c1 jql correlation_id)
         (normalize_issue_search rt ps (jc_environment c1) correlation_id (jc_custom_fields c1)) c1 w)"

section \<open>Properties of the normalisation\<close>

text \<open>The fields that carry text written by users.\<close>

definition untrusted_fields :: "string set" where
  "untrusted_fields = {''description'', ''comment''}"

definition same_trusted_fields :: "json_fields \<Rightarrow> json_fields \<Rightarrow> bool" where
  "same_trusted_fields fs gs \<longleftrightarrow>
     filter (\<lambda>(k, v). k \<notin> untrusted_fields) fs = filter (\<lambda>(k, v). k \<notin> untrusted_fields) gs"

lemma map_of_filter_key: "P k \<Longrightarrow> map_of (filter (\<lambda>(k, v). P k) xs) k = map_of xs k"
  by (induction xs) auto

lemma trusted_lookup:
  assumes "same_trusted_fields fs gs" and "k \<notin> untrusted_fields"
  shows "dict_get fs k v = dict_get gs k v"
proof -
  have "map_of fs k = map_of gs k"
    using assms map_of_filter_key [of "\<lambda>k. k \<notin> untrusted_fields" k] by (metis same_trusted_fields_def)
  then show ?thesis by (simp add: dict_get_def)
qed

lemma trusted_fget:
  assumes "same_trusted_fields fs gs" and "k \<notin> untrusted_fields"
  shows "fget fs k = fget gs k"
  by (simp add: fget_def trusted_lookup [OF assms])

lemma trusted_parts:
  assumes "same_trusted_fields fs gs"
  shows "required_texts issue fs = required_texts issue gs" and "assignee_of ps fs = assignee_of ps gs"
    and "structured_labels_of ps fs = structured_labels_of ps gs" and "links_of fs = links_of gs"
proof -
  note look = trusted_lookup [OF assms] trusted_fget [OF assms]
  show "required_texts issue fs = required_texts issue gs" by (simp add: required_texts_def look untrusted_fields_def)
  show "assignee_of ps fs = assignee_of ps gs" by (simp add: assignee_of_def look untrusted_fields_def)
  show "structured_labels_of ps fs = structured_labels_of ps gs"
    by (simp add: structured_labels_of_def labels_of_def look untrusted_fields_def)
  show "links_of fs = links_of gs" by (simp add: links_of_def look untrusted_fields_def)
qed

lemma trusted_custom:
  assumes "same_trusted_fields fs gs" and "\<forall>(name, raw_id) \<in> set custom. raw_id \<notin> untrusted_fields"
  shows "map_res (custom_value_of fs) custom = map_res (custom_value_of gs) custom"
    and "references_of fs custom key t = references_of gs custom key t"
proof -
  have "custom_value_of fs x = custom_value_of gs x" if "x \<in> set custom" for x
    using that assms trusted_fget [OF assms(1)] by (auto simp: custom_value_of_def split: prod.splits)
  then show "map_res (custom_value_of fs) custom = map_res (custom_value_of gs) custom"
    by (induction custom) simp_all
  have "fget fs i = fget gs i" if "i \<in> set (reference_fields @ map snd custom)" for i
    using that assms(2) by (intro trusted_fget [OF assms(1)]) (auto simp: reference_fields_def untrusted_fields_def)
  then show "references_of fs custom key t = references_of gs custom key t"
    unfolding references_of_def by (intro arg_cong [where f = "map _"] filter_cong refl) auto
qed

lemma map_sum_bindr: "map_sum id g (bindr r k) = bindr r (\<lambda>x. map_sum id g (k x))"
  by (cases r) simp_all

text \<open>
  C18: Text written by users influences nothing but the untrusted text.  Replacing the description
  and the comments of an issue by anything gives the same result of the normalisation, the same
  error or the same evidence, except for the list of untrusted texts.
\<close>

theorem untrusted_text_isolated:
  assumes "fget issue ''fields'' = JObj fs" and "fget issue' ''fields'' = JObj gs"
    and "fget issue' ''key'' = fget issue ''key''" and "same_trusted_fields fs gs"
    and "\<forall>(name, raw_id) \<in> set custom. raw_id \<notin> {''description'', ''comment''}"
  shows "normalize_data rt ps custom e issue' =
    map_sum id (\<lambda>ev. ev\<lparr>ie_untrusted_text := untrusted_of rt gs\<rparr>) (normalize_data rt ps custom e issue)"
proof -
  have texts: "required_texts issue' = required_texts issue" by (rule ext) (simp add: required_texts_def assms(3))
  have trusted: "fget gs k = fget fs k"
    if "k \<in> {''status'', ''priority'', ''duedate'', ''timeoriginalestimate'', ''timeestimate'', ''timespent''}" for k
    using that by (intro trusted_fget [OF assms(4), symmetric]) (auto simp: untrusted_fields_def)
  have cf: "\<forall>(name, raw_id) \<in> set custom. raw_id \<notin> untrusted_fields" using assms(5) by (simp add: untrusted_fields_def)
  note same = trusted_parts [OF assms(4), symmetric] trusted_custom [OF assms(4) cf, symmetric] trusted
  show ?thesis
    by (simp add: normalize_data_def as_object_def require_def assms(1,2) texts same map_sum_bindr split_def)
qed

lemma normalize_data_origin:
  assumes "normalize_data rt ps custom e issue = Inr ev"
  shows "ie_environment ev = ve_environment e \<and> ie_correlation_id ev = ve_correlation_id e"
  using assms by (auto simp: normalize_data_def bindr_Inr_iff)

lemma check_envelope_Inr:
  "check_envelope e env correlation m = Inr data \<longleftrightarrow>
     ve_environment e = env \<and> ve_correlation_id e = correlation \<and> ve_success e \<and> ve_data e = Some data"
  by (auto simp: check_envelope_def require_def split: option.splits)

text \<open>
  Evidence is of the request.  A normalised issue, and each issue of a normalised search,
  carries the expected environment and correlation identifier; a search result is complete:
  every issue of the response is in it, in order, and the response did not say that there were more.
\<close>

theorem evidence_is_of_request:
  "(normalize_issue rt ps env correlation custom raw = Inr ev \<longrightarrow>
      ie_environment ev = env \<and> ie_correlation_id ev = correlation) \<and>
   (normalize_issue_search rt ps env correlation custom raw = Inr evs \<longrightarrow>
      (\<forall>ev \<in> set evs. ie_environment ev = env \<and> ie_correlation_id ev = correlation) \<and>
      (\<exists>e data issues. validate_envelope ps raw = Inr e \<and> ve_data e = Some data \<and> issues_of data = Inr issues \<and>
         list_all2 (\<lambda>issue ev. normalize_data rt ps custom e issue = Inr ev) issues evs \<and>
         \<not> search_truncated data (length evs)))"
proof (intro conjI impI)
  assume "normalize_issue rt ps env correlation custom raw = Inr ev"
  then obtain e issue where "check_envelope e env correlation ''Jira MCP read failed'' = Inr issue"
    "normalize_data rt ps custom e issue = Inr ev" by (auto simp: normalize_issue_def bindr_Inr_iff)
  then show "ie_environment ev = env" "ie_correlation_id ev = correlation"
    using normalize_data_origin by (auto simp: check_envelope_Inr)
next
  assume "normalize_issue_search rt ps env correlation custom raw = Inr evs"
  then obtain e data issues where r: "validate_envelope ps raw = Inr e"
    "check_envelope e env correlation ''Jira MCP search failed'' = Inr data" "issues_of data = Inr issues"
    "\<not> search_truncated data (length issues)" "map_res (normalize_data rt ps custom e) issues = Inr evs"
    by (auto simp: normalize_issue_search_def bindr_Inr_iff)
  have l: "list_all2 (\<lambda>issue ev. normalize_data rt ps custom e issue = Inr ev) issues evs"
    using r(5) by (simp add: map_res_Inr_iff)
  then show "\<forall>ev \<in> set evs. ie_environment ev = env \<and> ie_correlation_id ev = correlation"
    using r(2) normalize_data_origin by (fastforce simp: check_envelope_Inr list_all2_conv_all_nth in_set_conv_nth)
  show "\<exists>e data issues. validate_envelope ps raw = Inr e \<and> ve_data e = Some data \<and> issues_of data = Inr issues \<and>
         list_all2 (\<lambda>issue ev. normalize_data rt ps custom e issue = Inr ev) issues evs \<and>
         \<not> search_truncated data (length evs)"
    using r l list_all2_lengthD [OF l] by (auto simp: check_envelope_Inr)
qed

section \<open>Properties of the client\<close>

definition traced_world :: "'w jira_world \<Rightarrow> ('w \<times> (tool_call \<times> response res) list) jira_world" where
  "traced_world j = \<lparr>jw_call = traced (jw_call j), jw_monotonic = jw_monotonic j \<circ> fst\<rparr>"

lemma read_attempts_traced:
  "read_attempts (traced call) t parse n (w, tr) =
     (case read_attempts call t parse n w of (r, w') \<Rightarrow> (r, (w', snd (snd (read_attempts (traced call) t parse n (w, tr)))))) \<and>
   (\<exists>more. snd (snd (read_attempts (traced call) t parse n (w, tr))) = tr @ more \<and> length more \<le> n \<and> (\<forall>x \<in> set more. fst x = t))"
proof (induction n arbitrary: w tr)
  case (Suc n)
  obtain r w' where c: "call t w = (r, w')" by (cases "call t w")
  show ?case
  proof (cases "bindr r parse = Inl TimeoutError")
    case True
    then have step: "read_attempts (traced call) t parse (Suc n) (w, tr) = read_attempts (traced call) t parse n (w', tr @ [(t, r)])"
      by (simp add: traced_def c)
    from Suc.IH [of w' "tr @ [(t, r)]"] obtain more where
      "snd (snd (read_attempts (traced call) t parse n (w', tr @ [(t, r)]))) = tr @ [(t, r)] @ more"
      "length more \<le> n" "\<forall>x \<in> set more. fst x = t" by auto
    then show ?thesis using Suc.IH [of w' "tr @ [(t, r)]"] True step c
      by (intro conjI exI [of _ "(t, r) # more"]) (auto split: prod.splits)
  next
    case False
    then show ?thesis by (simp add: traced_def c)
  qed
qed simp

lemma read_attempts_error: "read_attempts call t parse n w = (Some (Inl e), w') \<Longrightarrow> e \<noteq> TimeoutError"
  by (induction n arbitrary: w) (auto split: prod.splits if_splits)

lemma read_attempts_origin: "read_attempts call t parse n w = (Some (Inr ev), w') \<Longrightarrow> \<exists>raw. parse raw = Inr ev"
  by (induction n arbitrary: w) (auto simp: bindr_Inr_iff split: prod.splits if_splits)

definition blocked :: "pyfloat \<Rightarrow> evidence_client \<Rightarrow> bool" where
  "blocked now c \<longleftrightarrow> (case jc_opened_at c of None \<Rightarrow> False | Some t \<Rightarrow> fsub now t < jc_reset_seconds c)"

lemma circuit_check_cases:
  "circuit_check now c = (if blocked now c then Inl (OtherException ''JiraCircuitOpen'')
     else Inr (if jc_opened_at c = None then c else c\<lparr>jc_opened_at := None, jc_consecutive_failures := 0\<rparr>))"
  by (auto simp: circuit_check_def blocked_def split: option.splits)

definition key_allowed :: "evidence_client \<Rightarrow> string \<Rightarrow> bool" where
  "key_allowed c issue_key \<longleftrightarrow> CHR ''-'' \<in> set issue_key \<and> takeWhile (\<lambda>x. x \<noteq> CHR ''-'') issue_key \<in> jc_allowed_projects c"

text \<open>The client after its circuit was checked: closed, with the failures counted so far.\<close>

definition checked :: "evidence_client \<Rightarrow> evidence_client" where
  "checked c = (if jc_opened_at c = None then c else c\<lparr>jc_opened_at := None, jc_consecutive_failures := 0\<rparr>)"

lemma checked_fields [simp]:
  "jc_opened_at (checked c) = None" "jc_environment (checked c) = jc_environment c"
  "jc_allowed_projects (checked c) = jc_allowed_projects c" "jc_custom_fields (checked c) = jc_custom_fields c"
  "jc_max_attempts (checked c) = jc_max_attempts c" "jc_failure_threshold (checked c) = jc_failure_threshold c"
  by (simp_all add: checked_def)

lemma get_issue_cases:
  "get_issue rt ps j key corr c w =
    (if blocked (jw_monotonic j w) c then (Inl (OtherException ''JiraCircuitOpen''), c, w)
     else if \<not> key_allowed c key
     then (Inl (PermissionError (''Jira project is not allowed: '' @ takeWhile (\<lambda>x. x \<noteq> CHR ''-'') key)), checked c, w)
     else read_with_retries j (issue_call (checked c) key corr)
            (normalize_issue rt ps (jc_environment c) corr (jc_custom_fields c)) (checked c) w)"
  by (simp add: get_issue_def circuit_check_cases key_allowed_def Let_def checked_def [symmetric])

lemma search_issues_cases:
  "search_issues rt ps j jql project corr c w =
    (if project \<notin> jc_allowed_projects c then (Inl (PermissionError (''Jira project is not allowed: '' @ project)), c, w)
     else if \<not> query_bound_to project jql then (Inl (PermissionError ''JQL is not bound to the authorized project''), c, w)
     else if length jql > 1000 then (Inl (ValueError ''JQL exceeds size limit''), c, w)
     else if blocked (jw_monotonic j w) c then (Inl (OtherException ''JiraCircuitOpen''), c, w)
     else read_with_retries j (search_call (checked c) jql corr)
            (normalize_issue_search rt ps (jc_environment c) corr (jc_custom_fields c)) (checked c) w)"
  by (simp add: search_issues_def circuit_check_cases checked_def [symmetric])

lemma read_with_retries_trace:
  assumes "read_with_retries (traced_world j) t parse c (w, []) = (r, c', w', trace)"
  shows "length trace \<le> nat (jc_max_attempts c) \<and> (\<forall>x \<in> set trace. fst x = t)"
proof -
  have "trace = snd (snd (read_attempts (traced (jw_call j)) t parse (nat (jc_max_attempts c)) (w, [])))"
    using assms by (auto simp: read_with_retries_def traced_world_def Let_def split: prod.splits option.splits sum.splits if_splits)
  then show ?thesis using read_attempts_traced [of "jw_call j" t parse "nat (jc_max_attempts c)" w "[]"] by auto
qed


text \<open>A closed circuit has fewer failures than the threshold.\<close>

definition circuit_ok :: "evidence_client \<Rightarrow> bool" where
  "circuit_ok c \<longleftrightarrow> 0 < jc_failure_threshold c \<and> 0 < jc_max_attempts c \<and>
     (jc_opened_at c = None \<longrightarrow> 0 \<le> jc_consecutive_failures c \<and> jc_consecutive_failures c < jc_failure_threshold c)"

lemma checked_ok: "circuit_ok c \<Longrightarrow> circuit_ok (checked c) \<and> 0 \<le> jc_consecutive_failures (checked c) \<and>
    jc_consecutive_failures (checked c) < jc_failure_threshold c"
  by (auto simp: circuit_ok_def checked_def)

lemma read_with_retries_state:
  assumes "circuit_ok c" and "jc_opened_at c = None" and "read_with_retries j t parse c w = (r, c', w')"
  shows "circuit_ok c' \<and>
     (case r of
        Inr _ \<Rightarrow> jc_consecutive_failures c' = 0 \<and> jc_opened_at c' = None
      | Inl e \<Rightarrow> if e = TimeoutError
          then jc_consecutive_failures c' = jc_consecutive_failures c + 1 \<and>
            jc_opened_at c' = (if jc_consecutive_failures c' < jc_failure_threshold c then None else Some (jw_monotonic j w'))
          else c' = c)"
proof -
  obtain x w1 where x: "read_attempts (jw_call j) t parse (nat (jc_max_attempts c)) w = (x, w1)"
    by (cases "read_attempts (jw_call j) t parse (nat (jc_max_attempts c)) w")
  show ?thesis
  proof (cases x)
    case None
    with x assms show ?thesis by (auto simp: read_with_retries_def circuit_ok_def Let_def split: if_splits)
  next
    case (Some y)
    with x assms read_attempts_error [of "jw_call j" t parse "nat (jc_max_attempts c)" w _ w1] show ?thesis
      by (cases y) (auto simp: read_with_retries_def circuit_ok_def)
  qed
qed

text \<open>
  The circuit breaker counts consecutive timeouts.  While the circuit is open and not due for a
  reset a read fails at once and nothing changes; otherwise a successful read clears the
  failures, a timed-out one adds one and opens the circuit exactly when the threshold is
  reached, any other error leaves the count, and the count stays below the threshold while the circuit is closed.
\<close>

theorem circuit_breaker:
  assumes "circuit_ok c" and "get_issue rt ps j key corr c w = (r, c', w')"
  shows "circuit_ok c' \<and>
    (blocked (jw_monotonic j w) c \<longrightarrow> r = Inl (OtherException ''JiraCircuitOpen'') \<and> c' = c \<and> w' = w) \<and>
    (\<not> blocked (jw_monotonic j w) c \<longrightarrow> (case r of
        Inr _ \<Rightarrow> jc_consecutive_failures c' = 0 \<and> jc_opened_at c' = None
      | Inl e \<Rightarrow> if e = TimeoutError
          then jc_consecutive_failures c' = jc_consecutive_failures (checked c) + 1 \<and>
            jc_opened_at c' = (if jc_consecutive_failures c' < jc_failure_threshold c then None else Some (jw_monotonic j w'))
          else c' = checked c))"
proof (cases "blocked (jw_monotonic j w) c")
  case True
  with assms show ?thesis by (auto simp: get_issue_cases)
next
  case open': False
  show ?thesis
  proof (cases "key_allowed c key")
    case False
    with assms open' checked_ok [OF assms(1)] show ?thesis by (auto simp: get_issue_cases)
  next
    case True
    with assms(2) open' have run: "read_with_retries j (issue_call (checked c) key corr)
        (normalize_issue rt ps (jc_environment c) corr (jc_custom_fields c)) (checked c) w = (r, c', w')"
      by (simp add: get_issue_cases)
    have "circuit_ok (checked c)" using checked_ok [OF assms(1)] by blast
    from read_with_retries_state [OF this _ run] open' show ?thesis
      by (auto split: sum.splits if_splits)
  qed
qed

text \<open>
  The scope check of a query does not bind it to the project: a query that excludes the authorised
  project, and so asks for the issues of all others, passes.
\<close>

theorem negated_scope_accepted:
  "query_bound_to ''WRD'' (''NOT project = '' @ [CHR 0x22] @ ''WRD'' @ [CHR 0x22]) \<and>
   query_bound_to ''WRD'' (''project = '' @ [CHR 0x22] @ ''WRD'' @ [CHR 0x22]) \<and>
   \<not> query_bound_to ''WRD'' (''project = '' @ [CHR 0x22] @ ''OPS'' @ [CHR 0x22])"
  by code_simp

section \<open>Witnesses\<close>

definition sample_parsers :: parsers where
  "sample_parsers = \<lparr>jp_int = (\<lambda>s. Some (int (length s))), jp_float = (\<lambda>s. Some (Finite 1)), jp_fromisoformat = (\<lambda>s. Some 0),
     jp_aware = (\<lambda>j. Some 0), jp_date = (\<lambda>j. Some 0), jp_json_int = (\<lambda>j. case j of JInt n \<Rightarrow> Some n | _ \<Rightarrow> None),
     jp_json_bool = (\<lambda>j. case j of JBool b \<Rightarrow> Some b | _ \<Rightarrow> None)\<rparr>"

definition sample_fields :: "string \<Rightarrow> json_fields" where
  "sample_fields text = [(''summary'', JStr ''S''), (''updated'', JStr ''U''), (''status'', JObj [(''name'', JStr ''Done'')]),
     (''description'', JStr text), (''timespent'', JInt 60)]"

definition sample_jira_issue :: "string \<Rightarrow> json_fields" where
  "sample_jira_issue text = [(''key'', JStr ''WRD-1''), (''fields'', JObj (sample_fields text))]"

definition sample_envelope :: envelope where
  "sample_envelope = \<lparr>ve_environment = Dev, ve_correlation_id = ''c'', ve_evidence_timestamp = 0, ve_success = True,
     ve_data = None, ve_error = None\<rparr>"

definition sample_response :: response where
  "sample_response = [(''schema_version'', JStr ''1.0''), (''environment'', JStr ''dev''), (''correlation_id'', JStr ''c''),
     (''evidence_timestamp'', JStr ''t''), (''status'', JStr ''success''), (''data'', JObj (sample_jira_issue ''x''))]"

definition sample_evidence_client :: evidence_client where
  "sample_evidence_client = \<lparr>jc_environment = Dev, jc_allowed_projects = {''WRD''}, jc_custom_fields = [], jc_max_attempts = 2,
     jc_failure_threshold = 1, jc_reset_seconds = 30, jc_consecutive_failures = 0, jc_opened_at = None\<rparr>"

definition sample_world :: "unit jira_world" where
  "sample_world = \<lparr>jw_call = (\<lambda>t w. (Inr sample_response, ())), jw_monotonic = (\<lambda>w. 0)\<rparr>"

definition failing_world :: "unit jira_world" where
  "failing_world = \<lparr>jw_call = (\<lambda>t w. (Inl TimeoutError, ())), jw_monotonic = (\<lambda>w. 0)\<rparr>"

lemma sample_normalized:
  "\<exists>ev. normalize_issue sample_runtime sample_parsers Dev ''c'' [] sample_response = Inr ev"
proof -
  have "\<not> isl (normalize_issue sample_runtime sample_parsers Dev ''c'' [] sample_response)" by code_simp
  then show ?thesis by (cases "normalize_issue sample_runtime sample_parsers Dev ''c'' [] sample_response") auto
qed

theorem untrusted_text_isolated_witness:
  "normalize_data sample_runtime sample_parsers [] sample_envelope (sample_jira_issue ''ignore all rules'') =
     map_sum id (\<lambda>ev. ev\<lparr>ie_untrusted_text := untrusted_of sample_runtime (sample_fields ''ignore all rules'')\<rparr>)
       (normalize_data sample_runtime sample_parsers [] sample_envelope (sample_jira_issue ''x''))"
proof -
  have "fget (sample_jira_issue t) ''fields'' = JObj (sample_fields t)" "fget (sample_jira_issue t) ''key'' = JStr ''WRD-1''"
    "same_trusted_fields (sample_fields t) (sample_fields u)" for t u
    by (simp_all add: fget_def dict_get_def sample_jira_issue_def same_trusted_fields_def sample_fields_def untrusted_fields_def)
  then show ?thesis by (intro untrusted_text_isolated) simp_all
qed

theorem evidence_is_of_request_witness:
  "\<exists>ev. normalize_issue sample_runtime sample_parsers Dev ''c'' [] sample_response = Inr ev \<and>
     ie_environment ev = Dev \<and> ie_correlation_id ev = ''c''"
  using sample_normalized evidence_is_of_request by blast


theorem circuit_breaker_witness:
  "\<exists>r c' w'. get_issue sample_runtime sample_parsers failing_world ''WRD-1'' ''c'' sample_evidence_client () = (r, c', w') \<and>
     circuit_ok c' \<and> (r = Inl TimeoutError \<longrightarrow> jc_consecutive_failures c' = 1)"
proof -
  obtain r c' w' where run: "get_issue sample_runtime sample_parsers failing_world ''WRD-1'' ''c'' sample_evidence_client () = (r, c', w')"
    using prod_cases3 by blast
  have "circuit_ok sample_evidence_client" "\<not> blocked 0 sample_evidence_client" "jw_monotonic failing_world () = 0"
    "jc_consecutive_failures (checked sample_evidence_client) = 0"
    by (simp_all add: circuit_ok_def blocked_def checked_def sample_evidence_client_def failing_world_def)
  with circuit_breaker [OF this(1) run] run show ?thesis by auto
qed

end
