(* ===== verification/Access.thy ===== *)
theory Access imports Runtime begin

text \<open>
  Who may do what: API keys (agent\_api/auth/api\_keys.py), the signed context between the services
  (contracts/auth.py) with its base64 encoding.  The HMAC is an argument: a function from the message
  to the digest under the service's key; \<open>json.loads\<close> is an argument too.
\<close>

section \<open>Roles and principals\<close>

datatype application_role = Viewer | Manager | Administrator

fun role_value :: "application_role \<Rightarrow> string" where
  "role_value Viewer = ''viewer''"
| "role_value Manager = ''manager''"
| "role_value Administrator = ''administrator''"

fun role_of :: "string \<Rightarrow> application_role option" where
  "role_of s = (if s = ''viewer'' then Some Viewer else if s = ''manager'' then Some Manager
     else if s = ''administrator'' then Some Administrator else None)"

record principal =
  pp_actor_id :: string
  pp_display_label :: string
  pp_role :: application_role
  pp_environment :: environment
  pp_project_scopes :: "string list"

section \<open>API keys\<close>

record api_key_record =
  ak_actor_id :: string
  ak_display_label :: string
  ak_key_digest :: string
  ak_role :: application_role
  ak_environment :: environment
  ak_project_scopes :: "string list"
  ak_created_at :: timestamp
  ak_expires_at :: "timestamp option"
  ak_revoked_at :: "timestamp option"

definition api_key_service :: "string \<Rightarrow> unit res" where
  "api_key_service pepper =
     (if length pepper < 32 then Inl (ValueError ''API-key HMAC pepper must contain at least 32 bytes'') else Inr ())"

text \<open>\<open>token\<close> is the text \<open>secrets.token_urlsafe(32)\<close> returns.\<close>

definition generate_key ::
  "(string \<Rightarrow> string) \<Rightarrow> string \<Rightarrow> string \<Rightarrow> string \<Rightarrow> application_role \<Rightarrow> environment \<Rightarrow> string list \<Rightarrow> timestamp
     \<Rightarrow> timestamp option \<Rightarrow> string \<times> api_key_record" where
  "generate_key mac token actor_id display_label role env project_scopes now expires_at =
    (let raw_key = ''wrk_'' @ environment_value env @ ''_'' @ token in
     (raw_key, \<lparr>ak_actor_id = actor_id, ak_display_label = display_label, ak_key_digest = mac raw_key, ak_role = role,
        ak_environment = env, ak_project_scopes = project_scopes, ak_created_at = now, ak_expires_at = expires_at,
        ak_revoked_at = None\<rparr>))"

definition bearer_key :: "string option \<Rightarrow> string option" where
  "bearer_key authorization = (case authorization of
     None \<Rightarrow> None
   | Some a \<Rightarrow>
       (if \<not> starts_with ''Bearer '' a then None
        else let raw_key = strip (drop 7 a) in
          if \<not> starts_with ''wrk_'' raw_key \<or> list_ex is_space raw_key then None else Some raw_key))"

definition principal_of_key :: "api_key_record \<Rightarrow> principal" where
  "principal_of_key r = \<lparr>pp_actor_id = ak_actor_id r, pp_display_label = ak_display_label r, pp_role = ak_role r,
     pp_environment = ak_environment r, pp_project_scopes = ak_project_scopes r\<rparr>"

definition authenticate ::
  "(string \<Rightarrow> string) \<Rightarrow> string option \<Rightarrow> api_key_record list \<Rightarrow> environment \<Rightarrow> string \<Rightarrow> application_role set \<Rightarrow> timestamp
     \<Rightarrow> principal res" where
  "authenticate mac authorization records env project_key allowed_roles now =
    (case bearer_key authorization of
       None \<Rightarrow> Inl (PermissionError ''missing or malformed API key'')
     | Some raw_key \<Rightarrow>
        (case List.find (\<lambda>r. ak_key_digest r = mac raw_key) records of
           None \<Rightarrow> Inl (PermissionError ''unknown API key'')
         | Some r \<Rightarrow>
            (if ak_revoked_at r \<noteq> None then Inl (PermissionError ''API key is revoked'')
             else if (case ak_expires_at r of None \<Rightarrow> False | Some t \<Rightarrow> t \<le> now) then Inl (PermissionError ''API key is expired'')
             else if ak_environment r \<noteq> env then Inl (PermissionError ''API key environment mismatch'')
             else if project_key \<notin> set (ak_project_scopes r) then Inl (PermissionError ''API key project scope mismatch'')
             else if ak_role r \<notin> allowed_roles then Inl (PermissionError ''API key role is not authorized'')
             else Inr (principal_of_key r))))"

section \<open>URL-safe base64\<close>

definition b64_alphabet :: string where
  "b64_alphabet = ''ABCDEFGHIJKLMNOPQRSTUVWXYZabcdefghijklmnopqrstuvwxyz0123456789-_''"

definition b64_char :: "nat \<Rightarrow> char" where
  "b64_char n = b64_alphabet ! n"

definition byte :: "char \<Rightarrow> nat" where
  "byte c = of_char c"

text \<open>\<open>_encode\<close>: encoding without padding.\<close>

fun b64_encode :: "string \<Rightarrow> string" where
  "b64_encode [] = []"
| "b64_encode [x] = [b64_char (byte x div 4), b64_char (byte x mod 4 * 16)]"
| "b64_encode [x, y] = [b64_char (byte x div 4), b64_char (byte x mod 4 * 16 + byte y div 16), b64_char (byte y mod 16 * 4)]"
| "b64_encode (x # y # z # r) =
     b64_char (byte x div 4) # b64_char (byte x mod 4 * 16 + byte y div 16) #
     b64_char (byte y mod 16 * 4 + byte z div 64) # b64_char (byte z mod 64) # b64_encode r"

text \<open>
  The value of a character for \<open>urlsafe_b64decode\<close>, which first maps \<open>-\<close> and \<open>_\<close> to \<open>+\<close> and \<open>/\<close> and
  so accepts either; other characters are skipped by \<open>binascii.a2b_base64\<close>.
\<close>

fun index_of :: "char \<Rightarrow> string \<Rightarrow> nat option" where
  "index_of c [] = None"
| "index_of c (x # xs) = (if c = x then Some 0 else map_option Suc (index_of c xs))"

definition b64_value :: "char \<Rightarrow> nat option" where
  "b64_value c = (if c = CHR ''+'' then Some 62 else if c = CHR ''/'' then Some 63 else index_of c b64_alphabet)"

text \<open>
  \<open>binascii.a2b_base64\<close> in its lenient mode: position in the group of four, the bits left over, the
  padding seen since the last character, and the rest of the text.
\<close>

fun a2b :: "nat \<Rightarrow> nat \<Rightarrow> nat \<Rightarrow> string \<Rightarrow> string option" where
  "a2b quad left pads [] = (if quad = 0 then Some [] else None)"
| "a2b quad left pads (c # cs) =
    (if c = CHR ''='' then (if 2 \<le> quad then (if 4 \<le> quad + Suc pads then Some [] else a2b quad left (Suc pads) cs)
        else a2b quad left pads cs)
     else case b64_value c of
       None \<Rightarrow> a2b quad left pads cs
     | Some v \<Rightarrow>
        (if quad = 0 then a2b 1 v 0 cs
         else if quad = 1 then map_option (\<lambda>r. char_of (left * 4 + v div 16) # r) (a2b 2 (v mod 16) 0 cs)
         else if quad = 2 then map_option (\<lambda>r. char_of (left * 16 + v div 4) # r) (a2b 3 (v mod 4) 0 cs)
         else map_option (\<lambda>r. char_of (left * 64 + v) # r) (a2b 0 0 0 cs)))"

definition b64_decode :: "string \<Rightarrow> string option" where
  "b64_decode s = a2b 0 0 0 (s @ replicate (nat ((- int (length s)) mod 4)) (CHR ''=''))"

section \<open>Signed internal context\<close>

record internal_context = principal +
  ic_correlation_id :: string
  ic_expires_at :: timestamp

text \<open>\<open>int((now + lifetime).timestamp())\<close>: the quotient is rounded to a float, then truncated.\<close>

definition expiry_seconds :: "timestamp \<Rightarrow> timedelta \<Rightarrow> int" where
  "expiry_seconds now lifetime =
     (let s = fl (of_int (now + lifetime) / 1000000) in if 0 \<le> s then \<lfloor>s\<rfloor> else \<lceil>s\<rceil>)"

definition context_payload :: "principal \<Rightarrow> string \<Rightarrow> int \<Rightarrow> json" where
  "context_payload p correlation_id expires = JObj [
     (''actor_id'', JStr (pp_actor_id p)), (''display_label'', JStr (pp_display_label p)),
     (''role'', JStr (role_value (pp_role p))), (''environment'', JStr (environment_value (pp_environment p))),
     (''project_scopes'', json_strings (pp_project_scopes p)),
     (''expires_at'', JInt expires), (''correlation_id'', JStr correlation_id)]"

definition context_signer :: "string \<Rightarrow> timedelta \<Rightarrow> unit res" where
  "context_signer secret lifetime =
     (if length secret < 32 then Inl (ValueError ''internal context secret must contain at least 32 bytes'')
      else if lifetime \<le> 0 then Inl (ValueError ''internal context lifetime must be positive'') else Inr ())"

definition sign ::
  "runtime \<Rightarrow> (string \<Rightarrow> string) \<Rightarrow> timedelta \<Rightarrow> principal \<Rightarrow> string \<Rightarrow> timestamp \<Rightarrow> string" where
  "sign rt mac lifetime p correlation_id now =
    (let encoded = b64_encode (dumps (rt_float rt) (context_payload p correlation_id (expiry_seconds now lifetime)))
     in encoded @ ''.'' @ b64_encode (mac encoded))"

text \<open>
  \<open>datetime.fromtimestamp\<close> of a JSON value: the instants of the years 1 to 9999.  A float is split into
  its whole part and a fraction, which is rounded to microseconds.  Beyond the range of the
  platform's clock the call raises OverflowError instead of ValueError, which \<open>verify\<close> does not
  catch; the model refuses such claims like the other unreadable ones.
\<close>

definition instant :: "int \<Rightarrow> timestamp option" where
  "instant us = (if -62135596800000000 \<le> us \<and> us < 253402300800000000 then Some us else None)"

fun from_timestamp :: "json \<Rightarrow> timestamp option" where
  "from_timestamp (JInt n) = instant (n * 1000000)"
| "from_timestamp (JBool b) = instant (if b then 1000000 else 0)"
| "from_timestamp (JFloat x) =
     (let whole = (if 0 \<le> x then \<lfloor>x\<rfloor> else \<lceil>x\<rceil>)
      in instant (whole * 1000000 + round_half_even (fl ((x - of_int whole) * 1000000))))"
| "from_timestamp _ = None"

definition context_keys :: "string set" where
  "context_keys = {''actor_id'', ''display_label'', ''role'', ''environment'', ''project_scopes'', ''expires_at'', ''correlation_id''}"

definition json_field :: "(string \<times> json) list \<Rightarrow> string \<Rightarrow> json" where
  "json_field payload key = (case map_of payload key of None \<Rightarrow> JNull | Some j \<Rightarrow> j)"

text \<open>\<open>VerifiedInternalContext.model_validate\<close> of the claims; None stands for any of the caught exceptions.\<close>

definition context_of :: "json \<Rightarrow> internal_context option" where
  "context_of j = (case j of
     JObj payload \<Rightarrow>
      (if fst ` set payload \<noteq> context_keys then None
       else case (text_of (json_field payload ''actor_id''), text_of (json_field payload ''display_label''),
                  map_option role_of (text_of (json_field payload ''role'')), map_option environment_of (text_of (json_field payload ''environment'')),
                  (case json_field payload ''project_scopes'' of JList js \<Rightarrow> texts_of js | _ \<Rightarrow> None),
                  from_timestamp (json_field payload ''expires_at''), text_of (json_field payload ''correlation_id'')) of
         (Some actor, Some label, Some (Some role), Some (Some env), Some scopes, Some expires, Some correlation) \<Rightarrow>
           Some \<lparr>pp_actor_id = actor, pp_display_label = label, pp_role = role, pp_environment = env,
             pp_project_scopes = scopes, ic_correlation_id = correlation, ic_expires_at = expires\<rparr>
       | _ \<Rightarrow> None)
   | _ \<Rightarrow> None)"

text \<open>\<open>token.split(".", 1)\<close> of a token with exactly one dot.\<close>

definition token_parts :: "string option \<Rightarrow> (string \<times> string) option" where
  "token_parts token = (case token of
     None \<Rightarrow> None
   | Some t \<Rightarrow> (if length (filter (\<lambda>c. c = CHR ''.'') t) \<noteq> 1 then None
       else Some (takeWhile (\<lambda>c. c \<noteq> CHR ''.'') t, tl (dropWhile (\<lambda>c. c \<noteq> CHR ''.'') t))))"

text \<open>\<open>loads\<close> is \<open>json.loads\<close>.\<close>

definition verify_context ::
  "(string \<Rightarrow> string) \<Rightarrow> (string \<Rightarrow> json option) \<Rightarrow> string option \<Rightarrow> environment \<Rightarrow> string \<Rightarrow> application_role set \<Rightarrow> timestamp
     \<Rightarrow> internal_context res" where
  "verify_context mac loads token expected_environment required_project required_roles now =
    (case token_parts token of
       None \<Rightarrow> Inl (PermissionError ''missing or malformed internal context'')
     | Some (encoded, supplied) \<Rightarrow>
        (if supplied \<noteq> b64_encode (mac encoded) then Inl (PermissionError ''invalid internal context signature'')
         else case Option.bind (Option.bind (b64_decode encoded) loads) context_of of
           None \<Rightarrow> Inl (PermissionError ''malformed internal context claims'')
         | Some c \<Rightarrow>
            (if ic_expires_at c \<le> now then Inl (PermissionError ''internal context is expired'')
             else if pp_environment c \<noteq> expected_environment then Inl (PermissionError ''internal context environment mismatch'')
             else if required_project \<notin> set (pp_project_scopes c) then Inl (PermissionError ''internal context project mismatch'')
             else if pp_role c \<notin> required_roles then Inl (PermissionError ''internal context role mismatch'')
             else Inr c)))"

section \<open>base64 round trip\<close>

lemma b64_char_all: "\<forall>n \<in> set [0..<64]. b64_value (b64_char n) = Some n \<and> b64_char n \<noteq> CHR ''=''
    \<and> b64_char n \<noteq> CHR ''.''"
  by code_simp

lemma b64_char_value:
  assumes "n < 64"
  shows "b64_value (b64_char n) = Some n" and "b64_char n \<noteq> CHR ''=''" and "b64_char n \<noteq> CHR ''.''"
  using b64_char_all assms by simp_all

lemma byte_less: "byte c < 256"
  unfolding byte_def by (rule nat_of_char_less_256)

lemma char_of_byte [simp]: "char_of (byte c) = c"
  by (simp add: byte_def)

lemma a2b_step:
  assumes "n < 64"
  shows "a2b 0 l p (b64_char n # cs) = a2b 1 n 0 cs"
    and "a2b (Suc 0) l p (b64_char n # cs) = map_option (\<lambda>r. char_of (l * 4 + n div 16) # r) (a2b 2 (n mod 16) 0 cs)"
    and "a2b 2 l p (b64_char n # cs) = map_option (\<lambda>r. char_of (l * 16 + n div 4) # r) (a2b 3 (n mod 4) 0 cs)"
    and "a2b 3 l p (b64_char n # cs) = map_option (\<lambda>r. char_of (l * 64 + n) # r) (a2b 0 0 0 cs)"
  using b64_char_value [OF assms] by simp_all

lemma pack:
  fixes m n k :: nat
  assumes "n < k"
  shows "(m * k + n) div k = m" and "(m * k + n) mod k = n"
  using assms by simp_all

lemma sextets:
  fixes x y z :: nat
  assumes "x < 256" and "y < 256" and "z < 256"
  shows "x div 4 < 64" and "x mod 4 * 16 + y div 16 < 64" and "y mod 16 * 4 + z div 64 < 64" and "z mod 64 < 64"
    and "x mod 4 * 16 < 64" and "y mod 16 * 4 < 64"
    and "x div 4 * 4 + (x mod 4 * 16 + y div 16) div 16 = x"
    and "(x mod 4 * 16 + y div 16) mod 16 * 16 + (y mod 16 * 4 + z div 64) div 4 = y"
    and "(y mod 16 * 4 + z div 64) mod 4 * 64 + z mod 64 = z"
    and "x div 4 * 4 + x mod 4 * 16 div 16 = x"
    and "(x mod 4 * 16 + y div 16) mod 16 * 16 + y mod 16 * 4 div 4 = y"
proof -
  have y: "y div 16 < 16" and z: "z div 64 < 4" using assms by auto
  have m: "x mod 4 < 4" "y mod 16 < 16" by simp_all
  show "x div 4 < 64" "z mod 64 < 64" "x mod 4 * 16 < 64" "y mod 16 * 4 < 64" using assms m by auto
  show "x mod 4 * 16 + y div 16 < 64" "y mod 16 * 4 + z div 64 < 64" using y z m by linarith+
  show "x div 4 * 4 + (x mod 4 * 16 + y div 16) div 16 = x" by (simp only: pack [OF y] div_mult_mod_eq)
  show "(x mod 4 * 16 + y div 16) mod 16 * 16 + (y mod 16 * 4 + z div 64) div 4 = y"
    by (simp only: pack [OF y] pack [OF z] div_mult_mod_eq)
  show "(y mod 16 * 4 + z div 64) mod 4 * 64 + z mod 64 = z" by (simp only: pack [OF z] div_mult_mod_eq)
  show "x div 4 * 4 + x mod 4 * 16 div 16 = x" by simp
  have "y mod 16 * 4 div 4 = y mod 16" by simp
  then show "(x mod 4 * 16 + y div 16) mod 16 * 16 + y mod 16 * 4 div 4 = y"
    by (simp only: pack [OF y] div_mult_mod_eq)
qed

lemma a2b_pad:
  "a2b 0 l p [] = Some []" "a2b 2 l 0 [CHR ''='', CHR ''=''] = Some []" "a2b 3 l 0 [CHR ''=''] = Some []"
  by simp_all

declare a2b.simps [simp del]

lemma b64_round_trip: "b64_decode (b64_encode s) = Some s"
  unfolding b64_decode_def
proof (induction s rule: b64_encode.induct)
  case 1
  then show ?case by (simp add: a2b_pad)
next
  case (2 x)
  note b = sextets [OF byte_less [of x] byte_less byte_less]
  have "replicate (nat ((- int (length (b64_encode [x]))) mod 4)) (CHR ''='') = [CHR ''='', CHR ''='']"
    by (simp add: numeral_2_eq_2)
  then show ?case by (simp add: a2b_step b a2b_pad)
next
  case (3 x y)
  note b = sextets [OF byte_less [of x] byte_less [of y] byte_less]
  have "replicate (nat ((- int (length (b64_encode [x, y]))) mod 4)) (CHR ''='') = [CHR ''='']" by simp
  moreover have "byte y div 16 < 16" using byte_less [of y] by simp
  ultimately show ?case by (simp add: a2b_step b a2b_pad)
next
  case (4 x y z r)
  note b = sextets [OF byte_less [of x] byte_less [of y] byte_less [of z]]
  have "(- int (length (b64_encode (x # y # z # r)))) mod 4 = (- int (length (b64_encode r))) mod 4"
    by simp presburger
  moreover have "byte y div 16 < 16" "byte z div 64 < 4" using byte_less [of y] byte_less [of z] by simp_all
  ultimately show ?case using 4 by (simp add: a2b_step b)
qed

lemma b64_no_dot: "CHR ''.'' \<notin> set (b64_encode s)"
  by (induction s rule: b64_encode.induct)
    (simp_all add: b64_char_value(3) [symmetric] sextets [OF byte_less byte_less byte_less] not_sym)

section \<open>Properties of API keys\<close>

text \<open>
  Authentication accepts exactly the bearer of a live key.  The principal returned is that of the
  first record with the digest of the presented key; that record is not revoked, not
  expired, of this environment, has the project in its scopes and an allowed role.
\<close>

theorem authenticate_exact:
  "authenticate mac authorization records env project allowed now = Inr p \<longleftrightarrow>
    (\<exists>key before r after. bearer_key authorization = Some key \<and> records = before @ r # after \<and>
       (\<forall>x \<in> set before. ak_key_digest x \<noteq> mac key) \<and> ak_key_digest r = mac key \<and>
       ak_revoked_at r = None \<and> (\<forall>t. ak_expires_at r = Some t \<longrightarrow> now < t) \<and> ak_environment r = env \<and>
       project \<in> set (ak_project_scopes r) \<and> ak_role r \<in> allowed \<and> p = principal_of_key r)"
  (is "?l \<longleftrightarrow> ?r")
proof
  assume ?l
  then obtain key r where k: "bearer_key authorization = Some key"
    and r: "List.find (\<lambda>r. ak_key_digest r = mac key) records = Some r"
    and ok: "ak_revoked_at r = None" "\<forall>t. ak_expires_at r = Some t \<longrightarrow> now < t" "ak_environment r = env"
      "project \<in> set (ak_project_scopes r)" "ak_role r \<in> allowed" "p = principal_of_key r"
    by (auto simp: authenticate_def split: option.splits if_splits)
  from r obtain i where i: "i < length records" "ak_key_digest (records ! i) = mac key" "r = records ! i"
    "\<forall>j<i. ak_key_digest (records ! j) \<noteq> mac key" by (auto simp: find_Some_iff)
  have "records = take i records @ r # drop (Suc i) records" using i(1,3) by (simp add: id_take_nth_drop)
  moreover have "\<forall>x \<in> set (take i records). ak_key_digest x \<noteq> mac key" using i(1,4) by (auto simp: in_set_conv_nth)
  ultimately show ?r using k i(2,3) ok by blast
next
  assume ?r
  then obtain key before r after where r: "bearer_key authorization = Some key" "records = before @ r # after"
    "\<forall>x \<in> set before. ak_key_digest x \<noteq> mac key" "ak_key_digest r = mac key" "ak_revoked_at r = None"
    "\<forall>t. ak_expires_at r = Some t \<longrightarrow> now < t" "ak_environment r = env" "project \<in> set (ak_project_scopes r)"
    "ak_role r \<in> allowed" "p = principal_of_key r" by blast
  have "List.find (\<lambda>r. ak_key_digest r = mac key) (before @ r # after) = Some r"
    using r(3,4) by (induction before) auto
  with r show ?l by (auto simp: authenticate_def split: option.splits)
qed

definition sample_key :: api_key_record where
  "sample_key = \<lparr>ak_actor_id = ''u'', ak_display_label = ''U'', ak_key_digest = ''wrk_dev_t'', ak_role = Manager,
     ak_environment = Dev, ak_project_scopes = [''WRD''], ak_created_at = 0, ak_expires_at = Some 9, ak_revoked_at = None\<rparr>"

lemma authenticate_exact_witness:
  "\<exists>before r after. [sample_key] = before @ r # after \<and> principal_of_key sample_key = principal_of_key r \<and>
     ak_revoked_at r = None \<and> ''WRD'' \<in> set (ak_project_scopes r)"
proof -
  have "authenticate (\<lambda>s. s) (Some ''Bearer wrk_dev_t'') [sample_key] Dev ''WRD'' {Manager} 5 = Inr (principal_of_key sample_key)"
    by code_simp
  then show ?thesis unfolding authenticate_exact by blast
qed

section \<open>Properties of the signed context\<close>

lemma texts_of_JStr: "texts_of (map JStr ss) = Some ss"
  by (induction ss) simp_all

lemma role_of_value [simp]: "role_of (role_value r) = Some r"
  by (cases r) simp_all

lemma canon_context_payload:
  "canon (context_payload p c t) = JObj [(''actor_id'', JStr (pp_actor_id p)), (''correlation_id'', JStr c),
     (''display_label'', JStr (pp_display_label p)), (''environment'', JStr (environment_value (pp_environment p))),
     (''expires_at'', JInt t), (''project_scopes'', json_strings (pp_project_scopes p)),
     (''role'', JStr (role_value (pp_role p)))]"
proof -
  have "canon (json_strings ss) = json_strings ss" for ss by (simp add: json_strings_def)
  then show ?thesis by (simp add: context_payload_def)
qed

definition context_for :: "principal \<Rightarrow> string \<Rightarrow> int \<Rightarrow> internal_context" where
  "context_for p correlation_id expires = \<lparr>pp_actor_id = pp_actor_id p, pp_display_label = pp_display_label p,
     pp_role = pp_role p, pp_environment = pp_environment p, pp_project_scopes = pp_project_scopes p,
     ic_correlation_id = correlation_id, ic_expires_at = expires * 1000000\<rparr>"

lemma environment_of_value [simp]: "environment_of (environment_value e) = Some e"
  by (cases e) simp_all

lemma context_of_payload:
  assumes "instant (t * 1000000) \<noteq> None"
  shows "context_of (canon (context_payload p c t)) = Some (context_for p c t)"
proof -
  have "instant (t * 1000000) = Some (t * 1000000)" using assms by (simp add: instant_def split: if_splits)
  then show ?thesis
    by (simp add: canon_context_payload context_of_def context_keys_def json_field_def json_strings_def texts_of_JStr
        context_for_def insert_commute del: role_of.simps role_value.simps environment_of.simps environment_value.simps)
qed

lemma token_parts_signed:
  assumes "CHR ''.'' \<notin> set a" and "CHR ''.'' \<notin> set b"
  shows "token_parts (Some (a @ ''.'' @ b)) = Some (a, b)"
proof -
  have n: "filter (\<lambda>c. c = CHR ''.'') s = []" if "CHR ''.'' \<notin> set s" for s using that by (auto simp: filter_empty_conv)
  have "takeWhile (\<lambda>c. c \<noteq> CHR ''.'') (a @ ''.'' @ b) = a" "dropWhile (\<lambda>c. c \<noteq> CHR ''.'') (a @ ''.'' @ b) = ''.'' @ b"
    using assms(1) by (induction a) auto
  then show ?thesis using n [OF assms(1)] n [OF assms(2)] by (simp add: token_parts_def)
qed

text \<open>
  C22: A signed context is accepted exactly while it is valid.  For the token of a principal, and a JSON
  reader that reads back the claims that were written, verification returns the principal with
  its correlation identifier exactly when the expiry written into the token lies ahead and
  the environment, the project and the role are as required.
\<close>

theorem context_round_trip:
  assumes loads: "loads (dumps (rt_float rt) (context_payload p correlation (expiry_seconds now lifetime))) =
      Some (canon (context_payload p correlation (expiry_seconds now lifetime)))"
    and instant: "instant (expiry_seconds now lifetime * 1000000) \<noteq> None"
  shows "verify_context mac loads (Some (sign rt mac lifetime p correlation now)) env project roles later =
     Inr (context_for p correlation (expiry_seconds now lifetime)) \<longleftrightarrow>
    later < expiry_seconds now lifetime * 1000000 \<and> pp_environment p = env \<and> project \<in> set (pp_project_scopes p) \<and> pp_role p \<in> roles"
proof -
  let ?e = "expiry_seconds now lifetime"
  let ?body = "b64_encode (dumps (rt_float rt) (context_payload p correlation ?e))"
  have parts: "token_parts (Some (sign rt mac lifetime p correlation now)) = Some (?body, b64_encode (mac ?body))"
    unfolding sign_def Let_def by (rule token_parts_signed) (simp_all add: b64_no_dot)
  have "Option.bind (Option.bind (b64_decode ?body) loads) context_of = Some (context_for p correlation ?e)"
    by (simp add: b64_round_trip loads context_of_payload [OF instant])
  then show ?thesis using parts by (auto simp: verify_context_def context_for_def not_le)
qed

definition sample_principal :: principal where
  "sample_principal = \<lparr>pp_actor_id = ''u'', pp_display_label = ''U'', pp_role = Manager, pp_environment = Dev, pp_project_scopes = [''WRD'']\<rparr>"

definition sample_token :: "string \<Rightarrow> string" where
  "sample_token c = sign sample_runtime (\<lambda>s. ''mac'') 60000000 sample_principal c 0"

lemma sample_expiry: "expiry_seconds 0 60000000 = 60" "instant (expiry_seconds 0 60000000 * 1000000) \<noteq> None"
  by code_simp+

lemma context_round_trip_witness:
  "verify_context (\<lambda>s. ''mac'') (\<lambda>s. Some (canon (context_payload sample_principal ''c'' 60))) (Some (sample_token ''c'')) Dev
       ''WRD'' {Manager} 59999999 = Inr (context_for sample_principal ''c'' 60)"
proof -
  let ?loads = "\<lambda>s :: string. Some (canon (context_payload sample_principal ''c'' 60))"
  note r = context_round_trip [of ?loads sample_runtime sample_principal "''c''" 0 60000000 "\<lambda>s. ''mac''",
      unfolded sample_expiry(1), OF refl sample_expiry(2) [unfolded sample_expiry(1)], folded sample_token_def]
  show ?thesis unfolding r by (simp add: sample_principal_def)
qed

lemma verified_context:
  assumes "verify_context mac loads token env project roles now = Inr c"
  shows "\<exists>body j. token = Some (body @ ''.'' @ b64_encode (mac body)) \<and> CHR ''.'' \<notin> set body \<and>
     Option.bind (b64_decode body) loads = Some j \<and> context_of j = Some c \<and>
     now < ic_expires_at c \<and> pp_environment c = env \<and> project \<in> set (pp_project_scopes c) \<and> pp_role c \<in> roles"
proof -
  from assms obtain t where t: "token = Some t" and one: "length (filter (\<lambda>c. c = CHR ''.'') t) = 1"
    and sig: "tl (dropWhile (\<lambda>c. c \<noteq> CHR ''.'') t) = b64_encode (mac (takeWhile (\<lambda>c. c \<noteq> CHR ''.'') t))"
    and c: "Option.bind (Option.bind (b64_decode (takeWhile (\<lambda>c. c \<noteq> CHR ''.'') t)) loads) context_of = Some c"
    and ok: "now < ic_expires_at c" "pp_environment c = env" "project \<in> set (pp_project_scopes c)" "pp_role c \<in> roles"
    by (auto simp: verify_context_def token_parts_def split: option.splits if_splits)
  have "filter (\<lambda>c. c = CHR ''.'') t \<noteq> []" using one by (metis list.size(3) zero_neq_one)
  then have "\<exists>x \<in> set t. x = CHR ''.''" by (auto simp: filter_empty_conv)
  then have ne: "dropWhile (\<lambda>c. c \<noteq> CHR ''.'') t \<noteq> []" by (simp add: dropWhile_eq_Nil_conv)
  obtain x rest where d: "dropWhile (\<lambda>c. c \<noteq> CHR ''.'') t = x # rest"
    using ne by (cases "dropWhile (\<lambda>c. c \<noteq> CHR ''.'') t") auto
  moreover have "x = CHR ''.''" using hd_dropWhile [OF ne] by (simp add: d)
  ultimately have "dropWhile (\<lambda>c. c \<noteq> CHR ''.'') t = CHR ''.'' # rest" by simp
  with sig have "t = takeWhile (\<lambda>c. c \<noteq> CHR ''.'') t @ ''.'' @ b64_encode (mac (takeWhile (\<lambda>c. c \<noteq> CHR ''.'') t))"
    using takeWhile_dropWhile_id [of "\<lambda>c. c \<noteq> CHR ''.''" t] by simp
  moreover have "CHR ''.'' \<notin> set (takeWhile (\<lambda>c. c \<noteq> CHR ''.'') t)" by (auto dest: set_takeWhileD)
  moreover from c obtain j where "Option.bind (b64_decode (takeWhile (\<lambda>c. c \<noteq> CHR ''.'') t)) loads = Some j" "context_of j = Some c"
    by (auto simp: bind_eq_Some_conv)
  ultimately show ?thesis using t ok by blast
qed

text \<open>
  C21: No context is accepted without the signature.  Whatever the token, an accepted one is a body
  without a dot, a dot and the encoded HMAC of that body, the context is the one the body
  decodes to, it has not expired and it fits the environment, the project and the roles.
\<close>

theorem context_authentic:
  assumes "verify_context mac loads token env project roles now = Inr c"
  shows "\<exists>body j. token = Some (body @ ''.'' @ b64_encode (mac body)) \<and> CHR ''.'' \<notin> set body \<and>
     Option.bind (b64_decode body) loads = Some j \<and> context_of j = Some c \<and>
     now < ic_expires_at c \<and> pp_environment c = env \<and> project \<in> set (pp_project_scopes c) \<and> pp_role c \<in> roles"
  by (rule verified_context [OF assms])

lemma context_authentic_witness:
  "\<exists>body. sample_token ''c'' = body @ ''.'' @ b64_encode ''mac'' \<and> CHR ''.'' \<notin> set body"
proof -
  have "verify_context (\<lambda>s. ''mac'') (\<lambda>s. Some (canon (context_payload sample_principal ''c'' 60))) (Some (sample_token ''c'')) Dev
     ''WRD'' {Manager} 5 = Inr (context_for sample_principal ''c'' 60)" by code_simp
  from context_authentic [OF this] show ?thesis unfolding option.inject by blast
qed

end
