(* ===== verification/RateLimit.thy ===== *)
theory RateLimit imports Runtime "HOL-Library.AList" begin

text \<open>
  The request boundary of the agent API (security/limits.py): the fixed-window rate limiter with
  the eviction of old windows, and the middleware that checks the declared length, the body
  and the rate before it calls the application.  The dictionary of windows is an association
  list in insertion order; the clock is the float \<open>time.monotonic\<close> returns.
\<close>

section \<open>The limiter\<close>

record route_limit =
  rl_requests :: nat
  rl_window_seconds :: nat
  rl_max_body_bytes :: nat

type_synonym windows = "(string \<times> (pyfloat \<times> nat)) list"

definition policies :: "(string \<times> route_limit) list" where
  "policies = [
     (''investigations'', \<lparr>rl_requests = 20, rl_window_seconds = 60, rl_max_body_bytes = 16384\<rparr>),
     (''scans'', \<lparr>rl_requests = 3, rl_window_seconds = 60, rl_max_body_bytes = 8192\<rparr>),
     (''simulations'', \<lparr>rl_requests = 20, rl_window_seconds = 60, rl_max_body_bytes = 16384\<rparr>),
     (''proposals'', \<lparr>rl_requests = 10, rl_window_seconds = 60, rl_max_body_bytes = 16384\<rparr>),
     (''reports'', \<lparr>rl_requests = 30, rl_window_seconds = 60, rl_max_body_bytes = 4096\<rparr>),
     (''default'', \<lparr>rl_requests = 120, rl_window_seconds = 60, rl_max_body_bytes = 65536\<rparr>)]"

definition route_group :: "string \<Rightarrow> string" where
  "route_group path =
    (case List.find (\<lambda>g. occurs_in (''/'' @ g) path) [''investigations'', ''scans'', ''simulations'', ''proposals'', ''reports''] of
       Some g \<Rightarrow> g | None \<Rightarrow> ''default'')"

definition evict :: "pyfloat \<Rightarrow> windows \<Rightarrow> windows" where
  "evict now ws = (if length ws > 10000 then filter (\<lambda>(k, (started, count)). fsub now started < 60) ws else ws)"

definition window_of :: "windows \<Rightarrow> string \<Rightarrow> route_limit \<Rightarrow> pyfloat \<Rightarrow> pyfloat \<times> nat" where
  "window_of ws key policy now =
    (let (started, count) = (case map_of ws key of None \<Rightarrow> (now, 0) | Some v \<Rightarrow> v) in
     if fsub now started \<ge> of_nat (rl_window_seconds policy) then (now, 0) else (started, count))"

definition allow :: "windows \<Rightarrow> string \<Rightarrow> route_limit \<Rightarrow> pyfloat \<Rightarrow> bool \<times> windows" where
  "allow windows key policy now =
    (let ws = evict now windows; (started, count) = window_of ws key policy now in
     if count \<ge> rl_requests policy then (False, ws) else (True, AList.update key (started, count + 1) ws))"

section \<open>The middleware\<close>

record request =
  rq_path :: string
  rq_method :: string
  rq_correlation_header :: "string option"
  rq_content_length :: "string option"
  rq_authorization :: "string option"
  rq_body :: string

record response =
  rs_status :: nat
  rs_content :: json
  rs_headers :: "(string \<times> string) list"

definition error_response :: "nat \<Rightarrow> string \<Rightarrow> string \<Rightarrow> response" where
  "error_response status code correlation_id = \<lparr>rs_status = status,
     rs_content = JObj [(''error_code'', JStr code), (''correlation_id'', JStr correlation_id)],
     rs_headers = [(''X-Correlation-ID'', correlation_id)]\<rparr>"

text \<open>Header names compare without case.\<close>

definition has_header :: "string \<Rightarrow> response \<Rightarrow> bool" where
  "has_header name r \<longleftrightarrow> list_ex (\<lambda>(k, v). casefold k = casefold name) (rs_headers r)"

definition set_default_header :: "string \<Rightarrow> string \<Rightarrow> response \<Rightarrow> response" where
  "set_default_header name v r = (if has_header name r then r else r\<lparr>rs_headers := rs_headers r @ [(name, v)]\<rparr>)"

definition limiter_key :: "runtime \<Rightarrow> request \<Rightarrow> string" where
  "limiter_key rt rq =
    (let authorization = (case rq_authorization rq of None \<Rightarrow> ''anonymous'' | Some a \<Rightarrow> a);
         identity = take 24 (rt_sha256 rt authorization)
     in route_group (rq_path rq) @ '':'' @ rq_method rq @ '':'' @ identity)"

definition body_refused :: "route_limit \<Rightarrow> request \<Rightarrow> string \<Rightarrow> response option" where
  "body_refused policy rq correlation_id =
    (case rq_content_length rq of
       Some text \<Rightarrow>
         (case int_of_text text of
            None \<Rightarrow> Some (error_response 400 ''INVALID_CONTENT_LENGTH'' correlation_id)
          | Some declared \<Rightarrow>
             if declared > int (rl_max_body_bytes policy) then Some (error_response 413 ''REQUEST_TOO_LARGE'' correlation_id)
             else if rq_method rq \<in> {''POST'', ''PUT'', ''PATCH''} \<and> length (rq_body rq) > rl_max_body_bytes policy
             then Some (error_response 413 ''REQUEST_TOO_LARGE'' correlation_id) else None)
     | None \<Rightarrow>
         if rq_method rq \<in> {''POST'', ''PUT'', ''PATCH''} \<and> length (rq_body rq) > rl_max_body_bytes policy
         then Some (error_response 413 ''REQUEST_TOO_LARGE'' correlation_id) else None)"

text \<open>
  \<open>call_next\<close> is the application behind the boundary, with its own state; \<open>fresh\<close> is the text of
  the new UUID and \<open>now\<close> the reading of the clock.
\<close>

definition dispatch_boundary ::
  "runtime \<Rightarrow> (request \<Rightarrow> 'a \<Rightarrow> response \<times> 'a) \<Rightarrow> request \<Rightarrow> string \<Rightarrow> pyfloat \<Rightarrow> windows \<times> 'a \<Rightarrow> response \<times> (windows \<times> 'a)" where
  "dispatch_boundary rt call_next rq fresh now st =
    (let (windows, app) = st in
     if \<not> starts_with ''/api/'' (rq_path rq) then (let (r, app') = call_next rq app in (r, (windows, app')))
     else
      let group = route_group (rq_path rq);
          policy = the (map_of policies group);
          correlation_id = (case rq_correlation_header rq of None \<Rightarrow> ''corr-'' @ fresh | Some c \<Rightarrow> c)
      in case body_refused policy rq correlation_id of
           Some r \<Rightarrow> (r, (windows, app))
         | None \<Rightarrow>
            let (ok, windows') = allow windows (limiter_key rt rq) policy now in
            if \<not> ok then (error_response 429 ''RATE_LIMITED'' correlation_id, (windows', app))
            else let (r, app') = call_next rq app in
              (set_default_header ''X-Correlation-ID'' correlation_id r, (windows', app')))"


section \<open>Eviction does not change an answer\<close>

type_synonym limiter_call = "string \<times> route_limit \<times> pyfloat"

fun answers :: "windows \<Rightarrow> limiter_call list \<Rightarrow> bool list" where
  "answers ws [] = []"
| "answers ws ((key, policy, now) # calls) =
     (let (ok, ws') = allow ws key policy now in ok # answers ws' calls)"

text \<open>The limiter that never forgets a window: one window per key, a call of another key leaves it alone.\<close>

definition window_step :: "route_limit \<Rightarrow> pyfloat \<Rightarrow> (pyfloat \<times> nat) option \<Rightarrow> bool \<times> (pyfloat \<times> nat) option" where
  "window_step policy now v =
    (let (started, count) = (case v of None \<Rightarrow> (now, 0)
        | Some (s, c) \<Rightarrow> if fsub now s \<ge> of_nat (rl_window_seconds policy) then (now, 0) else (s, c)) in
     if count \<ge> rl_requests policy then (False, v) else (True, Some (started, count + 1)))"

fun answers_ref :: "(string \<Rightarrow> (pyfloat \<times> nat) option) \<Rightarrow> limiter_call list \<Rightarrow> bool list" where
  "answers_ref f [] = []"
| "answers_ref f ((key, policy, now) # calls) =
     (let (ok, v) = window_step policy now (f key) in ok # answers_ref (f(key := v)) calls)"

definition call_time :: "limiter_call \<Rightarrow> pyfloat" where
  "call_time c = snd (snd c)"

definition call_policy :: "limiter_call \<Rightarrow> route_limit" where
  "call_policy c = fst (snd c)"

text \<open>What was evicted by the time \<open>t\<close> was stale.\<close>

definition tracks :: "pyfloat \<Rightarrow> windows \<Rightarrow> (string \<Rightarrow> (pyfloat \<times> nat) option) \<Rightarrow> bool" where
  "tracks t ws f \<longleftrightarrow> distinct (map fst ws) \<and>
     (\<forall>k. map_of ws k = f k \<or> map_of ws k = None \<and> (\<exists>s c. f k = Some (s, c) \<and> 60 \<le> fsub t s))"

lemma fsub_mono: "t \<le> u \<Longrightarrow> fsub t s \<le> fsub u s"
  by (simp add: fsub_def fl_mono)

lemma fsub_antimono: "s \<le> u \<Longrightarrow> fsub t u \<le> fsub t s"
  by (simp add: fsub_def fl_mono)

lemma fsub_self [simp]: "fsub t t = 0"
  by (simp add: fsub_def)

lemma tracks_later: "tracks t ws f \<Longrightarrow> t \<le> u \<Longrightarrow> tracks u ws f"
  unfolding tracks_def using fsub_mono order_trans by meson

lemma map_of_filter_distinct:
  "distinct (map fst ws) \<Longrightarrow>
    map_of (filter P ws) k = (case map_of ws k of None \<Rightarrow> None | Some v \<Rightarrow> if P (k, v) then Some v else None)"
proof (induction ws)
  case (Cons x ws)
  then show ?case using map_of_eq_None_iff [of ws k] by (cases x) (auto split: option.splits)
qed simp

lemma evict_distinct: "distinct (map fst ws) \<Longrightarrow> distinct (map fst (evict t ws))"
  by (simp add: evict_def distinct_map_filter)

lemma map_of_evict:
  assumes "distinct (map fst ws)"
  shows "map_of (evict t ws) k = map_of ws k \<or>
    map_of (evict t ws) k = None \<and> (\<exists>s c. map_of ws k = Some (s, c) \<and> 60 \<le> fsub t s)"
  using assms by (auto simp: evict_def map_of_filter_distinct not_less split: option.splits)

lemma evict_tracks:
  assumes "tracks t ws f"
  shows "tracks t (evict t ws) f"
proof -
  have d: "distinct (map fst ws)" using assms by (simp add: tracks_def)
  have "map_of (evict t ws) k = f k \<or> map_of (evict t ws) k = None \<and> (\<exists>s c. f k = Some (s, c) \<and> 60 \<le> fsub t s)" for k
  proof -
    have "map_of ws k = f k \<or> map_of ws k = None \<and> (\<exists>s c. f k = Some (s, c) \<and> 60 \<le> fsub t s)"
      using assms unfolding tracks_def by blast
    then show ?thesis using map_of_evict [OF d, of t k] by metis
  qed
  then show ?thesis by (simp add: tracks_def evict_distinct d)
qed

lemma window_tracks:
  assumes "tracks now ws f" and "rl_window_seconds policy \<le> 60"
  shows "window_of ws key policy now = (case f key of None \<Rightarrow> (now, 0)
      | Some (s, c) \<Rightarrow> if fsub now s \<ge> of_nat (rl_window_seconds policy) then (now, 0) else (s, c))"
proof -
  have w: "of_nat (rl_window_seconds policy) \<le> (60 :: rat)" using assms(2) by linarith
  consider "map_of ws key = f key" | s c where "map_of ws key = None" "f key = Some (s, c)" "60 \<le> fsub now s"
    using assms(1) unfolding tracks_def by blast
  then show ?thesis
  proof cases
    case 1
    then show ?thesis by (simp add: window_of_def split: option.splits)
  next
    case 2
    then show ?thesis using order_trans [OF w] by (simp add: window_of_def)
  qed
qed

lemma tracks_update:
  assumes "tracks now ws f"
  shows "tracks now (AList.update key v ws) (f(key := Some v))"
  using assms by (simp add: tracks_def distinct_update update_conv)

lemma allow_tracks:
  assumes "tracks now ws f" and "rl_window_seconds policy \<le> 60"
    and "allow ws key policy now = (ok, ws')" and "window_step policy now (f key) = (ok', v)"
  shows "ok = ok' \<and> tracks now ws' (f(key := v))"
proof -
  have t: "tracks now (evict now ws) f" by (rule evict_tracks) (rule assms(1))
  obtain s c where w: "window_of (evict now ws) key policy now = (s, c)" by fastforce
  then have "window_step policy now (f key) =
      (if c \<ge> rl_requests policy then (False, f key) else (True, Some (s, c + 1)))"
    using window_tracks [OF t assms(2), of key] by (simp add: window_step_def Let_def)
  with assms(3,4) w t tracks_update [OF t, of key "(s, c + 1)"] show ?thesis
    by (auto simp: allow_def Let_def split: if_splits)
qed

lemma answers_tracks:
  assumes "tracks t ws f" and "\<forall>c \<in> set calls. rl_window_seconds (call_policy c) \<le> 60"
    and "sorted (t # map call_time calls)"
  shows "answers ws calls = answers_ref f calls"
  using assms
proof (induction calls arbitrary: t ws f)
  case (Cons x calls)
  obtain key policy now where x: "x = (key, policy, now)" by (cases x) auto
  obtain ok ws' where a: "allow ws key policy now = (ok, ws')" by fastforce
  obtain ok' v where r: "window_step policy now (f key) = (ok', v)" by fastforce
  have "tracks now ws f" using tracks_later [OF Cons.prems(1)] Cons.prems(3) by (simp add: x call_time_def)
  then have "ok = ok'" "tracks now ws' (f(key := v))"
    using allow_tracks [where f = f and key = key and v = v, OF _ _ a r] Cons.prems(2) by (auto simp: x call_policy_def)
  then show ?case using Cons.IH [of now ws' "f(key := v)"] Cons.prems(2,3) by (simp add: x a r call_time_def fun_upd_def)
qed simp

text \<open>
  C23: Evicting old windows never changes an answer.  From any table of windows, a sequence of calls in
  the order of the clock, each with a window of at most 60 seconds as all the policies have, is
  answered as by the limiter that keeps every window for ever.
\<close>

theorem eviction_transparent:
  assumes "distinct (map fst ws)" and "\<forall>c \<in> set calls. rl_window_seconds (call_policy c) \<le> 60"
    and "sorted (map call_time calls)"
  shows "answers ws calls = answers_ref (map_of ws) calls"
proof (cases calls)
  case (Cons x rest)
  have "tracks (call_time x) ws (map_of ws)" using assms(1) by (simp add: tracks_def)
  then show ?thesis using assms(2,3) by (intro answers_tracks [of "call_time x"]) (auto simp: Cons)
qed simp

section \<open>How many requests pass\<close>

text \<open>The calls of one key, seen alone.\<close>

fun key_answers :: "route_limit \<Rightarrow> (pyfloat \<times> nat) option \<Rightarrow> pyfloat list \<Rightarrow> bool list" where
  "key_answers policy v [] = []"
| "key_answers policy v (t # ts) = (let (ok, v') = window_step policy t v in ok # key_answers policy v' ts)"

definition answered :: "string \<Rightarrow> limiter_call list \<Rightarrow> bool list \<Rightarrow> bool list" where
  "answered key calls bs = map snd (filter (\<lambda>(c, b). fst c = key) (zip calls bs))"

definition times_of :: "string \<Rightarrow> limiter_call list \<Rightarrow> pyfloat list" where
  "times_of key calls = map call_time (filter (\<lambda>c. fst c = key) calls)"

lemma answers_of_key:
  assumes "\<forall>c \<in> set calls. fst c = key \<longrightarrow> call_policy c = policy"
  shows "answered key calls (answers_ref f calls) = key_answers policy (f key) (times_of key calls)"
  using assms
proof (induction calls arbitrary: f)
  case (Cons x calls)
  obtain k p now where x: "x = (k, p, now)" by (cases x) auto
  obtain ok v where r: "window_step p now (f k) = (ok, v)" by fastforce
  have IH: "answered key calls (answers_ref (f(k := v)) calls) = key_answers policy ((f(k := v)) key) (times_of key calls)"
    by (rule Cons.IH) (use Cons.prems in auto)
  show ?case
  proof (cases "k = key")
    case True
    then have "p = policy" using Cons.prems by (simp add: x call_policy_def)
    then show ?thesis using IH True r by (simp add: x answered_def times_of_def call_time_def)
  next
    case False
    then show ?thesis using IH r by (simp add: x answered_def times_of_def)
  qed
qed (simp add: answered_def times_of_def)

abbreviation passed :: "bool list \<Rightarrow> nat" where
  "passed bs \<equiv> length (filter (\<lambda>b. b) bs)"

lemma passed_in_window:
  assumes "\<forall>t \<in> set ts. fsub t s < of_nat (rl_window_seconds policy)"
  shows "passed (key_answers policy (Some (s, c)) ts) = min (rl_requests policy - c) (length ts)"
  using assms by (induction ts arbitrary: c) (auto simp: window_step_def not_le min_def)

lemma passed_fresh:
  assumes "sorted ts" and "\<forall>t \<in> set ts. t0 \<le> t \<and> fsub t t0 < of_nat (rl_window_seconds policy)"
    and "v = None \<or> (\<exists>s c. v = Some (s, c) \<and> ts \<noteq> [] \<and> of_nat (rl_window_seconds policy) \<le> fsub (hd ts) s)"
    and "0 < rl_window_seconds policy"
  shows "passed (key_answers policy v ts) = min (rl_requests policy) (length ts)"
proof (cases ts)
  case (Cons t rest)
  have "\<forall>u \<in> set rest. fsub u t < of_nat (rl_window_seconds policy)"
  proof
    fix u assume "u \<in> set rest"
    then have "fsub u t0 < of_nat (rl_window_seconds policy)" "t0 \<le> t" using assms(2) by (auto simp: Cons)
    then show "fsub u t < of_nat (rl_window_seconds policy)" using fsub_antimono [of t0 t u] by simp
  qed
  note w = passed_in_window [OF this]
  have "window_step policy t v = (if rl_requests policy = 0 then (False, v) else (True, Some (t, 1)))"
    using assms(3,4) by (auto simp: window_step_def Cons)
  then show ?thesis
  proof (cases "rl_requests policy = 0")
    case True
    have "passed (key_answers policy v' us) = 0" for v' us
      using True by (induction us arbitrary: v') (auto simp: window_step_def split: option.splits if_splits prod.splits)
    then show ?thesis using True by simp
  next
    case False
    then have "window_step policy t v = (True, Some (t, 1))"
      using assms(3,4) by (auto simp: window_step_def Cons)
    then show ?thesis using w [of 1] False by (simp add: Cons)
  qed
qed simp

lemma passed_bound:
  assumes "sorted ts" and "\<forall>t \<in> set ts. t0 \<le> t \<and> fsub t t0 < of_nat (rl_window_seconds policy)"
    and "0 < rl_window_seconds policy"
  shows "passed (key_answers policy (Some (s, c)) ts) \<le> rl_requests policy + (rl_requests policy - c)"
  using assms(1,2)
proof (induction ts arbitrary: c)
  case (Cons t ts)
  show ?case
  proof (cases "of_nat (rl_window_seconds policy) \<le> fsub t s")
    case True
    then show ?thesis using passed_fresh [OF Cons.prems, of "Some (s, c)"] assms(3) by auto
  next
    case False
    then have "window_step policy t (Some (s, c)) =
        (if rl_requests policy \<le> c then (False, Some (s, c)) else (True, Some (s, c + 1)))"
      by (simp add: window_step_def)
    then show ?thesis using Cons.IH [of c] Cons.IH [of "c + 1"] Cons.prems by (auto split: if_splits)
  qed
qed simp

text \<open>
  C24: The rate limit of a key.  Among calls in the order of the clock, take the calls of one key with
  one policy, all within one length of its window.  If no window of the key is recorded, exactly
  the first \<open>requests\<close> of them are counted through; whatever is recorded, at most twice as many pass,
  the most a fixed window lets through around its boundary.  Other keys and evictions do not matter.
\<close>

theorem rate_limit_of_key:
  assumes "distinct (map fst ws)" and "\<forall>c \<in> set calls. rl_window_seconds (call_policy c) \<le> 60"
    and "sorted (map call_time calls)" and "0 < rl_window_seconds policy"
    and "\<forall>c \<in> set calls. fst c = key \<longrightarrow>
      call_policy c = policy \<and> t0 \<le> call_time c \<and> fsub (call_time c) t0 < of_nat (rl_window_seconds policy)"
  shows "(map_of ws key = None \<longrightarrow> passed (answered key calls (answers ws calls)) =
           min (rl_requests policy) (length (times_of key calls))) \<and>
         passed (answered key calls (answers ws calls)) \<le> 2 * rl_requests policy"
proof -
  have "answers ws calls = answers_ref (map_of ws) calls"
  proof (cases calls)
    case (Cons x rest)
    have "tracks (call_time x) ws (map_of ws)" using assms(1) by (simp add: tracks_def)
    then show ?thesis using assms(2,3) by (intro answers_tracks [of "call_time x"]) (auto simp: Cons)
  qed simp
  then have a: "answered key calls (answers ws calls) = key_answers policy (map_of ws key) (times_of key calls)"
    using answers_of_key [of calls key policy] assms(5) by simp
  have s: "sorted (times_of key calls)" unfolding times_of_def using assms(3) by (simp add: sorted_filter)
  have t: "\<forall>t \<in> set (times_of key calls). t0 \<le> t \<and> fsub t t0 < of_nat (rl_window_seconds policy)"
    using assms(5) by (auto simp: times_of_def)
  show ?thesis
  proof (cases "map_of ws key")
    case None
    then show ?thesis using passed_fresh [OF s t _ assms(4), of None] by (simp add: a)
  next
    case (Some v)
    then show ?thesis using passed_bound [OF s t assms(4), of "fst v" "snd v"] by (simp add: a)
  qed
qed

definition sample_policy :: route_limit where
  "sample_policy = \<lparr>rl_requests = 2, rl_window_seconds = 60, rl_max_body_bytes = 8\<rparr>"

definition sample_calls :: "limiter_call list" where
  "sample_calls = [(''a'', sample_policy, 1), (''b'', sample_policy, 2), (''a'', sample_policy, 3), (''a'', sample_policy, 5)]"

lemma sample_calls_ok:
  "distinct (map fst ([] :: windows))" "\<forall>c \<in> set sample_calls. rl_window_seconds (call_policy c) \<le> 60"
  "sorted (map call_time sample_calls)" "0 < rl_window_seconds sample_policy"
  "\<forall>c \<in> set sample_calls. fst c = ''a'' \<longrightarrow> call_policy c = sample_policy \<and> 1 \<le> call_time c \<and>
     fsub (call_time c) 1 < of_nat (rl_window_seconds sample_policy)"
  by code_simp+

lemma eviction_transparent_witness: "answers [] sample_calls = answers_ref (map_of []) sample_calls"
  by (rule eviction_transparent [OF sample_calls_ok(1-3)])

lemma rate_limit_of_key_witness: "passed (answered ''a'' sample_calls (answers [] sample_calls)) = 2"
proof -
  have "times_of ''a'' sample_calls = [1, 3, 5]" by code_simp
  then show ?thesis
    using rate_limit_of_key [OF sample_calls_ok] by (simp add: sample_policy_def)
qed

section \<open>Properties of the boundary\<close>

lemma policy_of_group: "map_of policies (route_group path) \<noteq> None"
proof -
  have "g \<in> {''investigations'', ''scans'', ''simulations'', ''proposals'', ''reports''}"
    if "List.find P [''investigations'', ''scans'', ''simulations'', ''proposals'', ''reports''] = Some g" for P and g :: string
    using that by (auto split: if_splits)
  then have "route_group path \<in> set (map fst policies)"
    by (fastforce simp: route_group_def policies_def split: option.split)
  then show ?thesis by (metis map_of_eq_None_iff list.set_map)
qed

lemma set_default_header_simps [simp]:
  "has_header name (set_default_header name v r)" "rs_content (set_default_header name v r) = rs_content r"
  "rs_status (set_default_header name v r) = rs_status r"
  by (simp_all add: set_default_header_def has_header_def)

lemma error_response_simps [simp]:
  "has_header ''X-Correlation-ID'' (error_response status code c)" "rs_status (error_response status code c) = status"
  by (simp_all add: error_response_def has_header_def)

definition policy_for :: "request \<Rightarrow> route_limit" where
  "policy_for rq = the (map_of policies (route_group (rq_path rq)))"

definition admitted :: "request \<Rightarrow> bool" where
  "admitted rq \<longleftrightarrow>
     (case rq_content_length rq of None \<Rightarrow> True
      | Some text \<Rightarrow> (\<exists>n. int_of_text text = Some n \<and> n \<le> int (rl_max_body_bytes (policy_for rq)))) \<and>
     (rq_method rq \<in> {''POST'', ''PUT'', ''PATCH''} \<longrightarrow> length (rq_body rq) \<le> rl_max_body_bytes (policy_for rq))"

lemma body_refused_None: "body_refused (policy_for rq) rq c = None \<longleftrightarrow> admitted rq"
  by (auto simp: body_refused_def admitted_def split: option.splits)

lemma body_refused_status:
  "body_refused policy rq c = Some r \<Longrightarrow> rs_status r \<in> {400, 413} \<and> has_header ''X-Correlation-ID'' r"
  by (auto simp: body_refused_def split: option.splits if_splits)

text \<open>
  What passes the boundary of the API.  A request outside \<open>/api/\<close> goes straight to the application.
  Any other reaches it exactly when its declared and actual length fit the policy of its
  route and the limiter admits its key; otherwise the application is not called, an oversized
  request does not count against the limit, and the answer is 400, 413 or 429.  Every answer to an
  API request has a correlation header.
\<close>

theorem boundary_exact:
  assumes "dispatch_boundary rt call_next rq fresh now (windows, app) = (r, (windows', app'))"
  shows "if \<not> starts_with ''/api/'' (rq_path rq) then call_next rq app = (r, app') \<and> windows' = windows
    else has_header ''X-Correlation-ID'' r \<and>
      (if \<not> admitted rq then rs_status r \<in> {400, 413} \<and> windows' = windows \<and> app' = app
       else windows' = snd (allow windows (limiter_key rt rq) (policy_for rq) now) \<and>
         (if fst (allow windows (limiter_key rt rq) (policy_for rq) now)
          then app' = snd (call_next rq app) \<and> rs_content r = rs_content (fst (call_next rq app)) \<and>
            rs_status r = rs_status (fst (call_next rq app))
          else app' = app \<and> rs_status r = 429))"
proof (cases "starts_with ''/api/'' (rq_path rq)")
  case True
  define c where "c = (case rq_correlation_header rq of None \<Rightarrow> ''corr-'' @ fresh | Some c \<Rightarrow> c)"
  have d: "dispatch_boundary rt call_next rq fresh now (windows, app) = (case body_refused (policy_for rq) rq c of
         Some r \<Rightarrow> (r, (windows, app))
       | None \<Rightarrow> (if \<not> fst (allow windows (limiter_key rt rq) (policy_for rq) now)
            then (error_response 429 ''RATE_LIMITED'' c, (snd (allow windows (limiter_key rt rq) (policy_for rq) now), app))
            else (set_default_header ''X-Correlation-ID'' c (fst (call_next rq app)),
              (snd (allow windows (limiter_key rt rq) (policy_for rq) now), snd (call_next rq app)))))"
    unfolding dispatch_boundary_def policy_for_def c_def Let_def split_def fst_conv snd_conv using True by simp
  show ?thesis
  proof (cases "body_refused (policy_for rq) rq c")
    case None
    then have "admitted rq" by (simp add: body_refused_None)
    then show ?thesis using assms True None unfolding d
      by (auto split: if_splits)
  next
    case (Some r')
    then have "\<not> admitted rq" using body_refused_None [of rq c] by auto
    then show ?thesis using assms True Some body_refused_status [OF Some] unfolding d by auto
  qed
next
  case False
  then show ?thesis using assms by (auto simp: dispatch_boundary_def split: prod.splits)
qed

definition sample_request :: request where
  "sample_request = \<lparr>rq_path = ''/api/v1/scans'', rq_method = ''POST'', rq_correlation_header = None,
     rq_content_length = Some '' 9000 '', rq_authorization = None, rq_body = ''x''\<rparr>"

lemma boundary_exact_witness:
  "\<exists>r. dispatch_boundary sample_runtime (\<lambda>rq n. (error_response 200 ''OK'' ''c'', Suc n)) sample_request ''u'' 3 ([], 0) = (r, ([], 0)) \<and>
     rs_status r \<in> {400, 413}"
proof -
  obtain r ws n where d: "dispatch_boundary sample_runtime (\<lambda>rq n. (error_response 200 ''OK'' ''c'', Suc n)) sample_request ''u'' 3 ([], 0)
      = (r, (ws, n :: nat))" by (metis prod_cases3)
  have g: "route_group ''/api/v1/scans'' = ''scans''" by code_simp
  have "rl_max_body_bytes (policy_for sample_request) = 8192"
    by (simp add: policy_for_def sample_request_def g policies_def)
  moreover have "strip '' 9000 '' = ''9000''" by code_simp
  then have "int_of_text '' 9000 '' = Some 9000"
    by (simp add: int_of_text_def is_digit_def)
  ultimately have "\<not> admitted sample_request" unfolding admitted_def by (simp add: sample_request_def)
  moreover have "starts_with ''/api/'' (rq_path sample_request)" by code_simp
  ultimately show ?thesis using boundary_exact [OF d] d by simp
qed

end
