(* ===== verification/PyRegex.thy ===== *)
theory PyRegex imports Runtime begin

text \<open>
  Python's \<open>re\<close> module as far as the program uses it: a backtracking matcher that lists the
  matches of an expression at a position in the order the engine tries them, and on top of it
  \<open>search\<close>, \<open>finditer\<close>/\<open>findall\<close> and \<open>split\<close>.  A position in a text is a pair of the reversed
  text before it and the text after it.  Word characters, digits and case are those of ASCII.
\<close>

section \<open>Expressions\<close>

datatype regex =
    RChar "char \<Rightarrow> bool"
  | REmpty
  | RSeq regex regex
  | RAlt regex regex
  | RRepeat bool nat "nat option" regex
  | RGroup nat regex
  | RBoundary
  | RNotAfterWord
  | RNotBeforeWord
  | RAfter "char \<Rightarrow> bool"
  | RLineStart
  | REnd

type_synonym captures = "(nat \<times> string) list"
type_synonym cursor = "string \<times> string \<times> captures"

definition word_char :: "char \<Rightarrow> bool" where
  "word_char c \<longleftrightarrow> is_upper c \<or> is_lower c \<or> is_digit c \<or> c = CHR ''_''"

definition ascii_upper :: "char \<Rightarrow> char" where
  "ascii_upper c = (if is_lower c then char_of (of_char c - 32 :: int) else c)"

definition upper :: "string \<Rightarrow> string" where
  "upper s = map ascii_upper s"

definition starts_word :: "string \<Rightarrow> bool" where
  "starts_word s \<longleftrightarrow> (case s of [] \<Rightarrow> False | c # _ \<Rightarrow> word_char c)"

section \<open>The matcher\<close>

text \<open>
  At least \<open>lo\<close> and at most \<open>k\<close> matches of \<open>f\<close> one after the other, the longest first when greedy.  Every
  repeated expression of the program consumes a character, so the length of the text bounds the
  unbounded repetitions.
\<close>

fun repeat_match :: "bool \<Rightarrow> nat \<Rightarrow> nat \<Rightarrow> (cursor \<Rightarrow> cursor list) \<Rightarrow> cursor \<Rightarrow> cursor list" where
  "repeat_match greedy lo 0 f p = (if lo = 0 then [p] else [])"
| "repeat_match greedy lo (Suc k) f p =
     (let more = concat (map (repeat_match greedy (lo - 1) k f) (f p)) in
      if lo > 0 then more else if greedy then more @ [p] else p # more)"

primrec matches_at :: "regex \<Rightarrow> cursor \<Rightarrow> cursor list" where
  "matches_at (RChar ok) p = (case p of (l, r, caps) \<Rightarrow> (case r of [] \<Rightarrow> [] | c # r' \<Rightarrow> if ok c then [(c # l, r', caps)] else []))"
| "matches_at REmpty p = [p]"
| "matches_at (RSeq a b) p = concat (map (matches_at b) (matches_at a p))"
| "matches_at (RAlt a b) p = matches_at a p @ matches_at b p"
| "matches_at (RRepeat greedy lo hi a) p =
     repeat_match greedy lo (case hi of Some n \<Rightarrow> n | None \<Rightarrow> length (fst (snd p))) (matches_at a) p"
| "matches_at (RGroup n a) p =
     map (\<lambda>(l, r, caps). (l, r, (n, take (length (fst (snd p)) - length r) (fst (snd p))) # caps)) (matches_at a p)"
| "matches_at RBoundary p = (case p of (l, r, _) \<Rightarrow> if starts_word l \<noteq> starts_word r then [p] else [])"
| "matches_at RNotAfterWord p = (if starts_word (fst p) then [] else [p])"
| "matches_at RNotBeforeWord p = (if starts_word (fst (snd p)) then [] else [p])"
| "matches_at (RAfter ok) p = (case fst p of [] \<Rightarrow> [] | c # _ \<Rightarrow> if ok c then [p] else [])"
| "matches_at RLineStart p = (case fst p of [] \<Rightarrow> [p] | c # _ \<Rightarrow> if c = CHR 0x0A then [p] else [])"
| "matches_at REnd p = (if fst (snd p) = [] \<or> fst (snd p) = [CHR 0x0A] then [p] else [])"

text \<open>A match moves forward over a part of the text.\<close>

definition moves :: "cursor \<Rightarrow> cursor \<Rightarrow> bool" where
  "moves p q \<longleftrightarrow> (\<exists>w. fst (snd p) = w @ fst (snd q) \<and> fst q = rev w @ fst p)"

lemma moves_refl [simp]: "moves p p"
  by (simp add: moves_def)

lemma moves_trans: "moves p q \<Longrightarrow> moves q r \<Longrightarrow> moves p r"
  unfolding moves_def by (elim exE conjE, rule_tac x = "w @ wa" in exI) simp

lemma moves_shorter: "moves p q \<Longrightarrow> length (fst (snd q)) \<le> length (fst (snd p))"
  by (auto simp: moves_def)

lemma repeat_match_moves:
  assumes "\<And>p q. q \<in> set (f p) \<Longrightarrow> moves p q"
  shows "q \<in> set (repeat_match greedy lo k f p) \<Longrightarrow> moves p q"
proof (induction k arbitrary: lo p)
  case (Suc k)
  then consider "q = p" | x where "x \<in> set (f p)" "q \<in> set (repeat_match greedy (lo - 1) k f x)"
    by (auto simp: Let_def split: if_splits)
  then show ?case
  proof cases
    case 2
    then show ?thesis using Suc.IH [of "lo - 1" x] assms [of x p] moves_trans [of p x q] by simp
  qed simp
qed (simp split: if_splits)

lemma matches_at_moves: "q \<in> set (matches_at r p) \<Longrightarrow> moves p q"
proof (induction r arbitrary: p q)
  case (RChar ok)
  then show ?case by (auto simp: moves_def split: prod.splits list.splits if_splits)
next
  case (RSeq a b)
  then obtain x where "x \<in> set (matches_at a p)" "q \<in> set (matches_at b x)" by auto
  then show ?case using RSeq.IH moves_trans [of p x q] by simp
next
  case (RRepeat greedy lo hi a)
  from RRepeat.prems show ?case unfolding matches_at.simps by (rule repeat_match_moves [rotated]) (rule RRepeat.IH)
next
  case (RGroup n a)
  then obtain q' where "q' \<in> set (matches_at a p)" "fst q' = fst q" "fst (snd q') = fst (snd q)" by auto
  then show ?case using RGroup.IH [of q' p] by (simp add: moves_def)
qed (auto split: prod.splits list.splits if_splits)

section \<open>Searching\<close>

text \<open>A match object: the text before it, the match, the text after it and the groups.\<close>

record match =
  mt_before :: string
  mt_text :: string
  mt_after :: string
  mt_groups :: captures

definition match_of :: "cursor \<Rightarrow> cursor \<Rightarrow> match" where
  "match_of p q = \<lparr>mt_before = rev (fst p), mt_text = take (length (fst (snd p)) - length (fst (snd q))) (fst (snd p)),
     mt_after = fst (snd q), mt_groups = snd (snd q)\<rparr>"

text \<open>
  The matches from a position on, none overlapping the one before.  After an empty match the next
  one at the same position has to be longer.
\<close>

lemma match_advances:
  assumes "filter (\<lambda>q. \<not> adv \<or> fst (snd q) \<noteq> s) (matches_at r (l, s, [])) = q # qs"
  shows "(fst (snd q) = s \<and> \<not> adv) \<or> (fst (snd q) \<noteq> s \<and> length (fst (snd q)) < length s)"
proof -
  have q: "q \<in> set (matches_at r (l, s, []))" and a: "\<not> adv \<or> fst (snd q) \<noteq> s"
    using assms by (auto simp: filter_eq_Cons_iff)
  from matches_at_moves [OF q] obtain w where "s = w @ fst (snd q)" by (auto simp: moves_def)
  then have "fst (snd q) = s \<or> length (fst (snd q)) < length s"
    by (cases w) (auto dest: arg_cong [where f = length])
  with a show ?thesis by blast
qed

function matches_from :: "regex \<Rightarrow> bool \<Rightarrow> string \<Rightarrow> string \<Rightarrow> match list" where
  "matches_from r must_advance l s =
    (case filter (\<lambda>q. \<not> must_advance \<or> fst (snd q) \<noteq> s) (matches_at r (l, s, [])) of
       q # _ \<Rightarrow> match_of (l, s, []) q # matches_from r (fst (snd q) = s) (fst q) (fst (snd q))
     | [] \<Rightarrow> (case s of [] \<Rightarrow> [] | c # s' \<Rightarrow> matches_from r False (c # l) s'))"
  by pat_completeness auto
termination
proof (relation "measure (\<lambda>(r, adv, l, s). 2 * length s + (if adv then 0 else 1))", goal_cases)
  case (3 r adv l s q qs)
  then show ?case using match_advances [of adv s r l q qs] by auto
qed auto

declare matches_from.simps [simp del]

definition finditer :: "regex \<Rightarrow> string \<Rightarrow> match list" where
  "finditer r s = matches_from r False [] s"

definition findall :: "regex \<Rightarrow> string \<Rightarrow> string list" where
  "findall r s = map mt_text (finditer r s)"

definition re_search :: "regex \<Rightarrow> string \<Rightarrow> match option" where
  "re_search r s = (case finditer r s of [] \<Rightarrow> None | m # _ \<Rightarrow> Some m)"

definition group_of :: "nat \<Rightarrow> match \<Rightarrow> string option" where
  "group_of n m = map_of (mt_groups m) n"

text \<open>\<open>re.split\<close>: the texts between the matches, the first of them, and blanking the matches out.\<close>

fun pieces :: "nat \<Rightarrow> string \<Rightarrow> match list \<Rightarrow> string list" where
  "pieces start s [] = [drop start s]"
| "pieces start s (m # ms) =
     take (length (mt_before m) - start) (drop start s) # pieces (length (mt_before m) + length (mt_text m)) s ms"

definition re_split :: "regex \<Rightarrow> string \<Rightarrow> string list" where
  "re_split r s = pieces 0 s (finditer r s)"

definition blank_out :: "match list \<Rightarrow> string \<Rightarrow> string" where
  "blank_out ms s = foldl (\<lambda>t m. take (length (mt_before m)) t @ replicate (length (mt_text m)) (CHR '' '') @
     drop (length (mt_before m) + length (mt_text m)) t) s ms"

section \<open>Building expressions\<close>

definition any_case :: "(char \<Rightarrow> bool) \<Rightarrow> char \<Rightarrow> bool" where
  "any_case ok c \<longleftrightarrow> ok (ascii_lower c) \<or> ok (ascii_upper c)"

fun seq_of :: "regex list \<Rightarrow> regex" where
  "seq_of [] = REmpty"
| "seq_of (r # rs) = RSeq r (seq_of rs)"

fun alt_of :: "regex list \<Rightarrow> regex" where
  "alt_of [] = RChar (\<lambda>c. False)"
| "alt_of [r] = r"
| "alt_of (r # rs) = RAlt r (alt_of rs)"

definition lit :: "string \<Rightarrow> regex" where
  "lit s = seq_of (map (\<lambda>c. RChar (\<lambda>d. d = c)) s)"

text \<open>A literal under \<open>re.I\<close>\<close>

definition lit_i :: "string \<Rightarrow> regex" where
  "lit_i s = seq_of (map (\<lambda>c. RChar (\<lambda>d. ascii_lower d = ascii_lower c)) s)"

abbreviation some_of :: "(char \<Rightarrow> bool) \<Rightarrow> regex" where
  "some_of ok \<equiv> RRepeat True 1 None (RChar ok)"

abbreviation any_of :: "(char \<Rightarrow> bool) \<Rightarrow> regex" where
  "any_of ok \<equiv> RRepeat True 0 None (RChar ok)"

abbreviation opt :: "regex \<Rightarrow> regex" where
  "opt r \<equiv> RRepeat True 0 (Some 1) r"

text \<open>\<open>(?<!\w)name(?!\w)\<close> with \<open>re.escape\<close>, plain and under \<open>re.I\<close>\<close>

definition whole_name :: "string \<Rightarrow> regex" where
  "whole_name name = seq_of [RNotAfterWord, lit name, RNotBeforeWord]"

definition whole_name_i :: "string \<Rightarrow> regex" where
  "whole_name_i name = seq_of [RNotAfterWord, lit_i name, RNotBeforeWord]"

text \<open>\<open>\b[A-Z][A-Z0-9]{1,19}-\d+\b\<close>, the pattern of a Jira issue key\<close>

definition issue_key_body :: regex where
  "issue_key_body = seq_of [RChar is_upper, RRepeat True 1 (Some 19) (RChar key_char), RChar (\<lambda>c. c = CHR ''-''), some_of is_digit]"

definition issue_key_re :: regex where
  "issue_key_re = seq_of [RBoundary, issue_key_body, RBoundary]"

definition issue_keys :: "string \<Rightarrow> string list" where
  "issue_keys s = findall issue_key_re s"

section \<open>What the key pattern finds\<close>

definition jira_key :: "string \<Rightarrow> bool" where
  "jira_key w \<longleftrightarrow> (\<exists>a mid ds. w = a # mid @ CHR ''-'' # ds \<and> is_upper a \<and> list_all key_char mid \<and>
     1 \<le> length mid \<and> length mid \<le> 19 \<and> ds \<noteq> [] \<and> list_all is_digit ds)"

text \<open>\<open>w\<close> stands in \<open>s\<close> as a word of its own.\<close>

definition word_in :: "string \<Rightarrow> string \<Rightarrow> bool" where
  "word_in w s \<longleftrightarrow> (\<exists>before after. s = before @ w @ after \<and> \<not> starts_word (rev before) \<and> \<not> starts_word after)"

lemma set_repeat_match:
  "set (repeat_match g lo (Suc k) f p) =
     (if lo = 0 then {p} else {}) \<union> (\<Union>x \<in> set (f p). set (repeat_match g (lo - 1) k f x))"
  by (auto simp: Let_def)

lemma repeat_char:
  "q \<in> set (repeat_match g lo k (matches_at (RChar ok)) (l, s, caps)) \<longleftrightarrow>
     (\<exists>w r. s = w @ r \<and> q = (rev w @ l, r, caps) \<and> list_all ok w \<and> lo \<le> length w \<and> length w \<le> k)"
proof (induction k arbitrary: lo l s)
  case (Suc k)
  let ?R = "\<lambda>lo l s k. \<exists>w r. s = w @ r \<and> q = (rev w @ l, r, caps) \<and> list_all ok w \<and> lo \<le> length w \<and> length w \<le> k"
  have "q \<in> set (repeat_match g lo (Suc k) (matches_at (RChar ok)) (l, s, caps)) \<longleftrightarrow>
      (lo = 0 \<and> q = (l, s, caps)) \<or> (\<exists>c s'. s = c # s' \<and> ok c \<and> ?R (lo - 1) (c # l) s' k)"
    unfolding set_repeat_match by (cases s) (simp_all add: Suc.IH)
  also have "\<dots> \<longleftrightarrow> ?R lo l s (Suc k)"
  proof
    assume "(lo = 0 \<and> q = (l, s, caps)) \<or> (\<exists>c s'. s = c # s' \<and> ok c \<and> ?R (lo - 1) (c # l) s' k)"
    then show "?R lo l s (Suc k)"
    proof (elim disjE exE conjE)
      fix c s' w r assume "s = c # s'" "ok c" "s' = w @ r" "q = (rev w @ c # l, r, caps)" "list_all ok w" "lo - 1 \<le> length w" "length w \<le> k"
      then show ?thesis by (intro exI [of _ "c # w"] exI [of _ r]) auto
    qed auto
  next
    assume "?R lo l s (Suc k)"
    then obtain w r where w: "s = w @ r" "q = (rev w @ l, r, caps)" "list_all ok w" "lo \<le> length w" "length w \<le> Suc k" by blast
    show "(lo = 0 \<and> q = (l, s, caps)) \<or> (\<exists>c s'. s = c # s' \<and> ok c \<and> ?R (lo - 1) (c # l) s' k)"
    proof (cases w)
      case (Cons c w')
      then have "s = c # (w' @ r) \<and> ok c \<and> ?R (lo - 1) (c # l) (w' @ r) k" using w by auto
      then show ?thesis by blast
    qed (use w in auto)
  qed
  finally show ?case .
qed auto

lemma word_chars:
  "is_upper c \<Longrightarrow> word_char c" "is_digit c \<Longrightarrow> word_char c" "key_char c \<Longrightarrow> word_char c"
  "\<not> key_char (CHR ''-'')" "\<not> word_char (CHR ''-'')" "is_digit c \<Longrightarrow> \<not> is_upper c"
  by (auto simp: word_char_def key_char_def is_upper_def is_lower_def is_digit_def less_eq_char_def)

lemma matches_RSeq: "q \<in> set (matches_at (RSeq a b) p) \<longleftrightarrow> (\<exists>x. x \<in> set (matches_at a p) \<and> q \<in> set (matches_at b x))"
  by auto

lemma matches_RChar: "q \<in> set (matches_at (RChar ok) (l, s, c)) \<longleftrightarrow> (\<exists>x r. s = x # r \<and> ok x \<and> q = (x # l, r, c))"
  by (auto split: list.splits if_splits)

lemma matches_RRepeat_char:
  "q \<in> set (matches_at (RRepeat g lo hi (RChar ok)) (l, s, c)) \<longleftrightarrow>
    (\<exists>w r. s = w @ r \<and> q = (rev w @ l, r, c) \<and> list_all ok w \<and> lo \<le> length w \<and>
      (case hi of None \<Rightarrow> True | Some n \<Rightarrow> length w \<le> n))"
  unfolding matches_at.simps(5) repeat_char by (auto split: option.splits)

lemma matches_RBoundary: "q \<in> set (matches_at RBoundary (l, s, c)) \<longleftrightarrow> starts_word l \<noteq> starts_word s \<and> q = (l, s, c)"
  by auto

lemma matches_REmpty: "q \<in> set (matches_at REmpty p) \<longleftrightarrow> q = p"
  by auto

lemmas match_iffs = matches_RSeq matches_RChar matches_RRepeat_char matches_RBoundary matches_REmpty

declare matches_at.simps [simp del]

lemma starts_word_Cons [simp]: "starts_word (c # s) \<longleftrightarrow> word_char c"
  by (simp add: starts_word_def)

lemma jira_key_ends:
  assumes "jira_key w"
  shows "starts_word (w @ r)" and "starts_word (rev w @ l)" and "is_upper (hd w)" and "w \<noteq> []"
proof -
  from assms obtain a mid ds where w: "w = a # mid @ CHR ''-'' # ds" "is_upper a" "ds \<noteq> []" "list_all is_digit ds"
    by (auto simp: jira_key_def)
  then obtain d ds' where "ds = ds' @ [d]" "is_digit d" by (cases ds rule: rev_cases) auto
  with w show "starts_word (w @ r)" "starts_word (rev w @ l)" "is_upper (hd w)" "w \<noteq> []" by (simp_all add: word_chars)
qed

lemma issue_key_body_matches:
  "q \<in> set (matches_at issue_key_body (l, s, c)) \<longleftrightarrow> (\<exists>w r. s = w @ r \<and> q = (rev w @ l, r, c) \<and> jira_key w)"
  (is "?l \<longleftrightarrow> ?r")
proof
  assume ?l
  then obtain a mid ds r where "s = a # mid @ CHR ''-'' # ds @ r" "q = (rev ds @ CHR ''-'' # rev mid @ a # l, r, c)"
      "is_upper a" "list_all key_char mid" "1 \<le> length mid" "length mid \<le> 19" "list_all is_digit ds" "1 \<le> length ds"
    by (auto simp: issue_key_body_def match_iffs)
  moreover from this have "jira_key (a # mid @ CHR ''-'' # ds)" unfolding jira_key_def by (metis length_0_conv not_one_le_zero)
  ultimately show ?r by (intro exI [of _ "a # mid @ CHR ''-'' # ds"] exI [of _ r]) simp
next
  assume ?r
  then obtain a mid ds r where "s = a # mid @ CHR ''-'' # ds @ r" "q = (rev ds @ CHR ''-'' # rev mid @ a # l, r, c)"
      "is_upper a" "list_all key_char mid" "1 \<le> length mid" "length mid \<le> 19" "list_all is_digit ds" "1 \<le> length ds"
    unfolding jira_key_def by (auto simp: Suc_le_eq)
  then show ?l by (force simp: issue_key_body_def match_iffs)
qed

lemma issue_key_matches:
  "q \<in> set (matches_at issue_key_re (l, s, c)) \<longleftrightarrow>
     (\<exists>w r. s = w @ r \<and> q = (rev w @ l, r, c) \<and> jira_key w \<and> \<not> starts_word l \<and> \<not> starts_word r)"
proof -
  have "q \<in> set (matches_at issue_key_re (l, s, c)) \<longleftrightarrow>
      starts_word l \<noteq> starts_word s \<and> (\<exists>w r. s = w @ r \<and> q = (rev w @ l, r, c) \<and> jira_key w \<and>
        starts_word (rev w @ l) \<noteq> starts_word r)"
    by (auto simp: issue_key_re_def matches_RSeq matches_RBoundary matches_REmpty issue_key_body_matches
        simp del: matches_at.simps)
  then show ?thesis using jira_key_ends by blast
qed

lemma jira_key_unique:
  assumes "jira_key v" "jira_key w" "v @ r = w @ t" "\<not> starts_word r" "\<not> starts_word t"
  shows "v = w"
proof -
  from assms(1) obtain a mid ds where v: "v = a # mid @ CHR ''-'' # ds" "list_all key_char mid" "list_all is_digit ds"
    by (auto simp: jira_key_def)
  from assms(2) obtain b mid' es where w: "w = b # mid' @ CHR ''-'' # es" "list_all key_char mid'" "list_all is_digit es"
    by (auto simp: jira_key_def)
  have tw: "takeWhile key_char (m @ CHR ''-'' # x) = m" if "list_all key_char m" for m x
    using that by (induction m) (auto simp: word_chars)
  have td: "takeWhile is_digit (d @ x) = d" if "list_all is_digit d" "\<not> starts_word x" for d x
    using that by (induction d) (auto simp: starts_word_def word_chars split: list.splits)
  have "mid = mid'" using assms(3) tw [OF v(2), of "ds @ r"] tw [OF w(2), of "es @ t"] by (simp add: v w)
  then have "ds @ r = es @ t" "a = b" using assms(3) by (simp_all add: v w)
  then have "ds = es" using td [OF v(3) assms(4)] td [OF w(3) assms(5)] by simp
  with \<open>mid = mid'\<close> \<open>a = b\<close> show ?thesis by (simp add: v w)
qed

text \<open>No key starts inside another.\<close>

lemma jira_key_inner:
  assumes "jira_key v" "v = before @ c # rest" "before \<noteq> []" "is_upper c"
  shows "word_char (last before)"
proof -
  from assms(1) obtain a mid ds where v: "v = a # mid @ CHR ''-'' # ds" "is_upper a" "list_all key_char mid" "list_all is_digit ds"
    by (auto simp: jira_key_def)
  obtain bs where b: "before = a # bs" using assms(2,3) v(1) by (cases before) auto
  then have e: "bs @ c # rest = mid @ CHR ''-'' # ds" using assms(2) v(1) by simp
  have "set bs \<subseteq> set mid"
  proof -
    from e consider (inside) us where "mid = bs @ us" | (outside) us where "bs = mid @ us" "us \<noteq> []"
      by (metis append_eq_append_conv2 append_Nil2)
    then show ?thesis
    proof cases
      case outside
      then obtain us' where "us = CHR ''-'' # us'" "us' @ c # rest = ds" using e by (cases us) auto
      then have "is_digit c" using v(4) by (auto simp: list_all_iff)
      then show ?thesis using assms(4) word_chars(6) by blast
    qed auto
  qed
  then have "\<forall>x \<in> set before. word_char x" using v(2,3) by (auto simp: b list_all_iff word_chars)
  then show ?thesis using assms(3) by simp
qed

lemma match_of_text:
  assumes "q \<in> set (matches_at r (l, s, []))"
  shows "s = mt_text (match_of (l, s, []) q) @ fst (snd q)" and "fst q = rev (mt_text (match_of (l, s, []) q)) @ l"
    and "mt_before (match_of (l, s, []) q) = rev l" and "mt_after (match_of (l, s, []) q) = fst (snd q)"
  using matches_at_moves [OF assms] by (auto simp: moves_def match_of_def)

lemma filter_hd_in: "filter P xs = q # qs \<Longrightarrow> q \<in> set xs"
  by (metis filter_is_subset list.set_intros(1) subsetD)

text \<open>Every match found is a match of the expression at its place in the text.\<close>

lemma matches_from_sound:
  assumes "m \<in> set (matches_from r adv l s)"
  shows "rev l @ s = mt_before m @ mt_text m @ mt_after m \<and>
    (\<exists>q \<in> set (matches_at r (rev (mt_before m), mt_text m @ mt_after m, [])).
       m = match_of (rev (mt_before m), mt_text m @ mt_after m, []) q)"
  using assms
proof (induction r adv l s rule: matches_from.induct)
  case (1 r adv l s)
  show ?case
  proof (cases "filter (\<lambda>q. \<not> adv \<or> fst (snd q) \<noteq> s) (matches_at r (l, s, []))")
    case Nil
    then show ?thesis using 1 by (subst (asm) matches_from.simps) (auto split: list.splits)
  next
    case (Cons q qs)
    note q = filter_hd_in [OF Cons]
    note t = match_of_text [OF q]
    have "m = match_of (l, s, []) q \<or> m \<in> set (matches_from r (fst (snd q) = s) (fst q) (fst (snd q)))"
      using "1.prems" Cons by (subst (asm) matches_from.simps) simp
    then show ?thesis
    proof
      assume "m = match_of (l, s, []) q"
      then show ?thesis using t q by (auto simp flip: t(1))
    next
      assume "m \<in> set (matches_from r (fst (snd q) = s) (fst q) (fst (snd q)))"
      then have "rev (fst q) @ fst (snd q) = mt_before m @ mt_text m @ mt_after m \<and>
          (\<exists>q \<in> set (matches_at r (rev (mt_before m), mt_text m @ mt_after m, [])).
             m = match_of (rev (mt_before m), mt_text m @ mt_after m, []) q)"
        using "1.IH"(2) Cons by blast
      moreover have "rev (fst q) @ fst (snd q) = rev l @ s" using t(1,2) by (metis append.assoc rev_append rev_rev_ident)
      ultimately show ?thesis by simp
    qed
  qed
qed

text \<open>An expression that matches, at a word boundary, exactly the words of a kind of key\<close>

definition finds :: "regex \<Rightarrow> (string \<Rightarrow> bool) \<Rightarrow> bool" where
  "finds r kind \<longleftrightarrow> (\<forall>w. kind w \<longrightarrow> jira_key w) \<and>
     (\<forall>q l s c. q \<in> set (matches_at r (l, s, c)) \<longleftrightarrow>
        (\<exists>w t. s = w @ t \<and> q = (rev w @ l, t, c) \<and> kind w \<and> \<not> starts_word l \<and> \<not> starts_word t))"

lemma findsD:
  assumes "finds r kind"
  shows "kind w \<Longrightarrow> jira_key w" and "q \<in> set (matches_at r (l, s, c)) \<longleftrightarrow>
    (\<exists>w t. s = w @ t \<and> q = (rev w @ l, t, c) \<and> kind w \<and> \<not> starts_word l \<and> \<not> starts_word t)"
  using assms unfolding finds_def by blast+

lemma finds_issue_key: "finds issue_key_re jira_key"
  unfolding finds_def by (simp add: issue_key_matches)

lemma key_match_found:
  assumes finds: "finds re kind" and "kind w" and "s = before @ w @ after" and "\<not> starts_word (rev before @ l)" and "\<not> starts_word after"
  shows "w \<in> mt_text ` set (matches_from re False l s)"
  using assms(3,4)
proof (induction "length s" arbitrary: l s before rule: less_induct)
  case less
  show ?case
  proof (cases "matches_at re (l, s, [])")
    case Nil
    have "before \<noteq> []"
    proof
      assume "before = []"
      then have "(rev w @ l, after, []) \<in> set (matches_at re (l, s, []))"
        unfolding findsD(2) [OF finds] using less.prems assms(2,5) by auto
      then show False using Nil by simp
    qed
    then obtain c before' where b: "before = c # before'" by (cases before) auto
    then have "w \<in> mt_text ` set (matches_from re False (c # l) (before' @ w @ after))"
      using less.prems by (intro less.hyps [where before = before']) auto
    then show ?thesis using Nil less.prems(1) b by (subst matches_from.simps) simp
  next
    case (Cons q qs)
    then have q: "q \<in> set (matches_at re (l, s, []))" by simp
    then obtain v r where v: "s = v @ r" "q = (rev v @ l, r, [])" "kind v" "\<not> starts_word r"
      unfolding findsD(2) [OF finds] by blast
    have ne: "v \<noteq> []" using jira_key_ends(4) [OF findsD(1) [OF finds v(3)]] .
    have m: "matches_from re False l s = match_of (l, s, []) q # matches_from re False (rev v @ l) r"
      using Cons v(1,2) ne by (subst matches_from.simps) simp
    have vt: "mt_text (match_of (l, s, []) q) = v" using v(1,2) by (simp add: match_of_def)
    show ?thesis
    proof (cases "length before < length v")
      case True
      from less.prems(1) v(1) have e: "v @ r = before @ w @ after" by simp
      then obtain us where us: "v = before @ us" "us @ r = w @ after"
        using True by (auto simp: append_eq_append_conv2)
      have "us \<noteq> []" using True us(1) by auto
      then obtain c rest where c: "us = c # rest" by (cases us) auto
      have "before = []"
      proof (rule ccontr)
        assume ne': "before \<noteq> []"
        have "is_upper c" using jira_key_ends(3,4) [OF findsD(1) [OF finds assms(2)]] us(2) c by (cases w) auto
        then have "word_char (last before)" using jira_key_inner [OF findsD(1) [OF finds v(3)] us(1) [unfolded c] ne'] by simp
        then show False using less.prems(2) ne' by (cases before rule: rev_cases) auto
      qed
      then have "v = w" using jira_key_unique [OF findsD(1) [OF finds v(3)] findsD(1) [OF finds assms(2)], of r after] us v(4) assms(5) by simp
      then show ?thesis using m vt by auto
    next
      case False
      then obtain us where us: "before = v @ us" "r = us @ w @ after"
        using less.prems(1) v(1) by (auto simp: append_eq_append_conv2)
      have "w \<in> mt_text ` set (matches_from re False (rev v @ l) r)"
        using less.prems us ne by (intro less.hyps [where before = us]) auto
      then show ?thesis using m by auto
    qed
  qed
qed

text \<open>\<open>findall\<close> lists exactly the keys that stand in the text as words.\<close>

lemma findall_iff:
  assumes finds: "finds re kind"
  shows "w \<in> set (findall re s) \<longleftrightarrow> kind w \<and> word_in w s"
proof
  assume "w \<in> set (findall re s)"
  then obtain m where m: "m \<in> set (matches_from re False [] s)" "mt_text m = w"
    by (auto simp: findall_def finditer_def)
  from matches_from_sound [OF m(1)] obtain q where q: "s = mt_before m @ w @ mt_after m"
      "q \<in> set (matches_at re (rev (mt_before m), w @ mt_after m, []))"
      "m = match_of (rev (mt_before m), w @ mt_after m, []) q"
    using m(2) by auto
  then obtain v r where v: "w @ mt_after m = v @ r" "q = (rev v @ rev (mt_before m), r, [])" "kind v"
      "\<not> starts_word (rev (mt_before m))" "\<not> starts_word r"
    unfolding findsD(2) [OF finds] by blast
  have "mt_text m = v" using arg_cong [OF q(3), of mt_text] v(1,2) by (simp add: match_of_def)
  then show "kind w \<and> word_in w s" using v q(1) m(2) unfolding word_in_def by auto
next
  assume "kind w \<and> word_in w s"
  then show "w \<in> set (findall re s)"
    using key_match_found [OF finds, of w s _ _ "[]"] unfolding word_in_def findall_def finditer_def by auto
qed

lemma issue_keys_iff: "w \<in> set (issue_keys s) \<longleftrightarrow> jira_key w \<and> word_in w s"
  unfolding issue_keys_def by (rule findall_iff) (rule finds_issue_key)

lemma issue_keys_sample:
  "issue_keys ''See WRD-12, (OPS-3) and XWRD-7x; A-1 WRD-5-WRD-6'' = [''WRD-12'', ''OPS-3'', ''WRD-5'', ''WRD-6'']"
  by code_simp

end
