(* ===== verification/AnswerEvidence.thy ===== *)
theory AnswerEvidence imports PyRegex begin

text \<open>
  The evidence the assistant answers from: the dashboard models (dashboard/models.py), the
  evidence models (evidence/models.py), the facts kept of an earlier answer (task\_queries.py) and
  the selection of the evidence for one question (evidence/focus.py).  \<open>date_of\<close> is \<open>.date()\<close> of an
  aware datetime, in its own time zone.
\<close>

section \<open>Dashboard models\<close>

record project_summary =
  ps_key :: string
  ps_name :: string
  ps_total_tasks :: int
  ps_completed_tasks :: int
  ps_active_tasks :: int
  ps_overdue_tasks :: int
  ps_due_soon_tasks :: int
  ps_blocked_tasks :: int
  ps_missing_estimate_tasks :: int
  ps_completion_percent :: int

record employee_summary =
  es_employee_id :: string
  es_display_name :: string
  es_role :: "string option"
  es_skills :: "string list"
  es_capacity_hours :: "pyfloat option"
  es_remaining_hours :: "pyfloat option"
  es_active_tasks :: int
  es_score :: "int option"
  es_level :: string
  es_top_risk :: string

record task_summary =
  tk_key :: string
  tk_summary :: string
  tk_status :: string
  tk_priority :: "string option"
  tk_assignee_id :: "string option"
  tk_assignee_name :: "string option"
  tk_due_date :: "date option"
  tk_original_hours :: "pyfloat option"
  tk_remaining_hours :: "pyfloat option"
  tk_raw_remaining_hours :: "pyfloat option"
  tk_time_spent_hours :: "pyfloat option"
  tk_jira_updated_at :: "timestamp option"
  tk_data_quality_findings :: "string list"
  tk_required_skills :: "string list"
  tk_blocker :: "string option"
  tk_dependencies :: "string list"
  tk_jira_url :: string

record alert_summary =
  as_subject_id :: string
  as_severity :: string
  as_score :: int
  as_reason :: string

record workload_distribution =
  wd_overloaded :: int
  wd_balanced :: int
  wd_insufficient_data :: int

record dashboard_snapshot =
  ds_correlation_id :: string
  ds_evidence_timestamp :: timestamp
  ds_project :: project_summary
  ds_employees :: "employee_summary list"
  ds_tasks :: "task_summary list"
  ds_alerts :: "alert_summary list"
  ds_workload :: workload_distribution
  ds_degraded :: bool
  ds_missing_sources :: "string list"
  ds_missing_evidence :: "string list"

section \<open>Evidence models\<close>

datatype evidence_scope = ScopeProject | ScopeEmployee | ScopeTask | ScopeMixed

datatype evidence_category = JiraIssues | WorkforceProfiles | CapacityAndWorkload | SkillsAndSeniority | RiskResults
  | DependenciesAndBlockers | Deadlines | HistoryEvidence | OperationsEvidence

datatype entity_kind = KindProject | KindEmployee | KindTask | KindRisk | KindOperation

record evidence_entity =
  en_kind :: entity_kind
  en_identifier :: string

record evidence_plan =
  pl_scope :: evidence_scope
  pl_entities :: "evidence_entity list"
  pl_evidence_categories :: "evidence_category list"
  pl_exhaustive :: bool

record missing_data =
  md_category :: evidence_category
  md_reason :: string
  md_entity :: string
  md_required_for_claim :: bool

definition valid_missing_data :: "missing_data \<Rightarrow> bool" where
  "valid_missing_data m \<longleftrightarrow> length_between 1 500 (md_reason m) \<and> length_between 1 128 (md_entity m)"

record capacity_evidence =
  cv_employee_id :: "string option"
  cv_configured_capacity_hours :: pyfloat
  cv_workload_hours :: pyfloat
  cv_available_capacity_hours :: pyfloat
  cv_capacity_headroom_hours :: pyfloat
  cv_utilization_percent :: pyfloat

record answer_task =
  at_key :: string
  at_summary :: string
  at_status :: string
  at_priority :: string
  at_assignee :: "string option"
  at_due_date :: "date option"
  at_remaining_hours :: "pyfloat option"
  at_blocker :: "string option"
  at_dependencies :: "string list"
  at_blocked :: bool
  at_blocks_downstream :: "string list"
  at_overdue :: bool
  at_due_soon :: bool
  at_missing_fields :: "string list"

record answer_employee =
  em_employee_id :: string
  em_display_name :: string
  em_role :: "string option"
  em_skills :: "string list"
  em_capacity_hours :: "pyfloat option"
  em_remaining_hours :: "pyfloat option"
  em_available_capacity_hours :: "pyfloat option"
  em_active_tasks :: int
  em_risk_level :: string
  em_top_risk :: string
  em_task_keys :: "string list"

record answer_evidence_set =
  av_question_focus :: string
  av_tasks :: "answer_task list"
  av_required_task_keys :: "string list"
  av_employees :: "answer_employee list"
  av_exhaustive :: bool
  av_missing_data :: "missing_data list"

definition join :: "string \<Rightarrow> string list \<Rightarrow> string" where
  "join sep xs = (case xs of [] \<Rightarrow> [] | y # ys \<Rightarrow> y @ concat (map (\<lambda>z. sep @ z) ys))"

text \<open>\<open>required_tasks_are_in_evidence\<close>\<close>

definition required_tasks_in_evidence :: "answer_evidence_set \<Rightarrow> answer_evidence_set res" where
  "required_tasks_in_evidence e =
    (let evidence_keys = map (upper \<circ> at_key) (av_tasks e);
         unknown = filter (\<lambda>k. k \<notin> set evidence_keys) (map upper (av_required_task_keys e))
     in if unknown \<noteq> [] then Inl (ValueError (''required task keys must exist in task evidence: '' @ join '', '' (sorted_set unknown)))
        else Inr e)"

definition calculate_capacity :: "pyfloat option \<Rightarrow> pyfloat option \<Rightarrow> string option \<Rightarrow> capacity_evidence option" where
  "calculate_capacity configured workload_hours employee_id =
    (case configured of
       None \<Rightarrow> None
     | Some capacity \<Rightarrow>
        (if capacity \<le> 0 then None
         else let workload = (case workload_hours of None \<Rightarrow> 0 | Some w \<Rightarrow> w); headroom = fsub capacity workload in
           Some \<lparr>cv_employee_id = employee_id, cv_configured_capacity_hours = capacity, cv_workload_hours = workload,
             cv_available_capacity_hours = max headroom 0, cv_capacity_headroom_hours = headroom,
             cv_utilization_percent = fmul (fl (workload / capacity)) 100\<rparr>))"

section \<open>Facts of an earlier answer\<close>

record task_fact =
  tf_key :: string
  tf_summary :: string
  tf_status :: string
  tf_assignee :: "string option"
  tf_due_date :: "date option"
  tf_remaining_hours :: "pyfloat option"
  tf_blocker :: "string option"
  tf_dependencies :: "string list"

record grounded_context =
  gc_intent :: string
  gc_previous_question :: "string option"
  gc_issues :: "task_fact list"
  gc_employee_ids :: "string list"
  gc_exhaustive :: bool

section \<open>Selecting the evidence of a question\<close>

text \<open>\<open>any(phrase in text for phrase in phrases)\<close>\<close>

definition mentions :: "string list \<Rightarrow> string \<Rightarrow> bool" where
  "mentions phrases text \<longleftrightarrow> list_ex (\<lambda>p. occurs_in p text) phrases"

definition is_done :: "task_summary \<Rightarrow> bool" where
  "is_done t \<longleftrightarrow> casefold (tk_status t) \<in> {''done'', ''closed'', ''resolved'', ''complete'', ''completed''}"

text \<open>The truth value of an optional text\<close>

definition given :: "string option \<Rightarrow> bool" where
  "given x \<longleftrightarrow> x \<noteq> None \<and> x \<noteq> Some []"

definition is_blocked :: "task_summary \<Rightarrow> bool" where
  "is_blocked t \<longleftrightarrow> given (tk_blocker t) \<or> list_ex (\<lambda>d. starts_with ''is blocked by:'' (casefold d)) (tk_dependencies t)"

definition asks_blocked :: "string \<Rightarrow> bool" where
  "asks_blocked folded \<longleftrightarrow> mentions [''blocked'', ''blocker''] folded"

definition refers_to_prior :: "string \<Rightarrow> bool" where
  "refers_to_prior folded \<longleftrightarrow> mentions [''that task'', ''those tasks'', ''these tasks'', ''them''] folded"

definition priority_rank :: "string \<Rightarrow> nat" where
  "priority_rank p = (case map_of [(''highest'', 0), (''critical'', 0), (''high'', 1), (''medium'', 2), (''low'', 3),
       (''lowest'', 4)] p of Some n \<Rightarrow> n | None \<Rightarrow> 5)"

definition deadline_rank :: "date \<Rightarrow> task_summary \<Rightarrow> nat \<times> nat \<times> date \<times> nat \<times> pyfloat \<times> string" where
  "deadline_rank today t =
    (let due = (case tk_due_date t of Some d \<Rightarrow> d | None \<Rightarrow> 0) in
     (if due < today then 0 else 1, if is_blocked t then 0 else 1, due,
      priority_rank (casefold (case tk_priority t of Some p \<Rightarrow> p | None \<Rightarrow> [])),
      - (case tk_remaining_hours t of Some h \<Rightarrow> h | None \<Rightarrow> 0), tk_key t))"

definition due_within_week :: "date \<Rightarrow> date option \<Rightarrow> bool" where
  "due_within_week today due = (case due of None \<Rightarrow> False | Some d \<Rightarrow> today \<le> d \<and> d \<le> today + 7)"

definition overdue_on :: "date \<Rightarrow> date option \<Rightarrow> bool" where
  "overdue_on today due = (case due of None \<Rightarrow> False | Some d \<Rightarrow> d < today)"

text \<open>The spans of the names in the question, the longest first, of which none may overlap one before.\<close>

type_synonym name_span = "nat \<times> nat \<times> string"

definition name_spans :: "employee_summary list \<Rightarrow> string \<Rightarrow> name_span list" where
  "name_spans employees folded = concat (map (\<lambda>e. map (\<lambda>m. (length (mt_before m), length (mt_before m) + length (mt_text m),
       es_employee_id e)) (finditer (whole_name (casefold (es_display_name e))) folded)) employees)"

fun accept_spans :: "(nat \<times> nat) list \<Rightarrow> name_span list \<Rightarrow> string list" where
  "accept_spans accepted [] = []"
| "accept_spans accepted ((start, stop, eid) # spans) =
    (if list_ex (\<lambda>(a, b). start < b \<and> stop > a) accepted then accept_spans accepted spans
     else eid # accept_spans (accepted @ [(start, stop)]) spans)"

definition named_employees :: "employee_summary list \<Rightarrow> string \<Rightarrow> employee_summary list" where
  "named_employees employees folded =
    (let direct = map es_employee_id (filter (\<lambda>e. re_search (whole_name (casefold (es_employee_id e))) folded \<noteq> None) employees);
         spans = sort_key (\<lambda>(start, stop, eid). (int start - int stop, start)) (name_spans employees folded);
         ids = direct @ accept_spans [] spans
     in filter (\<lambda>e. es_employee_id e \<in> set ids) employees)"

definition select_employees :: "dashboard_snapshot \<Rightarrow> string \<Rightarrow> string list \<Rightarrow> bool \<Rightarrow> employee_summary list" where
  "select_employees snapshot folded explicit_ids include_all =
    (if explicit_ids \<noteq> [] then
       let wanted = map casefold explicit_ids;
           matched = filter (\<lambda>e. casefold (es_employee_id e) \<in> set wanted \<or> casefold (es_display_name e) \<in> set wanted)
             (ds_employees snapshot)
       in if matched \<noteq> [] \<or> \<not> include_all then matched else ds_employees snapshot
     else let named = named_employees (ds_employees snapshot) folded in
       if include_all \<and> named = [] then ds_employees snapshot else named)"

text \<open>\<open>dependency.split(":", 1)[1].strip()\<close>\<close>

definition after_colon :: "string \<Rightarrow> string" where
  "after_colon s = strip (drop 1 (dropWhile (\<lambda>c. c \<noteq> CHR '':'') s))"

definition task_evidence :: "date \<Rightarrow> task_summary \<Rightarrow> answer_task" where
  "task_evidence today t = \<lparr>at_key = tk_key t, at_summary = tk_summary t, at_status = tk_status t,
     at_priority = (if given (tk_priority t) then the (tk_priority t) else ''Unknown''), at_assignee = tk_assignee_name t,
     at_due_date = tk_due_date t, at_remaining_hours = tk_remaining_hours t, at_blocker = tk_blocker t,
     at_dependencies = tk_dependencies t, at_blocked = is_blocked t,
     at_blocks_downstream = map after_colon (filter (\<lambda>d. starts_with ''blocks:'' (casefold d)) (tk_dependencies t)),
     at_overdue = (\<not> is_done t \<and> overdue_on today (tk_due_date t)),
     at_due_soon = (\<not> is_done t \<and> due_within_week today (tk_due_date t)),
     at_missing_fields = (if tk_priority t = None then [''priority''] else []) @ (if tk_due_date t = None then [''due_date''] else [])
       @ (if tk_remaining_hours t = None then [''remaining_hours''] else [])\<rparr>"

definition employee_evidence :: "dashboard_snapshot \<Rightarrow> employee_summary \<Rightarrow> answer_employee" where
  "employee_evidence snapshot e = \<lparr>em_employee_id = es_employee_id e, em_display_name = es_display_name e, em_role = es_role e,
     em_skills = es_skills e, em_capacity_hours = es_capacity_hours e, em_remaining_hours = es_remaining_hours e,
     em_available_capacity_hours = (case (es_capacity_hours e, es_remaining_hours e) of
        (Some c, Some r) \<Rightarrow> Some (max (fsub c r) 0) | _ \<Rightarrow> None),
     em_active_tasks = es_active_tasks e, em_risk_level = es_level e, em_top_risk = es_top_risk e,
     em_task_keys = map tk_key (filter (\<lambda>t. tk_assignee_id t = Some (es_employee_id e)) (ds_tasks snapshot))\<rparr>"

definition focused_missing_data :: "task_summary list \<Rightarrow> employee_summary list \<Rightarrow> evidence_category set \<Rightarrow> missing_data list" where
  "focused_missing_data tasks employees requested =
    map (\<lambda>t. \<lparr>md_category = JiraIssues, md_reason = ''remaining estimate is unavailable'', md_entity = ''task:'' @ tk_key t,
        md_required_for_claim = True\<rparr>) (filter (\<lambda>t. tk_remaining_hours t = None) tasks)
    @ concat (map (\<lambda>e.
       (if (case es_capacity_hours e of None \<Rightarrow> True | Some c \<Rightarrow> c \<le> 0) then
          [\<lparr>md_category = CapacityAndWorkload, md_reason = ''configured capacity is unavailable'',
            md_entity = ''employee:'' @ es_employee_id e, md_required_for_claim = True\<rparr>] else [])
       @ (if SkillsAndSeniority \<in> requested \<and> es_skills e = [] then
          [\<lparr>md_category = SkillsAndSeniority, md_reason = ''documented skills are unavailable'',
            md_entity = ''employee:'' @ es_employee_id e, md_required_for_claim = True\<rparr>] else [])) employees)"

text \<open>The tasks a question is about and those of them that an answer has to name.\<close>

definition entity_ids :: "entity_kind \<Rightarrow> evidence_plan \<Rightarrow> string list" where
  "entity_ids kind plan = map en_identifier (filter (\<lambda>x. en_kind x = kind) (pl_entities plan))"

definition explicit_task_keys :: "string \<Rightarrow> evidence_plan \<Rightarrow> grounded_context option \<Rightarrow> string list" where
  "explicit_task_keys folded plan previous =
    (let keys = entity_ids KindTask plan in
     if keys = [] \<and> refers_to_prior folded then (case previous of None \<Rightarrow> [] | Some c \<Rightarrow> map tf_key (gc_issues c)) else keys)"

definition task_by_key :: "dashboard_snapshot \<Rightarrow> string \<Rightarrow> task_summary option" where
  "task_by_key snapshot = map_of (rev (map (\<lambda>t. (tk_key t, t)) (ds_tasks snapshot)))"

definition asked_tasks ::
  "date \<Rightarrow> dashboard_snapshot \<Rightarrow> evidence_plan \<Rightarrow> string \<Rightarrow> string list \<Rightarrow> task_summary list \<times> task_summary list" where
  "asked_tasks today snapshot plan folded explicit_keys =
    (let tasks = ds_tasks snapshot; both = (\<lambda>ts. (ts, ts)) in
     if explicit_keys \<noteq> [] then both (List.map_filter (task_by_key snapshot) explicit_keys)
     else if asks_blocked folded then both (filter is_blocked tasks)
     else if occurs_in ''missing'' folded \<and> occurs_in ''estimate'' folded
     then both (filter (\<lambda>t. \<not> is_done t \<and> tk_remaining_hours t = None) tasks)
     else if mentions [''deadline'', ''due'', ''overdue''] folded
     then let dated = sort_key (deadline_rank today) (filter (\<lambda>t. \<not> is_done t \<and> tk_due_date t \<noteq> None) tasks) in
       (if mentions [''most likely'', ''highest risk'', ''riskiest'', ''top ''] folded then both (take 5 dated)
        else if occurs_in ''overdue'' folded then (dated, filter (\<lambda>t. overdue_on today (tk_due_date t)) dated)
        else if occurs_in ''due soon'' folded then (dated, filter (\<lambda>t. due_within_week today (tk_due_date t)) dated)
        else both dated)
     else if pl_scope plan = ScopeTask then both tasks
     else ([], []))"

definition asked_employees :: "dashboard_snapshot \<Rightarrow> evidence_plan \<Rightarrow> string \<Rightarrow> employee_summary list" where
  "asked_employees snapshot plan folded =
    (let explicit = (if pl_exhaustive plan \<and> mentions [''which employees'', ''all employees'', ''employees are'', ''which people'',
            ''who is at risk''] folded then [] else entity_ids KindEmployee plan)
     in select_employees snapshot folded explicit (pl_scope plan \<in> {ScopeEmployee, ScopeMixed}))"

definition assigned_to :: "employee_summary list \<Rightarrow> task_summary \<Rightarrow> bool" where
  "assigned_to employees t \<longleftrightarrow> tk_assignee_id t \<in> Some ` es_employee_id ` set employees"

text \<open>Narrowing the tasks to the employees of the question, and the other way round.\<close>

definition focused_selection ::
  "date \<Rightarrow> dashboard_snapshot \<Rightarrow> evidence_plan \<Rightarrow> string \<Rightarrow> string list \<Rightarrow>
     task_summary list \<times> task_summary list \<times> employee_summary list" where
  "focused_selection today snapshot plan folded explicit_keys =
    (let (selected, required) = asked_tasks today snapshot plan folded explicit_keys;
         employees = asked_employees snapshot plan folded;
         (selected, required) =
           (if employees \<noteq> [] \<and> selected = [] then
              (filter (assigned_to employees) (ds_tasks snapshot), filter (assigned_to employees) (ds_tasks snapshot))
            else if employees \<noteq> [] \<and> pl_scope plan = ScopeTask \<and> explicit_keys = [] then
              (filter (assigned_to employees) selected,
               filter (\<lambda>t. tk_key t \<in> tk_key ` set required) (filter (assigned_to employees) selected))
            else (selected, required));
         employees =
           (if selected \<noteq> [] \<and> employees = [] then
              filter (\<lambda>e. es_employee_id e \<noteq> [] \<and> Some (es_employee_id e) \<in> tk_assignee_id ` set selected) (ds_employees snapshot)
            else employees)
     in (selected, required, employees))"

definition build_answer_evidence ::
  "(timestamp \<Rightarrow> date) \<Rightarrow> string \<Rightarrow> dashboard_snapshot \<Rightarrow> evidence_plan \<Rightarrow> grounded_context option \<Rightarrow> answer_evidence_set res" where
  "build_answer_evidence date_of question snapshot plan previous =
    (let folded = casefold question; today = date_of (ds_evidence_timestamp snapshot);
         explicit_keys = explicit_task_keys folded plan previous;
         (selected, required, employees) = focused_selection today snapshot plan folded explicit_keys;
         missing = focused_missing_data selected employees (set (pl_evidence_categories plan))
     in if \<not> list_all valid_missing_data missing then Inl (ValidationError ''MissingData'')
        else required_tasks_in_evidence
          \<lparr>av_question_focus = question, av_tasks = map (task_evidence today) selected,
           av_required_task_keys = map tk_key required, av_employees = map (employee_evidence snapshot) employees,
           av_exhaustive = pl_exhaustive plan,
           av_missing_data = missing\<rparr>)"

definition answer_context_from_evidence :: "answer_evidence_set \<Rightarrow> grounded_context" where
  "answer_context_from_evidence e =
    (let required = map upper (av_required_task_keys e);
         tasks = (if required \<noteq> [] then filter (\<lambda>t. upper (at_key t) \<in> set required) (av_tasks e) else av_tasks e)
     in \<lparr>gc_intent = ''focused_project_evidence'', gc_previous_question = Some (av_question_focus e),
         gc_issues = map (\<lambda>t. \<lparr>tf_key = at_key t, tf_summary = at_summary t, tf_status = at_status t, tf_assignee = at_assignee t,
            tf_due_date = at_due_date t, tf_remaining_hours = at_remaining_hours t, tf_blocker = at_blocker t,
            tf_dependencies = at_dependencies t\<rparr>) tasks,
         gc_employee_ids = map em_employee_id (av_employees e), gc_exhaustive = av_exhaustive e\<rparr>)"

section \<open>Properties of the selection\<close>

lemma task_by_key_in: "task_by_key snapshot k = Some t \<Longrightarrow> t \<in> set (ds_tasks snapshot)"
  by (auto simp: task_by_key_def dest: map_of_SomeD)

lemma asked_tasks_sub:
  assumes "asked_tasks today snapshot plan folded keys = (sel, req)"
  shows "set sel \<subseteq> set (ds_tasks snapshot)" and "set req \<subseteq> set sel"
proof -
  have k: "set (List.map_filter (task_by_key snapshot) keys) \<subseteq> set (ds_tasks snapshot)"
    using task_by_key_in by (fastforce simp: List.map_filter_def)
  show "set sel \<subseteq> set (ds_tasks snapshot)" "set req \<subseteq> set sel"
    using assms k by (auto simp: asked_tasks_def Let_def dest: in_set_takeD split: if_splits)
qed

lemma select_employees_sub: "set (select_employees snapshot folded ids all) \<subseteq> set (ds_employees snapshot)"
  by (auto simp: select_employees_def named_employees_def Let_def)

lemma focused_selection_sub:
  assumes "focused_selection today snapshot plan folded keys = (sel, req, emps)"
  shows "set sel \<subseteq> set (ds_tasks snapshot)" and "set req \<subseteq> set sel" and "set emps \<subseteq> set (ds_employees snapshot)"
proof -
  obtain s r where a: "asked_tasks today snapshot plan folded keys = (s, r)" by fastforce
  have e: "set (asked_employees snapshot plan folded) \<subseteq> set (ds_employees snapshot)"
    by (simp add: asked_employees_def Let_def select_employees_sub)
  note s = asked_tasks_sub [OF a]
  show "set sel \<subseteq> set (ds_tasks snapshot)" "set req \<subseteq> set sel" "set emps \<subseteq> set (ds_employees snapshot)"
    using assms s e by (auto simp: focused_selection_def a Let_def split: if_splits)
qed

lemma missing_data_valid:
  assumes "\<forall>t \<in> set tasks. length (tk_key t) \<le> 123" and "\<forall>e \<in> set employees. length (es_employee_id e) \<le> 119"
  shows "list_all valid_missing_data (focused_missing_data tasks employees requested)"
  using assms by (auto simp: list_all_iff focused_missing_data_def valid_missing_data_def length_between_def)

text \<open>
  The evidence of a question is always built, and from the snapshot alone.  For keys and identifiers of
  a storable length, whatever the question, the plan and the earlier answer, the
  selection succeeds, its tasks and employees are those of the snapshot described as they are there,
  every task an answer has to name is among its tasks, and it is exhaustive when the plan is.
\<close>

theorem answer_evidence_of_snapshot:
  assumes "\<forall>t \<in> set (ds_tasks snapshot). length (tk_key t) \<le> 123"
    and "\<forall>e \<in> set (ds_employees snapshot). length (es_employee_id e) \<le> 119"
  shows "\<exists>ev tasks employees required. build_answer_evidence date_of question snapshot plan previous = Inr ev \<and>
     set tasks \<subseteq> set (ds_tasks snapshot) \<and> set employees \<subseteq> set (ds_employees snapshot) \<and> set required \<subseteq> set tasks \<and>
     av_tasks ev = map (task_evidence (date_of (ds_evidence_timestamp snapshot))) tasks \<and>
     av_employees ev = map (employee_evidence snapshot) employees \<and> av_required_task_keys ev = map tk_key required \<and>
     av_question_focus ev = question \<and> av_exhaustive ev = pl_exhaustive plan"
proof -
  let ?folded = "casefold question" and ?today = "date_of (ds_evidence_timestamp snapshot)"
  obtain sel req emps where f: "focused_selection ?today snapshot plan ?folded (explicit_task_keys ?folded plan previous) = (sel, req, emps)"
    using prod_cases3 by blast
  note sub = focused_selection_sub [OF f]
  have v: "list_all valid_missing_data (focused_missing_data sel emps requested)" for requested
    using assms sub(1,3) by (intro missing_data_valid) auto
  have k: "filter (\<lambda>k. k \<notin> set (map (upper \<circ> at_key) (map (task_evidence ?today) sel))) (map upper (map tk_key req)) = []"
    using sub(2) by (auto simp: filter_empty_conv task_evidence_def)
  define ev where "ev = \<lparr>av_question_focus = question, av_tasks = map (task_evidence ?today) sel,
     av_required_task_keys = map tk_key req, av_employees = map (employee_evidence snapshot) emps,
     av_exhaustive = pl_exhaustive plan,
     av_missing_data = focused_missing_data sel emps (set (pl_evidence_categories plan))\<rparr>"
  have "build_answer_evidence date_of question snapshot plan previous = Inr ev"
    using k by (simp add: build_answer_evidence_def f v required_tasks_in_evidence_def Let_def ev_def)
  then show ?thesis
    by (intro exI [of _ ev] exI [of _ sel] exI [of _ emps] exI [of _ req]) (simp add: sub ev_def)
qed

section \<open>Witnesses\<close>

definition sample_task :: task_summary where
  "sample_task = \<lparr>tk_key = ''WRD-1'', tk_summary = ''Login'', tk_status = ''Open'', tk_priority = None, tk_assignee_id = None,
     tk_assignee_name = None, tk_due_date = None, tk_original_hours = None, tk_remaining_hours = None, tk_raw_remaining_hours = None,
     tk_time_spent_hours = None, tk_jira_updated_at = None, tk_data_quality_findings = [], tk_required_skills = [],
     tk_blocker = None, tk_dependencies = [''is blocked by: WRD-2''], tk_jira_url = ''u''\<rparr>"

definition sample_employee :: employee_summary where
  "sample_employee = \<lparr>es_employee_id = ''EMP-1'', es_display_name = ''Ada'', es_role = None, es_skills = [''SQL''],
     es_capacity_hours = Some 40, es_remaining_hours = Some 10, es_active_tasks = 1, es_score = Some 10, es_level = ''low'',
     es_top_risk = ''none''\<rparr>"

definition sample_snapshot :: dashboard_snapshot where
  "sample_snapshot = \<lparr>ds_correlation_id = ''c'', ds_evidence_timestamp = 0,
     ds_project = \<lparr>ps_key = ''WRD'', ps_name = ''W'', ps_total_tasks = 1, ps_completed_tasks = 0, ps_active_tasks = 1, ps_overdue_tasks = 0,
       ps_due_soon_tasks = 0, ps_blocked_tasks = 1, ps_missing_estimate_tasks = 1, ps_completion_percent = 0\<rparr>,
     ds_employees = [sample_employee], ds_tasks = [sample_task], ds_alerts = [],
     ds_workload = \<lparr>wd_overloaded = 0, wd_balanced = 1, wd_insufficient_data = 0\<rparr>, ds_degraded = False,
     ds_missing_sources = [], ds_missing_evidence = []\<rparr>"

definition sample_plan :: evidence_plan where
  "sample_plan = \<lparr>pl_scope = ScopeTask, pl_entities = [], pl_evidence_categories = [JiraIssues], pl_exhaustive = True\<rparr>"

lemma answer_evidence_of_snapshot_witness:
  "\<exists>ev. build_answer_evidence (\<lambda>t. 0) ''List the tasks'' sample_snapshot sample_plan None = Inr ev \<and> av_exhaustive ev"
proof -
  have "\<forall>t \<in> set (ds_tasks sample_snapshot). length (tk_key t) \<le> 123"
    "\<forall>e \<in> set (ds_employees sample_snapshot). length (es_employee_id e) \<le> 119"
    by (simp_all add: sample_snapshot_def sample_task_def sample_employee_def)
  from answer_evidence_of_snapshot [OF this, of "\<lambda>t. 0" "''List the tasks''" sample_plan None]
  show ?thesis by (auto simp: sample_plan_def)
qed

end
