(* ===== verification/Planning.thy ===== *)
theory Planning imports AnswerEvidence begin

text \<open>
  How the assistant decides which evidence to read: the planner that asks the language model for a
  plan (evidence/planner.py), the references of a question to the conversation
  (evidence/references.py) and the normalisation of the plan against the question
  (evidence/normalizer.py).  The model is an argument: a call that returns a text or raises.
\<close>

section \<open>The planner\<close>

definition all_categories :: "evidence_category list" where
  "all_categories = [JiraIssues, WorkforceProfiles, CapacityAndWorkload, SkillsAndSeniority, RiskResults,
     DependenciesAndBlockers, Deadlines, HistoryEvidence, OperationsEvidence]"

definition conservative_read_plan :: evidence_plan where
  "conservative_read_plan = \<lparr>pl_scope = ScopeMixed, pl_entities = [], pl_evidence_categories = all_categories, pl_exhaustive = True\<rparr>"

definition scope_of :: "string \<Rightarrow> evidence_scope option" where
  "scope_of = map_of [(''project'', ScopeProject), (''employee'', ScopeEmployee), (''task'', ScopeTask), (''mixed'', ScopeMixed)]"

definition category_of :: "string \<Rightarrow> evidence_category option" where
  "category_of = map_of [(''jira_issues'', JiraIssues), (''workforce_profiles'', WorkforceProfiles),
     (''capacity_and_workload'', CapacityAndWorkload), (''skills_and_seniority'', SkillsAndSeniority),
     (''risk_results'', RiskResults), (''dependencies_and_blockers'', DependenciesAndBlockers), (''deadlines'', Deadlines),
     (''history'', HistoryEvidence), (''operations'', OperationsEvidence)]"

definition kind_of :: "string \<Rightarrow> entity_kind option" where
  "kind_of = map_of [(''project'', KindProject), (''employee'', KindEmployee), (''task'', KindTask), (''risk'', KindRisk),
     (''operation'', KindOperation)]"

fun all_some :: "'a option list \<Rightarrow> 'a list option" where
  "all_some [] = Some []"
| "all_some (None # xs) = None"
| "all_some (Some x # xs) = map_option (\<lambda>ys. x # ys) (all_some xs)"

text \<open>Validation of a JSON value against the models; \<open>json_bool\<close> is pydantic's reading of a bool.\<close>

definition entity_of :: "json \<Rightarrow> evidence_entity option" where
  "entity_of j = (case j of
     JObj fs \<Rightarrow>
      (if set (map fst fs) \<noteq> {''kind'', ''identifier''} then None
       else case (Option.bind (Option.bind (map_of fs ''kind'') text_of) kind_of, Option.bind (map_of fs ''identifier'') text_of) of
         (Some k, Some i) \<Rightarrow> if length_between 1 128 i then Some \<lparr>en_kind = k, en_identifier = i\<rparr> else None
       | _ \<Rightarrow> None)
   | _ \<Rightarrow> None)"

definition make_plan ::
  "evidence_scope option \<Rightarrow> evidence_entity list option \<Rightarrow> evidence_category list option \<Rightarrow> bool option \<Rightarrow> evidence_plan option" where
  "make_plan scope entities categories exhaustive = (case (scope, entities, categories, exhaustive) of
     (Some s, Some es, Some cs, Some x) \<Rightarrow>
       if cs = [] then None
       else Some \<lparr>pl_scope = s, pl_entities = es, pl_evidence_categories = cs, pl_exhaustive = x\<rparr>
   | _ \<Rightarrow> None)"

definition plan_of :: "(json \<Rightarrow> bool option) \<Rightarrow> json \<Rightarrow> evidence_plan option" where
  "plan_of json_bool j = (case j of
     JObj fs \<Rightarrow>
      (if \<not> set (map fst fs) \<subseteq> {''scope'', ''entities'', ''evidence_categories'', ''exhaustive''} then None
       else make_plan (Option.bind (Option.bind (map_of fs ''scope'') text_of) scope_of)
         (case map_of fs ''entities'' of None \<Rightarrow> Some [] | Some (JList js) \<Rightarrow> all_some (map entity_of js) | _ \<Rightarrow> None)
         (case map_of fs ''evidence_categories'' of
            Some (JList js) \<Rightarrow> all_some (map (\<lambda>x. Option.bind (text_of x) category_of) js) | _ \<Rightarrow> None)
         (case map_of fs ''exhaustive'' of None \<Rightarrow> Some False | Some b \<Rightarrow> json_bool b))
   | _ \<Rightarrow> None)"

text \<open>\<open>value.split("\n", 1)[1].rsplit("```", 1)[0]\<close> of a fenced reply; without a line break IndexError.\<close>

definition fence :: string where
  "fence = [CHR 0x60, CHR 0x60, CHR 0x60]"

fun before_last_fence :: "string \<Rightarrow> string option" where
  "before_last_fence [] = None"
| "before_last_fence (c # s) = (case before_last_fence s of
     Some r \<Rightarrow> Some (c # r)
   | None \<Rightarrow> if starts_with fence (c # s) then Some [] else None)"

definition unfenced :: "string \<Rightarrow> string res" where
  "unfenced raw =
    (let value = strip raw in
     if \<not> starts_with fence value then Inr value
     else case dropWhile (\<lambda>c. c \<noteq> CHR 0x0A) value of
       [] \<Rightarrow> Inl (OtherException ''IndexError'')
     | _ # rest \<Rightarrow> Inr (case before_last_fence rest of None \<Rightarrow> rest | Some r \<Rightarrow> r))"

text \<open>One reply: the plan, the conservative plan for an unreadable one, or an error that escapes.\<close>

definition plan_of_reply :: "(string \<Rightarrow> json option) \<Rightarrow> (json \<Rightarrow> bool option) \<Rightarrow> string \<Rightarrow> evidence_plan res" where
  "plan_of_reply loads json_bool raw = bindr (unfenced raw) (\<lambda>value.
     Inr (case Option.bind (loads value) (plan_of json_bool) of
        Some plan \<Rightarrow> if distinct (pl_evidence_categories plan) then plan else conservative_read_plan
      | None \<Rightarrow> conservative_read_plan))"

definition read_as_value_error :: "py_error \<Rightarrow> bool" where
  "read_as_value_error e \<longleftrightarrow> (case e of ValueError _ \<Rightarrow> True | ValidationError _ \<Rightarrow> True | _ \<Rightarrow> False)"

fun plan_attempts ::
  "('w \<Rightarrow> string res \<times> 'w) \<Rightarrow> (string \<Rightarrow> json option) \<Rightarrow> (json \<Rightarrow> bool option) \<Rightarrow> nat \<Rightarrow> 'w \<Rightarrow> evidence_plan res \<times> 'w" where
  "plan_attempts invoke loads json_bool 0 w = (Inl (OtherException ''RuntimeError''), w)"
| "plan_attempts invoke loads json_bool (Suc left) w =
    (let (reply, w') = invoke w in
     case bindr reply (plan_of_reply loads json_bool) of
       Inr plan \<Rightarrow> (Inr plan, w')
     | Inl e \<Rightarrow>
        (if transient e then (if left > 0 then plan_attempts invoke loads json_bool left w' else (Inl e, w'))
         else if read_as_value_error e then (Inr conservative_read_plan, w') else (Inl e, w')))"

text \<open>The payload of the call; \<open>context_json\<close> is \<open>model_dump\<close> of the earlier answer.\<close>

definition planner_payload ::
  "(grounded_context \<Rightarrow> json) \<Rightarrow> string \<Rightarrow> string \<Rightarrow> string option \<Rightarrow> grounded_context option \<Rightarrow> string \<Rightarrow> json" where
  "planner_payload context_json question project_key employee_id previous correlation_id = JObj [
     (''question'', JStr (take 1000 question)), (''project_key'', JStr project_key),
     (''selected_employee_id'', (case employee_id of None \<Rightarrow> JNull | Some e \<Rightarrow> JStr e)),
     (''previous_context'', (case previous of None \<Rightarrow> JNull | Some c \<Rightarrow> context_json c)),
     (''correlation_id'', JStr correlation_id)]"

definition plan_evidence ::
  "(json \<Rightarrow> 'w \<Rightarrow> string res \<times> 'w) \<Rightarrow> (string \<Rightarrow> json option) \<Rightarrow> (json \<Rightarrow> bool option) \<Rightarrow> (grounded_context \<Rightarrow> json) \<Rightarrow> int
     \<Rightarrow> string \<Rightarrow> string \<Rightarrow> string option \<Rightarrow> grounded_context option \<Rightarrow> string \<Rightarrow> 'w \<Rightarrow> evidence_plan res \<times> 'w" where
  "plan_evidence invoke loads json_bool context_json max_attempts question project_key employee_id previous correlation_id w =
     plan_attempts (invoke (planner_payload context_json question project_key employee_id previous correlation_id))
       loads json_bool (nat (max 1 max_attempts)) w"

section \<open>References to the conversation\<close>

record resolved_context =
  rc_entities :: "evidence_entity list"
  rc_needs_clarification :: bool

definition words_re :: "string list \<Rightarrow> regex" where
  "words_re ws = alt_of (map lit_i ws)"

definition singular_re :: regex where
  "singular_re = RAlt (seq_of [RBoundary, words_re [''that'', ''this'', ''it''], some_of is_space,
       opt (words_re [''task'', ''issue'', ''risk'', ''employee'']), RBoundary])
     (seq_of [RBoundary, lit_i ''it'', RBoundary])"

definition plural_re :: regex where
  "plural_re = seq_of [RBoundary, words_re [''those'', ''these'', ''them''], any_of is_space,
     opt (words_re [''tasks'', ''issues'', ''employees'']), RBoundary]"

definition plural_employee_re :: regex where
  "plural_employee_re = seq_of [RBoundary, words_re [''those'', ''these''], some_of is_space, lit_i ''employees'', RBoundary]"

definition singular_employee_re :: regex where
  "singular_employee_re = seq_of [RBoundary, words_re [''that'', ''this''], some_of is_space, lit_i ''employee'', RBoundary]"

definition found :: "regex \<Rightarrow> string \<Rightarrow> bool" where
  "found r s \<longleftrightarrow> re_search r s \<noteq> None"

definition resolve_references :: "string \<Rightarrow> grounded_context option \<Rightarrow> resolved_context" where
  "resolve_references question previous = (case previous of
     None \<Rightarrow> \<lparr>rc_entities = [], rc_needs_clarification = False\<rparr>
   | Some c \<Rightarrow>
      (let issues = map (\<lambda>i. \<lparr>en_kind = KindTask, en_identifier = tf_key i\<rparr>) (gc_issues c);
           employees = map (\<lambda>e. \<lparr>en_kind = KindEmployee, en_identifier = e\<rparr>) (gc_employee_ids c)
       in if found plural_employee_re question then \<lparr>rc_entities = employees, rc_needs_clarification = False\<rparr>
          else if found singular_employee_re question
          then \<lparr>rc_entities = employees, rc_needs_clarification = (length employees \<noteq> 1)\<rparr>
          else if found plural_re question
          then \<lparr>rc_entities = (if issues \<noteq> [] then issues else employees), rc_needs_clarification = False\<rparr>
          else if found singular_re question
          then \<lparr>rc_entities = issues, rc_needs_clarification = (length issues \<noteq> 1)\<rparr>
          else \<lparr>rc_entities = [], rc_needs_clarification = False\<rparr>))"

section \<open>Normalising the plan\<close>

definition task_language :: "string \<Rightarrow> bool" where
  "task_language folded \<longleftrightarrow> mentions [''task'', ''work item'', ''issue'', ''deadline'', ''due'', ''blocked'', ''blocker'',
     ''dependency'', ''estimate''] folded"

definition employee_language :: "string \<Rightarrow> bool" where
  "employee_language folded \<longleftrightarrow> mentions [''employee'', ''people'', ''person'', ''capacity'', ''workload'', ''skill'', ''assignee'',
     ''who has'', ''who is at risk''] folded"

definition refers_to_prior_tasks :: "string \<Rightarrow> grounded_context option \<Rightarrow> bool" where
  "refers_to_prior_tasks folded previous \<longleftrightarrow> (case previous of None \<Rightarrow> False | Some c \<Rightarrow> gc_issues c \<noteq> []) \<and>
     mentions [''that task'', ''those tasks'', ''these tasks'', ''them''] folded"

text \<open>\<open>require(category)\<close> for each condition in turn\<close>

definition required_categories :: "string \<Rightarrow> bool \<Rightarrow> (bool \<times> evidence_category) list" where
  "required_categories folded prior = [
     (task_language folded \<or> prior, JiraIssues),
     (mentions [''blocked'', ''blocker'', ''dependency''] folded, DependenciesAndBlockers),
     (mentions [''deadline'', ''due'', ''overdue''] folded, Deadlines),
     (employee_language folded, WorkforceProfiles),
     (mentions [''capacity'', ''workload'', ''available'', ''risk''] folded, CapacityAndWorkload),
     (mentions [''skill'', ''fit'', ''qualified''] folded, SkillsAndSeniority),
     (mentions [''history'', ''historical'', ''improved'', ''changed'', ''progressed'', ''progress over'', ''since yesterday'',
        ''this week'', ''last week'', ''previously'', ''before'', ''trend''] folded, HistoryEvidence)]"

definition add_new :: "'a list \<Rightarrow> 'a \<Rightarrow> 'a list" where
  "add_new xs x = (if x \<in> set xs then xs else xs @ [x])"

definition with_categories :: "evidence_category list \<Rightarrow> (bool \<times> evidence_category) list \<Rightarrow> evidence_category list" where
  "with_categories = foldl (\<lambda>cs (wanted, c). if wanted then add_new cs c else cs)"

definition task_entity :: "string \<Rightarrow> evidence_entity" where
  "task_entity key = \<lparr>en_kind = KindTask, en_identifier = key\<rparr>"

definition normalize_evidence_plan :: "string \<Rightarrow> evidence_plan \<Rightarrow> grounded_context option \<Rightarrow> evidence_plan" where
  "normalize_evidence_plan question planned previous =
    (let folded = casefold question; tasks = task_language folded; employees = employee_language folded;
         prior = refers_to_prior_tasks folded previous;
         scope = (if prior \<or> tasks \<and> \<not> employees then ScopeTask else if employees \<and> \<not> tasks then ScopeEmployee
           else if employees \<and> tasks then ScopeMixed else pl_scope planned);
         categories = with_categories (pl_evidence_categories planned) (required_categories folded prior);
         exhaustive = (pl_exhaustive planned \<or> mentions [''which '', ''list '', ''all '', ''name those'', ''name the ''] folded);
         project_wide = (exhaustive \<and> employees \<and> \<not> tasks \<and>
           mentions [''which employees'', ''all employees'', ''employees are'', ''which people'', ''who is at risk''] folded);
         entities = foldl add_new (if project_wide then [] else pl_entities planned)
           (map task_entity (issue_keys (upper question) @
              (if prior then (case previous of None \<Rightarrow> [] | Some c \<Rightarrow> map tf_key (gc_issues c)) else [])))
     in planned\<lparr>pl_scope := (if list_ex (\<lambda>x. en_kind x = KindTask) entities then ScopeTask else scope),
          pl_entities := entities, pl_evidence_categories := categories, pl_exhaustive := exhaustive\<rparr>)"

section \<open>Properties of the plan\<close>

lemma add_new_foldl:
  "set (foldl add_new xs ys) = set xs \<union> set ys" "set ys \<subseteq> set xs \<Longrightarrow> foldl add_new xs ys = xs"
  by (induction ys arbitrary: xs) (auto simp: add_new_def)

lemma with_categories_set:
  "set (with_categories cs rs) = set cs \<union> {c. (True, c) \<in> set rs}"
proof (induction rs arbitrary: cs)
  case (Cons x rs)
  obtain w c where x: "x = (w, c)" by fastforce
  have "with_categories cs (x # rs) = with_categories (if w then add_new cs c else cs) rs"
    by (simp add: with_categories_def x)
  then show ?case using Cons by (auto simp: x add_new_def)
qed (simp add: with_categories_def)

lemma with_categories_id: "{c. (True, c) \<in> set rs} \<subseteq> set cs \<Longrightarrow> with_categories cs rs = cs"
proof (induction rs)
  case (Cons x rs)
  obtain w c where x: "x = (w, c)" by fastforce
  have "with_categories cs (x # rs) = with_categories (if w then add_new cs c else cs) rs"
    by (simp add: with_categories_def x)
  then show ?case using Cons by (auto simp: x add_new_def)
qed (simp add: with_categories_def)



section \<open>Properties of the planner\<close>

text \<open>The world with the number of calls made so far\<close>

definition counted :: "('w \<Rightarrow> string res \<times> 'w) \<Rightarrow> 'w \<times> nat \<Rightarrow> string res \<times> 'w \<times> nat" where
  "counted invoke s = (let (r, w) = invoke (fst s) in (r, w, Suc (snd s)))"

definition usable_plan :: "evidence_plan \<Rightarrow> bool" where
  "usable_plan p \<longleftrightarrow> pl_evidence_categories p \<noteq> [] \<and> distinct (pl_evidence_categories p)"

lemma conservative_usable: "usable_plan conservative_read_plan"
  by (simp add: usable_plan_def conservative_read_plan_def all_categories_def)

lemma plan_of_reply_usable: "plan_of_reply loads json_bool raw = Inr plan \<Longrightarrow> usable_plan plan"
proof -
  assume a: "plan_of_reply loads json_bool raw = Inr plan"
  have "pl_evidence_categories p \<noteq> []" if "plan_of json_bool j = Some p" for j p
  proof -
    have "pl_evidence_categories p \<noteq> []" if "make_plan sc es cs x = Some p" for sc es cs x
      using that by (auto simp: make_plan_def split: option.splits if_splits)
    with that show ?thesis by (cases j) (simp_all add: plan_of_def split: if_splits)
  qed
  with a show ?thesis using conservative_usable
    by (auto simp: plan_of_reply_def usable_plan_def bindr_Inr_iff bind_eq_Some_conv split: option.splits if_splits)
qed

text \<open>
  Planning always ends with a usable plan or a reason.  The planner calls the model at most
  \<open>max_attempts\<close> times and at least once; a plan it returns has at least one category and none
  twice, whatever text the model sent; a transient failure is returned only when every
  allowed call was made, and no unreadable value escapes as an error.
\<close>

theorem planner_bounded:
  assumes "plan_attempts (counted invoke) loads json_bool (Suc left) (w, n) = (r, w', n')"
  shows "n < n' \<and> n' \<le> n + Suc left \<and> (\<forall>plan. r = Inr plan \<longrightarrow> usable_plan plan) \<and>
    (\<forall>e. r = Inl e \<longrightarrow> (transient e \<longrightarrow> n' = n + Suc left) \<and> \<not> read_as_value_error e)"
  using assms
proof (induction left arbitrary: w n)
  case 0
  obtain reply v where i: "invoke w = (reply, v)" by fastforce
  show ?case
  proof (cases "bindr reply (plan_of_reply loads json_bool)")
    case (Inl e)
    then show ?thesis using 0 conservative_usable
      by (auto simp: counted_def i read_as_value_error_def split: if_splits py_error.splits)
  next
    case (Inr plan)
    then have "usable_plan plan" using plan_of_reply_usable by (auto simp: bindr_Inr_iff)
    then show ?thesis using 0 Inr by (auto simp: counted_def i)
  qed
next
  case (Suc left)
  obtain reply v where i: "invoke w = (reply, v)" by fastforce
  show ?case
  proof (cases "bindr reply (plan_of_reply loads json_bool)")
    case (Inl e)
    show ?thesis
    proof (cases "transient e")
      case True
      then have "plan_attempts (counted invoke) loads json_bool (Suc left) (v, Suc n) = (r, w', n')"
        using Suc.prems Inl unfolding plan_attempts.simps(2) [where left = "Suc left"]
        by (simp add: counted_def i del: plan_attempts.simps)
      then show ?thesis using Suc.IH [of v "Suc n"] by auto
    next
      case False
      then show ?thesis using Suc.prems Inl conservative_usable by (auto simp: counted_def i split: if_splits)
    qed
  next
    case (Inr plan)
    then have "usable_plan plan" using plan_of_reply_usable by (auto simp: bindr_Inr_iff)
    then show ?thesis using Suc.prems Inr by (auto simp: counted_def i)
  qed
qed

lemma planner_bounded_witness:
  "\<exists>r w' n'. plan_attempts (counted (\<lambda>w. if w = 0 then (Inl TimeoutError, Suc w) else (Inr ''no plan'', Suc w))) (\<lambda>s. None) (\<lambda>j. None) 2 (0, 0)
     = (r, w', n') \<and> n' \<le> 2 \<and> r = Inr conservative_read_plan"
proof -
  have c: "plan_attempts (counted (\<lambda>w. if w = 0 then (Inl TimeoutError, Suc w) else (Inr ''no plan'', Suc w))) (\<lambda>s. None) (\<lambda>j. None) (Suc 1) (0, 0)
      = (Inr conservative_read_plan, 2, 2)" by code_simp
  show ?thesis using planner_bounded [OF c] c by (simp add: numeral_2_eq_2)
qed

end
