(* ===== verification/Collection.thy ===== *)
theory Collection imports Planning begin

text \<open>
  Collecting the evidence of a plan: the ranking of the employees a task could be reassigned to
  (evidence/derivation.py), the bundle given to the language model (evidence/models.py) and the
  collector that fills it from the project snapshot and the stored history (evidence/collectors.py).
  The readers of the snapshot and the history are arguments: what they return or raise.
\<close>

section \<open>Ranking of the candidates\<close>

record ranked_candidate =
  rx_employee_id :: string
  rx_display_name :: string
  rx_role :: "string option"
  rx_seniority :: "string option"
  rx_rank :: nat
  rx_capacity_headroom_hours :: "pyfloat option"
  rx_matching_skills :: "string list"
  rx_missing_required_skills :: "string list"
  rx_eligible :: bool
  rx_reasons :: "string list"

datatype ranking_status = RankingSuccess | RankingInsufficientData | RankingNoCandidates

record ranking_result =
  rr_status :: ranking_status
  rr_candidates :: "ranked_candidate list"
  rr_missing_data :: "missing_data list"

definition seniority_of :: "string option \<Rightarrow> string option" where
  "seniority_of role = List.find (\<lambda>level. occurs_in level (casefold (case role of None \<Rightarrow> [] | Some r \<Rightarrow> r)))
     [''lead'', ''senior'', ''mid'', ''junior'']"

definition matching_skills :: "string set \<Rightarrow> employee_summary \<Rightarrow> string list" where
  "matching_skills required e = sorted_set (filter (\<lambda>s. s \<in> required) (map casefold (es_skills e)))"

definition capacity_of :: "employee_summary \<Rightarrow> capacity_evidence option" where
  "capacity_of e = calculate_capacity (es_capacity_hours e) (es_remaining_hours e) (Some (es_employee_id e))"

text \<open>The missing skills as a list: \<open>required\<close> is the set in the order of a list.\<close>

definition candidate_for :: "string list \<Rightarrow> employee_summary \<Rightarrow> ranked_candidate" where
  "candidate_for required e =
    (let capacity = capacity_of e; documented = map casefold (es_skills e);
         matching = matching_skills (set required) e;
         missing = sorted_set (filter (\<lambda>s. s \<notin> set documented) required);
         eligible = (case capacity of None \<Rightarrow> False | Some c \<Rightarrow> cv_capacity_headroom_hours c > 0 \<and> missing = [])
     in \<lparr>rx_employee_id = es_employee_id e, rx_display_name = es_display_name e, rx_role = es_role e,
         rx_seniority = seniority_of (es_role e), rx_rank = 1,
         rx_capacity_headroom_hours = map_option cv_capacity_headroom_hours capacity,
         rx_matching_skills = matching, rx_missing_required_skills = missing, rx_eligible = eligible,
         rx_reasons = (case capacity of
              None \<Rightarrow> [''configured capacity is unavailable'']
            | Some c \<Rightarrow> if cv_capacity_headroom_hours c \<le> 0 then [''no positive capacity headroom''] else [])
          @ (if missing \<noteq> [] then [''missing required skills: '' @ join '', '' missing] else [])
          @ (if eligible then [''documented skills match and capacity headroom is positive''] else [])\<rparr>)"

definition candidate_missing_data :: "string list \<Rightarrow> employee_summary \<Rightarrow> missing_data list" where
  "candidate_missing_data required e =
    (if capacity_of e = None then [\<lparr>md_category = CapacityAndWorkload, md_reason = ''configured candidate capacity is unavailable'',
        md_entity = ''employee:'' @ es_employee_id e, md_required_for_claim = False\<rparr>] else [])
    @ (if required \<noteq> [] \<and> es_skills e = [] then [\<lparr>md_category = SkillsAndSeniority,
        md_reason = ''documented candidate skills are unavailable'', md_entity = ''employee:'' @ es_employee_id e,
        md_required_for_claim = False\<rparr>] else [])"

definition candidate_key :: "ranked_candidate \<Rightarrow> nat \<times> int \<times> pyfloat \<times> string" where
  "candidate_key c = (if rx_eligible c then 0 else 1, - int (length (rx_matching_skills c)),
     (case rx_capacity_headroom_hours c of None \<Rightarrow> 10000 | Some h \<Rightarrow> - h), rx_employee_id c)"

definition numbered :: "ranked_candidate list \<Rightarrow> ranked_candidate list" where
  "numbered cs = map (\<lambda>(i, c). c\<lparr>rx_rank := i\<rparr>) (enumerate 1 cs)"

text \<open>The set of required skills as a sorted list\<close>

definition required_skill_list :: "dashboard_snapshot \<Rightarrow> string \<Rightarrow> string list" where
  "required_skill_list snapshot source_id =
    (let source = List.find (\<lambda>e. es_employee_id e = source_id) (ds_employees snapshot);
         source_name = map_option (casefold \<circ> es_display_name) source;
         of_source = (\<lambda>t. tk_assignee_id t = Some source_id \<or>
            source_name = Some (casefold (case tk_assignee_name t of None \<Rightarrow> [] | Some n \<Rightarrow> n)))
     in sorted_set (map casefold (concat (map tk_required_skills (filter of_source (ds_tasks snapshot))))))"

definition rank_reassignment_candidates :: "dashboard_snapshot \<Rightarrow> string \<Rightarrow> ranking_result res" where
  "rank_reassignment_candidates snapshot source_id =
    (let required = required_skill_list snapshot source_id;
         others = filter (\<lambda>e. es_employee_id e \<noteq> source_id) (ds_employees snapshot);
         missing = concat (map (candidate_missing_data required) others);
         ranked = numbered (sort_key candidate_key (map (candidate_for required) others))
     in if \<not> list_all valid_missing_data missing then Inl (ValidationError ''MissingData'')
        else Inr (if list_ex rx_eligible ranked then \<lparr>rr_status = RankingSuccess, rr_candidates = ranked, rr_missing_data = missing\<rparr>
          else if missing \<noteq> [] then \<lparr>rr_status = RankingInsufficientData, rr_candidates = [], rr_missing_data = missing\<rparr>
          else \<lparr>rr_status = RankingNoCandidates, rr_candidates = ranked, rr_missing_data = missing\<rparr>))"

section \<open>The bundle and its collector\<close>

record evidence_bundle =
  ub_correlation_id :: string
  ub_project_key :: string
  ub_plan :: evidence_plan
  ub_answer_evidence :: "answer_evidence_set option"
  ub_project_snapshot :: "dashboard_snapshot option"
  ub_capacity_and_workload :: "capacity_evidence list"
  ub_workload_classifications :: "(string \<times> string) list"
  ub_task_delivery_risk :: "(string \<times> string) list"
  ub_skills :: "(string \<times> string list) list"
  ub_seniority :: "(string \<times> string option) list"
  ub_ranked_candidates :: "ranked_candidate list"
  ub_candidate_ranking :: "ranking_result option"
  ub_history :: "json list"
  ub_missing_data :: "missing_data list"
  ub_source_metadata :: "json list"
  ub_ambiguous_references :: "evidence_entity list"

definition missing_of :: "evidence_category \<Rightarrow> string \<Rightarrow> string \<Rightarrow> bool \<Rightarrow> missing_data" where
  "missing_of category reason entity required =
     \<lparr>md_category = category, md_reason = reason, md_entity = entity, md_required_for_claim = required\<rparr>"

text \<open>\<open>history\<close> is None without a history reader, else what its \<open>load\<close> returns or raises.\<close>

definition history_evidence ::
  "evidence_category set \<Rightarrow> string \<Rightarrow> json list res option \<Rightarrow> json list \<times> missing_data list" where
  "history_evidence requested project_key history =
    (if HistoryEvidence \<notin> requested then ([], [])
     else case history of
       None \<Rightarrow> ([], [missing_of HistoryEvidence ''historical snapshots are unavailable from this collector''
                 (''project:'' @ project_key) False])
     | Some (Inl _) \<Rightarrow> ([], [missing_of HistoryEvidence ''stored progress history is temporarily unavailable''
                 (''project:'' @ project_key) False])
     | Some (Inr rows) \<Rightarrow> (rows, []))"

definition employee_missing_data :: "evidence_category set \<Rightarrow> employee_summary \<Rightarrow> missing_data list" where
  "employee_missing_data requested e =
    (if (case es_capacity_hours e of None \<Rightarrow> True | Some c \<Rightarrow> c \<le> 0) then
       [missing_of CapacityAndWorkload ''configured capacity is missing or non-positive'' (''employee:'' @ es_employee_id e) True]
     else [])
    @ (if SkillsAndSeniority \<in> requested \<and> es_skills e = [] then
       [missing_of SkillsAndSeniority ''documented skills are unavailable'' (''employee:'' @ es_employee_id e) False] else [])"

definition source_employee :: "dashboard_snapshot \<Rightarrow> string \<Rightarrow> string option \<Rightarrow> string option" where
  "source_employee snapshot question explicit = (case explicit of
     Some e \<Rightarrow> Some e
   | None \<Rightarrow> map_option es_employee_id
       (List.find (\<lambda>e. occurs_in (casefold (es_display_name e)) (casefold question)) (ds_employees snapshot)))"

definition task_risk :: "task_summary \<Rightarrow> string" where
  "task_risk t = (if given (tk_blocker t) \<or> tk_dependencies t \<noteq> [] \<or> tk_due_date t = None then ''high'' else ''low'')"

text \<open>\<open>collect\<close> after the reader returned \<open>snapshot\<close>\<close>

definition source_metadata :: "runtime \<Rightarrow> dashboard_snapshot \<Rightarrow> json" where
  "source_metadata rt snapshot = JObj [(''source'', JStr ''project_snapshot''), (''schema_version'', JStr ''1.0''),
     (''evidence_timestamp'', JStr (rt_isoformat rt (ds_evidence_timestamp snapshot))),
     (''correlation_id'', JStr (ds_correlation_id snapshot))]"

definition collect_from ::
  "runtime \<Rightarrow> (timestamp \<Rightarrow> date) \<Rightarrow> json list res option \<Rightarrow> evidence_plan \<Rightarrow> string \<Rightarrow> string \<Rightarrow> string option \<Rightarrow> string
     \<Rightarrow> grounded_context option \<Rightarrow> dashboard_snapshot \<Rightarrow> evidence_bundle res" where
  "collect_from rt date_of history plan project_key correlation_id explicit question previous snapshot =
    (let employees = ds_employees snapshot; requested = set (pl_evidence_categories plan);
         (rows, history_missing) = history_evidence requested project_key history;
         operations_missing = (if OperationsEvidence \<in> requested
           then [missing_of OperationsEvidence ''operations evidence was not requested from DevOps MCP'' (''project:'' @ project_key) False]
           else []);
         missing = history_missing @ operations_missing @ concat (map (employee_missing_data requested) employees)
     in bindr (guard (\<not> list_all valid_missing_data missing) (ValidationError ''MissingData'')) (\<lambda>_.
        bindr (case source_employee snapshot question explicit of
             None \<Rightarrow> Inr None | Some s \<Rightarrow> bindr (rank_reassignment_candidates snapshot s) (\<lambda>r. Inr (Some r))) (\<lambda>ranking.
        bindr (build_answer_evidence date_of question snapshot plan previous) (\<lambda>answer.
        bindr (guard (\<not> length_between 1 128 correlation_id \<or> \<not> matches_key key_char 1 19 project_key)
          (ValidationError ''UniversalEvidenceBundle'')) (\<lambda>_.
        Inr \<lparr>ub_correlation_id = correlation_id, ub_project_key = project_key, ub_plan = plan, ub_answer_evidence = Some answer,
          ub_project_snapshot = Some snapshot,
          ub_capacity_and_workload = List.map_filter capacity_of employees,
          ub_workload_classifications = map (\<lambda>e. (es_employee_id e, es_level e)) employees,
          ub_task_delivery_risk = map (\<lambda>t. (tk_key t, task_risk t)) (ds_tasks snapshot),
          ub_skills = map (\<lambda>e. (es_employee_id e, es_skills e)) employees,
          ub_seniority = map (\<lambda>e. (es_employee_id e, seniority_of (es_role e))) employees,
          ub_ranked_candidates = (case ranking of None \<Rightarrow> [] | Some r \<Rightarrow> rr_candidates r),
          ub_candidate_ranking = ranking, ub_history = rows,
          ub_missing_data = missing @ (case ranking of None \<Rightarrow> [] | Some r \<Rightarrow> rr_missing_data r),
          ub_source_metadata = [source_metadata rt snapshot], ub_ambiguous_references = []\<rparr>)))))"

definition collect ::
  "runtime \<Rightarrow> (timestamp \<Rightarrow> date) \<Rightarrow> (string \<Rightarrow> string \<Rightarrow> 'w \<Rightarrow> dashboard_snapshot res \<times> 'w) \<Rightarrow> json list res option \<Rightarrow> evidence_plan
     \<Rightarrow> string \<Rightarrow> string \<Rightarrow> string option \<Rightarrow> string \<Rightarrow> grounded_context option \<Rightarrow> 'w \<Rightarrow> evidence_bundle res \<times> 'w" where
  "collect rt date_of build history plan project_key correlation_id explicit question previous w =
    (let (snapshot, w') = build project_key correlation_id w in
     (bindr snapshot (collect_from rt date_of history plan project_key correlation_id explicit question previous), w'))"

section \<open>Properties of the ranking\<close>

text \<open>Who could take the work: positive headroom and every required skill documented.\<close>

definition can_take :: "string list \<Rightarrow> employee_summary \<Rightarrow> bool" where
  "can_take required e \<longleftrightarrow>
     (\<exists>c. es_capacity_hours e = Some c \<and> 0 < c \<and> 0 < fsub c (case es_remaining_hours e of None \<Rightarrow> 0 | Some w \<Rightarrow> w)) \<and>
     set required \<subseteq> casefold ` set (es_skills e)"

lemma eligible_iff: "rx_eligible (candidate_for required e) \<longleftrightarrow> can_take required e"
  by (auto simp: candidate_for_def can_take_def capacity_of_def calculate_capacity_def Let_def sorted_set_Nil filter_empty_conv
      split: option.splits)

lemma candidate_for_id [simp]: "rx_employee_id (candidate_for required e) = es_employee_id e"
  by (simp add: candidate_for_def Let_def)

lemma candidate_key_rank [simp]: "candidate_key (c\<lparr>rx_rank := n\<rparr>) = candidate_key c"
  by (simp add: candidate_key_def)

lemma length_numbered [simp]: "length (numbered cs) = length cs"
  by (simp add: numbered_def)

lemma numbered_map:
  assumes "\<And>c n. f (c\<lparr>rx_rank := n\<rparr>) = f c"
  shows "map f (numbered cs) = map f cs"
  using assms by (intro nth_equalityI) (simp_all add: numbered_def nth_enumerate_eq)

lemma numbered_ranks: "map rx_rank (numbered cs) = [1..<Suc (length cs)]"
proof -
  have "map rx_rank (numbered cs) = map fst (enumerate 1 cs)"
    by (simp add: numbered_def split_def comp_def)
  then show ?thesis unfolding map_fst_enumerate by (simp only: plus_1_eq_Suc add.commute)
qed

text \<open>
  C27: The ranking of candidates is exact.  A ranking lists every employee but the one whose
  work is moved, numbered from 1, those who can take it (positive headroom, every required skill)
  before the others, and the better match before the worse.  It is a success exactly when someone
  can take the work; without one it is empty as soon as some capacity or skill is undocumented.
\<close>

theorem ranking_exact:
  assumes "rank_reassignment_candidates snapshot source = Inr r"
  defines "others \<equiv> filter (\<lambda>e. es_employee_id e \<noteq> source) (ds_employees snapshot)"
    and "required \<equiv> required_skill_list snapshot source"
  shows "(rr_status r = RankingSuccess \<longleftrightarrow> (\<exists>e \<in> set others. can_take required e)) \<and>
    (if rr_status r = RankingInsufficientData then rr_candidates r = [] \<and> rr_missing_data r \<noteq> []
     else mset (map rx_employee_id (rr_candidates r)) = mset (map es_employee_id others) \<and>
       map rx_rank (rr_candidates r) = [1..<Suc (length others)] \<and> sorted (map candidate_key (rr_candidates r)) \<and>
       (\<forall>c \<in> set (rr_candidates r). \<exists>e \<in> set others. rx_employee_id c = es_employee_id e \<and>
          (rx_eligible c \<longleftrightarrow> can_take required e)))"
proof -
  define cs where "cs = sort_key candidate_key (map (candidate_for required) others)"
  have cs: "(\<lambda>c. (rx_employee_id c, rx_eligible c)) ` set (numbered cs) = (\<lambda>e. (es_employee_id e, can_take required e)) ` set others"
  proof -
    have "(\<lambda>c. (rx_employee_id c, rx_eligible c)) ` set (numbered cs) = (\<lambda>c. (rx_employee_id c, rx_eligible c)) ` set cs"
      by (simp only: list.set_map [symmetric]) (simp add: numbered_map)
    also have "\<dots> = (\<lambda>e. (es_employee_id e, can_take required e)) ` set others"
      by (simp add: cs_def image_image eligible_iff)
    finally show ?thesis .
  qed
  have elig: "list_ex rx_eligible (numbered cs) \<longleftrightarrow> (\<exists>e \<in> set others. can_take required e)"
  proof -
    have "snd ` (\<lambda>c. (rx_employee_id c, rx_eligible c)) ` set (numbered cs) =
        snd ` (\<lambda>e. (es_employee_id e, can_take required e)) ` set others" using cs by simp
    then show ?thesis by (auto simp: list_ex_iff image_image image_iff set_eq_iff)
  qed
  have r: "r = (if list_ex rx_eligible (numbered cs) then \<lparr>rr_status = RankingSuccess, rr_candidates = numbered cs,
        rr_missing_data = concat (map (candidate_missing_data required) others)\<rparr>
      else if concat (map (candidate_missing_data required) others) \<noteq> [] then \<lparr>rr_status = RankingInsufficientData, rr_candidates = [],
        rr_missing_data = concat (map (candidate_missing_data required) others)\<rparr>
      else \<lparr>rr_status = RankingNoCandidates, rr_candidates = numbered cs,
        rr_missing_data = concat (map (candidate_missing_data required) others)\<rparr>)"
    using assms(1) by (auto simp: rank_reassignment_candidates_def Let_def cs_def others_def required_def split: if_splits)
  have ids: "mset (map rx_employee_id (numbered cs)) = mset (map es_employee_id others)"
  proof -
    have "map rx_employee_id (numbered cs) = map rx_employee_id cs" by (rule numbered_map) simp
    moreover have "mset (map rx_employee_id cs) = mset (map (rx_employee_id \<circ> candidate_for required) others)"
      by (simp add: cs_def multiset.map_comp)
    ultimately show ?thesis by (simp add: comp_def)
  qed
  have "map candidate_key (numbered cs) = map candidate_key cs" by (rule numbered_map) simp
  then have sorted: "sorted (map candidate_key (numbered cs))" by (simp add: cs_def)
  have each: "\<exists>e \<in> set others. rx_employee_id c = es_employee_id e \<and> (rx_eligible c \<longleftrightarrow> can_take required e)"
    if "c \<in> set (numbered cs)" for c
  proof -
    have "(rx_employee_id c, rx_eligible c) \<in> (\<lambda>e. (es_employee_id e, can_take required e)) ` set others"
      using that unfolding cs [symmetric] by (rule imageI)
    then show ?thesis by auto
  qed
  have "length cs = length others" by (simp add: cs_def)
  then have full: "mset (map rx_employee_id (numbered cs)) = mset (map es_employee_id others) \<and>
      map rx_rank (numbered cs) = [1..<Suc (length others)] \<and> sorted (map candidate_key (numbered cs)) \<and>
      (\<forall>c \<in> set (numbered cs). \<exists>e \<in> set others. rx_employee_id c = es_employee_id e \<and> (rx_eligible c \<longleftrightarrow> can_take required e))"
    using ids sorted each numbered_ranks [of cs] by simp
  show ?thesis using elig full by (auto simp: r)
qed

lemma ranking_exact_witness:
  "\<exists>r. rank_reassignment_candidates sample_snapshot ''EMP-9'' = Inr r \<and> rr_status r = RankingSuccess \<and>
     map rx_rank (rr_candidates r) = [1]"
proof -
  obtain r where r: "rank_reassignment_candidates sample_snapshot ''EMP-9'' = Inr r"
    by (simp add: rank_reassignment_candidates_def Let_def sample_snapshot_def candidate_missing_data_def capacity_of_def
        calculate_capacity_def sample_employee_def)
  have f: "filter (\<lambda>e. es_employee_id e \<noteq> ''EMP-9'') (ds_employees sample_snapshot) = [sample_employee]"
    "can_take (required_skill_list sample_snapshot ''EMP-9'') sample_employee"
    by (simp_all add: sample_snapshot_def sample_employee_def can_take_def required_skill_list_def sample_task_def sorted_set_def)
      code_simp+
  show ?thesis using ranking_exact [OF r] r f by (auto simp: upt_rec)
qed

end
