(* ===== verification/Grounding.thy ===== *)
theory Grounding imports Collection begin

text \<open>
  The checks an answer of the language model has to pass before a manager sees it
  (agent\_api/grounding.py): the issue keys, employees, dependencies and risk levels it names have to
  be those of the evidence, and an exhaustive question has to be answered completely.  A set that
  Python iterates in an arbitrary order is taken in the order of its texts; the order only
  decides which key an error message names.
\<close>

section \<open>Expressions\<close>

abbreviation grounding_error :: "string \<Rightarrow> 'a res" where
  "grounding_error msg \<equiv> Inl (ValueError msg)"

definition key_body_i :: regex where
  "key_body_i = seq_of [RChar (any_case is_upper), RRepeat True 1 (Some 19) (RChar (any_case key_char)), RChar (\<lambda>c. c = CHR ''-''),
     some_of is_digit]"

definition blocked_by_re :: regex where
  "blocked_by_re = seq_of [RBoundary, RGroup 1 key_body_i, RBoundary, some_of is_space, opt (seq_of [lit_i ''is'', some_of is_space]),
     lit_i ''blocked by'', some_of is_space, RBoundary, RGroup 2 key_body_i, RBoundary]"

definition employee_id_re :: regex where
  "employee_id_re = seq_of [RBoundary, lit ''EMP-'', some_of is_digit, RBoundary]"

definition risk_claim_re :: regex where
  "risk_claim_re = seq_of [RBoundary, RGroup 1 (words_re [''low'', ''medium'', ''high'', ''critical'', ''insufficient-data'']),
     some_of is_space, lit_i ''risk'', RBoundary]"

definition em_dash :: string where
  "em_dash = [CHR 0xE2, CHR 0x80, CHR 0x94]"

text \<open>\<open>^\s*(?:\d+[.)]\s*)?[*_]*KEY[*_]*\s*(?::|--|-)\<close>, the dash being U+2014\<close>

definition promoted_re :: "string \<Rightarrow> regex" where
  "promoted_re key = seq_of [RLineStart, any_of is_space,
     opt (seq_of [some_of is_digit, RChar (\<lambda>c. c \<in> {CHR ''.'', CHR '')''}), any_of is_space]),
     any_of (\<lambda>c. c \<in> {CHR ''*'', CHR ''_''}), lit_i key, any_of (\<lambda>c. c \<in> {CHR ''*'', CHR ''_''}), any_of is_space,
     alt_of [lit '':'', lit em_dash, lit ''-'']]"

definition sentence_end_re :: regex where
  "sentence_end_re = RAlt (seq_of [RAfter (\<lambda>c. c \<in> {CHR ''.'', CHR ''!'', CHR ''?''}), some_of is_space]) (some_of (\<lambda>c. c = CHR 0x0A))"

definition sentences :: "string \<Rightarrow> string list" where
  "sentences answer = re_split sentence_end_re answer"

definition group_text :: "nat \<Rightarrow> match \<Rightarrow> string" where
  "group_text n m = (case group_of n m of None \<Rightarrow> [] | Some s \<Rightarrow> s)"

definition keys_in :: "string list \<Rightarrow> string list" where
  "keys_in texts = concat (map (\<lambda>d. issue_keys (upper d)) texts)"

section \<open>Employees named in a text\<close>

text \<open>
  \<open>_mentioned_employee_ids\<close>: the longest names first, each blanked out once it was found.  An employee is
  the pair of the identifier and the display name.
\<close>

fun mentioned_from :: "string \<Rightarrow> (string \<times> string) list \<Rightarrow> string list" where
  "mentioned_from remaining [] = []"
| "mentioned_from remaining ((eid, name) # es) =
    (let ms = finditer (whole_name (casefold name)) remaining in
     if ms = [] then mentioned_from remaining es else eid # mentioned_from (blank_out ms remaining) es)"

definition longest_first :: "('e \<Rightarrow> string) \<Rightarrow> 'e list \<Rightarrow> 'e list" where
  "longest_first name es = sort_key (\<lambda>e. - int (length (name e))) es"

definition mentioned_employee_ids :: "string \<Rightarrow> (string \<times> string) list \<Rightarrow> string list" where
  "mentioned_employee_ids answer es = mentioned_from (casefold answer) (longest_first snd es)"

definition answer_pairs :: "answer_employee list \<Rightarrow> (string \<times> string) list" where
  "answer_pairs es = map (\<lambda>e. (em_employee_id e, em_display_name e)) es"

definition summary_pairs :: "employee_summary list \<Rightarrow> (string \<times> string) list" where
  "summary_pairs es = map (\<lambda>e. (es_employee_id e, es_display_name e)) es"

definition expected_level :: "string \<Rightarrow> string" where
  "expected_level level = (if level = ''critical'' then ''high'' else level)"

section \<open>Focused answers\<close>

definition blocked_pairs :: "string \<Rightarrow> (string \<times> string) list" where
  "blocked_pairs answer = map (\<lambda>m. (group_text 1 m, group_text 2 m)) (finditer blocked_by_re answer)"

text \<open>The dependencies of the task with a key, of the last one with the key as in a dict.\<close>

definition dependencies_of :: "(string \<times> string list) list \<Rightarrow> string \<Rightarrow> string list option" where
  "dependencies_of tasks key = map_of (rev (map (\<lambda>(k, ds). (upper k, ds)) tasks)) key"

definition invented_dependency :: "(string \<times> string list) list \<Rightarrow> string list \<Rightarrow> string \<times> string \<Rightarrow> bool" where
  "invented_dependency tasks validated pair =
    (case dependencies_of tasks (upper (fst pair)) of
       None \<Rightarrow> upper (fst pair) \<notin> set validated
     | Some ds \<Rightarrow> \<not> occurs_in (upper (snd pair)) (upper (join '' '' ds)))"

definition wrong_level :: "string \<Rightarrow> string \<Rightarrow> match \<Rightarrow> bool" where
  "wrong_level expected text m =
    (let from_name = drop (length (mt_before m)) text;
         sentence = takeWhile (\<lambda>c. c \<notin> {CHR ''.'', CHR ''!'', CHR ''?'', CHR 0x0A}) (take (length (mt_text m) + 80) from_name)
     in case re_search risk_claim_re sentence of
          None \<Rightarrow> False
        | Some claimed \<Rightarrow> casefold (group_text 1 claimed) \<noteq> expected)"

fun check_levels :: "string \<Rightarrow> answer_employee list \<Rightarrow> unit res" where
  "check_levels remaining [] = Inr ()"
| "check_levels remaining (e # es) =
    (let ms = finditer (whole_name_i (em_display_name e)) remaining in
     if ms = [] then check_levels remaining es
     else if list_ex (wrong_level (expected_level (em_risk_level e)) remaining) ms
     then grounding_error ''answer changed employee risk classification''
     else check_levels (blank_out ms remaining) es)"

definition validate_focused_claims :: "string \<Rightarrow> answer_evidence_set \<Rightarrow> string list \<Rightarrow> unit res" where
  "validate_focused_claims answer evidence allowed_issue_keys =
    (let tasks = map (\<lambda>t. (at_key t, at_dependencies t)) (av_tasks evidence);
         task_keys = map (upper \<circ> fst) tasks;
         validated = map upper allowed_issue_keys;
         employee_ids = map (upper \<circ> em_employee_id) (av_employees evidence);
         dependency_keys = keys_in (concat (map snd tasks));
         unknown = filter (\<lambda>k. k \<notin> set task_keys \<union> set dependency_keys \<union> set validated \<union> set employee_ids)
           (issue_keys (upper answer));
         only_dependencies = filter (\<lambda>k. k \<notin> set task_keys \<union> set validated) (sorted_set dependency_keys);
         unknown_employees = filter (\<lambda>k. k \<notin> set employee_ids) (findall employee_id_re (upper answer))
     in if unknown \<noteq> [] then grounding_error (''answer mentioned unknown Jira issue(s): '' @ join '', '' (sorted_set unknown))
        else case List.find (\<lambda>k. found (promoted_re k) answer) only_dependencies of
          Some key \<Rightarrow> grounding_error (''answer promoted dependency-only Jira issue '' @ key @ '' to focused task'')
        | None \<Rightarrow>
           if list_ex (invented_dependency tasks validated) (blocked_pairs answer)
           then grounding_error ''answer invented a Jira dependency''
           else if unknown_employees \<noteq> []
           then grounding_error (''answer mentioned unknown employee(s): '' @ join '', '' (sorted_set unknown_employees))
           else check_levels answer (longest_first em_display_name (av_employees evidence)))"

definition asks_for_employees :: "string \<Rightarrow> bool" where
  "asks_for_employees folded \<longleftrightarrow>
     mentions [''employee'', ''people'', ''capacity'', ''workload'', ''skill'', ''who has''] folded \<and>
     \<not> mentions [''which task'', ''tasks '', ''work is blocked'', ''deadline''] folded"

definition required_employees :: "answer_evidence_set \<Rightarrow> string \<Rightarrow> answer_employee list" where
  "required_employees evidence folded =
    (if mentions [''cannot be classified'', [CHR ''c'', CHR ''a'', CHR ''n'', CHR 0x27, CHR ''t''] @ '' be classified'',
         ''classified reliably'', ''unclassified'', ''insufficient data'', ''insufficient-data''] folded
     then filter (\<lambda>e. em_risk_level e = ''insufficient-data'') (av_employees evidence) else av_employees evidence)"

definition required_keys :: "answer_evidence_set \<Rightarrow> string list" where
  "required_keys evidence =
    (if av_required_task_keys evidence \<noteq> [] then map upper (av_required_task_keys evidence)
     else map (upper \<circ> at_key) (av_tasks evidence))"

definition employees_complete :: "string \<Rightarrow> (string \<times> string) list \<Rightarrow> (string \<times> string) list \<Rightarrow> unit res" where
  "employees_complete answer everyone required =
    (let mentioned = mentioned_employee_ids answer everyone;
         missing = map snd (filter (\<lambda>(eid, name). eid \<notin> set mentioned) required)
     in if missing \<noteq> [] then grounding_error (''answer omitted employee(s): '' @ join '', '' (sorted_set missing)) else Inr ())"

definition keys_complete :: "string \<Rightarrow> string list \<Rightarrow> unit res" where
  "keys_complete answer required =
    (let missing = filter (\<lambda>k. k \<notin> set (issue_keys (upper answer))) required
     in if missing \<noteq> [] then grounding_error (''answer omitted matching Jira issue(s): '' @ join '', '' (sorted_set missing))
        else Inr ())"

definition validate_focused_completeness :: "string \<Rightarrow> answer_evidence_set \<Rightarrow> unit res" where
  "validate_focused_completeness answer evidence =
    (let folded = casefold (av_question_focus evidence) in
     if \<not> av_exhaustive evidence then Inr ()
     else if av_employees evidence \<noteq> [] \<and> (asks_for_employees folded \<or> av_tasks evidence = [])
     then employees_complete answer (answer_pairs (av_employees evidence)) (answer_pairs (required_employees evidence folded))
     else if av_tasks evidence \<noteq> [] then keys_complete answer (required_keys evidence) else Inr ())"

definition validate_insufficiency_claim :: "string \<Rightarrow> answer_evidence_set \<Rightarrow> unit res" where
  "validate_insufficiency_claim answer evidence =
    (let folded = casefold answer;
         generic = mentions [''not enough information'', ''do not have enough information'', ''not enough reliable information'',
           ''insufficient information'', ''not possible to confidently'', ''cannot confidently'', ''provide more details'',
           ''clarify the entity'', ''clarify the question''] folded;
         local_name = (\<lambda>s. if CHR '':'' \<in> set s then drop 1 (dropWhile (\<lambda>c. c \<noteq> CHR '':'') s) else s);
         concrete = list_ex (\<lambda>m. occurs_in (casefold (local_name (md_entity m))) folded \<and>
           mentions [''estimate'', ''capacity'', ''skills'', ''due date'', ''priority'', ''assignee''] folded) (av_missing_data evidence)
     in if \<not> generic \<or> av_tasks evidence = [] \<and> av_employees evidence = [] then Inr ()
        else if \<not> concrete then grounding_error ''answer claimed insufficiency despite usable focused evidence'' else Inr ())"

section \<open>Universal answers\<close>

definition number_re :: regex where
  "number_re = seq_of [some_of is_digit, opt (seq_of [lit ''.'', some_of is_digit])]"

definition hours_re :: regex where
  "hours_re = alt_of [lit_i ''h'', seq_of [lit_i ''hour'', opt (lit_i ''s'')]]"

definition available_re :: regex where
  "available_re = seq_of [RGroup 1 number_re, any_of is_space, hours_re, some_of is_space, opt (seq_of [lit_i ''of'', some_of is_space]),
     lit_i ''available'']"

definition overage_re :: regex where
  "overage_re = seq_of [lit_i ''capacity'', some_of is_space, lit_i ''by'', some_of is_space, RGroup 1 number_re, any_of is_space,
     hours_re, RBoundary]"

text \<open>\<open>float\<close> of digits with an optional fraction\<close>

definition digit_number :: "string \<Rightarrow> nat" where
  "digit_number s = foldl (\<lambda>n c. n * 10 + (of_char c - 48)) 0 s"

definition float_of_text :: "string \<Rightarrow> pyfloat" where
  "float_of_text s =
    (let whole = takeWhile is_digit s; frac = drop 1 (dropWhile is_digit s)
     in fl (of_nat (digit_number (whole @ frac)) / 10 ^ length frac))"

definition universal_sentence :: "dashboard_snapshot \<Rightarrow> capacity_evidence list \<Rightarrow> string \<Rightarrow> unit res" where
  "universal_sentence snapshot capacities sentence =
    (let mentioned = mentioned_employee_ids sentence (summary_pairs (ds_employees snapshot)) in
     if card (set mentioned) \<noteq> 1 then Inr ()
     else case List.find (\<lambda>e. es_employee_id e \<in> set mentioned) (ds_employees snapshot) of
       None \<Rightarrow> Inl (OtherException ''StopIteration'')
     | Some e \<Rightarrow>
       (let capacity = List.find (\<lambda>c. cv_employee_id c = Some (es_employee_id e)) capacities;
            misstated = (case (re_search available_re sentence, capacity) of
              (Some m, Some c) \<Rightarrow> float_of_text (group_text 1 m) \<noteq> cv_available_capacity_hours c | _ \<Rightarrow> False);
            wrong = (case re_search risk_claim_re sentence of None \<Rightarrow> False
              | Some m \<Rightarrow> casefold (group_text 1 m) \<noteq> expected_level (es_level e));
            overage = (case (re_search overage_re sentence, es_remaining_hours e, es_capacity_hours e) of
              (Some m, Some r, Some c) \<Rightarrow> float_of_text (group_text 1 m) \<noteq> max (fsub r c) 0 | _ \<Rightarrow> False)
        in if misstated then grounding_error ''answer misstated available capacity''
           else if wrong then grounding_error ''answer changed employee risk classification''
           else if overage then grounding_error ''answer misstated capacity overage'' else Inr ()))"

fun check_all :: "('a \<Rightarrow> unit res) \<Rightarrow> 'a list \<Rightarrow> unit res" where
  "check_all f [] = Inr ()"
| "check_all f (x # xs) = bindr (f x) (\<lambda>_. check_all f xs)"

definition validate_universal_claims :: "string \<Rightarrow> evidence_bundle \<Rightarrow> unit res" where
  "validate_universal_claims answer bundle = (case ub_project_snapshot bundle of
     None \<Rightarrow> Inr ()
   | Some snapshot \<Rightarrow>
      bindr (check_all (universal_sentence snapshot (ub_capacity_and_workload bundle)) (sentences answer)) (\<lambda>_.
      if list_ex (invented_dependency (map (\<lambda>t. (tk_key t, tk_dependencies t)) (ds_tasks snapshot)) []) (blocked_pairs answer)
      then grounding_error ''answer invented a Jira dependency'' else Inr ()))"

definition validate_universal_completeness :: "string \<Rightarrow> evidence_bundle \<Rightarrow> unit res" where
  "validate_universal_completeness answer bundle = (case (ub_answer_evidence bundle, ub_project_snapshot bundle) of
     (Some evidence, _) \<Rightarrow> validate_focused_completeness answer evidence
   | (None, None) \<Rightarrow> Inr ()
   | (None, Some snapshot) \<Rightarrow>
      (let plan = ub_plan bundle; categories = set (pl_evidence_categories plan);
           everyone = summary_pairs (ds_employees snapshot)
       in if \<not> pl_exhaustive plan then Inr ()
          else if pl_scope plan \<noteq> ScopeTask \<and>
            categories \<inter> {WorkforceProfiles, CapacityAndWorkload, SkillsAndSeniority, RiskResults} \<noteq> {}
          then employees_complete answer everyone everyone
          else keys_complete answer (if DependenciesAndBlockers \<in> categories
            then map (upper \<circ> tk_key) (filter (\<lambda>t. given (tk_blocker t) \<or> tk_dependencies t \<noteq> []) (ds_tasks snapshot)) else [])))"

section \<open>Answers from task facts\<close>

definition assigned_re :: "string \<Rightarrow> regex" where
  "assigned_re key = seq_of [RBoundary, lit_i key, RBoundary, some_of is_space, lit_i ''is assigned to'', some_of is_space,
     RGroup 1 (some_of (\<lambda>c. c \<notin> {CHR '','', CHR ''.''}))]"

definition status_re :: regex where
  "status_re = seq_of [alt_of [lit_i ''currently'', lit_i ''status is''], some_of is_space,
     RGroup 1 (seq_of [RChar (\<lambda>c. is_upper c \<or> is_lower c), RRepeat False 1 None (RChar (\<lambda>c. is_upper c \<or> is_lower c \<or> c = CHR '' ''))]),
     alt_of [RChar (\<lambda>c. c \<in> {CHR '','', CHR ''.''}), REnd]]"

definition fact_of :: "task_fact list \<Rightarrow> string \<Rightarrow> task_fact option" where
  "fact_of facts key = map_of (rev (map (\<lambda>f. (upper (tf_key f), f)) facts)) key"

definition key_in_sentence :: "task_fact list \<Rightarrow> string \<Rightarrow> string set \<Rightarrow> string \<Rightarrow> unit res" where
  "key_in_sentence facts sentence sentence_keys key = (case fact_of facts key of
     None \<Rightarrow> Inr ()
   | Some known \<Rightarrow>
      (let folded = casefold sentence;
           kept = List.map_filter (fact_of facts) (map (upper \<circ> tf_key) facts);
           other_summary = list_ex (\<lambda>other. occurs_in (casefold (tf_summary other)) folded \<and> tf_key other \<noteq> tf_key known \<and>
             upper (tf_key other) \<notin> sentence_keys) kept;
           wrong_assignee = (case re_search (assigned_re key) sentence of None \<Rightarrow> False
             | Some m \<Rightarrow> map_option casefold (tf_assignee known) \<noteq> Some (casefold (strip (group_text 1 m))));
           wrong_status = (card sentence_keys = 1 \<and> (case re_search status_re sentence of None \<Rightarrow> False
             | Some m \<Rightarrow> casefold (strip (group_text 1 m)) \<noteq> casefold (tf_status known)))
       in if other_summary then grounding_error ''answer mismatched Jira issue key and summary''
          else if wrong_assignee then grounding_error ''answer mismatched Jira issue key and assignee''
          else if wrong_status then grounding_error ''answer mismatched Jira issue key and status'' else Inr ()))"

definition validate_jira_claims :: "string \<Rightarrow> task_fact list \<Rightarrow> string list \<Rightarrow> string list \<Rightarrow> unit res" where
  "validate_jira_claims answer facts issue_refs employee_refs =
    (let allowed = map (upper \<circ> tf_key) facts @ map upper issue_refs @ map upper employee_refs;
         unknown = filter (\<lambda>k. k \<notin> set allowed) (issue_keys (upper answer))
     in if unknown \<noteq> [] then grounding_error (''answer mentioned unknown Jira issue(s): '' @ join '', '' (sorted_set unknown))
        else check_all (\<lambda>sentence. let keys = issue_keys (upper sentence) in
          check_all (key_in_sentence facts sentence (set keys)) (sorted_set keys)) (sentences answer))"

section \<open>Properties of accepted answers\<close>

lemma matches_lit: "q \<in> set (matches_at (lit w) (l, s, c)) \<longleftrightarrow> (\<exists>r. s = w @ r \<and> q = (rev w @ l, r, c))"
proof (induction w arbitrary: l s)
  case Nil
  then show ?case by (auto simp: lit_def match_iffs)
next
  case (Cons x w)
  then show ?case by (auto simp: lit_def match_iffs)
qed

definition employee_key :: "string \<Rightarrow> bool" where
  "employee_key w \<longleftrightarrow> (\<exists>ds. w = ''EMP-'' @ ds \<and> ds \<noteq> [] \<and> list_all is_digit ds)"

lemma employee_key_is_jira_key: "employee_key w \<Longrightarrow> jira_key w"
  unfolding employee_key_def jira_key_def
  by (elim exE conjE, rule exI [of _ "CHR ''E''"], rule exI [of _ "''MP''"]) (auto simp: is_upper_def key_char_def less_eq_char_def)

lemma finds_employee_id: "finds employee_id_re employee_key"
proof -
  have "q \<in> set (matches_at employee_id_re (l, s, c)) \<longleftrightarrow>
      (\<exists>w t. s = w @ t \<and> q = (rev w @ l, t, c) \<and> employee_key w \<and> \<not> starts_word l \<and> \<not> starts_word t)" for q l s c
  proof -
    have "q \<in> set (matches_at employee_id_re (l, s, c)) \<longleftrightarrow> starts_word l \<noteq> starts_word s \<and>
        (\<exists>w t. s = w @ t \<and> q = (rev w @ l, t, c) \<and> employee_key w \<and> starts_word (rev w @ l) \<noteq> starts_word t)"
      by (force simp: employee_id_re_def match_iffs matches_lit employee_key_def Suc_le_eq)
    then show ?thesis using jira_key_ends employee_key_is_jira_key by blast
  qed
  then show ?thesis using employee_key_is_jira_key unfolding finds_def by blast
qed

lemma unknown_keys_Nil: "filter (\<lambda>k. k \<notin> A) (issue_keys s) = [] \<longleftrightarrow> (\<forall>w. jira_key w \<and> word_in w s \<longrightarrow> w \<in> A)"
  by (auto simp: filter_empty_conv issue_keys_iff)

lemma in_keys_in: "w \<in> set (keys_in ds) \<longleftrightarrow> (\<exists>d \<in> set ds. jira_key w \<and> word_in w (upper d))"
  by (auto simp: keys_in_def issue_keys_iff)

text \<open>What the evidence knows under a key: a task, a dependency of one, a key of the project or an employee.\<close>

definition known_key :: "answer_evidence_set \<Rightarrow> string list \<Rightarrow> string \<Rightarrow> bool" where
  "known_key ev allowed w \<longleftrightarrow>
     (\<exists>t \<in> set (av_tasks ev). w = upper (at_key t) \<or> (\<exists>d \<in> set (at_dependencies t). word_in w (upper d))) \<or>
     w \<in> upper ` set allowed \<or> (\<exists>e \<in> set (av_employees ev). w = upper (em_employee_id e))"

lemma accepted_keys_known:
  assumes "validate_focused_claims answer ev allowed = Inr ()" "jira_key w" "word_in w (upper answer)"
  shows "known_key ev allowed w"
proof -
  let ?tasks = "map (\<lambda>t. (at_key t, at_dependencies t)) (av_tasks ev)"
  let ?known = "set (map (upper \<circ> fst) ?tasks) \<union> set (keys_in (concat (map snd ?tasks))) \<union> set (map upper allowed)
      \<union> set (map (upper \<circ> em_employee_id) (av_employees ev))"
  have "filter (\<lambda>k. k \<notin> ?known) (issue_keys (upper answer)) = []"
    using assms(1) unfolding validate_focused_claims_def Let_def by (auto split: if_splits option.splits)
  then have "w \<in> ?known" using assms(2,3) unfolding unknown_keys_Nil by blast
  then show ?thesis by (auto simp: known_key_def in_keys_in)
qed


lemma keys_complete_iff: "keys_complete answer required = Inr () \<longleftrightarrow> (\<forall>k \<in> set required. jira_key k \<and> word_in k (upper answer))"
  by (auto simp: keys_complete_def Let_def filter_empty_conv issue_keys_iff)

text \<open>
  An exhaustive question is answered completely, or not at all.  When an answer about the
  evidence passes, an exhaustive question about employees has every employee it requires
  mentioned, and any other has the key of every required task in it as a word, in any case.
\<close>

theorem exhaustive_answer_complete:
  assumes "validate_focused_completeness answer ev = Inr ()" and "av_exhaustive ev"
  defines "folded \<equiv> casefold (av_question_focus ev)"
  shows "if av_employees ev \<noteq> [] \<and> (asks_for_employees folded \<or> av_tasks ev = [])
    then \<forall>e \<in> set (required_employees ev folded).
      em_employee_id e \<in> set (mentioned_employee_ids answer (answer_pairs (av_employees ev)))
    else av_tasks ev \<noteq> [] \<longrightarrow> (\<forall>k \<in> set (required_keys ev). jira_key k \<and> word_in k (upper answer))"
proof -
  have "employees_complete answer everyone (answer_pairs req) = Inr () \<longleftrightarrow>
      (\<forall>e \<in> set req. em_employee_id e \<in> set (mentioned_employee_ids answer everyone))" for everyone req
    by (auto simp: employees_complete_def Let_def answer_pairs_def filter_empty_conv)
  then show ?thesis using assms(1,2)
    by (auto simp: validate_focused_completeness_def folded_def [symmetric] Let_def keys_complete_iff split: if_splits)
qed

text \<open>
  C26: No blocked task is left out.  For an exhaustive question about blocked work that names no task and no
  employee and does not ask for people, an answer about the evidence built for it is accepted
  only if the key of every blocked task of the project stands in it.
\<close>

theorem blocked_work_answered_completely:
  assumes "build_answer_evidence date_of question snapshot plan previous = Inr ev" and "pl_exhaustive plan"
    and "explicit_task_keys (casefold question) plan previous = []" and "asks_blocked (casefold question)"
    and "\<not> asks_for_employees (casefold question)" and "asked_employees snapshot plan (casefold question) = []"
    and "validate_focused_completeness answer ev = Inr ()" and "t \<in> set (ds_tasks snapshot)" and "is_blocked t"
  shows "word_in (upper (tk_key t)) (upper answer)"
proof -
  let ?today = "date_of (ds_evidence_timestamp snapshot)" and ?folded = "casefold question"
  let ?blocked = "filter is_blocked (ds_tasks snapshot)"
  have "asked_tasks ?today snapshot plan ?folded [] = (?blocked, ?blocked)"
    using assms(4) by (simp add: asked_tasks_def Let_def)
  then obtain emps where "focused_selection ?today snapshot plan ?folded [] = (?blocked, ?blocked, emps)"
    using assms(6) by (auto simp: focused_selection_def Let_def)
  then have ev: "av_tasks ev = map (task_evidence ?today) ?blocked" "av_required_task_keys ev = map tk_key ?blocked"
    "av_exhaustive ev" "av_question_focus ev = question"
    using assms(1,2,3) by (auto simp: build_answer_evidence_def required_tasks_in_evidence_def Let_def split: if_splits)
  have mem: "t \<in> set ?blocked" using assms(8,9) by simp
  then have ne: "?blocked \<noteq> []" by (metis empty_iff empty_set)
  have "keys_complete answer (required_keys ev) = Inr ()"
    using assms(5,7) ev ne by (simp add: validate_focused_completeness_def)
  moreover have "upper (tk_key t) \<in> set (required_keys ev)" using ev(2) ne mem by (auto simp: required_keys_def)
  ultimately show ?thesis unfolding keys_complete_iff by blast
qed

section \<open>Witnesses\<close>

definition sample_evidence :: answer_evidence_set where
  "sample_evidence = \<lparr>av_question_focus = ''q'', av_tasks = [task_evidence 0 sample_task], av_required_task_keys = [''WRD-1''],
     av_employees = [employee_evidence sample_snapshot sample_employee], av_exhaustive = True, av_missing_data = []\<rparr>"

definition sample_answer :: string where
  "sample_answer = ''Wrd-1 blocked by wrd-2; EMP-1 Ada: low risk''"


lemma exhaustive_answer_complete_witness: "word_in ''WRD-1'' (upper sample_answer)"
proof -
  have ok: "validate_focused_completeness sample_answer sample_evidence = Inr ()" "av_exhaustive sample_evidence" by code_simp+
  have "\<not> asks_for_employees (casefold (av_question_focus sample_evidence))" "av_tasks sample_evidence \<noteq> []" by code_simp+
  moreover have "required_keys sample_evidence = [''WRD-1'']" by code_simp
  ultimately show ?thesis using exhaustive_answer_complete [OF ok] by (auto simp del: upt_Suc)
qed

lemma blocked_work_answered_completely_witness:
  "\<exists>ev. build_answer_evidence (\<lambda>t. 0) ''Which work is blocked?'' sample_snapshot sample_plan None = Inr ev \<and>
     word_in ''WRD-1'' (upper sample_answer)"
proof -
  define ev where "ev = (case build_answer_evidence (\<lambda>t. 0) ''Which work is blocked?'' sample_snapshot sample_plan None of
      Inr e \<Rightarrow> e | Inl _ \<Rightarrow> sample_evidence)"
  have ev: "build_answer_evidence (\<lambda>t. 0) ''Which work is blocked?'' sample_snapshot sample_plan None = Inr ev"
    unfolding ev_def by code_simp
  have ok: "validate_focused_completeness sample_answer ev = Inr ()" unfolding ev_def by code_simp
  have h: "pl_exhaustive sample_plan" "explicit_task_keys (casefold ''Which work is blocked?'') sample_plan None = []"
    "asks_blocked (casefold ''Which work is blocked?'')" "\<not> asks_for_employees (casefold ''Which work is blocked?'')"
    "asked_employees sample_snapshot sample_plan (casefold ''Which work is blocked?'') = []" by code_simp+
  have t: "sample_task \<in> set (ds_tasks sample_snapshot)" "is_blocked sample_task" by (simp add: sample_snapshot_def) code_simp
  have "upper (tk_key sample_task) = ''WRD-1''" by code_simp
  then show ?thesis using blocked_work_answered_completely [OF ev h ok t] ev by auto
qed

end
