(* ===== verification/ProjectAccess.thy ===== *)
theory ProjectAccess imports Access begin

text \<open>
  Which projects a caller may read: the configured projects (agent\_api/project\_access.py) and the
  principal of an investigation, with the cache that answers while the database is down
  (\<open>get_investigator\<close> of agent\_api/routes/investigations.py).  The environment variables are a map.
  The rows of the key table, read and converted, are an argument: an error, or the records.
\<close>

section \<open>Environment variables\<close>

type_synonym environ = "string \<Rightarrow> string option"

definition getenv :: "environ \<Rightarrow> string \<Rightarrow> string \<Rightarrow> string" where
  "getenv env name otherwise = (case env name of None \<Rightarrow> otherwise | Some v \<Rightarrow> v)"

definition set_and_filled :: "environ \<Rightarrow> string \<Rightarrow> bool" where
  "set_and_filled env name \<longleftrightarrow> (\<exists>v \<in> set_option (env name). v \<noteq> [])"

section \<open>Configured projects\<close>

record configured_project =
  cp_key :: string
  cp_name :: string
  cp_mutation_enabled :: bool

text \<open>\<open>str.split(sep)\<close> for one character, and \<open>str.partition\<close>\<close>

fun split_at :: "char \<Rightarrow> string \<Rightarrow> string list" where
  "split_at c [] = [[]]"
| "split_at c (x # xs) = (if x = c then [] # split_at c xs
     else case split_at c xs of [] \<Rightarrow> [[x]] | w # ws \<Rightarrow> (x # w) # ws)"

definition partition_at :: "char \<Rightarrow> string \<Rightarrow> string \<times> string option" where
  "partition_at c s = (takeWhile (\<lambda>x. x \<noteq> c) s, if c \<in> set s then Some (tl (dropWhile (\<lambda>x. x \<noteq> c) s)) else None)"

abbreviation runtime_error :: py_error where
  "runtime_error \<equiv> OtherException ''RuntimeError''"

definition make_project :: "string \<Rightarrow> string \<Rightarrow> configured_project res" where
  "make_project key name =
    (if matches_key key_char 1 19 key \<and> length_between 1 100 name
     then Inr \<lparr>cp_key = key, cp_name = name, cp_mutation_enabled = False\<rparr> else Inl (ValidationError ''ConfiguredProject''))"

definition add_project :: "configured_project list \<Rightarrow> string \<Rightarrow> configured_project list res" where
  "add_project projects entry =
    (let (key, name) = partition_at (CHR '':'') (strip entry) in
     case name of
       None \<Rightarrow> Inl runtime_error
     | Some n \<Rightarrow> (if key \<in> set (map cp_key projects) then Inl runtime_error
         else bindr (make_project key (strip n)) (\<lambda>p. Inr (projects @ [p]))))"

definition parse_projects :: "string \<Rightarrow> configured_project list res" where
  "parse_projects raw = bindr (foldr_res add_project [] (split_at (CHR '','') raw))
     (\<lambda>projects. if projects = [] then Inl runtime_error else Inr projects)"

definition configured_projects :: "environ \<Rightarrow> configured_project list res" where
  "configured_projects env = parse_projects
     (getenv env ''ALLOWED_JIRA_PROJECTS'' ''WFD:Workforce Real Data,WRD:Workforce Risk Demo'')"

text \<open>\<open>ProjectAccessDenied\<close> is the PermissionError of this module.\<close>

definition require_configured_project :: "environ \<Rightarrow> string \<Rightarrow> configured_project res" where
  "require_configured_project env project_key = bindr (configured_projects env) (\<lambda>projects.
     case List.find (\<lambda>p. cp_key p = project_key) projects of
       None \<Rightarrow> Inl (PermissionError ''project is not configured'') | Some p \<Rightarrow> Inr p)"

definition anonymous_reads :: "environ \<Rightarrow> bool" where
  "anonymous_reads env \<longleftrightarrow> casefold (getenv env ''ALLOW_ANONYMOUS_READ'' ''false'') = ''true''"

definition anonymous_read_principal :: "environ \<Rightarrow> string \<Rightarrow> principal res" where
  "anonymous_read_principal env project_key = bindr (require_configured_project env project_key) (\<lambda>_.
     if \<not> anonymous_reads env then Inl (PermissionError ''anonymous reads are disabled'')
     else case environment_of (getenv env ''APP_ENVIRONMENT'' ''dev'') of
       None \<Rightarrow> Inl runtime_error
     | Some e \<Rightarrow> Inr \<lparr>pp_actor_id = ''anonymous-demo-viewer'', pp_display_label = ''Public demo viewer'', pp_role = Viewer,
         pp_environment = e, pp_project_scopes = [project_key]\<rparr>)"

section \<open>The principal of an investigation\<close>

datatype http_error = HttpException nat string | Raised py_error

type_synonym auth_cache = "string \<Rightarrow> (timestamp \<times> principal) option"

record read_request =
  rd_method :: string
  rd_path :: string
  rd_authorization :: "string option"
  rd_project_key :: string

definition cache_key :: "runtime \<Rightarrow> string option \<Rightarrow> string option" where
  "cache_key rt authorization = (case authorization of None \<Rightarrow> None
     | Some a \<Rightarrow> if a = [] then None else Some (rt_sha256 rt a))"

definition ends_with :: "string \<Rightarrow> string \<Rightarrow> bool" where
  "ends_with suffix s \<longleftrightarrow> starts_with (rev suffix) (rev s)"

definition eligible_cached_read :: "read_request \<Rightarrow> bool" where
  "eligible_cached_read rq \<longleftrightarrow>
     rd_method rq = ''GET'' \<and> list_ex (\<lambda>part. occurs_in part (rd_path rq)) [''/alerts'', ''/reports'', ''/overload-risk''] \<or>
     rd_method rq = ''POST'' \<and> ends_with ''/investigations'' (rd_path rq)"

text \<open>The answer while authentication itself is failing; \<open>now\<close> is the time of the lookup.\<close>

definition cached_principal ::
  "runtime \<Rightarrow> environment \<Rightarrow> read_request \<Rightarrow> timestamp \<Rightarrow> auth_cache \<Rightarrow> http_error + principal" where
  "cached_principal rt env rq now cache =
    (case (case cache_key rt (rd_authorization rq) of None \<Rightarrow> None | Some k \<Rightarrow> cache k) of
       Some (expires, p) \<Rightarrow>
         (if now < expires \<and> pp_environment p = env \<and> rd_project_key rq \<in> set (pp_project_scopes p) \<and> eligible_cached_read rq
          then Inr p else Inl (HttpException 503 ''authentication unavailable''))
     | None \<Rightarrow> Inl (HttpException 503 ''authentication unavailable''))"

definition auth_status :: "string \<Rightarrow> nat" where
  "auth_status msg = (if occurs_in ''role'' msg \<or> occurs_in ''scope'' msg then 403 else 401)"

definition cache_ttl :: "environ \<Rightarrow> int option" where
  "cache_ttl env = map_option (\<lambda>n. max 1 (min n 60)) (int_of_text (getenv env ''AUTH_CACHE_TTL_SECONDS'' ''30''))"

text \<open>
  \<open>mac\<close> is the HMAC under the pepper; \<open>now\<close> is the time of the check and \<open>later\<close> of the cache access.
  \<open>env\<close> is the value of APP\_ENVIRONMENT.
\<close>

definition get_investigator ::
  "runtime \<Rightarrow> environ \<Rightarrow> environment \<Rightarrow> (string \<Rightarrow> string) \<Rightarrow> read_request \<Rightarrow> api_key_record list res \<Rightarrow> timestamp \<Rightarrow> timestamp
     \<Rightarrow> auth_cache \<Rightarrow> (http_error + principal) \<times> auth_cache" where
  "get_investigator rt vars env mac rq fetched now later cache =
    (case require_configured_project vars (rd_project_key rq) of
       Inl (PermissionError _) \<Rightarrow> (Inl (HttpException 403 ''project is not available''), cache)
     | Inl e \<Rightarrow> (Inl (Raised e), cache)
     | Inr _ \<Rightarrow>
        if anonymous_reads vars then (map_sum Raised id (anonymous_read_principal vars (rd_project_key rq)), cache)
        else if \<not> set_and_filled vars ''DATABASE_URL'' \<or> \<not> set_and_filled vars ''API_KEY_HMAC_PEPPER''
        then (Inl (HttpException 503 ''authentication unavailable''), cache)
        else case fetched of
          Inl _ \<Rightarrow> (cached_principal rt env rq later cache, cache)
        | Inr records \<Rightarrow>
            (case api_key_service (getenv vars ''API_KEY_HMAC_PEPPER'' []) of
               Inl _ \<Rightarrow> (cached_principal rt env rq later cache, cache)
             | Inr _ \<Rightarrow>
                (case authenticate mac (rd_authorization rq) records env (rd_project_key rq) {Viewer, Manager, Administrator} now of
                   Inl (PermissionError msg) \<Rightarrow> (Inl (HttpException (auth_status msg) ''not authorized''), cache)
                 | Inl _ \<Rightarrow> (cached_principal rt env rq later cache, cache)
                 | Inr p \<Rightarrow>
                    (case cache_key rt (rd_authorization rq) of
                       None \<Rightarrow> (Inr p, cache)
                     | Some k \<Rightarrow>
                        (case cache_ttl vars of
                           None \<Rightarrow> (cached_principal rt env rq later cache, cache)
                         | Some ttl \<Rightarrow> (Inr p, cache(k \<mapsto> (later + ttl * 1000000, p))))))))"

section \<open>Properties of the configuration\<close>

definition project_text :: "configured_project \<Rightarrow> string" where
  "project_text p = cp_key p @ CHR '':'' # cp_name p"

definition plain_project :: "configured_project \<Rightarrow> bool" where
  "plain_project p \<longleftrightarrow> matches_key key_char 1 19 (cp_key p) \<and> length_between 1 100 (cp_name p) \<and> CHR '','' \<notin> set (cp_name p) \<and>
     strip (cp_name p) = cp_name p \<and> \<not> cp_mutation_enabled p"

fun projects_text :: "configured_project list \<Rightarrow> string" where
  "projects_text [] = []"
| "projects_text [p] = project_text p"
| "projects_text (p # q # ps) = project_text p @ CHR '','' # projects_text (q # ps)"

lemma split_at_append:
  "c \<notin> set w \<Longrightarrow> split_at c (w @ c # s) = w # split_at c s" "c \<notin> set w \<Longrightarrow> split_at c w = [w]"
  by (induction w) auto

lemma split_projects_text:
  assumes "ps \<noteq> []" "\<And>p. p \<in> set ps \<Longrightarrow> CHR '','' \<notin> set (project_text p)"
  shows "split_at (CHR '','') (projects_text ps) = map project_text ps"
  using assms by (induction ps rule: projects_text.induct) (simp_all add: split_at_append)

lemma strip_kept:
  assumes "s \<noteq> []" "\<not> is_space (hd s)" "\<not> is_space (last s)"
  shows "strip s = s"
proof -
  have "dropWhile is_space s = s" using assms(1,2) by (cases s) auto
  moreover have "dropWhile is_space (rev s) = rev s" using assms(1,3) by (cases s rule: rev_cases) auto
  ultimately show ?thesis by (simp add: strip_def)
qed

lemma strip_last:
  assumes "strip s = s" "s \<noteq> []"
  shows "\<not> is_space (last s)"
proof -
  have "rev s = dropWhile is_space (rev (dropWhile is_space s))" using assms(1) by (metis rev_rev_ident strip_def)
  then have "\<not> is_space (hd (rev s))" using assms(2) by (metis hd_dropWhile rev_is_Nil_conv)
  then show ?thesis by (simp add: hd_rev)
qed

lemma plain_project_text:
  assumes "plain_project p"
  shows "CHR '','' \<notin> set (project_text p)" and "strip (project_text p) = project_text p"
    and "partition_at (CHR '':'') (project_text p) = (cp_key p, Some (cp_name p))"
    and "make_project (cp_key p) (strip (cp_name p)) = Inr p"
proof -
  have key: "list_all key_char (cp_key p)" "cp_key p \<noteq> []"
    using assms by (cases "cp_key p"; auto simp: plain_project_def matches_key_def key_char_def)+
  have name: "cp_name p \<noteq> []" using assms by (auto simp: plain_project_def length_between_def)
  then have name': "\<not> is_space (last (cp_name p))" using assms strip_last by (simp add: plain_project_def)
  have "\<not> is_space c \<and> c \<noteq> CHR '':'' \<and> c \<noteq> CHR '',''" if "key_char c" for c
    using that by (auto simp: key_char_def is_upper_def is_digit_def is_space_def less_eq_char_def)
  with key have chars: "\<not> is_space c \<and> c \<noteq> CHR '':'' \<and> c \<noteq> CHR '',''" if "c \<in> set (cp_key p)" for c
    using that by (auto simp: list_all_iff)
  show "CHR '','' \<notin> set (project_text p)" using chars assms by (auto simp: project_text_def plain_project_def)
  show "strip (project_text p) = project_text p"
    using chars [of "hd (cp_key p)"] key(2) name name' by (intro strip_kept) (simp_all add: project_text_def)
  have "takeWhile (\<lambda>x. x \<noteq> CHR '':'') (project_text p) = cp_key p" "dropWhile (\<lambda>x. x \<noteq> CHR '':'') (project_text p) = CHR '':'' # cp_name p"
    using chars by (auto simp: project_text_def takeWhile_append2 dropWhile_append2)
  then show "partition_at (CHR '':'') (project_text p) = (cp_key p, Some (cp_name p))"
    by (simp add: partition_at_def project_text_def)
  show "make_project (cp_key p) (strip (cp_name p)) = Inr p"
    using assms by (cases p) (simp add: plain_project_def make_project_def)
qed

lemma add_projects:
  assumes "list_all plain_project ps" "distinct (map cp_key (qs @ ps))"
  shows "foldr_res add_project qs (map project_text ps) = Inr (qs @ ps)"
  using assms
proof (induction ps arbitrary: qs)
  case (Cons p ps)
  then have "add_project qs (project_text p) = Inr (qs @ [p])"
    by (simp add: add_project_def plain_project_text)
  with Cons show ?case by simp
qed simp

text \<open>
  The list of configured projects reads back as it was written: each project with its key and its
  name, in order, none of them enabled for changes.
\<close>

theorem projects_round_trip:
  assumes "ps \<noteq> []" "list_all plain_project ps" "distinct (map cp_key ps)"
  shows "parse_projects (projects_text ps) = Inr ps"
proof -
  have "split_at (CHR '','') (projects_text ps) = map project_text ps"
    using assms(1,2) plain_project_text(1) by (intro split_projects_text) (auto simp: list_all_iff)
  then show ?thesis using add_projects [OF assms(2), of "[]"] assms(1,3) by (simp add: parse_projects_def)
qed

section \<open>Properties of the principal\<close>

text \<open>A sequence of reads that share the cache\<close>

record read_event =
  rv_request :: read_request
  rv_fetched :: "api_key_record list res"
  rv_now :: timestamp
  rv_later :: timestamp

definition serve ::
  "runtime \<Rightarrow> environ \<Rightarrow> environment \<Rightarrow> (string \<Rightarrow> string) \<Rightarrow> read_event \<Rightarrow> auth_cache \<Rightarrow> (http_error + principal) \<times> auth_cache" where
  "serve rt vars env mac ev cache =
     get_investigator rt vars env mac (rv_request ev) (rv_fetched ev) (rv_now ev) (rv_later ev) cache"

fun serve_all ::
  "runtime \<Rightarrow> environ \<Rightarrow> environment \<Rightarrow> (string \<Rightarrow> string) \<Rightarrow> auth_cache \<Rightarrow> read_event list \<Rightarrow> (http_error + principal) list" where
  "serve_all rt vars env mac cache [] = []"
| "serve_all rt vars env mac cache (ev # evs) =
    (let (r, cache') = serve rt vars env mac ev cache in r # serve_all rt vars env mac cache' evs)"

definition authenticated :: "environment \<Rightarrow> (string \<Rightarrow> string) \<Rightarrow> read_event \<Rightarrow> principal \<Rightarrow> bool" where
  "authenticated env mac ev p \<longleftrightarrow> (\<exists>records. rv_fetched ev = Inr records \<and>
     authenticate mac (rd_authorization (rv_request ev)) records env (rd_project_key (rv_request ev))
       {Viewer, Manager, Administrator} (rv_now ev) = Inr p)"

definition same_credential :: "runtime \<Rightarrow> read_event \<Rightarrow> read_event \<Rightarrow> bool" where
  "same_credential rt e f \<longleftrightarrow> (\<exists>k. cache_key rt (rd_authorization (rv_request e)) = Some k \<and>
     cache_key rt (rd_authorization (rv_request f)) = Some k)"

text \<open>What a cache holds was authenticated by one of the events so far, and for at most a minute.\<close>

definition cache_ok :: "runtime \<Rightarrow> environment \<Rightarrow> (string \<Rightarrow> string) \<Rightarrow> read_event list \<Rightarrow> auth_cache \<Rightarrow> bool" where
  "cache_ok rt env mac evs cache \<longleftrightarrow> (\<forall>k t p. cache k = Some (t, p) \<longrightarrow>
     (\<exists>e \<in> set evs. cache_key rt (rd_authorization (rv_request e)) = Some k \<and> authenticated env mac e p \<and>
        t \<le> rv_later e + 60000000))"

definition served_rightly ::
  "runtime \<Rightarrow> environ \<Rightarrow> environment \<Rightarrow> (string \<Rightarrow> string) \<Rightarrow> read_event list \<Rightarrow> read_event \<Rightarrow> principal \<Rightarrow> bool" where
  "served_rightly rt vars env mac earlier ev p \<longleftrightarrow>
     (\<exists>cp. require_configured_project vars (rd_project_key (rv_request ev)) = Inr cp) \<and>
     rd_project_key (rv_request ev) \<in> set (pp_project_scopes p) \<and>
     (if anonymous_reads vars then pp_role p = Viewer \<and> pp_project_scopes p = [rd_project_key (rv_request ev)]
      else pp_environment p = env \<and>
       (authenticated env mac ev p \<or>
        eligible_cached_read (rv_request ev) \<and>
        (\<exists>e \<in> set earlier. same_credential rt e ev \<and> authenticated env mac e p \<and> rv_later ev < rv_later e + 60000000)))"

lemma cached_principal_Inr:
  "cached_principal rt env rq now cache = Inr p \<longleftrightarrow> (\<exists>k t. cache_key rt (rd_authorization rq) = Some k \<and> cache k = Some (t, p) \<and>
     now < t \<and> pp_environment p = env \<and> rd_project_key rq \<in> set (pp_project_scopes p) \<and> eligible_cached_read rq)"
  by (auto simp: cached_principal_def split: option.splits if_splits)

lemma authenticate_scope:
  assumes "authenticate mac authorization records env project allowed now = Inr p"
  shows "pp_environment p = env" and "project \<in> set (pp_project_scopes p)"
  using assms by (auto simp: authenticate_def principal_of_key_def split: option.splits if_splits)

lemma anonymous_read_principal_Inr:
  assumes "anonymous_read_principal env project = Inr p"
  shows "pp_role p = Viewer" and "pp_project_scopes p = [project]"
  using assms by (auto simp: anonymous_read_principal_def bindr_Inr_iff split: if_splits option.splits)

lemma cache_ttl_bounds: "cache_ttl vars = Some n \<Longrightarrow> 1 \<le> n \<and> n \<le> 60"
  by (auto simp: cache_ttl_def)

lemma serve_step:
  assumes "cache_ok rt env mac earlier cache" "serve rt vars env mac ev cache = (r, cache')"
  shows "cache_ok rt env mac (earlier @ [ev]) cache'" and "r = Inr p \<Longrightarrow> served_rightly rt vars env mac earlier ev p"
proof -
  note get = assms(2) [unfolded serve_def get_investigator_def]
  have kept: "cache_ok rt env mac (earlier @ [ev]) cache" using assms(1) by (fastforce simp: cache_ok_def)
  consider (same) "cache' = cache"
    | (stored) p k ttl where "authenticated env mac ev p" "cache_key rt (rd_authorization (rv_request ev)) = Some k"
      "cache_ttl vars = Some ttl" "cache' = cache(k \<mapsto> (rv_later ev + ttl * 1000000, p))"
    using get by (auto simp: authenticated_def split: sum.splits py_error.splits if_splits option.splits)
  then show "cache_ok rt env mac (earlier @ [ev]) cache'"
  proof cases
    case stored
    then show ?thesis using kept cache_ttl_bounds [OF stored(3)] by (auto simp: cache_ok_def)
  qed (simp add: kept)
  assume r: "r = Inr p"
  obtain cp where cp: "require_configured_project vars (rd_project_key (rv_request ev)) = Inr cp"
    using get r by (auto split: sum.splits py_error.splits)
  show "served_rightly rt vars env mac earlier ev p"
  proof (cases "anonymous_reads vars")
    case True
    then have "anonymous_read_principal vars (rd_project_key (rv_request ev)) = Inr p"
      using get r cp by (cases "anonymous_read_principal vars (rd_project_key (rv_request ev))") auto
    with True cp show ?thesis by (auto simp: served_rightly_def dest: anonymous_read_principal_Inr)
  next
    case False
    then have "authenticated env mac ev p \<or> cached_principal rt env (rv_request ev) (rv_later ev) cache = Inr p"
      using get r cp by (auto simp: authenticated_def split: sum.splits py_error.splits if_splits option.splits)
    then show ?thesis
    proof
      assume a: "authenticated env mac ev p"
      then have "pp_environment p = env" "rd_project_key (rv_request ev) \<in> set (pp_project_scopes p)"
        by (auto simp: authenticated_def dest: authenticate_scope)
      with a cp False show ?thesis by (auto simp: served_rightly_def)
    next
      assume "cached_principal rt env (rv_request ev) (rv_later ev) cache = Inr p"
      then obtain k t where k: "cache_key rt (rd_authorization (rv_request ev)) = Some k" "cache k = Some (t, p)" "rv_later ev < t"
          "pp_environment p = env" "rd_project_key (rv_request ev) \<in> set (pp_project_scopes p)" "eligible_cached_read (rv_request ev)"
        unfolding cached_principal_Inr by blast
      moreover from this(2) assms(1) obtain e where "e \<in> set earlier" "cache_key rt (rd_authorization (rv_request e)) = Some k"
          "authenticated env mac e p" "t \<le> rv_later e + 60000000"
        unfolding cache_ok_def by blast
      ultimately show ?thesis using cp False unfolding served_rightly_def same_credential_def by auto
    qed
  qed
qed

lemma serve_all_rightly:
  assumes "cache_ok rt env mac earlier cache" "i < length evs" "serve_all rt vars env mac cache evs ! i = Inr p"
  shows "served_rightly rt vars env mac (earlier @ take i evs) (evs ! i) p"
  using assms
proof (induction evs arbitrary: cache earlier i)
  case (Cons ev evs)
  obtain r cache' where s: "serve rt vars env mac ev cache = (r, cache')" by fastforce
  show ?case
  proof (cases i)
    case 0
    then show ?thesis using Cons.prems s serve_step(2) [OF Cons.prems(1) s] by simp
  next
    case (Suc j)
    then show ?thesis using Cons.prems s Cons.IH [OF serve_step(1) [OF Cons.prems(1) s], of j] by simp
  qed
qed simp

text \<open>
  C31: Nobody reads a project without having authenticated for it.  In any sequence of reads, each with its
  own state of the key table and its own times, a principal is only returned for a configured project in its
  scope.  Unless anonymous reads are on, when it is a viewer of that one project, it was authenticated by this
  very request or, for a request the cache may answer, by an earlier one with the same credential less than a
  minute before.
\<close>

theorem investigators_authenticated:
  assumes "i < length evs" "serve_all rt vars env mac (\<lambda>_. None) evs ! i = Inr p"
  shows "served_rightly rt vars env mac (take i evs) (evs ! i) p"
  using serve_all_rightly [of rt env mac "[]" "\<lambda>_. None" i evs vars p] assms by (simp add: cache_ok_def)

section \<open>Witnesses\<close>

definition sample_vars :: environ where
  "sample_vars = [''DATABASE_URL'' \<mapsto> ''db'', ''API_KEY_HMAC_PEPPER'' \<mapsto> replicate 32 (CHR ''p'')]"

definition sample_read :: "string \<Rightarrow> api_key_record list res \<Rightarrow> timestamp \<Rightarrow> read_event" where
  "sample_read path fetched now = \<lparr>rv_request = \<lparr>rd_method = ''POST'', rd_path = path, rd_authorization = Some ''Bearer wrk_dev_t'',
     rd_project_key = ''WRD''\<rparr>, rv_fetched = fetched, rv_now = now, rv_later = now\<rparr>"

lemma projects_round_trip_witness:
  "parse_projects ''WRD:Demo,OPS:Ops: EU'' = Inr [\<lparr>cp_key = ''WRD'', cp_name = ''Demo'', cp_mutation_enabled = False\<rparr>,
     \<lparr>cp_key = ''OPS'', cp_name = ''Ops: EU'', cp_mutation_enabled = False\<rparr>]"
proof -
  let ?ps = "[\<lparr>cp_key = ''WRD'', cp_name = ''Demo'', cp_mutation_enabled = False\<rparr>,
     \<lparr>cp_key = ''OPS'', cp_name = ''Ops: EU'', cp_mutation_enabled = False\<rparr>]"
  have "list_all plain_project ?ps" by code_simp
  from projects_round_trip [OF _ this] show ?thesis by (simp add: project_text_def)
qed

lemma investigators_authenticated_witness:
  "served_rightly sample_runtime sample_vars Dev (\<lambda>s. s) [sample_read ''/investigations'' (Inr [sample_key]) 5]
     (sample_read ''/investigations'' (Inl TimeoutError) 7) (principal_of_key sample_key)"
proof -
  have "serve_all sample_runtime sample_vars Dev (\<lambda>s. s) (\<lambda>_. None)
      [sample_read ''/investigations'' (Inr [sample_key]) 5, sample_read ''/investigations'' (Inl TimeoutError) 7] ! 1 =
      Inr (principal_of_key sample_key)"
    by code_simp
  from investigators_authenticated [OF _ this] show ?thesis by simp
qed

end
