(* ===== verification/TaskQueries.thy ===== *)
theory TaskQueries imports Grounding JiraRead begin

text \<open>
  Questions about Jira tasks answered without the language model: the intents of a question
  (graph/intents.py) and the deterministic task queries (task\_queries.py), from the question to the
  JQL text or issue key, the read and the answer.  The Jira client is an argument of the tool and
  is instantiated with the evidence client of JiraRead in the properties.
\<close>

section \<open>Intents\<close>

datatype intent = ExplainProjectRisk | ExplainEmployeeOverload | EvaluateTaskFit | ExplainHistory | ReassignmentCandidates
  | WhatIfSimulation | OperationsDiagnosis | JiraTaskQuery | Unsupported

definition historical_date_re :: regex where
  "historical_date_re =
    (let two = RRepeat True 2 (Some 2) (RChar is_digit) in
     RAlt (seq_of [RBoundary, lit ''20'', two, lit ''-'', two, lit ''-'', two, RBoundary])
       (seq_of [RBoundary, alt_of (map lit [''january'', ''february'', ''march'', ''april'', ''may'', ''june'', ''july'', ''august'',
          ''september'', ''october'', ''november'', ''december'']), some_of is_space, RRepeat True 1 (Some 2) (RChar is_digit), RBoundary]))"

definition which_employees_re :: regex where
  "which_employees_re = seq_of [RBoundary, lit ''which employee'', opt (lit ''s''), RBoundary]"

definition words_of :: "string \<Rightarrow> string" where
  "words_of question = join_words (split_words [] (casefold question))"

definition classify_intent :: "string \<Rightarrow> string option \<Rightarrow> intent" where
  "classify_intent question default_scope =
    (let text = words_of question; has = (\<lambda>phrases. mentions phrases text);
         issue_key = found issue_key_re (upper question); asks_for_employee = found which_employees_re text;
         work_terms = [''employee'', ''risk'', ''score'', ''factor'', ''overdue'', ''blocked'', ''work'', ''task'', ''manager'', ''evidence'',
           ''result'', ''missing'', ''situation'', ''improved'', ''improvement'', ''urgent'', ''overload'', ''prevent'']
     in if has [''approve'', ''execute'', ''change assignee''] then Unsupported
        else if found historical_date_re text \<and> has [''risk'', ''overload'', ''improved'', ''situation''] then ExplainHistory
        else if has [''tasks are done'', ''tasks have a missing estimate'', ''tasks are blocked'', ''work is blocked'', ''tasks are overdue'',
                  ''tasks are due soon'', ''that task'', ''that issue''] \<or>
                issue_key \<and> has [''status'', ''assigned'', ''assignee'', ''who''] then JiraTaskQuery
        else if has [''improved'', ''improvement'', ''changed since''] then ExplainHistory
        else if has [''due date''] \<and> issue_key \<or>
                has [''task''] \<and> has [''due'', ''tomorrow''] \<and> has [''how many'', ''list'', ''what'', ''which''] then JiraTaskQuery
        else if has [''what if'', ''simulate''] then WhatIfSimulation
        else if has [''candidate'', ''could take'', ''can take''] \<or>
                asks_for_employee \<and> has [''assign'', ''reassign'', ''suitable'', ''best fit''] then ReassignmentCandidates
        else if has [''task''] \<and> has [''fit'', ''skill'', ''appropriate''] then EvaluateTaskFit
        else if has [''service'', ''pod'', ''deployment''] \<and> has [''unhealthy'', ''latency'', ''failed'', ''failure''] then OperationsDiagnosis
        else if has [''develop'', ''prevent'', ''recurrence'', ''history''] \<and> default_scope = None then ExplainHistory
        else if has [''project''] \<and> has [''risk'', ''late'', ''delay''] then ExplainProjectRisk
        else if asks_for_employee \<and> has [''risk'', ''overload''] then ExplainProjectRisk
        else if has [''employee''] \<and> has [''overload'', ''progress'', ''finish'', ''workload''] then ExplainEmployeeOverload
        else if default_scope = Some ''employee'' \<and> has work_terms then ExplainEmployeeOverload
        else if default_scope \<in> {Some ''project'', Some ''workflow''} \<and> has work_terms then ExplainProjectRisk
        else ExplainProjectRisk)"

definition read_only_tools :: "intent \<Rightarrow> string set" where
  "read_only_tools i = (case i of
     ExplainProjectRisk \<Rightarrow> {''get_project_risk''} | ExplainEmployeeOverload \<Rightarrow> {''get_employee_overload_risk''}
   | EvaluateTaskFit \<Rightarrow> {''get_task_fit_risk''} | ExplainHistory \<Rightarrow> {''get_risk_history''}
   | ReassignmentCandidates \<Rightarrow> {''get_reassignment_candidates''} | WhatIfSimulation \<Rightarrow> {''simulate_reassignment''}
   | OperationsDiagnosis \<Rightarrow> {''diagnose_operations_read_only''} | JiraTaskQuery \<Rightarrow> {''getJiraIssue'', ''searchJiraIssuesUsingJql''}
   | Unsupported \<Rightarrow> {})"

section \<open>Queries\<close>

datatype query_kind = IssueDueDate | IssueStatus | IssueAssignee | ReferencedTaskAssignee | EmployeeDueBy | DoneTasks
  | MissingEstimates | BlockedTasks | OverdueTasks | DueSoonTasks | AmbiguousReferent

fun query_kind_value :: "query_kind \<Rightarrow> string" where
  "query_kind_value IssueDueDate = ''issue_due_date''"
| "query_kind_value IssueStatus = ''issue_status''"
| "query_kind_value IssueAssignee = ''issue_assignee''"
| "query_kind_value ReferencedTaskAssignee = ''referenced_task_assignee''"
| "query_kind_value EmployeeDueBy = ''employee_due_by''"
| "query_kind_value DoneTasks = ''list_done_tasks''"
| "query_kind_value MissingEstimates = ''missing_estimates''"
| "query_kind_value BlockedTasks = ''blocked_tasks''"
| "query_kind_value OverdueTasks = ''overdue_tasks''"
| "query_kind_value DueSoonTasks = ''due_soon_tasks''"
| "query_kind_value AmbiguousReferent = ''ambiguous_referent''"

record entity_references =
  er_alert_id :: "string option"
  er_employee_id :: "string option"
  er_project_id :: "string option"
  er_project_key :: string
  er_task_id :: "string option"
  er_risk_result_id :: "string option"
  er_proposal_id :: "string option"

record task_query =
  tq_kind :: query_kind
  tq_project_key :: string
  tq_issue_key :: "string option"
  tq_employee_id :: "string option"
  tq_due_by :: "date option"
  tq_jql :: "string option"

record task_query_result =
  qr_answer :: string
  qr_tasks :: "task_fact list"
  qr_evidence_references :: "string list"
  qr_correlation_id :: string
  qr_context :: "grounded_context option"

abbreviation quote :: char where
  "quote \<equiv> CHR 0x22"

definition quoted :: "string \<Rightarrow> string" where
  "quoted s = [quote] @ s @ [quote]"

definition list_queries :: "(string \<times> query_kind \<times> string) list" where
  "list_queries = [
     (''done'', DoneTasks, ''statusCategory = Done''),
     (''missing estimate'', MissingEstimates, ''statusCategory != Done AND remainingEstimate is EMPTY''),
     (''blocked'', BlockedTasks, ''statusCategory != Done''),
     (''overdue'', OverdueTasks, ''statusCategory != Done AND duedate < startOfDay()''),
     (''due soon'', DueSoonTasks, ''statusCategory != Done AND duedate >= startOfDay() AND duedate <= 7d'')]"

definition list_jql :: "string \<Rightarrow> string \<Rightarrow> string" where
  "list_jql project_key predicate = ''project = '' @ quoted project_key @ '' AND '' @ predicate @ '' ORDER BY key ASC''"

definition employee_jql :: "string \<Rightarrow> string \<Rightarrow> string \<Rightarrow> string" where
  "employee_jql project_key employee_id due = ''project = '' @ quoted project_key @ '' AND labels = '' @
     quoted (''workforce-employee:'' @ employee_id) @ '' AND labels != '' @ quoted ''workforce-record:employee-profile'' @
     '' AND duedate <= '' @ quoted due @ '' AND statusCategory != Done ORDER BY duedate ASC, key ASC''"

definition employee_number_re :: regex where
  "employee_number_re = seq_of [RBoundary, lit ''employee'', some_of is_space, RGroup 1 (RRepeat True 1 (Some 3) (RChar is_digit)), RBoundary]"

definition plain_query :: "query_kind \<Rightarrow> string \<Rightarrow> task_query" where
  "plain_query kind project_key = \<lparr>tq_kind = kind, tq_project_key = project_key, tq_issue_key = None, tq_employee_id = None,
     tq_due_by = None, tq_jql = None\<rparr>"

text \<open>The employee of a deadline question: the number in the question before the reference.\<close>

definition deadline_employee :: "string \<Rightarrow> entity_references \<Rightarrow> string res" where
  "deadline_employee folded references = (case re_search employee_number_re folded of
     Some m \<Rightarrow>
       (let number = digit_number (group_text 1 m) in
        if number \<notin> {1..<8} then Inl (ValueError ''employee is outside the configured workforce'')
        else Inr (''EMP-00'' @ nat_digits number))
   | None \<Rightarrow> (case er_employee_id references of
       None \<Rightarrow> Inl (ValueError ''employee is required for a deadline task query'') | Some e \<Rightarrow> Inr e))"

definition parse_task_query ::
  "runtime \<Rightarrow> string \<Rightarrow> entity_references \<Rightarrow> date \<Rightarrow> grounded_context option \<Rightarrow> task_query res" where
  "parse_task_query rt question references today previous =
    (let folded = casefold question; project_key = er_project_key references in
     if mentions [''that task'', ''that issue''] folded then
       (case (case previous of None \<Rightarrow> [] | Some c \<Rightarrow> gc_issues c) of
          [] \<Rightarrow> Inl (ValueError ''previous task context is required'')
        | [prior] \<Rightarrow> Inr ((plain_query ReferencedTaskAssignee project_key)\<lparr>tq_issue_key := Some (tf_key prior)\<rparr>)
        | _ \<Rightarrow> Inr (plain_query AmbiguousReferent project_key))
     else case issue_keys (upper question) of
       issue_key # _ \<Rightarrow>
         (if \<not> starts_with (project_key @ ''-'') issue_key then Inl (ValueError ''issue is outside the authorized project'')
          else Inr ((plain_query (if mentions [''due'', ''deadline''] folded then IssueDueDate
             else if mentions [''who'', ''assign'', ''employee''] folded then IssueAssignee else IssueStatus) project_key)
             \<lparr>tq_issue_key := Some issue_key\<rparr>))
     | [] \<Rightarrow>
         (case List.find (\<lambda>(phrase, kind, predicate). occurs_in phrase folded) list_queries of
            Some (phrase, kind, predicate) \<Rightarrow> Inr ((plain_query kind project_key)\<lparr>tq_jql := Some (list_jql project_key predicate)\<rparr>)
          | None \<Rightarrow> bindr (deadline_employee folded references) (\<lambda>employee_id.
              if \<not> occurs_in ''tomorrow'' folded then Inl (ValueError ''only an explicit tomorrow deadline is supported'')
              else Inr \<lparr>tq_kind = EmployeeDueBy, tq_project_key = project_key, tq_issue_key = None,
                tq_employee_id = Some employee_id, tq_due_by = Some (today + 1),
                tq_jql = Some (employee_jql project_key employee_id (rt_date rt (today + 1)))\<rparr>)))"

section \<open>Facts and answers\<close>

text \<open>\<open>text\<close> is \<open>str\<close> of the value of a custom field.\<close>

definition blocker_of :: "(json \<Rightarrow> string) \<Rightarrow> issue_evidence \<Rightarrow> string option" where
  "blocker_of str item = map_option (\<lambda>f. str (cf_value f))
     (List.find (\<lambda>f. cf_logical_name f = ''blocker_category'' \<and> truthy (cf_value f)) (ie_custom_fields item))"

definition hours_of :: "int option \<Rightarrow> pyfloat option" where
  "hours_of seconds = map_option (\<lambda>s. fl (of_int s / 3600)) seconds"

definition link_texts :: "issue_evidence \<Rightarrow> string list" where
  "link_texts item = map (\<lambda>l. il_relationship l @ '': '' @ il_issue_key l) (ie_links item)"

definition fact_from :: "(json \<Rightarrow> string) \<Rightarrow> issue_evidence \<Rightarrow> task_fact" where
  "fact_from str item = \<lparr>tf_key = ie_key item, tf_summary = ie_summary item, tf_status = ie_status item,
     tf_assignee = map_option ac_display_name (ie_assignee item), tf_due_date = ie_due_date item,
     tf_remaining_hours = hours_of (ie_remaining_estimate_seconds item), tf_blocker = blocker_of str item,
     tf_dependencies = link_texts item\<rparr>"

definition format_line :: "bool \<Rightarrow> task_fact \<Rightarrow> string" where
  "format_line include_assignee f = tf_key f @ '' '' @ em_dash @ '' '' @ tf_summary f @ '' '' @ em_dash @ '' '' @ tf_status f @
     (if include_assignee then '' '' @ em_dash @ '' assigned to '' @ (if given (tf_assignee f) then the (tf_assignee f) else ''Unassigned'')
      else []) @ ''.''"

definition format_list :: "task_fact list \<Rightarrow> string \<Rightarrow> bool \<Rightarrow> string" where
  "format_list facts nothing include_assignee = (if facts = [] then nothing else join [CHR 0x0A] (map (format_line include_assignee) facts))"

definition listed :: "string list \<Rightarrow> string" where
  "listed labels = (case labels of [] \<Rightarrow> [] | [x] \<Rightarrow> '': '' @ x
     | _ \<Rightarrow> '': '' @ join '', '' (butlast labels) @ '' and '' @ last labels)"

record 'w task_reader =
  tr_get :: "string \<Rightarrow> string \<Rightarrow> 'w \<Rightarrow> issue_evidence res \<times> 'w"
  tr_search :: "string \<Rightarrow> string \<Rightarrow> string \<Rightarrow> 'w \<Rightarrow> issue_evidence list res \<times> 'w"

definition single_issue_answer :: "runtime \<Rightarrow> query_kind \<Rightarrow> issue_evidence \<Rightarrow> string" where
  "single_issue_answer rt kind item =
    (if kind = IssueDueDate then (case ie_due_date item of
        None \<Rightarrow> ie_key item @ '' has no due date.'' | Some d \<Rightarrow> ie_key item @ '' is due on '' @ rt_date rt d @ ''.'')
     else if kind = IssueStatus then ie_key item @ '', '' @ ie_summary item @ '', is currently '' @ ie_status item @ ''.''
     else (case ie_assignee item of None \<Rightarrow> ''Unassigned'' | Some a \<Rightarrow> ac_display_name a) @ '' is assigned to '' @ ie_key item @ '', '' @
       ie_summary item @ '', which is currently '' @ ie_status item @ ''.'')"

text \<open>\<open>int(employee_id.removeprefix("EMP-"))\<close> raises ValueError for a reference of another form.\<close>

definition deadline_answer :: "runtime \<Rightarrow> string \<Rightarrow> date \<Rightarrow> issue_evidence list \<Rightarrow> string res" where
  "deadline_answer rt employee_id due issues =
    (let labels = List.map_filter (\<lambda>i. map_option (\<lambda>d. ie_key i @ '' (due '' @ rt_date rt d @ '')'') (ie_due_date i)) issues in
     case int_of_text (if starts_with ''EMP-'' employee_id then drop 4 employee_id else employee_id) of
       None \<Rightarrow> Inl (ValueError ''invalid literal for int()'')
     | Some number \<Rightarrow> Inr (''Employee '' @ int_repr number @ '' has '' @ int_repr (int (length issues)) @ '' unfinished '' @
         (if length issues = 1 then ''task'' else ''tasks'') @ '' due by '' @ rt_date rt due @ listed labels @ ''.''))"

definition list_answer :: "query_kind \<Rightarrow> task_fact list \<Rightarrow> string" where
  "list_answer kind facts =
    (if kind = DoneTasks then format_list facts ''No tasks are currently Done.'' True
     else if kind = MissingEstimates then format_list facts ''No active tasks are missing a remaining estimate.'' False
     else if kind = BlockedTasks then format_list facts ''No tasks are currently blocked.'' False
     else if kind = OverdueTasks then format_list facts ''No active tasks are overdue.'' False
     else format_list facts ''No active tasks are due within seven days.'' False)"

definition is_blocked_issue :: "(json \<Rightarrow> string) \<Rightarrow> issue_evidence \<Rightarrow> bool" where
  "is_blocked_issue str i \<longleftrightarrow> given (blocker_of str i) \<or> list_ex (\<lambda>l. casefold (il_relationship l) = ''is blocked by'') (ie_links i)"

definition result_for :: "(json \<Rightarrow> string) \<Rightarrow> string \<Rightarrow> query_kind \<Rightarrow> string \<Rightarrow> string \<Rightarrow> issue_evidence list \<Rightarrow> task_query_result" where
  "result_for str question kind correlation_id answer issues =
    (let facts = map (fact_from str) issues;
         names = (if kind = IssueDueDate then [''duedate''] else [''summary'', ''status'', ''assignee''])
     in \<lparr>qr_answer = answer, qr_tasks = facts,
         qr_evidence_references = concat (map (\<lambda>i. map (\<lambda>f. ''jira:'' @ ie_key i @ '':'' @ f) names) issues),
         qr_correlation_id = correlation_id,
         qr_context = Some \<lparr>gc_intent = query_kind_value kind, gc_previous_question = Some question, gc_issues = facts,
           gc_employee_ids = [], gc_exhaustive = False\<rparr>\<rparr>)"

text \<open>The answer of a parsed query; the assertions of the code hold for every query it parses.\<close>

definition answer_query ::
  "runtime \<Rightarrow> (json \<Rightarrow> string) \<Rightarrow> 'w task_reader \<Rightarrow> string \<Rightarrow> task_query \<Rightarrow> string \<Rightarrow> grounded_context option \<Rightarrow> 'w
     \<Rightarrow> task_query_result res \<times> 'w" where
  "answer_query rt str reader question q correlation_id previous w =
    (if tq_kind q = AmbiguousReferent then
       (case previous of
          None \<Rightarrow> (Inl AssertionError, w)
        | Some c \<Rightarrow> let keys = map tf_key (gc_issues c) in
           (Inr (result_for str question (tq_kind q) correlation_id
              (''Which task do you mean: '' @ join '', '' (butlast keys) @ '' or '' @ last keys @ ''?'') []), w))
     else if tq_kind q \<in> {IssueDueDate, IssueStatus, IssueAssignee, ReferencedTaskAssignee} then
       (case tq_issue_key q of
          None \<Rightarrow> (Inl AssertionError, w)
        | Some key \<Rightarrow> let (r, w') = tr_get reader key correlation_id w in
           (bindr r (\<lambda>item. Inr (result_for str question (tq_kind q) correlation_id (single_issue_answer rt (tq_kind q) item) [item])), w'))
     else case tq_jql q of
       None \<Rightarrow> (Inl AssertionError, w)
     | Some jql \<Rightarrow>
        (let (r, w') = tr_search reader jql (tq_project_key q) correlation_id w in
         (bindr r (\<lambda>issues.
            if tq_kind q = EmployeeDueBy then
              (case (tq_employee_id q, tq_due_by q) of
                 (Some e, Some due) \<Rightarrow>
                   let own = filter (\<lambda>i. ie_workforce_employee_id i = Some e) issues in
                   bindr (deadline_answer rt e due own) (\<lambda>answer. Inr (result_for str question (tq_kind q) correlation_id answer own))
               | _ \<Rightarrow> Inl AssertionError)
            else
              let shown = (if tq_kind q = BlockedTasks then filter (is_blocked_issue str) issues else issues) in
              Inr (result_for str question (tq_kind q) correlation_id (list_answer (tq_kind q) (map (fact_from str) shown)) shown)), w')))"

definition task_query_tool ::
  "runtime \<Rightarrow> (json \<Rightarrow> string) \<Rightarrow> 'w task_reader \<Rightarrow> date \<Rightarrow> string \<Rightarrow> entity_references \<Rightarrow> string \<Rightarrow> grounded_context option \<Rightarrow> 'w
     \<Rightarrow> task_query_result res \<times> 'w" where
  "task_query_tool rt str reader today question references correlation_id previous w =
    (case parse_task_query rt question references today previous of
       Inl e \<Rightarrow> (Inl e, w)
     | Inr q \<Rightarrow> answer_query rt str reader question q correlation_id previous w)"

section \<open>The queries stay in the project\<close>

text \<open>A text without blanks, equality signs and quotes, up to the quote that closes it\<close>

definition unquoted :: "string \<Rightarrow> bool" where
  "unquoted e \<longleftrightarrow> list_all (\<lambda>c. \<not> is_space c \<and> c \<noteq> CHR ''='' \<and> c \<noteq> quote) e"

lemma quote_chars [simp]: "\<not> is_word quote" "\<not> is_space quote" "ascii_lower quote = quote"
  by (simp_all add: is_word_def is_space_def ascii_lower_def is_upper_def is_lower_def is_digit_def)

lemma scope_at_quoted:
  assumes "unquoted e"
  shows "scope_at (e @ quote # r) = None"
proof (cases "length e < 7")
  case True
  then have "7 - length e = Suc (6 - length e)" by simp
  then have "take 7 (e @ quote # r) = e @ quote # take (6 - length e) r"
    using True by simp
  then have "quote \<in> set (casefold (take 7 (e @ quote # r)))" by (simp add: casefold_def)
  then have "casefold (take 7 (e @ quote # r)) \<noteq> ''project''" by auto
  then show ?thesis by (simp add: scope_at_def)
next
  case False
  obtain x rest where d: "drop 7 (e @ quote # r) = x # rest" and x: "x \<in> set (drop 7 e) \<or> x = quote"
    using False by (cases "drop 7 e") auto
  then have "x \<in> set e \<or> x = quote" by (meson in_set_dropD)
  then have "\<not> is_space x \<and> x \<noteq> CHR ''=''"
  proof
    assume "x \<in> set e"
    with assms show ?thesis unfolding unquoted_def list_all_iff by blast
  next
    assume "x = quote"
    then show ?thesis by (simp only: quote_chars) simp
  qed
  with d show ?thesis by (simp add: scope_at_def)
qed

lemma project_scopes_quoted:
  "unquoted e \<Longrightarrow> project_scopes aw (e @ quote # r) = project_scopes False r"
proof (induction e arbitrary: aw)
  case Nil
  then show ?case using scope_at_quoted [of "[]" r] by (simp add: unquoted_def)
next
  case (Cons x e)
  then have "scope_at ((x # e) @ quote # r) = None" by (intro scope_at_quoted)
  with Cons show ?case by (simp add: unquoted_def)
qed

lemma mentions_or_quoted:
  "mentions_or aw (e @ quote # r) \<longleftrightarrow> mentions_or aw e \<or> mentions_or False r"
proof (induction e arbitrary: aw)
  case Nil
  show ?case by (simp add: casefold_def)
next
  case (Cons x e)
  show ?case
  proof (cases e)
    case Nil
    then show ?thesis using Cons by (simp add: casefold_def)
  next
    case (Cons y ys)
    with Cons.IH [of "is_word x"] show ?thesis by (cases ys) auto
  qed
qed

lemma scope_at_head: "ascii_lower c \<noteq> CHR ''p'' \<Longrightarrow> scope_at (c # cs) = None"
  by (simp add: scope_at_def casefold_def)

lemma project_scopes_skip:
  "list_all (\<lambda>c. ascii_lower c \<noteq> CHR ''p'') w \<Longrightarrow> project_scopes aw (w @ quote # r) = project_scopes False r"
  by (induction w arbitrary: aw) (simp_all add: scope_at_head)

lemma project_scopes_skip_all:
  "list_all (\<lambda>c. ascii_lower c \<noteq> CHR ''p'') w \<Longrightarrow> project_scopes aw w = []"
  by (induction w arbitrary: aw) (simp_all add: scope_at_head)

lemma matches_key_alnum:
  assumes "matches_key key_char 1 19 key"
  shows "list_all is_alnum key" and "unquoted key" and "length_between 2 20 key" and "\<not> is_digit (hd key)"
proof -
  obtain a as where k: "key = a # as" "is_upper a" "list_all key_char as" "1 \<le> length as" "length as \<le> 19"
    using assms by (cases key) (auto simp: matches_key_def)
  then show "list_all is_alnum key" "length_between 2 20 key"
    by (auto simp: is_alnum_def key_char_def list_all_iff length_between_def)
  show "\<not> is_digit (hd key)" using k(1,2) by (auto simp: is_upper_def is_digit_def less_eq_char_def)
  have "\<not> is_space c \<and> c \<noteq> CHR ''='' \<and> c \<noteq> quote" if "key_char c" for c
    using that by (auto simp: key_char_def is_upper_def is_digit_def is_space_def less_eq_char_def)
  moreover have "key_char a" using k(2) by (simp add: key_char_def)
  ultimately show "unquoted key" using k(1,3) by (simp add: unquoted_def list_all_iff)
qed

lemma scope_at_key:
  assumes "matches_key key_char 1 19 key"
  shows "scope_at (''project = '' @ quoted key @ r) = Some (key, r)"
proof -
  have q: "\<not> is_alnum quote" by (simp add: is_alnum_def is_upper_def is_lower_def is_digit_def less_eq_char_def)
  have tw: "takeWhile is_alnum (key @ quote # r) = key" "dropWhile is_alnum (key @ quote # r) = quote # r"
    using matches_key_alnum(1) [OF assms] q by (simp_all add: list_all_iff takeWhile_append2 dropWhile_append2)
  have "casefold (take 7 ''project = '') = ''project''" by code_simp
  moreover have "is_space CHR '' ''" "\<not> is_space CHR ''=''" by (simp_all add: is_space_def)
  ultimately show ?thesis using matches_key_alnum(3,4) [OF assms] tw q
    by (simp add: scope_at_def quoted_def casefold_def)
qed

lemma mentions_or_digits:
  "list_all (\<lambda>c. is_digit c \<or> c = CHR ''-'') w \<Longrightarrow> \<not> mentions_or aw w"
proof (induction w arbitrary: aw)
  case (Cons x w)
  then have "ascii_lower x \<noteq> CHR ''o''" by (auto simp: ascii_lower_def is_digit_def less_eq_char_def)
  with Cons show ?case by (simp add: casefold_def)
qed simp

lemma mentions_or_key:
  assumes "list_all is_word w" "casefold w \<noteq> ''or''"
  shows "\<not> mentions_or False w"
proof -
  have inner: "\<not> mentions_or True v" if "list_all is_word v" for v
    using that by (induction v) auto
  show ?thesis
  proof (cases w)
    case (Cons x v)
    then have "\<not> mentions_or (is_word x) v" using assms(1) inner by simp
    moreover have "\<not> (casefold (take 2 w) = ''or'' \<and> (drop 2 w = [] \<or> \<not> is_word (hd (drop 2 w))))"
    proof (cases "drop 2 w")
      case Nil
      then show ?thesis using assms(2) by simp
    next
      case (Cons y ys)
      then have "y \<in> set w" by (metis in_set_dropD list.set_intros(1))
      then show ?thesis using Cons assms(1) by (auto simp: list_all_iff)
    qed
    ultimately show ?thesis unfolding Cons by simp
  qed simp
qed

lemma query_bound_split:
  assumes "matches_key key_char 1 19 key" "casefold key \<noteq> ''or''" "project_scopes False r = []" "\<not> mentions_or False r"
  shows "query_bound_to key (''project = '' @ quoted key @ r)"
proof -
  have "project_scopes False (''project = '' @ quoted key @ r) = [key]"
    using scope_at_key [OF assms(1), of r] assms(3) by simp
  moreover have "\<not> mentions_or False (''project = '' @ quote # key @ quote # r)"
  proof -
    have "list_all is_word key" using matches_key_alnum(1) [OF assms(1)] by (auto simp: list_all_iff is_word_def is_alnum_def)
    then have "\<not> mentions_or False key" using assms(2) by (rule mentions_or_key)
    moreover have "\<not> mentions_or False ''project = ''" by code_simp
    ultimately show ?thesis using assms(4) by (simp only: mentions_or_quoted simp_thms)
  qed
  ultimately show ?thesis by (simp add: query_bound_to_def quoted_def)
qed

lemma list_query_bound:
  assumes "matches_key key_char 1 19 key" "casefold key \<noteq> ''or''" "(phrase, kind, predicate) \<in> set list_queries"
  shows "query_bound_to key (list_jql key predicate)" and "length (list_jql key predicate) \<le> 200"
proof -
  have tails: "\<forall>(phrase, kind, predicate) \<in> set list_queries.
      project_scopes False ('' AND '' @ predicate @ '' ORDER BY key ASC'') = [] \<and>
      \<not> mentions_or False ('' AND '' @ predicate @ '' ORDER BY key ASC'') \<and> length predicate \<le> 100"
    by code_simp
  with assms(3) have t: "project_scopes False ('' AND '' @ predicate @ '' ORDER BY key ASC'') = []"
    "\<not> mentions_or False ('' AND '' @ predicate @ '' ORDER BY key ASC'')" "length predicate \<le> 100"
    by blast+
  then show "query_bound_to key (list_jql key predicate)"
    using query_bound_split [OF assms(1,2)] by (simp only: list_jql_def)
  show "length (list_jql key predicate) \<le> 200"
    using t(3) matches_key_alnum(3) [OF assms(1)] by (simp add: list_jql_def quoted_def length_between_def)
qed

text \<open>The employee references and dates that may stand in a query\<close>

definition plain_reference :: "string \<Rightarrow> bool" where
  "plain_reference e \<longleftrightarrow> list_all id_char e \<and> \<not> mentions_or False (''workforce-employee:'' @ e) \<and> length e \<le> 128"

definition plain_date :: "string \<Rightarrow> bool" where
  "plain_date d \<longleftrightarrow> list_all (\<lambda>c. is_digit c \<or> c = CHR ''-'') d \<and> length d \<le> 20"

lemma unquoted_reference: "list_all id_char e \<Longrightarrow> unquoted (''workforce-employee:'' @ e)"
  by (auto simp: unquoted_def list_all_iff id_char_def key_char_def is_upper_def is_digit_def is_space_def less_eq_char_def)

lemma unquoted_date: "plain_date d \<Longrightarrow> unquoted d"
  by (auto simp: plain_date_def unquoted_def list_all_iff is_digit_def is_space_def less_eq_char_def)

lemma employee_query_bound:
  assumes "matches_key key_char 1 19 key" "casefold key \<noteq> ''or''" "plain_reference e" "plain_date d"
  shows "query_bound_to key (employee_jql key e d)" and "length (employee_jql key e d) \<le> 1000"
proof -
  let ?tail = "'' AND labels = '' @ quote # (''workforce-employee:'' @ e) @ quote # '' AND labels != '' @ quote #
     ''workforce-record:employee-profile'' @ quote # '' AND duedate <= '' @ quote # d @ quote #
     '' AND statusCategory != Done ORDER BY duedate ASC, key ASC''"
  have un: "unquoted (''workforce-employee:'' @ e)" "unquoted d" "unquoted ''workforce-record:employee-profile''"
    using assms(3) unquoted_reference unquoted_date [OF assms(4)] unfolding plain_reference_def
    by (blast, blast, simp add: unquoted_def is_space_def)
  have nop: "list_all (\<lambda>c. ascii_lower c \<noteq> CHR ''p'') '' AND labels = ''" "list_all (\<lambda>c. ascii_lower c \<noteq> CHR ''p'') '' AND labels != ''"
    "list_all (\<lambda>c. ascii_lower c \<noteq> CHR ''p'') '' AND duedate <= ''"
    "list_all (\<lambda>c. ascii_lower c \<noteq> CHR ''p'') '' AND statusCategory != Done ORDER BY duedate ASC, key ASC''"
    by code_simp+
  have "project_scopes False ?tail = []"
    by (simp only: project_scopes_skip [OF nop(1)] project_scopes_skip [OF nop(2)] project_scopes_skip [OF nop(3)]
        project_scopes_skip_all [OF nop(4)] project_scopes_quoted [OF un(1)] project_scopes_quoted [OF un(2)]
        project_scopes_quoted [OF un(3)])
  moreover have "\<not> mentions_or False ?tail"
  proof -
    have "\<not> mentions_or False '' AND labels = ''" "\<not> mentions_or False '' AND labels != ''" "\<not> mentions_or False '' AND duedate <= ''"
      "\<not> mentions_or False '' AND statusCategory != Done ORDER BY duedate ASC, key ASC''"
      "\<not> mentions_or False ''workforce-record:employee-profile''"
      by code_simp+
    moreover have "\<not> mentions_or False d" using assms(4) by (simp add: plain_date_def mentions_or_digits)
    moreover have "\<not> mentions_or False (''workforce-employee:'' @ e)" using assms(3) by (simp add: plain_reference_def)
    ultimately show ?thesis by (simp only: mentions_or_quoted simp_thms)
  qed
  ultimately have "query_bound_to key (''project = '' @ quoted key @ ?tail)" by (rule query_bound_split [OF assms(1,2)])
  then show "query_bound_to key (employee_jql key e d)" by (simp add: employee_jql_def quoted_def)
  show "length (employee_jql key e d) \<le> 1000"
    using assms(3,4) matches_key_alnum(3) [OF assms(1)]
    by (simp add: employee_jql_def quoted_def length_between_def plain_reference_def plain_date_def)
qed

lemma deadline_employee_plain:
  assumes "deadline_employee folded references = Inr e" "\<And>r. er_employee_id references = Some r \<Longrightarrow> plain_reference r"
  shows "plain_reference e"
proof -
  have numbers: "\<forall>n \<in> set [1..<8]. plain_reference (''EMP-00'' @ nat_digits n)" by code_simp
  from assms show ?thesis
    using numbers by (auto simp: deadline_employee_def Let_def split: option.splits if_splits)
qed

text \<open>The queries a question can become\<close>

lemma parse_task_query_cases:
  assumes "parse_task_query rt question references today previous = Inr q"
  obtains (ambiguous) "q = plain_query AmbiguousReferent (er_project_key references)"
  | (prior) c f where "previous = Some c" "gc_issues c = [f]"
      "q = (plain_query ReferencedTaskAssignee (er_project_key references))\<lparr>tq_issue_key := Some (tf_key f)\<rparr>"
  | (issue) kind k where "starts_with (er_project_key references @ ''-'') k"
      "q = (plain_query kind (er_project_key references))\<lparr>tq_issue_key := Some k\<rparr>"
  | (listed) phrase kind predicate where "(phrase, kind, predicate) \<in> set list_queries"
      "q = (plain_query kind (er_project_key references))\<lparr>tq_jql := Some (list_jql (er_project_key references) predicate)\<rparr>"
  | (due) e where "deadline_employee (casefold question) references = Inr e"
      "q = \<lparr>tq_kind = EmployeeDueBy, tq_project_key = er_project_key references, tq_issue_key = None, tq_employee_id = Some e,
         tq_due_by = Some (today + 1), tq_jql = Some (employee_jql (er_project_key references) e (rt_date rt (today + 1)))\<rparr>"
proof (cases "mentions [''that task'', ''that issue''] (casefold question)")
  case True
  with assms show ?thesis
    by (simp add: parse_task_query_def Let_def split: option.splits list.splits) (use ambiguous prior in blast)+
next
  case that: False
  show ?thesis
  proof (cases "issue_keys (upper question)")
    case (Cons k ks)
    with assms that show ?thesis
      by (simp only: parse_task_query_def Let_def if_False list.case split: if_split_asm) (use issue in blast)+
  next
    case keys: Nil
    show ?thesis
    proof (cases "List.find (\<lambda>(phrase, kind, predicate). occurs_in phrase (casefold question)) list_queries")
      case (Some p)
      then have "p \<in> set list_queries" unfolding find_Some_iff by (metis nth_mem)
      moreover obtain phrase kind predicate where "p = (phrase, kind, predicate)" by (metis prod.collapse)
      ultimately show ?thesis using assms that keys Some listed
        by (simp only: parse_task_query_def Let_def if_False list.case option.case prod.case sum.inject)
    next
      case None
      with assms that keys obtain e where "deadline_employee (casefold question) references = Inr e"
          "(if \<not> occurs_in ''tomorrow'' (casefold question) then Inl (ValueError ''only an explicit tomorrow deadline is supported'')
            else Inr \<lparr>tq_kind = EmployeeDueBy, tq_project_key = er_project_key references, tq_issue_key = None,
              tq_employee_id = Some e, tq_due_by = Some (today + 1),
              tq_jql = Some (employee_jql (er_project_key references) e (rt_date rt (today + 1)))\<rparr>) = Inr q"
        by (simp only: parse_task_query_def Let_def if_False list.case option.case bindr_Inr_iff) blast
      then show ?thesis using due by (simp only: split: if_split_asm) blast+
    qed
  qed
qed

section \<open>Properties\<close>


section \<open>Witnesses\<close>

definition sample_references :: entity_references where
  "sample_references = \<lparr>er_alert_id = None, er_employee_id = None, er_project_id = None, er_project_key = ''WRD'',
     er_task_id = None, er_risk_result_id = None, er_proposal_id = None\<rparr>"

definition foreign_context :: grounded_context where
  "foreign_context = \<lparr>gc_intent = ''issue_status'', gc_previous_question = None,
     gc_issues = [\<lparr>tf_key = ''OPS-9'', tf_summary = [], tf_status = [], tf_assignee = None, tf_due_date = None,
       tf_remaining_hours = None, tf_blocker = None, tf_dependencies = []\<rparr>],
     gc_employee_ids = [], gc_exhaustive = False\<rparr>"


text \<open>The key of the previous answer comes with the request and is not compared with the caller's project.\<close>

theorem previous_task_unchecked:
  "parse_task_query sample_runtime ''Who owns that task?'' sample_references 0 (Some foreign_context) =
     Inr ((plain_query ReferencedTaskAssignee ''WRD'')\<lparr>tq_issue_key := Some ''OPS-9''\<rparr>)"
  by code_simp

end
