(* ===== verification/Dashboard.thy ===== *)
theory Dashboard imports ProjectAccess TaskQueries Progress Scoring begin

text \<open>
  The project dashboard (agent\_api/dashboard/service.py), from the issues Jira returned to the snapshot the
  assistant answers from, and the observations it hands to the progress history
  (agent\_api/progress\_history.py).  Jira, the scoring service and the history recorder are operations on
  a world \<open>'w\<close>, which also has the clocks.  \<open>str\<close> is \<open>str(value)\<close> of a custom field and \<open>g\<close> the format
  \<open>:g\<close> of a float.
\<close>

section \<open>Progress history\<close>

definition blocking_link :: "issue_link \<Rightarrow> bool" where
  "blocking_link l \<longleftrightarrow> strip (casefold (il_relationship l)) = ''is blocked by''"

definition observation_of :: "string \<Rightarrow> issue_evidence \<Rightarrow> observation res" where
  "observation_of project_key row =
    (let blocker_keys = sorted_set (map il_issue_key (filter blocking_link (ie_links row)));
         category = List.find (\<lambda>f. cf_logical_name f = ''blocker_category'' \<and> truthy (cf_value f)) (ie_custom_fields row)
     in make_observation \<lparr>tp_project_key = project_key, tp_issue_key = ie_key row,
          tp_assignee_id = map_option ac_account_id (ie_assignee row), tp_captured_at = ie_evidence_timestamp row,
          tp_jira_updated_at = ie_activity_timestamp row, tp_status = ie_status row,
          tp_original_estimate_hours = hours_of (ie_original_estimate_seconds row),
          tp_remaining_estimate_hours = hours_of (ie_remaining_estimate_seconds row),
          tp_time_spent_hours = hours_of (ie_time_spent_seconds row), tp_due_date = ie_due_date row,
          tp_priority = ie_priority row, tp_blocked = (category \<noteq> None \<or> blocker_keys \<noteq> []),
          tp_blocker_issue_keys = blocker_keys\<rparr>)"

text \<open>\<open>record\<close>: one transaction, rolled back when it raises\<close>

definition record_history ::
  "runtime \<Rightarrow> (timestamp \<Rightarrow> date) \<Rightarrow> environment \<Rightarrow> string \<Rightarrow> issue_evidence list \<Rightarrow> db \<Rightarrow> unit res \<times> db" where
  "record_history rt local_date env project_key rows d =
    (case bindr (map_res (observation_of project_key) rows) (\<lambda>xs. record_observations rt local_date env xs d) of
       Inl e \<Rightarrow> (Inl e, d) | Inr (_, d') \<Rightarrow> (Inr (), d'))"

definition history_limit :: "int \<Rightarrow> int" where
  "history_limit limit = max 1 (min limit 500)"

definition load_history :: "runtime \<Rightarrow> environment \<Rightarrow> int \<Rightarrow> string \<Rightarrow> db \<Rightarrow> json list" where
  "load_history rt env limit project_key d = load_history_records rt env project_key (history_limit limit) d"

section \<open>The service\<close>

record workforce_profile =
  wp_employee_id :: string
  wp_display_name :: string
  wp_role :: "string option"
  wp_capacity_hours :: pyfloat
  wp_skills :: "string list"

text \<open>The score and the level of a scoring reply\<close>

type_synonym score_reply = "int option \<times> string option"

record 'w dashboard_service =
  dv_search :: "string \<Rightarrow> string \<Rightarrow> string \<Rightarrow> 'w \<Rightarrow> issue_evidence list res \<times> 'w"
  dv_score :: "overload_input \<Rightarrow> string \<Rightarrow> 'w \<Rightarrow> score_reply res \<times> 'w"
  dv_record :: "(string \<Rightarrow> issue_evidence list \<Rightarrow> string \<Rightarrow> 'w \<Rightarrow> unit res \<times> 'w) option"
  dv_profiles :: "string \<rightharpoonup> workforce_profile"
  dv_jira_site_url :: string
  dv_today :: "'w \<Rightarrow> date"
  dv_now :: "'w \<Rightarrow> timestamp"
  dv_environment :: environment
  dv_str :: "json \<Rightarrow> string"
  dv_g :: "pyfloat \<Rightarrow> string"

definition is_done :: "string \<Rightarrow> bool" where
  "is_done status \<longleftrightarrow> casefold status \<in> {''done'', ''closed'', ''resolved''}"

definition is_blocked :: "issue_evidence \<Rightarrow> bool" where
  "is_blocked row \<longleftrightarrow> blocker_of (\<lambda>_. []) row \<noteq> None \<or> list_ex blocking_link (ie_links row)"

definition overdue_row :: "date \<Rightarrow> issue_evidence \<Rightarrow> bool" where
  "overdue_row today row \<longleftrightarrow> (case ie_due_date row of None \<Rightarrow> False | Some d \<Rightarrow> d < today)"

definition due_soon_row :: "date \<Rightarrow> issue_evidence \<Rightarrow> bool" where
  "due_soon_row today row \<longleftrightarrow> (case ie_due_date row of None \<Rightarrow> False | Some d \<Rightarrow> today \<le> d \<and> d \<le> today + 7)"

definition count :: "('r \<Rightarrow> bool) \<Rightarrow> 'r list \<Rightarrow> int" where
  "count p rows = int (length (filter p rows))"

definition task_of :: "(json \<Rightarrow> string) \<Rightarrow> string \<Rightarrow> issue_evidence \<Rightarrow> task_summary" where
  "task_of str site row =
    (let raw = hours_of (ie_remaining_estimate_seconds row); finished = is_done (ie_status row) in
     \<lparr>tk_key = ie_key row, tk_summary = ie_summary row, tk_status = ie_status row, tk_priority = ie_priority row,
      tk_assignee_id = map_option ac_account_id (ie_assignee row),
      tk_assignee_name = map_option ac_display_name (ie_assignee row), tk_due_date = ie_due_date row,
      tk_original_hours = hours_of (ie_original_estimate_seconds row),
      tk_remaining_hours = (if finished then Some 0 else raw), tk_raw_remaining_hours = raw,
      tk_time_spent_hours = hours_of (ie_time_spent_seconds row), tk_jira_updated_at = Some (ie_activity_timestamp row),
      tk_data_quality_findings = (if finished \<and> raw \<notin> {None, Some 0}
        then [''Completed task has a non-zero Jira remaining estimate.''] else []),
      tk_required_skills = ie_required_skills row, tk_blocker = blocker_of str row, tk_dependencies = link_texts row,
      tk_jira_url = site @ ''/browse/'' @ ie_key row\<rparr>)"

section \<open>Employees\<close>

definition issue_refs :: "string \<Rightarrow> issue_evidence list \<Rightarrow> string list" where
  "issue_refs field rows = map (\<lambda>r. ''jira:'' @ ie_key r @ '':'' @ field) rows"

definition overload_references :: "workforce_profile \<Rightarrow> issue_evidence list \<Rightarrow> (string \<times> string list) list" where
  "overload_references profile rows = [
     (''utilization'', issue_refs ''remaining_estimate'' rows @ [''profile:'' @ wp_employee_id profile @ '':capacity'']),
     (''overdue_work'', issue_refs ''duedate'' rows), (''blocked_work'', issue_refs ''blocker_and_links'' rows),
     (''priority_load'', issue_refs ''priority'' rows), (''due_soon_load'', issue_refs ''duedate'' rows),
     (''active_task_count'', issue_refs ''status'' rows),
     (''concurrent_projects'', [''jira:'' @ takeWhile (\<lambda>c. c \<noteq> CHR ''-'') (ie_key (hd rows)) @ '':project'']),
     (''stale_work'', issue_refs ''updated'' rows)]"

text \<open>\<open>EmployeeOverloadInput(...)\<close>\<close>

definition make_overload_input :: "overload_input \<Rightarrow> overload_input res" where
  "make_overload_input i = (if valid_overload_input i then Inr i else Inl (ValidationError ''EmployeeOverloadInput''))"

text \<open>\<open>timedelta.days\<close>: whole days, rounded down\<close>

definition days_between :: "timestamp \<Rightarrow> timestamp \<Rightarrow> int" where
  "days_between a b = (b - a) div days 1"

definition overload_of ::
  "environment \<Rightarrow> date \<Rightarrow> timestamp \<Rightarrow> workforce_profile \<Rightarrow> issue_evidence list \<Rightarrow> pyfloat \<Rightarrow> overload_input" where
  "overload_of env today now profile rows remaining =
    \<lparr>oi_employee_id = wp_employee_id profile, oi_environment = env, oi_remaining_estimated_hours = Some remaining,
     oi_available_capacity_hours = Some (wp_capacity_hours profile),
     oi_overdue_tasks = Some (count (overdue_row today) rows),
     oi_blocked_or_blocking_tasks = Some (count (\<lambda>r. blocker_of (\<lambda>_. []) r \<noteq> None \<or> ie_links r \<noteq> []) rows),
     oi_urgent_high_priority_tasks = Some (count (\<lambda>r. casefold (case ie_priority r of None \<Rightarrow> [] | Some p \<Rightarrow> p)
       \<in> {''high'', ''highest''}) rows),
     oi_due_soon_tasks = Some (count (due_soon_row today) rows), oi_active_tasks = Some (int (length rows)),
     oi_concurrent_projects = Some 1,
     oi_stale_tasks = Some (count (\<lambda>r. 7 \<le> days_between (ie_activity_timestamp r) now) rows),
     oi_evidence_timestamp = Max (set (map ie_evidence_timestamp rows)),
     oi_evidence_references = overload_references profile rows\<rparr>"

definition dependency_facts :: "(json \<Rightarrow> string) \<Rightarrow> issue_evidence \<Rightarrow> string list" where
  "dependency_facts str row =
     (case blocker_of str row of None \<Rightarrow> [] | Some b \<Rightarrow> [ie_key row @ '' has blocker '' @ b]) @
     concat (map (\<lambda>l. let relationship = strip (casefold (il_relationship l)) in
       if relationship = ''is blocked by'' then [ie_key row @ '' is blocked by '' @ il_issue_key l]
       else if relationship = ''blocks'' then [ie_key row @ '' blocks downstream task '' @ il_issue_key l] else []) (ie_links row))"

definition top_risk ::
  "(json \<Rightarrow> string) \<Rightarrow> (pyfloat \<Rightarrow> string) \<Rightarrow> date \<Rightarrow> issue_evidence list \<Rightarrow> pyfloat option \<Rightarrow> workforce_profile option \<Rightarrow> string" where
  "top_risk str g today rows remaining profile =
    (let overdue = count (overdue_row today) rows; facts = concat (map (dependency_facts str) rows) in
     case remaining of
       None \<Rightarrow> ''One or more active tasks is missing a remaining estimate.''
     | Some h \<Rightarrow>
        (if (case profile of None \<Rightarrow> False | Some p \<Rightarrow> wp_capacity_hours p < h)
         then g h @ ''h remaining exceeds '' @ g (wp_capacity_hours (the profile)) @ ''h capacity.''
         else if overdue \<noteq> 0 then int_repr overdue @ '' active task(s) are overdue.''
         else if facts \<noteq> [] then join ''; '' facts @ ''.''
         else ''Current structured workload evidence is within configured capacity.''))"

definition remaining_of :: "issue_evidence list \<Rightarrow> pyfloat option" where
  "remaining_of rows = (if list_all (\<lambda>r. ie_remaining_estimate_seconds r \<noteq> None) rows
     then Some (py_sum (map (\<lambda>r. fl (of_int (case ie_remaining_estimate_seconds r of None \<Rightarrow> 0 | Some s \<Rightarrow> s) / 3600)) rows))
     else None)"

definition child_correlation :: "runtime \<Rightarrow> string \<Rightarrow> string \<Rightarrow> string" where
  "child_correlation rt correlation_id employee_id =
     take 100 correlation_id @ '':score:'' @ take 12 (rt_sha256 rt employee_id)"

definition level_of_reply :: "string option \<Rightarrow> string" where
  "level_of_reply level = (if given level then the level else ''insufficient-data'')"

definition summary_levels :: "string set" where
  "summary_levels = {''low'', ''medium'', ''high'', ''critical'', ''insufficient-data''}"

definition make_summary :: "employee_summary \<Rightarrow> employee_summary res" where
  "make_summary e = (if es_level e \<in> summary_levels then Inr e else Inl (ValidationError ''EmployeeSummary''))"

definition summary_of ::
  "'w dashboard_service \<Rightarrow> date \<Rightarrow> string \<Rightarrow> issue_evidence list \<Rightarrow> int option \<Rightarrow> string \<Rightarrow> employee_summary res" where
  "summary_of v today account_id rows score level =
    (let profile = dv_profiles v account_id; remaining = remaining_of rows in
     make_summary \<lparr>es_employee_id = (case profile of None \<Rightarrow> ''jira:'' @ account_id | Some p \<Rightarrow> wp_employee_id p),
       es_display_name = (case ie_assignee (hd rows) of None \<Rightarrow> account_id | Some a \<Rightarrow> ac_display_name a),
       es_role = (case profile of None \<Rightarrow> None | Some p \<Rightarrow> wp_role p),
       es_skills = (case profile of None \<Rightarrow> [] | Some p \<Rightarrow> wp_skills p),
       es_capacity_hours = map_option wp_capacity_hours profile,
       es_remaining_hours = map_option (\<lambda>h. fround h 1) remaining, es_active_tasks = int (length rows),
       es_score = score, es_level = level, es_top_risk = top_risk (dv_str v) (dv_g v) today rows remaining profile\<rparr>)"

definition employee_of ::
  "runtime \<Rightarrow> 'w dashboard_service \<Rightarrow> string \<Rightarrow> string \<times> issue_evidence list \<Rightarrow> 'w \<Rightarrow> employee_summary res \<times> 'w" where
  "employee_of rt v correlation_id entry w =
    (case entry of (account_id, rows) \<Rightarrow>
     (case (dv_profiles v account_id, remaining_of rows) of
        (Some profile, Some remaining) \<Rightarrow>
          (case make_overload_input (overload_of (dv_environment v) (dv_today v w) (dv_now v w) profile rows remaining) of
             Inl e \<Rightarrow> (Inl e, w)
           | Inr i \<Rightarrow>
              (let (reply, w') = dv_score v i (child_correlation rt correlation_id (wp_employee_id profile)) w in
               (bindr reply (\<lambda>(score, level). summary_of v (dv_today v w') account_id rows score (level_of_reply level)), w')))
      | _ \<Rightarrow> (summary_of v (dv_today v w) account_id rows None ''insufficient-data'', w)))"

fun employees_of ::
  "runtime \<Rightarrow> 'w dashboard_service \<Rightarrow> string \<Rightarrow> (string \<times> issue_evidence list) list \<Rightarrow> 'w \<Rightarrow> employee_summary list res \<times> 'w" where
  "employees_of rt v correlation_id [] w = (Inr [], w)"
| "employees_of rt v correlation_id (g # gs) w =
    (case employee_of rt v correlation_id g w of
       (Inl e, w') \<Rightarrow> (Inl e, w')
     | (Inr x, w') \<Rightarrow> (let (r, w'') = employees_of rt v correlation_id gs w' in (bindr r (\<lambda>xs. Inr (x # xs)), w'')))"

section \<open>The snapshot\<close>

text \<open>The active rows by assignee, in the order of their first task\<close>

definition add_to_group :: "issue_evidence \<Rightarrow> (string \<times> issue_evidence list) list \<Rightarrow> (string \<times> issue_evidence list) list" where
  "add_to_group row groups = (case ie_assignee row of
     None \<Rightarrow> groups
   | Some a \<Rightarrow> (if ac_account_id a \<in> set (map fst groups)
       then map (\<lambda>(k, rs). if k = ac_account_id a then (k, rs @ [row]) else (k, rs)) groups
       else groups @ [(ac_account_id a, [row])]))"

definition grouped :: "issue_evidence list \<Rightarrow> (string \<times> issue_evidence list) list" where
  "grouped rows = fold add_to_group rows []"

definition score_rank :: "employee_summary \<Rightarrow> int \<times> string" where
  "score_rank e = (- 1 * (case es_score e of None \<Rightarrow> - 1 | Some n \<Rightarrow> if n = 0 then - 1 else n), es_display_name e)"

definition alerting :: "employee_summary \<Rightarrow> bool" where
  "alerting e \<longleftrightarrow> es_level e \<in> {''medium'', ''high'', ''critical''}"

definition alert_of :: "employee_summary \<Rightarrow> alert_summary res" where
  "alert_of e = (case es_score e of
     None \<Rightarrow> Inl (ValidationError ''AlertSummary'')
   | Some n \<Rightarrow> (if 0 \<le> n \<and> n \<le> 100 then Inr \<lparr>as_subject_id = es_employee_id e, as_severity = es_level e, as_score = n,
       as_reason = es_top_risk e\<rparr> else Inl (ValidationError ''AlertSummary'')))"

definition project_summary_of :: "configured_project \<Rightarrow> date \<Rightarrow> issue_evidence list \<Rightarrow> project_summary" where
  "project_summary_of project today rows =
    (let active = filter (\<lambda>r. \<not> is_done (ie_status r)) rows; completed = int (length rows) - int (length active) in
     \<lparr>ps_key = cp_key project, ps_name = cp_name project, ps_total_tasks = int (length rows), ps_completed_tasks = completed,
      ps_active_tasks = int (length active), ps_overdue_tasks = count (overdue_row today) active,
      ps_due_soon_tasks = count (due_soon_row today) active, ps_blocked_tasks = count is_blocked active,
      ps_missing_estimate_tasks = count (\<lambda>r. ie_remaining_estimate_seconds r = None) active,
      ps_completion_percent = (if rows = [] then 0 else round_half_even (fl (of_int (100 * completed) / of_nat (length rows))))\<rparr>)"

definition workload_of :: "employee_summary list \<Rightarrow> workload_distribution" where
  "workload_of es = \<lparr>wd_overloaded = int (length (filter (\<lambda>e. es_level e \<in> {''high'', ''critical''}) es)),
     wd_balanced = int (length (filter (\<lambda>e. es_level e \<in> {''low'', ''medium''}) es)),
     wd_insufficient_data = int (length (filter (\<lambda>e. es_level e = ''insufficient-data'') es))\<rparr>"

definition snapshot_of ::
  "'w dashboard_service \<Rightarrow> configured_project \<Rightarrow> string \<Rightarrow> issue_evidence list \<Rightarrow> bool \<Rightarrow> employee_summary list \<Rightarrow> 'w
     \<Rightarrow> dashboard_snapshot res" where
  "snapshot_of v project correlation_id rows history_degraded es w =
    (let ranked = sort_key score_rank es; active = filter (\<lambda>r. \<not> is_done (ie_status r)) rows in
     bindr (map_res alert_of (filter alerting ranked)) (\<lambda>alerts.
     Inr \<lparr>ds_correlation_id = correlation_id,
       ds_evidence_timestamp = (if rows = [] then dv_now v w else Max (set (map ie_evidence_timestamp rows))),
       ds_project = project_summary_of project (dv_today v w) rows, ds_employees = ranked,
       ds_tasks = map (task_of (dv_str v) (dv_jira_site_url v)) rows, ds_alerts = alerts, ds_workload = workload_of ranked,
       ds_degraded = history_degraded, ds_missing_sources = (if history_degraded then [''progress_history''] else []),
       ds_missing_evidence = map (\<lambda>r. ie_key r @ ''.remaining_estimate'')
         (filter (\<lambda>r. ie_remaining_estimate_seconds r = None) active)\<rparr>))"

definition dashboard_jql :: "string \<Rightarrow> string" where
  "dashboard_jql key = ''project = '' @ quoted key @ '' ORDER BY updated DESC, key ASC''"

text \<open>\<open>build\<close>; a failing recorder only marks the snapshot as degraded\<close>

definition build ::
  "runtime \<Rightarrow> environ \<Rightarrow> 'w dashboard_service \<Rightarrow> string \<Rightarrow> string \<Rightarrow> 'w \<Rightarrow> dashboard_snapshot res \<times> 'w" where
  "build rt vars v project_key correlation_id w =
    (case require_configured_project vars project_key of
       Inl e \<Rightarrow> (Inl e, w)
     | Inr project \<Rightarrow>
        (case dv_search v (dashboard_jql (cp_key project)) (cp_key project) correlation_id w of
           (Inl e, w1) \<Rightarrow> (Inl e, w1)
         | (Inr rows, w1) \<Rightarrow>
            (if list_ex (\<lambda>r. \<not> starts_with (cp_key project @ ''-'') (ie_key r)) rows
             then (Inl (ValueError ''Jira returned evidence outside the requested project''), w1)
             else let (degraded, w2) = (case dv_record v of
                      None \<Rightarrow> (False, w1)
                    | Some rec \<Rightarrow> (let (r, w2) = rec (cp_key project) rows correlation_id w1 in (isl r, w2)))
               in (case employees_of rt v correlation_id (grouped (filter (\<lambda>r. \<not> is_done (ie_status r)) rows)) w2 of
                     (Inl e, w3) \<Rightarrow> (Inl e, w3)
                   | (Inr es, w3) \<Rightarrow> (snapshot_of v project correlation_id rows degraded es w3, w3)))))"

section \<open>Groups\<close>

definition assigned_to :: "string \<Rightarrow> issue_evidence \<Rightarrow> bool" where
  "assigned_to k row \<longleftrightarrow> map_option ac_account_id (ie_assignee row) = Some k"

lemma add_to_group_simps:
  "add_to_group row gs = (case ie_assignee row of None \<Rightarrow> gs | Some a \<Rightarrow>
     if ac_account_id a \<in> fst ` set gs then map (\<lambda>(k, rs). if k = ac_account_id a then (k, rs @ [row]) else (k, rs)) gs
     else gs @ [(ac_account_id a, [row])])"
  by (simp add: add_to_group_def split: option.splits)

lemma fst_add_to_group:
  "map fst (add_to_group row gs) = (case ie_assignee row of None \<Rightarrow> map fst gs | Some a \<Rightarrow>
     if ac_account_id a \<in> fst ` set gs then map fst gs else map fst gs @ [ac_account_id a])"
  by (auto simp: add_to_group_simps comp_def case_prod_beta split: option.splits if_splits)

lemma grouped_snoc: "grouped (rows @ [r]) = add_to_group r (grouped rows)"
  by (simp add: grouped_def)

lemma grouped_spec:
  "distinct (map fst (grouped rows)) \<and> (\<forall>(k, rs) \<in> set (grouped rows). rs \<noteq> [] \<and> rs = filter (assigned_to k) rows) \<and>
     (\<forall>k. k \<in> fst ` set (grouped rows) \<longleftrightarrow> (\<exists>r \<in> set rows. assigned_to k r))"
proof (induction rows rule: rev_induct)
  case Nil
  show ?case by (simp add: grouped_def)
next
  case (snoc r rows)
  have fst_set: "fst ` set gs = set (map fst gs)" for gs :: "(string \<times> issue_evidence list) list" by simp
  show ?case
  proof (cases "ie_assignee r")
    case None
    then have "\<not> assigned_to k r" for k by (simp add: assigned_to_def)
    with snoc None show ?thesis by (simp add: grouped_snoc add_to_group_simps)
  next
    case (Some a)
    let ?k = "ac_account_id a"
    have at: "assigned_to k r \<longleftrightarrow> k = ?k" for k using Some by (auto simp: assigned_to_def)
    have keys: "k \<in> fst ` set (grouped (rows @ [r])) \<longleftrightarrow> (\<exists>x \<in> set (rows @ [r]). assigned_to k x)" for k
      using snoc Some by (simp only: grouped_snoc fst_set fst_add_to_group option.case) (auto simp: at)
    have "distinct (map fst (grouped (rows @ [r])))"
      using snoc Some by (auto simp: grouped_snoc fst_add_to_group)
    moreover have "rs \<noteq> [] \<and> rs = filter (assigned_to k) (rows @ [r])" if "(k, rs) \<in> set (grouped (rows @ [r]))" for k rs
    proof (cases "?k \<in> fst ` set (grouped rows)")
      case True
      with that Some obtain rs' where "(k, rs') \<in> set (grouped rows)" "rs = (if k = ?k then rs' @ [r] else rs')"
        by (auto simp: grouped_snoc add_to_group_simps split: if_splits)
      with snoc show ?thesis by (auto simp: at)
    next
      case False
      then have none: "filter (assigned_to ?k) rows = []" using snoc by (simp add: filter_empty_conv)
      from that Some False consider "(k, rs) \<in> set (grouped rows)" "k \<noteq> ?k" | "k = ?k" "rs = [r]"
        by (force simp: grouped_snoc add_to_group_simps)
      then show ?thesis
      proof cases
        case 1
        with snoc show ?thesis by (auto simp: at)
      qed (simp add: none at)
    qed
    ultimately show ?thesis using keys by auto
  qed
qed

lemma grouped_total:
  "sum_list (map (\<lambda>(k, rs). length rs) (grouped rows)) = length (filter (\<lambda>r. ie_assignee r \<noteq> None) rows)"
proof (induction rows rule: rev_induct)
  case Nil
  show ?case by (simp add: grouped_def)
next
  case (snoc r rows)
  have d: "distinct (map fst (grouped rows))" using grouped_spec by blast
  have add: "k \<in> fst ` set gs \<Longrightarrow> distinct (map fst gs) \<Longrightarrow>
      sum_list (map (\<lambda>(k, rs). length rs) (map (\<lambda>(j, rs). if j = k then (j, rs @ [r]) else (j, rs)) gs))
      = Suc (sum_list (map (\<lambda>(k, rs). length rs) gs))" for k gs
  proof (induction gs)
    case (Cons g gs)
    have same: "map (\<lambda>(j, rs). if j = k then (j, rs @ [r]) else (j, rs)) gs = gs" if "k \<notin> fst ` set gs"
      using that by (intro map_idI) (auto simp: image_iff)
    show ?case
    proof (cases "fst g = k")
      case True
      then have "k \<notin> fst ` set gs" using Cons.prems(2) by auto
      then show ?thesis using True same by (cases g) (simp del: map_map)
    next
      case False
      then show ?thesis using Cons by (auto simp: case_prod_beta)
    qed
  qed simp
  show ?case
    using snoc add [OF _ d] by (cases "ie_assignee r") (auto simp: grouped_snoc add_to_group_simps)
qed

section \<open>What a snapshot says\<close>

lemma employee_of_Inr:
  assumes "employee_of rt v c g w = (Inr e, w')"
  shows "es_active_tasks e = int (length (snd g))" and "es_level e \<in> summary_levels"
  using assms by (auto simp: employee_of_def summary_of_def make_summary_def Let_def bindr_Inr_iff
      split: prod.splits option.splits sum.splits if_splits)

lemma employees_of_Inr:
  assumes "employees_of rt v c gs w = (Inr es, w')"
  shows "list_all2 (\<lambda>g e. es_active_tasks e = int (length (snd g)) \<and> es_level e \<in> summary_levels) gs es"
  using assms
proof (induction gs arbitrary: w es)
  case (Cons g gs)
  then obtain e w1 es' where "employee_of rt v c g w = (Inr e, w1)" "employees_of rt v c gs w1 = (Inr es', w')" "es = e # es'"
    by (auto simp: bindr_Inr_iff split: prod.splits sum.splits)
  with Cons.IH [of w1 es'] employee_of_Inr [of rt v c g w e w1] show ?case by simp
qed simp

lemma build_Inr:
  assumes "build rt vars v key c w = (Inr s, w')"
  obtains project rows degraded w2 es where
    "require_configured_project vars key = Inr project"
    "\<forall>r \<in> set rows. starts_with (cp_key project @ ''-'') (ie_key r)"
    "employees_of rt v c (grouped (filter (\<lambda>r. \<not> is_done (ie_status r)) rows)) w2 = (Inr es, w')"
    "snapshot_of v project c rows degraded es w' = Inr s"
  using assms
  by (auto simp: build_def list_ex_iff split: sum.splits prod.splits if_splits)

lemma alerts_of:
  assumes "map_res alert_of es = Inr alerts"
  shows "map as_subject_id alerts = map es_employee_id es \<and> map as_severity alerts = map es_level es \<and>
    (\<forall>a \<in> set alerts. 0 \<le> as_score a \<and> as_score a \<le> 100)"
  using assms
proof (induction es arbitrary: alerts)
  case (Cons e es)
  then obtain a as where "alert_of e = Inr a" "map_res alert_of es = Inr as" "alerts = a # as"
    by (auto simp: bindr_Inr_iff)
  moreover from this(1) have "as_subject_id a = es_employee_id e \<and> as_severity a = es_level e \<and> 0 \<le> as_score a \<and> as_score a \<le> 100"
    by (auto simp: alert_of_def split: option.splits if_splits)
  ultimately show ?case using Cons.IH [of as] by simp
qed simp

lemma percent_bounds:
  assumes "0 \<le> c" "c \<le> int n" "0 < n"
  shows "0 \<le> round_half_even (fl (of_int (100 * c) / of_nat n))" and "round_half_even (fl (of_int (100 * c) / of_nat n)) \<le> 100"
proof -
  have "0 \<le> (of_int (100 * c) / of_nat n :: rat)" using assms by simp
  then show "0 \<le> round_half_even (fl (of_int (100 * c) / of_nat n))" by (intro round_half_even_nonneg fl_nonneg)
  have "(of_int (100 * c) :: rat) \<le> 100 * of_nat n"
    using assms(2) by (metis mult_left_mono of_int_le_iff of_int_mult of_int_numeral of_int_of_nat_eq zero_le_numeral)
  then have "(of_int (100 * c) / of_nat n :: rat) \<le> 100" using assms(3) by (simp add: divide_le_eq)
  moreover have "is_float 100" using is_float_int [of 100] by simp
  ultimately have "fl (of_int (100 * c) / of_nat n) \<le> 100" by (intro fl_le_float)
  then have "round_half_even (fl (of_int (100 * c) / of_nat n)) \<le> round_half_even 100" by (rule round_half_even_mono)
  then show "round_half_even (fl (of_int (100 * c) / of_nat n)) \<le> 100" by simp
qed

lemma workload_total:
  assumes "\<forall>e \<in> set es. es_level e \<in> summary_levels"
  shows "wd_overloaded (workload_of es) + wd_balanced (workload_of es) + wd_insufficient_data (workload_of es) = int (length es)"
  using assms by (induction es) (auto simp: workload_of_def summary_levels_def)

lemma count_bounds [simp]: "0 \<le> count p rows" "count p rows \<le> int (length rows)"
  by (simp_all add: count_def)

lemma task_of_simps [simp]:
  "tk_key (task_of str site r) = ie_key r" "tk_status (task_of str site r) = ie_status r"
  "tk_assignee_id (task_of str site r) = map_option ac_account_id (ie_assignee r)" "tk_due_date (task_of str site r) = ie_due_date r"
  "tk_raw_remaining_hours (task_of str site r) = hours_of (ie_remaining_estimate_seconds r)"
  "is_done (ie_status r) \<Longrightarrow> tk_remaining_hours (task_of str site r) = Some 0"
  by (simp_all add: task_of_def Let_def)

lemma sum_list_int: "sum_list (map (\<lambda>x. int (f x)) xs) = int (sum_list (map f xs))"
  by (induction xs) simp_all

lemma sum_list_sort_key: "sum_list (map f (sort_key k xs)) = (sum_list (map f xs) :: int)"
  by (metis mset_map mset_sort sum_mset_sum_list)

section \<open>Properties\<close>


section \<open>The dashboard and the history agree\<close>

lemma blocker_of_found:
  "blocker_of str row \<noteq> None \<longleftrightarrow>
     List.find (\<lambda>f. cf_logical_name f = ''blocker_category'' \<and> truthy (cf_value f)) (ie_custom_fields row) \<noteq> None"
  by (simp add: blocker_of_def)

lemma observation_of_Inr:
  assumes "observation_of key row = Inr x"
  shows "tp_project_key x = key" and "tp_issue_key x = ie_key row" and "tp_blocked x \<longleftrightarrow> is_blocked row"
    and "tp_remaining_estimate_hours x = hours_of (ie_remaining_estimate_seconds row)" and "tp_status x = ie_status row"
    and "tp_due_date x = ie_due_date row" and "tp_assignee_id x = map_option ac_account_id (ie_assignee row)"
proof -
  have blocked: "is_blocked row \<longleftrightarrow> List.find (\<lambda>f. cf_logical_name f = ''blocker_category'' \<and> truthy (cf_value f)) (ie_custom_fields row) \<noteq> None \<or>
      filter blocking_link (ie_links row) \<noteq> []"
    unfolding is_blocked_def blocker_of_found by (simp add: filter_empty_conv list_ex_iff)
  have "tp_project_key x = key \<and> tp_issue_key x = ie_key row \<and> (tp_blocked x \<longleftrightarrow> is_blocked row) \<and>
      tp_remaining_estimate_hours x = hours_of (ie_remaining_estimate_seconds row) \<and> tp_status x = ie_status row \<and>
      tp_due_date x = ie_due_date row \<and> tp_assignee_id x = map_option ac_account_id (ie_assignee row)"
    using assms by (clarsimp simp: observation_of_def Let_def make_observation_def blocked split: if_splits)
  then show "tp_project_key x = key" "tp_issue_key x = ie_key row" "tp_blocked x \<longleftrightarrow> is_blocked row"
    "tp_remaining_estimate_hours x = hours_of (ie_remaining_estimate_seconds row)" "tp_status x = ie_status row"
    "tp_due_date x = ie_due_date row" "tp_assignee_id x = map_option ac_account_id (ie_assignee row)" by simp_all
qed

lemma observations_keys:
  "map_res (observation_of key) rows = Inr xs \<Longrightarrow> map tp_issue_key xs = map ie_key rows"
  by (induction rows arbitrary: xs) (auto simp: bindr_Inr_iff observation_of_Inr)

text \<open>
  The progress history agrees with the dashboard.  Recording the issues of a dashboard either raises and
  leaves the database as it was, or leaves for every issue a current state with the status, assignee, due date
  and remaining hours its task on the dashboard shows, blocked exactly if the dashboard counts it as blocked;
  the progress tables stay consistent either way.
\<close>

theorem history_agrees_with_dashboard:
  assumes "progress_ok rt d" "distinct (map ie_key rows)" "record_history rt ld env key rows d = (r, d')"
  shows "progress_ok rt d' \<and> (isl r \<longrightarrow> d' = d) \<and>
    (\<not> isl r \<longrightarrow> (\<forall>row \<in> set rows. \<exists>st. find_state (env, key, ie_key row) d' = Some st \<and>
       tp_status (tc_state st) = tk_status (task_of str site row) \<and> tp_assignee_id (tc_state st) = tk_assignee_id (task_of str site row) \<and>
       tp_due_date (tc_state st) = tk_due_date (task_of str site row) \<and>
       tp_remaining_estimate_hours (tc_state st) = tk_raw_remaining_hours (task_of str site row) \<and>
       (tp_blocked (tc_state st) \<longleftrightarrow> is_blocked row)))"
proof (cases r)
  case (Inl e)
  then have "d' = d" using assms(3) by (auto simp: record_history_def split: sum.splits)
  with Inl assms(1) show ?thesis by simp
next
  case (Inr u)
  then obtain xs res where xs: "map_res (observation_of key) rows = Inr xs" and rec: "record_observations rt ld env xs d = Inr (res, d')"
    using assms(3) by (auto simp: record_history_def bindr_Inr_iff bindr_Inl_iff split: sum.splits)
  then obtain a b where fold: "foldr_res (record_observation rt ld env) ((0, 0), d) xs = Inr ((a, b), d')"
    by (auto simp: record_observations_Inr)
  have "\<exists>st. find_state (env, key, ie_key row) d' = Some st \<and> observation_of key row = Inr (tc_state st)" if "row \<in> set rows" for row
  proof -
    from map_res_in [OF xs that] obtain x where x: "observation_of key row = Inr x" "x \<in> set xs" by blast
    obtain ys zs where split: "xs = ys @ x # zs" using x(2) by (meson split_list)
    have "distinct (map tp_issue_key xs)" using observations_keys [OF xs] assms(2) by simp
    then have "\<forall>z \<in> set zs. task_key env z \<noteq> task_key env x" by (auto simp: split task_key_def) (metis image_eqI)
    from recording_current [OF assms(1) rec split this] obtain lp where "recorded_as ld env x lp d'" by blast
    then show ?thesis using x(1) by (auto simp: recorded_as_def task_key_def observation_of_Inr)
  qed
  then have "\<forall>row \<in> set rows. \<exists>st. find_state (env, key, ie_key row) d' = Some st \<and>
       tp_status (tc_state st) = tk_status (task_of str site row) \<and> tp_assignee_id (tc_state st) = tk_assignee_id (task_of str site row) \<and>
       tp_due_date (tc_state st) = tk_due_date (task_of str site row) \<and>
       tp_remaining_estimate_hours (tc_state st) = tk_raw_remaining_hours (task_of str site row) \<and>
       (tp_blocked (tc_state st) \<longleftrightarrow> is_blocked row)"
    using observation_of_Inr by fastforce
  with Inr record_fold [OF assms(1) fold] show ?thesis by simp
qed

section \<open>Witnesses\<close>

definition sample_row :: "string \<Rightarrow> string \<Rightarrow> string option \<Rightarrow> issue_evidence" where
  "sample_row key status account = \<lparr>ie_environment = Dev, ie_correlation_id = ''c'', ie_evidence_timestamp = 5, ie_key = key,
     ie_summary = ''S'', ie_status = status, ie_priority = Some ''High'',
     ie_assignee = map_option (\<lambda>a. \<lparr>ac_account_id = a, ac_display_name = a, ac_account_type = None, ac_active = None\<rparr>) account,
     ie_due_date = Some 3, ie_original_estimate_seconds = None, ie_remaining_estimate_seconds = Some 7200,
     ie_time_spent_seconds = None, ie_workforce_employee_id = None, ie_difficulty = None, ie_required_skills = [],
     ie_structured_evidence_complete = None, ie_workload_profile = None, ie_activity_timestamp = 1, ie_links = [],
     ie_custom_fields = [], ie_evidence_references = [], ie_untrusted_text = []\<rparr>"

definition sample_service :: "unit dashboard_service" where
  "sample_service = \<lparr>dv_search = (\<lambda>jql key c w. (Inr [sample_row ''WRD-1'' ''To Do'' (Some ''a''), sample_row ''WRD-2'' ''Done'' None], w)),
     dv_score = (\<lambda>i c w. (Inr (Some 60, Some ''high''), w)), dv_record = None,
     dv_profiles = [''a'' \<mapsto> \<lparr>wp_employee_id = ''EMP-001'', wp_display_name = ''A'', wp_role = None, wp_capacity_hours = 1, wp_skills = []\<rparr>],
     dv_jira_site_url = ''https://jira'', dv_today = (\<lambda>w. 4), dv_now = (\<lambda>w. 9), dv_environment = Dev, dv_str = (\<lambda>j. ''v''),
     dv_g = frac_repr\<rparr>"


lemma history_agrees_with_dashboard_witness:
  "\<exists>d' st. record_history sample_runtime (\<lambda>t. 1) Dev ''WRD'' [sample_row ''WRD-1'' ''To Do'' None] empty_db = (Inr (), d') \<and>
     find_state (Dev, ''WRD'', ''WRD-1'') d' = Some st \<and> tp_status (tc_state st) = ''To Do''"
proof -
  obtain r d' where run: "record_history sample_runtime (\<lambda>t. 1) Dev ''WRD'' [sample_row ''WRD-1'' ''To Do'' None] empty_db = (r, d')"
    by fastforce
  have "\<not> isl (fst (record_history sample_runtime (\<lambda>t. 1) Dev ''WRD'' [sample_row ''WRD-1'' ''To Do'' None] empty_db))"
    by code_simp
  then have r: "\<not> isl r" by (simp add: run)
  then have "r = Inr ()" by (cases r) simp_all
  with history_agrees_with_dashboard [OF empty_progress_ok _ run] r run show ?thesis
    by (auto simp: sample_row_def)
qed

end
