(* ===== verification/McpServer.thy ===== *)
theory McpServer imports ProjectAccess SystemSteps Stores Comments Scoring begin

text \<open>
  The tools of the workforce-risk MCP server (workforce\_risk\_mcp/server.py and tools): scoring, evidence,
  comments, profiles, and the creation, decision, execution and reconciliation of proposals.  Each tool is the
  server's handler around the operation of its repository or service, with the check of the signed context
  that comes in the header X-Workforce-Authorization.  A request is the validated model; a reply the value
  the tool returns, before it is dumped to JSON.
\<close>

section \<open>Requests\<close>

abbreviation invalid :: "string \<Rightarrow> 'a res" where
  "invalid model \<equiv> Inl (ValidationError model)"

record 'i score_request =
  sq_environment :: environment
  sq_correlation_id :: string
  sq_deadline_at :: timestamp
  sq_scored_at :: timestamp
  sq_input :: 'i

definition valid_score_request :: "('i \<Rightarrow> bool) \<Rightarrow> 'i score_request \<Rightarrow> bool" where
  "valid_score_request ok r \<longleftrightarrow> length_between 1 128 (sq_correlation_id r) \<and> ok (sq_input r)"

record persist_request =
  pq_environment :: environment
  pq_correlation_id :: string
  pq_subject_type :: string
  pq_snapshot :: evidence_snapshot

definition valid_persist_request :: "persist_request \<Rightarrow> bool" where
  "valid_persist_request r \<longleftrightarrow> length_between 1 128 (pq_correlation_id r) \<and> pq_subject_type r \<in> {''employee'', ''task'', ''project''} \<and>
     valid_evidence_input (vs_evidence (pq_snapshot r)) \<and>
     list_all (\<lambda>x. sn2_score_family x \<in> {''employee_overload'', ''task_fit'', ''project_delivery''}) (vs_risk_results (pq_snapshot r))"

record comment_request =
  mq_environment :: environment
  mq_correlation_id :: string
  mq_observation :: comment_observation

definition valid_comment_request :: "comment_request \<Rightarrow> bool" where
  "valid_comment_request r \<longleftrightarrow> length_between 1 128 (mq_correlation_id r) \<and>
     (let x = mq_observation r in length_between 1 128 (co_jira_comment_id x) \<and> length_between 1 64 (co_jira_issue_key x) \<and>
       opt_all (length_between 0 256) (co_author_account_id x) \<and> length_between 1 10000 (co_body x) \<and>
       opt_all (\<lambda>w. aw_starts_at w < aw_ends_at w) (co_availability_window x))"

text \<open>\<open>^EMP-00[1-7]$\<close>\<close>

definition workforce_id :: "string \<Rightarrow> bool" where
  "workforce_id s \<longleftrightarrow> (\<exists>c \<in> set ''1234567''. s = ''EMP-00'' @ [c])"

record capacity_update =
  uq_employee_id :: string
  uq_project_key :: string
  uq_expected_version :: int
  uq_weekly_capacity_hours :: pyfloat

definition valid_capacity_update :: "capacity_update \<Rightarrow> bool" where
  "valid_capacity_update r \<longleftrightarrow> workforce_id (uq_employee_id r) \<and> matches_key id_char 1 63 (uq_project_key r) \<and>
     1 \<le> uq_expected_version r \<and> 0 < uq_weekly_capacity_hours r \<and> uq_weekly_capacity_hours r \<le> 168"

record profile_request =
  fq_project_key :: string
  fq_employee_id :: string
  fq_role :: string
  fq_seniority :: seniority
  fq_documented_skills :: "documented_skill list"
  fq_weekly_capacity_hours :: pyfloat
  fq_project_allocations :: "project_allocation list"
  fq_mentoring_available :: bool
  fq_capacity_overrides :: "capacity_override list"
  fq_jira_account_id :: "string option"

definition valid_profile_request :: "profile_request \<Rightarrow> bool" where
  "valid_profile_request r \<longleftrightarrow> matches_key id_char 1 63 (fq_project_key r) \<and> workforce_id (fq_employee_id r) \<and>
     length_between 1 128 (fq_role r) \<and> list_all (\<lambda>s. \<not> isl (make_skill s)) (fq_documented_skills r) \<and>
     0 < fq_weekly_capacity_hours r \<and> fq_weekly_capacity_hours r \<le> 168 \<and>
     list_all (\<lambda>a. \<not> isl (make_allocation a)) (fq_project_allocations r) \<and>
     list_all (\<lambda>v. \<not> isl (make_override v)) (fq_capacity_overrides r) \<and>
     opt_all (length_between 1 256) (fq_jira_account_id r)"

record create_request =
  cq_project_key :: string
  cq_simulation_id :: string
  cq_idempotency_key :: string
  cq_expires_at :: timestamp
  cq_requested_at :: timestamp

definition valid_create_request :: "create_request \<Rightarrow> bool" where
  "valid_create_request r \<longleftrightarrow> length_between 1 128 (cq_simulation_id r) \<and> length_between 8 128 (cq_idempotency_key r)"

record decision_request =
  dq_project_key :: string
  dq_proposal_id :: string
  dq_expected_version :: int
  dq_decision :: decision
  dq_idempotency_key :: string
  dq_decided_at :: timestamp

definition valid_decision_request :: "decision_request \<Rightarrow> bool" where
  "valid_decision_request r \<longleftrightarrow> 1 \<le> dq_expected_version r \<and> length_between 8 128 (dq_idempotency_key r)"

text \<open>The requests of get, execute and reconcile\<close>

record proposal_request =
  gq_project_key :: string
  gq_proposal_id :: string

datatype mcp_request =
    ScoreOverload "overload_input score_request"
  | ScoreTaskFit "task_fit_input score_request"
  | ScoreProjectDelivery "project_delivery_input score_request"
  | PersistEvidence persist_request
  | NormalizeComment comment_request
  | UpdateCapacity capacity_update
  | CreateProfile profile_request
  | CreateProposal create_request
  | DecideProposal decision_request
  | GetProposal proposal_request
  | ExecuteProposal proposal_request
  | ReconcileProposal proposal_request

fun valid_request :: "mcp_request \<Rightarrow> bool" where
  "valid_request (ScoreOverload r) = valid_score_request valid_overload_input r"
| "valid_request (ScoreTaskFit r) = valid_score_request valid_task_fit_input r"
| "valid_request (ScoreProjectDelivery r) = valid_score_request valid_project_delivery_input r"
| "valid_request (PersistEvidence r) = valid_persist_request r"
| "valid_request (NormalizeComment r) = valid_comment_request r"
| "valid_request (UpdateCapacity r) = valid_capacity_update r"
| "valid_request (CreateProfile r) = valid_profile_request r"
| "valid_request (CreateProposal r) = valid_create_request r"
| "valid_request (DecideProposal r) = valid_decision_request r"
| "valid_request _ = True"

record comment_reply =
  cy_status :: string
  cy_observation_id :: "string option"
  cy_category :: "string option"
  cy_reason :: string

datatype mcp_reply =
    ScoreReply environment string risk_result
  | EvidenceReply string string
  | CommentReply comment_reply
  | ProfileReply stored_profile
  | ProposalReply stored_proposal
  | ExecutionReply execution_result
  | ReconciliationReply "reconciliation_result option"

section \<open>The server\<close>

text \<open>
  \<open>hmac\<close> takes the secret and the message; \<open>clock\<close> gives the successive readings of the clock during one
  request; \<open>sync\<close> is the behaviour of the session after a bulk UPDATE.
\<close>

record 'w mcp_server =
  mp_runtime :: runtime
  mp_vars :: environ
  mp_environment :: environment
  mp_hmac :: "string \<Rightarrow> string \<Rightarrow> string"
  mp_loads :: "string \<Rightarrow> json option"
  mp_call :: "'w transport"
  mp_clock :: "nat \<Rightarrow> timestamp"
  mp_scoring :: scoring_config
  mp_classifier :: comment_classifier
  mp_sync :: bool

record 'w mcp_state =
  mt_db :: db
  mt_world :: 'w
  mt_correlations :: "string set"

definition secret_of :: "'w mcp_server \<Rightarrow> string" where
  "secret_of s = getenv (mp_vars s) ''INTERNAL_AUTH_SECRET'' []"

definition verify_header ::
  "'w mcp_server \<Rightarrow> timedelta \<Rightarrow> string option \<Rightarrow> environment \<Rightarrow> string \<Rightarrow> application_role set \<Rightarrow> internal_context res" where
  "verify_header s lifetime token env project roles =
     bindr (context_signer (secret_of s) lifetime)
       (\<lambda>_. verify_context (mp_hmac s (secret_of s)) (mp_loads s) token env project roles (mp_clock s 0))"

definition authorize_proposal :: "'w mcp_server \<Rightarrow> string option \<Rightarrow> environment \<Rightarrow> string \<Rightarrow> internal_context res" where
  "authorize_proposal s token env project = verify_header s 60000000 token env project {Access.Manager, Access.Administrator}"

definition authorize_profile_change :: "'w mcp_server \<Rightarrow> string option \<Rightarrow> string \<Rightarrow> internal_context res" where
  "authorize_profile_change s token project =
    (case verify_header s 1000000 token (mp_environment s) project {Access.Administrator} of
       Inl _ \<Rightarrow> Inl (PermissionError ''profile change is not authorized'') | Inr c \<Rightarrow> Inr c)"

definition actor_from_context :: "internal_context \<Rightarrow> proposal_actor res" where
  "actor_from_context c =
    (case pp_role c of
       Viewer \<Rightarrow> Inl (PermissionError ''proposal role is not authorized'')
     | r \<Rightarrow> Inr \<lparr>act_actor_id = pp_actor_id c, act_role = (if r = Access.Manager then Proposals.Manager else Proposals.Administrator),
         act_environment = pp_environment c, act_project_scopes = pp_project_scopes c, act_correlation_id = ic_correlation_id c\<rparr>)"

text \<open>One transaction on the database\<close>

definition transact :: "('a \<Rightarrow> mcp_reply) \<Rightarrow> 'a tx \<Rightarrow> 'w mcp_state \<Rightarrow> mcp_reply res \<times> 'w mcp_state" where
  "transact reply r st = (case r of Inl e \<Rightarrow> (Inl e, st) | Inr (x, d) \<Rightarrow> (Inr (reply x), st\<lparr>mt_db := d\<rparr>))"

definition needs :: "'w mcp_server \<Rightarrow> string list \<Rightarrow> bool" where
  "needs s names \<longleftrightarrow> list_all (set_and_filled (mp_vars s)) names"

section \<open>Scoring tools\<close>

definition check_score_request :: "'w mcp_server \<Rightarrow> 'i score_request \<Rightarrow> unit res" where
  "check_score_request s r =
    (if sq_environment r \<noteq> mp_environment s then Inl (ValueError ''request environment mismatch'')
     else if sq_deadline_at r \<le> sq_scored_at r then Inl TimeoutError else Inr ())"

definition score_overload :: "'w mcp_server \<Rightarrow> overload_input score_request \<Rightarrow> 'w mcp_state \<Rightarrow> mcp_reply res \<times> 'w mcp_state" where
  "score_overload s r st =
    (case check_score_request s r of
       Inl e \<Rightarrow> (Inl e, st)
     | Inr _ \<Rightarrow>
        (if sq_correlation_id r \<in> mt_correlations st then (Inl (ValueError ''duplicate correlation ID''), st)
         else (bindr (score_employee_overload (sq_input r) (mp_scoring s) (sq_scored_at r))
                 (\<lambda>x. Inr (ScoreReply (sq_environment r) (sq_correlation_id r) x)),
               st\<lparr>mt_correlations := insert (sq_correlation_id r) (mt_correlations st)\<rparr>)))"

definition score_family_tool ::
  "'w mcp_server \<Rightarrow> ('i \<Rightarrow> scoring_config \<Rightarrow> timestamp \<Rightarrow> risk_result res) \<Rightarrow> 'i score_request \<Rightarrow> mcp_reply res" where
  "score_family_tool s score r = bindr (check_score_request s r)
     (\<lambda>_. bindr (score (sq_input r) (mp_scoring s) (sq_scored_at r)) (\<lambda>x. Inr (ScoreReply (sq_environment r) (sq_correlation_id r) x)))"

section \<open>Evidence and comments\<close>

definition persist_evidence :: "'w mcp_server \<Rightarrow> persist_request \<Rightarrow> 'w mcp_state \<Rightarrow> mcp_reply res \<times> 'w mcp_state" where
  "persist_evidence s r st =
    (if \<not> needs s [''DATABASE_URL''] then (Inl runtime_error, st)
     else if pq_environment r \<noteq> mp_environment s then (Inl (ValueError ''request environment mismatch''), st)
     else if ev_environment (vs_evidence (pq_snapshot r)) \<noteq> pq_environment r then (Inl (ValueError ''snapshot environment mismatch''), st)
     else transact (\<lambda>i. EvidenceReply (rt_uuid (mp_runtime s) i) (fingerprint (mp_runtime s) (vs_evidence (pq_snapshot r))))
       (snapshot_persist (mp_runtime s) (pq_snapshot r) (pq_subject_type r) (Some (mp_environment s)) (mp_clock s 0) (mt_db st)) st)"

definition normalize_comment_evidence :: "'w mcp_server \<Rightarrow> comment_request \<Rightarrow> 'w mcp_state \<Rightarrow> mcp_reply res \<times> 'w mcp_state" where
  "normalize_comment_evidence s r st =
    (if \<not> needs s [''DATABASE_URL''] then (Inl runtime_error, st)
     else if mq_environment r \<noteq> mp_environment s then (Inl (ValueError ''request environment mismatch''), st)
     else let c = classify (mp_classifier s) (mq_observation r) in
       case cr_signal c of
         None \<Rightarrow> (Inr (CommentReply \<lparr>cy_status = ''no_signal'', cy_observation_id = None, cy_category = None, cy_reason = cr_reason c\<rparr>), st)
       | Some signal \<Rightarrow> let lifecycle = from_signal signal in
           transact (\<lambda>i. CommentReply \<lparr>cy_status = ''stored'', cy_observation_id = Some (rt_uuid (mp_runtime s) i),
               cy_category = Some (category_value (cl2_category lifecycle)), cy_reason = cr_reason c\<rparr>)
             (comment_append (mp_runtime s) (mq_environment r) lifecycle (mp_clock s 0) (mt_db st)) st)"

section \<open>Profiles\<close>

abbreviation protected_vars :: "string list" where
  "protected_vars \<equiv> [''INTERNAL_AUTH_SECRET'', ''DATABASE_URL'']"

definition update_profile_capacity ::
  "'w mcp_server \<Rightarrow> string option \<Rightarrow> capacity_update \<Rightarrow> 'w mcp_state \<Rightarrow> mcp_reply res \<times> 'w mcp_state" where
  "update_profile_capacity s token r st =
    (if \<not> needs s protected_vars then (Inl runtime_error, st)
     else case authorize_profile_change s token (uq_project_key r) of
       Inl e \<Rightarrow> (Inl e, st)
     | Inr c \<Rightarrow> transact ProfileReply
         (bindr (update_capacity_audited (mp_runtime s) (mp_clock s 1) (mp_environment s) (uq_employee_id r) (uq_expected_version r)
             (uq_weekly_capacity_hours r) (pp_actor_id c) (ic_correlation_id c) (mt_db st)) (\<lambda>(updated, d).
            case updated of None \<Rightarrow> Inl (ValueError ''profile not found or version conflict'') | Some p \<Rightarrow> Inr (p, d))) st)"

definition profile_args_of :: "'w mcp_server \<Rightarrow> internal_context \<Rightarrow> profile_request \<Rightarrow> profile_args" where
  "profile_args_of s c r = \<lparr>pa_environment = mp_environment s, pa_employee_id = fq_employee_id r, pa_role = fq_role r,
     pa_seniority = seniority_value (fq_seniority r), pa_weekly_capacity_hours = fq_weekly_capacity_hours r,
     pa_mentoring_available = fq_mentoring_available r, pa_jira_account_id = fq_jira_account_id r,
     pa_skills = map (\<lambda>x. (sk_name x, proficiency_value (sk_proficiency x))) (fq_documented_skills r),
     pa_allocations = map (\<lambda>a. (pa_project_key a, pa_fraction a)) (fq_project_allocations r),
     pa_capacity_overrides = map (\<lambda>v. (co_starts_at v, co_ends_at v, co_capacity_hours v, co_reason v)) (fq_capacity_overrides r),
     pa_actor_id = pp_actor_id c, pa_correlation_id = ic_correlation_id c, pa_created_at = mp_clock s 1\<rparr>"

definition create_profile_tool ::
  "'w mcp_server \<Rightarrow> string option \<Rightarrow> profile_request \<Rightarrow> 'w mcp_state \<Rightarrow> mcp_reply res \<times> 'w mcp_state" where
  "create_profile_tool s token r st =
    (if \<not> needs s protected_vars then (Inl runtime_error, st)
     else case authorize_profile_change s token (fq_project_key r) of
       Inl e \<Rightarrow> (Inl e, st)
     | Inr c \<Rightarrow> transact ProfileReply (profile_create (mp_runtime s) (mp_clock s 2) (profile_args_of s c r) (mt_db st)) st)"

section \<open>Proposals\<close>

definition create_proposal_tool ::
  "'w mcp_server \<Rightarrow> string option \<Rightarrow> create_request \<Rightarrow> 'w mcp_state \<Rightarrow> mcp_reply res \<times> 'w mcp_state" where
  "create_proposal_tool s token r st =
    (if \<not> needs s protected_vars then (Inl runtime_error, st)
     else case authorize_proposal s token (mp_environment s) (cq_project_key r) of
       Inl e \<Rightarrow> (Inl e, st)
     | Inr c \<Rightarrow> transact ProposalReply (bindr (actor_from_context c) (\<lambda>actor.
         create_from_stored_simulation (mp_runtime s) (mp_clock s 1) (cq_simulation_id r) (cq_idempotency_key r) (cq_expires_at r)
           (cq_requested_at r) actor (mt_db st))) st)"

text \<open>\<open>FailClosedFreshnessProvider\<close>, the only provider the server has\<close>

definition fingerprint_for_proposal :: "string \<Rightarrow> string res" where
  "fingerprint_for_proposal proposal_id = Inl runtime_error"

definition decide_proposal ::
  "'w mcp_server \<Rightarrow> (string \<Rightarrow> string res) \<Rightarrow> decision_request \<Rightarrow> internal_context \<Rightarrow> db \<Rightarrow> stored_proposal tx" where
  "decide_proposal s freshness r c d =
     bindr (freshness (dq_proposal_id r)) (\<lambda>current.
     bindr (actor_from_context c) (\<lambda>actor.
       decide (mp_runtime s) (mp_sync s) (mp_clock s 1) \<lparr>dc_proposal_id = dq_proposal_id r, dc_expected_version = dq_expected_version r,
         dc_decision = dq_decision r, dc_idempotency_key = dq_idempotency_key r, dc_current_evidence_fingerprint = current,
         dc_decided_at = dq_decided_at r\<rparr> actor d))"

definition decide_proposal_tool ::
  "'w mcp_server \<Rightarrow> string option \<Rightarrow> decision_request \<Rightarrow> 'w mcp_state \<Rightarrow> mcp_reply res \<times> 'w mcp_state" where
  "decide_proposal_tool s token r st =
    (if \<not> needs s protected_vars then (Inl runtime_error, st)
     else case authorize_proposal s token (mp_environment s) (dq_project_key r) of
       Inl e \<Rightarrow> (Inl e, st)
     | Inr c \<Rightarrow> transact ProposalReply (decide_proposal s fingerprint_for_proposal r c (mt_db st)) st)"

definition get_proposal_tool ::
  "'w mcp_server \<Rightarrow> string option \<Rightarrow> proposal_request \<Rightarrow> 'w mcp_state \<Rightarrow> mcp_reply res \<times> 'w mcp_state" where
  "get_proposal_tool s token r st =
    (if \<not> needs s protected_vars then (Inl runtime_error, st)
     else case authorize_proposal s token (mp_environment s) (gq_project_key r) of
       Inl e \<Rightarrow> (Inl e, st)
     | Inr c \<Rightarrow> (bindr (actor_from_context c) (\<lambda>actor.
         bindr (get_authorized (mp_runtime s) (gq_proposal_id r) actor (mt_db st)) (\<lambda>found.
           case found of None \<Rightarrow> Inl (ValueError ''proposal not found'') | Some p \<Rightarrow> Inr (ProposalReply p))), st))"

definition execution_configured :: "'w mcp_server \<Rightarrow> bool" where
  "execution_configured s \<longleftrightarrow> needs s (protected_vars @ [''JIRA_MCP_AUTH_HEADER'', ''JIRA_CLOUD_ID'']) \<and>
     casefold (getenv (mp_vars s) ''JIRA_MUTATION_ENABLED'' ''false'') = ''true'' \<and> mp_environment s = Dev"

definition execute_reassignment_tool ::
  "'w mcp_server \<Rightarrow> string option \<Rightarrow> proposal_request \<Rightarrow> 'w mcp_state \<Rightarrow> mcp_reply res \<times> 'w mcp_state" where
  "execute_reassignment_tool s token r st =
    (if \<not> execution_configured s then (Inl runtime_error, st)
     else case authorize_proposal s token Dev (gq_project_key r) of
       Inl e \<Rightarrow> (Inl e, st)
     | Inr c \<Rightarrow>
        (let (result, d, w) = execute_service (mp_runtime s) Dev (\<lambda>n. mp_clock s (Suc n))
             \<lparr>mc_environment = Dev, mc_allowed_projects = set (pp_project_scopes c)\<rparr> (mp_call s) (gq_proposal_id r)
             (ic_correlation_id c) (mt_db st) (mt_world st)
         in (map_sum id ExecutionReply result, st\<lparr>mt_db := d, mt_world := w\<rparr>)))"

definition reconcile_reassignment_tool ::
  "'w mcp_server \<Rightarrow> string option \<Rightarrow> proposal_request \<Rightarrow> 'w mcp_state \<Rightarrow> mcp_reply res \<times> 'w mcp_state" where
  "reconcile_reassignment_tool s token r st =
    (if \<not> needs s (protected_vars @ [''JIRA_MCP_AUTH_HEADER'', ''JIRA_CLOUD_ID'']) then (Inl runtime_error, st)
     else case authorize_proposal s token (mp_environment s) (gq_project_key r) of
       Inl e \<Rightarrow> (Inl e, st)
     | Inr c \<Rightarrow>
        (let (result, d, w) = run_proposal (mp_runtime s) (mp_environment s) (mp_clock s 1) (mp_call s) (gq_proposal_id r)
             (''manager:'' @ pp_actor_id c) (mt_db st) (mt_world st)
         in (map_sum id ReconciliationReply result, st\<lparr>mt_db := d, mt_world := w\<rparr>)))"

section \<open>All tools\<close>

fun run_tool :: "'w mcp_server \<Rightarrow> string option \<Rightarrow> mcp_request \<Rightarrow> 'w mcp_state \<Rightarrow> mcp_reply res \<times> 'w mcp_state" where
  "run_tool s token (ScoreOverload r) st = score_overload s r st"
| "run_tool s token (ScoreTaskFit r) st = (score_family_tool s score_task_fit r, st)"
| "run_tool s token (ScoreProjectDelivery r) st = (score_family_tool s score_project_delivery r, st)"
| "run_tool s token (PersistEvidence r) st = persist_evidence s r st"
| "run_tool s token (NormalizeComment r) st = normalize_comment_evidence s r st"
| "run_tool s token (UpdateCapacity r) st = update_profile_capacity s token r st"
| "run_tool s token (CreateProfile r) st = create_profile_tool s token r st"
| "run_tool s token (CreateProposal r) st = create_proposal_tool s token r st"
| "run_tool s token (DecideProposal r) st = decide_proposal_tool s token r st"
| "run_tool s token (GetProposal r) st = get_proposal_tool s token r st"
| "run_tool s token (ExecuteProposal r) st = execute_reassignment_tool s token r st"
| "run_tool s token (ReconcileProposal r) st = reconcile_reassignment_tool s token r st"

definition call_tool :: "'w mcp_server \<Rightarrow> string option \<Rightarrow> mcp_request \<Rightarrow> 'w mcp_state \<Rightarrow> mcp_reply res \<times> 'w mcp_state" where
  "call_tool s token rq st = (if valid_request rq then run_tool s token rq st else (Inl (ValidationError ''request''), st))"

section \<open>What the tools need\<close>

text \<open>The project and the roles a tool asks of the context; None for the tools that ask for none\<close>

fun required :: "mcp_request \<Rightarrow> (string \<times> application_role set) option" where
  "required (UpdateCapacity r) = Some (uq_project_key r, {Access.Administrator})"
| "required (CreateProfile r) = Some (fq_project_key r, {Access.Administrator})"
| "required (CreateProposal r) = Some (cq_project_key r, {Access.Manager, Access.Administrator})"
| "required (DecideProposal r) = Some (dq_project_key r, {Access.Manager, Access.Administrator})"
| "required (GetProposal r) = Some (gq_project_key r, {Access.Manager, Access.Administrator})"
| "required (ExecuteProposal r) = Some (gq_project_key r, {Access.Manager, Access.Administrator})"
| "required (ReconcileProposal r) = Some (gq_project_key r, {Access.Manager, Access.Administrator})"
| "required _ = None"

text \<open>The tables of the decisions people make: proposals, their executions, profiles and the logs\<close>

definition protected_rows where
  "protected_rows d = (db_proposals d, db_simulations d, db_decisions d, db_executions d, db_profiles d, db_skills d, db_allocations d,
     db_overrides d, db_audit d, db_outbox d)"

definition protected_state :: "'w mcp_state \<Rightarrow> _" where
  "protected_state st = (protected_rows (mt_db st), mt_world st)"

lemma snapshot_persist_protected:
  "snapshot_persist rt x t e now d = Inr (i, d') \<Longrightarrow> protected_rows d' = protected_rows d"
  by (auto simp: snapshot_persist_def Let_def bindr_Inr_iff new_id_def protected_rows_def split: if_splits option.splits)

lemma comment_append_protected:
  "comment_append rt e x now d = Inr (i, d') \<Longrightarrow> protected_rows d' = protected_rows d"
  by (auto simp: comment_append_def comment_record_def Let_def bindr_Inr_iff new_id_def protected_rows_def split: option.splits)

lemma transact_protected:
  assumes "\<And>x d. r = Inr (x, d) \<Longrightarrow> protected_rows d = protected_rows (mt_db st)" "transact reply r st = (res, st')"
  shows "protected_state st' = protected_state st"
  using assms by (auto simp: transact_def protected_state_def split: sum.splits)

text \<open>A context that passed\<close>

definition authorizes :: "'w mcp_server \<Rightarrow> string option \<Rightarrow> string \<Rightarrow> application_role set \<Rightarrow> internal_context \<Rightarrow> bool" where
  "authorizes s token project roles c \<longleftrightarrow> 32 \<le> length (secret_of s) \<and>
     verify_context (mp_hmac s (secret_of s)) (mp_loads s) token (mp_environment s) project roles (mp_clock s 0) = Inr c"

lemma verify_header_Inr:
  "verify_header s lifetime token (mp_environment s) project roles = Inr c \<Longrightarrow> authorizes s token project roles c"
  by (auto simp: verify_header_def context_signer_def authorizes_def bindr_Inr_iff split: if_splits)

lemma authorize_Inr:
  "authorize_proposal s token (mp_environment s) project = Inr c \<Longrightarrow> authorizes s token project {Access.Manager, Access.Administrator} c"
  "authorize_profile_change s token project = Inr c \<Longrightarrow> authorizes s token project {Access.Administrator} c"
  by (auto simp: authorize_proposal_def authorize_profile_change_def dest!: verify_header_Inr split: sum.splits)

lemma run_tool_authorized:
  assumes "run_tool s token rq st = (r, st')" "protected_state st' \<noteq> protected_state st"
  shows "\<exists>project roles c. required rq = Some (project, roles) \<and> authorizes s token project roles c"
proof (cases rq)
  case (PersistEvidence x)
  then have "protected_state st' = protected_state st"
    using assms(1) transact_protected [OF snapshot_persist_protected] by (auto simp: persist_evidence_def split: if_splits)
  with assms(2) show ?thesis by blast
next
  case (NormalizeComment x)
  then have "protected_state st' = protected_state st"
    using assms(1) transact_protected [OF comment_append_protected]
    by (auto simp: normalize_comment_evidence_def Let_def split: if_splits option.splits)
  with assms(2) show ?thesis by blast
next
  case (ExecuteProposal x)
  have dev: "execution_configured s \<Longrightarrow> mp_environment s = Dev" by (simp add: execution_configured_def)
  obtain c where "authorize_proposal s token Dev (gq_project_key x) = Inr c" "execution_configured s"
    using assms ExecuteProposal by (auto simp: execute_reassignment_tool_def split: if_splits sum.splits)
  with dev authorize_Inr(1) [of s token "gq_project_key x" c] ExecuteProposal show ?thesis by auto
qed (use assms in \<open>auto dest!: authorize_Inr simp: score_overload_def protected_state_def update_profile_capacity_def create_profile_tool_def
    create_proposal_tool_def decide_proposal_tool_def get_proposal_tool_def reconcile_reassignment_tool_def split: if_splits sum.splits\<close>)

section \<open>Properties\<close>

text \<open>
  C33: Nothing people decided on changes without a signed context.  Whatever the tool, the request and the
  header, if a call changes proposals, decisions, executions, profiles, the audit log or the outbox, or talks
  to Jira, then the tool asks for a project and a set of roles without the viewer, and the header is a body with its HMAC
  under the server's secret of at least 32 bytes; the body decodes to a context that has not expired, is for the
  server's environment, has the project in its scope and one of the roles.
\<close>

theorem changes_need_signed_context:
  assumes "call_tool s token rq st = (r, st')" "protected_state st' \<noteq> protected_state st"
  shows "\<exists>project roles body j c. required rq = Some (project, roles) \<and> Viewer \<notin> roles \<and> 32 \<le> length (secret_of s) \<and>
     token = Some (body @ ''.'' @ b64_encode (mp_hmac s (secret_of s) body)) \<and>
     Option.bind (b64_decode body) (mp_loads s) = Some j \<and> context_of j = Some c \<and>
     mp_clock s 0 < ic_expires_at c \<and> pp_environment c = mp_environment s \<and> project \<in> set (pp_project_scopes c) \<and> pp_role c \<in> roles"
proof -
  have "run_tool s token rq st = (r, st')" using assms by (auto simp: call_tool_def split: if_splits)
  from run_tool_authorized [OF this assms(2)] obtain project roles c where
    need: "required rq = Some (project, roles)" and auth: "authorizes s token project roles c" by blast
  have "Viewer \<notin> roles" using need by (cases rq) auto
  with need auth verified_context show ?thesis unfolding authorizes_def by blast
qed

text \<open>
  The decision tool decides nothing.  The only source of current evidence the server has refuses every
  request, so each decision, an approval or a rejection, by whomever, fails and leaves the state as it was.
\<close>

theorem decisions_fail_closed:
  "\<exists>e. call_tool s token (DecideProposal r) st = (Inl e, st)"
  by (auto simp: call_tool_def decide_proposal_tool_def decide_proposal_def fingerprint_for_proposal_def transact_def split: sum.splits)

text \<open>
  C34: A proposal can be stranded from another project.  A manager authorised for one project who executes an
  approved proposal of a project outside the scope is refused, without any call to Jira, but only after the
  execution was claimed and marked as written: it stays executing, and no later reading can settle it as failed.
\<close>

theorem foreign_execution_strands:
  assumes "execution_configured s" "authorize_proposal s token Dev (gq_project_key r) = Inr c"
    and "prepare (mp_runtime s) Dev (mp_clock s 1) (gq_proposal_id r) (ic_correlation_id c) (mt_db st) = Inr (Claim k, d1)"
    and "mark_write_attempted (mp_runtime s) Dev k d1 = Inr (u, d2)" and "cl_project_key k \<notin> set (pp_project_scopes c)"
  shows "(\<exists>m. call_tool s token (ExecuteProposal r) st = (Inl (PermissionError m), st\<lparr>mt_db := d2\<rparr>)) \<and>
    (\<exists>e \<in> set (db_executions d2). ex_state e = Executing \<and> ex_write_attempted e \<and>
      (\<forall>p reading. fst (reconcile_verdict (claim_for (mp_runtime s) e p) reading) \<noteq> ExecutionFailed))"
proof -
  have "\<not> mutation_allowed \<lparr>mc_environment = Dev, mc_allowed_projects = set (pp_project_scopes c)\<rparr> (command_of k)"
    using assms(5) by (simp add: mutation_allowed_def command_of_def)
  then have "\<exists>m. call_tool s token (ExecuteProposal r) st = (Inl (PermissionError m), st\<lparr>mt_db := d2\<rparr>)"
    using assms by (simp add: call_tool_def execute_reassignment_tool_def execute_service_def mutation_execute_def)
  moreover from assms(4) obtain eid e where e: "find_execution Dev eid d1 = Some e" "ex_state e = Executing"
    "d2 = d1\<lparr>db_executions := update_where (\<lambda>x. ex_id x = eid)
        (\<lambda>x. x\<lparr>ex_write_attempted := True, ex_result := JObj [(''write_attempted'', JBool True)]\<rparr>) (db_executions d1)\<rparr>"
    by (auto simp: mark_write_attempted_def bindr_Inr_iff split: option.splits if_splits)
  then have "e \<in> set (db_executions d1)" "ex_id e = eid" by (auto simp: find_execution_def dest: select_one_SomeD)
  then have "e\<lparr>ex_write_attempted := True, ex_result := JObj [(''write_attempted'', JBool True)]\<rparr> \<in> set (db_executions d2)"
    by (force simp: e(3) set_update_where)
  moreover have "fst (reconcile_verdict (claim_for rt x p) reading) \<noteq> ExecutionFailed" if "ex_write_attempted x" for rt x p reading
    using that by (simp add: reconcile_verdict_def claim_for_def Let_def)
  moreover have "ex_state (e\<lparr>ex_write_attempted := True, ex_result := JObj [(''write_attempted'', JBool True)]\<rparr>) = Executing"
    "ex_write_attempted (e\<lparr>ex_write_attempted := True, ex_result := JObj [(''write_attempted'', JBool True)]\<rparr>)"
    using e(2) by simp_all
  ultimately show ?thesis by blast
qed

text \<open>A profile whose allocations exceed the employee's time is created, although the profile model refuses it.\<close>

definition profile_of_request :: "environment \<Rightarrow> profile_request \<Rightarrow> workforce_profile" where
  "profile_of_request env r = \<lparr>wp_employee_id = fq_employee_id r, wp_environment = env, wp_role = fq_role r,
     wp_seniority = fq_seniority r, wp_documented_skills = fq_documented_skills r,
     wp_weekly_capacity_hours = fq_weekly_capacity_hours r, wp_project_allocations = fq_project_allocations r,
     wp_mentoring_available = fq_mentoring_available r, wp_capacity_overrides = fq_capacity_overrides r,
     wp_jira_account_id = fq_jira_account_id r, wp_version = 1\<rparr>"

section \<open>Witnesses\<close>

definition sample_context :: internal_context where
  "sample_context = \<lparr>pp_actor_id = ''m'', pp_display_label = ''M'', pp_role = Access.Administrator, pp_environment = Dev,
     pp_project_scopes = [''OPS''], ic_correlation_id = ''c'', ic_expires_at = 60000000\<rparr>"

definition sample_claims :: json where
  "sample_claims = JObj [(''actor_id'', JStr ''m''), (''display_label'', JStr ''M''), (''role'', JStr ''administrator''),
     (''environment'', JStr ''dev''), (''project_scopes'', JList [JStr ''OPS'']), (''expires_at'', JInt 60), (''correlation_id'', JStr ''c'')]"

definition sample_server :: "unit mcp_server" where
  "sample_server = \<lparr>mp_runtime = sample_runtime, mp_vars = [''INTERNAL_AUTH_SECRET'' \<mapsto> replicate 32 (CHR ''k''), ''DATABASE_URL'' \<mapsto> ''db'',
       ''JIRA_MCP_AUTH_HEADER'' \<mapsto> ''h'', ''JIRA_CLOUD_ID'' \<mapsto> ''i'', ''JIRA_MUTATION_ENABLED'' \<mapsto> ''true''],
     mp_environment = Dev, mp_hmac = (\<lambda>k m. ''mac''), mp_loads = (\<lambda>t. Some sample_claims), mp_call = (\<lambda>c w. (Inl TimeoutError, w)),
     mp_clock = (\<lambda>n. 5), mp_scoring = shipped_config, mp_classifier = sample_classifier, mp_sync = True\<rparr>"

definition sample_header :: "string option" where
  "sample_header = Some (''YQ'' @ ''.'' @ b64_encode ''mac'')"

definition executing_db :: db where
  "executing_db = sample_pdb\<lparr>db_proposals := [sample_proposal\<lparr>pr_state := Executing\<rparr>]\<rparr>"

definition sample_state :: "db \<Rightarrow> unit mcp_state" where
  "sample_state d = \<lparr>mt_db = d, mt_world = (), mt_correlations = {}\<rparr>"

definition sample_profile_request :: "project_allocation list \<Rightarrow> profile_request" where
  "sample_profile_request allocations = \<lparr>fq_project_key = ''OPS'', fq_employee_id = ''EMP-001'', fq_role = ''dev'', fq_seniority = Mid,
     fq_documented_skills = [], fq_weekly_capacity_hours = 40, fq_project_allocations = allocations, fq_mentoring_available = False,
     fq_capacity_overrides = [], fq_jira_account_id = None\<rparr>"

theorem inconsistent_profile_created:
  "let r = sample_profile_request [\<lparr>pa_project_key = ''OPS'', pa_fraction = 1\<rparr>, \<lparr>pa_project_key = ''WRD'', pa_fraction = 1\<rparr>] in
     \<not> isl (fst (call_tool sample_server sample_header (CreateProfile r) (sample_state empty_db))) \<and>
     isl (make_profile (profile_of_request Dev r))"
  by code_simp

lemma sample_authorized: "authorize_proposal sample_server sample_header Dev ''OPS'' = Inr sample_context"
  by code_simp

lemma changes_need_signed_context_witness:
  "\<exists>body. sample_header = Some (body @ ''.'' @ b64_encode (mp_hmac sample_server (secret_of sample_server) body))"
proof -
  let ?rq = "CreateProfile (sample_profile_request [])"
  obtain r st' where run: "call_tool sample_server sample_header ?rq (sample_state empty_db) = (r, st')" by fastforce
  have "db_profiles (mt_db (snd (call_tool sample_server sample_header ?rq (sample_state empty_db)))) \<noteq> []" by code_simp
  then have "db_profiles (mt_db st') \<noteq> []" by (simp only: run snd_conv not_False_eq_True)
  then have "protected_state st' \<noteq> protected_state (sample_state empty_db)"
    by (auto simp: protected_state_def protected_rows_def sample_state_def empty_db_def)
  from changes_need_signed_context [OF run this] show ?thesis by blast
qed

lemma foreign_execution_strands_witness:
  "\<exists>d2. (\<exists>m. call_tool sample_server sample_header (ExecuteProposal \<lparr>gq_project_key = ''OPS'', gq_proposal_id = rt_uuid sample_runtime 0\<rparr>)
      (sample_state executing_db) = (Inl (PermissionError m), sample_state d2)) \<and>
     (\<exists>e \<in> set (db_executions d2). ex_state e = Executing)"
proof -
  let ?p = "prepare sample_runtime Dev 5 (rt_uuid sample_runtime 0) ''c'' executing_db"
  have "case ?p of Inr (Claim k, d1) \<Rightarrow> \<not> isl (mark_write_attempted sample_runtime Dev k d1) \<and> cl_project_key k = ''WRD'' | _ \<Rightarrow> False"
    by code_simp
  then obtain k d1 where p: "?p = Inr (Claim k, d1)" and k: "cl_project_key k = ''WRD''" and m: "\<not> isl (mark_write_attempted sample_runtime Dev k d1)"
    by (auto split: sum.splits prod.splits prepared.splits)
  from m obtain u d2 where m: "mark_write_attempted sample_runtime Dev k d1 = Inr (u, d2)"
    by (cases "mark_write_attempted sample_runtime Dev k d1") auto
  have "execution_configured sample_server" by code_simp
  moreover have "mp_runtime sample_server = sample_runtime" "mp_clock sample_server 1 = 5" "ic_correlation_id sample_context = ''c''"
    "cl_project_key k \<notin> set (pp_project_scopes sample_context)"
    by (simp_all add: sample_server_def sample_context_def k)
  ultimately show ?thesis
    using foreign_execution_strands [of sample_server sample_header "\<lparr>gq_project_key = ''OPS'', gq_proposal_id = rt_uuid sample_runtime 0\<rparr>"
      sample_context "sample_state executing_db" k d1 u d2] sample_authorized p m
    by (simp add: sample_state_def) blast
qed

end
