(* ===== verification/RiskEvidence.thy ===== *)
theory RiskEvidence imports Dashboard begin

text \<open>
  The evidence behind an employee's risk (agent\_api/risk\_evidence.py, dependencies.py), its comparison over
  time and the dates a question names (historical\_evidence.py), and the tool that scores an employee
  (EmployeeOverloadTool of routes/investigations.py).  Jira and the scoring server are functions on a
  world \<open>'w\<close>.
\<close>

section \<open>The dossier\<close>

record task_situation =
  ti_key :: string
  ti_summary :: string
  ti_status :: string
  ti_priority :: "string option"
  ti_due_date :: "date option"
  ti_remaining_hours :: "pyfloat option"
  ti_blocker_category :: "string option"
  ti_dependencies :: "string list"
  ti_last_activity_at :: timestamp
  ti_evidence_references :: "string list"

record dossier =
  do_employee_id :: string
  do_project_key :: string
  do_observed_at :: timestamp
  do_available_capacity_hours :: pyfloat
  do_total_remaining_hours :: "pyfloat option"
  do_tasks :: "task_situation list"
  do_overdue_task_keys :: "string list"
  do_due_soon_task_keys :: "string list"
  do_blocked_task_keys :: "string list"
  do_missing_evidence :: "string list"
  do_evidence_references :: "string list"

definition is_situation_blocker :: "custom_field_value \<Rightarrow> bool" where
  "is_situation_blocker f \<longleftrightarrow> cf_logical_name f = ''blocker_category'' \<and>
     (case cf_value f of JStr s \<Rightarrow> s \<notin> {[], ''None''} | _ \<Rightarrow> False)"

definition reference_texts :: "issue_evidence \<Rightarrow> string list" where
  "reference_texts row = map (\<lambda>r. ''jira:'' @ er_issue_key r @ '':'' @ er_field_id r) (ie_evidence_references row)"

definition situation_of :: "issue_evidence \<Rightarrow> task_situation" where
  "situation_of row = \<lparr>ti_key = ie_key row, ti_summary = ie_summary row, ti_status = ie_status row,
     ti_priority = ie_priority row, ti_due_date = ie_due_date row,
     ti_remaining_hours = hours_of (ie_remaining_estimate_seconds row),
     ti_blocker_category = Option.bind (List.find is_situation_blocker (ie_custom_fields row)) (\<lambda>f. text_of (cf_value f)),
     ti_dependencies = link_texts row, ti_last_activity_at = ie_activity_timestamp row,
     ti_evidence_references = reference_texts row\<rparr>"

definition dossier_jql :: "string \<Rightarrow> string \<Rightarrow> string" where
  "dossier_jql project_key employee_id = ''project = '' @ quoted project_key @ '' AND labels = '' @
     quoted (''workforce-employee:'' @ employee_id) @ '' AND labels != '' @ quoted ''workforce-record:employee-profile'' @
     '' AND statusCategory != Done ORDER BY duedate ASC, key ASC''"

definition relevant_rows :: "string \<Rightarrow> string \<Rightarrow> issue_evidence list \<Rightarrow> issue_evidence list res" where
  "relevant_rows project_key employee_id rows =
    (if list_ex (\<lambda>r. \<not> starts_with (project_key @ ''-'') (ie_key r)) rows
     then Inl (ValueError ''Jira evidence is outside the requested project'')
     else Inr (filter (\<lambda>r. ie_workforce_employee_id r = Some employee_id \<and> \<not> is_done (ie_status r)) rows))"

definition overdue_situation :: "date \<Rightarrow> task_situation \<Rightarrow> bool" where
  "overdue_situation today t \<longleftrightarrow> (case ti_due_date t of None \<Rightarrow> False | Some d \<Rightarrow> d < today)"

definition due_soon_situation :: "date \<Rightarrow> task_situation \<Rightarrow> bool" where
  "due_soon_situation today t \<longleftrightarrow> (case ti_due_date t of None \<Rightarrow> False | Some d \<Rightarrow> today \<le> d \<and> d \<le> today + 7)"

definition blocked_situation :: "task_situation \<Rightarrow> bool" where
  "blocked_situation t \<longleftrightarrow> given (ti_blocker_category t) \<or>
     list_ex (\<lambda>relationship. occurs_in ''block'' (casefold relationship)) (ti_dependencies t)"

text \<open>\<open>dict.fromkeys\<close>: the first of every equal entry\<close>

definition first_of_each :: "string list \<Rightarrow> string list" where
  "first_of_each xs = rev (remdups (rev xs))"

definition total_of :: "task_situation list \<Rightarrow> pyfloat option" where
  "total_of tasks = (if list_ex (\<lambda>t. ti_remaining_hours t = None) tasks then None
     else Some (fround (py_sum (map (the \<circ> ti_remaining_hours) tasks)) 2))"

definition dossier_of :: "string \<Rightarrow> string \<Rightarrow> pyfloat \<Rightarrow> date \<Rightarrow> timestamp \<Rightarrow> issue_evidence list \<Rightarrow> dossier" where
  "dossier_of employee_id project_key capacity today now relevant =
    (let tasks = map situation_of relevant in
     \<lparr>do_employee_id = employee_id, do_project_key = project_key,
      do_observed_at = (if relevant = [] then now else Max (set (map ie_evidence_timestamp relevant))),
      do_available_capacity_hours = capacity, do_total_remaining_hours = total_of tasks, do_tasks = tasks,
      do_overdue_task_keys = map ti_key (filter (overdue_situation today) tasks),
      do_due_soon_task_keys = map ti_key (filter (due_soon_situation today) tasks),
      do_blocked_task_keys = map ti_key (filter blocked_situation tasks),
      do_missing_evidence = sorted_set (map (\<lambda>t. ti_key t @ ''.remaining_estimate'') (filter (\<lambda>t. ti_remaining_hours t = None) tasks)),
      do_evidence_references = first_of_each (concat (map ti_evidence_references tasks))\<rparr>)"

definition get_current_dossier ::
  "'w task_reader \<Rightarrow> (string \<rightharpoonup> pyfloat) \<Rightarrow> ('w \<Rightarrow> date) \<Rightarrow> ('w \<Rightarrow> timestamp) \<Rightarrow> string \<Rightarrow> string \<Rightarrow> string \<Rightarrow> 'w
     \<Rightarrow> dossier res \<times> 'w" where
  "get_current_dossier jira capacities today now employee_id project_key correlation_id w =
    (case capacities employee_id of
       None \<Rightarrow> (Inl (ValueError ''employee capacity is not configured''), w)
     | Some capacity \<Rightarrow>
        (case tr_search jira (dossier_jql project_key employee_id) project_key correlation_id w of
           (Inl e, w1) \<Rightarrow> (Inl e, w1)
         | (Inr rows, w1) \<Rightarrow>
            (map_sum id (dossier_of employee_id project_key capacity (today w1) (now w1)) (relevant_rows project_key employee_id rows), w1)))"

section \<open>Comparison of two dossiers\<close>

record comparison =
  co_earlier_observed_at :: timestamp
  co_later_observed_at :: timestamp
  co_remaining_hours_change :: "pyfloat option"
  co_new_task_keys :: "string list"
  co_removed_task_keys :: "string list"
  co_new_blocker_task_keys :: "string list"
  co_resolved_blocker_task_keys :: "string list"

definition keys_without :: "string list \<Rightarrow> string list \<Rightarrow> string list" where
  "keys_without xs ys = sorted_set (filter (\<lambda>x. x \<notin> set ys) xs)"

definition compare_dossiers :: "dossier \<Rightarrow> dossier \<Rightarrow> comparison" where
  "compare_dossiers earlier later =
    (let before = map ti_key (do_tasks earlier); after = map ti_key (do_tasks later) in
     \<lparr>co_earlier_observed_at = do_observed_at earlier, co_later_observed_at = do_observed_at later,
      co_remaining_hours_change = (case (do_total_remaining_hours earlier, do_total_remaining_hours later) of
         (Some a, Some b) \<Rightarrow> Some (fsub b a) | _ \<Rightarrow> None),
      co_new_task_keys = keys_without after before, co_removed_task_keys = keys_without before after,
      co_new_blocker_task_keys = keys_without (do_blocked_task_keys later) (do_blocked_task_keys earlier),
      co_resolved_blocker_task_keys = keys_without (do_blocked_task_keys earlier) (do_blocked_task_keys later)\<rparr>)"

section \<open>The date a question names\<close>

text \<open>\<open>datetime.date\<close>: proleptic ordinals, the first of January of year 1 being 1\<close>

definition leap :: "int \<Rightarrow> bool" where
  "leap y \<longleftrightarrow> y mod 4 = 0 \<and> (y mod 100 \<noteq> 0 \<or> y mod 400 = 0)"

definition days_in_month :: "int \<Rightarrow> int \<Rightarrow> int" where
  "days_in_month y m = (if m = 2 then if leap y then 29 else 28 else if m \<in> {4, 6, 9, 11} then 30 else 31)"

definition days_before_year :: "int \<Rightarrow> int" where
  "days_before_year y = (let p = y - 1 in p * 365 + p div 4 - p div 100 + p div 400)"

definition days_before_month :: "int \<Rightarrow> int \<Rightarrow> int" where
  "days_before_month y m = sum_list (map (days_in_month y) [1..m - 1])"

definition make_date :: "int \<Rightarrow> int \<Rightarrow> int \<Rightarrow> date res" where
  "make_date y m d = (if 1 \<le> y \<and> y \<le> 9999 \<and> 1 \<le> m \<and> m \<le> 12 \<and> 1 \<le> d \<and> d \<le> days_in_month y m
     then Inr (days_before_year y + days_before_month y m + d) else Inl (ValueError ''date is out of range''))"

text \<open>\<open>date.year\<close>, by cycles of 400, 100, 4 and 1 years\<close>

definition year_of :: "date \<Rightarrow> int" where
  "year_of n = (let a = (n - 1) mod 146097; b = a mod 36524; c = b mod 1461;
       n100 = a div 36524; n1 = c div 365; y = (n - 1) div 146097 * 400 + n100 * 100 + b div 1461 * 4 + n1 + 1
     in if n1 = 4 \<or> n100 = 4 then y - 1 else y)"

definition months :: "string list" where
  "months = [''january'', ''february'', ''march'', ''april'', ''may'', ''june'', ''july'', ''august'', ''september'',
     ''october'', ''november'', ''december'']"

definition two_digits :: regex where
  "two_digits = RRepeat True 2 (Some 2) (RChar is_digit)"

definition iso_date_re :: regex where
  "iso_date_re = seq_of [RBoundary, RGroup 1 (RSeq (lit ''20'') two_digits), lit ''-'', RGroup 2 two_digits, lit ''-'',
     RGroup 3 two_digits, RBoundary]"

definition month_date_re :: regex where
  "month_date_re = seq_of [RBoundary, RGroup 1 (alt_of (map lit months)), some_of is_space,
     RGroup 2 (RRepeat True 1 (Some 2) (RChar is_digit)),
     opt (seq_of [opt (lit '',''), some_of is_space, RGroup 3 (RSeq (lit ''20'') two_digits)]), RBoundary]"

fun index_in :: "'a \<Rightarrow> 'a list \<Rightarrow> nat" where
  "index_in x [] = 0"
| "index_in x (y # ys) = (if x = y then 0 else Suc (index_in x ys))"

definition parse_historical_date :: "string \<Rightarrow> date \<Rightarrow> date option res" where
  "parse_historical_date question today =
    (case re_search iso_date_re question of
       Some m \<Rightarrow> map_sum id Some (make_date (int (digit_number (group_text 1 m))) (int (digit_number (group_text 2 m)))
          (int (digit_number (group_text 3 m))))
     | None \<Rightarrow>
        (case re_search month_date_re (casefold question) of
           None \<Rightarrow> Inr None
         | Some m \<Rightarrow> map_sum id Some (make_date
              (if given (group_of 3 m) then int (digit_number (group_text 3 m)) else year_of today)
              (int (index_in (group_text 1 m) months) + 1) (int (digit_number (group_text 2 m))))))"

section \<open>The evidence of one issue\<close>

record evidence_bundle =
  eb_input :: overload_input
  eb_evidence_dossier :: "dossier option"
  eb_degraded :: bool
  eb_missing_sources :: "string list"

record 'w issue_provider =
  ip_jira :: "'w task_reader"
  ip_employee_issue_keys :: "string \<rightharpoonup> string"
  ip_employee_capacity_hours :: "string \<rightharpoonup> pyfloat"
  ip_environment :: environment
  ip_now :: "'w \<Rightarrow> timestamp"
  ip_date_of :: "timestamp \<Rightarrow> date"

text \<open>overdue, blocked, priority, due soon, active, projects, stale\<close>

fun workload_counts :: "workload_profile option \<Rightarrow> int \<times> int \<times> int \<times> int \<times> int \<times> int \<times> int" where
  "workload_counts None = (1, 1, 1, 1, 1, 1, 0)"
| "workload_counts (Some Balanced) = (0, 0, 0, 0, 1, 1, 0)"
| "workload_counts (Some Stalled) = (0, 0, 1, 1, 4, 2, 1)"
| "workload_counts (Some HighLoad) = (2, 2, 3, 3, 8, 3, 2)"
| "workload_counts (Some CriticalLoad) = (4, 3, 4, 4, 10, 4, 3)"
| "workload_counts (Some Recovery) = (0, 0, 0, 1, 2, 1, 0)"

definition factor_names :: "string list" where
  "factor_names = [''utilization'', ''overdue_work'', ''blocked_work'', ''priority_load'', ''due_soon_load'',
     ''active_task_count'', ''concurrent_projects'', ''stale_work'']"

definition one_if :: "bool \<Rightarrow> int" where
  "one_if b = (if b then 1 else 0)"

definition input_of_issue :: "string \<Rightarrow> environment \<Rightarrow> pyfloat \<Rightarrow> date \<Rightarrow> timestamp \<Rightarrow> issue_evidence \<Rightarrow> overload_input" where
  "input_of_issue employee_id env capacity today now issue =
    (let (overdue, blocked, urgent, due, active, projects, stale) = workload_counts (ie_workload_profile issue);
         blocker = (case List.find (\<lambda>f. cf_logical_name f = ''blocker_category'') (ie_custom_fields issue) of
            None \<Rightarrow> JNull | Some f \<Rightarrow> cf_value f)
     in \<lparr>oi_employee_id = employee_id, oi_environment = env,
         oi_remaining_estimated_hours = hours_of (ie_remaining_estimate_seconds issue),
         oi_available_capacity_hours = Some capacity,
         oi_overdue_tasks = Some (max (one_if (overdue_row today issue \<and> \<not> is_done (ie_status issue))) overdue),
         oi_blocked_or_blocking_tasks = Some (max (one_if (blocker \<notin> {JNull, JStr [], JStr ''None''})) blocked),
         oi_urgent_high_priority_tasks = Some (max urgent (one_if (case ie_priority issue of None \<Rightarrow> False
            | Some p \<Rightarrow> casefold p \<in> {''high'', ''highest'', ''urgent''}))),
         oi_due_soon_tasks = Some (max (one_if (due_soon_row today issue)) due), oi_active_tasks = Some active,
         oi_concurrent_projects = Some projects,
         oi_stale_tasks = Some (max (one_if (7 \<le> days_between (ie_activity_timestamp issue) now)) stale),
         oi_evidence_timestamp = ie_evidence_timestamp issue,
         oi_evidence_references = map (\<lambda>n. (n, reference_texts issue)) factor_names\<rparr>)"

definition provider_dossier :: "'w issue_provider \<Rightarrow> string \<Rightarrow> string \<Rightarrow> string \<Rightarrow> 'w \<Rightarrow> dossier res \<times> 'w" where
  "provider_dossier p = get_current_dossier (ip_jira p) (ip_employee_capacity_hours p) (\<lambda>w. ip_date_of p (ip_now p w)) (ip_now p)"

text \<open>\<open>JiraEvidenceTimeout\<close> is a TimeoutError.\<close>

definition get_employee_overload ::
  "'w issue_provider \<Rightarrow> string \<Rightarrow> string \<Rightarrow> string \<Rightarrow> 'w \<Rightarrow> evidence_bundle res \<times> 'w" where
  "get_employee_overload p employee_id project_key correlation_id w =
    (case (ip_employee_issue_keys p employee_id, ip_employee_capacity_hours p employee_id) of
       (Some issue_key, Some capacity) \<Rightarrow>
         (if \<not> starts_with (project_key @ ''-'') issue_key
          then (Inl (ValueError ''employee issue is outside the requested project''), w)
          else case tr_get (ip_jira p) issue_key correlation_id w of
            (Inl e, w1) \<Rightarrow> (Inl e, w1)
          | (Inr issue, w1) \<Rightarrow>
             (let now = ip_now p w1 in
              case provider_dossier p employee_id project_key correlation_id w1 of
                (Inl e, w2) \<Rightarrow> (Inl e, w2)
              | (Inr d, w2) \<Rightarrow>
                 (bindr (make_overload_input (input_of_issue employee_id (ip_environment p) capacity (ip_date_of p now) now issue))
                    (\<lambda>i. Inr \<lparr>eb_input = i, eb_evidence_dossier = Some d, eb_degraded = False, eb_missing_sources = []\<rparr>), w2)))
     | _ \<Rightarrow> (Inl (ValueError ''employee Jira mapping is not configured''), w))"

section \<open>The providers of the evidence\<close>

text \<open>
  The fixture file is read by the argument \<open>fixture\<close>: the overloaded employee's for EMP-002, the balanced team's
  for the others.
\<close>

definition fixture_overload :: "(string \<Rightarrow> overload_input res) \<Rightarrow> ('w \<Rightarrow> timestamp) \<Rightarrow> string \<Rightarrow> 'w \<Rightarrow> evidence_bundle res" where
  "fixture_overload fixture now employee_id w =
    bindr (fixture (if employee_id = ''EMP-002'' then ''overloaded_employee.json'' else ''balanced_team.json'')) (\<lambda>i.
    Inr \<lparr>eb_input = i\<lparr>oi_employee_id := employee_id, oi_evidence_timestamp := now w\<rparr>, eb_evidence_dossier = None,
         eb_degraded = False, eb_missing_sources = []\<rparr>)"

datatype evidence_mode = FixtureMode | JiraMode

definition jira_settings :: "string list" where
  "jira_settings = [''JIRA_MCP_AUTHORIZATION'', ''JIRA_CLOUD_ID'', ''JIRA_EMPLOYEE_ISSUE_MAP'', ''WORKFORCE_CAPACITY_MAP'']"

text \<open>Which provider \<open>get_evidence_provider\<close> builds, and for which environment\<close>

definition evidence_provider_mode :: "environ \<Rightarrow> (evidence_mode \<times> environment) res" where
  "evidence_provider_mode vars =
    (let mode = getenv vars ''EVIDENCE_MODE'' ''jira'' in
     case environment_of (getenv vars ''APP_ENVIRONMENT'' ''dev'') of
       None \<Rightarrow> Inl runtime_error
     | Some env \<Rightarrow>
        (if mode = ''fixture'' then (if env = Prod then Inl runtime_error else Inr (FixtureMode, env))
         else if mode \<noteq> ''jira'' \<or> \<not> list_all (set_and_filled vars) jira_settings then Inl runtime_error
         else bindr (configured_projects vars) (\<lambda>_. Inr (JiraMode, env))))"

section \<open>Scoring an employee\<close>

record 'w scoring_client =
  sc_environment :: environment
  sc_timeout :: timedelta
  sc_call :: "string \<Rightarrow> json \<Rightarrow> 'w \<Rightarrow> (bool \<times> string list) res \<times> 'w"
  sc_now :: "'w \<Rightarrow> timestamp"
  sc_loads :: "string \<Rightarrow> json option"
  sc_result :: "json \<Rightarrow> risk_result res"

definition references_json :: "references \<Rightarrow> json" where
  "references_json refs = JObj (map (\<lambda>(k, rs). (k, json_strings rs)) refs)"

text \<open>\<open>EmployeeOverloadInput.model_dump(mode="json")\<close>\<close>

definition overload_json :: "runtime \<Rightarrow> overload_input \<Rightarrow> (string \<times> json) list" where
  "overload_json rt i =
    [(''employee_id'', JStr (oi_employee_id i)), (''environment'', JStr (environment_value (oi_environment i))),
     (''remaining_estimated_hours'', json_opt JFloat (oi_remaining_estimated_hours i)),
     (''available_capacity_hours'', json_opt JFloat (oi_available_capacity_hours i)),
     (''overdue_tasks'', json_opt JInt (oi_overdue_tasks i)),
     (''blocked_or_blocking_tasks'', json_opt JInt (oi_blocked_or_blocking_tasks i)),
     (''urgent_high_priority_tasks'', json_opt JInt (oi_urgent_high_priority_tasks i)),
     (''due_soon_tasks'', json_opt JInt (oi_due_soon_tasks i)), (''active_tasks'', json_opt JInt (oi_active_tasks i)),
     (''concurrent_projects'', json_opt JInt (oi_concurrent_projects i)), (''stale_tasks'', json_opt JInt (oi_stale_tasks i)),
     (''evidence_timestamp'', JStr (rt_isoformat rt (oi_evidence_timestamp i))),
     (''evidence_references'', references_json (oi_evidence_references i))]"

definition scoring_arguments :: "runtime \<Rightarrow> 'w scoring_client \<Rightarrow> overload_input \<Rightarrow> string \<Rightarrow> timestamp \<Rightarrow> json" where
  "scoring_arguments rt s i correlation_id scored_at = JObj [(''request'', JObj
    [(''schema_version'', JStr ''1.0''), (''environment'', JStr (environment_value (sc_environment s))),
     (''correlation_id'', JStr correlation_id), (''deadline_at'', JStr (rt_isoformat rt (scored_at + sc_timeout s))),
     (''scored_at'', JStr (rt_isoformat rt scored_at)), (''input'', JObj (overload_json rt i))])]"

text \<open>
  The reply: \<open>WorkforceMcpInvalidResponse\<close> is a ValueError, and the one raised for a mismatch is caught and
  raised again with the message of the others.
\<close>

definition invalid_response :: "'a res" where
  "invalid_response = Inl (ValueError ''Workforce MCP response is invalid'')"

definition envelope_result :: "environment \<Rightarrow> string \<Rightarrow> json \<Rightarrow> json option" where
  "envelope_result env correlation_id envelope =
    (case object_of envelope of None \<Rightarrow> None | Some kvs \<Rightarrow>
       if map_of kvs ''schema_version'' = Some (JStr ''1.0'') \<and> map_of kvs ''environment'' = Some (JStr (environment_value env))
          \<and> map_of kvs ''correlation_id'' = Some (JStr correlation_id) \<and> map_of kvs ''status'' = Some (JStr ''success'')
       then map_of kvs ''result'' else None)"

definition reply_result :: "'w scoring_client \<Rightarrow> string \<Rightarrow> bool \<times> string list \<Rightarrow> risk_result res" where
  "reply_result s correlation_id reply =
    (case reply of (is_error, texts) \<Rightarrow>
       if is_error then Inl (ValueError ''Workforce MCP tool failed'')
       else (case texts of [t] \<Rightarrow>
            (case Option.bind (sc_loads s t) (envelope_result (sc_environment s) correlation_id) of
               None \<Rightarrow> invalid_response
             | Some raw \<Rightarrow> (case sc_result s raw of Inl e \<Rightarrow> invalid_response | Inr r \<Rightarrow> Inr r))
          | _ \<Rightarrow> Inl (ValueError ''Workforce MCP response is ambiguous'')))"

definition client_score :: "runtime \<Rightarrow> 'w scoring_client \<Rightarrow> overload_input \<Rightarrow> string \<Rightarrow> 'w \<Rightarrow> risk_result res \<times> 'w" where
  "client_score rt s i correlation_id w =
    (case sc_call s ''score_employee_overload'' (scoring_arguments rt s i correlation_id (sc_now s w)) w of
       (Inl e, w1) \<Rightarrow> (Inl e, w1)
     | (Inr reply, w1) \<Rightarrow> (reply_result s correlation_id reply, w1))"

text \<open>\<open>EmployeeOverloadTool\<close>, over any provider and scorer\<close>

definition overload_tool ::
  "(string \<Rightarrow> string \<Rightarrow> string \<Rightarrow> 'w \<Rightarrow> evidence_bundle res \<times> 'w) \<Rightarrow> (overload_input \<Rightarrow> string \<Rightarrow> 'w \<Rightarrow> risk_result res \<times> 'w)
     \<Rightarrow> intent \<Rightarrow> entity_references \<Rightarrow> string \<Rightarrow> 'w \<Rightarrow> risk_result res \<times> 'w" where
  "overload_tool evidence score i references correlation_id w =
    (if i \<noteq> ExplainEmployeeOverload then (Inl (ValueError ''the requested deterministic domain tool is unavailable''), w)
     else case er_employee_id references of
       None \<Rightarrow> (Inl (ValueError ''employee_id is required for overload investigation''), w)
     | Some employee_id \<Rightarrow>
        (case evidence employee_id (er_project_key references) correlation_id w of
           (Inl e, w1) \<Rightarrow> (Inl e, w1)
         | (Inr bundle, w1) \<Rightarrow> score (eb_input bundle) correlation_id w1))"

section \<open>Properties\<close>

lemma dossier_query_bound:
  assumes "matches_key key_char 1 19 key" "casefold key \<noteq> ''or''" "plain_reference e"
  shows "query_bound_to key (dossier_jql key e)"
proof -
  let ?tail = "'' AND labels = '' @ quote # (''workforce-employee:'' @ e) @ quote # '' AND labels != '' @ quote #
     ''workforce-record:employee-profile'' @ quote # '' AND statusCategory != Done ORDER BY duedate ASC, key ASC''"
  have un: "unquoted (''workforce-employee:'' @ e)" "unquoted ''workforce-record:employee-profile''"
    using assms(3) unquoted_reference unfolding plain_reference_def by (blast, simp add: unquoted_def is_space_def)
  have nop: "list_all (\<lambda>c. ascii_lower c \<noteq> CHR ''p'') '' AND labels = ''" "list_all (\<lambda>c. ascii_lower c \<noteq> CHR ''p'') '' AND labels != ''"
    "list_all (\<lambda>c. ascii_lower c \<noteq> CHR ''p'') '' AND statusCategory != Done ORDER BY duedate ASC, key ASC''"
    by code_simp+
  have "project_scopes False ?tail = []"
    by (simp only: project_scopes_skip [OF nop(1)] project_scopes_skip [OF nop(2)] project_scopes_skip_all [OF nop(3)]
        project_scopes_quoted [OF un(1)] project_scopes_quoted [OF un(2)])
  moreover have "\<not> mentions_or False ?tail"
  proof -
    have "\<not> mentions_or False '' AND labels = ''" "\<not> mentions_or False '' AND labels != ''"
      "\<not> mentions_or False '' AND statusCategory != Done ORDER BY duedate ASC, key ASC''"
      "\<not> mentions_or False ''workforce-record:employee-profile''"
      by code_simp+
    moreover have "\<not> mentions_or False (''workforce-employee:'' @ e)" using assms(3) by (simp add: plain_reference_def)
    ultimately show ?thesis by (simp only: mentions_or_quoted simp_thms)
  qed
  ultimately have "query_bound_to key (''project = '' @ quoted key @ ?tail)" by (rule query_bound_split [OF assms(1,2)])
  then show ?thesis by (simp add: dossier_jql_def quoted_def)
qed

lemma set_first_of_each [simp]: "set (first_of_each xs) = set xs" "distinct (first_of_each xs)"
  by (simp_all add: first_of_each_def)

lemma situation_simps [simp]:
  "ti_key (situation_of r) = ie_key r" "overdue_situation today (situation_of r) = overdue_row today r"
  "due_soon_situation today (situation_of r) = due_soon_row today r"
  "ti_evidence_references (situation_of r) = reference_texts r"
  "ti_remaining_hours (situation_of r) = hours_of (ie_remaining_estimate_seconds r)"
  by (simp_all add: situation_of_def overdue_situation_def due_soon_situation_def overdue_row_def due_soon_row_def)

lemma get_current_dossier_Inr:
  assumes "get_current_dossier jira capacities today now e p c w = (Inr d, w')"
  obtains capacity rows where "capacities e = Some capacity" "tr_search jira (dossier_jql p e) p c w = (Inr rows, w')"
    "\<forall>r \<in> set rows. starts_with (p @ ''-'') (ie_key r)"
    "d = dossier_of e p capacity (today w') (now w') (filter (\<lambda>r. ie_workforce_employee_id r = Some e \<and> \<not> is_done (ie_status r)) rows)"
  using assms
  by (auto simp: get_current_dossier_def relevant_rows_def list_ex_iff split: option.splits prod.splits sum.splits if_splits)

lemma occurs_in_append:
  "occurs_in w s \<Longrightarrow> occurs_in w (s @ t)"
proof (induction s)
  case Nil
  then show ?case by (cases t) auto
next
  case (Cons x s)
  show ?case
  proof (cases "take (length w) (x # s) = w")
    case True
    then have "length w \<le> length (x # s)" by (metis length_take min.cobounded1)
    then have "take (length w) ((x # s) @ t) = w" using True by (simp only: take_append) simp
    then show ?thesis by simp
  next
    case False
    with Cons show ?thesis by simp
  qed
qed

lemma occurs_in_prepend: "occurs_in w t \<Longrightarrow> occurs_in w (s @ t)"
  by (induction s) auto

lemma strip_inside: "\<exists>a b. s = a @ strip s @ b"
proof -
  have "rev (dropWhile is_space s) = takeWhile is_space (rev (dropWhile is_space s)) @ rev (strip s)"
    by (simp add: strip_def)
  then have "dropWhile is_space s = strip s @ rev (takeWhile is_space (rev (dropWhile is_space s)))"
    by (metis rev_append rev_rev_ident)
  then show ?thesis by (metis takeWhile_dropWhile_id)
qed

lemma blocking_link_text:
  assumes "blocking_link l"
  shows "occurs_in ''block'' (casefold (il_relationship l @ '': '' @ il_issue_key l))"
proof -
  obtain a b where "casefold (il_relationship l) = a @ ''is blocked by'' @ b"
    using assms strip_inside [of "casefold (il_relationship l)"] by (auto simp: blocking_link_def)
  moreover have "occurs_in ''block'' ''is blocked by''" by code_simp
  ultimately have "occurs_in ''block'' (casefold (il_relationship l))"
    by (simp only: occurs_in_prepend occurs_in_append)
  then show ?thesis unfolding casefold_def map_append by (rule occurs_in_append)
qed

definition plain_blockers :: "issue_evidence \<Rightarrow> bool" where
  "plain_blockers r \<longleftrightarrow> (\<forall>f \<in> set (ie_custom_fields r). cf_logical_name f = ''blocker_category'' \<and> truthy (cf_value f) \<longrightarrow> is_situation_blocker f)"

lemma blocked_in_dashboard:
  assumes "Dashboard.is_blocked r" "plain_blockers r"
  shows "blocked_situation (situation_of r)"
proof (cases "list_ex blocking_link (ie_links r)")
  case True
  then obtain l where l: "l \<in> set (ie_links r)" "blocking_link l" by (auto simp: list_ex_iff)
  then have "\<exists>t \<in> set (link_texts r). occurs_in ''block'' (casefold t)"
    using blocking_link_text [OF l(2)] by (auto simp: link_texts_def)
  then show ?thesis by (simp add: blocked_situation_def situation_of_def list_ex_iff)
next
  case False
  then have "blocker_of (\<lambda>_. []) r \<noteq> None" using assms(1) by (simp add: Dashboard.is_blocked_def)
  then obtain f where "f \<in> set (ie_custom_fields r)" "cf_logical_name f = ''blocker_category''" "truthy (cf_value f)"
    by (auto simp: blocker_of_def find_Some_iff in_set_conv_nth)
  then have ex: "\<exists>f \<in> set (ie_custom_fields r). is_situation_blocker f" using assms(2) by (auto simp: plain_blockers_def)
  then obtain g where g: "List.find is_situation_blocker (ie_custom_fields r) = Some g"
    by (metis find_None_iff not_None_eq)
  then have "is_situation_blocker g" by (auto simp: find_Some_iff)
  with g show ?thesis
    by (auto simp: blocked_situation_def situation_of_def is_situation_blocker_def given_def split: json.splits)
qed

lemma count_filter: "count p rows = int (length (filter p rows))"
  by (simp add: count_def)

lemma find_sub: "length (filter p xs) \<le> length (filter q xs)" if "\<And>x. x \<in> set xs \<Longrightarrow> p x \<Longrightarrow> q x"
  using that by (induction xs) auto

text \<open>
  C35: The dossier of an employee describes the unfinished tasks of that employee in the requested project, and
  nothing else: they are the rows of one search in the project with the employee's label, and no row of another
  project is ever used.  It agrees with the dashboard of the same rows: as many tasks are overdue and due soon,
  and every task the dashboard counts as blocked is named as blocked, unless its blocker is no text or the text
  None.  The hours that remain are known exactly when no estimate is missing, and every reference is one of the
  rows.  The query is bound to the project, so that the Jira client accepts it.
\<close>

theorem dossier_of_employee:
  assumes "get_current_dossier jira capacities today now e p c w = (Inr d, w')"
  shows "\<exists>rows mine. tr_search jira (dossier_jql p e) p c w = (Inr rows, w') \<and>
     mine = filter (\<lambda>r. ie_workforce_employee_id r = Some e \<and> \<not> is_done (ie_status r)) rows \<and>
     map ti_key (do_tasks d) = map ie_key mine \<and> (\<forall>r \<in> set rows. starts_with (p @ ''-'') (ie_key r)) \<and>
     int (length (do_overdue_task_keys d)) = count (overdue_row (today w')) mine \<and>
     int (length (do_due_soon_task_keys d)) = count (due_soon_row (today w')) mine \<and>
     (\<forall>r \<in> set mine. Dashboard.is_blocked r \<and> plain_blockers r \<longrightarrow> ie_key r \<in> set (do_blocked_task_keys d)) \<and>
     set (do_blocked_task_keys d) \<subseteq> set (map ie_key mine) \<and>
     (do_total_remaining_hours d = None \<longleftrightarrow> do_missing_evidence d \<noteq> []) \<and>
     set (do_evidence_references d) = (\<Union>r \<in> set mine. set (reference_texts r)) \<and> distinct (do_evidence_references d) \<and>
     (matches_key key_char 1 19 p \<and> casefold p \<noteq> ''or'' \<and> plain_reference e \<longrightarrow> query_bound_to p (dossier_jql p e))"
proof -
  obtain capacity rows where run: "tr_search jira (dossier_jql p e) p c w = (Inr rows, w')"
    and own: "\<forall>r \<in> set rows. starts_with (p @ ''-'') (ie_key r)"
    and d: "d = dossier_of e p capacity (today w') (now w') (filter (\<lambda>r. ie_workforce_employee_id r = Some e \<and> \<not> is_done (ie_status r)) rows)"
    using assms by (rule get_current_dossier_Inr)
  let ?mine = "filter (\<lambda>r. ie_workforce_employee_id r = Some e \<and> \<not> is_done (ie_status r)) rows"
  have parts: "map ti_key (do_tasks d) = map ie_key ?mine"
    "do_overdue_task_keys d = map ie_key (filter (overdue_row (today w')) ?mine)"
    "do_due_soon_task_keys d = map ie_key (filter (due_soon_row (today w')) ?mine)"
    "do_blocked_task_keys d = map ie_key (filter (blocked_situation \<circ> situation_of) ?mine)"
    "do_evidence_references d = first_of_each (concat (map reference_texts ?mine))"
    unfolding d dossier_of_def Let_def by (simp_all only: dossier.simps filter_map map_map) (simp_all add: comp_def)
  have total: "do_total_remaining_hours d = None \<longleftrightarrow> do_missing_evidence d \<noteq> []"
    unfolding d dossier_of_def Let_def by (simp add: total_of_def list_ex_iff filter_empty_conv)
  have "query_bound_to p (dossier_jql p e)" if "matches_key key_char 1 19 p \<and> casefold p \<noteq> ''or'' \<and> plain_reference e"
    using that dossier_query_bound by blast
  with run own total parts blocked_in_dashboard show ?thesis
    by (intro exI [of _ rows] exI [of _ ?mine]) (auto simp: count_def)
qed

text \<open>
  Comparing two dossiers: the new and the removed tasks turn the earlier list into the later one, and
  likewise the new and resolved blockers; nothing is both; and comparing in the other order exchanges the two
  and negates the change of the remaining hours.
\<close>

theorem comparison_exact:
  "(let c = compare_dossiers a b; r = compare_dossiers b a in
     set (map ti_key (do_tasks b)) = set (map ti_key (do_tasks a)) - set (co_removed_task_keys c) \<union> set (co_new_task_keys c) \<and>
     set (do_blocked_task_keys b) = set (do_blocked_task_keys a) - set (co_resolved_blocker_task_keys c) \<union> set (co_new_blocker_task_keys c) \<and>
     set (co_new_task_keys c) \<inter> set (co_removed_task_keys c) = {} \<and>
     co_new_task_keys r = co_removed_task_keys c \<and> co_removed_task_keys r = co_new_task_keys c \<and>
     co_new_blocker_task_keys r = co_resolved_blocker_task_keys c \<and>
     co_remaining_hours_change r = map_option uminus (co_remaining_hours_change c))"
proof -
  have "co_remaining_hours_change (compare_dossiers b a) = map_option uminus (co_remaining_hours_change (compare_dossiers a b))"
    by (cases "do_total_remaining_hours a"; cases "do_total_remaining_hours b")
      (simp_all add: compare_dossiers_def Let_def fsub_def flip: fl_minus)
  then show ?thesis
    by (auto simp: compare_dossiers_def keys_without_def Let_def)
qed


section \<open>Runs and witnesses\<close>

text \<open>
  An issue without a workload label is scored as if it had one overdue, one blocked, one urgent and one due task,
  whatever it says: here it has no due date, no blocker, no link and a low priority.
\<close>

definition quiet_issue :: issue_evidence where
  "quiet_issue = (sample_row ''WRD-1'' ''To Do'' None)\<lparr>ie_due_date := None, ie_priority := Some ''Low'', ie_workforce_employee_id := Some ''EMP-001''\<rparr>"

lemma unlabelled_issue_counts:
  "let i = input_of_issue ''EMP-001'' Dev 40 4 9 quiet_issue in
     oi_overdue_tasks i = Some 1 \<and> oi_blocked_or_blocking_tasks i = Some 1 \<and> oi_urgent_high_priority_tasks i = Some 1 \<and>
     oi_due_soon_tasks i = Some 1"
  by code_simp

text \<open>The text of a link names the task it leads to: a task that only relates to a task of a project BLOCKS counts as blocked.\<close>

lemma related_task_counts_as_blocked:
  "blocked_situation (situation_of (quiet_issue\<lparr>ie_links := [\<lparr>il_relationship = ''relates to'', il_issue_key = ''BLOCKS-1''\<rparr>]\<rparr>))"
  by code_simp

definition sample_reader :: "unit task_reader" where
  "sample_reader = \<lparr>tr_get = (\<lambda>k c w. (Inr quiet_issue, w)), tr_search = (\<lambda>jql p c w. (Inr [quiet_issue], w))\<rparr>"

theorem dossier_of_employee_witness:
  "\<exists>d rows. get_current_dossier sample_reader [''EMP-001'' \<mapsto> 40] (\<lambda>w. 4) (\<lambda>w. 9) ''EMP-001'' ''WRD'' ''c'' () = (Inr d, ()) \<and>
     map ti_key (do_tasks d) = [''WRD-1''] \<and> tr_search sample_reader (dossier_jql ''WRD'' ''EMP-001'') ''WRD'' ''c'' () = (Inr rows, ()) \<and>
     query_bound_to ''WRD'' (dossier_jql ''WRD'' ''EMP-001'')"
proof -
  obtain d where run: "get_current_dossier sample_reader [''EMP-001'' \<mapsto> 40] (\<lambda>w. 4) (\<lambda>w. 9) ''EMP-001'' ''WRD'' ''c'' () = (Inr d, ())"
    and key: "map ti_key (do_tasks d) = [''WRD-1'']"
  proof -
    have "case get_current_dossier sample_reader [''EMP-001'' \<mapsto> 40] (\<lambda>w. 4) (\<lambda>w. 9) ''EMP-001'' ''WRD'' ''c'' () of
       (Inr d, _) \<Rightarrow> map ti_key (do_tasks d) = [''WRD-1''] | _ \<Rightarrow> False" by code_simp
    then show ?thesis using that by (auto split: prod.splits sum.splits)
  qed
  have "matches_key key_char 1 19 ''WRD'' \<and> casefold ''WRD'' \<noteq> ''or'' \<and> plain_reference ''EMP-001''" by code_simp
  moreover obtain rows where "tr_search sample_reader (dossier_jql ''WRD'' ''EMP-001'') ''WRD'' ''c'' () = (Inr rows, ())"
    "matches_key key_char 1 19 ''WRD'' \<and> casefold ''WRD'' \<noteq> ''or'' \<and> plain_reference ''EMP-001'' \<longrightarrow>
       query_bound_to ''WRD'' (dossier_jql ''WRD'' ''EMP-001'')"
    using dossier_of_employee [OF run] by (elim exE conjE)
  ultimately show ?thesis using run key by (intro exI [of _ d] exI [of _ rows]) (simp only: simp_thms)
qed

end
