(* ===== verification/ScanPipeline.thy ===== *)
theory ScanPipeline imports RiskEvidence Alerts Scans Stores begin

text \<open>
  The pipeline behind a scan (agent\_api/scans/pipeline.py, scheduled\_scan.py, the scan service of
  routes/scans.py): evidence, score and storage of every configured employee; and the reader of what was stored
  (historical\_evidence.py).  Each employee's results are one transaction.
\<close>

section \<open>Storing a result\<close>

definition situation_json :: "runtime \<Rightarrow> task_situation \<Rightarrow> json" where
  "situation_json rt t = JObj
    [(''key'', JStr (ti_key t)), (''summary'', JStr (ti_summary t)), (''status'', JStr (ti_status t)),
     (''priority'', json_opt JStr (ti_priority t)), (''due_date'', json_opt (JStr \<circ> rt_date rt) (ti_due_date t)),
     (''remaining_hours'', json_opt JFloat (ti_remaining_hours t)),
     (''blocker_category'', json_opt JStr (ti_blocker_category t)), (''dependencies'', json_strings (ti_dependencies t)),
     (''last_activity_at'', JStr (rt_isoformat rt (ti_last_activity_at t))),
     (''evidence_references'', json_strings (ti_evidence_references t))]"

definition dossier_json :: "runtime \<Rightarrow> dossier \<Rightarrow> (string \<times> json) list" where
  "dossier_json rt d =
    [(''employee_id'', JStr (do_employee_id d)), (''project_key'', JStr (do_project_key d)),
     (''observed_at'', JStr (rt_isoformat rt (do_observed_at d))),
     (''available_capacity_hours'', JFloat (do_available_capacity_hours d)),
     (''total_remaining_hours'', json_opt JFloat (do_total_remaining_hours d)),
     (''tasks'', JList (map (situation_json rt) (do_tasks d))),
     (''overdue_task_keys'', json_strings (do_overdue_task_keys d)),
     (''due_soon_task_keys'', json_strings (do_due_soon_task_keys d)),
     (''blocked_task_keys'', json_strings (do_blocked_task_keys d)),
     (''missing_evidence'', json_strings (do_missing_evidence d)),
     (''evidence_references'', json_strings (do_evidence_references d))]"

definition without_field :: "string \<Rightarrow> (string \<times> json) list \<Rightarrow> json" where
  "without_field name fs = JObj (filter (\<lambda>(k, _). k \<noteq> name) fs)"

text \<open>\<open>dump\<close> is the text of \<open>model_dump_json\<close>.\<close>

definition scan_fingerprint :: "runtime \<Rightarrow> (json \<Rightarrow> string) \<Rightarrow> overload_input \<Rightarrow> dossier option \<Rightarrow> string" where
  "scan_fingerprint rt dump i d = rt_sha256 rt (dump (without_field ''evidence_timestamp'' (overload_json rt i)) @
     (case d of None \<Rightarrow> [] | Some x \<Rightarrow> dump (without_field ''observed_at'' (dossier_json rt x))))"

definition scan_snapshot :: "runtime \<Rightarrow> uuid \<Rightarrow> environment \<Rightarrow> timestamp \<Rightarrow> string \<Rightarrow> string \<Rightarrow> overload_input \<Rightarrow> dossier option \<Rightarrow> snapshot_row" where
  "scan_snapshot rt sid env now subject fp i d =
    \<lparr>sp_id = sid, sp_environment = env, sp_created_at = now, sp_subject_type = ''employee'', sp_subject_id = subject,
     sp_fingerprint = fp, sp_evidence = JObj [(''score_input'', JObj (overload_json rt i)),
       (''risk_evidence_dossier'', json_opt (\<lambda>x. JObj (dossier_json rt x)) d)],
     sp_observed_at = oi_evidence_timestamp i\<rparr>"

definition record_snapshot :: "runtime \<Rightarrow> environment \<Rightarrow> timestamp \<Rightarrow> string \<Rightarrow> string \<Rightarrow> overload_input \<Rightarrow> dossier option \<Rightarrow> db \<Rightarrow> uuid tx" where
  "record_snapshot rt env now subject fp i x d =
    (case find_snapshot (env, ''employee'', subject, fp) d of
       Some s \<Rightarrow> Inr (sp_id s, d)
     | None \<Rightarrow>
        (let (sid, d1) = new_id d in
         bindr (insert_row ''uq_evidence_snapshot_identity''
             (\<lambda>s. (sp_environment s, sp_subject_type s, sp_subject_id s, sp_fingerprint s))
             (scan_snapshot rt sid env now subject fp i x) (db_snapshots d1)) (\<lambda>rows.
         Inr (sid, d1\<lparr>db_snapshots := rows\<rparr>))))"

definition record_result :: "environment \<Rightarrow> timestamp \<Rightarrow> uuid \<Rightarrow> risk_result \<Rightarrow> db \<Rightarrow> uuid \<times> db" where
  "record_result env now snapshot_id r d =
    (let (rid, d1) = new_id d in
     (rid, d1\<lparr>db_risk_results := db_risk_results d1 @
        [new_risk_result env now snapshot_id rid \<lparr>sn2_score_family = ''employee_overload'', sn2_result = r\<rparr>]\<rparr>))"

text \<open>The alert of a result: low risk resolves the active alerts, every other level is recorded.\<close>

definition record_alert ::
  "runtime \<Rightarrow> environment \<Rightarrow> timestamp \<Rightarrow> date \<Rightarrow> string \<Rightarrow> string \<Rightarrow> risk_result \<Rightarrow> uuid \<Rightarrow> db \<Rightarrow> uuid option tx" where
  "record_alert rt env now day fp corr r rid d =
    (case rr_level r of
       None \<Rightarrow> Inr (None, d)
     | Some level \<Rightarrow>
        (let d1 = (if level = RiskLow then snd (resolve_active_risk env (rr_subject_id r) ''overload'' d) else d) in
         bindr (record_risk rt env (rr_subject_id r) ''overload'' (rt_date rt day) rid level fp corr now (hours 4) False d1)
           (\<lambda>(a, d2). Inr (map_option ar_alert_id a, d2))))"

definition sink_persist ::
  "runtime \<Rightarrow> (json \<Rightarrow> string) \<Rightarrow> (timestamp \<Rightarrow> date) \<Rightarrow> environment \<Rightarrow> overload_input \<Rightarrow> risk_result \<Rightarrow> dossier option \<Rightarrow> string
     \<Rightarrow> timestamp \<Rightarrow> db \<Rightarrow> (string \<times> string option) tx" where
  "sink_persist rt dump date_of env i r x corr now d =
    (if oi_environment i \<noteq> env \<or> rr_environment r \<noteq> env then Inl (ValueError ''scan result environment mismatch'')
     else let fp = scan_fingerprint rt dump i x in
       bindr (record_snapshot rt env now (rr_subject_id r) fp i x d) (\<lambda>(sid, d1).
       let (rid, d2) = record_result env now sid r d1 in
       bindr (record_alert rt env now (date_of (oi_evidence_timestamp i)) fp corr r rid d2) (\<lambda>(alert, d3).
       Inr ((rt_uuid rt rid, map_option (rt_uuid rt) alert), d3))))"

section \<open>The pipeline\<close>

record 'w scan_parts =
  sq_evidence :: "string \<Rightarrow> string \<Rightarrow> string \<Rightarrow> 'w \<Rightarrow> evidence_bundle res \<times> 'w"
  sq_score :: "overload_input \<Rightarrow> string \<Rightarrow> 'w \<Rightarrow> risk_result res \<times> 'w"
  sq_sink :: "overload_input \<Rightarrow> risk_result \<Rightarrow> dossier option \<Rightarrow> string \<Rightarrow> 'w \<Rightarrow> db \<Rightarrow> (string \<times> string option) tx"

definition scan_employee ::
  "'w scan_parts \<Rightarrow> string \<Rightarrow> string \<Rightarrow> string \<Rightarrow> db \<times> 'w \<Rightarrow> (bool \<times> string \<times> string option) res \<times> (db \<times> 'w)" where
  "scan_employee p scope corr employee_id st = (case st of (d, w) \<Rightarrow>
    (case sq_evidence p employee_id scope corr w of
       (Inl e, w1) \<Rightarrow> (Inl e, (d, w1))
     | (Inr bundle, w1) \<Rightarrow>
        (case sq_score p (eb_input bundle) (corr @ '':'' @ employee_id) w1 of
           (Inl e, w2) \<Rightarrow> (Inl e, (d, w2))
         | (Inr r, w2) \<Rightarrow>
            (case sq_sink p (eb_input bundle) r (eb_evidence_dossier bundle) corr w2 d of
               Inl e \<Rightarrow> (Inl e, (d, w2))
             | Inr ((risk_id, alert_id), d1) \<Rightarrow> (Inr (eb_degraded bundle, risk_id, alert_id), (d1, w2))))))"

fun scan_employees ::
  "'w scan_parts \<Rightarrow> string \<Rightarrow> string \<Rightarrow> string list \<Rightarrow> db \<times> 'w \<Rightarrow> (bool \<times> string \<times> string option) list res \<times> (db \<times> 'w)" where
  "scan_employees p scope corr [] st = (Inr [], st)"
| "scan_employees p scope corr (employee_id # es) st =
     (case scan_employee p scope corr employee_id st of
        (Inl e, st1) \<Rightarrow> (Inl e, st1)
      | (Inr x, st1) \<Rightarrow>
         (case scan_employees p scope corr es st1 of
            (Inl e, st2) \<Rightarrow> (Inl e, st2)
          | (Inr xs, st2) \<Rightarrow> (Inr (x # xs), st2)))"

text \<open>\<open>EmployeeOverloadScanPipeline\<close>; an empty list of employees is refused by its constructor.\<close>

definition scan_pipeline :: "'w scan_parts \<Rightarrow> string list \<Rightarrow> 'w pipeline res" where
  "scan_pipeline p employee_ids =
    (if employee_ids = [] then Inl (ValueError ''at least one scan employee must be configured'')
     else Inr (\<lambda>scope corr st. case scan_employees p scope corr employee_ids st of
       (Inl e, st1) \<Rightarrow> (Inl e, st1)
     | (Inr xs, st1) \<Rightarrow> (Inr \<lparr>pl_degraded = list_ex fst xs, pl_risk_result_ids = map (fst \<circ> snd) xs,
         pl_alert_ids = List.map_filter (snd \<circ> snd) xs, pl_report_id = None\<rparr>, st1)))"

text \<open>\<open>get_scan_service\<close>: the employees of the settings\<close>

definition scan_employee_ids :: "environ \<Rightarrow> string list" where
  "scan_employee_ids vars = filter (\<lambda>v. v \<noteq> []) (map strip (split_at (CHR '','') (getenv vars ''SCAN_EMPLOYEE_IDS'' ''EMP-002'')))"

text \<open>\<open>scheduled_scan.run\<close>: one scan of the configured project for the day\<close>

definition scheduled_scan ::
  "runtime \<Rightarrow> environ \<Rightarrow> environment \<Rightarrow> (nat \<Rightarrow> timestamp) \<Rightarrow> (timestamp \<Rightarrow> date) \<Rightarrow> string \<Rightarrow> 'w pipeline \<Rightarrow> db \<Rightarrow> 'w
     \<Rightarrow> scan_state option res \<times> db \<times> 'w" where
  "scheduled_scan rt vars env clock date_of nonce pipeline d w =
    (case vars ''JIRA_PROJECT_KEY'' of
       None \<Rightarrow> (Inl (KeyError ''JIRA_PROJECT_KEY''), d, w)
     | Some scope \<Rightarrow>
        (let window = rt_date rt (date_of (clock 0));
             corr = ''scheduled-'' @ scope @ ''-'' @ window @ ''-'' @ nonce in
         case scan_request rt env scope window corr (clock 1) d of
           Inl e \<Rightarrow> (Inl e, d, w)
         | Inr (ticket, d1) \<Rightarrow>
            (if st_duplicate ticket then (Inr None, d1, w)
             else case scan_execute rt (\<lambda>n. clock (Suc (Suc n))) pipeline ticket scope corr d1 w of
               (r, d2, w2) \<Rightarrow> (map_sum id Some r, d2, w2))))"

section \<open>Reading the history\<close>

record historical_context =
  hc_risk :: risk_result
  hc_dossier :: dossier
  hc_previous_dossier :: "dossier option"

text \<open>\<open>model_validate\<close> of a stored dossier and of the columns factors and thresholds\<close>

record history_parsers =
  hp_dossier :: "json \<Rightarrow> dossier res"
  hp_factors :: "json \<Rightarrow> factor_contribution list res"
  hp_thresholds :: "json \<Rightarrow> (string \<times> int) list res"

definition history_rows :: "environment \<Rightarrow> string \<Rightarrow> timestamp \<Rightarrow> db \<Rightarrow> (snapshot_row \<times> risk_result_row) list" where
  "history_rows env employee_id cutoff d =
    take 50 (sort_key (\<lambda>(s, _). - sp_observed_at s)
      (filter (\<lambda>(s, r). rk_snapshot_id r = sp_id s \<and> sp_environment s = env \<and> sp_subject_type s = ''employee'' \<and>
           sp_subject_id s = employee_id \<and> sp_observed_at s < cutoff \<and> rk_score_family r = ''employee_overload'')
        (List.product (db_snapshots d) (db_risk_results d))))"

definition stored_risk :: "history_parsers \<Rightarrow> string \<Rightarrow> snapshot_row \<Rightarrow> risk_result_row \<Rightarrow> risk_result res" where
  "stored_risk hp employee_id s r =
    bindr (hp_factors hp (rk_factors r)) (\<lambda>factors. bindr (hp_thresholds hp (rk_thresholds r)) (\<lambda>thresholds.
    make_risk_result \<lparr>rr_subject_id = employee_id, rr_environment = sp_environment s, rr_score = rk_score r,
      rr_level = rk_level r, rr_confidence = rk_confidence r, rr_scored_at = rk_created_at r,
      rr_evidence_timestamp = sp_observed_at s, rr_scoring_model_version = rk_scoring_version r, rr_factors = factors,
      rr_thresholds = thresholds, rr_evidence_references = rk_evidence_references r,
      rr_missing_evidence = rk_missing_evidence r, rr_excluded_evidence = rk_excluded_evidence r\<rparr>))"

text \<open>The dossier of a row: None when the snapshot has none.\<close>

definition stored_dossier :: "snapshot_row \<Rightarrow> json option" where
  "stored_dossier s = (case object_of (sp_evidence s) of None \<Rightarrow> None
     | Some kvs \<Rightarrow> (case map_of kvs ''risk_evidence_dossier'' of None \<Rightarrow> None | Some j \<Rightarrow> if truthy j then Some j else None))"

fun read_contexts ::
  "history_parsers \<Rightarrow> string \<Rightarrow> string \<Rightarrow> bool \<Rightarrow> historical_context option \<Rightarrow> (snapshot_row \<times> risk_result_row) list \<Rightarrow> historical_context res" where
  "read_contexts hp e p dated first [] =
     (case first of Some c \<Rightarrow> Inr c | None \<Rightarrow> Inl (ValueError ''historical evidence is unavailable for the requested date''))"
| "read_contexts hp e p dated first ((s, r) # rows) =
     (case stored_dossier s of
        None \<Rightarrow> read_contexts hp e p dated first rows
      | Some raw \<Rightarrow> bindr (hp_dossier hp raw) (\<lambda>x.
          if do_project_key x \<noteq> p \<or> do_employee_id x \<noteq> e then Inl (ValueError ''historical evidence scope mismatch'')
          else bindr (stored_risk hp e s r) (\<lambda>risk.
            case first of
              Some c \<Rightarrow> Inr (c\<lparr>hc_previous_dossier := Some x\<rparr>)
            | None \<Rightarrow> (let c = \<lparr>hc_risk = risk, hc_dossier = x, hc_previous_dossier = None\<rparr> in
                if dated then Inr c else read_contexts hp e p dated (Some c) rows))))"

text \<open>\<open>midnight\<close> is the first instant of a date in UTC.\<close>

definition get_at ::
  "history_parsers \<Rightarrow> (date \<Rightarrow> timestamp) \<Rightarrow> environment \<Rightarrow> date \<Rightarrow> string \<Rightarrow> string \<Rightarrow> string \<Rightarrow> db \<Rightarrow> historical_context res" where
  "get_at hp midnight env today question employee_id project_key d =
    bindr (parse_historical_date question today) (\<lambda>requested.
    let cutoff = (case requested of None \<Rightarrow> today | Some x \<Rightarrow> x) in
    read_contexts hp employee_id project_key (requested \<noteq> None) None (history_rows env employee_id (midnight (cutoff + 1)) d))"

section \<open>One employee\<close>

text \<open>What a scan leaves alone: the decisions people make, and the audit log of them\<close>

definition scan_kept where
  "scan_kept d = (db_proposals d, db_simulations d, db_decisions d, db_executions d, db_profiles d, db_skills d, db_allocations d,
     db_overrides d, db_audit d, db_scans d, db_reports d)"

lemma record_occurrence_frame:
  "record_occurrence rt p a rid c now cool imp d = Inr (x, d') \<Longrightarrow>
     scan_kept d' = scan_kept d \<and> db_snapshots d' = db_snapshots d \<and> db_risk_results d' = db_risk_results d"
  by (auto simp: record_occurrence_def new_id_def Let_def bindr_Inr_iff outbox_append_cases scan_kept_def
      split: if_splits option.splits)

lemma record_risk_frame:
  "record_risk rt env s t w rid level fp c now cool imp d = Inr (x, d') \<Longrightarrow>
     scan_kept d' = scan_kept d \<and> db_snapshots d' = db_snapshots d \<and> db_risk_results d' = db_risk_results d"
  by (auto simp: record_risk_def new_id_def Let_def bindr_Inr_iff scan_kept_def
      split: if_splits option.splits dest: record_occurrence_frame)

lemma alerts_ok_frame:
  assumes "alerts_ok rt d" "db_alerts d' = db_alerts d" "db_occurrences d' = db_occurrences d" "db_outbox d' = db_outbox d"
    "db_next d \<le> db_next d'"
  shows "alerts_ok rt d'"
  by (rule alerts_ok_update [OF assms(1), of d' "\<lambda>_. False" id]) (simp_all add: assms update_where_def)

lemma resolve_active_risk_ok:
  assumes "alerts_ok rt d"
  shows "alerts_ok rt (snd (resolve_active_risk env s t d))"
proof -
  let ?active = "\<lambda>a. al_environment a = env \<and> al_subject_id a = s \<and> al_risk_type a = t \<and> al_state a \<in> {AlertNew, Acknowledged, Investigating}"
  show ?thesis
    by (rule alerts_ok_update [OF assms, of _ ?active "\<lambda>a. a\<lparr>al_state := Resolved, al_version := al_version a + 1\<rparr>"])
      (simp_all add: resolve_active_risk_def Let_def)
qed

lemma resolve_active_risk_frame:
  "scan_kept (snd (resolve_active_risk env s t d)) = scan_kept d \<and>
   db_snapshots (snd (resolve_active_risk env s t d)) = db_snapshots d \<and>
   db_risk_results (snd (resolve_active_risk env s t d)) = db_risk_results d"
  by (simp add: resolve_active_risk_def Let_def scan_kept_def)

lemma record_alert_run:
  assumes "runtime_ok rt" "alerts_ok rt d" "rid \<in> rk_id ` set (db_risk_results d)"
  shows "\<exists>a d'. record_alert rt env now day fp c r rid d = Inr (a, d') \<and> alerts_ok rt d' \<and>
     scan_kept d' = scan_kept d \<and> db_snapshots d' = db_snapshots d \<and> db_risk_results d' = db_risk_results d"
proof (cases "rr_level r")
  case None
  then show ?thesis using assms by (simp add: record_alert_def)
next
  case (Some level)
  define d1 where "d1 = (if level = RiskLow then snd (resolve_active_risk env (rr_subject_id r) ''overload'' d) else d)"
  have d1: "alerts_ok rt d1" "rid \<in> rk_id ` set (db_risk_results d1)" "scan_kept d1 = scan_kept d"
    "db_snapshots d1 = db_snapshots d" "db_risk_results d1 = db_risk_results d"
    using assms resolve_active_risk_ok resolve_active_risk_frame by (auto simp: d1_def)
  from record_risk_effect [OF assms(1) d1(1,2) refl, of level env "rr_subject_id r" "''overload''" "rt_date rt day" fp c now "hours 4" False]
  obtain a d' where run: "record_risk rt env (rr_subject_id r) ''overload'' (rt_date rt day) rid level fp c now (hours 4) False d1 = Inr (a, d')"
    and ok: "alerts_ok rt d'" using d1(1) by blast
  have "record_alert rt env now day fp c r rid d = Inr (map_option ar_alert_id a, d')"
    using run by (simp add: record_alert_def Some d1_def)
  with ok record_risk_frame [OF run] d1(3-5) show ?thesis by simp
qed

lemma record_snapshot_run:
  "\<exists>sid d'. record_snapshot rt env now subject fp i x d = Inr (sid, d') \<and> db_next d \<le> db_next d' \<and>
     (\<exists>s \<in> set (db_snapshots d'). sp_id s = sid \<and> sp_fingerprint s = fp \<and> sp_subject_id s = subject) \<and>
     (if find_snapshot (env, ''employee'', subject, fp) d = None
      then db_snapshots d' = db_snapshots d @ [scan_snapshot rt (db_next d) env now subject fp i x] \<and> sid = db_next d \<and> db_next d' = Suc (db_next d)
      else d' = d) \<and>
     scan_kept d' = scan_kept d \<and> db_risk_results d' = db_risk_results d \<and> db_alerts d' = db_alerts d \<and>
     db_occurrences d' = db_occurrences d \<and> db_outbox d' = db_outbox d"
proof (cases "find_snapshot (env, ''employee'', subject, fp) d")
  case None
  then have "\<forall>s \<in> set (db_snapshots d). (sp_environment s, sp_subject_type s, sp_subject_id s, sp_fingerprint s) \<noteq> (env, ''employee'', subject, fp)"
    by (auto simp: find_snapshot_def select_one_def find_None_iff)
  then show ?thesis using None
    by (auto simp: record_snapshot_def new_id_def Let_def insert_row_def list_ex_iff scan_snapshot_def scan_kept_def)
next
  case (Some s)
  then have "s \<in> set (db_snapshots d)" "sp_fingerprint s = fp" "sp_subject_id s = subject"
    by (auto simp: find_snapshot_def dest: select_one_SomeD)
  then show ?thesis using Some by (auto simp: record_snapshot_def)
qed

definition result_row_of :: "environment \<Rightarrow> timestamp \<Rightarrow> uuid \<Rightarrow> uuid \<Rightarrow> risk_result \<Rightarrow> risk_result_row" where
  "result_row_of env now sid rid r = new_risk_result env now sid rid \<lparr>sn2_score_family = ''employee_overload'', sn2_result = r\<rparr>"

lemma sink_persist_run:
  assumes "runtime_ok rt" "alerts_ok rt d" "oi_environment i = env" "rr_environment r = env"
  shows "\<exists>alert d' sid rid. sink_persist rt dump date_of env i r x c now d = Inr ((rt_uuid rt rid, alert), d') \<and> alerts_ok rt d' \<and>
     scan_kept d' = scan_kept d \<and> db_risk_results d' = db_risk_results d @ [result_row_of env now sid rid r] \<and> db_next d \<le> rid \<and>
     (let fp = scan_fingerprint rt dump i x in
      (\<exists>s \<in> set (db_snapshots d'). sp_id s = sid \<and> sp_fingerprint s = fp \<and> sp_subject_id s = rr_subject_id r) \<and>
      (if find_snapshot (env, ''employee'', rr_subject_id r, fp) d = None
       then db_snapshots d' = db_snapshots d @ [scan_snapshot rt sid env now (rr_subject_id r) fp i x] \<and> sid = db_next d
       else db_snapshots d' = db_snapshots d))"
proof -
  let ?fp = "scan_fingerprint rt dump i x"
  obtain sid d1 where s: "record_snapshot rt env now (rr_subject_id r) ?fp i x d = Inr (sid, d1)" "db_next d \<le> db_next d1"
    "\<exists>s \<in> set (db_snapshots d1). sp_id s = sid \<and> sp_fingerprint s = ?fp \<and> sp_subject_id s = rr_subject_id r"
    "if find_snapshot (env, ''employee'', rr_subject_id r, ?fp) d = None
      then db_snapshots d1 = db_snapshots d @ [scan_snapshot rt (db_next d) env now (rr_subject_id r) ?fp i x] \<and> sid = db_next d \<and> db_next d1 = Suc (db_next d)
      else d1 = d"
    "scan_kept d1 = scan_kept d" "db_risk_results d1 = db_risk_results d" "db_alerts d1 = db_alerts d"
     "db_occurrences d1 = db_occurrences d" "db_outbox d1 = db_outbox d"
    using record_snapshot_run [of rt env now "rr_subject_id r" ?fp i x d] by blast
  obtain rid d2 where res: "record_result env now sid r d1 = (rid, d2)" by fastforce
  then have d2: "rid = db_next d1" "db_risk_results d2 = db_risk_results d @ [result_row_of env now sid rid r]" "scan_kept d2 = scan_kept d"
    "db_snapshots d2 = db_snapshots d1" "db_alerts d2 = db_alerts d" "db_occurrences d2 = db_occurrences d" "db_outbox d2 = db_outbox d"
    "db_next d1 \<le> db_next d2"
    using s(5-9) by (auto simp: record_result_def new_id_def result_row_of_def scan_kept_def)
  have ok: "alerts_ok rt d2" by (rule alerts_ok_frame [OF assms(2)]) (use d2 s(2) in simp_all)
  have mem: "rid \<in> rk_id ` set (db_risk_results d2)"
    using d2(2) by (simp add: result_row_of_def new_risk_result_def Let_def)
  obtain a d3 where al: "record_alert rt env now (date_of (oi_evidence_timestamp i)) ?fp c r rid d2 = Inr (a, d3)" "alerts_ok rt d3"
    "scan_kept d3 = scan_kept d2" "db_snapshots d3 = db_snapshots d2" "db_risk_results d3 = db_risk_results d2"
    using record_alert_run [OF assms(1) ok mem] by blast
  have "sink_persist rt dump date_of env i r x c now d = Inr ((rt_uuid rt rid, map_option (rt_uuid rt) a), d3)"
    using assms(3,4) s(1) res al(1) by (simp add: sink_persist_def Let_def)
  moreover have "db_next d \<le> rid" using d2(1) s(2) by simp
  ultimately show ?thesis using al d2(2-4) s(3,4)
    by (intro exI [of _ "map_option (rt_uuid rt) a"] exI [of _ d3] exI [of _ sid] exI [of _ rid]) (auto simp: Let_def split: if_splits)
qed

section \<open>A scan\<close>

definition overload_parts ::
  "runtime \<Rightarrow> (json \<Rightarrow> string) \<Rightarrow> (timestamp \<Rightarrow> date) \<Rightarrow> environment \<Rightarrow> (string \<Rightarrow> string \<Rightarrow> string \<Rightarrow> 'w \<Rightarrow> evidence_bundle res \<times> 'w)
     \<Rightarrow> (overload_input \<Rightarrow> string \<Rightarrow> 'w \<Rightarrow> risk_result res \<times> 'w) \<Rightarrow> ('w \<Rightarrow> timestamp) \<Rightarrow> 'w scan_parts" where
  "overload_parts rt dump date_of env evidence score clock = \<lparr>sq_evidence = evidence, sq_score = score,
     sq_sink = (\<lambda>i r x corr w d. sink_persist rt dump date_of env i r x corr (clock w) d)\<rparr>"

lemma scan_employee_run:
  assumes "runtime_ok rt" "alerts_ok rt d"
    and "scan_employee (overload_parts rt dump date_of env evidence score clock) scope corr e (d, w) = (res, (d', w'))"
  shows "(\<exists>x. res = Inl x \<and> d' = d) \<or>
     (\<exists>deg alert row. res = Inr (deg, rt_uuid rt (rk_id row), alert) \<and> alerts_ok rt d' \<and> scan_kept d' = scan_kept d \<and>
        db_risk_results d' = db_risk_results d @ [row] \<and> (\<exists>more. db_snapshots d' = db_snapshots d @ more) \<and>
        (\<exists>s \<in> set (db_snapshots d'). sp_id s = rk_snapshot_id row))"
proof (cases res)
  case (Inl x)
  with assms(3) have "d' = d"
    by (auto simp: scan_employee_def overload_parts_def split: prod.splits sum.splits)
  with Inl show ?thesis by simp
next
  case (Inr y)
  with assms(3) obtain b0 w1 r risk_id alert where b: "evidence e scope corr w = (Inr b0, w1)"
    "score (eb_input b0) (corr @ '':'' @ e) w1 = (Inr r, w')"
    and run: "sink_persist rt dump date_of env (eb_input b0) r (eb_evidence_dossier b0) corr (clock w') d = Inr ((risk_id, alert), d')"
    and y: "y = (eb_degraded b0, risk_id, alert)"
    by (auto simp: scan_employee_def overload_parts_def split: prod.splits sum.splits)
  have envs: "oi_environment (eb_input b0) = env" "rr_environment r = env"
    using run by (auto simp: sink_persist_def split: if_splits)
  from sink_persist_run [OF assms(1,2) envs, of dump date_of "eb_evidence_dossier b0" corr "clock w'"] run Inr y
  show ?thesis
    by (fastforce simp: result_row_of_def new_risk_result_def Let_def split: if_splits)
qed



section \<open>Reading a scan back\<close>

lemma hd_sort_key_least:
  fixes f :: "'a \<Rightarrow> int"
  assumes "z \<in> set xs" "\<And>y. y \<in> set xs \<Longrightarrow> y \<noteq> z \<Longrightarrow> f z < f y"
  shows "\<exists>ys. sort_key f xs = z # ys"
proof (cases "sort_key f xs")
  case Nil
  then show ?thesis using assms(1) by (metis length_0_conv length_sort list.set(1) empty_iff)
next
  case (Cons y ys)
  then have y: "y \<in> set xs" by (metis list.set_intros(1) set_sort)
  have "sorted (map f (y # ys))" using sorted_sort_key [of f xs] unfolding Cons .
  moreover have "z \<in> set (y # ys)" using assms(1) unfolding Cons [symmetric] by simp
  ultimately have "f y \<le> f z" by auto
  then have "y = z" using assms(2) [OF y] by (meson leD)
  with Cons show ?thesis by simp
qed

text \<open>The risk as the history returns it: scored when it was stored, observed with its evidence\<close>

definition as_stored :: "timestamp \<Rightarrow> overload_input \<Rightarrow> risk_result \<Rightarrow> risk_result" where
  "as_stored now i r = r\<lparr>rr_scored_at := now, rr_evidence_timestamp := oi_evidence_timestamp i\<rparr>"

text \<open>
  C37: A scan is read back by a question about its date: once the results of an employee are stored with evidence
  that is new and later than all stored evidence of the employee, a question that names the day of the evidence or
  a later one gets exactly the score, level, factors and dossier that were stored; only the time of scoring is the
  time of storage.  The parsers of the stored JSON are assumed to read back what was dumped of this dossier and
  these factors and thresholds.
\<close>

theorem scan_is_read_back:
  assumes "runtime_ok rt" "alerts_ok rt d" "oi_environment i = env" "rr_environment r = env"
    and "do_project_key x = p" "do_employee_id x = rr_subject_id r" "opt_all (\<lambda>s. 0 \<le> s \<and> s \<le> 100) (rr_score r)"
    and "\<forall>row \<in> set (db_risk_results d). rk_snapshot_id row < db_next d"
    and "find_snapshot (env, ''employee'', rr_subject_id r, scan_fingerprint rt dump i (Some x)) d = None"
    and "\<forall>s \<in> set (db_snapshots d). sp_environment s = env \<and> sp_subject_id s = rr_subject_id r \<longrightarrow> sp_observed_at s < oi_evidence_timestamp i"
    and "parse_historical_date question today = Inr (Some day)" "oi_evidence_timestamp i < midnight (day + 1)"
    and "hp_dossier hp (JObj (dossier_json rt x)) = Inr x" "hp_factors hp (JList (map factor_json (rr_factors r))) = Inr (rr_factors r)"
      "hp_thresholds hp (JObj (map (\<lambda>(k, v). (k, JInt v)) (rr_thresholds r))) = Inr (rr_thresholds r)"
  shows "\<exists>reply d'. sink_persist rt dump date_of env i r (Some x) c now d = Inr (reply, d') \<and>
     get_at hp midnight env today question (rr_subject_id r) p d' =
       Inr \<lparr>hc_risk = as_stored now i r, hc_dossier = x, hc_previous_dossier = None\<rparr>"
proof -
  let ?fp = "scan_fingerprint rt dump i (Some x)" and ?e = "rr_subject_id r"
  obtain alert d' sid rid where run: "sink_persist rt dump date_of env i r (Some x) c now d = Inr ((rt_uuid rt rid, alert), d')"
    and rows: "db_risk_results d' = db_risk_results d @ [result_row_of env now sid rid r]"
    and snaps: "db_snapshots d' = db_snapshots d @ [scan_snapshot rt sid env now ?e ?fp i (Some x)]" and sid: "sid = db_next d"
    using sink_persist_run [OF assms(1-4), of dump date_of "Some x" c now] assms(9) by (auto simp: Let_def)
  let ?s = "scan_snapshot rt sid env now ?e ?fp i (Some x)" and ?r = "result_row_of env now sid rid r"
  let ?sel = "\<lambda>(s, q). rk_snapshot_id q = sp_id s \<and> sp_environment s = env \<and> sp_subject_type s = ''employee'' \<and>
           sp_subject_id s = ?e \<and> sp_observed_at s < midnight (day + 1) \<and> rk_score_family q = ''employee_overload''"
  let ?xs = "filter ?sel (List.product (db_snapshots d') (db_risk_results d'))"
  have s: "sp_id ?s = sid" "sp_observed_at ?s = oi_evidence_timestamp i" "sp_environment ?s = env" "sp_subject_type ?s = ''employee''"
    "sp_subject_id ?s = ?e" by (simp_all add: scan_snapshot_def)
  have q: "rk_snapshot_id ?r = sid" "rk_score_family ?r = ''employee_overload''"
    by (simp_all add: result_row_of_def new_risk_result_def Let_def)
  have "\<exists>ys. sort_key (\<lambda>(s, _). - sp_observed_at s) ?xs = (?s, ?r) # ys"
  proof (rule hd_sort_key_least)
    show "(?s, ?r) \<in> set ?xs" using s q assms(12) by (simp add: snaps rows)
    fix y assume y: "y \<in> set ?xs" "y \<noteq> (?s, ?r)"
    obtain s' r' where yy: "y = (s', r')" by fastforce
    have sel: "rk_snapshot_id r' = sp_id s'" "sp_environment s' = env" "sp_subject_id s' = ?e"
      "s' \<in> set (db_snapshots d) \<or> s' = ?s" "r' \<in> set (db_risk_results d) \<or> r' = ?r"
      using y(1) by (auto simp: yy snaps rows)
    have "s' \<in> set (db_snapshots d)"
    proof (rule ccontr)
      assume "s' \<notin> set (db_snapshots d)"
      then have s': "s' = ?s" using sel(4) by blast
      then have "r' \<in> set (db_risk_results d)" using y(2) sel(5) yy by blast
      then have "rk_snapshot_id r' < sid" using assms(8) sid by blast
      then show False using sel(1) s' s(1) by simp
    qed
    then show "(case (?s, ?r) of (s, _) \<Rightarrow> - sp_observed_at s) < (case y of (s, _) \<Rightarrow> - sp_observed_at s)"
      using assms(10) sel(2,3) s(2) by (simp add: yy)
  qed
  then obtain ys where "sort_key (\<lambda>(s, _). - sp_observed_at s) ?xs = (?s, ?r) # ys" ..
  then have ys: "history_rows env ?e (midnight (day + 1)) d' = (?s, ?r) # take 49 ys"
    unfolding history_rows_def by (simp only: take_Cons_numeral) simp
  have "stored_dossier ?s = Some (JObj (dossier_json rt x))"
    by (simp add: stored_dossier_def scan_snapshot_def json_opt_def dossier_json_def)
  moreover have "stored_risk hp ?e ?s ?r = Inr (as_stored now i r)"
    using assms(4,7,14,15) s
    by (simp add: stored_risk_def result_row_of_def new_risk_result_def Let_def make_risk_result_def as_stored_def)
  ultimately have "get_at hp midnight env today question ?e p d' = Inr \<lparr>hc_risk = as_stored now i r, hc_dossier = x, hc_previous_dossier = None\<rparr>"
    using assms(5,6,11,13) ys by (simp add: get_at_def Let_def)
  with run show ?thesis by blast
qed


section \<open>Runs and witnesses\<close>

definition sample_input :: "string \<Rightarrow> int \<Rightarrow> overload_input" where
  "sample_input e overdue = \<lparr>oi_employee_id = e, oi_environment = Dev, oi_remaining_estimated_hours = None, oi_available_capacity_hours = None,
     oi_overdue_tasks = Some overdue, oi_blocked_or_blocking_tasks = None, oi_urgent_high_priority_tasks = None,
     oi_due_soon_tasks = None, oi_active_tasks = None, oi_concurrent_projects = None, oi_stale_tasks = None,
     oi_evidence_timestamp = overdue, oi_evidence_references = []\<rparr>"

definition sample_result :: "string \<Rightarrow> int \<Rightarrow> risk_level \<Rightarrow> risk_result" where
  "sample_result e score level = \<lparr>rr_subject_id = e, rr_environment = Dev, rr_score = Some score, rr_level = Some level,
     rr_confidence = ConfHigh, rr_scored_at = 1, rr_evidence_timestamp = 1, rr_scoring_model_version = ''v1'', rr_factors = [],
     rr_thresholds = [], rr_evidence_references = [], rr_missing_evidence = [], rr_excluded_evidence = []\<rparr>"

definition sample_dossier :: "string \<Rightarrow> dossier" where
  "sample_dossier p = \<lparr>do_employee_id = ''E'', do_project_key = p, do_observed_at = 1, do_available_capacity_hours = 40,
     do_total_remaining_hours = None, do_tasks = [], do_overdue_task_keys = [], do_due_soon_task_keys = [],
     do_blocked_task_keys = [], do_missing_evidence = [], do_evidence_references = []\<rparr>"

text \<open>Three scans of one employee: the results are stored one after the other at the times 5, 6 and 7.\<close>

fun store_all :: "(overload_input \<times> risk_result \<times> dossier option) list \<Rightarrow> timestamp \<Rightarrow> db \<Rightarrow> db res" where
  "store_all [] now d = Inr d"
| "store_all ((i, r, x) # rest) now d =
     bindr (sink_persist sample_runtime (dumps frac_repr) (\<lambda>_. 0) Dev i r x ''c'' now d) (\<lambda>(_, d'). store_all rest (now + 1) d')"



definition sample_parsers :: history_parsers where
  "sample_parsers = \<lparr>hp_dossier = (\<lambda>j. case object_of j of None \<Rightarrow> Inl (ValidationError ''RiskEvidenceDossier'')
       | Some kvs \<Rightarrow> (case map_of kvs ''project_key'' of Some (JStr p) \<Rightarrow> Inr (sample_dossier p) | _ \<Rightarrow> Inl (ValidationError ''RiskEvidenceDossier''))),
     hp_factors = (\<lambda>j. Inr []), hp_thresholds = (\<lambda>j. Inr [])\<rparr>"

text \<open>
  An employee who was scanned in two projects has no history any more: the reader selects the snapshots of the
  employee in every project and refuses the first of another one.  After a scan in the project WRD and a later one
  in OPS, the history of WRD is refused for every date, and that of OPS whenever the question names no date.
\<close>

theorem two_project_history_refused:
  "\<exists>d. store_all [(sample_input ''E'' 3, sample_result ''E'' 90 RiskHigh, Some (sample_dossier ''WRD'')),
       (sample_input ''E'' 4, sample_result ''E'' 90 RiskHigh, Some (sample_dossier ''OPS''))] 5 empty_db = Inr d \<and>
     get_at sample_parsers (\<lambda>d. 100) Dev 1 ''What changed?'' ''E'' ''OPS'' d = Inl (ValueError ''historical evidence scope mismatch'') \<and>
     get_at sample_parsers (\<lambda>d. 100) Dev 1 ''What changed?'' ''E'' ''WRD'' d = Inl (ValueError ''historical evidence scope mismatch'') \<and>
     get_at sample_parsers (\<lambda>d. 100) Dev 1 ''What was it on 2026-03-01?'' ''E'' ''WRD'' d = Inl (ValueError ''historical evidence scope mismatch'')"
proof -
  have "case store_all [(sample_input ''E'' 3, sample_result ''E'' 90 RiskHigh, Some (sample_dossier ''WRD'')),
       (sample_input ''E'' 4, sample_result ''E'' 90 RiskHigh, Some (sample_dossier ''OPS''))] 5 empty_db of Inl e \<Rightarrow> False
     | Inr d \<Rightarrow> list_all (\<lambda>(q, p). get_at sample_parsers (\<lambda>d. 100) Dev 1 q ''E'' p d = Inl (ValueError ''historical evidence scope mismatch''))
         [(''What changed?'', ''OPS''), (''What changed?'', ''WRD''), (''What was it on 2026-03-01?'', ''WRD'')]"
    by code_simp
  then show ?thesis by (simp split: sum.splits)
qed

lemma empty_alerts_ok: "alerts_ok rt empty_db"
  by (simp add: alerts_ok_def alert_keys_ok_def empty_db_def)

theorem scan_is_read_back_witness:
  "\<exists>reply d'. sink_persist sample_runtime (dumps frac_repr) (\<lambda>_. 0) Dev (sample_input ''E'' 3) (sample_result ''E'' 90 RiskHigh)
       (Some (sample_dossier ''WRD'')) ''c'' 5 empty_db = Inr (reply, d') \<and>
     get_at sample_parsers (\<lambda>d. 100) Dev 1 ''What was it on 2026-03-01?'' (rr_subject_id (sample_result ''E'' 90 RiskHigh)) ''WRD'' d' =
       Inr \<lparr>hc_risk = as_stored 5 (sample_input ''E'' 3) (sample_result ''E'' 90 RiskHigh), hc_dossier = sample_dossier ''WRD'',
         hc_previous_dossier = None\<rparr>"
proof -
  have "parse_historical_date ''What was it on 2026-03-01?'' 1 = Inr (Some 739676)" by code_simp
  moreover have "hp_dossier sample_parsers (JObj (dossier_json sample_runtime (sample_dossier ''WRD''))) = Inr (sample_dossier ''WRD'')"
    by (simp add: sample_parsers_def dossier_json_def sample_dossier_def)
  ultimately show ?thesis
    by (intro scan_is_read_back [OF sample_runtime_ok empty_alerts_ok, where day = 739676])
      (simp_all add: sample_input_def sample_result_def sample_dossier_def empty_db_def find_snapshot_def sample_parsers_def)
qed

definition sample_evidence :: "string \<Rightarrow> string \<Rightarrow> string \<Rightarrow> unit \<Rightarrow> evidence_bundle res \<times> unit" where
  "sample_evidence e p c w = (if e = ''E'' then (Inr \<lparr>eb_input = sample_input ''E'' 3, eb_evidence_dossier = None,
     eb_degraded = False, eb_missing_sources = []\<rparr>, w) else (Inl TimeoutError, w))"

definition sample_score :: "overload_input \<Rightarrow> string \<Rightarrow> unit \<Rightarrow> risk_result res \<times> unit" where
  "sample_score i c w = (Inr (sample_result (oi_employee_id i) 90 RiskHigh), w)"

definition sample_parts :: "unit scan_parts" where
  "sample_parts = overload_parts sample_runtime (dumps frac_repr) (\<lambda>_. 0) Dev sample_evidence sample_score (\<lambda>w. 5)"


end
