(* ===== verification/Workflow.thy ===== *)
theory Workflow imports ScanPipeline Collection Planning Dashboard begin

text \<open>
  The investigation behind a question (agent\_api/graph): the verified context and the graph state (state.py), the
  specialists and their router (handoffs.py, agents/*), the nodes of the graph (supervisor.py, workflow.py), its edges
  and its run under a recursion limit.  Planner, explainer, tools and readers are functions on a world \<open>'w\<close>.  The
  graph library is third party: what the code relies on is that a node runs when the edge of its predecessor leads to
  it, that its update is merged into the state, that an exception ends the run, and that a run that needs more steps
  than the recursion limit raises.
\<close>

section \<open>State\<close>

record agent_context =
  vc_subject_reference :: string
  vc_roles :: "application_role list"
  vc_environment :: environment
  vc_authorized_jira_sites :: "string list"
  vc_authorized_project_keys :: "string list"
  vc_correlation_id :: string

record recommendation =
  rm_action :: string
  rm_reason :: string
  rm_candidate_id :: "string option"

datatype explanation_source = FromBedrock | DeterministicFallback | FromJiraMcp

record model_explanation =
  xp_answer :: "string option"
  xp_summary :: string
  xp_root_causes :: "string list"
  xp_recommendations :: "recommendation list"
  xp_citations :: "string list"
  xp_score :: "int option"
  xp_risk_level :: "string option"
  xp_uncertainties :: "string list"

record explanation = model_explanation +
  xp_source :: explanation_source
  xp_correlation_id :: string

record explanation_request =
  xq_workflow :: string
  xq_question :: string
  xq_risk :: "risk_result option"
  xq_project_snapshot :: "dashboard_snapshot option"
  xq_task_query_result :: "task_query_result option"
  xq_evidence_dossier :: "dossier option"
  xq_previous_evidence_dossier :: "dossier option"
  xq_previous_answer_context :: "grounded_context option"
  xq_universal_evidence :: "Collection.evidence_bundle option"
  xq_candidate_ids :: "string list"
  xq_untrusted_evidence :: "string list"
  xq_correlation_id :: string

record graph_state =
  gs_context :: agent_context
  gs_question :: string
  gs_references :: entity_references
  gs_steps_used :: int
  gs_tool_calls_used :: int
  gs_intent :: "intent option"
  gs_evidence_plan :: "evidence_plan option"
  gs_universal_evidence :: "Collection.evidence_bundle option"
  gs_ambiguous_references :: "evidence_entity list option"
  gs_risk :: "risk_result option"
  gs_evidence_dossier :: "dossier option"
  gs_previous_evidence_dossier :: "dossier option"
  gs_task_query_result :: "task_query_result option"
  gs_previous_answer_context :: "grounded_context option"
  gs_project_snapshot :: "dashboard_snapshot option"
  gs_explanation :: "explanation option"
  gs_capability_guidance :: "string option"
  gs_missing_sources :: "string list option"

record investigation_response =
  iv_correlation_id :: string
  iv_intent :: intent
  iv_risk :: "risk_result option"
  iv_explanation :: "explanation option"
  iv_capability_guidance :: "string option"
  iv_missing_sources :: "string list"
  iv_steps_used :: int
  iv_tool_calls_used :: int
  iv_answer_context :: "grounded_context option"

fun intent_value :: "intent \<Rightarrow> string" where
  "intent_value ExplainProjectRisk = ''explain_project_risk''"
| "intent_value ExplainEmployeeOverload = ''explain_employee_overload''"
| "intent_value EvaluateTaskFit = ''evaluate_task_fit''"
| "intent_value ExplainHistory = ''explain_history''"
| "intent_value ReassignmentCandidates = ''reassignment_candidates''"
| "intent_value WhatIfSimulation = ''what_if_simulation''"
| "intent_value OperationsDiagnosis = ''operations_diagnosis''"
| "intent_value JiraTaskQuery = ''jira_task_query''"
| "intent_value Unsupported = ''unsupported''"

section \<open>Specialists\<close>

type_synonym 'w domain_tool = "intent \<Rightarrow> entity_references \<Rightarrow> string \<Rightarrow> 'w \<Rightarrow> risk_result res \<times> 'w"

record specialist =
  sl_name :: string
  sl_intents :: "intent set"
  sl_allowed_tools :: "string set"
  sl_available :: bool

record handoff =
  hf_specialist :: string
  hf_intent :: intent
  hf_context :: agent_context
  hf_references :: entity_references
  hf_correlation_id :: string

datatype handoff_status = HandoffCompleted | HandoffFallback | HandoffUnavailable

record handoff_trace =
  ht_specialist :: string
  ht_intent :: intent
  ht_correlation_id :: string
  ht_status :: handoff_status

text \<open>\<open>SpecialistUnavailable\<close> is a RuntimeError of its own.\<close>

abbreviation specialist_unavailable :: py_error where
  "specialist_unavailable \<equiv> OtherException ''SpecialistUnavailable''"

definition validate_handoff :: "specialist \<Rightarrow> handoff \<Rightarrow> unit res" where
  "validate_handoff s h =
    (if \<not> sl_available s then Inl specialist_unavailable
     else if hf_specialist h \<noteq> sl_name s \<or> hf_intent h \<notin> sl_intents s then Inl (ValueError ''specialist handoff mismatch'')
     else if er_project_key (hf_references h) \<notin> set (vc_authorized_project_keys (hf_context h))
     then Inl (PermissionError ''specialist project scope mismatch'') else Inr ())"

definition specialist_run :: "specialist \<Rightarrow> handoff \<Rightarrow> 'w domain_tool \<Rightarrow> 'w \<Rightarrow> risk_result res \<times> 'w" where
  "specialist_run s h tool w = (case validate_handoff s h of
     Inl e \<Rightarrow> (Inl e, w) | Inr _ \<Rightarrow> tool (hf_intent h) (hf_references h) (hf_correlation_id h) w)"

definition workforce_analysis_agent :: specialist where
  "workforce_analysis_agent = \<lparr>sl_name = ''workforce_analysis'', sl_intents = {ExplainEmployeeOverload, EvaluateTaskFit},
     sl_allowed_tools = {''get_employee_overload_risk'', ''get_task_fit_risk''}, sl_available = True\<rparr>"

definition project_delivery_agent :: specialist where
  "project_delivery_agent = \<lparr>sl_name = ''project_delivery'', sl_intents = {ExplainProjectRisk, ExplainHistory},
     sl_allowed_tools = {''get_project_risk'', ''get_risk_history''}, sl_available = True\<rparr>"

definition reassignment_planning_agent :: specialist where
  "reassignment_planning_agent = \<lparr>sl_name = ''reassignment_planning'', sl_intents = {ReassignmentCandidates, WhatIfSimulation},
     sl_allowed_tools = {''get_reassignment_candidates'', ''simulate_reassignment''}, sl_available = True\<rparr>"

definition operations_diagnostic_agent :: specialist where
  "operations_diagnostic_agent = \<lparr>sl_name = ''operations_diagnostic'', sl_intents = {OperationsDiagnosis},
     sl_allowed_tools = {''diagnose_operations_read_only''}, sl_available = True\<rparr>"

definition specialists :: "specialist list" where
  "specialists = [workforce_analysis_agent, project_delivery_agent, reassignment_planning_agent, operations_diagnostic_agent]"

lemmas agent_defs = workforce_analysis_agent_def project_delivery_agent_def reassignment_planning_agent_def
  operations_diagnostic_agent_def

definition write_oriented_preparation :: "intent set" where
  "write_oriented_preparation = {ReassignmentCandidates, WhatIfSimulation}"

text \<open>\<open>SpecialistRouter.investigate\<close>, with the entry it appends to the trace\<close>

definition route_investigation ::
  "'w domain_tool \<Rightarrow> specialist list \<Rightarrow> agent_context \<Rightarrow> intent \<Rightarrow> entity_references \<Rightarrow> string \<Rightarrow> 'w
     \<Rightarrow> risk_result res \<times> handoff_trace list \<times> 'w" where
  "route_investigation core ss context i refs corr w =
    (case List.find (\<lambda>s. i \<in> sl_intents s) ss of
       None \<Rightarrow> (let (r, w1) = core i refs corr w in (r, [], w1))
     | Some s \<Rightarrow>
        (let trace = (\<lambda>status. \<lparr>ht_specialist = sl_name s, ht_intent = i, ht_correlation_id = corr, ht_status = status\<rparr>);
             h = \<lparr>hf_specialist = sl_name s, hf_intent = i, hf_context = context, hf_references = refs, hf_correlation_id = corr\<rparr>
         in case specialist_run s h core w of
              (Inr r, w1) \<Rightarrow> (Inr r, [trace HandoffCompleted], w1)
            | (Inl e, w1) \<Rightarrow>
               (if e \<noteq> specialist_unavailable then (Inl e, [], w1)
                else if i \<in> write_oriented_preparation then (Inl e, [trace HandoffUnavailable], w1)
                else case core i refs corr w1 of
                  (Inl e', w2) \<Rightarrow> (Inl e', [], w2)
                | (Inr r, w2) \<Rightarrow> (Inr r, [trace HandoffFallback], w2))))"

section \<open>The workflow\<close>

record 'w workflow =
  wf_tool :: "'w domain_tool"
  wf_task_query_tool :: "(string \<Rightarrow> entity_references \<Rightarrow> string \<Rightarrow> grounded_context option \<Rightarrow> 'w \<Rightarrow> task_query_result res \<times> 'w) option"
  wf_dossier_tool :: "(string \<Rightarrow> string \<Rightarrow> string \<Rightarrow> 'w \<Rightarrow> dossier res \<times> 'w) option"
  wf_historical_tool :: "(string \<Rightarrow> string \<Rightarrow> string \<Rightarrow> string \<Rightarrow> 'w \<Rightarrow> historical_context res \<times> 'w) option"
  wf_project_tool :: "(string \<Rightarrow> string \<Rightarrow> 'w \<Rightarrow> dashboard_snapshot res \<times> 'w) option"
  wf_history_reader :: "(string \<Rightarrow> string \<Rightarrow> 'w \<Rightarrow> json list res) option"
  wf_planner :: "(string \<Rightarrow> string \<Rightarrow> string option \<Rightarrow> grounded_context option \<Rightarrow> string \<Rightarrow> 'w \<Rightarrow> evidence_plan res \<times> 'w) option"
  wf_explainer :: "explanation_request \<Rightarrow> 'w \<Rightarrow> explanation res \<times> 'w"
  wf_max_steps :: nat
  wf_max_tool_calls :: int
  wf_runtime :: runtime
  wf_date_of :: "timestamp \<Rightarrow> date"

definition corr_of :: "graph_state \<Rightarrow> string" where
  "corr_of st = vc_correlation_id (gs_context st)"

definition step_done :: "graph_state \<Rightarrow> graph_state" where
  "step_done st = st\<lparr>gs_steps_used := gs_steps_used st + 1\<rparr>"

definition calls_done :: "int \<Rightarrow> graph_state \<Rightarrow> graph_state" where
  "calls_done n st = st\<lparr>gs_tool_calls_used := gs_tool_calls_used st + n\<rparr>"

definition receive_verified_context :: "graph_state \<Rightarrow> graph_state res" where
  "receive_verified_context st =
    (if er_project_key (gs_references st) \<notin> set (vc_authorized_project_keys (gs_context st))
     then Inl (PermissionError ''project is outside verified authorization context'') else Inr (step_done st))"

definition classify_supported_intent :: "graph_state \<Rightarrow> graph_state res" where
  "classify_supported_intent st =
    (let refs = gs_references st;
         scope = (if er_employee_id refs \<noteq> None then ''employee'' else if er_task_id refs \<noteq> None then ''task'' else ''project'')
     in Inr ((step_done st)\<lparr>gs_intent := Some (classify_intent (gs_question st) (Some scope))\<rparr>))"

definition capability_response :: "graph_state \<Rightarrow> graph_state res" where
  "capability_response st = Inr ((step_done st)\<lparr>gs_capability_guidance := Some
     (''I can explain employee, task-fit, and project risk; describe risk history; identify deterministic candidates; '' @
      ''run a what-if simulation; or provide read-only operational diagnosis. Approval must use the dedicated structured approval control.'')\<rparr>)"

definition missing_optional_evidence :: "graph_state \<Rightarrow> evidence_category \<Rightarrow> string \<Rightarrow> int \<Rightarrow> graph_state res" where
  "missing_optional_evidence st category reason attempted =
    (let key = er_project_key (gs_references st); missing = missing_of category reason key True in
     bindr (guard (\<not> valid_missing_data missing \<or> \<not> length_between 1 128 (corr_of st) \<or> \<not> matches_key key_char 1 19 key)
       (ValidationError ''UniversalEvidenceBundle'')) (\<lambda>_.
     Inr ((calls_done attempted (step_done st))\<lparr>gs_universal_evidence := Some
       \<lparr>ub_correlation_id = corr_of st, ub_project_key = key, ub_plan = conservative_read_plan, ub_answer_evidence = None,
        ub_project_snapshot = None, ub_capacity_and_workload = [], ub_workload_classifications = [], ub_task_delivery_risk = [],
        ub_skills = [], ub_seniority = [], ub_ranked_candidates = [], ub_candidate_ranking = None, ub_history = [],
        ub_missing_data = [missing], ub_source_metadata = [], ub_ambiguous_references = []\<rparr>\<rparr>)))"

text \<open>\<open>_plan_evidence\<close>: the plan of the planner, completed by the references to the conversation and normalised\<close>

definition plan_node :: "'w workflow \<Rightarrow> graph_state \<Rightarrow> 'w \<Rightarrow> graph_state res \<times> 'w" where
  "plan_node wk st w =
    (let refs = gs_references st; previous = gs_previous_answer_context st;
         (planned, w1) = (case wf_planner wk of
            None \<Rightarrow> (Inr conservative_read_plan, w)
          | Some planner \<Rightarrow> planner (gs_question st) (er_project_key refs) (er_employee_id refs) previous (corr_of st) w)
     in (bindr planned (\<lambda>plan.
          let resolved = resolve_references (gs_question st) previous;
              plan1 = (if rc_entities resolved \<noteq> [] \<and> pl_entities plan = [] then plan\<lparr>pl_entities := rc_entities resolved\<rparr> else plan);
              st1 = (step_done st)\<lparr>gs_evidence_plan := Some (normalize_evidence_plan (gs_question st) plan1 previous)\<rparr>
          in Inr (if rc_needs_clarification resolved then st1\<lparr>gs_ambiguous_references := Some (rc_entities resolved)\<rparr> else st1)), w1))"

abbreviation tool_call_limit :: "'a res" where
  "tool_call_limit \<equiv> Inl runtime_error"

definition collect_node :: "'w workflow \<Rightarrow> graph_state \<Rightarrow> 'w \<Rightarrow> graph_state res \<times> 'w" where
  "collect_node wk st w =
    (case (wf_project_tool wk, gs_evidence_plan st) of
       (None, _) \<Rightarrow> (Inl runtime_error, w)
     | (Some snap, plan) \<Rightarrow>
        (if gs_tool_calls_used st \<ge> wf_max_tool_calls wk then (tool_call_limit, w)
         else case plan of
           None \<Rightarrow> (Inl (KeyError ''evidence_plan''), w)
         | Some plan \<Rightarrow>
            (let key = er_project_key (gs_references st); (snapshot, w1) = snap key (corr_of st) w in
             (bindr snapshot (\<lambda>s.
              bindr (collect_from (wf_runtime wk) (wf_date_of wk) (map_option (\<lambda>load. load key (corr_of st) w1) (wf_history_reader wk))
                 plan key (corr_of st) (er_employee_id (gs_references st)) (gs_question st) (gs_previous_answer_context st) s) (\<lambda>b.
              let b1 = (case gs_ambiguous_references st of None \<Rightarrow> b | Some es \<Rightarrow> if es = [] then b else b\<lparr>ub_ambiguous_references := es\<rparr>) in
              Inr ((calls_done 1 (step_done st))\<lparr>gs_universal_evidence := Some b1, gs_project_snapshot := ub_project_snapshot b1\<rparr>))), w1))))"

definition unsupported_task_query_errors :: "string set" where
  "unsupported_task_query_errors = {''employee is required for a deadline task query'', ''Jira task queries require Jira evidence mode'',
     ''only an explicit tomorrow deadline is supported'', ''unsupported Jira task query question''}"

definition optional_domain_evidence_errors :: "string set" where
  "optional_domain_evidence_errors = {''the requested deterministic domain tool is unavailable'',
     ''employee_id is required for overload investigation''}"

definition value_error_in :: "string set \<Rightarrow> py_error \<Rightarrow> bool" where
  "value_error_in msgs e \<longleftrightarrow> (case e of ValueError m \<Rightarrow> m \<in> msgs | _ \<Rightarrow> False)"

text \<open>\<open>_gather\<close>, one definition per intent\<close>

definition gather_project :: "'w workflow \<Rightarrow> graph_state \<Rightarrow> 'w \<Rightarrow> graph_state res \<times> 'w" where
  "gather_project wk st w =
    (case wf_project_tool wk of
       None \<Rightarrow> (missing_optional_evidence st JiraIssues ''Current project evidence is unavailable.'' 0, w)
     | Some snap \<Rightarrow>
        (let (snapshot, w1) = snap (er_project_key (gs_references st)) (corr_of st) w in
         (bindr snapshot (\<lambda>s. Inr ((calls_done 1 (step_done st))\<lparr>gs_project_snapshot := Some s\<rparr>)), w1)))"

definition gather_task_query :: "'w workflow \<Rightarrow> graph_state \<Rightarrow> 'w \<Rightarrow> graph_state res \<times> 'w" where
  "gather_task_query wk st w =
    (case wf_task_query_tool wk of
       None \<Rightarrow> (missing_optional_evidence st JiraIssues ''Current structured Jira task evidence is unavailable.'' 0, w)
     | Some query \<Rightarrow>
        (case query (gs_question st) (gs_references st) (corr_of st) (gs_previous_answer_context st) w of
           (Inr r, w1) \<Rightarrow> (Inr ((calls_done 1 (step_done st))\<lparr>gs_task_query_result := Some r\<rparr>), w1)
         | (Inl e, w1) \<Rightarrow>
            (if \<not> value_error_in unsupported_task_query_errors e then (Inl e, w1)
             else case wf_project_tool wk of
               None \<Rightarrow> (missing_optional_evidence st JiraIssues ''Current structured Jira task evidence is unavailable.'' 1, w1)
             | Some snap \<Rightarrow>
                (if gs_tool_calls_used st + 1 \<ge> wf_max_tool_calls wk then (tool_call_limit, w1)
                 else let (snapshot, w2) = snap (er_project_key (gs_references st)) (corr_of st) w1 in
                   (bindr snapshot (\<lambda>s. Inr ((calls_done 2 (step_done st))\<lparr>gs_intent := Some ExplainProjectRisk,
                      gs_project_snapshot := Some s\<rparr>)), w2)))))"

definition gather_history :: "'w workflow \<Rightarrow> graph_state \<Rightarrow> 'w \<Rightarrow> graph_state res \<times> 'w" where
  "gather_history wk st w =
    (case (wf_historical_tool wk, er_employee_id (gs_references st)) of
       (Some get, Some e) \<Rightarrow>
         (let (r, w1) = get (gs_question st) e (er_project_key (gs_references st)) (corr_of st) w in
          (bindr r (\<lambda>h.
             let st1 = (calls_done 1 (step_done st))\<lparr>gs_risk := Some (hc_risk h), gs_evidence_dossier := Some (hc_dossier h)\<rparr>
             in Inr (case hc_previous_dossier h of None \<Rightarrow> st1 | Some x \<Rightarrow> st1\<lparr>gs_previous_evidence_dossier := Some x\<rparr>)), w1))
     | _ \<Rightarrow> (missing_optional_evidence st HistoryEvidence ''Historical employee evidence is unavailable.'' 0, w))"

definition gather_risk :: "'w workflow \<Rightarrow> intent \<Rightarrow> graph_state \<Rightarrow> 'w \<Rightarrow> graph_state res \<times> 'w" where
  "gather_risk wk i st w =
    (case wf_tool wk i (gs_references st) (corr_of st) w of
       (Inl e, w1) \<Rightarrow>
         (if value_error_in optional_domain_evidence_errors e
          then (missing_optional_evidence st RiskResults
            ''The requested optional domain evidence is not available in the current evidence mode.'' 1, w1)
          else (Inl e, w1))
     | (Inr r, w1) \<Rightarrow>
        (case (wf_dossier_tool wk, er_employee_id (gs_references st)) of
           (Some get, Some e) \<Rightarrow>
             (if i \<noteq> ExplainEmployeeOverload then (Inr ((calls_done 1 (step_done st))\<lparr>gs_risk := Some r\<rparr>), w1)
              else if gs_tool_calls_used st + 1 \<ge> wf_max_tool_calls wk then (tool_call_limit, w1)
              else let (d, w2) = get e (er_project_key (gs_references st)) (corr_of st) w1 in
                (bindr d (\<lambda>d. Inr ((calls_done 2 (step_done st))\<lparr>gs_risk := Some r, gs_evidence_dossier := Some d\<rparr>)), w2))
         | _ \<Rightarrow> (Inr ((calls_done 1 (step_done st))\<lparr>gs_risk := Some r\<rparr>), w1)))"

definition gather_node :: "'w workflow \<Rightarrow> graph_state \<Rightarrow> 'w \<Rightarrow> graph_state res \<times> 'w" where
  "gather_node wk st w =
    (if gs_tool_calls_used st \<ge> wf_max_tool_calls wk then (tool_call_limit, w)
     else case gs_intent st of
       None \<Rightarrow> (Inl (KeyError ''intent''), w)
     | Some i \<Rightarrow> (if i = ExplainProjectRisk then gather_project wk st w
         else if i = JiraTaskQuery then gather_task_query wk st w
         else if i = ExplainHistory then gather_history wk st w
         else gather_risk wk i st w))"

definition request_of :: "intent \<Rightarrow> graph_state \<Rightarrow> explanation_request" where
  "request_of i st = \<lparr>xq_workflow = intent_value i, xq_question = gs_question st, xq_risk = gs_risk st,
     xq_project_snapshot = gs_project_snapshot st, xq_task_query_result = gs_task_query_result st,
     xq_evidence_dossier = gs_evidence_dossier st, xq_previous_evidence_dossier = gs_previous_evidence_dossier st,
     xq_previous_answer_context = gs_previous_answer_context st, xq_universal_evidence = gs_universal_evidence st,
     xq_candidate_ids = [], xq_untrusted_evidence = [], xq_correlation_id = corr_of st\<rparr>"

definition explain_node :: "'w workflow \<Rightarrow> graph_state \<Rightarrow> 'w \<Rightarrow> graph_state res \<times> 'w" where
  "explain_node wk st w =
    (case gs_intent st of
       None \<Rightarrow> (Inl (KeyError ''intent''), w)
     | Some i \<Rightarrow> (let (r, w1) = wf_explainer wk (request_of i st) w in
         (bindr r (\<lambda>x. Inr ((step_done st)\<lparr>gs_explanation := Some x\<rparr>)), w1)))"

section \<open>The graph\<close>

datatype graph_node = ReceiveVerifiedContext | Classify | PlanEvidence | CollectEvidence | Gather | Explain | Capability

fun run_node :: "'w workflow \<Rightarrow> graph_node \<Rightarrow> graph_state \<Rightarrow> 'w \<Rightarrow> graph_state res \<times> 'w" where
  "run_node wk ReceiveVerifiedContext st w = (receive_verified_context st, w)"
| "run_node wk Classify st w = (classify_supported_intent st, w)"
| "run_node wk PlanEvidence st w = plan_node wk st w"
| "run_node wk CollectEvidence st w = collect_node wk st w"
| "run_node wk Gather st w = gather_node wk st w"
| "run_node wk Explain st w = explain_node wk st w"
| "run_node wk Capability st w = (capability_response st, w)"

definition route_after_classification :: "graph_state \<Rightarrow> graph_node" where
  "route_after_classification st = (if gs_intent st = Some Unsupported then Capability else Gather)"

text \<open>The edges; None is END.\<close>

fun next_node :: "'w workflow \<Rightarrow> graph_state \<Rightarrow> graph_node \<Rightarrow> graph_node option" where
  "next_node wk st ReceiveVerifiedContext = Some Classify"
| "next_node wk st Classify = Some (if wf_project_tool wk \<noteq> None then PlanEvidence else route_after_classification st)"
| "next_node wk st PlanEvidence = Some CollectEvidence"
| "next_node wk st CollectEvidence = Some Explain"
| "next_node wk st Gather = Some Explain"
| "next_node wk st Explain = None"
| "next_node wk st Capability = None"

text \<open>A run from a node, with at most as many steps as the first argument\<close>

fun run_graph :: "'w workflow \<Rightarrow> nat \<Rightarrow> graph_node \<Rightarrow> graph_state \<Rightarrow> 'w \<Rightarrow> graph_state res \<times> 'w" where
  "run_graph wk 0 n st w = (Inl (OtherException ''GraphRecursionError''), w)"
| "run_graph wk (Suc k) n st w =
     (case run_node wk n st w of
        (Inl e, w1) \<Rightarrow> (Inl e, w1)
      | (Inr st1, w1) \<Rightarrow> (case next_node wk st1 n of None \<Rightarrow> (Inr st1, w1) | Some m \<Rightarrow> run_graph wk k m st1 w1))"

definition initial_state :: "agent_context \<Rightarrow> string \<Rightarrow> entity_references \<Rightarrow> grounded_context option \<Rightarrow> graph_state" where
  "initial_state context question refs previous = \<lparr>gs_context = context, gs_question = question, gs_references = refs,
     gs_steps_used = 0, gs_tool_calls_used = 0, gs_intent = None, gs_evidence_plan = None, gs_universal_evidence = None,
     gs_ambiguous_references = None, gs_risk = None, gs_evidence_dossier = None, gs_previous_evidence_dossier = None,
     gs_task_query_result = None, gs_previous_answer_context = previous, gs_project_snapshot = None, gs_explanation = None,
     gs_capability_guidance = None, gs_missing_sources = None\<rparr>"

definition final_context :: "graph_state \<Rightarrow> grounded_context option" where
  "final_context st = (case gs_task_query_result st of
     Some r \<Rightarrow> qr_context r
   | None \<Rightarrow> map_option answer_context_from_evidence (Option.bind (gs_universal_evidence st) ub_answer_evidence))"

definition response_of :: "agent_context \<Rightarrow> graph_state \<Rightarrow> investigation_response res" where
  "response_of context st = (case gs_intent st of
     None \<Rightarrow> Inl (KeyError ''intent'')
   | Some i \<Rightarrow> Inr \<lparr>iv_correlation_id = vc_correlation_id context, iv_intent = i, iv_risk = gs_risk st,
       iv_explanation = gs_explanation st, iv_capability_guidance = gs_capability_guidance st,
       iv_missing_sources = (case gs_missing_sources st of None \<Rightarrow> [] | Some m \<Rightarrow> m), iv_steps_used = gs_steps_used st,
       iv_tool_calls_used = gs_tool_calls_used st, iv_answer_context = final_context st\<rparr>)"

text \<open>\<open>run\<close>; the deadline is not modelled (it raises TimeoutError wherever the run is).\<close>

definition run_workflow ::
  "'w workflow \<Rightarrow> agent_context \<Rightarrow> string \<Rightarrow> entity_references \<Rightarrow> grounded_context option \<Rightarrow> 'w \<Rightarrow> investigation_response res \<times> 'w" where
  "run_workflow wk context question refs previous w =
    (if length question > 1000 then (Inl (ValueError ''question exceeds size limit''), w)
     else let (r, w1) = run_graph wk (wf_max_steps wk) ReceiveVerifiedContext (initial_state context question refs previous) w
       in (bindr r (response_of context), w1))"

section \<open>Runs\<close>

text \<open>How many nodes can still run from a node on, and the states a run can be in before a node runs.\<close>

fun nodes_left :: "graph_node \<Rightarrow> nat" where
  "nodes_left ReceiveVerifiedContext = 5"
| "nodes_left Classify = 4"
| "nodes_left PlanEvidence = 3"
| "nodes_left CollectEvidence = 2"
| "nodes_left Gather = 2"
| "nodes_left Explain = 1"
| "nodes_left Capability = 1"

lemma nodes_left_pos [simp]: "0 < nodes_left n" "nodes_left n \<noteq> 0"
  by (cases n; simp)+

lemma next_node_left: "next_node wk st n = Some m \<Longrightarrow> nodes_left m < nodes_left n"
  by (cases n) (auto simp: route_after_classification_def split: if_splits)

inductive reached :: "'w workflow \<Rightarrow> graph_state \<Rightarrow> 'w \<Rightarrow> graph_node \<Rightarrow> graph_state \<Rightarrow> 'w \<Rightarrow> bool" for wk st0 w0 where
  started: "reached wk st0 w0 ReceiveVerifiedContext st0 w0"
| stepped: "reached wk st0 w0 n st w \<Longrightarrow> run_node wk n st w = (Inr st1, w1) \<Longrightarrow> next_node wk st1 n = Some m
    \<Longrightarrow> reached wk st0 w0 m st1 w1"

lemma run_graph_enough:
  "nodes_left n \<le> k \<Longrightarrow> nodes_left n \<le> k' \<Longrightarrow> run_graph wk k n st w = run_graph wk k' n st w"
proof (induction k arbitrary: k' n st w)
  case (Suc k)
  then obtain j where j: "k' = Suc j" using nodes_left_pos(1) [of n] by (cases k') auto
  have "run_graph wk k m st1 w1 = run_graph wk j m st1 w1" if "next_node wk st1 n = Some m" for m st1 w1
    using Suc.IH [of m j st1 w1] Suc.prems next_node_left [OF that] j by simp
  then show ?case by (auto simp: j split: prod.splits sum.splits option.splits)
qed simp

lemma run_graph_ends:
  assumes "nodes_left n \<le> k" "reached wk st0 w0 n st w" "run_graph wk k n st w = (r, w')"
  obtains m st1 w1 where "reached wk st0 w0 m st1 w1" "run_node wk m st1 w1 = (r, w')"
    "\<And>st2. r = Inr st2 \<Longrightarrow> next_node wk st2 m = None"
  using assms
proof (induction k arbitrary: n st w thesis)
  case (Suc k)
  obtain r1 w1 where run: "run_node wk n st w = (r1, w1)" by fastforce
  show ?case
  proof (cases r1)
    case (Inl e)
    then show ?thesis using Suc.prems run by (intro Suc.prems(1) [of n st w]) auto
  next
    case (Inr st1)
    show ?thesis
    proof (cases "next_node wk st1 n")
      case None
      then show ?thesis using Suc.prems run Inr by (intro Suc.prems(1) [of n st w]) auto
    next
      case (Some m)
      with run Inr Suc.prems(3) have "reached wk st0 w0 m st1 w1" by (auto intro: stepped)
      moreover have "nodes_left m \<le> k" "run_graph wk k m st1 w1 = (r, w')"
        using Suc.prems(2,4) next_node_left [OF Some] run Inr Some by simp_all
      ultimately show ?thesis using Suc.prems(1) by (meson Suc.IH)
    qed
  qed
qed simp

section \<open>What a node keeps\<close>

text \<open>Context, question and references stay, the step is counted, an intent stays one.\<close>

definition kept :: "graph_state \<Rightarrow> graph_state \<Rightarrow> bool" where
  "kept st st1 \<longleftrightarrow> gs_context st1 = gs_context st \<and> gs_references st1 = gs_references st \<and> gs_question st1 = gs_question st \<and>
     gs_steps_used st1 = gs_steps_used st + 1 \<and> (gs_intent st \<noteq> None \<longrightarrow> gs_intent st1 \<noteq> None)"

definition unanswered :: "graph_state \<Rightarrow> bool" where
  "unanswered st \<longleftrightarrow> gs_explanation st = None \<and> gs_capability_guidance st = None"

lemma missing_optional_evidence_Inr:
  assumes "missing_optional_evidence st k reason n = Inr st1"
  obtains b where "st1 = (calls_done n (step_done st))\<lparr>gs_universal_evidence := Some b\<rparr>" "ub_answer_evidence b = None"
  using assms by (auto simp: missing_optional_evidence_def Let_def bindr_Inr_iff)

lemmas node_splits = prod.splits sum.splits option.splits if_splits
lemmas kept_simps = kept_def unanswered_def step_done_def calls_done_def

lemma missing_kept: "missing_optional_evidence st k reason n = Inr st1 \<Longrightarrow> unanswered st \<Longrightarrow> kept st st1 \<and> unanswered st1"
  by (elim missing_optional_evidence_Inr) (simp add: kept_simps)

lemma gather_project_kept: "gather_project wk st w = (Inr st1, w1) \<Longrightarrow> unanswered st \<Longrightarrow> kept st st1 \<and> unanswered st1"
  by (auto simp: gather_project_def Let_def bindr_Inr_iff kept_simps dest: missing_kept split: node_splits)

lemma gather_task_query_kept: "gather_task_query wk st w = (Inr st1, w1) \<Longrightarrow> unanswered st \<Longrightarrow> kept st st1 \<and> unanswered st1"
  unfolding gather_task_query_def Let_def
  by (simp split: node_splits; auto simp: bindr_Inr_iff kept_simps dest: missing_kept split: option.splits)

lemma gather_history_kept: "gather_history wk st w = (Inr st1, w1) \<Longrightarrow> unanswered st \<Longrightarrow> kept st st1 \<and> unanswered st1"
  unfolding gather_history_def Let_def
  by (simp split: node_splits; auto simp: bindr_Inr_iff kept_simps dest: missing_kept split: option.splits)

lemma gather_risk_kept: "gather_risk wk i st w = (Inr st1, w1) \<Longrightarrow> unanswered st \<Longrightarrow> kept st st1 \<and> unanswered st1"
  unfolding gather_risk_def Let_def
  by (simp split: node_splits; auto simp: bindr_Inr_iff kept_simps dest: missing_kept split: option.splits)

lemma plan_node_kept: "plan_node wk st w = (Inr st1, w1) \<Longrightarrow> unanswered st \<Longrightarrow> kept st st1 \<and> unanswered st1"
  unfolding plan_node_def Let_def by (auto simp: bindr_Inr_iff kept_simps split: prod.splits if_splits)

lemma collect_node_kept:
  assumes "collect_node wk st w = (Inr st1, w1)" "unanswered st"
  shows "kept st st1 \<and> unanswered st1"
  using assms unfolding collect_node_def Let_def
  by (simp split: node_splits; auto simp: bindr_Inr_iff kept_simps split: option.splits)

text \<open>Only Explain and Capability answer, and with the intent classified each of the others keeps it.\<close>

lemma run_node_kept:
  assumes "run_node wk n st w = (Inr st1, w1)" "unanswered st"
  shows "kept st st1" and "n \<notin> {Explain, Capability} \<Longrightarrow> unanswered st1"
    and "gs_intent st \<noteq> None \<or> n = Classify \<Longrightarrow> gs_intent st1 \<noteq> None"
    and "n = Explain \<Longrightarrow> gs_explanation st1 \<noteq> None \<and> gs_capability_guidance st1 = None"
    and "n = Capability \<Longrightarrow> gs_explanation st1 = None \<and> gs_capability_guidance st1 \<noteq> None"
proof -
  have g: "gather_node wk st w = (Inr st1, w1) \<Longrightarrow> kept st st1 \<and> unanswered st1"
    using assms(2) by (auto simp: gather_node_def split: if_splits option.splits
      dest: gather_project_kept gather_task_query_kept gather_history_kept gather_risk_kept)
  have "kept st st1 \<and> (n \<notin> {Explain, Capability} \<longrightarrow> unanswered st1) \<and> (n = Classify \<longrightarrow> gs_intent st1 \<noteq> None) \<and>
      (n = Explain \<longrightarrow> gs_explanation st1 \<noteq> None \<and> gs_capability_guidance st1 = None) \<and>
      (n = Capability \<longrightarrow> gs_explanation st1 = None \<and> gs_capability_guidance st1 \<noteq> None)"
  proof (cases n)
    case PlanEvidence then show ?thesis using assms plan_node_kept by fastforce
  next
    case CollectEvidence then show ?thesis using assms collect_node_kept by fastforce
  next
    case Gather then show ?thesis using assms g by simp
  next
    case Explain then show ?thesis using assms
      by (auto simp: explain_node_def Let_def bindr_Inr_iff kept_simps split: prod.splits option.splits)
  qed (use assms in \<open>auto simp: receive_verified_context_def classify_supported_intent_def capability_response_def Let_def kept_simps
      split: if_splits\<close>)
  then show "kept st st1" "n \<notin> {Explain, Capability} \<Longrightarrow> unanswered st1"
    "gs_intent st \<noteq> None \<or> n = Classify \<Longrightarrow> gs_intent st1 \<noteq> None"
    "n = Explain \<Longrightarrow> gs_explanation st1 \<noteq> None \<and> gs_capability_guidance st1 = None"
    "n = Capability \<Longrightarrow> gs_explanation st1 = None \<and> gs_capability_guidance st1 \<noteq> None"
    by (auto simp: kept_def)
qed

section \<open>Calls\<close>

text \<open>A counter on the world that a tool raises by at most one, and planner and explainer not at all\<close>

definition counts_calls :: "('w \<Rightarrow> nat) \<Rightarrow> 'w workflow \<Rightarrow> bool" where
  "counts_calls c wk \<longleftrightarrow> (\<forall>i r x w. c (snd (wf_tool wk i r x w)) \<le> c w + 1) \<and>
     (\<forall>f q r x p w. wf_task_query_tool wk = Some f \<longrightarrow> c (snd (f q r x p w)) \<le> c w + 1) \<and>
     (\<forall>f e k x w. wf_dossier_tool wk = Some f \<longrightarrow> c (snd (f e k x w)) \<le> c w + 1) \<and>
     (\<forall>f q e k x w. wf_historical_tool wk = Some f \<longrightarrow> c (snd (f q e k x w)) \<le> c w + 1) \<and>
     (\<forall>f k x w. wf_project_tool wk = Some f \<longrightarrow> c (snd (f k x w)) \<le> c w + 1) \<and>
     (\<forall>f q k e p x w. wf_planner wk = Some f \<longrightarrow> c (snd (f q k e p x w)) \<le> c w) \<and>
     (\<forall>q w. c (snd (wf_explainer wk q w)) \<le> c w)"

lemma counts_calls_dests:
  assumes "counts_calls c wk"
  shows "wf_tool wk i rs x w = (r, w1) \<Longrightarrow> c w1 \<le> c w + 1"
    and "wf_task_query_tool wk = Some fq \<Longrightarrow> fq q rs x p w = (rq, w1) \<Longrightarrow> c w1 \<le> c w + 1"
    and "wf_dossier_tool wk = Some fd \<Longrightarrow> fd e k x w = (rd, w1) \<Longrightarrow> c w1 \<le> c w + 1"
    and "wf_historical_tool wk = Some fh \<Longrightarrow> fh q e k x w = (rh, w1) \<Longrightarrow> c w1 \<le> c w + 1"
    and "wf_project_tool wk = Some fp \<Longrightarrow> fp k x w = (rp, w1) \<Longrightarrow> c w1 \<le> c w + 1"
    and "wf_planner wk = Some fpl \<Longrightarrow> fpl q k e' p x w = (rl, w1) \<Longrightarrow> c w1 \<le> c w"
    and "wf_explainer wk xq w = (rx, w1) \<Longrightarrow> c w1 \<le> c w"
  using assms unfolding counts_calls_def by (metis snd_conv)+

text \<open>What a node may use of the calls: \<open>budget c m st w r w1\<close> for a limit of \<open>m\<close>\<close>

definition budget :: "('w \<Rightarrow> nat) \<Rightarrow> int \<Rightarrow> graph_state \<Rightarrow> 'w \<Rightarrow> graph_state res \<Rightarrow> 'w \<Rightarrow> bool" where
  "budget c m st w r w1 \<longleftrightarrow> (case r of
     Inl _ \<Rightarrow> int (c w1) + gs_tool_calls_used st \<le> int (c w) + max m (gs_tool_calls_used st)
   | Inr st1 \<Rightarrow> gs_tool_calls_used st \<le> gs_tool_calls_used st1 \<and> gs_tool_calls_used st1 \<le> max m (gs_tool_calls_used st) \<and>
       int (c w1) + gs_tool_calls_used st \<le> int (c w) + gs_tool_calls_used st1)"

lemma missing_budget:
  assumes "int (c w1) \<le> int (c w) + n" "0 \<le> n" "gs_tool_calls_used st + n \<le> m"
  shows "budget c m st w (missing_optional_evidence st k reason n) w1"
proof (cases "missing_optional_evidence st k reason n")
  case (Inr st1)
  then show ?thesis using assms
    by (elim missing_optional_evidence_Inr) (simp add: budget_def Inr calls_done_def step_done_def)
qed (use assms in \<open>simp add: budget_def\<close>)

lemma budget_Inl: "int (c w1) \<le> int (c w) + n \<Longrightarrow> gs_tool_calls_used st + n \<le> m \<Longrightarrow> budget c m st w (Inl e) w1"
  by (simp add: budget_def)

lemma budget_Inr:
  "int (c w1) \<le> int (c w) + n \<Longrightarrow> 0 \<le> n \<Longrightarrow> gs_tool_calls_used st + n \<le> m \<Longrightarrow> gs_tool_calls_used st1 = gs_tool_calls_used st + n
     \<Longrightarrow> budget c m st w (Inr st1) w1"
  by (simp add: budget_def)

lemma budget_bind:
  assumes "int (c w1) \<le> int (c w) + n" "0 \<le> n" "gs_tool_calls_used st + n \<le> m"
    and "\<And>x. r = Inr x \<Longrightarrow> (case f x of Inl _ \<Rightarrow> True | Inr st1 \<Rightarrow> gs_tool_calls_used st1 = gs_tool_calls_used st + n)"
  shows "budget c m st w (bindr r f) w1"
proof (cases "bindr r f")
  case (Inr st1)
  then show ?thesis using assms by (auto simp: bindr_Inr_iff intro!: budget_Inr)
qed (use assms in \<open>auto intro: budget_Inl\<close>)

lemma gather_project_budget:
  assumes "counts_calls c wk" "gs_tool_calls_used st < m" "gather_project wk st w = (r, w1)"
  shows "budget c m st w r w1"
proof (cases "wf_project_tool wk")
  case (Some f)
  then obtain s where s: "f (er_project_key (gs_references st)) (corr_of st) w = (s, w1)"
    "r = bindr s (\<lambda>s. Inr ((calls_done 1 (step_done st))\<lparr>gs_project_snapshot := Some s\<rparr>))"
    using assms(3) by (auto simp: gather_project_def Let_def split: prod.splits)
  from counts_calls_dests(5) [OF assms(1) Some s(1)] assms(2) show ?thesis
    unfolding s(2) by (intro budget_bind [where n = 1]) (auto simp: calls_done_def step_done_def)
qed (use assms in \<open>auto simp: gather_project_def intro!: missing_budget\<close>)

lemma gather_history_budget:
  assumes "counts_calls c wk" "gs_tool_calls_used st < m" "gather_history wk st w = (r, w1)"
  shows "budget c m st w r w1"
proof (cases "wf_historical_tool wk = None \<or> er_employee_id (gs_references st) = None")
  case False
  then obtain f e where f: "wf_historical_tool wk = Some f" "er_employee_id (gs_references st) = Some e" by auto
  obtain h where h: "f (gs_question st) e (er_project_key (gs_references st)) (corr_of st) w = (h, w1)"
    using assms(3) f by (auto simp: gather_history_def Let_def split: prod.splits)
  from counts_calls_dests(4) [OF assms(1) f(1) h] assms(2) have b: "int (c w1) \<le> int (c w) + 1" by simp
  have r: "r = fst (gather_history wk st w)" using assms(3) by simp
  show ?thesis using b assms(2) unfolding r gather_history_def
    by (auto simp: f h Let_def calls_done_def step_done_def intro!: budget_bind [where n = 1] split: option.splits)
next
  case True
  then have "(r, w1) = (missing_optional_evidence st HistoryEvidence ''Historical employee evidence is unavailable.'' 0, w)"
    using assms(3) by (auto simp: gather_history_def split: option.splits)
  then show ?thesis using assms(2) by (auto intro!: missing_budget)
qed

lemma gather_task_query_budget:
  assumes "counts_calls c wk" "gs_tool_calls_used st < wf_max_tool_calls wk" "gather_task_query wk st w = (r, w2)"
  shows "budget c (wf_max_tool_calls wk) st w r w2"
proof (cases "wf_task_query_tool wk")
  case (Some f)
  obtain q w1 where q: "f (gs_question st) (gs_references st) (corr_of st) (gs_previous_answer_context st) w = (q, w1)" by fastforce
  from counts_calls_dests(2) [OF assms(1) Some q] have b: "int (c w1) \<le> int (c w) + 1" by simp
  have r: "(r, w2) = gather_task_query wk st w" using assms(3) by simp
  show ?thesis
  proof (cases "\<exists>e p. q = Inl e \<and> value_error_in unsupported_task_query_errors e \<and> wf_project_tool wk = Some p")
    case True
    then obtain e p where e: "q = Inl e" "value_error_in unsupported_task_query_errors e" "wf_project_tool wk = Some p" by auto
    obtain s w3 where s: "p (er_project_key (gs_references st)) (corr_of st) w1 = (s, w3)" by fastforce
    from counts_calls_dests(5) [OF assms(1) e(3) s] b have b2: "int (c w3) \<le> int (c w) + 2" by simp
    show ?thesis using r b b2 assms(2)
      by (auto simp: gather_task_query_def Some q e s Let_def calls_done_def step_done_def
          intro!: budget_bind [where n = 2] budget_Inl [where n = 1] split: if_splits)
  next
    case False
    then show ?thesis using r b assms(2)
      by (auto simp: gather_task_query_def Some q calls_done_def step_done_def
          intro!: missing_budget budget_Inl [where n = 1] budget_Inr [where n = 1] split: sum.splits option.splits if_splits)
  qed
qed (use assms in \<open>auto simp: gather_task_query_def intro!: missing_budget\<close>)

lemma gather_risk_budget:
  assumes "counts_calls c wk" "gs_tool_calls_used st < wf_max_tool_calls wk" "gather_risk wk i st w = (r, w2)"
  shows "budget c (wf_max_tool_calls wk) st w r w2"
proof -
  obtain q w1 where q: "wf_tool wk i (gs_references st) (corr_of st) w = (q, w1)" by fastforce
  from counts_calls_dests(1) [OF assms(1) q] have b: "int (c w1) \<le> int (c w) + 1" by simp
  have r: "(r, w2) = gather_risk wk i st w" using assms(3) by simp
  show ?thesis
  proof (cases "\<exists>x d e. q = Inr x \<and> wf_dossier_tool wk = Some d \<and> er_employee_id (gs_references st) = Some e \<and> i = ExplainEmployeeOverload")
    case True
    then obtain x d e where e: "q = Inr x" "wf_dossier_tool wk = Some d" "er_employee_id (gs_references st) = Some e" by auto
    obtain s w3 where s: "d e (er_project_key (gs_references st)) (corr_of st) w1 = (s, w3)" by fastforce
    from counts_calls_dests(3) [OF assms(1) e(2) s] b have b2: "int (c w3) \<le> int (c w) + 2" by simp
    show ?thesis using r b b2 assms(2)
      by (auto simp: gather_risk_def q e s Let_def calls_done_def step_done_def
          intro!: budget_bind [where n = 2] budget_Inl [where n = 1] budget_Inr [where n = 1] split: if_splits)
  next
    case False
    then show ?thesis using r b assms(2)
      by (auto simp: gather_risk_def q calls_done_def step_done_def
          intro!: missing_budget budget_Inl [where n = 1] budget_Inr [where n = 1] split: sum.splits option.splits if_splits)
  qed
qed

lemma budget_refl: "gs_tool_calls_used st1 = gs_tool_calls_used st \<Longrightarrow> c w1 \<le> c w \<Longrightarrow> budget c m st w (Inr st1) w1"
  "c w1 \<le> c w \<Longrightarrow> budget c m st w (Inl e) w1"
  by (simp_all add: budget_def)

lemma plan_node_budget:
  assumes "counts_calls c wk" "plan_node wk st w = (r, w1)"
  shows "budget c m st w r w1"
proof -
  have "c w1 \<le> c w"
    using assms by (auto simp: plan_node_def Let_def split: prod.splits option.splits dest: counts_calls_dests(6))
  moreover have "r = Inr st1 \<Longrightarrow> gs_tool_calls_used st1 = gs_tool_calls_used st" for st1
    using assms(2) by (auto simp: plan_node_def Let_def bindr_Inr_iff step_done_def split: prod.splits if_splits)
  ultimately show ?thesis by (cases r) (auto intro: budget_refl)
qed

lemma collect_node_budget:
  assumes "counts_calls c wk" "collect_node wk st w = (r, w1)"
  shows "budget c (wf_max_tool_calls wk) st w r w1"
proof (cases "wf_project_tool wk = None \<or> gs_tool_calls_used st \<ge> wf_max_tool_calls wk \<or> gs_evidence_plan st = None")
  case True
  then show ?thesis using assms(2) by (auto simp: collect_node_def intro: budget_refl split: option.splits if_splits)
next
  case False
  then obtain f p where f: "wf_project_tool wk = Some f" "gs_evidence_plan st = Some p" by auto
  obtain s w2 where s: "f (er_project_key (gs_references st)) (corr_of st) w = (s, w2)" by fastforce
  from counts_calls_dests(5) [OF assms(1) f(1) s] have "int (c w2) \<le> int (c w) + 1" by simp
  moreover have "(r, w1) = collect_node wk st w" using assms(2) by simp
  ultimately show ?thesis using False
    by (auto simp: collect_node_def f s Let_def calls_done_def step_done_def bindr_Inr_iff
        intro!: budget_bind [where n = 1] split: sum.splits)
qed

lemma run_node_budget:
  assumes "counts_calls c wk" "run_node wk n st w = (r, w1)"
  shows "budget c (wf_max_tool_calls wk) st w r w1"
proof (cases n)
  case PlanEvidence then show ?thesis using assms plan_node_budget by fastforce
next
  case CollectEvidence then show ?thesis using assms collect_node_budget by fastforce
next
  case Gather
  then show ?thesis using assms(2) gather_task_query_budget [OF assms(1)] gather_risk_budget [OF assms(1)]
      gather_project_budget [OF assms(1)] gather_history_budget [OF assms(1)]
    by (auto simp: gather_node_def intro: budget_refl split: if_splits option.splits)
next
  case Explain
  then show ?thesis using assms(2) counts_calls_dests(7) [OF assms(1)]
    by (cases r) (auto simp: explain_node_def Let_def bindr_Inr_iff step_done_def intro!: budget_refl split: prod.splits option.splits)
qed (use assms(2) in \<open>auto simp: receive_verified_context_def classify_supported_intent_def capability_response_def Let_def step_done_def
    intro!: budget_refl split: if_splits\<close>)

section \<open>The invariant of a run\<close>

definition in_scope :: "graph_state \<Rightarrow> bool" where
  "in_scope st \<longleftrightarrow> er_project_key (gs_references st) \<in> set (vc_authorized_project_keys (gs_context st))"

lemma reached_state:
  assumes "reached wk st0 w0 n st w" "gs_steps_used st0 = 0" "unanswered st0" "gs_tool_calls_used st0 = 0" "gs_intent st0 = None"
  shows "gs_context st = gs_context st0" and "gs_references st = gs_references st0" and "gs_question st = gs_question st0"
    and "gs_steps_used st + int (nodes_left n) \<le> 5" and "unanswered st"
    and "n = ReceiveVerifiedContext \<or> in_scope st0" and "n = ReceiveVerifiedContext \<Longrightarrow> st = st0 \<and> w = w0"
    and "n \<notin> {ReceiveVerifiedContext, Classify} \<Longrightarrow> gs_intent st \<noteq> None"
proof -
  have "gs_context st = gs_context st0 \<and> gs_references st = gs_references st0 \<and> gs_question st = gs_question st0 \<and>
    gs_steps_used st + int (nodes_left n) \<le> 5 \<and> unanswered st \<and> (n = ReceiveVerifiedContext \<or> in_scope st0) \<and>
    (n = ReceiveVerifiedContext \<longrightarrow> st = st0 \<and> w = w0) \<and> (n \<notin> {ReceiveVerifiedContext, Classify} \<longrightarrow> gs_intent st \<noteq> None)"
    using assms(1)
  proof (induction rule: reached.induct)
    case (stepped n st w st1 w1 m)
    note kept = run_node_kept [OF stepped.hyps(2)]
    from stepped.IH have u: "unanswered st" by blast
    have left: "nodes_left m < nodes_left n" using stepped.hyps(3) by (rule next_node_left)
    have scope: "in_scope st0" if "n = ReceiveVerifiedContext"
      using stepped.hyps(2) stepped.IH that by (auto simp: receive_verified_context_def in_scope_def split: if_splits)
    have n: "n \<notin> {Explain, Capability}" using stepped.hyps(3) by auto
    have m: "m \<noteq> ReceiveVerifiedContext" "m \<notin> {ReceiveVerifiedContext, Classify} \<Longrightarrow> n \<noteq> ReceiveVerifiedContext"
      using stepped.hyps(3) by (cases n; auto simp: route_after_classification_def split: if_splits)+
    have i: "gs_intent st1 \<noteq> None" if "m \<notin> {ReceiveVerifiedContext, Classify}"
      using kept(3) [OF u] stepped.IH m(2) [OF that] by blast
    show ?case using kept(1,2) [OF u] n left stepped.IH scope m(1) i by (auto simp: kept_def)
  qed (use assms in auto)
  then show "gs_context st = gs_context st0" "gs_references st = gs_references st0" "gs_question st = gs_question st0"
    "gs_steps_used st + int (nodes_left n) \<le> 5" "unanswered st" "n = ReceiveVerifiedContext \<or> in_scope st0"
    "n = ReceiveVerifiedContext \<Longrightarrow> st = st0 \<and> w = w0" "n \<notin> {ReceiveVerifiedContext, Classify} \<Longrightarrow> gs_intent st \<noteq> None"
    by blast+
qed

lemma reached_calls:
  assumes "reached wk st0 w0 n st w" "counts_calls c wk" "gs_tool_calls_used st0 = 0"
  shows "0 \<le> gs_tool_calls_used st \<and> gs_tool_calls_used st \<le> max 0 (wf_max_tool_calls wk) \<and> int (c w) \<le> int (c w0) + gs_tool_calls_used st"
  using assms(1)
proof (induction rule: reached.induct)
  case (stepped n st w st1 w1 m)
  from run_node_budget [OF assms(2) stepped.hyps(2)] stepped.IH show ?case
    by (auto simp: budget_def max_def split: if_splits)
qed (simp add: assms)

lemma initial_state_simps [simp]:
  "gs_context (initial_state ctx q refs prev) = ctx" "gs_references (initial_state ctx q refs prev) = refs"
  "gs_question (initial_state ctx q refs prev) = q" "gs_steps_used (initial_state ctx q refs prev) = 0"
  "gs_tool_calls_used (initial_state ctx q refs prev) = 0" "gs_intent (initial_state ctx q refs prev) = None"
  "unanswered (initial_state ctx q refs prev)"
  by (simp_all add: initial_state_def unanswered_def)

text \<open>The last node of a run\<close>

lemma run_workflow_ends:
  assumes "run_workflow wk ctx q refs prev w = (r, w')" "length q \<le> 1000" "5 \<le> wf_max_steps wk"
  obtains m st w1 g where "reached wk (initial_state ctx q refs prev) w m st w1" "run_node wk m st w1 = (g, w')"
    "r = bindr g (response_of ctx)" "\<And>st2. g = Inr st2 \<Longrightarrow> next_node wk st2 m = None"
proof -
  obtain g where g: "run_graph wk (wf_max_steps wk) ReceiveVerifiedContext (initial_state ctx q refs prev) w = (g, w')"
    "r = bindr g (response_of ctx)"
    using assms(1,2) by (auto simp: run_workflow_def Let_def split: prod.splits)
  show ?thesis
    by (rule run_graph_ends [OF _ started g(1)]) (use assms(3) that g(2) in auto)
qed

lemma run_node_limit: "run_node (wk\<lparr>wf_max_steps := k\<rparr>) n st w = run_node wk n st w"
  by (cases n) (simp_all add: plan_node_def collect_node_def gather_node_def gather_project_def gather_task_query_def
    gather_history_def gather_risk_def explain_node_def cong: option.case_cong sum.case_cong prod.case_cong if_cong)

lemma next_node_limit: "next_node (wk\<lparr>wf_max_steps := k\<rparr>) st n = next_node wk st n"
  by (cases n) simp_all

lemma run_graph_limit: "run_graph (wk\<lparr>wf_max_steps := k\<rparr>) j n st w = run_graph wk j n st w"
  by (induction j arbitrary: n st w) (auto simp: run_node_limit next_node_limit split: prod.splits sum.splits option.splits)

lemma run_workflow_limit:
  assumes "5 \<le> wf_max_steps wk" "5 \<le> k"
  shows "run_workflow (wk\<lparr>wf_max_steps := k\<rparr>) ctx q refs prev w = run_workflow wk ctx q refs prev w"
  using assms run_graph_enough [of ReceiveVerifiedContext k "wf_max_steps wk" wk]
  by (simp add: run_workflow_def run_graph_limit)

lemma final_node:
  assumes "next_node wk st m = None"
  shows "m \<in> {Explain, Capability}"
  using assms by (cases m) auto

section \<open>Properties\<close>


text \<open>The project tool's snapshot is what the explainer sees and what the answer's context comes from.\<close>

lemma build_own_tasks:
  assumes "build rt vars v key c w = (Inr s, w')"
  shows "\<forall>t \<in> set (ds_tasks s). starts_with (key @ ''-'') (tk_key t)"
proof -
  from assms obtain project rows degraded w2 es where
    p: "require_configured_project vars key = Inr project" and
    own: "\<forall>r \<in> set rows. starts_with (cp_key project @ ''-'') (ie_key r)" and
    s: "snapshot_of v project c rows degraded es w' = Inr s"
    by (rule build_Inr)
  have "cp_key project = key"
    using p by (auto simp: require_configured_project_def bindr_Inr_iff find_Some_iff split: option.splits)
  then show ?thesis using own s by (auto simp: snapshot_of_def Let_def bindr_Inr_iff)
qed

lemma answer_issue_of_task:
  assumes "build_answer_evidence date_of question s plan previous = Inr e" "i \<in> set (gc_issues (answer_context_from_evidence e))"
  shows "\<exists>t \<in> set (ds_tasks s). tf_key i = tk_key t \<and> tf_summary i = tk_summary t \<and> tf_status i = tk_status t \<and> tf_due_date i = tk_due_date t"
proof -
  let ?today = "date_of (ds_evidence_timestamp s)"
  obtain sel req emps where f: "focused_selection ?today s plan (casefold question)
      (explicit_task_keys (casefold question) plan previous) = (sel, req, emps)"
    using prod_cases3 by blast
  have e: "av_tasks e = map (task_evidence ?today) sel"
    using assms(1) by (auto simp: build_answer_evidence_def Let_def f required_tasks_in_evidence_def split: if_splits)
  from assms(2) obtain a where "a \<in> set (av_tasks e)" "tf_key i = at_key a" "tf_summary i = at_summary a" "tf_status i = at_status a"
      "tf_due_date i = at_due_date a"
    by (auto simp: answer_context_from_evidence_def Let_def split: if_splits)
  then show ?thesis using focused_selection_sub(1) [OF f] by (auto simp: e task_evidence_def)
qed

lemma collected_snapshot:
  assumes "collect_from rt date_of h plan key c explicit q prev s = Inr b"
  shows "ub_project_snapshot b = Some s"
    and "\<exists>e. ub_answer_evidence b = Some e \<and> build_answer_evidence date_of q s plan prev = Inr e"
  using assms by (auto simp: collect_from_def Let_def bindr_Inr_iff split: prod.splits)

text \<open>With a project tool, what is known before Explain runs\<close>

definition grounded_state :: "'w workflow \<Rightarrow> graph_state \<Rightarrow> graph_state \<Rightarrow> bool" where
  "grounded_state wk st0 st \<longleftrightarrow> gs_task_query_result st = None \<and>
     (\<exists>f s wa wb b e plan. wf_project_tool wk = Some f \<and>
        f (er_project_key (gs_references st0)) (corr_of st0) wa = (Inr s, wb) \<and> gs_project_snapshot st = Some s \<and>
        gs_universal_evidence st = Some b \<and> ub_answer_evidence b = Some e \<and> ub_project_snapshot b = Some s \<and>
        build_answer_evidence (wf_date_of wk) (gs_question st0) s plan (gs_previous_answer_context st) = Inr e)"

lemma collect_node_grounded:
  assumes "collect_node wk st w = (Inr st1, w1)" "gs_task_query_result st = None"
  shows "grounded_state wk st st1"
proof -
  obtain f p where f: "wf_project_tool wk = Some f" "gs_evidence_plan st = Some p" "\<not> gs_tool_calls_used st \<ge> wf_max_tool_calls wk"
    using assms(1) by (auto simp: collect_node_def split: option.splits if_splits)
  obtain r w2 where r: "f (er_project_key (gs_references st)) (corr_of st) w = (r, w2)" by fastforce
  with assms(1) f obtain s b where s: "r = Inr s" and b: "collect_from (wf_runtime wk) (wf_date_of wk)
      (map_option (\<lambda>load. load (er_project_key (gs_references st)) (corr_of st) w2) (wf_history_reader wk)) p
      (er_project_key (gs_references st)) (corr_of st) (er_employee_id (gs_references st)) (gs_question st)
      (gs_previous_answer_context st) s = Inr b"
    and st1: "gs_project_snapshot st1 = ub_project_snapshot b" "gs_task_query_result st1 = gs_task_query_result st"
      "\<exists>b1. gs_universal_evidence st1 = Some b1 \<and> ub_answer_evidence b1 = ub_answer_evidence b \<and> ub_project_snapshot b1 = ub_project_snapshot b"
      "gs_previous_answer_context st1 = gs_previous_answer_context st"
    by (auto simp: collect_node_def Let_def bindr_Inr_iff calls_done_def step_done_def split: option.splits)
  from collected_snapshot [OF b] st1 assms(2) f(1) r [unfolded s] show ?thesis
    unfolding grounded_state_def by auto
qed

lemma plan_node_query: "plan_node wk st w = (Inr st1, w1) \<Longrightarrow> gs_task_query_result st1 = gs_task_query_result st"
  unfolding plan_node_def Let_def by (auto simp: bindr_Inr_iff step_done_def split: prod.splits if_splits)

lemma collect_node_query: "collect_node wk st w = (Inr st1, w1) \<Longrightarrow> gs_task_query_result st1 = gs_task_query_result st"
  unfolding collect_node_def Let_def
  by (simp split: node_splits; auto simp: bindr_Inr_iff step_done_def calls_done_def)

lemma run_node_query:
  assumes "run_node wk n st w = (Inr st1, w1)" "n \<notin> {Gather, Explain, Capability}"
  shows "gs_task_query_result st1 = gs_task_query_result st"
proof (cases n)
  case PlanEvidence then show ?thesis using assms plan_node_query by fastforce
next
  case CollectEvidence then show ?thesis using assms collect_node_query by fastforce
qed (use assms in \<open>auto simp: receive_verified_context_def classify_supported_intent_def Let_def step_done_def split: if_splits\<close>)

lemma reached_grounded:
  assumes "reached wk st0 w0 n st w" "wf_project_tool wk \<noteq> None" "gs_task_query_result st0 = None" "unanswered st0"
  shows "gs_references st = gs_references st0 \<and> gs_context st = gs_context st0 \<and> gs_question st = gs_question st0 \<and> unanswered st \<and>
    gs_task_query_result st = None \<and> n \<notin> {Gather, Capability} \<and> (n = Explain \<longrightarrow> grounded_state wk st0 st)"
  using assms(1)
proof (induction rule: reached.induct)
  case (stepped n st w st1 w1 m)
  then have n: "n \<notin> {Gather, Capability, Explain}" by auto
  from stepped.IH run_node_kept(1,2) [OF stepped.hyps(2)] n
  have k: "kept st st1" "unanswered st1" by blast+
  have q: "gs_task_query_result st1 = None" using run_node_query [OF stepped.hyps(2)] stepped.IH n by simp
  have m: "m \<notin> {Gather, Capability}" "m = Explain \<Longrightarrow> n = CollectEvidence"
    using stepped.hyps(3) n assms(2) by (cases n; auto)+
  have "grounded_state wk st st1" if "m = Explain"
    using stepped.hyps(2) m(2) [OF that] stepped.IH by (auto intro: collect_node_grounded)
  with k q m(1) stepped.IH show ?case by (auto simp: kept_def grounded_state_def corr_of_def)
qed (simp add: assms)

text \<open>What a successful investigation was explained from\<close>

lemma investigation_explained:
  assumes "wf_project_tool wk = Some (build rt vars v)" "5 \<le> wf_max_steps wk" "length q \<le> 1000"
    and "run_workflow wk ctx q refs prev w = (Inr x, w')"
  obtains s wa wb b ev plan previous rq wc ans where "er_project_key refs \<in> set (vc_authorized_project_keys ctx)"
    "build rt vars v (er_project_key refs) (vc_correlation_id ctx) wa = (Inr s, wb)"
    "xq_project_snapshot rq = Some s" "xq_universal_evidence rq = Some b" "ub_answer_evidence b = Some ev" "ub_project_snapshot b = Some s"
    "build_answer_evidence (wf_date_of wk) q s plan previous = Inr ev"
    "wf_explainer wk rq wc = (Inr ans, w')" "iv_explanation x = Some ans" "iv_answer_context x = Some (answer_context_from_evidence ev)"
proof -
  let ?st = "initial_state ctx q refs prev"
  obtain m st w1 g where m: "reached wk ?st w m st w1" "run_node wk m st w1 = (g, w')" "Inr x = bindr g (response_of ctx)"
    "\<And>st2. g = Inr st2 \<Longrightarrow> next_node wk st2 m = None"
    by (rule run_workflow_ends [OF assms(4,3,2)]) blast
  from m(3) [symmetric] obtain st2 where g: "g = Inr st2" "response_of ctx st2 = Inr x" by (auto simp: bindr_Inr_iff)
  have "gs_task_query_result ?st = None" by (simp add: initial_state_def)
  from reached_grounded [OF m(1) _ this] assms(1) final_node [OF m(4) [OF g(1)]]
  have e: "m = Explain" and gr: "grounded_state wk ?st st" by auto
  from reached_state(6) [OF m(1)] e have auth: "er_project_key refs \<in> set (vc_authorized_project_keys ctx)"
    by (simp add: in_scope_def)
  from gr assms(1) obtain s wa wb b ev plan where
    s: "build rt vars v (er_project_key refs) (vc_correlation_id ctx) wa = (Inr s, wb)" "gs_project_snapshot st = Some s"
      "gs_universal_evidence st = Some b" "ub_answer_evidence b = Some ev" "gs_task_query_result st = None"
      "build_answer_evidence (wf_date_of wk) q s plan (gs_previous_answer_context st) = Inr ev" "ub_project_snapshot b = Some s"
    unfolding grounded_state_def by (auto simp: corr_of_def)
  from m(2) e g(1) obtain i ans where ans: "wf_explainer wk (request_of i st) w1 = (Inr ans, w')"
    "st2 = (step_done st)\<lparr>gs_explanation := Some ans\<rparr>"
    by (auto simp: explain_node_def Let_def bindr_Inr_iff split: option.splits prod.splits)
  from g(2) have "iv_explanation x = Some ans" "iv_answer_context x = Some (answer_context_from_evidence ev)"
    by (auto simp: response_of_def ans(2) final_context_def step_done_def s(3-5) split: option.splits)
  moreover have "xq_project_snapshot (request_of i st) = Some s" "xq_universal_evidence (request_of i st) = Some b"
    by (simp_all add: request_of_def s(2,3))
  ultimately show thesis using that auth s(1,4,6,7) ans(1) by blast
qed


lemma specialist_of:
  "List.find (\<lambda>s. i \<in> sl_intents s) specialists =
     (if i \<in> {ExplainEmployeeOverload, EvaluateTaskFit} then Some (specialists ! 0)
      else if i \<in> {ExplainProjectRisk, ExplainHistory} then Some (specialists ! 1)
      else if i \<in> {ReassignmentCandidates, WhatIfSimulation} then Some (specialists ! 2)
      else if i = OperationsDiagnosis then Some (specialists ! 3) else None)"
  by (cases i) (simp_all add: specialists_def agent_defs numeral_eq_Suc)

text \<open>
  The configured specialists do not change what the domain tool returns.  An intent no specialist supports goes to
  the core tool without a trace; any other intent is handed to exactly one specialist, which refuses a project outside
  the verified context before the tool is called and otherwise returns the tool's own result or error; only a completed
  handoff is traced, under the specialist's name.
\<close>

theorem specialists_transparent:
  assumes "fst (core i refs corr w) \<noteq> Inl specialist_unavailable"
  shows "route_investigation core specialists ctx i refs corr w =
    (case List.find (\<lambda>s. i \<in> sl_intents s) specialists of
       None \<Rightarrow> (fst (core i refs corr w), [], snd (core i refs corr w))
     | Some s \<Rightarrow>
        if er_project_key refs \<notin> set (vc_authorized_project_keys ctx)
        then (Inl (PermissionError ''specialist project scope mismatch''), [], w)
        else (fst (core i refs corr w),
          (if isl (fst (core i refs corr w)) then []
           else [\<lparr>ht_specialist = sl_name s, ht_intent = i, ht_correlation_id = corr, ht_status = HandoffCompleted\<rparr>]),
          snd (core i refs corr w)))"
proof (cases "List.find (\<lambda>s. i \<in> sl_intents s) specialists")
  case None
  then show ?thesis by (simp add: route_investigation_def split: prod.split)
next
  case (Some s)
  then have s: "s \<in> set specialists" "i \<in> sl_intents s" by (auto simp: find_Some_iff)
  then have "sl_available s" by (auto simp: specialists_def agent_defs)
  with s(2) Some assms show ?thesis
    by (auto simp: route_investigation_def specialist_run_def validate_handoff_def Let_def split: prod.splits sum.splits)
qed

section \<open>Witnesses\<close>

definition sample_explanation :: explanation where
  "sample_explanation = \<lparr>xp_answer = Some ''A'', xp_summary = ''S'', xp_root_causes = [], xp_recommendations = [], xp_citations = [],
     xp_score = None, xp_risk_level = None, xp_uncertainties = [], xp_source = FromBedrock, xp_correlation_id = ''c''\<rparr>"

definition sample_verified :: agent_context where
  "sample_verified = \<lparr>vc_subject_reference = ''s'', vc_roles = [Viewer], vc_environment = Dev,
     vc_authorized_jira_sites = [''site''], vc_authorized_project_keys = [''WRD''], vc_correlation_id = ''c''\<rparr>"

text \<open>The world counts the calls of the risk tool.\<close>

definition sample_counting :: "nat workflow" where
  "sample_counting = \<lparr>wf_tool = (\<lambda>i r x n. (Inr (ScanPipeline.sample_result ''EMP-001'' 60 RiskHigh), n + 1)), wf_task_query_tool = None,
     wf_dossier_tool = None, wf_historical_tool = None, wf_project_tool = None, wf_history_reader = None, wf_planner = None,
     wf_explainer = (\<lambda>q n. (Inr sample_explanation, n)), wf_max_steps = 6, wf_max_tool_calls = 2, wf_runtime = sample_runtime,
     wf_date_of = (\<lambda>t. t div 86400)\<rparr>"

definition sample_grounding :: "unit workflow" where
  "sample_grounding = \<lparr>wf_tool = (\<lambda>i r x n. (Inr (ScanPipeline.sample_result ''EMP-001'' 60 RiskHigh), n)), wf_task_query_tool = None,
     wf_dossier_tool = None, wf_historical_tool = None, wf_project_tool = Some (build sample_runtime (\<lambda>_. None) sample_service),
     wf_history_reader = None, wf_planner = None, wf_explainer = (\<lambda>q n. (Inr sample_explanation, n)), wf_max_steps = 6,
     wf_max_tool_calls = 2, wf_runtime = sample_runtime, wf_date_of = (\<lambda>t. t div 86400)\<rparr>"



theorem specialists_transparent_witness:
  "route_investigation (wf_tool sample_counting) specialists sample_verified EvaluateTaskFit sample_references ''c'' 0 =
     (Inr (ScanPipeline.sample_result ''EMP-001'' 60 RiskHigh),
      [\<lparr>ht_specialist = ''workforce_analysis'', ht_intent = EvaluateTaskFit, ht_correlation_id = ''c'', ht_status = HandoffCompleted\<rparr>], 1)"
  using specialists_transparent [of "wf_tool sample_counting" EvaluateTaskFit sample_references "''c''" "0::nat" sample_verified]
  by (simp add: specialist_of) (simp add: sample_counting_def sample_references_def sample_verified_def specialists_def agent_defs)

end
