(* ===== verification/ModelPayload.thy ===== *)
theory ModelPayload imports Workflow Grounding begin

text \<open>
  What the language model is asked (build\_model\_payload of agent\_api/llm/schemas.py, the invocation of
  llm/factory.py) and the explanation that needs no model (llm/fallback.py).  \<open>model_dump\<close> of the evidence models
  is a record of functions, the Bedrock client a function on a world \<open>'w\<close>.
\<close>

section \<open>The payload\<close>

record dumps_of =
  dm_answer :: "answer_evidence_set \<Rightarrow> json"
  dm_bundle :: "Collection.evidence_bundle \<Rightarrow> json"
  dm_missing :: "missing_data \<Rightarrow> json"
  dm_query :: "task_query_result \<Rightarrow> json"
  dm_snapshot :: "dashboard_snapshot \<Rightarrow> json"
  dm_context :: "grounded_context \<Rightarrow> json"
  dm_comparison :: "comparison \<Rightarrow> json"

definition previous_context :: "dumps_of \<Rightarrow> explanation_request \<Rightarrow> json" where
  "previous_context dm rq = json_opt (dm_context dm) (xq_previous_answer_context rq)"

definition summary_references :: "task_summary list \<Rightarrow> json" where
  "summary_references tasks = json_strings (map (\<lambda>t. ''jira:'' @ tk_key t @ '':summary'') tasks)"

definition universal_payload :: "dumps_of \<Rightarrow> explanation_request \<Rightarrow> Collection.evidence_bundle \<Rightarrow> (string \<times> json) list" where
  "universal_payload dm rq b =
    [(''workflow'', JStr ''general_evidence_question''), (''question'', JStr (take 1000 (xq_question rq))),
     (''answer_evidence'', json_opt (dm_answer dm) (ub_answer_evidence b)), (''universal_evidence'', dm_bundle dm b),
     (''missing_evidence'', JList (map (dm_missing dm) (ub_missing_data b))),
     (''evidence_references'', summary_references (case ub_project_snapshot b of None \<Rightarrow> [] | Some s \<Rightarrow> ds_tasks s)),
     (''correlation_id'', JStr (xq_correlation_id rq)), (''previous_answer_context'', previous_context dm rq)]"

definition query_payload :: "dumps_of \<Rightarrow> explanation_request \<Rightarrow> task_query_result \<Rightarrow> (string \<times> json) list" where
  "query_payload dm rq r =
    [(''workflow'', JStr (xq_workflow rq)), (''question'', JStr (take 500 (xq_question rq))), (''task_query'', dm_query dm r),
     (''evidence_references'', json_strings (qr_evidence_references r)), (''correlation_id'', JStr (xq_correlation_id rq)),
     (''previous_answer_context'', previous_context dm rq)]"

definition snapshot_payload :: "dumps_of \<Rightarrow> explanation_request \<Rightarrow> dashboard_snapshot \<Rightarrow> (string \<times> json) list" where
  "snapshot_payload dm rq s =
    [(''workflow'', JStr (xq_workflow rq)), (''question'', JStr (take 500 (xq_question rq))), (''project_snapshot'', dm_snapshot dm s),
     (''evidence_references'', summary_references (ds_tasks s)), (''missing_evidence'', json_strings (ds_missing_evidence s)),
     (''correlation_id'', JStr (xq_correlation_id rq)), (''previous_answer_context'', previous_context dm rq)]"

definition guidance :: "string \<Rightarrow> factor_contribution \<Rightarrow> json" where
  "guidance impact f = JObj [(''name'', JStr (fc_name f)), (''direction'', JStr (direction_value (fc_direction f))), (''impact'', JStr impact),
     (''evidence_references'', json_strings (fc_evidence_references f))]"

text \<open>The factors by falling and by rising contribution, equal ones by name\<close>

definition strongest_first :: "factor_contribution list \<Rightarrow> factor_contribution list" where
  "strongest_first = sort_key (\<lambda>f. (- fc_contribution_points f, fc_name f))"

definition lowest_impact :: "factor_contribution list \<Rightarrow> factor_contribution list" where
  "lowest_impact fs = take 4 (sort_key (\<lambda>f. (fc_contribution_points f, fc_name f)) fs)"

text \<open>\<open>str.replace\<close> of a text that is not empty; the second argument counts the characters still to skip.\<close>

fun replaced_from :: "string \<Rightarrow> string \<Rightarrow> nat \<Rightarrow> string \<Rightarrow> string" where
  "replaced_from old new k [] = []"
| "replaced_from old new (Suc k) (c # cs) = replaced_from old new k cs"
| "replaced_from old new 0 (c # cs) = (if starts_with old (c # cs) then new @ replaced_from old new (length old - 1) cs
     else c # replaced_from old new 0 cs)"

definition replaced :: "string \<Rightarrow> string \<Rightarrow> string \<Rightarrow> string" where
  "replaced old new s = replaced_from old new 0 s"

definition utc_text :: "runtime \<Rightarrow> timestamp \<Rightarrow> json" where
  "utc_text rt t = JStr (replaced ''+00:00'' ''Z'' (rt_isoformat rt t))"

definition situation_payload :: "runtime \<Rightarrow> task_situation \<Rightarrow> json" where
  "situation_payload rt t = JObj [(''key'', JStr (ti_key t)), (''summary'', JStr (ti_summary t)), (''status'', JStr (ti_status t)),
     (''priority'', json_opt JStr (ti_priority t)), (''due_date'', json_opt (JStr \<circ> rt_date rt) (ti_due_date t)),
     (''remaining_hours'', json_opt JFloat (ti_remaining_hours t)), (''blocker_category'', json_opt JStr (ti_blocker_category t)),
     (''dependencies'', json_strings (ti_dependencies t)), (''last_activity_at'', utc_text rt (ti_last_activity_at t))]"

definition work_situation :: "runtime \<Rightarrow> dossier \<Rightarrow> json" where
  "work_situation rt d = JObj [(''observed_at'', utc_text rt (do_observed_at d)),
     (''available_capacity_hours'', JFloat (do_available_capacity_hours d)),
     (''total_remaining_hours'', json_opt JFloat (do_total_remaining_hours d)),
     (''overdue_task_keys'', json_strings (do_overdue_task_keys d)), (''due_soon_task_keys'', json_strings (do_due_soon_task_keys d)),
     (''blocked_task_keys'', json_strings (do_blocked_task_keys d)), (''missing_evidence'', json_strings (do_missing_evidence d)),
     (''tasks'', JList (map (situation_payload rt) (do_tasks d)))]"

definition risk_payload :: "runtime \<Rightarrow> dumps_of \<Rightarrow> explanation_request \<Rightarrow> risk_result \<Rightarrow> (string \<times> json) list" where
  "risk_payload rt dm rq risk =
    (let ordered = strongest_first (rr_factors risk);
         positive = filter (\<lambda>f. fc_contribution_points f > 0) ordered; zero = filter (\<lambda>f. fc_contribution_points f = 0) ordered;
         comparison = (case (xq_evidence_dossier rq, xq_previous_evidence_dossier rq) of
           (Some d, Some p) \<Rightarrow> dm_comparison dm (compare_dossiers p d) | _ \<Rightarrow> JNull)
     in [(''workflow'', JStr (xq_workflow rq)), (''question'', JStr (take 500 (xq_question rq))), (''subject_id'', JStr (rr_subject_id risk)),
         (''environment'', JStr (environment_value (rr_environment risk))), (''score'', json_opt JInt (rr_score risk)),
         (''risk_level'', json_opt (JStr \<circ> risk_level_value) (rr_level risk)), (''confidence'', JStr (confidence_value (rr_confidence risk))),
         (''scoring_model_version'', JStr (rr_scoring_model_version risk)),
         (''factors'', JList (map (\<lambda>f. JObj [(''name'', JStr (fc_name f)), (''contribution_points'', JFloat (fc_contribution_points f)),
            (''direction'', JStr (direction_value (fc_direction f))), (''evidence_references'', json_strings (fc_evidence_references f))])
            (rr_factors risk))),
         (''strongest_contributors'', JList (map (guidance ''strongest_contribution'') (take 4 positive))),
         (''mitigating_factors'', JList (map (guidance ''zero_contribution'') (take 4 zero))),
         (''lowest_impact_factors'', JList (map (\<lambda>f. guidance (if fc_contribution_points f = 0 then ''zero_contribution''
            else ''low_relative_contribution'') f) (lowest_impact (rr_factors risk)))),
         (''evidence_references'', json_strings (rr_evidence_references risk)), (''missing_evidence'', json_strings (rr_missing_evidence risk)),
         (''work_situation'', json_opt (work_situation rt) (xq_evidence_dossier rq)), (''historical_comparison'', comparison),
         (''candidate_ids'', json_strings (xq_candidate_ids rq)), (''correlation_id'', JStr (xq_correlation_id rq)),
         (''previous_answer_context'', previous_context dm rq)])"

definition build_model_payload :: "runtime \<Rightarrow> dumps_of \<Rightarrow> explanation_request \<Rightarrow> (string \<times> json) list res" where
  "build_model_payload rt dm rq =
    (case xq_universal_evidence rq of
       Some b \<Rightarrow> Inr (universal_payload dm rq b)
     | None \<Rightarrow> (case xq_risk rq of
         Some risk \<Rightarrow> Inr (risk_payload rt dm rq risk)
       | None \<Rightarrow> (case xq_task_query_result rq of
           Some r \<Rightarrow> Inr (query_payload dm rq r)
         | None \<Rightarrow> (case xq_project_snapshot rq of
             None \<Rightarrow> Inl AssertionError
           | Some s \<Rightarrow> Inr (snapshot_payload dm rq s)))))"

section \<open>The deterministic fallback\<close>

text \<open>\<open>format(x, ".1f")\<close>: the tenth nearest the exact value, ties to even\<close>

definition one_decimal :: "pyfloat \<Rightarrow> string" where
  "one_decimal x = (let n = nat (round_half_even (\<bar>x\<bar> * 10)) in
     (if x < 0 then ''-'' else []) @ nat_digits (n div 10) @ ''.'' @ nat_digits (n mod 10))"

definition score_sentence :: "risk_result \<Rightarrow> string" where
  "score_sentence risk = (case rr_score risk of
     None \<Rightarrow> ''There is insufficient structured evidence to calculate this risk.''
   | Some s \<Rightarrow> ''The deterministic '' @ rr_scoring_model_version risk @ '' result is '' @ int_repr s @ ''/100 ('' @
       (case rr_level risk of None \<Rightarrow> ''unknown'' | Some l \<Rightarrow> risk_level_value l) @ '').'')"

definition comparison_details :: "runtime \<Rightarrow> (timestamp \<Rightarrow> date) \<Rightarrow> comparison \<Rightarrow> string list" where
  "comparison_details rt date_of c =
    (case co_remaining_hours_change c of
       None \<Rightarrow> []
     | Some h \<Rightarrow> [''Remaining work '' @ (if h < 0 then ''decreased'' else ''increased'') @ '' by '' @ one_decimal \<bar>h\<bar> @
         '' hours between '' @ rt_date rt (date_of (co_earlier_observed_at c)) @ '' and '' @
         rt_date rt (date_of (co_later_observed_at c)) @ ''.''])
    @ (if co_resolved_blocker_task_keys c = [] then [] else [join '', '' (co_resolved_blocker_task_keys c) @ '' was unblocked.''])"

definition task_detail :: "runtime \<Rightarrow> dossier \<Rightarrow> task_situation \<Rightarrow> string" where
  "task_detail rt d t = join ''; '' ([ti_key t @ '' ('' @ ti_summary t @ '')'']
     @ (case ti_due_date t of None \<Rightarrow> [] | Some due \<Rightarrow>
         [(if ti_key t \<in> set (do_overdue_task_keys d) then ''is overdue since '' else ''is due '') @ rt_date rt due])
     @ (case ti_remaining_hours t of None \<Rightarrow> [] | Some h \<Rightarrow> [''has '' @ one_decimal h @ '' hours remaining''])
     @ (if given (ti_blocker_category t) then [''is blocked by '' @ the (ti_blocker_category t)] else [])
     @ (if ti_dependencies t \<noteq> [] then [''and has dependencies '' @ join '', '' (ti_dependencies t)] else [])) @ ''.''"

definition only_one_snapshot :: string where
  "only_one_snapshot = ''I cannot determine whether the situation improved because only one detailed risk snapshot is available. '' @
     ''Run another scan after the Jira situation changes to create a comparison.''"

definition dossier_details :: "runtime \<Rightarrow> (timestamp \<Rightarrow> date) \<Rightarrow> explanation_request \<Rightarrow> dossier \<Rightarrow> string list" where
  "dossier_details rt date_of rq d =
    (case xq_previous_evidence_dossier rq of
       None \<Rightarrow> if xq_workflow rq = ''explain_history'' then [only_one_snapshot] else []
     | Some p \<Rightarrow> comparison_details rt date_of (compare_dossiers p d))
    @ (case do_total_remaining_hours d of None \<Rightarrow> [] | Some h \<Rightarrow>
         [''The employee has '' @ one_decimal h @ '' remaining hours against '' @ one_decimal (do_available_capacity_hours d) @
          '' available hours.''])
    @ map (task_detail rt d) (do_tasks d)"

definition explain_fallback :: "runtime \<Rightarrow> (timestamp \<Rightarrow> date) \<Rightarrow> explanation_request \<Rightarrow> explanation res" where
  "explain_fallback rt date_of rq = (case xq_risk rq of
     None \<Rightarrow> Inl (ValueError ''deterministic fallback requires a risk result'')
   | Some risk \<Rightarrow>
      (let summary = (case xq_evidence_dossier rq of
             None \<Rightarrow> score_sentence risk | Some d \<Rightarrow> join '' '' (score_sentence risk # dossier_details rt date_of rq d));
           strongest = take 3 (sort_key (\<lambda>f. - fc_contribution_points f) (rr_factors risk))
       in Inr \<lparr>xp_answer = Some summary, xp_summary = summary,
            xp_root_causes = map (\<lambda>f. fc_name f @ '' contributed '' @ one_decimal (fc_contribution_points f) @ '' points.'') strongest,
            xp_recommendations = [\<lparr>rm_action = ''review'', rm_reason = ''Review the cited structured evidence before deciding.'',
              rm_candidate_id = None\<rparr>],
            xp_citations = first_of_each (rr_evidence_references risk @
              (case xq_evidence_dossier rq of None \<Rightarrow> [] | Some d \<Rightarrow> do_evidence_references d)),
            xp_score = rr_score risk, xp_risk_level = map_option risk_level_value (rr_level risk),
            xp_uncertainties = map (\<lambda>n. ''Missing: '' @ n) (rr_missing_evidence risk), xp_source = DeterministicFallback,
            xp_correlation_id = xq_correlation_id rq\<rparr>))"

section \<open>The invocation\<close>

text \<open>The keys of a list of objects under a field of the payload\<close>

definition listed_keys :: "string \<Rightarrow> json option \<Rightarrow> string list" where
  "listed_keys name j = (case j of
     Some (JObj kvs) \<Rightarrow> (case map_of (rev kvs) name of
        Some (JList items) \<Rightarrow> List.map_filter (\<lambda>i. case i of
            JObj fs \<Rightarrow> (case map_of (rev fs) ''key'' of Some (JStr k) \<Rightarrow> if k \<noteq> [] then Some k else None | _ \<Rightarrow> None)
          | _ \<Rightarrow> None) items
      | _ \<Rightarrow> [])
   | _ \<Rightarrow> [])"

definition grounding_directive :: "(string \<times> json) list \<Rightarrow> string" where
  "grounding_directive payload =
    (let keys = first_of_each (listed_keys ''tasks'' (map_of payload ''task_query'') @
           listed_keys ''issues'' (map_of payload ''previous_answer_context''))
     in if keys = [] then ''Do not add project facts that are absent from the evidence.''
        else ''Mandatory grounding: explicitly include every one of these Jira issue keys in the answer: '' @ join '', '' keys @
          ''. Do not omit any key.'')"

definition request_text :: "runtime \<Rightarrow> string \<Rightarrow> (string \<times> json) list \<Rightarrow> string" where
  "request_text rt system_prompt payload =
    (if occurs_in ''select evidence categories'' (casefold system_prompt)
     then ''Return only the requested JSON evidence plan. Do not answer the manager's question.'' @ [CHR 0x0A]
     else grounding_directive payload @ [CHR 0x0A] @ ''Answer the manager's question naturally using only this validated project evidence:''
       @ [CHR 0x0A])
    @ render_spaced (rt_float rt) (canon (JObj payload))"

text \<open>
  \<open>invoke\<close> of the factory: \<open>send_model\<close> returns the texts of the content blocks of the model's message or raises;
  every exception, an empty answer included, becomes an OSError.
\<close>

definition factory_invoke ::
  "runtime \<Rightarrow> (string \<Rightarrow> string \<Rightarrow> 'w \<Rightarrow> string list res \<times> 'w) \<Rightarrow> string \<Rightarrow> (string \<times> json) list \<Rightarrow> 'w \<Rightarrow> string res \<times> 'w" where
  "factory_invoke rt send_model system_prompt payload w =
    (case send_model system_prompt (request_text rt system_prompt payload) w of
       (Inl e, w1) \<Rightarrow> (Inl (OtherException ''OSError''), w1)
     | (Inr texts, w1) \<Rightarrow> (let text = strip (concat texts) in
         (if text = [] then Inl (OtherException ''OSError'') else Inr text, w1)))"

end
