(* ===== verification/Bedrock.thy ===== *)
theory Bedrock imports ModelPayload "HOL-Library.AList" begin

text \<open>
  The explanation by the language model (BedrockExplanationProvider of agent\_api/llm/bedrock.py): what it reads from
  the model's text, the checks every answer has to pass, the attempts with their revised prompts, the circuit breaker
  and the conservative answer after rejected attempts.  The model is a function on a world \<open>'w\<close> that returns a text or
  raises (a timeout is a TimeoutError); the monotonic clock is a function of the world, the pauses between attempts
  have no effect.
\<close>

section \<open>Reading the model's text\<close>

text \<open>
  Why an answer is rejected: \<open>GroundingValidationError\<close>, an unreadable JSON text (\<open>JSONDecodeError\<close> or
  \<open>ValidationError\<close>), \<open>SemanticResponseError\<close>, or another exception, which is not caught.
\<close>

datatype reply_error = NotGrounded string | Unreadable | NotSemantic string | Escapes py_error

definition reject_if :: "bool \<Rightarrow> reply_error \<Rightarrow> reply_error + unit" where
  "reject_if b e = (if b then Inl e else Inr ())"

definition grounded :: "unit res \<Rightarrow> reply_error + unit" where
  "grounded r = (case r of Inr _ \<Rightarrow> Inr () | Inl (ValueError m) \<Rightarrow> Inl (NotGrounded m) | Inl e \<Rightarrow> Inl (Escapes e))"

text \<open>Checks in order: the first rejection ends them.\<close>

fun all_checks :: "(reply_error + unit) list \<Rightarrow> reply_error + unit" where
  "all_checks [] = Inr ()"
| "all_checks (Inl e # cs) = Inl e"
| "all_checks (Inr _ # cs) = all_checks cs"

lemma all_checks_Inr: "all_checks cs = Inr () \<longleftrightarrow> (\<forall>c \<in> set cs. c = Inr ())"
proof (induction cs)
  case (Cons c cs) then show ?case by (cases c) auto
qed simp

lemma reject_if_Inr [simp]: "reject_if b e = Inr () \<longleftrightarrow> \<not> b" "reject_if b e = Inl e' \<longleftrightarrow> b \<and> e' = e"
  by (auto simp: reject_if_def)

lemma grounded_Inr [simp]: "grounded r = Inr () \<longleftrightarrow> r = Inr ()"
  by (auto simp: grounded_def split: sum.splits py_error.splits)

text \<open>The three system prompts\<close>

datatype prompt_kind = SystemPrompt | ConservativePrompt | FocusedRecoveryPrompt

text \<open>
  The provider with its settings; \<open>bp_loads\<close> is \<open>json.loads\<close> and \<open>bp_model\<close> is \<open>ModelExplanation.model_validate\<close>, None
  for their exceptions.
\<close>

record 'w bedrock =
  bp_invoke :: "prompt_kind \<Rightarrow> (string \<times> json) list \<Rightarrow> 'w \<Rightarrow> string res \<times> 'w"
  bp_allow_fallback :: bool
  bp_max_attempts :: int
  bp_persistent_retry :: bool
  bp_failure_threshold :: int
  bp_reset_seconds :: pyfloat
  bp_clock :: "'w \<Rightarrow> pyfloat"
  bp_loads :: "string \<Rightarrow> json option"
  bp_model :: "json \<Rightarrow> model_explanation option"
  bp_runtime :: runtime
  bp_dumps :: dumps_of
  bp_date_of :: "timestamp \<Rightarrow> date"

definition attempts_of :: "'w bedrock \<Rightarrow> nat" where
  "attempts_of b = nat (max 1 (bp_max_attempts b))"

definition level_text :: "risk_result \<Rightarrow> string option" where
  "level_text r = map_option risk_level_value (rr_level r)"

definition model_result_from_text :: "'w bedrock \<Rightarrow> explanation_request \<Rightarrow> string \<Rightarrow> reply_error + model_explanation" where
  "model_result_from_text b rq raw =
    (let text = strip raw in
     if text = [] then Inl (NotSemantic ''model returned an empty answer'')
     else if starts_with ''{'' text then (case Option.bind (bp_loads b text) (bp_model b) of None \<Rightarrow> Inl Unreadable | Some x \<Rightarrow> Inr x)
     else Inr \<lparr>xp_answer = Some text, xp_summary = text, xp_root_causes = [], xp_recommendations = [], xp_citations = [],
       xp_score = Option.bind (xq_risk rq) rr_score, xp_risk_level = Option.bind (xq_risk rq) level_text, xp_uncertainties = []\<rparr>)"

definition citation_fields :: "string list" where
  "citation_fields = [''summary'', ''status'', ''priority'', ''duedate'', ''updated'', ''labels'', ''timeestimate'', ''issuelinks'',
     ''customfield_10042'']"

definition snapshot_citations :: "explanation_request \<Rightarrow> string list" where
  "snapshot_citations rq = (case xq_project_snapshot rq of None \<Rightarrow> []
     | Some s \<Rightarrow> concat (map (\<lambda>t. map (\<lambda>f. ''jira:'' @ tk_key t @ '':'' @ f) citation_fields) (ds_tasks s)))"

definition sanitize_subject_candidate :: "explanation_request \<Rightarrow> model_explanation \<Rightarrow> model_explanation" where
  "sanitize_subject_candidate rq x = (case xq_risk rq of
     None \<Rightarrow> x\<lparr>xp_score := None, xp_risk_level := None,
       xp_recommendations := map (\<lambda>r. r\<lparr>rm_candidate_id := None\<rparr>) (xp_recommendations x),
       xp_citations := filter (\<lambda>c. c \<in> set (snapshot_citations rq)) (xp_citations x)\<rparr>
   | Some risk \<Rightarrow> x\<lparr>xp_recommendations := map (\<lambda>r.
       if rm_candidate_id r = Some (rr_subject_id risk) \<and> rr_subject_id risk \<notin> set (xq_candidate_ids rq)
       then r\<lparr>rm_candidate_id := None\<rparr> else r) (xp_recommendations x)\<rparr>)"

section \<open>The checks\<close>

definition answer_text :: "model_explanation \<Rightarrow> string" where
  "answer_text x = (case xp_answer x of None \<Rightarrow> [] | Some a \<Rightarrow> a)"

definition allowed_citations :: "explanation_request \<Rightarrow> string list" where
  "allowed_citations rq =
    (case xq_risk rq of None \<Rightarrow> [] | Some r \<Rightarrow> rr_evidence_references r) @ snapshot_citations rq
    @ (case xq_task_query_result rq of None \<Rightarrow> [] | Some r \<Rightarrow> qr_evidence_references r)
    @ (case xq_evidence_dossier rq of None \<Rightarrow> [] | Some d \<Rightarrow> do_evidence_references d)
    @ (case xq_previous_evidence_dossier rq of None \<Rightarrow> [] | Some d \<Rightarrow> do_evidence_references d)"

definition cited_candidates :: "model_explanation \<Rightarrow> string list" where
  "cited_candidates x = List.map_filter rm_candidate_id (xp_recommendations x)"

text \<open>\<open>\bNAME\b.{0,40}\bis at risk\b\<close> under IGNORECASE and DOTALL\<close>

definition at_risk_re :: "string \<Rightarrow> regex" where
  "at_risk_re name = seq_of [RBoundary, lit_i name, RBoundary, RRepeat True 0 (Some 40) (RChar (\<lambda>c. True)), RBoundary,
     lit_i ''is at risk'', RBoundary]"

definition sentence_re :: regex where
  "sentence_re = RSeq (RChar (\<lambda>c. c \<in> {CHR ''.'', CHR ''!'', CHR ''?''})) (alt_of [RChar is_space, REnd])"

text \<open>\<open>\b\d+(?:\.\d+)?\s+(?:contribution\s+)?points?\b\<close>\<close>

definition points_re :: regex where
  "points_re = seq_of [RBoundary, some_of is_digit, opt (RSeq (lit ''.'') (some_of is_digit)), some_of is_space,
     opt (RSeq (lit ''contribution'') (some_of is_space)), lit ''point'', opt (lit ''s''), RBoundary]"

definition factor_terms :: "factor_contribution list \<Rightarrow> string list" where
  "factor_terms fs = concat (map (\<lambda>f. [casefold (fc_name f), casefold (replaced ''_'' '' '' (fc_name f))]) fs)"

definition asks_deadline :: "string \<Rightarrow> bool" where
  "asks_deadline question \<longleftrightarrow>
     list_ex (\<lambda>term. occurs_in term (casefold question)) [''deadline'', ''due date'', ''due tomorrow'', ''due soon'']"

text \<open>\<open>_validate_result\<close>, the checks that apply to every request and those of a request with a risk\<close>

definition result_checks :: "explanation_request \<Rightarrow> model_explanation \<Rightarrow> (reply_error + unit) list" where
  "result_checks rq x =
    (let answer = strip (answer_text x); mentioned = issue_keys (upper answer) in
     [reject_if (xp_score x \<noteq> Option.bind (xq_risk rq) rr_score \<or> xp_risk_level x \<noteq> Option.bind (xq_risk rq) level_text)
        (NotSemantic ''model changed deterministic risk result''),
      reject_if (\<not> set (xp_citations x) \<subseteq> set (allowed_citations rq)) (NotSemantic ''model cited unknown evidence''),
      reject_if (\<not> set (cited_candidates x) \<subseteq> set (xq_candidate_ids rq)) (NotSemantic ''model invented reassignment candidate''),
      reject_if (answer = []) (NotSemantic ''model returned an empty answer'')]
     @ (case xq_project_snapshot rq of None \<Rightarrow> [] | Some s \<Rightarrow>
        [reject_if (asks_deadline (xq_question rq) \<and> (mentioned = [] \<or> \<not> set mentioned \<subseteq> set (map tk_key (ds_tasks s))))
           (NotSemantic ''model omitted concrete Jira task evidence''),
         reject_if (list_ex (\<lambda>e. es_level e = ''insufficient-data'' \<and> found (at_risk_re (es_display_name e)) answer) (ds_employees s))
           (NotSemantic ''model promoted insufficient employee risk'')]))"

definition detail_checks :: "explanation_request \<Rightarrow> risk_result \<Rightarrow> string \<Rightarrow> (reply_error + unit) list" where
  "detail_checks rq risk answer =
    (let mentioned = issue_keys (upper answer); folded = casefold answer;
         says = list_ex (\<lambda>term. occurs_in term folded) in
     [reject_if (length answer < 180 \<or> length (finditer sentence_re answer) < 2) (NotSemantic ''model answer was not sufficiently detailed''),
      reject_if (found points_re answer) (NotSemantic ''model exposed numeric factor contributions'')]
     @ (case xq_evidence_dossier rq of None \<Rightarrow> [] | Some d \<Rightarrow>
         [reject_if (\<not> set mentioned \<subseteq> set (map ti_key (do_tasks d @
              (case xq_previous_evidence_dossier rq of None \<Rightarrow> [] | Some p \<Rightarrow> do_tasks p)))) (NotSemantic ''model invented Jira task evidence''),
          reject_if (do_tasks d \<noteq> [] \<and> mentioned = []) (NotSemantic ''model omitted concrete Jira task evidence'')])
     @ [reject_if (rr_factors risk \<noteq> [] \<and> \<not> says (factor_terms (rr_factors risk)))
          (NotSemantic ''model answer did not mention supplied factors''),
        reject_if (occurs_in ''other factors'' folded \<and> \<not> says (factor_terms (lowest_impact (rr_factors risk))))
          (NotSemantic ''model answer used vague factor wording'')])"

definition validate_result :: "explanation_request \<Rightarrow> model_explanation \<Rightarrow> reply_error + unit" where
  "validate_result rq x = all_checks (result_checks rq x @
     (case xq_risk rq of None \<Rightarrow> [] | Some risk \<Rightarrow> detail_checks rq risk (strip (answer_text x))))"

definition forbidden_phrases :: "string list" where
  "forbidden_phrases = [''lowest-impact'', ''lowest impact'', ''overall risk is not higher'', ''risk is not higher because'']"

definition over_capacity :: "employee_summary \<Rightarrow> bool" where
  "over_capacity e \<longleftrightarrow> (case (es_remaining_hours e, es_capacity_hours e) of (Some r, Some c) \<Rightarrow> c < r | _ \<Rightarrow> False)"

definition validate_supported_workforce_claims :: "explanation_request \<Rightarrow> string \<Rightarrow> unit res" where
  "validate_supported_workforce_claims rq answer =
    (let folded = casefold answer in
     if list_ex (\<lambda>p. occurs_in p folded) forbidden_phrases then grounding_error ''answer introduced unsupported comparison''
     else case xq_project_snapshot rq of
       None \<Rightarrow> Inr ()
     | Some s \<Rightarrow> if occurs_in ''within capacity'' folded \<and> list_ex over_capacity (ds_employees s)
         then grounding_error ''answer contradicted supplied remaining-hours capacity evidence'' else Inr ())"

definition omitted :: "string \<Rightarrow> string \<Rightarrow> string list \<Rightarrow> unit res" where
  "omitted message answer keys =
    (let missing = filter (\<lambda>k. k \<notin> set (issue_keys (upper answer))) (map upper keys) in
     if missing \<noteq> [] then grounding_error (message @ join '', '' (sorted_set missing)) else Inr ())"

definition exhaustive_intents :: "string set" where
  "exhaustive_intents = {''blocked_tasks'', ''done_tasks'', ''missing_estimates'', ''overdue_tasks'', ''due_soon_tasks''}"

definition validate_exhaustive_task_answer :: "explanation_request \<Rightarrow> string \<Rightarrow> unit res" where
  "validate_exhaustive_task_answer rq answer = (case xq_task_query_result rq of
     None \<Rightarrow> Inr ()
   | Some r \<Rightarrow> (case qr_context r of
        None \<Rightarrow> Inr ()
      | Some c \<Rightarrow> if gc_intent c \<notin> exhaustive_intents then Inr ()
          else omitted ''answer omitted expected Jira issue(s): '' answer (map tf_key (qr_tasks r))))"

definition prior_phrases :: "string list" where
  "prior_phrases = [''this risk'', ''that task'', ''those tasks'', ''those employees'', ''this blocker'', ''that project'']"

definition validate_resolved_context_answer :: "explanation_request \<Rightarrow> string \<Rightarrow> unit res" where
  "validate_resolved_context_answer rq answer = (case xq_previous_answer_context rq of
     None \<Rightarrow> Inr ()
   | Some c \<Rightarrow> if gc_issues c = [] \<or> \<not> list_ex (\<lambda>p. occurs_in p (casefold (xq_question rq))) prior_phrases then Inr ()
       else omitted ''follow-up omitted resolved Jira context: '' answer (map tf_key (gc_issues c)))"

section \<open>The facts an answer is checked against\<close>

definition fact_of_task :: "task_summary \<Rightarrow> task_fact" where
  "fact_of_task t = \<lparr>tf_key = tk_key t, tf_summary = tk_summary t, tf_status = tk_status t, tf_assignee = tk_assignee_name t,
     tf_due_date = tk_due_date t, tf_remaining_hours = tk_remaining_hours t, tf_blocker = tk_blocker t, tf_dependencies = tk_dependencies t\<rparr>"

definition fact_of_situation :: "task_situation \<Rightarrow> task_fact" where
  "fact_of_situation t = \<lparr>tf_key = ti_key t, tf_summary = ti_summary t, tf_status = ti_status t, tf_assignee = None,
     tf_due_date = ti_due_date t, tf_remaining_hours = ti_remaining_hours t, tf_blocker = ti_blocker_category t,
     tf_dependencies = ti_dependencies t\<rparr>"

text \<open>A dictionary by key keeps the place of the first and the value of the last; \<open>setdefault\<close> adds a key it does not have.\<close>

definition facts_by_key :: "task_fact list \<Rightarrow> task_fact list" where
  "facts_by_key facts = List.map_filter (map_of (rev (map (\<lambda>f. (tf_key f, f)) facts))) (first_of_each (map tf_key facts))"

fun add_facts :: "task_fact list \<Rightarrow> task_fact list \<Rightarrow> task_fact list" where
  "add_facts facts [] = facts"
| "add_facts facts (f # fs) = add_facts (if tf_key f \<in> set (map tf_key facts) then facts else facts @ [f]) fs"

definition with_previous_context :: "explanation_request \<Rightarrow> task_fact list \<Rightarrow> task_fact list" where
  "with_previous_context rq facts = (case xq_previous_answer_context rq of
     None \<Rightarrow> facts | Some c \<Rightarrow> add_facts (facts_by_key facts) (gc_issues c))"

definition grounding_facts :: "explanation_request \<Rightarrow> task_fact list" where
  "grounding_facts rq = with_previous_context rq (case xq_task_query_result rq of
     Some r \<Rightarrow> qr_tasks r
   | None \<Rightarrow> (case xq_project_snapshot rq of
       Some s \<Rightarrow> map fact_of_task (ds_tasks s)
     | None \<Rightarrow> (case xq_evidence_dossier rq of Some d \<Rightarrow> map fact_of_situation (do_tasks d) | None \<Rightarrow> [])))"

definition validated_snapshot :: "explanation_request \<Rightarrow> dashboard_snapshot option" where
  "validated_snapshot rq = (case Option.bind (xq_universal_evidence rq) ub_project_snapshot of
     Some s \<Rightarrow> Some s | None \<Rightarrow> xq_project_snapshot rq)"

definition validated_project_issue_keys :: "explanation_request \<Rightarrow> string list" where
  "validated_project_issue_keys rq = (case validated_snapshot rq of None \<Rightarrow> [] | Some s \<Rightarrow> map tk_key (ds_tasks s))"

definition validated_project_employee_ids :: "explanation_request \<Rightarrow> string list" where
  "validated_project_employee_ids rq = (case validated_snapshot rq of None \<Rightarrow> [] | Some s \<Rightarrow> map es_employee_id (ds_employees s))"

definition dependency_issue_keys :: "task_fact list \<Rightarrow> string list" where
  "dependency_issue_keys facts = sorted_set (keys_in (concat (map tf_dependencies facts)))"

definition focused_of :: "explanation_request \<Rightarrow> answer_evidence_set option" where
  "focused_of rq = Option.bind (xq_universal_evidence rq) ub_answer_evidence"

definition focused_checks :: "explanation_request \<Rightarrow> answer_evidence_set \<Rightarrow> string \<Rightarrow> (reply_error + unit) list" where
  "focused_checks rq ev answer = map grounded [validate_focused_claims answer ev (validated_project_issue_keys rq),
     validate_focused_completeness answer ev, validate_insufficiency_claim answer ev]"

text \<open>The checks of \<open>explain\<close> in their order\<close>

definition answer_checks :: "explanation_request \<Rightarrow> model_explanation \<Rightarrow> (reply_error + unit) list" where
  "answer_checks rq x =
    (let a = answer_text x; facts = grounding_facts rq in
     [validate_result rq x, grounded (validate_supported_workforce_claims rq a), grounded (validate_exhaustive_task_answer rq a),
      grounded (validate_resolved_context_answer rq a),
      grounded (validate_jira_claims a facts (dependency_issue_keys facts) (validated_project_employee_ids rq))]
     @ (case xq_universal_evidence rq of None \<Rightarrow> [] | Some u \<Rightarrow>
          (case ub_answer_evidence u of None \<Rightarrow> [] | Some ev \<Rightarrow> focused_checks rq ev a)
          @ map grounded [validate_universal_claims a u, validate_universal_completeness a u]))"

definition bedrock_response :: "explanation_request \<Rightarrow> model_explanation \<Rightarrow> explanation" where
  "bedrock_response rq x = \<lparr>xp_answer = xp_answer x, xp_summary = xp_summary x, xp_root_causes = xp_root_causes x,
     xp_recommendations = xp_recommendations x, xp_citations = xp_citations x, xp_score = xp_score x, xp_risk_level = xp_risk_level x,
     xp_uncertainties = xp_uncertainties x, xp_source = FromBedrock, xp_correlation_id = xq_correlation_id rq\<rparr>"

definition judge_reply :: "'w bedrock \<Rightarrow> explanation_request \<Rightarrow> string \<Rightarrow> reply_error + explanation" where
  "judge_reply b rq raw = (case model_result_from_text b rq raw of
     Inl e \<Rightarrow> Inl e
   | Inr x0 \<Rightarrow> (let x = sanitize_subject_candidate rq x0 in
       case all_checks (answer_checks rq x) of Inl e \<Rightarrow> Inl e | Inr _ \<Rightarrow> Inr (bedrock_response rq x)))"

section \<open>The circuit breaker\<close>

record circuit =
  ct_failures :: int
  ct_opened_at :: "pyfloat option"

definition closed_circuit :: circuit where
  "closed_circuit = \<lparr>ct_failures = 0, ct_opened_at = None\<rparr>"

definition record_failure :: "'w bedrock \<Rightarrow> 'w \<Rightarrow> circuit \<Rightarrow> circuit" where
  "record_failure b w st = (let n = ct_failures st + 1 in
     st\<lparr>ct_failures := n, ct_opened_at := (if n \<ge> max 1 (bp_failure_threshold b) then Some (bp_clock b w) else ct_opened_at st)\<rparr>)"

definition circuit_is_open :: "'w bedrock \<Rightarrow> 'w \<Rightarrow> circuit \<Rightarrow> bool \<times> circuit" where
  "circuit_is_open b w st = (case ct_opened_at st of
     None \<Rightarrow> (False, st)
   | Some t \<Rightarrow> if fsub (bp_clock b w) t < bp_reset_seconds b then (True, st) else (False, closed_circuit))"

section \<open>The conservative answer\<close>

abbreviation os_error :: py_error where
  "os_error \<equiv> OtherException ''OSError''"

definition revised :: "string \<Rightarrow> (string \<times> json) list \<Rightarrow> (string \<times> json) list" where
  "revised text payload = AList.update ''revision_required'' (JStr text) payload"

definition plain_response :: "explanation_request \<Rightarrow> string \<Rightarrow> string list \<Rightarrow> explanation" where
  "plain_response rq text uncertainties = bedrock_response rq \<lparr>xp_answer = Some text, xp_summary = text, xp_root_causes = [],
     xp_recommendations = [], xp_citations = [], xp_score = None, xp_risk_level = None, xp_uncertainties = uncertainties\<rparr>"

definition recovery_evidence :: "explanation_request \<Rightarrow> answer_evidence_set option" where
  "recovery_evidence rq = (case focused_of rq of
     Some ev \<Rightarrow> if av_tasks ev \<noteq> [] \<or> av_employees ev \<noteq> [] then Some ev else None | None \<Rightarrow> None)"

definition recovery_checks :: "explanation_request \<Rightarrow> string \<Rightarrow> (reply_error + unit) list" where
  "recovery_checks rq text = (case recovery_evidence rq of
     None \<Rightarrow> []
   | Some ev \<Rightarrow> focused_checks rq ev text @
       (case xq_universal_evidence rq of None \<Rightarrow> [] | Some u \<Rightarrow> [grounded (validate_universal_claims text u)]))"

definition not_validated :: "string list" where
  "not_validated = [''evidence could not be validated'']"

definition exhausted :: "string list" where
  "exhausted = [''grounding validation exhausted'']"

definition repair_prompt :: "string \<Rightarrow> string" where
  "repair_prompt m = ''Focused recovery failed validation: '' @ m @ ''. Use every focused entity and only exact facts.''"

text \<open>What an attempt leads to: a result, or another attempt with a payload, after an outage or not.\<close>

datatype next_step = Finished "explanation res" | TryAgain bool "(string \<times> json) list"

definition raised :: "(string \<times> json) list \<Rightarrow> py_error \<Rightarrow> next_step" where
  "raised payload e = (if transient e then TryAgain True payload else Finished (Inl e))"

definition conservative_step :: "'w bedrock \<Rightarrow> explanation_request \<Rightarrow> (string \<times> json) list \<Rightarrow> nat \<Rightarrow> string res \<Rightarrow> next_step" where
  "conservative_step b rq payload attempt reply = (case reply of
     Inl e \<Rightarrow> raised payload e
   | Inr raw \<Rightarrow> (let text = strip raw in
       if text = [] then raised payload os_error
       else case all_checks (recovery_checks rq text) of
         Inr _ \<Rightarrow> Finished (Inr (plain_response rq text (if recovery_evidence rq \<noteq> None then [] else not_validated)))
       | Inl (NotGrounded m) \<Rightarrow>
           if Suc attempt \<ge> attempts_of b then Finished (Inr (plain_response rq text exhausted))
           else TryAgain False (revised (repair_prompt m) payload)
       | Inl (Escapes e) \<Rightarrow> raised payload e
       | Inl Unreadable \<Rightarrow> Finished (Inl (ValidationError ''ModelExplanation''))
       | Inl (NotSemantic m) \<Rightarrow> Finished (Inl (ValueError m))))"

definition succeeded :: "'w bedrock \<Rightarrow> explanation res \<Rightarrow> circuit \<Rightarrow> circuit" where
  "succeeded b r st = (if isl r then st else st\<lparr>ct_failures := 0\<rparr>)"

text \<open>
  \<open>_conservative_bedrock_answer\<close>: with \<open>persistent_retry\<close> the loop has no bound, and not returning is the value None.
\<close>

definition recovery_prompt :: "explanation_request \<Rightarrow> prompt_kind" where
  "recovery_prompt rq = (if recovery_evidence rq \<noteq> None then FocusedRecoveryPrompt else ConservativePrompt)"

partial_function (option) conservative_answer ::
  "'w bedrock \<Rightarrow> explanation_request \<Rightarrow> (string \<times> json) list \<Rightarrow> nat \<Rightarrow> circuit \<Rightarrow> 'w \<Rightarrow> (explanation res \<times> circuit \<times> 'w) option" where
  "conservative_answer b rq payload attempt st w =
    (if \<not> bp_persistent_retry b \<and> attempt \<ge> attempts_of b then Some (Inl os_error, st, w)
     else case bp_invoke b (recovery_prompt rq) payload w of (reply, w1) \<Rightarrow>
       (case conservative_step b rq payload attempt reply of
          Finished r \<Rightarrow> Some (r, succeeded b r st, w1)
        | TryAgain outage payload1 \<Rightarrow>
            conservative_answer b rq payload1 (Suc attempt) (if outage then record_failure b w1 st else st) w1))"

declare conservative_answer.simps [code]

section \<open>Explaining\<close>

definition semantic_correction :: "string \<Rightarrow> string" where
  "semantic_correction m =
    (if m = ''model invented reassignment candidate''
     then '' candidate_id must be null because no reassignment candidate was supplied.'' else [])
    @ (if m = ''model omitted concrete Jira task evidence''
       then '' Name at least one supplied Jira task key and explain its concrete deadline evidence.'' else [])
    @ (if m = ''model promoted insufficient employee risk''
       then '' Preserve each employee's supplied level. Describe insufficient-data as uncertainty, not employee risk.'' else [])"

definition revision_for :: "reply_error \<Rightarrow> string" where
  "revision_for e = (case e of
     NotGrounded m \<Rightarrow> ''The previous answer failed grounding validation: '' @ m @
       ''. Rewrite it using only supplied evidence and include every required matching Jira issue.''
   | Unreadable \<Rightarrow> ''Return plain natural-language prose using only supplied evidence.''
   | NotSemantic m \<Rightarrow> ''The previous response was rejected. Rewrite it in at least three detailed sentences using only the supplied '' @
       ''facts. Do not invent comparisons, causal relationships, or unsupported capacity conclusions.'' @ semantic_correction m
   | Escapes _ \<Rightarrow> [])"

text \<open>The attempts of \<open>explain\<close>; they end with a result, or without one, then with the payload of the last attempt.\<close>

datatype attempts_end = Answered "explanation res" | Rejected bool "(string \<times> json) list"

definition reply_verdict :: "'w bedrock \<Rightarrow> explanation_request \<Rightarrow> string res \<Rightarrow> reply_error + explanation" where
  "reply_verdict b rq reply = (case reply of
     Inr raw \<Rightarrow> judge_reply b rq raw
   | Inl (ValidationError m) \<Rightarrow> Inl Unreadable
   | Inl e \<Rightarrow> Inl (Escapes e))"

fun explain_attempts ::
  "'w bedrock \<Rightarrow> explanation_request \<Rightarrow> nat \<Rightarrow> bool \<Rightarrow> (string \<times> json) list \<Rightarrow> circuit \<Rightarrow> 'w \<Rightarrow> attempts_end \<times> circuit \<times> 'w" where
  "explain_attempts b rq 0 semantic payload st w = (Rejected semantic payload, st, w)"
| "explain_attempts b rq (Suc left) semantic payload st w =
    (case bp_invoke b SystemPrompt payload w of (reply, w1) \<Rightarrow>
      (case reply_verdict b rq reply of
         Inr x \<Rightarrow> (Answered (Inr x), st\<lparr>ct_failures := 0\<rparr>, w1)
       | Inl (Escapes e) \<Rightarrow> if transient e then explain_attempts b rq left semantic payload (record_failure b w1 st) w1
           else (Answered (Inl e), st, w1)
       | Inl e \<Rightarrow> explain_attempts b rq left True (if left > 0 then revised (revision_for e) payload else payload) st w1))"

definition falls_back_at_once :: "'w bedrock \<Rightarrow> explanation_request \<Rightarrow> bool" where
  "falls_back_at_once b rq \<longleftrightarrow> bp_allow_fallback b \<and>
     ((case xq_risk rq of None \<Rightarrow> False | Some r \<Rightarrow> rr_score r = None \<or> rr_level r = None) \<or>
      xq_workflow rq = ''explain_history'' \<and> xq_previous_evidence_dossier rq = None \<and> xq_universal_evidence rq = None)"

definition explain ::
  "'w bedrock \<Rightarrow> explanation_request \<Rightarrow> circuit \<Rightarrow> 'w \<Rightarrow> (explanation res \<times> circuit \<times> 'w) option" where
  "explain b rq st w =
    (let fallback = explain_fallback (bp_runtime b) (bp_date_of b) rq; may_fall_back = bp_allow_fallback b \<and> xq_risk rq \<noteq> None in
     if falls_back_at_once b rq then Some (fallback, st, w)
     else case circuit_is_open b w st of (is_open, st1) \<Rightarrow>
       if is_open then Some (if may_fall_back then fallback else Inl os_error, st1, w)
       else case build_model_payload (bp_runtime b) (bp_dumps b) rq of
         Inl e \<Rightarrow> Some (Inl e, st1, w)
       | Inr payload \<Rightarrow> (case explain_attempts b rq (attempts_of b) False payload st1 w of
           (Answered r, st2, w1) \<Rightarrow> Some (r, st2, w1)
         | (Rejected semantic payload1, st2, w1) \<Rightarrow>
             if semantic \<or> bp_persistent_retry b then conservative_answer b rq payload1 0 st2 w1
             else Some (if may_fall_back then fallback else Inl os_error, st2, w1)))"

text \<open>\<open>plan_evidence\<close> of the provider\<close>

definition provider_plan ::
  "(json \<Rightarrow> 'w \<Rightarrow> string res \<times> 'w) \<Rightarrow> 'w bedrock \<Rightarrow> (json \<Rightarrow> bool option) \<Rightarrow> string \<Rightarrow> string \<Rightarrow> string option \<Rightarrow> grounded_context option
     \<Rightarrow> string \<Rightarrow> 'w \<Rightarrow> evidence_plan res \<times> 'w" where
  "provider_plan invoke b json_bool question project_key employee_id previous correlation_id w =
     plan_evidence invoke (bp_loads b) json_bool (dm_context (bp_dumps b)) (int (attempts_of b)) question project_key employee_id
       previous correlation_id w"

section \<open>Termination\<close>

text \<open>A counter on the world that the model raises by at most one\<close>

definition counts_model :: "('w \<Rightarrow> nat) \<Rightarrow> 'w bedrock \<Rightarrow> bool" where
  "counts_model c b \<longleftrightarrow> (\<forall>p payload w. c (snd (bp_invoke b p payload w)) \<le> c w + 1)"

lemma counts_modelD: "counts_model c b \<Longrightarrow> bp_invoke b p payload w = (r, w1) \<Longrightarrow> c w1 \<le> c w + 1"
  unfolding counts_model_def by (metis snd_conv)

lemma explain_attempts_calls:
  "counts_model c b \<Longrightarrow> explain_attempts b rq left semantic payload st w = (r, st', w') \<Longrightarrow> c w' \<le> c w + left"
proof (induction b rq left semantic payload st w rule: explain_attempts.induct)
  case (2 b rq left semantic payload st w)
  obtain reply w1 where i: "bp_invoke b SystemPrompt payload w = (reply, w1)" by fastforce
  note c = counts_modelD [OF "2.prems"(1) i]
  show ?case
  proof (cases "reply_verdict b rq reply")
    case (Inl e)
    note IH = "2.IH" [OF i [symmetric] Inl]
    from "2.prems" i Inl c show ?thesis
      by (cases e) (auto split: if_splits dest!: IH)
  qed (use "2.prems" i c in auto)
qed simp

lemma conservative_answer_returns:
  assumes "counts_model c b" "\<not> bp_persistent_retry b"
  shows "\<exists>r st' w'. conservative_answer b rq payload attempt st w = Some (r, st', w') \<and> c w' \<le> c w + (attempts_of b - attempt)"
proof (induction "attempts_of b - attempt" arbitrary: payload attempt st w)
  case 0
  then show ?case using assms(2) by (simp add: conservative_answer.simps)
next
  case (Suc n)
  then have a: "\<not> attempt \<ge> attempts_of b" "n = attempts_of b - Suc attempt" by simp_all
  obtain reply w1 where i: "bp_invoke b (recovery_prompt rq) payload w = (reply, w1)" by fastforce
  note c = counts_modelD [OF assms(1) i]
  show ?case
  proof (cases "conservative_step b rq payload attempt reply")
    case (Finished r)
    then show ?thesis using a(1) i c by (subst conservative_answer.simps) simp
  next
    case (TryAgain outage payload1)
    from Suc.hyps(1) [OF a(2), of payload1 "if outage then record_failure b w1 st else st" w1] TryAgain a i c show ?thesis
      by (subst conservative_answer.simps) force
  qed
qed

text \<open>
  C?: Without persistent retries an explanation always comes to an end: whatever the model answers or raises, and
  whatever the state of the circuit, \<open>explain\<close> returns a response or an error after at most twice the configured number of
  attempts of calls to the model.
\<close>

theorem explain_returns:
  assumes "counts_model c b" "\<not> bp_persistent_retry b"
  shows "\<exists>r st' w'. explain b rq st w = Some (r, st', w') \<and> c w' \<le> c w + 2 * attempts_of b"
proof -
  obtain is_open st1 where o: "circuit_is_open b w st = (is_open, st1)" by fastforce
  show ?thesis
  proof (cases "falls_back_at_once b rq \<or> is_open \<or> isl (build_model_payload (bp_runtime b) (bp_dumps b) rq)")
    case True
    then show ?thesis by (auto simp: explain_def Let_def o split: sum.splits)
  next
    case False
    then obtain payload where p: "build_model_payload (bp_runtime b) (bp_dumps b) rq = Inr payload"
      by (cases "build_model_payload (bp_runtime b) (bp_dumps b) rq") auto
    obtain r st2 w1 where a: "explain_attempts b rq (attempts_of b) False payload st1 w = (r, st2, w1)"
      using prod_cases3 by blast
    note c = explain_attempts_calls [OF assms(1) a]
    show ?thesis
    proof (cases r)
      case (Answered x)
      then show ?thesis using False p a c by (auto simp: explain_def Let_def o)
    next
      case (Rejected semantic payload1)
      from conservative_answer_returns [OF assms, of rq payload1 0 st2 w1] obtain r' st' w' where
        "conservative_answer b rq payload1 0 st2 w1 = Some (r', st', w')" "c w' \<le> c w1 + attempts_of b" by auto
      then show ?thesis using False p a c Rejected assms(2) by (auto simp: explain_def Let_def o)
    qed
  qed
qed

text \<open>The model is down: every call raises a timeout or another OSError.\<close>

definition model_down :: "'w bedrock \<Rightarrow> bool" where
  "model_down b \<longleftrightarrow> (\<forall>p payload w. \<exists>e. fst (bp_invoke b p payload w) = Inl e \<and> transient e)"

lemma model_downD:
  assumes "model_down b"
  obtains e w1 where "bp_invoke b p payload w = (Inl e, w1)" "transient e" "reply_verdict b rq (Inl e) = Inl (Escapes e)"
proof -
  from assms obtain e where e: "fst (bp_invoke b p payload w) = Inl e" "transient e" unfolding model_down_def by blast
  then have "bp_invoke b p payload w = (Inl e, snd (bp_invoke b p payload w))" by (metis prod.collapse)
  moreover have "reply_verdict b rq (Inl e) = Inl (Escapes e)" using e(2) by (cases e) (auto simp: reply_verdict_def)
  ultimately show thesis using e(2) that by blast
qed

lemma attempts_down:
  assumes "model_down b"
  shows "\<exists>st' w'. explain_attempts b rq left semantic payload st w = (Rejected semantic payload, st', w')"
proof (induction left arbitrary: st w)
  case (Suc left)
  obtain e w1 where "bp_invoke b SystemPrompt payload w = (Inl e, w1)" "transient e" "reply_verdict b rq (Inl e) = Inl (Escapes e)"
    using assms by (rule model_downD)
  then show ?case using Suc.IH by simp
qed simp

lemmas conservative_induct = conservative_answer.raw_induct [rotated, consumes 1, case_names step]

lemma conservative_down:
  "conservative_answer b rq payload attempt st w = Some y \<Longrightarrow> bp_persistent_retry b \<longrightarrow> \<not> model_down b"
proof (induction b rq payload attempt st w y rule: conservative_induct)
  case (step conservative b rq payload attempt st w y)
  show ?case
  proof (intro impI notI)
    assume p: "bp_persistent_retry b" and down: "model_down b"
    obtain e w1 where "bp_invoke b (recovery_prompt rq) payload w = (Inl e, w1)" "transient e"
      using down by (rule model_downD)
    with step(2) p have "conservative b rq payload (Suc attempt) (record_failure b w1 st) w1 = Some y"
      by (simp add: conservative_step_def raised_def)
    from step(1) [OF this] p down show False by blast
  qed
qed

text \<open>
  C?: With persistent retries, which the factory configures, an outage of the model is never reported.  While every call to
  the model raises, \<open>explain\<close> does not return for any request that needs the model, although its circuit is closed and
  opens on the way: the conservative loop neither counts the attempts nor looks at the circuit.  Only a request that
  finds the circuit open already gets the error, and makes no call.
\<close>

theorem outage_never_returns:
  assumes "bp_persistent_retry b" "model_down b" "\<not> falls_back_at_once b rq"
    and "build_model_payload (bp_runtime b) (bp_dumps b) rq = Inr payload"
  shows "explain b rq st w = (if fst (circuit_is_open b w st)
    then Some (if bp_allow_fallback b \<and> xq_risk rq \<noteq> None then explain_fallback (bp_runtime b) (bp_date_of b) rq else Inl os_error, st, w)
    else None)"
proof (cases "circuit_is_open b w st")
  case (Pair is_open st1)
  show ?thesis
  proof (cases is_open)
    case True
    then have "st1 = st" using Pair by (auto simp: circuit_is_open_def split: option.splits if_splits)
    then show ?thesis using assms(3) Pair True by (simp add: explain_def Let_def)
  next
    case False
    obtain st2 w1 where a: "explain_attempts b rq (attempts_of b) False payload st1 w = (Rejected False payload, st2, w1)"
      using attempts_down [OF assms(2)] by blast
    have "conservative_answer b rq payload 0 st2 w1 = None"
      using conservative_down [of b rq payload 0 st2 w1] assms(1,2) by (metis option.exhaust)
    then show ?thesis using assms a Pair False by (simp add: explain_def Let_def)
  qed
qed

section \<open>What an accepted answer says\<close>

text \<open>The answers of the model: accepted ones, and the plain ones of the conservative loop\<close>

definition accepted :: "explanation_request \<Rightarrow> explanation \<Rightarrow> bool" where
  "accepted rq y \<longleftrightarrow> (\<exists>x0. let x = sanitize_subject_candidate rq x0 in all_checks (answer_checks rq x) = Inr () \<and> y = bedrock_response rq x)"

definition conservative_response :: "explanation_request \<Rightarrow> explanation \<Rightarrow> bool" where
  "conservative_response rq y \<longleftrightarrow> (\<exists>text. text \<noteq> [] \<and>
     (y = plain_response rq text exhausted \<or> recovery_evidence rq = None \<and> y = plain_response rq text not_validated \<or>
      recovery_evidence rq \<noteq> None \<and> all_checks (recovery_checks rq text) = Inr () \<and> y = plain_response rq text []))"

lemma judge_accepted: "judge_reply b rq raw = Inr y \<Longrightarrow> accepted rq y"
  unfolding judge_reply_def accepted_def Let_def by (auto split: sum.splits)

lemma attempts_accepted:
  "explain_attempts b rq left semantic payload st w = (Answered (Inr y), st', w') \<Longrightarrow> accepted rq y"
proof (induction b rq left semantic payload st w rule: explain_attempts.induct)
  case (2 b rq left semantic payload st w)
  obtain reply w1 where i: "bp_invoke b SystemPrompt payload w = (reply, w1)" by fastforce
  show ?case
  proof (cases "reply_verdict b rq reply")
    case (Inl e)
    note IH = "2.IH" [OF i [symmetric] Inl]
    from "2.prems" i Inl show ?thesis by (cases e) (auto split: if_splits dest!: IH)
  next
    case (Inr x)
    then have "accepted rq x" by (auto simp: reply_verdict_def split: sum.splits py_error.splits dest: judge_accepted)
    then show ?thesis using "2.prems" i Inr by auto
  qed
qed simp

lemma conservative_step_response:
  "conservative_step b rq payload attempt reply = Finished (Inr y) \<Longrightarrow> conservative_response rq y"
  unfolding conservative_step_def conservative_response_def Let_def raised_def
  by (auto split: sum.splits reply_error.splits if_splits)

lemma conservative_answered:
  "conservative_answer b rq payload attempt st w = Some out \<Longrightarrow> \<forall>y. fst out = Inr y \<longrightarrow> conservative_response rq y"
proof (induction b rq payload attempt st w out rule: conservative_induct)
  case (step conservative b rq payload attempt st w out)
  then show ?case
    by (auto split: if_splits prod.splits next_step.splits dest: conservative_step_response)
qed

lemma explain_cases:
  assumes "explain b rq st w = Some (Inr y, st', w')"
  shows "explain_fallback (bp_runtime b) (bp_date_of b) rq = Inr y \<or> accepted rq y \<or> conservative_response rq y"
proof (cases "explain_fallback (bp_runtime b) (bp_date_of b) rq = Inr y")
  case False
  obtain is_open st1 where o: "circuit_is_open b w st = (is_open, st1)" by fastforce
  from assms False o obtain payload where p: "build_model_payload (bp_runtime b) (bp_dumps b) rq = Inr payload" "\<not> is_open"
      "\<not> falls_back_at_once b rq"
    by (auto simp: explain_def Let_def split: if_splits sum.splits)
  obtain r st2 w1 where a: "explain_attempts b rq (attempts_of b) False payload st1 w = (r, st2, w1)"
    using prod_cases3 by blast
  show ?thesis
  proof (cases r)
    case (Answered x)
    then show ?thesis using assms o p a attempts_accepted by (fastforce simp: explain_def Let_def)
  next
    case (Rejected semantic payload1)
    then have "conservative_answer b rq payload1 0 st2 w1 = Some (Inr y, st', w')"
      using assms o p a False by (auto simp: explain_def Let_def split: if_splits)
    from conservative_answered [OF this] show ?thesis by simp
  qed
qed simp

lemma fallback_source: "explain_fallback rt date_of rq = Inr y \<Longrightarrow> xp_source y = DeterministicFallback"
  by (auto simp: explain_fallback_def Let_def split: option.splits)

lemma fallback_risk:
  assumes "explain_fallback rt date_of rq = Inr y"
  shows "xp_score y = Option.bind (xq_risk rq) rr_score \<and> xp_risk_level y = Option.bind (xq_risk rq) level_text \<and>
    set (xp_citations y) \<subseteq> set (allowed_citations rq) \<and> (\<forall>r \<in> set (xp_recommendations y). rm_candidate_id r = None)"
  using assms by (auto simp: explain_fallback_def Let_def level_text_def allowed_citations_def first_of_each_def split: option.splits)

lemma validated_result:
  assumes "validate_result rq x = Inr ()"
  shows "xp_score x = Option.bind (xq_risk rq) rr_score" and "xp_risk_level x = Option.bind (xq_risk rq) level_text"
    and "set (xp_citations x) \<subseteq> set (allowed_citations rq)" and "set (cited_candidates x) \<subseteq> set (xq_candidate_ids rq)"
  using assms by (auto simp: validate_result_def result_checks_def all_checks_Inr Let_def)

text \<open>
  C?: The model cannot change the deterministic result.  Whatever texts the model returns, a response carries the
  score and the level of the risk result of the request, or none at all (the conservative answers); it cites only
  evidence the request supplies, recommends only candidates the request supplies, and has the correlation id of the
  request.
\<close>

theorem model_keeps_the_result:
  assumes "explain b rq st w = Some (Inr y, st', w')"
  shows "(xp_score y = Option.bind (xq_risk rq) rr_score \<and> xp_risk_level y = Option.bind (xq_risk rq) level_text \<or>
       xp_score y = None \<and> xp_risk_level y = None) \<and>
    set (xp_citations y) \<subseteq> set (allowed_citations rq) \<and>
    (\<forall>r \<in> set (xp_recommendations y). case rm_candidate_id r of None \<Rightarrow> True | Some c \<Rightarrow> c \<in> set (xq_candidate_ids rq)) \<and>
    xp_correlation_id y = xq_correlation_id rq"
  using explain_cases [OF assms]
proof (elim disjE)
  assume "explain_fallback (bp_runtime b) (bp_date_of b) rq = Inr y"
  moreover from this have "xp_correlation_id y = xq_correlation_id rq"
    by (auto simp: explain_fallback_def Let_def split: option.splits)
  ultimately show ?thesis using fallback_risk by fastforce
next
  assume "accepted rq y"
  then obtain x where x: "all_checks (answer_checks rq x) = Inr ()" "y = bedrock_response rq x"
    by (auto simp: accepted_def Let_def)
  from x(1) have "validate_result rq x = Inr ()" by (simp add: answer_checks_def all_checks_Inr Let_def)
  note v = validated_result [OF this]
  have "rm_candidate_id r = Some c \<Longrightarrow> c \<in> set (xq_candidate_ids rq)" if "r \<in> set (xp_recommendations x)" for r c
    using v(4) that by (force simp: cited_candidates_def List.map_filter_def)
  then show ?thesis using v(1-3) by (auto simp: x(2) bedrock_response_def split: option.splits)
next
  assume "conservative_response rq y"
  then show ?thesis by (auto simp: conservative_response_def plain_response_def bedrock_response_def)
qed

text \<open>With focused evidence, an answer of the model that is not marked as unvalidated knows every key it names.\<close>

lemma bedrock_keys_known:
  assumes "explain b rq st w = Some (Inr y, st', w')" "xp_source y = FromBedrock" "focused_of rq = Some ev" "xp_answer y = Some a"
    and "xp_uncertainties y \<notin> {exhausted, not_validated}" "jira_key k" "word_in k (upper a)"
  shows "known_key ev (validated_project_issue_keys rq) k"
proof -
  from explain_cases [OF assms(1)] assms(2) fallback_source consider "accepted rq y" | "conservative_response rq y" by fastforce
  then have "validate_focused_claims a ev (validated_project_issue_keys rq) = Inr ()"
  proof cases
    case 1
    then obtain x where x: "all_checks (answer_checks rq x) = Inr ()" "y = bedrock_response rq x"
      by (auto simp: accepted_def Let_def)
    have "answer_text x = a" using assms(4) x(2) by (simp add: bedrock_response_def answer_text_def)
    moreover obtain u where "xq_universal_evidence rq = Some u" "ub_answer_evidence u = Some ev"
      using assms(3) by (auto simp: focused_of_def bind_eq_Some_conv)
    ultimately show ?thesis using x(1) by (simp add: answer_checks_def all_checks_Inr Let_def focused_checks_def)
  next
    case 2
    then obtain t0 where t: "recovery_evidence rq \<noteq> None" "all_checks (recovery_checks rq t0) = Inr ()" "y = plain_response rq t0 []"
      using assms(5) by (auto simp: conservative_response_def plain_response_def bedrock_response_def)
    then have "recovery_evidence rq = Some ev" "t0 = a"
      using assms(3,4) by (auto simp: recovery_evidence_def plain_response_def bedrock_response_def split: if_splits)
    then show ?thesis using t(2) by (simp add: recovery_checks_def all_checks_Inr focused_checks_def)
  qed
  then show ?thesis using assms(6,7) by (rule accepted_keys_known)
qed

section \<open>The answer to an investigation\<close>

text \<open>An explainer whose explanations are those of a provider, in whatever state of its circuit and of the world\<close>

definition explained_by :: "'b bedrock \<Rightarrow> 'w workflow \<Rightarrow> bool" where
  "explained_by b wk \<longleftrightarrow> (\<forall>rq w y w'. wf_explainer wk rq w = (Inr y, w') \<longrightarrow>
     (\<exists>st u st' u'. explain b rq st u = Some (Inr y, st', u')))"

text \<open>The names a snapshot knows: its tasks, what they depend on, its employees\<close>

definition in_snapshot :: "dashboard_snapshot \<Rightarrow> string \<Rightarrow> bool" where
  "in_snapshot s k \<longleftrightarrow> (\<exists>t \<in> set (ds_tasks s). k = upper (tk_key t) \<or> (\<exists>d \<in> set (tk_dependencies t). word_in k (upper d))) \<or>
     (\<exists>e \<in> set (ds_employees s). k = upper (es_employee_id e))"

lemma evidence_in_snapshot:
  assumes "build_answer_evidence date_of q s plan previous = Inr ev" "known_key ev (map tk_key (ds_tasks s)) k"
  shows "in_snapshot s k"
proof -
  let ?today = "date_of (ds_evidence_timestamp s)"
  obtain sel req emps where f: "focused_selection ?today s plan (casefold q) (explicit_task_keys (casefold q) plan previous) = (sel, req, emps)"
    using prod_cases3 by blast
  have "av_tasks ev = map (task_evidence ?today) sel" "av_employees ev = map (employee_evidence s) emps"
    using assms(1) by (auto simp: build_answer_evidence_def Let_def f required_tasks_in_evidence_def split: if_splits)
  then show ?thesis using assms(2) focused_selection_sub(1,3) [OF f]
    by (force simp: known_key_def in_snapshot_def task_evidence_def employee_evidence_def)
qed

text \<open>
  C?: A validated answer names only work of the authorised project.  When the project tool is the dashboard's \<open>build\<close> and
  the explainer is the Bedrock provider, then whatever the model answered: a successful investigation was authorised for
  its project, and every issue key in an answer of the model that is not marked as unvalidated is the key of a task of the
  snapshot built for that project, whose tasks are its own, or occurs in a dependency of such a task, or is the
  identifier of one of its employees.
\<close>

theorem answer_names_project_work:
  assumes "wf_project_tool wk = Some (build rt vars v)" "5 \<le> wf_max_steps wk" "length q \<le> 1000" "explained_by b wk"
    and "run_workflow wk ctx q refs prev w = (Inr x, w')" "iv_explanation x = Some y" "xp_source y = FromBedrock"
    and "xp_answer y = Some a" "xp_uncertainties y \<notin> {exhausted, not_validated}"
  shows "er_project_key refs \<in> set (vc_authorized_project_keys ctx) \<and>
    (\<exists>s wa wb. build rt vars v (er_project_key refs) (vc_correlation_id ctx) wa = (Inr s, wb) \<and>
       (\<forall>t \<in> set (ds_tasks s). starts_with (er_project_key refs @ ''-'') (tk_key t)) \<and>
       (\<forall>k. jira_key k \<and> word_in k (upper a) \<longrightarrow> in_snapshot s k))"
proof -
  from assms(1,2,3,5) obtain s wa wb u ev plan previous rq wc where
    s: "er_project_key refs \<in> set (vc_authorized_project_keys ctx)"
    "build rt vars v (er_project_key refs) (vc_correlation_id ctx) wa = (Inr s, wb)"
    "xq_universal_evidence rq = Some u" "ub_answer_evidence u = Some ev" "ub_project_snapshot u = Some s"
    "build_answer_evidence (wf_date_of wk) q s plan previous = Inr ev"
    "wf_explainer wk rq wc = (Inr y, w')"
    using assms(6) by (elim investigation_explained) auto
  from assms(4) s(7) obtain st u0 st' u' where e: "explain b rq st u0 = Some (Inr y, st', u')"
    unfolding explained_by_def by blast
  have "focused_of rq = Some ev" "validated_project_issue_keys rq = map tk_key (ds_tasks s)"
    by (simp_all add: focused_of_def validated_project_issue_keys_def validated_snapshot_def s(3-5))
  with bedrock_keys_known [OF e assms(7) _ assms(8,9)] evidence_in_snapshot [OF s(6)]
  have "\<forall>k. jira_key k \<and> word_in k (upper a) \<longrightarrow> in_snapshot s k" by auto
  then show ?thesis using s(1,2) build_own_tasks [OF s(2)] by blast
qed

section \<open>Witnesses\<close>

definition sample_dumps :: dumps_of where
  "sample_dumps = \<lparr>dm_answer = (\<lambda>_. JNull), dm_bundle = (\<lambda>_. JNull), dm_missing = (\<lambda>_. JNull), dm_query = (\<lambda>_. JNull),
     dm_snapshot = (\<lambda>_. JNull), dm_context = (\<lambda>_. JNull), dm_comparison = (\<lambda>_. JNull)\<rparr>"

text \<open>A provider whose model answers in order what a function of the number of its calls says\<close>

definition sample_provider :: "(nat \<Rightarrow> string res) \<Rightarrow> bool \<Rightarrow> nat bedrock" where
  "sample_provider replies persistent = \<lparr>bp_invoke = (\<lambda>p payload n. (replies n, Suc n)), bp_allow_fallback = False, bp_max_attempts = 3,
     bp_persistent_retry = persistent, bp_failure_threshold = 3, bp_reset_seconds = 60, bp_clock = (\<lambda>_. 0),
     bp_loads = (\<lambda>_. None), bp_model = (\<lambda>_. None), bp_runtime = sample_runtime, bp_dumps = sample_dumps, bp_date_of = (\<lambda>t. 0)\<rparr>"

definition outage :: "nat \<Rightarrow> string res" where
  "outage n = Inl TimeoutError"

definition brief :: "nat \<Rightarrow> string res" where
  "brief n = (if n = 0 then Inl TimeoutError else Inr ''Yes.'')"

definition sample_query_request :: explanation_request where
  "sample_query_request = \<lparr>xq_workflow = ''tasks'', xq_question = ''Is it done?'', xq_risk = None, xq_project_snapshot = None,
     xq_task_query_result = Some \<lparr>qr_answer = [], qr_tasks = [], qr_evidence_references = [], qr_correlation_id = ''c'', qr_context = None\<rparr>,
     xq_evidence_dossier = None, xq_previous_evidence_dossier = None, xq_previous_answer_context = None, xq_universal_evidence = None,
     xq_candidate_ids = [], xq_untrusted_evidence = [], xq_correlation_id = ''c''\<rparr>"

lemma sample_counts: "counts_model id (sample_provider replies persistent)"
  by (simp add: counts_model_def sample_provider_def)

theorem explain_returns_witness:
  "\<exists>r st' w'. explain (sample_provider outage False) sample_query_request closed_circuit 0 = Some (r, st', w') \<and> w' \<le> 6"
proof -
  have "\<not> bp_persistent_retry (sample_provider outage False)" "attempts_of (sample_provider outage False) = 3"
    by (simp_all add: sample_provider_def attempts_of_def)
  from explain_returns [OF sample_counts this(1), of sample_query_request closed_circuit 0] this(2) show ?thesis by simp
qed

theorem outage_never_returns_witness:
  "explain (sample_provider outage True) sample_query_request closed_circuit 0 = None"
proof -
  have b: "bp_persistent_retry (sample_provider outage True)" "model_down (sample_provider outage True)"
    "\<not> falls_back_at_once (sample_provider outage True) sample_query_request"
    by (simp_all add: sample_provider_def model_down_def falls_back_at_once_def outage_def)
  have p: "build_model_payload (bp_runtime (sample_provider outage True)) (bp_dumps (sample_provider outage True)) sample_query_request
      = Inr (query_payload sample_dumps sample_query_request (the (xq_task_query_result sample_query_request)))"
    by (simp add: sample_provider_def build_model_payload_def sample_query_request_def)
  show ?thesis using outage_never_returns [OF b p, of closed_circuit 0] by (simp add: circuit_is_open_def closed_circuit_def)
qed

theorem model_keeps_the_result_witness:
  "\<exists>y st' w'. explain (sample_provider brief True) sample_query_request closed_circuit 0 = Some (Inr y, st', w') \<and>
     xp_source y = FromBedrock \<and> xp_answer y = Some ''Yes.'' \<and> xp_score y = None \<and> xp_citations y = []"
proof -
  have run: "case explain (sample_provider brief True) sample_query_request closed_circuit 0 of
      Some (Inr y, st', w') \<Rightarrow> xp_source y = FromBedrock \<and> xp_answer y = Some ''Yes.'' | _ \<Rightarrow> False" by code_simp
  then obtain y st' w' where y: "explain (sample_provider brief True) sample_query_request closed_circuit 0 = Some (Inr y, st', w')"
    "xp_source y = FromBedrock" "xp_answer y = Some ''Yes.''"
    by (auto split: option.splits prod.splits sum.splits)
  have "allowed_citations sample_query_request = []" "xq_risk sample_query_request = None"
    by (simp_all add: sample_query_request_def allowed_citations_def snapshot_citations_def)
  then show ?thesis using model_keeps_the_result [OF y(1)] y by auto
qed

definition naming :: "nat \<Rightarrow> string res" where
  "naming n = Inr ''WRD-1 and WRD-2: No.''"

definition provider_workflow :: "(nat \<Rightarrow> string res) \<Rightarrow> unit workflow" where
  "provider_workflow replies = sample_grounding\<lparr>wf_explainer := (\<lambda>rq u. case explain (sample_provider replies True) rq closed_circuit 0 of
     Some (r, _, _) \<Rightarrow> (r, u) | None \<Rightarrow> (Inl TimeoutError, u))\<rparr>"

theorem answer_names_project_work_witness:
  "\<exists>x w' y. run_workflow (provider_workflow naming) sample_verified ''Which tasks are blocked?'' sample_references None () = (Inr x, w') \<and>
     iv_explanation x = Some y \<and> xp_answer y = Some ''WRD-1 and WRD-2: No.'' \<and>
     (\<exists>s wa wb. build sample_runtime (\<lambda>_. None) sample_service (er_project_key sample_references) ''c'' wa = (Inr s, wb) \<and>
        (\<forall>k. jira_key k \<and> word_in k (upper ''WRD-1 and WRD-2: No.'') \<longrightarrow> in_snapshot s k))"
proof -
  have run: "case run_workflow (provider_workflow naming) sample_verified ''Which tasks are blocked?'' sample_references None () of
      (Inr x, w') \<Rightarrow> (case iv_explanation x of Some y \<Rightarrow> xp_source y = FromBedrock \<and>
        xp_answer y = Some ''WRD-1 and WRD-2: No.'' \<and> xp_uncertainties y = [] | None \<Rightarrow> False) | _ \<Rightarrow> False"
    by code_simp
  then obtain x w' y where x: "run_workflow (provider_workflow naming) sample_verified ''Which tasks are blocked?'' sample_references None () = (Inr x, w')"
    "iv_explanation x = Some y" "xp_source y = FromBedrock" "xp_answer y = Some ''WRD-1 and WRD-2: No.''"
    "xp_uncertainties y = []"
    by (auto split: prod.splits sum.splits option.splits)
  have t: "wf_project_tool (provider_workflow naming) = Some (build sample_runtime (\<lambda>_. None) sample_service)"
    "5 \<le> wf_max_steps (provider_workflow naming)"
    by (simp_all add: provider_workflow_def sample_grounding_def)
  have e: "explained_by (sample_provider naming True) (provider_workflow naming)"
    unfolding explained_by_def provider_workflow_def by (auto split: option.splits prod.splits)
  have u: "xp_uncertainties y \<notin> {exhausted, not_validated}" by (simp add: x(5) exhausted_def not_validated_def)
  have "vc_correlation_id sample_verified = ''c''" by (simp add: sample_verified_def)
  with answer_names_project_work [OF t _ e x(1-4) u] x(1,2,4) show ?thesis by fastforce
qed

end
