(* ===== verification/ApiRead.thy ===== *)
theory ApiRead imports Dashboard Alerts Scans Stores AuditLog begin

text \<open>
  The routes of the API that read and change the stored data: alerts, reports, the audit log, scans and the workforce
  profiles of the dashboard (agent\_api/routes/alerts.py, reports.py, audit.py, scans.py, dashboard.py,
  security/environment.py).  A route gets the principal its dependency authenticated (theory ProjectAccess); its outcome
  is a value or the HTTPException it raises, or another exception, which the server answers with status 500.
\<close>

section \<open>Outcomes of a route\<close>

type_synonym 'a http = "http_error + 'a"

definition uncaught :: "'a res \<Rightarrow> 'a http" where
  "uncaught r = map_sum Raised id r"

definition refuse_if :: "bool \<Rightarrow> nat \<Rightarrow> string \<Rightarrow> unit http" where
  "refuse_if b status detail = (if b then Inl (HttpException status detail) else Inr ())"

definition bindh :: "'a http \<Rightarrow> ('a \<Rightarrow> 'b http) \<Rightarrow> 'b http" where
  "bindh r k = (case r of Inl e \<Rightarrow> Inl e | Inr x \<Rightarrow> k x)"

lemma bindh_simps [simp]: "bindh (Inl e) k = Inl e" "bindh (Inr x) k = k x"
  by (simp_all add: bindh_def)

lemma bindh_Inr_iff: "bindh r k = Inr y \<longleftrightarrow> (\<exists>x. r = Inr x \<and> k x = Inr y)"
  by (cases r) auto

lemma refuse_if_simps [simp]: "refuse_if b s t = Inr u \<longleftrightarrow> \<not> b" "refuse_if True s t = Inl (HttpException s t)"
  by (auto simp: refuse_if_def)

lemma uncaught_Inr [simp]: "uncaught r = Inr x \<longleftrightarrow> r = Inr x"
  by (cases r) (auto simp: uncaught_def)

definition enforce_project_scope :: "environ \<Rightarrow> string \<Rightarrow> principal \<Rightarrow> unit http" where
  "enforce_project_scope vars project_key p =
     refuse_if (project_key \<noteq> getenv vars ''JIRA_PROJECT_KEY'' ''WRD'' \<or> project_key \<notin> set (pp_project_scopes p))
       403 ''project scope is not authorized''"

definition require_manager :: "string \<Rightarrow> principal \<Rightarrow> unit http" where
  "require_manager detail p = refuse_if (pp_role p \<notin> {application_role.Manager, application_role.Administrator}) 403 detail"

text \<open>\<open>offset((page - 1) * size).limit(size)\<close>; \<open>page\<close> and \<open>psize\<close> are at least 1.\<close>

definition page_of :: "nat \<Rightarrow> nat \<Rightarrow> 'a list \<Rightarrow> 'a list" where
  "page_of page psize rows = take psize (drop ((page - 1) * psize) rows)"

definition listing :: "json list \<Rightarrow> nat \<Rightarrow> nat \<Rightarrow> nat \<Rightarrow> (string \<times> json) list" where
  "listing items page psize n = [(''items'', JList items), (''page'', JInt (int page)), (''page_size'', JInt (int psize)), (''total'', JInt (int n))]"

text \<open>A header with a version: \<open>int(if_match.strip('"'))\<close>\<close>

definition strip_quotes :: "string \<Rightarrow> string" where
  "strip_quotes s = rev (dropWhile (\<lambda>c. c = CHR 0x22) (rev (dropWhile (\<lambda>c. c = CHR 0x22) s)))"

definition etag :: "int \<Rightarrow> string" where
  "etag version = [CHR 0x22] @ int_repr version @ [CHR 0x22]"

section \<open>Alerts\<close>

record alert_query =
  aq_page :: nat
  aq_page_size :: nat
  aq_newest_first :: bool
  aq_state :: "string option"
  aq_severity :: "string option"

text \<open>An empty text is no filter.\<close>

definition wanted :: "string option \<Rightarrow> string \<Rightarrow> bool" where
  "wanted filter_text value \<longleftrightarrow> (case filter_text of None \<Rightarrow> True | Some t \<Rightarrow> t = [] \<or> value = t)"

definition matching_alerts :: "environment \<Rightarrow> alert_query \<Rightarrow> db \<Rightarrow> alert_row list" where
  "matching_alerts env q d =
    (let rows = filter (\<lambda>a. al_environment a = env \<and> wanted (aq_state q) (alert_state_value (al_state a)) \<and>
           wanted (aq_severity q) (risk_level_value (al_severity a))) (db_alerts d)
     in sort_key (\<lambda>a. (if aq_newest_first q then - al_created_at a else al_created_at a, al_id a)) rows)"

definition alert_item :: "runtime \<Rightarrow> db \<Rightarrow> alert_row \<Rightarrow> json" where
  "alert_item rt d a = JObj [(''id'', JStr (rt_uuid rt (al_id a))), (''subject_id'', JStr (al_subject_id a)),
     (''risk_type'', JStr (al_risk_type a)), (''state'', JStr (alert_state_value (al_state a))),
     (''severity'', JStr (risk_level_value (al_severity a))), (''version'', JInt (al_version a)),
     (''created_at'', JStr (rt_isoformat rt (al_created_at a))),
     (''recurrence_count'', JInt (int (length (occurrences_of d (al_id a)))))]"

definition list_alerts :: "runtime \<Rightarrow> environ \<Rightarrow> principal \<Rightarrow> string \<Rightarrow> alert_query \<Rightarrow> db \<Rightarrow> (string \<times> json) list http" where
  "list_alerts rt vars p project_key q d =
    bindh (enforce_project_scope vars project_key p) (\<lambda>_.
    let rows = matching_alerts (pp_environment p) q d in
    Inr (listing (map (alert_item rt d) (page_of (aq_page q) (aq_page_size q) rows)) (aq_page q) (aq_page_size q) (length rows)))"

datatype alert_target = ToAcknowledged | ToResolved | ToDismissed

fun target_state :: "alert_target \<Rightarrow> alert_state" where
  "target_state ToAcknowledged = Acknowledged"
| "target_state ToResolved = Resolved"
| "target_state ToDismissed = Dismissed"

record alert_change =
  ah_alert_id :: string
  ah_state :: alert_target
  ah_dismissal_reason :: "string option"
  ah_project_key :: string
  ah_if_match :: "string option"
  ah_correlation_id :: string

text \<open>The response has the row after the change, and the ETag and X-Correlation-ID headers.\<close>

definition changed_item :: "runtime \<Rightarrow> alert_row \<Rightarrow> json" where
  "changed_item rt a = JObj [(''id'', JStr (rt_uuid rt (al_id a))), (''state'', JStr (alert_state_value (al_state a))),
     (''severity'', JStr (risk_level_value (al_severity a))), (''version'', JInt (al_version a))]"

definition store_transition ::
  "runtime \<Rightarrow> timestamp \<Rightarrow> principal \<Rightarrow> uuid \<Rightarrow> int \<Rightarrow> alert_change \<Rightarrow> db \<Rightarrow> alert_row option tx" where
  "store_transition rt now p alert_id version ch d =
    bindr (alert_transition rt now alert_id version (target_state (ah_state ch)) (pp_actor_id p) (ah_correlation_id ch)
       (ah_dismissal_reason ch) d) (\<lambda>(changed, d1).
    if \<not> changed then Inr (None, d1)
    else case select_one (\<lambda>a. al_id a = alert_id) (db_alerts d1) of
      None \<Rightarrow> Inl AssertionError | Some a \<Rightarrow> Inr (Some a, d1))"

definition transition_alert ::
  "runtime \<Rightarrow> environ \<Rightarrow> timestamp \<Rightarrow> principal \<Rightarrow> alert_change \<Rightarrow> db \<Rightarrow> (json \<times> (string \<times> string) list) http \<times> db" where
  "transition_alert rt vars now p ch d =
    (case bindh (enforce_project_scope vars (ah_project_key ch) p) (\<lambda>_.
          bindh (require_manager ''alert changes require manager'' p) (\<lambda>_.
          case ah_if_match ch of
            None \<Rightarrow> Inl (HttpException 428 ''If-Match is required'')
          | Some tag \<Rightarrow> (case (int_of_text (strip_quotes tag), rt_parse_uuid rt (ah_alert_id ch)) of
              (Some version, Some alert_id) \<Rightarrow> Inr (version, alert_id)
            | _ \<Rightarrow> Inl (HttpException 400 ''invalid alert version or ID'')))) of
       Inl e \<Rightarrow> (Inl e, d)
     | Inr (version, alert_id) \<Rightarrow>
        (case store_transition rt now p alert_id version ch d of
           Inl e \<Rightarrow> (Inl (Raised e), d)
         | Inr (None, d1) \<Rightarrow> (Inl (HttpException 409 ''alert version conflict''), d1)
         | Inr (Some a, d1) \<Rightarrow> (Inr (changed_item rt a, [(''ETag'', etag (al_version a)), (''X-Correlation-ID'', ah_correlation_id ch)]), d1)))"

section \<open>Reports\<close>

definition environment_reports :: "environment \<Rightarrow> db \<Rightarrow> report_row list" where
  "environment_reports env d =
     sort_key (\<lambda>r. (- rm_created_at r, rm_id r)) (filter (\<lambda>r. rm_environment r = env) (db_reports d))"

fun status_text :: "report_status \<Rightarrow> string" where
  "status_text ReportPending = ''pending''"
| "status_text ReportStored = ''stored''"
| "status_text ReportFailed = ''failed''"

definition report_item :: "runtime \<Rightarrow> report_row \<Rightarrow> json" where
  "report_item rt r = JObj [(''id'', JStr (rt_uuid rt (rm_id r))), (''report_type'', JStr (rm_report_type r)),
     (''status'', JStr (status_text (rm_status r))), (''created_at'', JStr (rt_isoformat rt (rm_created_at r))),
     (''object_version'', json_opt JStr (rm_object_version r)), (''checksum'', json_opt JStr (rm_checksum r))]"

definition list_reports :: "runtime \<Rightarrow> environ \<Rightarrow> principal \<Rightarrow> string \<Rightarrow> nat \<Rightarrow> nat \<Rightarrow> db \<Rightarrow> (string \<times> json) list http" where
  "list_reports rt vars p project_key page psize d =
    bindh (enforce_project_scope vars project_key p) (\<lambda>_.
    let rows = environment_reports (pp_environment p) d in
    Inr (listing (map (report_item rt) (page_of page psize rows)) page psize (length rows)))"

text \<open>\<open>download_url\<close>: the S3 client's \<open>generate_presigned_url\<close> is the argument \<open>presign\<close> (bucket, key, version, seconds).\<close>

type_synonym presigner = "string \<Rightarrow> string \<Rightarrow> string \<Rightarrow> nat \<Rightarrow> string"

definition object_of_report :: "environment \<Rightarrow> report_row \<Rightarrow> (string \<times> string) option res" where
  "object_of_report env r = (case (rm_object_key r, rm_object_version r) of
     (Some key, Some version) \<Rightarrow>
       (if key = [] \<or> version = [] then Inr None
        else if \<not> starts_with (''reports/'' @ environment_value env @ ''/'') key
        then Inl (PermissionError ''report object is outside environment scope'') else Inr (Some (key, version)))
   | _ \<Rightarrow> Inr None)"

definition download_url :: "presigner \<Rightarrow> string \<Rightarrow> environment \<Rightarrow> uuid \<Rightarrow> db \<Rightarrow> string option res" where
  "download_url presign bucket env report_id d =
    (case select_one (\<lambda>r. rm_id r = report_id \<and> rm_environment r = env \<and> rm_status r = ReportStored) (db_reports d) of
       None \<Rightarrow> Inr None
     | Some r \<Rightarrow> map_sum id (map_option (\<lambda>(key, version). presign bucket key version 300)) (object_of_report env r))"

definition download_report ::
  "runtime \<Rightarrow> environ \<Rightarrow> presigner \<Rightarrow> string \<Rightarrow> principal \<Rightarrow> string \<Rightarrow> string \<Rightarrow> db \<Rightarrow> (string \<times> json) list http" where
  "download_report rt vars presign bucket p project_key report_id d =
    bindh (enforce_project_scope vars project_key p) (\<lambda>_.
    case rt_parse_uuid rt report_id of
      None \<Rightarrow> Inl (HttpException 404 ''report not found'')
    | Some rid \<Rightarrow> bindh (uncaught (download_url presign bucket (pp_environment p) rid d)) (\<lambda>url.
        case url of None \<Rightarrow> Inl (HttpException 404 ''report not found'')
        | Some u \<Rightarrow> Inr [(''url'', JStr u), (''expires_in'', JInt 300)]))"

section \<open>The audit log\<close>

definition forbidden_metadata_keys :: "string list" where
  "forbidden_metadata_keys = [''token'', ''secret'', ''password'', ''credential'', ''authorization'']"

definition forbidden_key :: "string \<Rightarrow> bool" where
  "forbidden_key key \<longleftrightarrow> list_ex (\<lambda>term. occurs_in term (casefold key)) forbidden_metadata_keys"

fun safe_metadata :: "json \<Rightarrow> json" where
  "safe_metadata (JObj kvs) = JObj (map (\<lambda>(k, v). (k, safe_metadata v)) (filter (\<lambda>(k, v). \<not> forbidden_key k) kvs))"
| "safe_metadata (JList xs) = JList (map safe_metadata xs)"
| "safe_metadata j = j"

definition audit_item :: "runtime \<Rightarrow> audit_event \<Rightarrow> json" where
  "audit_item rt e = JObj [(''sequence_number'', JInt (ae_sequence_number e)), (''created_at'', JStr (rt_isoformat rt (ae_created_at e))),
     (''action_type'', JStr (ae_action_type e)), (''actor_type'', JStr (ae_actor_type e)), (''actor_id'', JStr (ae_actor_id e)),
     (''subject_ids'', json_strings (ae_subject_ids e)), (''prior_state'', safe_metadata (ae_prior_state e)),
     (''new_state'', safe_metadata (ae_new_state e)), (''correlation_id'', JStr (ae_correlation_id e)),
     (''safe_metadata'', safe_metadata (ae_safe_metadata e))]"

definition ordered_events :: "bool \<Rightarrow> environment \<Rightarrow> db \<Rightarrow> audit_event list" where
  "ordered_events newest_first env d = (if newest_first
     then sort_key (\<lambda>e. - ae_sequence_number e) (filter (\<lambda>e. ae_environment e = env) (db_audit d)) else env_events env d)"

definition list_audit ::
  "runtime \<Rightarrow> environ \<Rightarrow> principal \<Rightarrow> string \<Rightarrow> nat \<Rightarrow> nat \<Rightarrow> string \<Rightarrow> db \<Rightarrow> (string \<times> json) list http" where
  "list_audit rt vars p project_key page psize sort_by d =
    bindh (enforce_project_scope vars project_key p) (\<lambda>_.
    bindh (refuse_if (pp_role p \<noteq> application_role.Administrator) 403 ''audit access requires administrator'') (\<lambda>_.
    bindh (refuse_if (sort_by \<notin> {''sequence'', ''-sequence''}) 422 ''unsupported sort'') (\<lambda>_.
    let rows = ordered_events (sort_by = ''-sequence'') (pp_environment p) d in
    Inr (listing (map (audit_item rt) (page_of page psize rows)) page psize (length rows) @
      [(''chain_valid'', JBool (verify_chain rt (pp_environment p) d))]))))"

section \<open>Scans\<close>

definition scan_reply :: "scan_ticket \<Rightarrow> string \<Rightarrow> (string \<times> json) list" where
  "scan_reply t corr = [(''scan_run_id'', JStr (st_scan_run_id t)), (''state'', JStr (scan_state_value (st_state t))),
     (''duplicate'', JBool (st_duplicate t)), (''correlation_id'', JStr corr)]"

text \<open>The reply and, unless the scan is a duplicate, the ticket that is executed in the background\<close>

definition request_manual_scan ::
  "runtime \<Rightarrow> environment \<Rightarrow> principal \<Rightarrow> string \<Rightarrow> string \<Rightarrow> string \<Rightarrow> string \<Rightarrow> timestamp \<Rightarrow> db
     \<Rightarrow> ((string \<times> json) list \<times> scan_ticket option) http \<times> db" where
  "request_manual_scan rt env p project_key scope window corr now d =
    (case bindh (require_manager ''not authorized'' p) (\<lambda>_.
          refuse_if (scope \<noteq> project_key \<or> project_key \<notin> set (pp_project_scopes p)) 403 ''scan scope is not authorized'') of
       Inl e \<Rightarrow> (Inl e, d)
     | Inr _ \<Rightarrow>
        (case scan_request rt env scope window corr now d of
           Inl e \<Rightarrow> (Inl (Raised e), d)
         | Inr (t, d1) \<Rightarrow> (Inr (scan_reply t corr, if st_duplicate t then None else Some t), d1)))"

definition manual_scan_status ::
  "runtime \<Rightarrow> environment \<Rightarrow> principal \<Rightarrow> string \<Rightarrow> db \<Rightarrow> (string \<times> json) list http" where
  "manual_scan_status rt env p scan_run_id d =
    bindh (require_manager ''not authorized'' p) (\<lambda>_. bindh (uncaught (scan_status rt env scan_run_id d)) (\<lambda>t.
    case t of
      None \<Rightarrow> Inl (HttpException 404 ''scan not found'')
    | Some t \<Rightarrow> Inr [(''scan_run_id'', JStr (st_scan_run_id t)), (''state'', JStr (scan_state_value (st_state t)))]))"

section \<open>The dashboard\<close>

text \<open>The capacity of a stored profile at an instant, and its entry for a project\<close>

definition weekly_capacity :: "timestamp \<Rightarrow> stored_profile \<Rightarrow> pyfloat" where
  "weekly_capacity now s = (case List.find (\<lambda>(start, finish, capacity, reason). start \<le> now \<and> now < finish) (sp2_capacity_overrides s) of
     Some (_, _, capacity, _) \<Rightarrow> capacity | None \<Rightarrow> sp2_weekly_capacity_hours s)"

definition profile_entry :: "timestamp \<Rightarrow> string \<Rightarrow> stored_profile \<Rightarrow> (string \<times> Dashboard.workforce_profile) option" where
  "profile_entry now project_key s =
    (case (sp2_jira_account_id s, map_of (rev (sp2_allocations s)) project_key) of
       (Some account, Some allocation) \<Rightarrow> Some (account, \<lparr>Dashboard.workforce_profile.wp_employee_id = sp2_employee_id s, wp_display_name = sp2_employee_id s,
         wp_role = Some (sp2_role s), wp_capacity_hours = fmul (weekly_capacity now s) allocation, wp_skills = map fst (sp2_skills s)\<rparr>)
     | _ \<Rightarrow> None)"

definition database_workforce_profiles ::
  "timestamp \<Rightarrow> string \<Rightarrow> stored_profile list \<Rightarrow> (string \<rightharpoonup> Dashboard.workforce_profile)" where
  "database_workforce_profiles now project_key profiles = map_of (rev (List.map_filter (profile_entry now project_key) profiles))"

text \<open>\<open>validate\<close> is \<open>WorkforceProfile.model_validate\<close>, \<open>loads\<close> is \<open>json.loads\<close>.\<close>

definition configured_workforce_profiles ::
  "(string \<Rightarrow> json res) \<Rightarrow> (json \<Rightarrow> Dashboard.workforce_profile res) \<Rightarrow> string \<Rightarrow> (string \<rightharpoonup> Dashboard.workforce_profile) res" where
  "configured_workforce_profiles loads validate raw =
    bindr (loads raw) (\<lambda>parsed. case parsed of
       JObj kvs \<Rightarrow> bindr (map_res (\<lambda>(k, j). bindr (validate j) (\<lambda>w. Inr (k, w))) kvs) (\<lambda>ws. Inr (map_of (rev ws)))
     | _ \<Rightarrow> Inl runtime_error)"

definition load_workforce_profiles ::
  "environ \<Rightarrow> (string \<Rightarrow> json res) \<Rightarrow> (json \<Rightarrow> Dashboard.workforce_profile res) \<Rightarrow> timestamp \<Rightarrow> string \<Rightarrow> db
     \<Rightarrow> (string \<rightharpoonup> Dashboard.workforce_profile) res" where
  "load_workforce_profiles vars loads validate now project_key d =
    (let raw = strip (getenv vars ''WORKFORCE_DASHBOARD_PROFILES'' []) in
     if raw \<noteq> [] \<and> raw \<noteq> ''{}'' then configured_workforce_profiles loads validate raw
     else if \<not> set_and_filled vars ''DATABASE_URL'' then Inr Map.empty
     else Inr (database_workforce_profiles now
       (if project_key \<noteq> [] then project_key
        else if set_and_filled vars ''JIRA_PROJECT_KEY'' then getenv vars ''JIRA_PROJECT_KEY'' [] else ''WFD'')
       (case environment_of (getenv vars ''APP_ENVIRONMENT'' ''dev'') of None \<Rightarrow> [] | Some env \<Rightarrow> list_for_environment env d)))"

definition list_projects :: "environ \<Rightarrow> configured_project list http" where
  "list_projects vars = bindh (refuse_if (\<not> anonymous_reads vars) 401 ''authentication required'') (\<lambda>_. uncaught (configured_projects vars))"

text \<open>The dashboard of a project, over the service's \<open>build\<close>\<close>

definition dashboard_route ::
  "environ \<Rightarrow> (string \<Rightarrow> string \<Rightarrow> 'w \<Rightarrow> dashboard_snapshot res \<times> 'w) \<Rightarrow> string \<Rightarrow> string \<Rightarrow> 'w \<Rightarrow> dashboard_snapshot http \<times> 'w" where
  "dashboard_route vars snap project_key corr w =
    (case anonymous_read_principal vars project_key of
       Inl (PermissionError _) \<Rightarrow> (Inl (HttpException 403 ''project is not available''), w)
     | Inl e \<Rightarrow> (Inl (Raised e), w)
     | Inr _ \<Rightarrow> (let (r, w1) = snap project_key corr w in (uncaught r, w1)))"

section \<open>Pages\<close>

lemma take_pages: "concat (map (\<lambda>k. page_of k psize rows) [1..<Suc n]) = take (n * psize) rows"
proof (induction n)
  case (Suc n)
  have "concat (map (\<lambda>k. page_of k psize rows) [1..<Suc (Suc n)]) = take (n * psize) rows @ take psize (drop (n * psize) rows)"
    using Suc.IH by (simp add: page_of_def)
  then show ?case by (simp add: take_add [symmetric] add.commute)
qed simp

lemma pages_complete: "length rows \<le> n * psize \<Longrightarrow> concat (map (\<lambda>k. page_of k psize rows) [1..<Suc n]) = rows"
  unfolding take_pages by simp

section \<open>Clean metadata\<close>

fun clean :: "json \<Rightarrow> bool" where
  "clean (JObj kvs) \<longleftrightarrow> (\<forall>(k, v) \<in> set kvs. \<not> forbidden_key k \<and> clean v)"
| "clean (JList xs) \<longleftrightarrow> (\<forall>x \<in> set xs. clean x)"
| "clean j \<longleftrightarrow> True"

lemma safe_metadata_clean: "clean (safe_metadata j)"
  by (induction j rule: safe_metadata.induct) fastforce+

lemma safe_metadata_id: "clean j \<Longrightarrow> safe_metadata j = j"
proof (induction j rule: safe_metadata.induct)
  case (1 kvs)
  then have "filter (\<lambda>(k, v). \<not> forbidden_key k) kvs = kvs" by (auto simp: filter_id_conv)
  moreover from 1 have "map (\<lambda>(k, v). (k, safe_metadata v)) kvs = kvs" by (intro map_idI) auto
  ultimately show ?case by simp
qed (auto intro: map_idI)

lemma item_keys: "list_all (\<lambda>k. \<not> forbidden_key k) [''sequence_number'', ''created_at'', ''action_type'', ''actor_type'', ''actor_id'',
    ''subject_ids'', ''prior_state'', ''new_state'', ''correlation_id'', ''safe_metadata'']"
  by code_simp

lemma audit_item_clean: "clean (audit_item rt e)"
  using item_keys by (auto simp: audit_item_def safe_metadata_clean json_strings_def)

definition items_of :: "(string \<times> json) list http \<Rightarrow> json list" where
  "items_of r = (case r of Inl _ \<Rightarrow> [] | Inr kvs \<Rightarrow> (case map_of kvs ''items'' of Some (JList xs) \<Rightarrow> xs | _ \<Rightarrow> []))"

lemma items_of_listing [simp]: "items_of (Inr (listing xs page psize n @ rest)) = xs" "items_of (Inr (listing xs page psize n)) = xs"
  by (simp_all add: items_of_def listing_def)

text \<open>The items of the first \<open>n\<close> pages\<close>

definition audit_pages :: "runtime \<Rightarrow> environ \<Rightarrow> principal \<Rightarrow> string \<Rightarrow> nat \<Rightarrow> nat \<Rightarrow> string \<Rightarrow> db \<Rightarrow> json list" where
  "audit_pages rt vars p key n psize sort_by d =
     concat (map (\<lambda>k. items_of (list_audit rt vars p key k psize sort_by d)) [1..<Suc n])"

text \<open>
  C?: The audit log is shown to administrators of the project only, completely and without secrets.  Any other caller gets
  403 and no item.  For an administrator the pages of any size put together are the events of the environment in the
  order of their sequence numbers (or its reverse), each of them once; no item has, at any depth, a key that names a
  token, secret, password, credential or authorization; and what has no such key is shown unchanged.
\<close>

theorem audit_shown_completely_and_cleanly:
  assumes "sort_by \<in> {''sequence'', ''-sequence''}" and "length (filter (\<lambda>e. ae_environment e = pp_environment p) (db_audit d)) \<le> n * psize"
  defines "shown \<equiv> ordered_events (sort_by = ''-sequence'') (pp_environment p) d"
  shows "if pp_role p = application_role.Administrator \<and> key \<in> set (pp_project_scopes p) \<and> key = getenv vars ''JIRA_PROJECT_KEY'' ''WRD''
    then audit_pages rt vars p key n psize sort_by d = map (audit_item rt) shown \<and> mset shown = mset (filter (\<lambda>e. ae_environment e = pp_environment p) (db_audit d)) \<and>
      (\<forall>i \<in> set (audit_pages rt vars p key n psize sort_by d). clean i) \<and> (\<forall>j. clean (safe_metadata j) \<and> (clean j \<longrightarrow> safe_metadata j = j))
    else audit_pages rt vars p key n psize sort_by d = [] \<and> list_audit rt vars p key k psize sort_by d \<in> {Inl (HttpException 403 ''project scope is not authorized''),
      Inl (HttpException 403 ''audit access requires administrator'')}"
proof -
  let ?pages = "audit_pages rt vars p key n psize sort_by d"
  let ?ok = "pp_role p = application_role.Administrator \<and> key \<in> set (pp_project_scopes p) \<and> key = getenv vars ''JIRA_PROJECT_KEY'' ''WRD''"
  show ?thesis
  proof (cases ?ok)
    case True
    have "items_of (list_audit rt vars p key k psize sort_by d) = map (audit_item rt) (page_of k psize shown)" for k
      using True assms(1) by (auto simp: list_audit_def enforce_project_scope_def refuse_if_def shown_def Let_def)
    then have "?pages = map (audit_item rt) (concat (map (\<lambda>k. page_of k psize shown) [1..<Suc n]))"
      by (simp add: audit_pages_def map_concat comp_def del: upt_Suc)
    moreover have m: "mset shown = mset (filter (\<lambda>e. ae_environment e = pp_environment p) (db_audit d))"
      by (simp add: shown_def ordered_events_def env_events_def)
    moreover have "length shown \<le> n * psize" using assms(2) mset_eq_length [OF m] by linarith
    ultimately have "?pages = map (audit_item rt) shown" by (simp only: pages_complete)
    then show ?thesis using True m by (auto simp: audit_item_clean safe_metadata_clean safe_metadata_id)
  next
    case False
    have no: "\<exists>e. list_audit rt vars p key k psize sort_by d = Inl e \<and> e \<in> {HttpException 403 ''project scope is not authorized'',
        HttpException 403 ''audit access requires administrator''}" for k
      using False by (auto simp: list_audit_def enforce_project_scope_def refuse_if_def)
    have "items_of (list_audit rt vars p key k psize sort_by d) = []" for k
      using no [of k] by (auto simp: items_of_def)
    then have "?pages = []" by (simp add: audit_pages_def del: upt_Suc)
    moreover have "list_audit rt vars p key k psize sort_by d \<in> {Inl (HttpException 403 ''project scope is not authorized''),
        Inl (HttpException 403 ''audit access requires administrator'')}"
      using no [of k] by auto
    ultimately show ?thesis unfolding if_not_P [OF False] by blast
  qed
qed

section \<open>The ETag\<close>

lemma digits_of_digits:
  "list_all is_digit s \<Longrightarrow> s \<noteq> [] \<Longrightarrow> digits_of b m s = Some (foldl (\<lambda>a c. a * 10 + (of_char c - 48)) m s)"
proof (induction s arbitrary: b m)
  case (Cons c s)
  then show ?case using Cons.IH [of True "m * 10 + (of_char c - 48)"] by (cases "s = []") simp_all
qed simp

lemma nat_digits_all: "list_all is_digit (nat_digits n)"
proof -
  have "list_all is_digit ''0123456789''" by code_simp
  then show ?thesis using nat_digits_chars [of n] by (auto simp: list_all_iff)
qed

lemma nat_digits_read: "foldl (\<lambda>a c. a * 10 + (of_char c - 48)) 0 (nat_digits n) = int n"
proof (induction n rule: nat_digits.induct)
  case (1 n)
  have d: "of_char (char_of (48 + k) :: char) - (48 :: int) = int k" if "k < 10" for k :: nat
  proof -
    have "of_char (char_of (48 + k) :: char) = 48 + k" using that by simp
    then have "int (of_char (char_of (48 + k) :: char)) = 48 + int k" by (simp only: of_nat_add of_nat_numeral)
    then show ?thesis unfolding of_nat_of_char by simp
  qed
  show ?case
  proof (cases "n < 10")
    case True
    then show ?thesis using d [of n] by (subst nat_digits.simps) simp
  next
    case False
    then have "nat_digits n = nat_digits (n div 10) @ [char_of (48 + n mod 10)]" by (subst nat_digits.simps) simp
    moreover have "int (n div 10) * 10 + int (n mod 10) = int n" using div_mult_mod_eq [of n 10] by linarith
    ultimately show ?thesis using 1 [OF False] d [of "n mod 10"] by simp
  qed
qed

lemma nat_digits_length: "n < 10 ^ k \<Longrightarrow> 0 < k \<Longrightarrow> length (nat_digits n) \<le> k"
proof (induction k arbitrary: n)
  case (Suc k)
  show ?case
  proof (cases "n < 10")
    case True
    then show ?thesis by (subst nat_digits.simps) simp
  next
    case False
    with Suc.prems have "n div 10 < 10 ^ k" "0 < k" by (simp_all add: less_mult_imp_div_less mult.commute) (cases k; simp)
    from Suc.IH [OF this] False show ?thesis by (subst nat_digits.simps) simp
  qed
qed simp

lemma dropWhile_edges:
  assumes "list_all (\<lambda>c. \<not> P c) s"
  shows "rev (dropWhile P (rev (dropWhile P s))) = s"
proof -
  have id: "dropWhile P u = u" if "list_all (\<lambda>c. \<not> P c) u" for u using that by (cases u) auto
  show ?thesis using id [OF assms] id [of "rev s"] assms by simp
qed

lemma etag_read:
  assumes "0 \<le> v" "v < 2 ^ 31"
  shows "int_of_text (strip_quotes (etag v)) = Some v"
proof -
  let ?s = "nat_digits (nat v)"
  have digit: "c \<noteq> CHR 0x22 \<and> \<not> is_space c \<and> c \<noteq> CHR ''-'' \<and> c \<noteq> CHR ''+''" if "is_digit c" for c
    using that by (auto simp: is_digit_def is_space_def)
  have s: "etag v = CHR 0x22 # ?s @ [CHR 0x22]" using assms(1) by (simp add: etag_def int_repr_def)
  have all: "list_all (\<lambda>c. c \<noteq> CHR 0x22) ?s" "list_all (\<lambda>c. \<not> is_space c) ?s"
    using nat_digits_all [of "nat v"] digit by (auto simp: list_all_iff)
  have "strip_quotes (etag v) = ?s" using dropWhile_edges [of "\<lambda>c. c = CHR 0x22" ?s] all(1)
    by (cases ?s) (simp_all add: s strip_quotes_def dropWhile_append list_all_iff)
  moreover have "strip ?s = ?s" unfolding strip_def by (rule dropWhile_edges [OF all(2)])
  moreover have "filter is_digit ?s = ?s" using nat_digits_all by (simp add: list_all_iff filter_id_conv)
  moreover have "length ?s \<le> 10" using assms by (intro nat_digits_length) (simp_all add: nat_less_iff)
  moreover have "digits_of False 0 ?s = Some v"
    using assms(1) digits_of_digits [OF nat_digits_all, of "nat v" False 0] nat_digits_number(2) nat_digits_read [of "nat v"] by simp
  ultimately show ?thesis using nat_digits_number(2) [of "nat v"] digit nat_digits_all [of "nat v"]
    by (cases ?s) (auto simp: int_of_text_def)
qed

section \<open>Changing an alert\<close>

lemma alert_transition_found:
  assumes "alert_transition rt now i v target actor corr reason d = Inr (True, d')"
  obtains a where "select_one (\<lambda>b. al_id b = i) (db_alerts d) = Some a" "a \<in> set (db_alerts d)" "al_id a = i"
    "al_version a = v" "legal_alert_step (al_state a) target reason"
  using assms unfolding alert_transition_def
  by (auto simp: bindr_Inr_iff validate_alert_Inr Let_def split: option.splits if_splits)

lemma alert_transition_kept: "alert_transition rt now i v target actor corr reason d = Inr (False, d') \<Longrightarrow> d' = d"
  unfolding alert_transition_def by (auto simp: bindr_Inr_iff Let_def split: option.splits if_splits)

definition may_change :: "environ \<Rightarrow> principal \<Rightarrow> alert_change \<Rightarrow> bool" where
  "may_change vars p ch \<longleftrightarrow> ah_project_key ch \<in> set (pp_project_scopes p) \<and>
     ah_project_key ch = getenv vars ''JIRA_PROJECT_KEY'' ''WRD'' \<and> pp_role p \<in> {application_role.Manager, application_role.Administrator}"

definition stated_version :: "alert_change \<Rightarrow> int option" where
  "stated_version ch = Option.bind (ah_if_match ch) (\<lambda>tag. int_of_text (strip_quotes tag))"

lemma transition_alert_Inr:
  assumes "transition_alert rt vars now p ch d = (Inr (item, hdrs), d')"
  obtains v i a where "may_change vars p ch" "stated_version ch = Some v" "rt_parse_uuid rt (ah_alert_id ch) = Some i"
    "alert_transition rt now i v (target_state (ah_state ch)) (pp_actor_id p) (ah_correlation_id ch) (ah_dismissal_reason ch) d = Inr (True, d')"
    "select_one (\<lambda>b. al_id b = i) (db_alerts d') = Some a" "item = changed_item rt a"
    "hdrs = [(''ETag'', etag (al_version a)), (''X-Correlation-ID'', ah_correlation_id ch)]"
proof -
  from assms obtain v i where c: "may_change vars p ch" "stated_version ch = Some v" "rt_parse_uuid rt (ah_alert_id ch) = Some i"
    and r: "(case store_transition rt now p i v ch d of Inl e \<Rightarrow> (Inl (Raised e), d)
         | Inr (None, d1) \<Rightarrow> (Inl (HttpException 409 ''alert version conflict''), d1)
         | Inr (Some a, d1) \<Rightarrow> (Inr (changed_item rt a, [(''ETag'', etag (al_version a)), (''X-Correlation-ID'', ah_correlation_id ch)]), d1))
       = (Inr (item, hdrs), d')"
    unfolding transition_alert_def may_change_def stated_version_def
    by (auto simp: enforce_project_scope_def require_manager_def bindh_Inr_iff split: sum.splits option.splits prod.splits)
  from r obtain a where "store_transition rt now p i v ch d = Inr (Some a, d')" "item = changed_item rt a"
    "hdrs = [(''ETag'', etag (al_version a)), (''X-Correlation-ID'', ah_correlation_id ch)]"
    by (auto split: sum.splits option.splits prod.splits)
  with c that show thesis unfolding store_transition_def
    by (auto simp: bindr_Inr_iff split: if_splits option.splits)
qed

lemma transition_alert_Inl: "transition_alert rt vars now p ch d = (Inl e, d') \<Longrightarrow> d' = d"
  unfolding transition_alert_def store_transition_def
  by (auto simp: bindr_Inr_iff dest: alert_transition_kept split: sum.splits option.splits prod.splits if_splits)

text \<open>
  C?: An alert changes through the route exactly when it may.  A refused or failed request changes nothing.  A request
  that succeeds came from a manager or administrator of the configured project and names an alert, its present version
  and a legal step; exactly that alert takes the new state and the next version, the alert tables and the audit log
  stay consistent, the response is the stored row, its ETag is read back as the version of that row, and repeating the
  same request is answered 409 and changes nothing.
\<close>

theorem alert_change_exact:
  assumes "runtime_ok rt" "alerts_ok rt d" "log_ok rt d"
  shows "case transition_alert rt vars now p ch d of
      (Inl e, d') \<Rightarrow> d' = d
    | (Inr (item, hdrs), d') \<Rightarrow> may_change vars p ch \<and>
        (\<exists>a \<in> set (db_alerts d). rt_parse_uuid rt (ah_alert_id ch) = Some (al_id a) \<and> stated_version ch = Some (al_version a) \<and>
          legal_alert_step (al_state a) (target_state (ah_state ch)) (ah_dismissal_reason ch) \<and>
          db_alerts d' = update_where (\<lambda>b. al_id b = al_id a)
            (\<lambda>b. b\<lparr>al_state := target_state (ah_state ch), al_version := al_version a + 1\<rparr>) (db_alerts d) \<and>
          alerts_ok rt d' \<and> log_ok rt d' \<and>
          item = changed_item rt (a\<lparr>al_state := target_state (ah_state ch), al_version := al_version a + 1\<rparr>) \<and>
          hdrs = [(''ETag'', etag (al_version a + 1)), (''X-Correlation-ID'', ah_correlation_id ch)] \<and>
          (al_version a + 1 \<in> {0..<2 ^ 31} \<longrightarrow> int_of_text (strip_quotes (etag (al_version a + 1))) = Some (al_version a + 1)) \<and>
          (\<forall>now'. transition_alert rt vars now' p ch d' = (Inl (HttpException 409 ''alert version conflict''), d')))"
proof -
  obtain r d' where run: "transition_alert rt vars now p ch d = (r, d')" by (cases "transition_alert rt vars now p ch d")
  show ?thesis
  proof (cases r)
    case (Inl e)
    then show ?thesis using run transition_alert_Inl [of rt vars now p ch d e d'] by simp
  next
    case (Inr x)
    obtain item hdrs where x: "x = (item, hdrs)" by (cases x)
    from transition_alert_Inr [OF run [unfolded Inr x]] obtain v i a' where t: "may_change vars p ch" "stated_version ch = Some v"
      "rt_parse_uuid rt (ah_alert_id ch) = Some i"
      "alert_transition rt now i v (target_state (ah_state ch)) (pp_actor_id p) (ah_correlation_id ch) (ah_dismissal_reason ch) d = Inr (True, d')"
      "select_one (\<lambda>b. al_id b = i) (db_alerts d') = Some a'" "item = changed_item rt a'"
      "hdrs = [(''ETag'', etag (al_version a')), (''X-Correlation-ID'', ah_correlation_id ch)]" .
    from alert_transition_found [OF t(4)] obtain a where a: "a \<in> set (db_alerts d)" "al_id a = i" "al_version a = v"
      "legal_alert_step (al_state a) (target_state (ah_state ch)) (ah_dismissal_reason ch)" .
    let ?a = "a\<lparr>al_state := target_state (ah_state ch), al_version := al_version a + 1\<rparr>"
    from alert_workflow [OF assms a(1), where v = v and now = now and target = "target_state (ah_state ch)" and actor = "pp_actor_id p"
        and corr = "ah_correlation_id ch" and reason = "ah_dismissal_reason ch"] a t(4)
    have w: "alerts_ok rt d'" "log_ok rt d'" "db_alerts d' = update_where (\<lambda>b. al_id b = al_id a)
        (\<lambda>b. b\<lparr>al_state := target_state (ah_state ch), al_version := al_version a + 1\<rparr>) (db_alerts d)"
      "\<And>now' target' actor' corr' reason'. alert_transition rt now' i v target' actor' corr' reason' d' = Inr (False, d')"
      by auto
    have "?a \<in> set (db_alerts d')" unfolding w(3) using a(1) by (auto simp: set_update_where)
    then have "select_one (\<lambda>b. al_id b = i) (db_alerts d') = Some ?a"
      using w(1) a(2) by (intro select_one_unique [where key = al_id]) (auto simp: alerts_ok_def)
    then have a': "a' = ?a" using t(5) by simp
    have again: "transition_alert rt vars now' p ch d' = (Inl (HttpException 409 ''alert version conflict''), d')" for now'
      using t(1-3) w(4) by (auto simp: transition_alert_def may_change_def stated_version_def store_transition_def
        enforce_project_scope_def require_manager_def refuse_if_def bind_eq_Some_conv)
    show ?thesis unfolding run Inr x prod.case sum.case
      using t a w(1-3) again etag_read [of "al_version a + 1"] unfolding a' by (intro conjI bexI [of _ a]) simp_all
  qed
qed

section \<open>Downloading a report\<close>

lemma map_sum_option_Inr: "map_sum id (map_option f) r = Inr (Some y) \<longleftrightarrow> (\<exists>x. r = Inr (Some x) \<and> y = f x)"
  by (cases r) auto

lemma object_of_report_Inr:
  assumes "object_of_report env r = Inr (Some (key, version))"
  obtains rest where "rm_object_key r = Some key" "rm_object_version r = Some version" "version \<noteq> []"
    "key = ''reports/'' @ environment_value env @ ''/'' @ rest"
proof -
  let ?prefix = "''reports/'' @ environment_value env @ ''/''"
  from assms have k: "rm_object_key r = Some key" "rm_object_version r = Some version" "version \<noteq> []" "starts_with ?prefix key"
    unfolding object_of_report_def by (auto split: option.splits if_splits)
  then have "key = ?prefix @ drop (length ?prefix) key" unfolding starts_with_def by (metis append_take_drop_id)
  with k that show thesis by (metis append.assoc)
qed

text \<open>
  A download link exists only for a stored report of the caller's environment.  Whatever link the route returns is
  the signed link of five minutes to the recorded version of the object of one report row: the row with the requested
  id, stored, of the principal's own environment, whose object lies below the prefix of that environment; and the
  caller has the configured project in scope.
\<close>

theorem download_in_environment:
  assumes "download_report rt vars presign bucket p project_key report_id d = Inr reply"
  shows "project_key \<in> set (pp_project_scopes p) \<and> project_key = getenv vars ''JIRA_PROJECT_KEY'' ''WRD'' \<and>
    (\<exists>r \<in> set (db_reports d). \<exists>rest version. rt_parse_uuid rt report_id = Some (rm_id r) \<and> rm_status r = ReportStored \<and>
       rm_environment r = pp_environment p \<and>
       rm_object_key r = Some (''reports/'' @ environment_value (pp_environment p) @ ''/'' @ rest) \<and>
       rm_object_version r = Some version \<and> version \<noteq> [] \<and>
       reply = [(''url'', JStr (presign bucket (''reports/'' @ environment_value (pp_environment p) @ ''/'' @ rest) version 300)),
         (''expires_in'', JInt 300)])"
proof -
  from assms obtain r where scope: "project_key \<in> set (pp_project_scopes p)" "project_key = getenv vars ''JIRA_PROJECT_KEY'' ''WRD''"
    and r: "select_one (\<lambda>r. rm_id r = the (rt_parse_uuid rt report_id) \<and> rm_environment r = pp_environment p \<and> rm_status r = ReportStored)
        (db_reports d) = Some r" "rt_parse_uuid rt report_id \<noteq> None"
    and k: "\<exists>key version. object_of_report (pp_environment p) r = Inr (Some (key, version)) \<and>
        reply = [(''url'', JStr (presign bucket key version 300)), (''expires_in'', JInt 300)]"
    unfolding download_report_def download_url_def enforce_project_scope_def
    by (auto simp: bindh_Inr_iff map_sum_option_Inr split: option.splits)
  from k obtain key version where v: "object_of_report (pp_environment p) r = Inr (Some (key, version))"
    "reply = [(''url'', JStr (presign bucket key version 300)), (''expires_in'', JInt 300)]" by blast
  from object_of_report_Inr [OF v(1)] obtain rest where "rm_object_key r = Some key" "rm_object_version r = Some version" "version \<noteq> []"
    "key = ''reports/'' @ environment_value (pp_environment p) @ ''/'' @ rest" .
  with scope r v(2) show ?thesis by fastforce
qed

section \<open>Witnesses\<close>

definition sample_open_alert :: alert_row where
  "sample_open_alert = \<lparr>al_id = 1, al_environment = Dev, al_created_at = 0, al_subject_id = ''E1'', al_risk_type = ''employee_overload'',
     al_scoring_window = ''w'', al_dedup_key = ''k'', al_state = AlertNew, al_severity = RiskHigh, al_evidence_fingerprint = ''f'',
     al_last_notified_at = None, al_version = 1\<rparr>"

definition sample_alert_db :: db where
  "sample_alert_db = empty_db\<lparr>db_next := 3, db_alerts := [sample_open_alert],
     db_occurrences := [\<lparr>ao_id = 2, ao_environment = Dev, ao_created_at = 0, ao_alert_id = 1, ao_risk_result_id = 0,
        ao_sequence_number = 1, ao_severity = RiskHigh, ao_evidence_fingerprint = ''f''\<rparr>]\<rparr>"

lemma sample_alert_db_ok: "alerts_ok sample_runtime sample_alert_db" "log_ok sample_runtime sample_alert_db"
  by (simp_all add: sample_alert_db_def sample_open_alert_def empty_db_def alerts_ok_def alert_ok_def alert_keys_ok_def
    occurrences_of_def log_ok_def verify_chain_def env_events_def)

definition sample_change :: alert_change where
  "sample_change = \<lparr>ah_alert_id = ''1'', ah_state = ToAcknowledged, ah_dismissal_reason = None, ah_project_key = ''WRD'',
     ah_if_match = Some (etag 1), ah_correlation_id = ''c''\<rparr>"

lemma sample_change_made:
  "\<exists>x d'. transition_alert sample_runtime (\<lambda>_. None) 9 sample_principal sample_change sample_alert_db = (Inr x, d')"
proof -
  have "rt_parse_uuid sample_runtime ''1'' = Some 1" by code_simp
  then show ?thesis
    by (simp add: transition_alert_def sample_change_def enforce_project_scope_def require_manager_def refuse_if_def sample_principal_def
      getenv_def etag_read store_transition_def alert_transition_def sample_alert_db_def sample_open_alert_def empty_db_def
      validate_alert_transition_def audit_append_def insert_row2_def insert_row_def Let_def select_one_def rowcount_def)
qed

theorem alert_change_exact_witness:
  "\<exists>item hdrs d'. transition_alert sample_runtime (\<lambda>_. None) 9 sample_principal sample_change sample_alert_db = (Inr (item, hdrs), d') \<and>
     map al_state (db_alerts d') = [Acknowledged] \<and> map_of hdrs ''ETag'' = Some (etag 2) \<and>
     transition_alert sample_runtime (\<lambda>_. None) 10 sample_principal sample_change d' = (Inl (HttpException 409 ''alert version conflict''), d')"
proof -
  obtain item hdrs d' where run: "transition_alert sample_runtime (\<lambda>_. None) 9 sample_principal sample_change sample_alert_db = (Inr (item, hdrs), d')"
    using sample_change_made by auto
  from alert_change_exact [OF sample_runtime_ok sample_alert_db_ok, where vars = "\<lambda>_. None" and now = 9 and p = sample_principal
      and ch = sample_change, unfolded run prod.case sum.case]
  show ?thesis using run by (auto simp: sample_alert_db_def sample_open_alert_def empty_db_def sample_change_def)
qed

definition sample_report :: report_row where
  "sample_report = \<lparr>rm_id = 1, rm_environment = Dev, rm_created_at = 0, rm_report_type = ''weekly'', rm_status = ReportStored,
     rm_object_key = Some ''reports/dev/r.pdf'', rm_object_version = Some ''v1'', rm_checksum = None, rm_idempotency_key = ''k''\<rparr>"

theorem download_in_environment_witness:
  "\<exists>r \<in> set [sample_report]. rm_object_key r = Some ''reports/dev/r.pdf'' \<and> rm_environment r = Dev"
proof -
  have "download_report sample_runtime (\<lambda>_. None) (\<lambda>b k v n. b @ k @ v) ''b/'' sample_principal ''WRD'' ''1'' (empty_db\<lparr>db_reports := [sample_report]\<rparr>)
      = Inr [(''url'', JStr ''b/reports/dev/r.pdfv1''), (''expires_in'', JInt 300)]" by code_simp
  from download_in_environment [OF this] show ?thesis by (auto simp: sample_report_def)
qed

definition sample_admin :: principal where
  "sample_admin = sample_principal\<lparr>pp_role := application_role.Administrator\<rparr>"

theorem audit_shown_completely_and_cleanly_witness:
  "audit_pages sample_runtime (\<lambda>_. None) sample_admin ''WRD'' 1 20 ''sequence'' sample_logged =
     map (audit_item sample_runtime) (db_audit sample_logged) \<and> db_audit sample_logged \<noteq> []"
proof -
  have e: "length (filter (\<lambda>e. ae_environment e = pp_environment sample_admin) (db_audit sample_logged)) \<le> 1 * 20" by code_simp
  have s: "ordered_events False (pp_environment sample_admin) sample_logged = db_audit sample_logged" "db_audit sample_logged \<noteq> []"
    by (simp_all add: ordered_events_def env_events_def sample_logged_def empty_db_def next_event_def sample_admin_def sample_principal_def Let_def)
  have c: "pp_role sample_admin = application_role.Administrator \<and> ''WRD'' \<in> set (pp_project_scopes sample_admin) \<and>
      ''WRD'' = getenv (\<lambda>_. None) ''JIRA_PROJECT_KEY'' ''WRD''"
    by (simp add: sample_admin_def sample_principal_def getenv_def)
  show ?thesis
    using audit_shown_completely_and_cleanly [of "''sequence''", OF _ e, where rt = sample_runtime and vars = "\<lambda>_. None" and key = "''WRD''", unfolded if_P [OF c]] s
    by simp
qed

end
